(* ===== verification/Prelude.thy ===== *)
theory Prelude
  imports Complex_Main "HOL-Library.AList" "HOL-Library.Sublist"
begin

text \<open>
  What every component of the development shares: Python dictionaries as association lists in
  insertion order, slices, order-preserving deduplication, failing computations as sums, decimal
  rounding, and the one interface all stateful components have in common, a machine whose single
  steps keep an invariant.
\<close>

named_theorems dict_simps "lookups, keys and sizes of updated Python dictionaries"
named_theorems machine_inv "single steps that keep a component's invariant"

section \<open>Failing computations\<close>

text \<open>
  A Python expression that may raise is a value of a sum: \<open>Inl\<close> of the exception or \<open>Inr\<close> of the
  result. \<open>ebind\<close> runs the rest of the statement only when nothing was raised.
\<close>

fun ebind :: "'e + 'a \<Rightarrow> ('a \<Rightarrow> 'e + 'b) \<Rightarrow> 'e + 'b" where
  "ebind (Inl e) f = Inl e"
| "ebind (Inr x) f = f x"

lemma ebind_Inr_iff [simp]: "ebind m f = Inr y \<longleftrightarrow> (\<exists>x. m = Inr x \<and> f x = Inr y)"
  by (cases m) auto

lemma ebind_Inl_iff: "ebind m f = Inl e \<longleftrightarrow> m = Inl e \<or> (\<exists>x. m = Inr x \<and> f x = Inl e)"
  by (cases m) auto

fun emap :: "('a \<Rightarrow> 'e + 'b) \<Rightarrow> 'a list \<Rightarrow> 'e + 'b list" where
  "emap f [] = Inr []"
| "emap f (x # xs) = ebind (f x) (\<lambda>y. ebind (emap f xs) (\<lambda>ys. Inr (y # ys)))"

text \<open>\<open>any(...)\<close> and loops with an early \<open>return True\<close>: evaluation stops at the first hit.\<close>

fun eany :: "('a \<Rightarrow> 'e + bool) \<Rightarrow> 'a list \<Rightarrow> 'e + bool" where
  "eany f [] = Inr False"
| "eany f (x # xs) = ebind (f x) (\<lambda>b. if b then Inr True else eany f xs)"

lemma eany_pure [simp]: "eany (\<lambda>x. Inr (p x)) xs = Inr (\<exists>x \<in> set xs. p x)"
  by (induction xs) auto

section \<open>Lists\<close>

text \<open>\<open>xs[-n:]\<close>; for \<open>n = 0\<close> Python returns the whole list.\<close>

definition last_n :: "nat \<Rightarrow> 'a list \<Rightarrow> 'a list" where
  "last_n n xs = (if n = 0 then xs else drop (length xs - n) xs)"

lemma length_last_n: "0 < n \<Longrightarrow> length (last_n n xs) = min n (length xs)"
  by (simp add: last_n_def)

lemma set_last_n: "set (last_n n xs) \<subseteq> set xs"
  by (auto simp: last_n_def dest: in_set_dropD)

text \<open>The loop with a \<open>seen\<close> set that keeps first occurrences in order.\<close>

fun dedupe_from :: "'a list \<Rightarrow> 'a list \<Rightarrow> 'a list" where
  "dedupe_from seen [] = []"
| "dedupe_from seen (x # xs) =
     (if x \<in> set seen then dedupe_from seen xs else x # dedupe_from (x # seen) xs)"

definition dedupe :: "'a list \<Rightarrow> 'a list" where
  "dedupe xs = dedupe_from [] xs"

lemma set_dedupe_from: "set (dedupe_from seen xs) = set xs - set seen"
  by (induction seen xs rule: dedupe_from.induct) auto

lemma distinct_dedupe_from: "distinct (dedupe_from seen xs)"
  by (induction seen xs rule: dedupe_from.induct) (auto simp: set_dedupe_from)

lemma set_dedupe [simp]: "set (dedupe xs) = set xs"
  by (simp add: dedupe_def set_dedupe_from)

lemma distinct_dedupe [simp]: "distinct (dedupe xs)"
  by (simp add: dedupe_def distinct_dedupe_from)

section \<open>Dictionaries in insertion order\<close>

text \<open>
  A Python dict is an association list with distinct keys: assignment keeps the position of an old
  key and appends a new one, which is what \<open>AList.update\<close> does; \<open>del\<close> is \<open>AList.delete\<close>.
\<close>

definition dict_ok :: "('k \<times> 'v) list \<Rightarrow> bool" where
  "dict_ok d \<longleftrightarrow> distinct (map fst d)"

lemma dict_ok_Nil [simp]: "dict_ok []"
  by (simp add: dict_ok_def)

lemma map_of_update [dict_simps]:
  "map_of (AList.update k v d) k' = (if k' = k then Some v else map_of d k')"
  by (simp add: update_conv)

lemma map_of_delete [dict_simps]:
  "map_of (AList.delete k d) k' = (if k' = k then None else map_of d k')"
  by (simp add: delete_conv)

lemma dict_ok_update [dict_simps]: "dict_ok d \<Longrightarrow> dict_ok (AList.update k v d)"
  by (simp add: dict_ok_def distinct_update)

lemma dict_ok_delete [dict_simps]: "dict_ok d \<Longrightarrow> dict_ok (AList.delete k d)"
  by (simp add: dict_ok_def distinct_delete)

lemma length_update [dict_simps]:
  "length (AList.update k v d) = (if k \<in> fst ` set d then length d else Suc (length d))"
  by (induction d) auto

lemma length_delete_le [dict_simps]: "length (AList.delete k d) \<le> length d"
  by (simp add: AList.delete_eq)

lemma length_delete_in [dict_simps]:
  "k \<in> fst ` set d \<Longrightarrow> length (AList.delete k d) < length d"
proof -
  assume "k \<in> fst ` set d"
  then obtain v where "(k, v) \<in> set d" by auto
  then show ?thesis
    unfolding AList.delete_eq by (intro length_filter_less [of "(k, v)"]) auto
qed

lemma set_delete [dict_simps]: "set (AList.delete k d) = {p \<in> set d. fst p \<noteq> k}"
  by (auto simp: AList.delete_eq)

lemma set_update_subset [dict_simps]: "set (AList.update k v d) \<subseteq> insert (k, v) (set d)"
  by (induction d) auto

lemma in_set_update [dict_simps]: "(k, v) \<in> set (AList.update k v d)"
  by (induction d) auto

lemma set_update_other [dict_simps]:
  "k' \<noteq> k \<Longrightarrow> (k', w) \<in> set (AList.update k v d) \<longleftrightarrow> (k', w) \<in> set d"
  by (induction d) auto

section \<open>Decimal rounding\<close>

text \<open>\<open>round(x, 4)\<close>: to the nearest multiple of \<open>10 ^ -4\<close>, ties to the even one.\<close>

definition round_half_even :: "rat \<Rightarrow> int" where
  "round_half_even y =
     (let f = \<lfloor>y\<rfloor>; d = y - of_int f
      in if d < 1 / 2 then f else if 1 / 2 < d then f + 1 else if even f then f else f + 1)"

definition round4 :: "rat \<Rightarrow> rat" where
  "round4 x = of_int (round_half_even (x * 10000)) / 10000"

lemma round_half_even_bounds:
  "of_int (round_half_even y) \<le> y + 1 / 2" "y - 1 / 2 \<le> of_int (round_half_even y)"
proof -
  have "of_int \<lfloor>y\<rfloor> \<le> y" "y < of_int \<lfloor>y\<rfloor> + 1" by linarith+
  then show "of_int (round_half_even y) \<le> y + 1 / 2" "y - 1 / 2 \<le> of_int (round_half_even y)"
    unfolding round_half_even_def Let_def by (simp_all split: if_splits) linarith+
qed

lemma round_half_even_mono:
  assumes "x \<le> y" shows "round_half_even x \<le> round_half_even y"
proof (cases "\<lfloor>x\<rfloor> = \<lfloor>y\<rfloor>")
  case True
  with assms show ?thesis by (auto simp: round_half_even_def Let_def)
next
  case False
  from floor_mono [OF assms] False have "\<lfloor>x\<rfloor> + 1 \<le> \<lfloor>y\<rfloor>" by linarith
  moreover have "round_half_even x \<le> \<lfloor>x\<rfloor> + 1" "\<lfloor>y\<rfloor> \<le> round_half_even y"
    by (auto simp: round_half_even_def Let_def)
  ultimately show ?thesis by linarith
qed

lemma round_half_even_of_int [simp]: "round_half_even (of_int n) = n"
  by (simp add: round_half_even_def Let_def)

lemma round4_mono: "x \<le> y \<Longrightarrow> round4 x \<le> round4 y"
  by (simp add: round4_def round_half_even_mono divide_right_mono)

lemma round4_fixed: "x * 10000 = of_int n \<Longrightarrow> round4 x = x"
  by (simp add: round4_def)

lemma round4_between:
  assumes "lo \<le> x" "x \<le> hi" "lo * 10000 = of_int a" "hi * 10000 = of_int b"
  shows "lo \<le> round4 x" "round4 x \<le> hi"
  using round4_mono [OF assms(1)] round4_mono [OF assms(2)]
  by (simp_all add: round4_fixed [OF assms(3)] round4_fixed [OF assms(4)])

lemma round4_01: "0 \<le> x \<Longrightarrow> x \<le> 1 \<Longrightarrow> 0 \<le> round4 x \<and> round4 x \<le> 1"
  using round4_between [of 0 x 1 0 10000] by simp

section \<open>Machines with an invariant\<close>

text \<open>
  The interface every stateful component offers its callers: an operation on its state, and an
  invariant that one operation keeps and that the initial state has. The client lemmas lift it to
  every sequence of calls.
\<close>

locale machine =
  fixes step :: "'s \<Rightarrow> 'op \<Rightarrow> 's"
    and init :: "'s"
    and inv :: "'s \<Rightarrow> bool"
  assumes init_inv: "inv init"
    and step_inv: "inv s \<Longrightarrow> inv (step s x)"
begin

lemma run_inv: "inv s \<Longrightarrow> inv (foldl step s xs)"
  by (induction xs arbitrary: s) (auto intro: step_inv)

lemma reach_inv: "inv (foldl step init xs)"
  by (rule run_inv [OF init_inv])

end

text \<open>A machine with a measure that no operation lets fall.\<close>

locale growing_machine = machine step init inv
  for step :: "'s \<Rightarrow> 'op \<Rightarrow> 's" and init :: "'s" and inv :: "'s \<Rightarrow> bool" +
  fixes level :: "'s \<Rightarrow> 'l::preorder"
  assumes step_level: "inv s \<Longrightarrow> level s \<le> level (step s x)"
begin

lemma run_level: "inv s \<Longrightarrow> level s \<le> level (foldl step s xs)"
proof (induction xs arbitrary: s)
  case Nil
  then show ?case by simp
next
  case (Cons x xs)
  then show ?case
    using step_level [of s x] step_inv [of s x] by (auto intro: order_trans)
qed

end

end
