(* ===== verification/Py_String.thy ===== *)
theory Py_String
  imports Prelude "HOL-Library.Char_ord"
begin

text \<open>
  The string operations the program uses from Python. A \<open>string\<close> is a list of 8-bit characters,
  read as the code points U+0000 to U+00FF, so the model covers the Latin-1 part of Python's \<open>str\<close>
  and each operation follows Python's rule on it (which characters are white space, which end a
  line, how letters fold). The three kinds of pattern matching the program needs are here as well:
  \<open>fnmatch\<close> globs, the fragment of regular expressions of the content bans, and word search.
\<close>

section \<open>Characters\<close>

definition code :: "char \<Rightarrow> nat" where
  "code c = of_char c"

definition is_space :: "char \<Rightarrow> bool" where
  "is_space c \<longleftrightarrow> code c \<in> {9, 10, 11, 12, 13, 28, 29, 30, 31, 32, 133, 160}"

definition is_line_end :: "char \<Rightarrow> bool" where
  "is_line_end c \<longleftrightarrow> code c \<in> {10, 11, 12, 13, 28, 29, 30, 133}"

definition is_digit :: "char \<Rightarrow> bool" where
  "is_digit c \<longleftrightarrow> 48 \<le> code c \<and> code c \<le> 57"

text \<open>The characters \<open>\w\<close> matches: the underscore and what \<open>str.isalnum\<close> accepts.\<close>

definition is_word :: "char \<Rightarrow> bool" where
  "is_word c \<longleftrightarrow> (let n = code c in
     is_digit c \<or> n = 95 \<or> 65 \<le> n \<and> n \<le> 90 \<or> 97 \<le> n \<and> n \<le> 122
     \<or> n \<in> {170, 178, 179, 181, 185, 186, 188, 189, 190} \<or> 192 \<le> n \<and> n \<noteq> 215 \<and> n \<noteq> 247)"

definition lower_char :: "char \<Rightarrow> char" where
  "lower_char c = (let n = code c in
     if 65 \<le> n \<and> n \<le> 90 \<or> 192 \<le> n \<and> n \<le> 222 \<and> n \<noteq> 215 then char_of (n + 32) else c)"

definition lower :: "string \<Rightarrow> string" where
  "lower s = map lower_char s"

section \<open>Prefixes, suffixes, substrings\<close>

definition startswith :: "string \<Rightarrow> string \<Rightarrow> bool" where
  "startswith s p \<longleftrightarrow> prefix p s"

definition endswith :: "string \<Rightarrow> string \<Rightarrow> bool" where
  "endswith s p \<longleftrightarrow> suffix p s"

text \<open>\<open>p in s\<close>.\<close>

fun occurs_in :: "string \<Rightarrow> string \<Rightarrow> bool" where
  "occurs_in p [] = (p = [])"
| "occurs_in p (c # cs) = (prefix p (c # cs) \<or> occurs_in p cs)"

lemma occurs_in_iff: "occurs_in p s \<longleftrightarrow> (\<exists>a b. s = a @ p @ b)"
proof (induction s)
  case Nil
  then show ?case by auto
next
  case (Cons c s)
  show ?case
  proof
    assume "occurs_in p (c # s)"
    then consider "prefix p (c # s)" | "occurs_in p s" by auto
    then show "\<exists>a b. c # s = a @ p @ b"
    proof cases
      case 1
      then show ?thesis by (metis append_Nil prefix_def)
    next
      case 2
      then show ?thesis using Cons.IH by (metis append_Cons)
    qed
  next
    assume "\<exists>a b. c # s = a @ p @ b"
    then obtain a b where ab: "c # s = a @ p @ b" by blast
    then show "occurs_in p (c # s)"
    proof (cases a)
      case Nil
      with ab have "prefix p (c # s)" by (simp add: prefix_def)
      then show ?thesis by simp
    next
      case (Cons x a')
      with ab have "s = a' @ p @ b" by simp
      then show ?thesis using Cons.IH by auto
    qed
  qed
qed

lemma occurs_in_Nil [simp]: "occurs_in [] s"
  by (auto simp: occurs_in_iff)

lemma prefix_occurs: "prefix p s \<Longrightarrow> occurs_in p s"
  by (cases s) auto

section \<open>Stripping and replacing\<close>

definition lstrip :: "string \<Rightarrow> string" where
  "lstrip s = dropWhile is_space s"

definition strip :: "string \<Rightarrow> string" where
  "strip s = rev (dropWhile is_space (rev (dropWhile is_space s)))"

definition lstrip_char :: "char \<Rightarrow> string \<Rightarrow> string" where
  "lstrip_char c s = dropWhile (\<lambda>x. x = c) s"

definition replace_char :: "char \<Rightarrow> char \<Rightarrow> string \<Rightarrow> string" where
  "replace_char a b s = map (\<lambda>x. if x = a then b else x) s"

abbreviation slash :: char where "slash \<equiv> CHR ''/''"

abbreviation backslash :: char where "backslash \<equiv> CHR 0x5C"

text \<open>\<open>while s.startswith(p): s = s[len(p):]\<close> for a prefix of two characters.\<close>

fun drop_dot_slash :: "string \<Rightarrow> string" where
  "drop_dot_slash (a # b # s) =
     (if a = CHR ''.'' \<and> b = slash then drop_dot_slash s else a # b # s)"
| "drop_dot_slash s = s"

lemma lstrip_char_hd: "lstrip_char c s \<noteq> [] \<Longrightarrow> hd (lstrip_char c s) \<noteq> c"
  unfolding lstrip_char_def by (metis (mono_tags) hd_dropWhile)

section \<open>Splitting\<close>

text \<open>\<open>str.splitlines()\<close>: CR LF is one line end; a trailing line end adds no empty line.\<close>

fun drop_lf :: "string \<Rightarrow> string" where
  "drop_lf (c # cs) = (if code c = 10 then cs else c # cs)"
| "drop_lf [] = []"

lemma length_drop_lf [termination_simp]: "length (drop_lf s) < Suc (length s)"
  by (cases s) auto

fun split_lines :: "string \<Rightarrow> string \<Rightarrow> string list" where
  "split_lines cur [] = (if cur = [] then [] else [rev cur])"
| "split_lines cur (c # cs) =
     (if is_line_end c then rev cur # split_lines [] (if code c = 13 then drop_lf cs else cs)
      else split_lines (c # cur) cs)"

definition splitlines :: "string \<Rightarrow> string list" where
  "splitlines s = split_lines [] s"

text \<open>\<open>str.split()\<close> on runs of white space.\<close>

fun split_ws :: "string \<Rightarrow> string \<Rightarrow> string list" where
  "split_ws cur [] = (if cur = [] then [] else [rev cur])"
| "split_ws cur (c # cs) =
     (if is_space c then (if cur = [] then split_ws [] cs else rev cur # split_ws [] cs)
      else split_ws (c # cur) cs)"

definition split_words :: "string \<Rightarrow> string list" where
  "split_words s = split_ws [] s"

text \<open>\<open>str.split(maxsplit=1)\<close>: the first word and the rest from its first other character on.\<close>

definition split_once :: "string \<Rightarrow> string list" where
  "split_once s =
     (let t = lstrip s; w = takeWhile (\<lambda>c. \<not> is_space c) t; r = lstrip (dropWhile (\<lambda>c. \<not> is_space c) t)
      in if w = [] then [] else if r = [] then [w] else [w, r])"

text \<open>\<open>str.split(sep)\<close> for a separator of one character.\<close>

fun split_on :: "char \<Rightarrow> string \<Rightarrow> string \<Rightarrow> string list" where
  "split_on sep cur [] = [rev cur]"
| "split_on sep cur (c # cs) =
     (if c = sep then rev cur # split_on sep [] cs else split_on sep (c # cur) cs)"

definition split_char :: "char \<Rightarrow> string \<Rightarrow> string list" where
  "split_char sep s = split_on sep [] s"

lemma split_on_nonempty: "split_on sep cur s \<noteq> []"
  by (induction s arbitrary: cur) auto

lemma split_char_nonempty: "split_char sep s \<noteq> []"
  by (simp add: split_char_def split_on_nonempty)

text \<open>\<open>sep.join(xs)\<close>.\<close>

fun join :: "string \<Rightarrow> string list \<Rightarrow> string" where
  "join sep [] = []"
| "join sep [x] = x"
| "join sep (x # y # ys) = x @ sep @ join sep (y # ys)"

section \<open>Numbers as text\<close>

definition digit_char :: "nat \<Rightarrow> char" where
  "digit_char d = char_of (48 + d)"

fun nat_str :: "nat \<Rightarrow> string" where
  "nat_str n = (if n < 10 then [digit_char n] else nat_str (n div 10) @ [digit_char (n mod 10)])"

declare nat_str.simps [simp del]

text \<open>\<open>str(i)\<close> of an \<open>int\<close>.\<close>

definition int_str :: "int \<Rightarrow> string" where
  "int_str i = (if i < 0 then CHR ''-'' # nat_str (nat (- i)) else nat_str (nat i))"

text \<open>
  \<open>int(s)\<close>: white space around, an optional sign, digits with single underscores between them.
  \<open>None\<close> is the \<open>ValueError\<close>.
\<close>

fun digits_val :: "nat \<Rightarrow> string \<Rightarrow> nat option" where
  "digits_val acc [] = Some acc"
| "digits_val acc (c # cs) =
     (if is_digit c then digits_val (acc * 10 + (code c - 48)) cs
      else if c = CHR ''_'' \<and> cs \<noteq> [] \<and> is_digit (hd cs) then digits_val acc cs
      else None)"

definition nat_of_str :: "string \<Rightarrow> nat option" where
  "nat_of_str s = (if s \<noteq> [] \<and> is_digit (hd s) then digits_val 0 s else None)"

definition int_of_str :: "string \<Rightarrow> int option" where
  "int_of_str s = (case strip s of
       [] \<Rightarrow> None
     | c # cs \<Rightarrow>
         if c = CHR ''-'' then map_option (\<lambda>n. - int n) (nat_of_str cs)
         else if c = CHR ''+'' then map_option int (nat_of_str cs)
         else map_option int (nat_of_str (c # cs)))"

lemma code_digit_char [simp]: "d < 10 \<Longrightarrow> code (digit_char d) = 48 + d"
  by (simp add: code_def digit_char_def)

lemma is_digit_digit_char [simp]: "d < 10 \<Longrightarrow> is_digit (digit_char d)"
  by (simp add: is_digit_def)

lemma digits_val_append:
  "\<forall>c \<in> set s. is_digit c \<Longrightarrow>
   digits_val acc (s @ t) = (case digits_val acc s of None \<Rightarrow> None | Some n \<Rightarrow> digits_val n t)"
  by (induction s arbitrary: acc) auto

lemma nat_str_digits: "\<forall>c \<in> set (nat_str n). is_digit c"
proof (induction n rule: nat_str.induct)
  case (1 n)
  then show ?case by (subst nat_str.simps) auto
qed

lemma nat_str_nonempty [simp]: "nat_str n \<noteq> []"
  by (subst nat_str.simps) simp

lemma digits_val_nat_str: "digits_val 0 (nat_str n) = Some n"
proof (induction n rule: nat_str.induct)
  case (1 n)
  show ?case
  proof (cases "n < 10")
    case True
    then show ?thesis by (subst nat_str.simps) simp
  next
    case False
    with 1 have "digits_val 0 (nat_str (n div 10)) = Some (n div 10)" by simp
    with False show ?thesis
      by (subst nat_str.simps) (simp add: digits_val_append nat_str_digits)
  qed
qed

text \<open>
  \<open>float(s)\<close> on the finite literals: sign, digits, an optional fraction and an optional exponent.
\<close>

definition span_digits :: "string \<Rightarrow> string \<times> string" where
  "span_digits s = (takeWhile is_digit s, dropWhile is_digit s)"

definition digits_num :: "string \<Rightarrow> nat" where
  "digits_num s = foldl (\<lambda>n c. n * 10 + (code c - 48)) 0 s"

definition exponent_of_str :: "string \<Rightarrow> int option" where
  "exponent_of_str s = (case s of
       [] \<Rightarrow> None
     | c # cs \<Rightarrow>
         if c = CHR ''-'' then map_option (\<lambda>n. - int n) (nat_of_str cs)
         else if c = CHR ''+'' then map_option int (nat_of_str cs)
         else map_option int (nat_of_str (c # cs)))"

definition pow10 :: "int \<Rightarrow> rat" where
  "pow10 e = (if 0 \<le> e then 10 ^ nat e else 1 / 10 ^ nat (- e))"

definition unsigned_float_of_str :: "string \<Rightarrow> rat option" where
  "unsigned_float_of_str s =
     (let (whole, r1) = span_digits s;
          (frac, r2) = (case r1 of [] \<Rightarrow> ([], [])
                        | c # cs \<Rightarrow> if c = CHR ''.'' then span_digits cs else ([], r1));
          mantissa = of_nat (digits_num (whole @ frac)) * pow10 (- int (length frac))
      in if whole @ frac = [] then None
         else (case r2 of [] \<Rightarrow> Some mantissa
               | c # cs \<Rightarrow> if c = CHR ''e'' \<or> c = CHR ''E''
                            then map_option (\<lambda>e. mantissa * pow10 e) (exponent_of_str cs)
                            else None))"

definition float_of_str :: "string \<Rightarrow> rat option" where
  "float_of_str s = (case strip s of
       [] \<Rightarrow> None
     | c # cs \<Rightarrow>
         if c = CHR ''-'' then map_option uminus (unsigned_float_of_str cs)
         else if c = CHR ''+'' then unsigned_float_of_str cs
         else unsigned_float_of_str (c # cs))"

section \<open>Patterns\<close>

subsection \<open>Regular expressions of the content bans\<close>

text \<open>
  The bans use literals, \<open>\s+\<close> and \<open>\s*\<close>, searched anywhere with \<open>re.IGNORECASE\<close>.
\<close>

datatype rx_atom = Lit char | Spaces1 | Spaces0

fun rx_at :: "rx_atom list \<Rightarrow> string \<Rightarrow> bool" where
  "rx_at [] s = True"
| "rx_at (Lit c # r) [] = False"
| "rx_at (Lit c # r) (x # xs) = (lower_char x = lower_char c \<and> rx_at r xs)"
| "rx_at (Spaces1 # r) [] = False"
| "rx_at (Spaces1 # r) (x # xs) = (is_space x \<and> rx_at (Spaces0 # r) xs)"
| "rx_at (Spaces0 # r) [] = rx_at r []"
| "rx_at (Spaces0 # r) (x # xs) =
     (rx_at r (x # xs) \<or> is_space x \<and> rx_at (Spaces0 # r) xs)"

fun rx_search :: "rx_atom list \<Rightarrow> string \<Rightarrow> bool" where
  "rx_search r [] = rx_at r []"
| "rx_search r (c # cs) = (rx_at r (c # cs) \<or> rx_search r cs)"

subsection \<open>Whole words\<close>

text \<open>\<open>re.search(r"\bword\b", s)\<close> for a word that starts and ends with a word character.\<close>

fun word_search :: "bool \<Rightarrow> string \<Rightarrow> string \<Rightarrow> bool" where
  "word_search prev w [] = False"
| "word_search prev w (c # cs) =
     (\<not> prev \<and> prefix w (c # cs)
        \<and> (case drop (length w) (c # cs) of [] \<Rightarrow> True | d # _ \<Rightarrow> \<not> is_word d)
      \<or> word_search (is_word c) w cs)"

definition has_word :: "string \<Rightarrow> string \<Rightarrow> bool" where
  "has_word w s = word_search False w s"

subsection \<open>fnmatch\<close>

text \<open>
  \<open>fnmatch.fnmatch\<close> on a POSIX system. A bracket with no closing bracket is a literal; in a class
  \<open>a-b\<close> is a range (empty when \<open>b < a\<close>) and \<open>!\<close> in front negates.
\<close>

fun class_ranges :: "string \<Rightarrow> (char \<times> char) list" where
  "class_ranges [] = []"
| "class_ranges [a] = [(a, a)]"
| "class_ranges [a, b] = [(a, a), (b, b)]"
| "class_ranges (a # b # c # r) =
     (if b = CHR ''-'' then (a, c) # class_ranges r else (a, a) # class_ranges (b # c # r))"

definition in_class :: "string \<Rightarrow> char \<Rightarrow> bool" where
  "in_class body c =
     (let hit = (\<lambda>rs. \<exists>(a, b) \<in> set rs. code a \<le> code c \<and> code c \<le> code b)
      in if body \<noteq> [] \<and> hd body = CHR ''!'' then \<not> hit (class_ranges (tl body))
         else hit (class_ranges body))"

text \<open>The class after \<open>[\<close> and what follows it; a bracket right after \<open>[\<close> or \<open>[!\<close> belongs to the class.\<close>

fun take_class :: "string \<Rightarrow> string \<Rightarrow> (string \<times> string) option" where
  "take_class acc [] = None"
| "take_class acc (c # cs) =
     (if c = CHR '']'' then Some (rev acc, cs) else take_class (c # acc) cs)"

definition split_class :: "string \<Rightarrow> (string \<times> string) option" where
  "split_class s =
     (let (neg, t) = (if s \<noteq> [] \<and> hd s = CHR ''!'' then ([CHR ''!''], tl s) else ([], s))
      in if t \<noteq> [] \<and> hd t = CHR '']'' then take_class (CHR '']'' # neg) (tl t)
         else take_class neg t)"

lemma take_class_length: "take_class acc s = Some (b, r) \<Longrightarrow> length r < length s"
  by (induction acc s rule: take_class.induct) (auto split: if_splits)

lemma split_class_length: "split_class s = Some (b, r) \<Longrightarrow> length r < length s"
  unfolding split_class_def Let_def
  by (cases s; cases "tl s") (auto split: if_splits dest!: take_class_length)

declare conj_cong [fundef_cong]

function glob :: "string \<Rightarrow> string \<Rightarrow> bool" where
  "glob [] s = (s = [])"
| "glob (p # ps) s =
     (if p = CHR ''*'' then glob ps s \<or> (s \<noteq> [] \<and> glob (p # ps) (tl s))
      else if p = CHR ''?'' then s \<noteq> [] \<and> glob ps (tl s)
      else if p = CHR ''['' then
        (case split_class ps of
           None \<Rightarrow> s \<noteq> [] \<and> hd s = p \<and> glob ps (tl s)
         | Some (body, ps') \<Rightarrow> s \<noteq> [] \<and> in_class body (hd s) \<and> glob ps' (tl s))
      else s \<noteq> [] \<and> hd s = p \<and> glob ps (tl s))"
  by pat_completeness auto
termination
  by (relation "measures [\<lambda>(p, s). length p, \<lambda>(p, s). length s]") (auto dest: split_class_length)

declare glob.simps [simp del]

definition fnmatch :: "string \<Rightarrow> string \<Rightarrow> bool" where
  "fnmatch name pat = glob pat name"

end
