(* ===== verification/Py_Value.thy ===== *)
theory Py_Value
  imports Py_String
begin

text \<open>
  The dynamically typed values that reach the program: planner steps, policies and learner evidence
  are parsed JSON or YAML, and the code converts them with \<open>int\<close>, \<open>float\<close>, \<open>str\<close>, truth tests and
  membership tests, which raise on the wrong type. Each conversion is a function into a sum, with
  the exception Python raises. Floating point numbers are modelled as exact rationals; \<open>inf\<close> and
  \<open>nan\<close> are outside the model, and \<open>NonFinite\<close> marks the one place where a literal could name them.
\<close>

datatype pyval =
    PNone
  | PBool bool
  | PInt int
  | PFloat rat
  | PStr string
  | PList "pyval list"
  | PDict "(pyval \<times> pyval) list"

datatype pyerr =
    TypeError
  | ValueError
  | AttributeError
  | KeyError
  | IndexError
  | NonFinite
  | OSError
  | RuntimeError

type_synonym pydict = "(pyval \<times> pyval) list"

type_synonym 'a res = "pyerr + 'a"

section \<open>The runtime\<close>

text \<open>
  What the program takes from the runtime and what stays a parameter: the SHA-256 and MD5 hex digests, the
  JSON text of a value (sorted keys, compact separators; the flag is \<open>ensure_ascii\<close>), \<open>str\<close> and
  \<open>repr\<close> of floats and containers, the text of a float in an f-string, and the UTF-8 length.
\<close>

record runtime =
  rt_sha256 :: "string \<Rightarrow> string"
  rt_md5 :: "string \<Rightarrow> string"
  rt_dumps :: "bool \<Rightarrow> pyval \<Rightarrow> string"
  rt_str :: "pyval \<Rightarrow> string"
  rt_repr :: "pyval \<Rightarrow> string"
  rt_fixed :: "nat \<Rightarrow> rat \<Rightarrow> string"

text \<open>UTF-8 needs one byte up to U+007F and two up to U+00FF.\<close>

definition utf8_length :: "string \<Rightarrow> nat" where
  "utf8_length s = sum_list (map (\<lambda>c. if code c < 128 then 1 else 2) s)"

section \<open>Conversions\<close>

fun truthy :: "pyval \<Rightarrow> bool" where
  "truthy PNone = False"
| "truthy (PBool b) = b"
| "truthy (PInt i) = (i \<noteq> 0)"
| "truthy (PFloat x) = (x \<noteq> 0)"
| "truthy (PStr s) = (s \<noteq> [])"
| "truthy (PList xs) = (xs \<noteq> [])"
| "truthy (PDict d) = (d \<noteq> [])"

text \<open>\<open>x or y\<close>.\<close>

definition py_or :: "pyval \<Rightarrow> pyval \<Rightarrow> pyval" where
  "py_or x y = (if truthy x then x else y)"

text \<open>\<open>int(x)\<close>: truncation towards zero for a float.\<close>

definition rat_trunc :: "rat \<Rightarrow> int" where
  "rat_trunc x = (if 0 \<le> x then \<lfloor>x\<rfloor> else - \<lfloor>- x\<rfloor>)"

fun py_int :: "pyval \<Rightarrow> int res" where
  "py_int PNone = Inl TypeError"
| "py_int (PBool b) = Inr (if b then 1 else 0)"
| "py_int (PInt i) = Inr i"
| "py_int (PFloat x) = Inr (rat_trunc x)"
| "py_int (PStr s) = (case int_of_str s of None \<Rightarrow> Inl ValueError | Some i \<Rightarrow> Inr i)"
| "py_int (PList xs) = Inl TypeError"
| "py_int (PDict d) = Inl TypeError"

definition non_finite_word :: "string \<Rightarrow> bool" where
  "non_finite_word s \<longleftrightarrow>
     (let t = lower (strip s);
          u = (if t \<noteq> [] \<and> (hd t = CHR ''+'' \<or> hd t = CHR ''-'') then tl t else t)
      in u = ''inf'' \<or> u = ''infinity'' \<or> u = ''nan'')"

fun py_float :: "pyval \<Rightarrow> rat res" where
  "py_float PNone = Inl TypeError"
| "py_float (PBool b) = Inr (if b then 1 else 0)"
| "py_float (PInt i) = Inr (of_int i)"
| "py_float (PFloat x) = Inr x"
| "py_float (PStr s) = (case float_of_str s of
       None \<Rightarrow> Inl (if non_finite_word s then NonFinite else ValueError)
     | Some x \<Rightarrow> Inr x)"
| "py_float (PList xs) = Inl TypeError"
| "py_float (PDict d) = Inl TypeError"

fun py_str :: "runtime \<Rightarrow> pyval \<Rightarrow> string" where
  "py_str R PNone = ''None''"
| "py_str R (PBool b) = (if b then ''True'' else ''False'')"
| "py_str R (PInt i) = int_str i"
| "py_str R (PStr s) = s"
| "py_str R v = rt_str R v"

text \<open>\<open>len(x)\<close>.\<close>

fun py_len :: "pyval \<Rightarrow> nat res" where
  "py_len (PStr s) = Inr (length s)"
| "py_len (PList xs) = Inr (length xs)"
| "py_len (PDict d) = Inr (length d)"
| "py_len _ = Inl TypeError"

text \<open>\<open>for y in x\<close>: a string gives its characters, a dict its keys.\<close>

fun py_iter :: "pyval \<Rightarrow> pyval list res" where
  "py_iter (PStr s) = Inr (map (\<lambda>c. PStr [c]) s)"
| "py_iter (PList xs) = Inr xs"
| "py_iter (PDict d) = Inr (map fst d)"
| "py_iter _ = Inl TypeError"

text \<open>\<open>s in x\<close> for a string \<open>s\<close>.\<close>

fun py_contains_str :: "string \<Rightarrow> pyval \<Rightarrow> bool res" where
  "py_contains_str s (PStr t) = Inr (occurs_in s t)"
| "py_contains_str s (PList xs) = Inr (PStr s \<in> set xs)"
| "py_contains_str s (PDict d) = Inr (PStr s \<in> fst ` set d)"
| "py_contains_str s _ = Inl TypeError"

text \<open>Calling a \<open>str\<close> method (\<open>startswith\<close>, \<open>strip\<close>, \<open>splitlines\<close>) on a value.\<close>

fun as_str :: "pyval \<Rightarrow> string res" where
  "as_str (PStr s) = Inr s"
| "as_str _ = Inl AttributeError"

fun is_str :: "pyval \<Rightarrow> bool" where
  "is_str (PStr s) = True"
| "is_str _ = False"

section \<open>Dictionaries with string keys\<close>

text \<open>\<open>d.get(key)\<close> and \<open>d.get(key, default)\<close>.\<close>

definition dget :: "pydict \<Rightarrow> string \<Rightarrow> pyval option" where
  "dget d key = map_of d (PStr key)"

definition dget_or :: "pydict \<Rightarrow> string \<Rightarrow> pyval \<Rightarrow> pyval" where
  "dget_or d key v = (case dget d key of None \<Rightarrow> v | Some x \<Rightarrow> x)"

definition dput :: "string \<Rightarrow> pyval \<Rightarrow> pydict \<Rightarrow> pydict" where
  "dput key v d = AList.update (PStr key) v d"

lemma dget_dput [dict_simps]: "dget (dput key v d) key' = (if key' = key then Some v else dget d key')"
  by (simp add: dget_def dput_def map_of_update)

lemma dget_or_dput [dict_simps]:
  "dget_or (dput key v d) key' w = (if key' = key then v else dget_or d key' w)"
  by (simp add: dget_or_def dict_simps)

lemma dict_ok_dput [dict_simps]: "dict_ok d \<Longrightarrow> dict_ok (dput key v d)"
  by (simp add: dput_def dict_simps)

lemma dget_Nil [simp]: "dget [] key = None"
  by (simp add: dget_def)

lemma dget_Cons [simp]: "dget ((k, v) # d) key = (if k = PStr key then Some v else dget d key)"
  by (simp add: dget_def)

lemma dget_or_Nil [simp]: "dget_or [] key v = v"
  by (simp add: dget_or_def)

lemma dget_or_Cons [simp]:
  "dget_or ((k, w) # d) key v = (if k = PStr key then w else dget_or d key v)"
  by (simp add: dget_or_def)

text \<open>\<open>int(d.get(key, 0) or 0)\<close> and \<open>float(d.get(key, x))\<close>.\<close>

definition dget_int0 :: "pydict \<Rightarrow> string \<Rightarrow> int res" where
  "dget_int0 d key = py_int (py_or (dget_or d key (PInt 0)) (PInt 0))"

definition dget_float :: "pydict \<Rightarrow> string \<Rightarrow> rat \<Rightarrow> rat res" where
  "dget_float d key x = py_float (dget_or d key (PFloat x))"

definition dget_int :: "pydict \<Rightarrow> string \<Rightarrow> int \<Rightarrow> int res" where
  "dget_int d key i = py_int (dget_or d key (PInt i))"

lemma dget_int_default [simp]: "dget d key = None \<Longrightarrow> dget_int d key i = Inr i"
  by (simp add: dget_int_def dget_or_def)

lemma dget_float_default [simp]: "dget d key = None \<Longrightarrow> dget_float d key x = Inr x"
  by (simp add: dget_float_def dget_or_def)

lemma dget_int0_default [simp]: "dget d key = None \<Longrightarrow> dget_int0 d key = Inr 0"
  by (simp add: dget_int0_def dget_or_def py_or_def)

text \<open>The dictionary a handler sees when it first tests \<open>isinstance(x, dict)\<close>.\<close>

fun as_dict :: "pyval \<Rightarrow> pydict option" where
  "as_dict (PDict d) = Some d"
| "as_dict _ = None"

text \<open>The runtime of the witnesses: injective stand-ins, so no digest collides.\<close>

definition toy_runtime :: runtime where
  "toy_runtime =
     \<lparr>rt_sha256 = (\<lambda>s. s), rt_md5 = (\<lambda>s. s), rt_dumps = (\<lambda>a v. ''json''), rt_str = (\<lambda>v. ''value''),
      rt_repr = (\<lambda>v. ''value''), rt_fixed = (\<lambda>n x. ''0'')\<rparr>"

end
