(* ===== verification/Tool_Registry.thy ===== *)
theory Tool_Registry
  imports Py_Value
begin

text \<open>
  The canonical tool registry of \<open>rfsn_kernel/tool_registry.py\<close>: the descriptor of a tool, the
  table of all tools, and the name sets every other layer derives from it.
\<close>

record tool_spec =
  ts_name :: string
  ts_description :: string
  ts_safe :: bool
  ts_enabled :: bool
  ts_risk_level :: string
  ts_allowed_in_warm_path :: bool
  ts_allowed_in_cold_path :: bool
  ts_requires_sandbox :: bool
  ts_requires_patch_gate :: bool
  ts_max_input_size :: "nat option"
  ts_allowed_params :: "string list"

text \<open>
  A descriptor with the dataclass defaults. The description of \<open>trace_execution\<close> is shortened to its
  first sentence; no code reads it.
\<close>

definition tool_defaults :: "string \<Rightarrow> string \<Rightarrow> string list \<Rightarrow> tool_spec" where
  "tool_defaults nm desc ps =
     \<lparr>ts_name = nm, ts_description = desc, ts_safe = True, ts_enabled = True, ts_risk_level = ''low'',
      ts_allowed_in_warm_path = True, ts_allowed_in_cold_path = True,
      ts_requires_sandbox = False, ts_requires_patch_gate = False,
      ts_max_input_size = None, ts_allowed_params = ps\<rparr>"

definition CANONICAL_TOOLS :: "(string \<times> tool_spec) list" where
  "CANONICAL_TOOLS =
    [(''repo_search'', tool_defaults ''repo_search''
        ''Search the repository for a pattern.''
        [''pattern'', ''timeout_s'', ''max_results'', ''path_glob'']),
     (''repo_read_range'', tool_defaults ''repo_read_range''
        ''Read a line range from a repo file.''
        [''path'', ''line_start'', ''line_end'', ''timeout_s'']),
     (''read_file'', tool_defaults ''read_file''
        ''Read an entire file.'' [''path'', ''timeout_s'']),
     (''list_files'', tool_defaults ''list_files''
        ''List files under a directory.'' [''path'', ''glob'', ''max_results'']),
     (''detect_project'', tool_defaults ''detect_project''
        ''Detect project type and structure.'' [''path'', ''timeout_s'']),
     (''detect_workdirs'', tool_defaults ''detect_workdirs''
        ''Detect working directories in a monorepo.'' [''max_depth'', ''timeout_s'']),
     (''apply_patch'', (tool_defaults ''apply_patch''
        ''Apply a unified diff patch to the repo.'' [''patch'', ''timeout_s''])
        \<lparr>ts_risk_level := ''high'', ts_requires_patch_gate := True\<rparr>),
     (''apply_semantic_patch'',
        (tool_defaults ''apply_semantic_patch''
        ''Apply an exact SEARCH/REPLACE semantic patch. Disabled until Phase 3 validation is complete. Enable only after all tests/test_semantic_patch_safety.py pass.'' [''path'', ''search'', ''replace'', ''timeout_s''])
        \<lparr>ts_enabled := False, ts_risk_level := ''high'', ts_requires_patch_gate := True\<rparr>),
     (''run_tests'',
        (tool_defaults ''run_tests''
        ''Run tests via an allowlisted template.'' [''template_id'', ''template_params'', ''workdir_id'', ''timeout_s''])
        \<lparr>ts_risk_level := ''medium'', ts_requires_sandbox := True\<rparr>),
     (''run_cmd_template'',
        (tool_defaults ''run_cmd_template''
        ''Run an allowlisted command template (non-shell).'' [''template'', ''workdir_id'', ''timeout_s'', ''env''])
        \<lparr>ts_risk_level := ''medium'', ts_requires_sandbox := True\<rparr>),
     (''format_fix'', tool_defaults ''format_fix''
        ''Auto-format files using an allowlisted formatter.'' [''template'', ''workdir_id'', ''timeout_s'']),
     (''ensure_deps'', (tool_defaults ''ensure_deps''
        ''Ensure project dependencies are installed.'' [''manifest'', ''workdir_id'', ''timeout_s''])
        \<lparr>ts_risk_level := ''medium''\<rparr>),
     (''generate_repo_map'',
        tool_defaults ''generate_repo_map''
        ''Generate a structural map of the repository.'' [''path'', ''max_depth'', ''include_globs'']),
     (''trace_execution'',
        (tool_defaults ''trace_execution''
        ''DISABLED: unsafe until rewritten.'' [''path'', ''entry_point'', ''args'', ''timeout_s''])
        \<lparr>ts_safe := False, ts_enabled := False, ts_risk_level := ''high'',
         ts_requires_sandbox := True\<rparr>)]"

definition CANONICAL_TOOL_NAMES :: "string list" where
  "CANONICAL_TOOL_NAMES = map fst CANONICAL_TOOLS"

definition ENABLED_TOOL_NAMES :: "string list" where
  "ENABLED_TOOL_NAMES = map fst (filter (\<lambda>(n, s). ts_enabled s) CANONICAL_TOOLS)"

definition PATCH_GATE_TOOLS :: "string list" where
  "PATCH_GATE_TOOLS = map fst (filter (\<lambda>(n, s). ts_requires_patch_gate s) CANONICAL_TOOLS)"

definition SANDBOX_TOOLS :: "string list" where
  "SANDBOX_TOOLS = map fst (filter (\<lambda>(n, s). ts_requires_sandbox s) CANONICAL_TOOLS)"

section \<open>Facts about the table\<close>

text \<open>The derived sets, evaluated once; the layers above use these equations.\<close>

lemma tool_names_eq:
  "CANONICAL_TOOL_NAMES =
     [''repo_search'', ''repo_read_range'', ''read_file'', ''list_files'', ''detect_project'',
      ''detect_workdirs'', ''apply_patch'', ''apply_semantic_patch'', ''run_tests'',
      ''run_cmd_template'', ''format_fix'', ''ensure_deps'', ''generate_repo_map'',
      ''trace_execution'']"
  by (simp add: CANONICAL_TOOL_NAMES_def CANONICAL_TOOLS_def)

lemma enabled_tools_eq:
  "ENABLED_TOOL_NAMES =
     [''repo_search'', ''repo_read_range'', ''read_file'', ''list_files'', ''detect_project'',
      ''detect_workdirs'', ''apply_patch'', ''run_tests'', ''run_cmd_template'', ''format_fix'',
      ''ensure_deps'', ''generate_repo_map'']"
  by (simp add: ENABLED_TOOL_NAMES_def CANONICAL_TOOLS_def tool_defaults_def)

lemma dict_ok_tools: "dict_ok CANONICAL_TOOLS"
  by (simp add: dict_ok_def CANONICAL_TOOLS_def)

lemma tool_spec_of_name:
  "map_of CANONICAL_TOOLS n = Some s \<Longrightarrow> ts_name s = n"
  by (auto simp: CANONICAL_TOOLS_def tool_defaults_def split: if_splits)

lemma enabled_tool_iff:
  "n \<in> set ENABLED_TOOL_NAMES \<longleftrightarrow> (\<exists>s. map_of CANONICAL_TOOLS n = Some s \<and> ts_enabled s)"
proof -
  have "n \<in> set ENABLED_TOOL_NAMES \<longleftrightarrow> (\<exists>s. (n, s) \<in> set CANONICAL_TOOLS \<and> ts_enabled s)"
    by (force simp: ENABLED_TOOL_NAMES_def)
  also have "\<dots> \<longleftrightarrow> (\<exists>s. map_of CANONICAL_TOOLS n = Some s \<and> ts_enabled s)"
    using dict_ok_tools by (auto simp: dict_ok_def map_of_eq_Some_iff)
  finally show ?thesis .
qed

text \<open>No enabled tool is marked unsafe, and no enabled tool loses its \<open>timeout_s\<close>-free parameters.\<close>

lemma enabled_tools_safe:
  "map_of CANONICAL_TOOLS n = Some s \<Longrightarrow> ts_enabled s \<Longrightarrow> ts_safe s"
  by (auto simp: CANONICAL_TOOLS_def tool_defaults_def split: if_splits)

text \<open>No tool lets the planner set a private parameter, the type or the identifier of a step.\<close>

lemma allowed_params_public:
  "map_of CANONICAL_TOOLS n = Some s \<Longrightarrow> p \<in> set (ts_allowed_params s) \<Longrightarrow>
   p \<noteq> ''type'' \<and> p \<noteq> ''id'' \<and> \<not> startswith p ''_''"
  by (auto simp: CANONICAL_TOOLS_def tool_defaults_def startswith_def split: if_splits)

end
