(* ===== verification/Kernel_State.thy ===== *)
theory Kernel_State
  imports Tool_Registry
begin

text \<open>
  The data contracts of the kernel, \<open>rfsn_kernel/state.py\<close>, and the normalisation of planner steps,
  \<open>rfsn_kernel/normalize.py\<close>: proposals, the system state with its counters and loop window, the
  outcome of an execution, and the two conversions between raw steps and proposals.
\<close>

section \<open>Proposals\<close>

record proposal =
  pr_action :: string
  pr_params :: pydict
  pr_context_hash :: string
  pr_planner_hash :: string
  pr_timestamp :: rat
  pr_intent :: string
  pr_bundle_id :: string

text \<open>\<open>__post_init__\<close>: a zero timestamp is replaced by the clock's (or the fixed) time.\<close>

definition proposal_post_init :: "rat \<Rightarrow> proposal \<Rightarrow> proposal" where
  "proposal_post_init now p = (if pr_timestamp p = 0 then p\<lparr>pr_timestamp := now\<rparr> else p)"

text \<open>The hash covers action, parameters, context and intent, and neither time nor bundle.\<close>

definition proposal_hash :: "runtime \<Rightarrow> proposal \<Rightarrow> string" where
  "proposal_hash R p = rt_sha256 R (rt_dumps R True (PDict
     [(PStr ''action'', PStr (pr_action p)), (PStr ''params'', PDict (pr_params p)),
      (PStr ''context_hash'', PStr (pr_context_hash p)), (PStr ''intent'', PStr (pr_intent p))]))"

section \<open>The system state\<close>

record system_state =
  st_memory_version :: string
  st_env_hash :: string
  st_rng_seed :: int
  st_safety_level :: int
  st_resource_state :: pydict
  st_step_count :: int
  st_iter_count :: int
  st_total_cost :: rat
  st_recent_failures :: int
  st_recent_actions :: "string list"
  st_drift_variance :: rat
  st_policy_hash :: string

definition initial_state :: system_state where
  "initial_state =
     \<lparr>st_memory_version = ''0'', st_env_hash = [], st_rng_seed = 0, st_safety_level = 0,
      st_resource_state = [], st_step_count = 0, st_iter_count = 0, st_total_cost = 0,
      st_recent_failures = 0, st_recent_actions = [], st_drift_variance = 0,
      st_policy_hash = []\<rparr>"

definition state_to_dict :: "system_state \<Rightarrow> pydict" where
  "state_to_dict s =
     [(PStr ''memory_version'', PStr (st_memory_version s)),
      (PStr ''env_hash'', PStr (st_env_hash s)),
      (PStr ''rng_seed'', PInt (st_rng_seed s)),
      (PStr ''safety_level'', PInt (st_safety_level s)),
      (PStr ''resource_state'', PDict (st_resource_state s)),
      (PStr ''step_count'', PInt (st_step_count s)),
      (PStr ''iter_count'', PInt (st_iter_count s)),
      (PStr ''total_cost'', PFloat (st_total_cost s)),
      (PStr ''recent_failures'', PInt (st_recent_failures s)),
      (PStr ''recent_actions'', PList (map PStr (st_recent_actions s))),
      (PStr ''drift_variance'', PFloat (st_drift_variance s)),
      (PStr ''policy_hash'', PStr (st_policy_hash s))]"

definition state_hash :: "runtime \<Rightarrow> system_state \<Rightarrow> string" where
  "state_hash R s = rt_sha256 R (rt_dumps R True (PDict (state_to_dict s)))"

definition record_action :: "string \<Rightarrow> system_state \<Rightarrow> system_state" where
  "record_action a s =
     (let acts = st_recent_actions s @ [a]
      in s\<lparr>st_recent_actions := (if length acts > 20 then last_n 20 acts else acts)\<rparr>)"

definition record_failure :: "system_state \<Rightarrow> system_state" where
  "record_failure s = s\<lparr>st_recent_failures := st_recent_failures s + 1\<rparr>"

definition record_success :: "system_state \<Rightarrow> system_state" where
  "record_success s = s\<lparr>st_recent_failures := max 0 (st_recent_failures s - 1)\<rparr>"

definition advance_step :: "system_state \<Rightarrow> system_state" where
  "advance_step s = s\<lparr>st_step_count := st_step_count s + 1\<rparr>"

text \<open>\<open>snapshot\<close>: rounding to six digits, then the ledger keys.\<close>

definition round6 :: "rat \<Rightarrow> rat" where
  "round6 x = of_int (round_half_even (x * 1000000)) / 1000000"

definition state_snapshot :: "runtime \<Rightarrow> system_state \<Rightarrow> pydict" where
  "state_snapshot R s =
     [(PStr ''memory_version'', PStr (st_memory_version s)),
      (PStr ''env_hash'', PStr (st_env_hash s)),
      (PStr ''rng_seed'', PInt (st_rng_seed s)),
      (PStr ''safety_level'', PInt (st_safety_level s)),
      (PStr ''step_count'', PInt (st_step_count s)),
      (PStr ''iter_count'', PInt (st_iter_count s)),
      (PStr ''recent_failures'', PInt (st_recent_failures s)),
      (PStr ''drift_variance'', PFloat (round6 (st_drift_variance s))),
      (PStr ''state_hash'', PStr (state_hash R s))]"

section \<open>Outcomes\<close>

record outcome =
  oc_success :: bool
  oc_exit_code :: int
  oc_payload :: string
  oc_logs :: string
  oc_duration_sec :: rat
  oc_error :: "string option"
  oc_state_delta_hash :: string

definition outcome_hash :: "runtime \<Rightarrow> outcome \<Rightarrow> string" where
  "outcome_hash R oc = rt_sha256 R (rt_dumps R True (PDict
     [(PStr ''success'', PBool (oc_success oc)), (PStr ''exit_code'', PInt (oc_exit_code oc)),
      (PStr ''state_delta_hash'', PStr (oc_state_delta_hash oc))]))"

section \<open>Normalisation\<close>

definition ALLOWED_PARAMS :: "string \<Rightarrow> string list" where
  "ALLOWED_PARAMS action =
     (case map_of CANONICAL_TOOLS action of None \<Rightarrow> [] | Some spec \<Rightarrow> ts_allowed_params spec)"

text \<open>The loop over \<open>raw_step.items()\<close>; \<open>params\<close> is the dictionary built so far.\<close>

fun keep_params :: "string list \<Rightarrow> pydict \<Rightarrow> pydict \<Rightarrow> pydict" where
  "keep_params allowed [] params = params"
| "keep_params allowed ((k, v) # rest) params =
     (if k = PStr ''type'' \<or> k = PStr ''id'' then keep_params allowed rest params
      else if k \<in> PStr ` set allowed then keep_params allowed rest (AList.update k v params)
      else keep_params allowed rest params)"

definition normalize_step ::
    "runtime \<Rightarrow> rat \<Rightarrow> pydict \<Rightarrow> string \<Rightarrow> string \<Rightarrow> string \<Rightarrow> proposal" where
  "normalize_step R now raw intent context bundle =
     (let action = py_str R (dget_or raw ''type'' (PStr []));
          params = keep_params (ALLOWED_PARAMS action) raw [];
          params' = (case dget raw ''id'' of None \<Rightarrow> params | Some i \<Rightarrow> dput ''_step_id'' i params);
          planner_hash = take 16 (rt_sha256 R (rt_dumps R True (PDict raw)))
      in proposal_post_init now
           \<lparr>pr_action = action, pr_params = params', pr_context_hash = context,
            pr_planner_hash = planner_hash, pr_timestamp = 0, pr_intent = intent,
            pr_bundle_id = bundle\<rparr>)"

fun public_key :: "pyval \<Rightarrow> bool" where
  "public_key (PStr k) = (\<not> startswith k ''_'')"
| "public_key _ = True"

text \<open>The loop over the parameters: later keys overwrite \<open>step[k]\<close>.\<close>

fun put_params :: "pydict \<Rightarrow> pydict \<Rightarrow> pydict" where
  "put_params [] step = step"
| "put_params ((k, v) # rest) step =
     (if public_key k then put_params rest (AList.update k v step) else put_params rest step)"

definition proposal_to_step :: "proposal \<Rightarrow> pydict" where
  "proposal_to_step p =
     (let step = [(PStr ''type'', PStr (pr_action p))];
          step_id = dget_or (pr_params p) ''_step_id'' (PStr []);
          step' = (if truthy step_id then dput ''id'' step_id step else step)
      in put_params (pr_params p) step')"

section \<open>Properties of the state\<close>

definition state_ok :: "system_state \<Rightarrow> bool" where
  "state_ok s \<longleftrightarrow>
     0 \<le> st_safety_level s \<and> st_safety_level s \<le> 2 \<and> 0 \<le> st_step_count s
     \<and> 0 \<le> st_recent_failures s \<and> 0 \<le> st_drift_variance s
     \<and> length (st_recent_actions s) \<le> 20"

lemma state_ok_initial [simp]: "state_ok initial_state"
  by (simp add: state_ok_def initial_state_def)

lemma state_ok_record_action [machine_inv]: "state_ok s \<Longrightarrow> state_ok (record_action a s)"
  by (auto simp: state_ok_def record_action_def Let_def length_last_n)

lemma state_ok_record_failure [machine_inv]: "state_ok s \<Longrightarrow> state_ok (record_failure s)"
  by (simp add: state_ok_def record_failure_def)

lemma state_ok_record_success [machine_inv]: "state_ok s \<Longrightarrow> state_ok (record_success s)"
  by (simp add: state_ok_def record_success_def)

lemma state_ok_advance_step [machine_inv]: "state_ok s \<Longrightarrow> state_ok (advance_step s)"
  by (simp add: state_ok_def advance_step_def)

text \<open>The last recorded action is the last of the window, and older ones only move towards its front.\<close>

lemma record_action_window:
  "st_recent_actions (record_action a s) = last_n 20 (st_recent_actions s @ [a])"
  by (auto simp: record_action_def Let_def last_n_def)

section \<open>Properties of normalisation\<close>

lemma keep_params_lookup:
  "dict_ok d \<Longrightarrow>
   map_of (keep_params allowed d params) k =
     (if k \<noteq> PStr ''type'' \<and> k \<noteq> PStr ''id'' \<and> k \<in> PStr ` set allowed \<and> k \<in> fst ` set d
      then map_of d k else map_of params k)"
proof (induction allowed d params rule: keep_params.induct)
  case (1 allowed params)
  then show ?case by simp
next
  case (2 allowed k' v rest params)
  then have "dict_ok rest" "k' \<notin> fst ` set rest" by (auto simp: dict_ok_def)
  with 2 show ?case by (auto simp: map_of_update)
qed

lemma put_params_lookup:
  "dict_ok d \<Longrightarrow>
   map_of (put_params d step) k =
     (if public_key k \<and> k \<in> fst ` set d then map_of d k else map_of step k)"
proof (induction d step rule: put_params.induct)
  case (1 step)
  then show ?case by simp
next
  case (2 k' v rest step)
  then have "dict_ok rest" "k' \<notin> fst ` set rest" by (auto simp: dict_ok_def)
  with 2 show ?case by (auto simp: map_of_update)
qed

lemma dict_ok_keep_params: "dict_ok params \<Longrightarrow> dict_ok (keep_params allowed d params)"
  by (induction allowed d params rule: keep_params.induct) (auto simp: dict_simps)

lemma in_allowed_iff:
  "p \<in> set (ALLOWED_PARAMS a) \<longleftrightarrow>
     (\<exists>s. map_of CANONICAL_TOOLS a = Some s \<and> p \<in> set (ts_allowed_params s))"
  by (cases "map_of CANONICAL_TOOLS a") (auto simp: ALLOWED_PARAMS_def)

lemma allowed_public:
  "p \<in> set (ALLOWED_PARAMS a) \<Longrightarrow> p \<noteq> ''type'' \<and> p \<noteq> ''id'' \<and> \<not> startswith p ''_''"
  using allowed_params_public by (auto simp: in_allowed_iff)

lemma normalize_simps [simp]:
  "pr_action (normalize_step R now raw i c b) = py_str R (dget_or raw ''type'' (PStr []))"
  "pr_intent (normalize_step R now raw i c b) = i"
  "pr_context_hash (normalize_step R now raw i c b) = c"
  "pr_bundle_id (normalize_step R now raw i c b) = b"
  by (simp_all add: normalize_step_def proposal_post_init_def Let_def)

lemma normalize_params:
  "pr_params (normalize_step R now raw i c b) =
     (let params = keep_params (ALLOWED_PARAMS (py_str R (dget_or raw ''type'' (PStr [])))) raw []
      in case dget raw ''id'' of None \<Rightarrow> params | Some x \<Rightarrow> dput ''_step_id'' x params)"
  by (simp add: normalize_step_def proposal_post_init_def Let_def)

lemma dict_ok_normalize: "dict_ok (pr_params (normalize_step R now raw i c b))"
  by (auto simp: normalize_params Let_def dict_simps dict_ok_keep_params split: option.splits)

lemma key_lookup: "k \<notin> fst ` set d \<longleftrightarrow> map_of d k = None"
  by (simp add: map_of_eq_None_iff)

text \<open>What one parameter of a normalised step is.\<close>

lemma normalize_lookup:
  assumes "dict_ok raw"
  shows "dget (pr_params (normalize_step R now raw i c b)) k =
    (if k = ''_step_id'' \<and> dget raw ''id'' \<noteq> None then dget raw ''id''
     else if k \<in> set (ALLOWED_PARAMS (py_str R (dget_or raw ''type'' (PStr [])))) then dget raw k
     else None)"
proof -
  let ?a = "py_str R (dget_or raw ''type'' (PStr []))"
  let ?al = "ALLOWED_PARAMS ?a"
  have keep: "dget (keep_params ?al raw []) k = (if k \<in> set ?al then dget raw k else None)"
    using allowed_public [of k ?a] key_lookup [of "PStr k" raw]
    by (auto simp: dget_def keep_params_lookup [OF assms])
  show ?thesis
    by (auto simp: normalize_params Let_def dict_simps keep split: option.splits)
qed

text \<open>What the executor receives: the type, a truthy identifier, and the allowed parameters.\<close>

lemma step_lookup:
  assumes "dict_ok raw" "k \<noteq> ''type''" "k \<noteq> ''id''"
  shows "dget (proposal_to_step (normalize_step R now raw i c b)) k =
    (if k \<in> set (ALLOWED_PARAMS (py_str R (dget_or raw ''type'' (PStr [])))) then dget raw k else None)"
proof -
  let ?p = "normalize_step R now raw i c b"
  have ok: "dict_ok (pr_params ?p)" by (rule dict_ok_normalize)
  have "dget (proposal_to_step ?p) k =
      (if public_key (PStr k) \<and> PStr k \<in> fst ` set (pr_params ?p)
       then dget (pr_params ?p) k else None)"
    using assms(2,3)
    by (auto simp: dget_def proposal_to_step_def Let_def put_params_lookup [OF ok] dput_def map_of_update)
  also have "\<dots> = (if public_key (PStr k) then dget (pr_params ?p) k else None)"
    using key_lookup [of "PStr k" "pr_params ?p"] by (auto simp: dget_def)
  also have "\<dots> = (if k \<in> set (ALLOWED_PARAMS (py_str R (dget_or raw ''type'' (PStr [])))) then dget raw k else None)"
    using allowed_public [of k "py_str R (dget_or raw ''type'' (PStr []))"]
    by (auto simp: normalize_lookup [OF assms(1)] startswith_def)
  finally show ?thesis .
qed

section \<open>Properties\<close>

text \<open>The executor sees only what the registry allows. Whatever a planner puts into a raw step, the
  step rebuilt from the normalised proposal has, beside its type and identifier, a parameter only
  if the tool's specification allows it, and then with the planner's value; every allowed parameter
  the planner gave is there.\<close>

theorem executor_sees_allowed_params:
  assumes "dict_ok raw" "k \<noteq> ''type''" "k \<noteq> ''id''"
  shows "dget (proposal_to_step (normalize_step R now raw i c b)) k = Some v \<longleftrightarrow>
    (\<exists>spec. map_of CANONICAL_TOOLS (py_str R (dget_or raw ''type'' (PStr []))) = Some spec
       \<and> k \<in> set (ts_allowed_params spec) \<and> dget raw k = Some v)"
  by (auto simp: step_lookup [OF assms] in_allowed_iff)

theorem executor_sees_allowed_params_witness:
  "dget (proposal_to_step (normalize_step toy_runtime 0
     [(PStr ''type'', PStr ''read_file''), (PStr ''sudo'', PBool True)] [] [] [])) ''sudo'' \<noteq> Some (PBool True)"
proof -
  have "dict_ok [(PStr ''type'', PStr ''read_file''), (PStr ''sudo'', PBool True)]" by (simp add: dict_ok_def)
  from executor_sees_allowed_params [OF this, of "''sudo''" toy_runtime 0 "[]" "[]" "[]" "PBool True"]
  show ?thesis by (auto simp: CANONICAL_TOOLS_def tool_defaults_def)
qed

end
