(* ===== verification/Validate.thy ===== *)
theory Validate
  imports Kernel_State
begin

text \<open>
  The first gate of the kernel, \<open>rfsn_kernel/validate.py\<close>: the diff inspection it shares between its
  checks, and \<open>validate\<close> with one definition per kind of action. The values a planner controls are
  untyped, so every conversion of the code that can raise does so in the model.
\<close>

datatype vcode =
    UNKNOWN_ACTION | TOOL_DISABLED | UNSAFE_TOOL_BLOCKED | SAFETY_LOCKED | STEP_BUDGET_EXHAUSTED
  | PATTERN_TOO_LONG | MISSING_PATH | PATH_TRAVERSAL | PATH_BLOCKED_BY_POLICY
  | READ_RANGE_TOO_LARGE | INVALID_DEPTH | EMPTY_PATCH | PATCH_TOO_MANY_FILES
  | PATCH_TOO_MANY_ADDED | PATCH_TOO_MANY_DELETED | PATCH_TOO_LARGE | FORBID_TEST_EDITS
  | FORBID_CI_EDITS | FORBID_DEP_MANIFEST_EDITS | PATCH_CONTENT_BANNED | UNKNOWN_TEST_TEMPLATE
  | MISSING_TEST_TEMPLATE | MISSING_TEMPLATE | UNKNOWN_COMMAND_TEMPLATE | INVALID_WORKDIR_ID
  | FORMAT_FIX_TEMPLATE_REQUIRED

text \<open>The string a code is in the program.\<close>

primrec vcode_name :: "vcode \<Rightarrow> string" where
  "vcode_name UNKNOWN_ACTION = ''UNKNOWN_ACTION''"
| "vcode_name TOOL_DISABLED = ''TOOL_DISABLED''"
| "vcode_name UNSAFE_TOOL_BLOCKED = ''UNSAFE_TOOL_BLOCKED''"
| "vcode_name SAFETY_LOCKED = ''SAFETY_LOCKED''"
| "vcode_name STEP_BUDGET_EXHAUSTED = ''STEP_BUDGET_EXHAUSTED''"
| "vcode_name PATTERN_TOO_LONG = ''PATTERN_TOO_LONG''"
| "vcode_name MISSING_PATH = ''MISSING_PATH''"
| "vcode_name PATH_TRAVERSAL = ''PATH_TRAVERSAL''"
| "vcode_name PATH_BLOCKED_BY_POLICY = ''PATH_BLOCKED_BY_POLICY''"
| "vcode_name READ_RANGE_TOO_LARGE = ''READ_RANGE_TOO_LARGE''"
| "vcode_name INVALID_DEPTH = ''INVALID_DEPTH''"
| "vcode_name EMPTY_PATCH = ''EMPTY_PATCH''"
| "vcode_name PATCH_TOO_MANY_FILES = ''PATCH_TOO_MANY_FILES''"
| "vcode_name PATCH_TOO_MANY_ADDED = ''PATCH_TOO_MANY_ADDED''"
| "vcode_name PATCH_TOO_MANY_DELETED = ''PATCH_TOO_MANY_DELETED''"
| "vcode_name PATCH_TOO_LARGE = ''PATCH_TOO_LARGE''"
| "vcode_name FORBID_TEST_EDITS = ''FORBID_TEST_EDITS''"
| "vcode_name FORBID_CI_EDITS = ''FORBID_CI_EDITS''"
| "vcode_name FORBID_DEP_MANIFEST_EDITS = ''FORBID_DEP_MANIFEST_EDITS''"
| "vcode_name PATCH_CONTENT_BANNED = ''PATCH_CONTENT_BANNED''"
| "vcode_name UNKNOWN_TEST_TEMPLATE = ''UNKNOWN_TEST_TEMPLATE''"
| "vcode_name MISSING_TEST_TEMPLATE = ''MISSING_TEST_TEMPLATE''"
| "vcode_name MISSING_TEMPLATE = ''MISSING_TEMPLATE''"
| "vcode_name UNKNOWN_COMMAND_TEMPLATE = ''UNKNOWN_COMMAND_TEMPLATE''"
| "vcode_name INVALID_WORKDIR_ID = ''INVALID_WORKDIR_ID''"
| "vcode_name FORMAT_FIX_TEMPLATE_REQUIRED = ''FORMAT_FIX_TEMPLATE_REQUIRED''"

type_synonym verror = "vcode \<times> string"

record validation_result =
  val_ok :: bool
  val_errors :: "verror list"

definition result_of :: "verror list \<Rightarrow> validation_result" where
  "result_of errs = \<lparr>val_ok = (errs = []), val_errors = errs\<rparr>"

section \<open>Tables\<close>

definition VALID_ACTIONS :: "string list" where
  "VALID_ACTIONS = CANONICAL_TOOL_NAMES"

definition UNSAFE_TOOLS :: "string list" where
  "UNSAFE_TOOLS = map fst (filter (\<lambda>(n, s). \<not> ts_safe s) CANONICAL_TOOLS)"

definition DISABLED_TOOLS :: "string list" where
  "DISABLED_TOOLS = map fst (filter (\<lambda>(n, s). \<not> ts_enabled s) CANONICAL_TOOLS)"

text \<open>Each ban with its source text for the message; \<open>esc\<close> writes a backslash in front.\<close>

definition esc :: "string \<Rightarrow> string" where
  "esc s = backslash # s"

definition BANNED_PATCH_PATTERNS :: "(string \<times> rx_atom list) list" where
  "BANNED_PATCH_PATTERNS =
    [(''pytest'' @ esc ''.skip'', map Lit ''pytest.skip''),
     (''unittest'' @ esc ''.skip'', map Lit ''unittest.skip''),
     (''@skip'', map Lit ''@skip''),
     (''@pytest'' @ esc ''.mark'' @ esc ''.skip'', map Lit ''@pytest.mark.skip''),
     (''xfail'', map Lit ''xfail''),
     (''remove'' @ esc ''s+test'', map Lit ''remove'' @ Spaces1 # map Lit ''test''),
     (''disable'' @ esc ''s+test'', map Lit ''disable'' @ Spaces1 # map Lit ''test''),
     (''__import__'' @ esc ''s*'' @ esc ''('', map Lit ''__import__'' @ [Spaces0, Lit (CHR ''('')]),
     (''eval'' @ esc ''s*'' @ esc ''('', map Lit ''eval'' @ [Spaces0, Lit (CHR ''('')]),
     (''exec'' @ esc ''s*'' @ esc ''('', map Lit ''exec'' @ [Spaces0, Lit (CHR ''('')]),
     (''subprocess'' @ esc ''.'', map Lit ''subprocess.''),
     (''os'' @ esc ''.system'' @ esc ''('', map Lit ''os.system('')]"

definition DEP_MANIFESTS :: "string list" where
  "DEP_MANIFESTS =
    [''pyproject.toml'', ''poetry.lock'', ''requirements.txt'', ''requirements-dev.txt'',
     ''requirements.in'', ''constraints.txt'', ''setup.py'', ''setup.cfg'', ''pipfile'',
     ''pipfile.lock'', ''package.json'', ''package-lock.json'', ''yarn.lock'',
     ''pnpm-lock.yaml'', ''go.mod'', ''go.sum'', ''cargo.toml'', ''cargo.lock'']"

section \<open>Paths and diffs\<close>

definition norm_path :: "string \<Rightarrow> string" where
  "norm_path s = lstrip_char slash (drop_dot_slash (replace_char backslash slash s))"

definition read_prefix_hit :: "runtime \<Rightarrow> string \<Rightarrow> pyval \<Rightarrow> bool" where
  "read_prefix_hit R npath pref =
     (let p = norm_path (py_str R (py_or pref (PStr []))) in p \<noteq> [] \<and> startswith npath p)"

definition read_suffix_hit :: "runtime \<Rightarrow> string \<Rightarrow> pyval \<Rightarrow> bool" where
  "read_suffix_hit R npath suff =
     (let s = py_str R (py_or suff (PStr [])) in s \<noteq> [] \<and> endswith npath s)"

definition blocked_read_path :: "runtime \<Rightarrow> string \<Rightarrow> pydict \<Rightarrow> bool res" where
  "blocked_read_path R path policy =
     (let npath = norm_path path;
          prefixes = py_or (dget_or policy ''blocked_read_prefixes'' (PList [])) (PList []);
          suffixes = py_or (dget_or policy ''blocked_read_suffixes'' (PList [])) (PList [])
      in ebind (py_iter prefixes) (\<lambda>ps.
           if \<exists>p \<in> set ps. read_prefix_hit R npath p then Inr True
           else ebind (py_iter suffixes) (\<lambda>ss. Inr (\<exists>s \<in> set ss. read_suffix_hit R npath s))))"

definition strip_ab :: "string \<Rightarrow> string" where
  "strip_ab p = lstrip_char slash (if startswith p ''a/'' \<or> startswith p ''b/'' then drop 2 p else p)"

text \<open>The paths one line of the patch adds to \<open>touched\<close>.\<close>

definition line_touched :: "string \<Rightarrow> string list" where
  "line_touched raw =
     (let line = strip raw
      in if startswith line ''diff --git '' then
           (let parts = split_words line
            in if length parts \<ge> 4
               then filter (\<lambda>p. p \<noteq> [] \<and> p \<noteq> ''/dev/null'') (map strip_ab [parts ! 2, parts ! 3])
               else [])
         else if startswith line ''+++ '' \<or> startswith line ''--- '' then
           (let parts = split_once line
            in if length parts \<noteq> 2 then []
               else let p = strip (parts ! 1)
                    in if p \<in> {''a/dev/null'', ''b/dev/null'', ''/dev/null''} then []
                       else if strip_ab p \<noteq> [] then [strip_ab p] else [])
         else [])"

text \<open>The set of touched paths, in order of first occurrence.\<close>

definition patch_touched_paths :: "string \<Rightarrow> string list" where
  "patch_touched_paths patch = dedupe (concat (map line_touched (splitlines patch)))"

definition diff_header :: "string \<Rightarrow> bool" where
  "diff_header line \<longleftrightarrow>
     startswith line ''diff --git '' \<or> startswith line ''+++ '' \<or> startswith line ''--- ''
     \<or> startswith line ''@@''"

fun diff_line_stats_loop :: "string list \<Rightarrow> int \<times> int \<times> int \<Rightarrow> int \<times> int \<times> int" where
  "diff_line_stats_loop [] st = st"
| "diff_line_stats_loop (line # rest) (added, deleted, changed) =
     diff_line_stats_loop rest
       (if diff_header line then (added, deleted, changed)
        else if startswith line ''+'' then (added + 1, deleted, changed + 1)
        else if startswith line ''-'' then (added, deleted + 1, changed + 1)
        else (added, deleted, changed))"

definition diff_line_stats :: "string \<Rightarrow> int \<times> int \<times> int" where
  "diff_line_stats patch = diff_line_stats_loop (splitlines patch) (0, 0, 0)"

definition posix_path :: "string \<Rightarrow> string" where
  "posix_path path = lstrip_char slash (replace_char backslash slash path)"

definition is_test_path :: "string \<Rightarrow> bool" where
  "is_test_path path \<longleftrightarrow>
     (let p = posix_path path
      in startswith p ''tests/'' \<or> occurs_in ''/tests/'' (slash # p) \<or> startswith p ''test/''
         \<or> endswith p ''_test.py'' \<or> endswith p ''test.py'')"

definition is_ci_path :: "string \<Rightarrow> bool" where
  "is_ci_path path \<longleftrightarrow>
     (let p = posix_path path
      in startswith p ''.github/workflows/'' \<or> startswith p ''ci/'' \<or> startswith p ''scripts/'')"

definition is_dep_manifest :: "string \<Rightarrow> bool" where
  "is_dep_manifest path \<longleftrightarrow> lower (last (split_char slash (posix_path path))) \<in> set DEP_MANIFESTS"

text \<open>The added lines the content bans look at, joined to one text.\<close>

definition plus_blob :: "string \<Rightarrow> string" where
  "plus_blob patch =
     join [CHR 0x0A] (map tl (filter (\<lambda>l. startswith l ''+'' \<and> \<not> startswith l ''+++'') (splitlines patch)))"

section \<open>Checks per kind of action\<close>

definition err :: "bool \<Rightarrow> vcode \<Rightarrow> string \<Rightarrow> verror list" where
  "err b c m = (if b then [(c, m)] else [])"

definition check_search :: "pydict \<Rightarrow> verror list res" where
  "check_search params =
     ebind (py_len (dget_or params ''pattern'' (PStr []))) (\<lambda>n.
       Inr (err (n > 500) PATTERN_TOO_LONG ''Search pattern > 500 chars''))"

definition check_read_path :: "runtime \<Rightarrow> string \<Rightarrow> pydict \<Rightarrow> pydict \<Rightarrow> verror list res" where
  "check_read_path R action params policy =
     (let path = dget_or params ''path'' (PStr [])
      in if \<not> truthy path then Inr [(MISSING_PATH, action @ '' requires path'')]
         else ebind (py_contains_str ''..'' path) (\<lambda>dots.
              ebind (if dots then Inr True else ebind (as_str path) (\<lambda>s. Inr (startswith s ''/''))) (\<lambda>bad.
                if bad then Inr [(PATH_TRAVERSAL, ''Unsafe path: '' @ py_str R path)]
                else ebind (as_str path) (\<lambda>s.
                     ebind (blocked_read_path R s policy) (\<lambda>blocked.
                       Inr (err blocked PATH_BLOCKED_BY_POLICY
                              (''Path blocked by read policy: '' @ py_str R path)))))))"

definition check_read_range :: "runtime \<Rightarrow> pydict \<Rightarrow> pydict \<Rightarrow> verror list res" where
  "check_read_range R params policy =
     ebind (check_read_path R ''repo_read_range'' params policy) (\<lambda>errs.
     ebind (py_int (dget_or params ''line_start'' (PInt 1))) (\<lambda>ls.
     ebind (py_int (dget_or params ''line_end'' (PInt ls))) (\<lambda>le.
     ebind (dget_int policy ''max_lines_per_read'' 300) (\<lambda>max_lpr.
       Inr (errs @ err (le - ls + 1 > max_lpr) READ_RANGE_TOO_LARGE
              (int_str (le - ls + 1) @ '' lines > '' @ int_str max_lpr))))))"

definition check_depth :: "pydict \<Rightarrow> verror list res" where
  "check_depth params =
     ebind (py_int (dget_or params ''max_depth'' (PInt 4))) (\<lambda>depth.
       Inr (err (depth < 1 \<or> depth > 8) INVALID_DEPTH (''max_depth out of bounds: '' @ int_str depth)))"

definition check_patch_limits :: "string \<Rightarrow> pydict \<Rightarrow> verror list res" where
  "check_patch_limits patch policy =
     (let touched = patch_touched_paths patch; n = int (length touched)
      in ebind (dget_int0 policy ''max_patch_files'') (\<lambda>max_files.
         ebind (dget_int0 policy ''max_patch_total_lines'') (\<lambda>max_total.
         ebind (dget_int0 policy ''max_added_lines'') (\<lambda>max_added.
         ebind (dget_int0 policy ''max_deleted_lines'') (\<lambda>max_deleted.
           let (added, deleted, changed) = diff_line_stats patch
           in Inr (err (max_files > 0 \<and> n > max_files) PATCH_TOO_MANY_FILES
                     (''Patch touches '' @ int_str n @ '' files > '' @ int_str max_files)
                 @ err (max_added > 0 \<and> added > max_added) PATCH_TOO_MANY_ADDED
                     (''Patch adds '' @ int_str added @ '' lines > '' @ int_str max_added)
                 @ err (max_deleted > 0 \<and> deleted > max_deleted) PATCH_TOO_MANY_DELETED
                     (''Patch deletes '' @ int_str deleted @ '' lines > '' @ int_str max_deleted)
                 @ err (max_total > 0 \<and> changed > max_total) PATCH_TOO_LARGE
                     (''Patch changes '' @ int_str changed @ '' lines > '' @ int_str max_total)))))))"

definition check_patch_paths :: "string \<Rightarrow> pydict \<Rightarrow> verror list" where
  "check_patch_paths patch policy =
     (let touched = patch_touched_paths patch; flag = (\<lambda>key. truthy (dget_or policy key (PBool False)))
      in err (flag ''forbid_test_edits'' \<and> (\<exists>p \<in> set touched. is_test_path p)) FORBID_TEST_EDITS
           ''Patch touches test paths while forbid_test_edits=true''
       @ err (flag ''forbid_ci_edits'' \<and> (\<exists>p \<in> set touched. is_ci_path p)) FORBID_CI_EDITS
           ''Patch touches CI paths while forbid_ci_edits=true''
       @ err (flag ''forbid_dep_manifest_edits'' \<and> (\<exists>p \<in> set touched. is_dep_manifest p))
           FORBID_DEP_MANIFEST_EDITS
           ''Patch touches dependency manifests while forbid_dep_manifest_edits=true'')"

definition check_patch_content :: "string \<Rightarrow> verror list" where
  "check_patch_content patch =
     concat (map (\<lambda>(pat, rx). err (rx_search rx (plus_blob patch)) PATCH_CONTENT_BANNED
                                  (''Banned pattern: '' @ pat)) BANNED_PATCH_PATTERNS)"

definition check_patch :: "pydict \<Rightarrow> pydict \<Rightarrow> verror list res" where
  "check_patch params policy =
     ebind (as_str (py_or (dget_or params ''patch'' (PStr [])) (PStr []))) (\<lambda>patch.
       if strip patch = [] then Inr [(EMPTY_PATCH, ''apply_patch requires non-empty patch'')]
       else ebind (check_patch_limits patch policy) (\<lambda>limits.
              Inr (limits @ check_patch_paths patch policy @ check_patch_content patch)))"

text \<open>\<open>allowed\<close> restricts only when it is a non-empty list; hashing a container raises.\<close>

definition check_test_template :: "runtime \<Rightarrow> pydict \<Rightarrow> pydict \<Rightarrow> verror list res" where
  "check_test_template R params policy =
     (let tmpl = dget_or params ''template_id'' PNone;
          unknown = (UNKNOWN_TEST_TEMPLATE,
             ''template_id must be in allowed_test_templates; got '' @ rt_repr R tmpl)
      in case dget_or policy ''allowed_test_templates'' PNone of
           PList (x # xs) \<Rightarrow>
             (if \<not> truthy tmpl then Inr [unknown]
              else case tmpl of
                     PList _ \<Rightarrow> Inl TypeError
                   | PDict _ \<Rightarrow> Inl TypeError
                   | _ \<Rightarrow> Inr (if tmpl \<in> PStr ` set (map (py_str R) (x # xs)) then [] else [unknown]))
         | _ \<Rightarrow> Inr (err (\<not> truthy tmpl) MISSING_TEST_TEMPLATE ''run_tests requires template_id''))"

definition valid_workdir_id :: "string \<Rightarrow> bool" where
  "valid_workdir_id w \<longleftrightarrow>
     startswith w ''workdir_'' \<and> drop 8 w \<noteq> [] \<and> (\<forall>c \<in> set (drop 8 w). is_digit c)"

definition check_command :: "runtime \<Rightarrow> string \<Rightarrow> pydict \<Rightarrow> pydict \<Rightarrow> verror list" where
  "check_command R action params policy =
     (let tmpl = strip (py_str R (py_or (dget_or params ''template'' (PStr [])) (PStr [])));
          wid = py_str R (py_or (dget_or params ''workdir_id'' (PStr [])) (PStr []));
          unknown = (case dget_or policy ''allowed_command_templates'' PNone of
                       PList (x # xs) \<Rightarrow> tmpl \<notin> set (map (py_str R) (x # xs))
                     | _ \<Rightarrow> False)
      in err (tmpl = []) MISSING_TEMPLATE (action @ '' requires template'')
       @ err unknown UNKNOWN_COMMAND_TEMPLATE (''Unknown command template: '' @ tmpl)
       @ err (wid \<noteq> [] \<and> \<not> valid_workdir_id wid) INVALID_WORKDIR_ID (''Invalid workdir_id: '' @ wid)
       @ err (action = ''format_fix'' \<and> tmpl \<noteq> [] \<and> \<not> endswith tmpl ''_fix'')
           FORMAT_FIX_TEMPLATE_REQUIRED ''format_fix requires a *_fix template'')"

definition check_action :: "runtime \<Rightarrow> proposal \<Rightarrow> pydict \<Rightarrow> verror list res" where
  "check_action R p policy =
     (let a = pr_action p; params = pr_params p
      in if a = ''repo_search'' then check_search params
         else if a = ''repo_read_range'' then check_read_range R params policy
         else if a = ''read_file'' then check_read_path R ''read_file'' params policy
         else if a = ''detect_workdirs'' then check_depth params
         else if a = ''apply_patch'' then check_patch params policy
         else if a = ''run_tests'' then check_test_template R params policy
         else if a = ''run_cmd_template'' \<or> a = ''format_fix'' then Inr (check_command R a params policy)
         else Inr [])"

section \<open>validate\<close>

text \<open>Names in single quotes; the dash of the lockdown message is written as a comma.\<close>

definition quoted :: "string \<Rightarrow> string" where
  "quoted s = CHR 0x27 # s @ [CHR 0x27]"

definition unsafe_allowed :: "runtime \<Rightarrow> string \<Rightarrow> pydict \<Rightarrow> bool res" where
  "unsafe_allowed R action policy =
     ebind (py_iter (py_or (dget_or policy ''allow_unsafe_tools'' PNone) (PList []))) (\<lambda>ts.
       Inr (action \<in> set (map (py_str R) ts)))"

definition validate :: "runtime \<Rightarrow> proposal \<Rightarrow> system_state \<Rightarrow> pydict \<Rightarrow> validation_result res" where
  "validate R p s policy =
     (let a = pr_action p
      in if a \<notin> set VALID_ACTIONS
         then Inr (result_of [(UNKNOWN_ACTION, ''Unknown action: '' @ a)])
         else if a \<in> set DISABLED_TOOLS
         then Inr (result_of [(TOOL_DISABLED, ''Tool '' @ quoted a @
                '' is disabled in the canonical registry and cannot be used until it is re-enabled.'')])
         else ebind (if a \<in> set UNSAFE_TOOLS then unsafe_allowed R a policy else Inr True) (\<lambda>safe.
           if \<not> safe
           then Inr (result_of [(UNSAFE_TOOL_BLOCKED, ''Tool '' @ quoted a @
                  '' is not safe and is not listed in policy allow_unsafe_tools'')])
           else if st_safety_level s \<ge> 2
           then Inr (result_of [(SAFETY_LOCKED, ''System is in safety lockdown, no execution allowed'')])
           else ebind (dget_int policy ''max_total_steps'' 100) (\<lambda>max_steps.
             if st_step_count s \<ge> max_steps
             then Inr (result_of [(STEP_BUDGET_EXHAUSTED,
                    ''Total steps '' @ int_str (st_step_count s) @ '' >= '' @ int_str max_steps)])
             else ebind (check_action R p policy) (\<lambda>errs. Inr (result_of errs)))))"

section \<open>What a passed validation means\<close>

text \<open>The outcomes of \<open>validate\<close> for the callers, and for the per-action checks.\<close>

lemma val_ok_result_of [simp]: "val_ok (result_of errs) \<longleftrightarrow> errs = []"
  by (simp add: result_of_def)

lemma err_Nil_iff [simp]: "err b c m = [] \<longleftrightarrow> \<not> b"
  by (simp add: err_def)

lemma valid_actions_eq: "VALID_ACTIONS = map fst CANONICAL_TOOLS"
  by (simp add: VALID_ACTIONS_def CANONICAL_TOOL_NAMES_def)

lemma disabled_tools_eq: "DISABLED_TOOLS = [''apply_semantic_patch'', ''trace_execution'']"
  by (simp add: DISABLED_TOOLS_def CANONICAL_TOOLS_def tool_defaults_def)

lemma enabled_iff: "a \<in> set ENABLED_TOOL_NAMES \<longleftrightarrow> a \<in> set VALID_ACTIONS \<and> a \<notin> set DISABLED_TOOLS"
  by (auto simp: valid_actions_eq disabled_tools_eq enabled_tools_eq CANONICAL_TOOLS_def)

text \<open>No tool is enabled and unsafe, so the policy's list of unsafe tools never decides anything.\<close>

lemma unsafe_tools_disabled: "set UNSAFE_TOOLS \<subseteq> set DISABLED_TOOLS"
  by (simp add: UNSAFE_TOOLS_def disabled_tools_eq CANONICAL_TOOLS_def tool_defaults_def)

lemma validate_ok_iff:
  "(\<exists>v. validate R p s policy = Inr v \<and> val_ok v) \<longleftrightarrow>
     pr_action p \<in> set ENABLED_TOOL_NAMES \<and> st_safety_level s < 2
     \<and> (\<exists>m. dget_int policy ''max_total_steps'' 100 = Inr m \<and> st_step_count s < m)
     \<and> check_action R p policy = Inr []"
  using unsafe_tools_disabled
  by (cases "dget_int policy ''max_total_steps'' 100"; cases "check_action R p policy")
     (auto simp: validate_def Let_def enabled_iff subset_iff not_le)

lemma validate_okD:
  assumes "validate R p s policy = Inr v" "val_ok v"
  shows "pr_action p \<in> set ENABLED_TOOL_NAMES" "st_safety_level s < 2"
    "\<exists>m. dget_int policy ''max_total_steps'' 100 = Inr m \<and> st_step_count s < m"
    "check_action R p policy = Inr []"
  using assms validate_ok_iff [of R p s policy] by blast+

text \<open>The path an accepted read reads.\<close>

lemma check_read_path_ok:
  assumes "check_read_path R a params policy = Inr []"
  shows "\<exists>path. dget params ''path'' = Some (PStr path) \<and> path \<noteq> [] \<and> \<not> occurs_in ''..'' path
           \<and> \<not> startswith path ''/'' \<and> blocked_read_path R path policy = Inr False"
proof -
  let ?v = "dget_or params ''path'' (PStr [])"
  obtain path where v: "?v = PStr path" and "path \<noteq> []" "\<not> occurs_in ''..'' path"
      "\<not> startswith path ''/''" "blocked_read_path R path policy = Inr False"
    using assms by (cases ?v) (auto simp: check_read_path_def Let_def split: if_splits)
  moreover from v \<open>path \<noteq> []\<close> have "dget params ''path'' = Some (PStr path)"
    by (auto simp: dget_or_def split: option.splits)
  ultimately show ?thesis by blast
qed

text \<open>The patch an accepted \<open>apply_patch\<close> carries.\<close>

lemma check_patch_ok:
  assumes "check_patch params policy = Inr []"
  shows "\<exists>patch. dget params ''patch'' = Some (PStr patch) \<and> strip patch \<noteq> []
           \<and> check_patch_limits patch policy = Inr [] \<and> check_patch_paths patch policy = []
           \<and> check_patch_content patch = []"
proof -
  let ?v = "dget_or params ''patch'' (PStr [])"
  obtain patch where p: "py_or ?v (PStr []) = PStr patch" and ne: "strip patch \<noteq> []"
      and ok: "check_patch_limits patch policy = Inr []" "check_patch_paths patch policy = []"
        "check_patch_content patch = []"
    using assms by (cases "py_or ?v (PStr [])") (auto simp: check_patch_def split: if_splits)
  from ne have "patch \<noteq> []" by (auto simp: strip_def)
  with p have "dget params ''patch'' = Some (PStr patch)"
    by (auto simp: py_or_def dget_or_def split: if_splits option.splits)
  with ne ok show ?thesis by blast
qed

lemma check_patch_limits_ok:
  assumes "check_patch_limits patch policy = Inr []"
    and "diff_line_stats patch = (added, deleted, changed)"
  shows "\<exists>mf mt ma md. dget_int0 policy ''max_patch_files'' = Inr mf
      \<and> dget_int0 policy ''max_patch_total_lines'' = Inr mt
      \<and> dget_int0 policy ''max_added_lines'' = Inr ma \<and> dget_int0 policy ''max_deleted_lines'' = Inr md
      \<and> (0 < mf \<longrightarrow> int (length (patch_touched_paths patch)) \<le> mf)
      \<and> (0 < mt \<longrightarrow> changed \<le> mt) \<and> (0 < ma \<longrightarrow> added \<le> ma) \<and> (0 < md \<longrightarrow> deleted \<le> md)"
  using assms by (auto simp: check_patch_limits_def Let_def not_less)

lemma check_patch_content_ok:
  "check_patch_content patch = [] \<Longrightarrow> (pat, rx) \<in> set BANNED_PATCH_PATTERNS \<Longrightarrow>
   \<not> rx_search rx (plus_blob patch)"
  by (auto simp: check_patch_content_def)

text \<open>Regular-expression search on literals is substring search up to case.\<close>

lemma rx_at_literal: "rx_at (map Lit w) s \<longleftrightarrow> prefix (lower w) (lower s)"
proof (induction w arbitrary: s)
  case Nil
  then show ?case by (simp add: lower_def)
next
  case (Cons c w)
  then show ?case by (cases s) (auto simp: lower_def)
qed

lemma rx_search_literal: "rx_search (map Lit w) s \<longleftrightarrow> occurs_in (lower w) (lower s)"
  by (induction s) (auto simp: rx_at_literal, auto simp: lower_def)

section \<open>Properties\<close>

text \<open>A tool that is disabled in the registry never passes validation, whatever its parameters, the
  system state and the policy, even one that lists the tool under \<open>allow_unsafe_tools\<close>.\<close>

theorem disabled_tool_never_valid:
  assumes "pr_action p \<in> set DISABLED_TOOLS"
  shows "\<exists>v. validate R p s policy = Inr v \<and> \<not> val_ok v"
  using assms by (auto simp: validate_def Let_def result_of_def)

theorem disabled_tool_never_valid_witness:
  "\<exists>v. validate toy_runtime \<lparr>pr_action = ''trace_execution'', pr_params = [], pr_context_hash = [], pr_planner_hash = [],
       pr_timestamp = 0, pr_intent = [], pr_bundle_id = []\<rparr> initial_state
     [(PStr ''allow_unsafe_tools'', PList [PStr ''trace_execution''])] = Inr v \<and> \<not> val_ok v"
  by (rule disabled_tool_never_valid) (simp add: disabled_tools_eq)

text \<open>An accepted read stays inside the repository. When \<open>validate\<close> accepts a \<open>read_file\<close> or
  \<open>repo_read_range\<close> proposal, its path is a non-empty string that is relative and has no \<open>..\<close>, and the
  read policy does not block it.\<close>

theorem accepted_read_is_safe:
  assumes "validate R p s policy = Inr v" "val_ok v" "pr_action p \<in> {''read_file'', ''repo_read_range''}"
  shows "\<exists>path. dget (pr_params p) ''path'' = Some (PStr path) \<and> path \<noteq> [] \<and> \<not> occurs_in ''..'' path
    \<and> \<not> startswith path ''/'' \<and> blocked_read_path R path policy = Inr False"
proof -
  have "check_action R p policy = Inr []" using validate_okD(4) [OF assms(1,2)] .
  with assms(3) obtain a where "check_read_path R a (pr_params p) policy = Inr []"
    by (auto simp: check_action_def check_read_range_def Let_def)
  then show ?thesis by (rule check_read_path_ok)
qed

definition read_proposal :: proposal where
  "read_proposal = \<lparr>pr_action = ''read_file'', pr_params = [(PStr ''path'', PStr ''a.py'')],
     pr_context_hash = [], pr_planner_hash = [], pr_timestamp = 0, pr_intent = [], pr_bundle_id = []\<rparr>"

theorem accepted_read_is_safe_witness: "blocked_read_path toy_runtime ''a.py'' [] = Inr False"
proof -
  have v: "validate toy_runtime read_proposal initial_state [] = Inr \<lparr>val_ok = True, val_errors = []\<rparr>" by code_simp
  from accepted_read_is_safe [OF v] show ?thesis by (auto simp: read_proposal_def)
qed

text \<open>C7: an accepted patch respects the policy. When \<open>validate\<close> accepts an \<open>apply_patch\<close> proposal, its
  patch is a string that is not blank; every limit the policy sets (files, added, deleted and changed
  lines) holds for it; no added line matches a banned pattern; and where the policy forbids edits of
  tests, CI files or dependency manifests, no touched path is one.\<close>

theorem accepted_patch_is_safe:
  assumes "validate R p s policy = Inr v" "val_ok v" "pr_action p = ''apply_patch''"
  shows "\<exists>patch mf mt ma md added deleted changed.
      dget (pr_params p) ''patch'' = Some (PStr patch) \<and> strip patch \<noteq> []
    \<and> diff_line_stats patch = (added, deleted, changed)
    \<and> dget_int0 policy ''max_patch_files'' = Inr mf \<and> dget_int0 policy ''max_patch_total_lines'' = Inr mt
    \<and> dget_int0 policy ''max_added_lines'' = Inr ma \<and> dget_int0 policy ''max_deleted_lines'' = Inr md
    \<and> (0 < mf \<longrightarrow> int (length (patch_touched_paths patch)) \<le> mf)
    \<and> (0 < mt \<longrightarrow> changed \<le> mt) \<and> (0 < ma \<longrightarrow> added \<le> ma) \<and> (0 < md \<longrightarrow> deleted \<le> md)
    \<and> (\<forall>(pat, rx) \<in> set BANNED_PATCH_PATTERNS. \<not> rx_search rx (plus_blob patch))
    \<and> (truthy (dget_or policy ''forbid_test_edits'' (PBool False)) \<longrightarrow>
         (\<forall>f \<in> set (patch_touched_paths patch). \<not> is_test_path f))
    \<and> (truthy (dget_or policy ''forbid_ci_edits'' (PBool False)) \<longrightarrow>
         (\<forall>f \<in> set (patch_touched_paths patch). \<not> is_ci_path f))
    \<and> (truthy (dget_or policy ''forbid_dep_manifest_edits'' (PBool False)) \<longrightarrow>
         (\<forall>f \<in> set (patch_touched_paths patch). \<not> is_dep_manifest f))"
proof -
  have "check_action R p policy = Inr []" using validate_okD(4) [OF assms(1,2)] .
  with assms(3) have "check_patch (pr_params p) policy = Inr []" by (simp add: check_action_def Let_def)
  from check_patch_ok [OF this] obtain patch where patch:
    "dget (pr_params p) ''patch'' = Some (PStr patch)" "strip patch \<noteq> []"
    "check_patch_limits patch policy = Inr []" "check_patch_paths patch policy = []"
    "check_patch_content patch = []" by blast
  obtain added deleted changed where st: "diff_line_stats patch = (added, deleted, changed)"
    by (cases "diff_line_stats patch")
  from check_patch_limits_ok [OF patch(3) st] check_patch_content_ok [OF patch(5)] patch(1,2,4) st
  show ?thesis by (fastforce simp: check_patch_paths_def Let_def)
qed

definition small_patch :: string where
  "small_patch = ''--- a/m.py'' @ CHR 0x0A # ''+++ b/m.py'' @ CHR 0x0A # ''@@ -1 +1 @@'' @ CHR 0x0A # ''-x'' @ CHR 0x0A # ''+y''"

definition demo_patch_proposal :: proposal where
  "demo_patch_proposal = \<lparr>pr_action = ''apply_patch'', pr_params = [(PStr ''patch'', PStr small_patch)],
     pr_context_hash = [], pr_planner_hash = [], pr_timestamp = 0, pr_intent = [], pr_bundle_id = []\<rparr>"

theorem accepted_patch_is_safe_witness:
  "\<exists>added deleted changed. diff_line_stats small_patch = (added, deleted, changed) \<and> changed \<le> 2"
proof -
  let ?pol = "[(PStr ''max_patch_total_lines'', PInt 2)]"
  have v: "validate toy_runtime demo_patch_proposal initial_state ?pol = Inr \<lparr>val_ok = True, val_errors = []\<rparr>"
    by code_simp
  from accepted_patch_is_safe [OF v] show ?thesis
    by (auto simp: demo_patch_proposal_def dget_int0_def py_or_def)
qed

end
