(* ===== verification/Memory.thy ===== *)
theory Memory
  imports Py_Value
begin

text \<open>
  The memory immune system of \<open>rfsn_kernel/memory.py\<close>: admission (score, risk, contradiction,
  decision), decay, eviction, outcome feedback, quarantine, retrieval and persistence. One entry
  object can sit in the store, in the list of unsaved entries and among the axioms at once, and
  feedback mutates it in place, so entries live in a heap and the collections hold references.
\<close>

record memory_entry =
  me_content :: string
  me_source :: string
  me_entry_type :: string
  me_provenance_hash :: string
  me_quality_score :: rat
  me_risk_score :: rat
  me_contradiction_score :: rat
  me_access_count :: int
  me_success_count :: int
  me_failure_count :: int
  me_created_at :: rat
  me_last_accessed :: rat
  me_version :: int
  me_status :: string

type_synonym ref = nat

record memory_system =
  ms_quality_min :: rat
  ms_risk_max :: rat
  ms_contradiction_max :: rat
  ms_decay_rate :: rat
  ms_max_entries :: int
  ms_heap :: "ref \<Rightarrow> memory_entry"
  ms_next :: ref
  ms_store :: "(string \<times> ref) list"
  ms_core_axioms :: "(string \<times> ref) list"
  ms_quarantine :: "(string \<times> ref) list"
  ms_version :: int
  ms_unsaved :: "ref list"
  ms_needs_full_save :: bool

text \<open>\<open>__post_init__\<close>: the clock for a missing time, a digest for a missing provenance.\<close>

definition entry_post_init :: "runtime \<Rightarrow> rat \<Rightarrow> memory_entry \<Rightarrow> memory_entry" where
  "entry_post_init R now e =
     (let e1 = (if me_created_at e = 0 then e\<lparr>me_created_at := now\<rparr> else e);
          blob = me_content e1 @ ''|'' @ me_source e1 @ ''|'' @ rt_str R (PFloat (me_created_at e1))
      in if me_provenance_hash e1 = []
         then e1\<lparr>me_provenance_hash := take 16 (rt_sha256 R blob)\<rparr> else e1)"

definition word_set :: "string \<Rightarrow> string list" where
  "word_set s = remdups (split_words (lower s))"

definition entry_at :: "memory_system \<Rightarrow> ref \<Rightarrow> memory_entry" where
  "entry_at m r = ms_heap m r"

definition set_entry :: "ref \<Rightarrow> memory_entry \<Rightarrow> memory_system \<Rightarrow> memory_system" where
  "set_entry r e m = m\<lparr>ms_heap := (ms_heap m)(r := e)\<rparr>"

section \<open>Scores\<close>

definition quality_score :: "memory_entry \<Rightarrow> rat" where
  "quality_score e =
     (let s0 = 3 / 10;
          s1 = (if me_source e \<in> {''kernel'', ''learner'', ''test_result''} then s0 + 3 / 10
                else if me_source e \<in> {''planner'', ''llm''} then s0 + 1 / 10 else s0);
          n = me_success_count e + me_failure_count e;
          s2 = (if n > 0 then s1 + 3 / 10 * (of_int (me_success_count e) / of_int n) else s1);
          clen = length (me_content e);
          s3 = (if 10 < clen \<and> clen < 5000 then s2 + 1 / 10 else s2)
      in min 1 s3)"

definition negation_pairs :: "(string \<times> string) list" where
  "negation_pairs =
     [(''success'', ''failure''), (''passed'', ''failed''), (''fixed'', ''broken''),
      (''works'', ''broken''), (''correct'', ''incorrect'')]"

definition common_words :: "string \<Rightarrow> string \<Rightarrow> nat" where
  "common_words a b = length (filter (\<lambda>w. w \<in> set (split_words b)) (remdups (split_words a)))"

definition content_conflicts :: "string \<Rightarrow> string \<Rightarrow> bool" where
  "content_conflicts a b \<longleftrightarrow>
     (let al = lower a; bl = lower b
      in \<exists>(yes, no) \<in> set negation_pairs.
           (occurs_in yes al \<and> occurs_in no bl \<or> occurs_in no al \<and> occurs_in yes bl)
           \<and> common_words al bl \<ge> 3)"

definition risk_of_entry :: "memory_system \<Rightarrow> memory_entry \<Rightarrow> rat" where
  "risk_of_entry m e =
     (let n = me_success_count e + me_failure_count e;
          r1 = (if n \<ge> 3 then of_int (me_failure_count e) / of_int n * (1 / 2) else 0);
          clash = (\<exists>(k, a) \<in> set (ms_core_axioms m).
                     content_conflicts (me_content e) (me_content (entry_at m a)));
          r2 = (if clash then r1 + 4 / 10 else r1)
      in min 1 r2)"

definition contradiction_score :: "memory_system \<Rightarrow> memory_entry \<Rightarrow> rat" where
  "contradiction_score m e =
     (if ms_store m = [] then 0
      else let same = filter (\<lambda>x. me_entry_type x = me_entry_type e)
                        (map (\<lambda>(k, r). entry_at m r) (last_n 50 (ms_store m)));
               conflicts = filter (\<lambda>x. content_conflicts (me_content e) (me_content x)) same
           in if same = [] then 0 else of_nat (length conflicts) / of_nat (length same))"

section \<open>Eviction\<close>

text \<open>
  The scan for the weakest entry: axioms are skipped, a strictly smaller score replaces the
  candidate, a negative one ends the scan.
\<close>

fun find_weakest ::
    "(ref \<Rightarrow> memory_entry) \<Rightarrow> (string \<times> ref) list \<Rightarrow> (string \<times> rat) option \<Rightarrow> (string \<times> rat) option" where
  "find_weakest h [] best = best"
| "find_weakest h ((k, r) # rest) best =
     (if me_status (h r) = ''core'' then find_weakest h rest best
      else let score = me_quality_score (h r) - me_risk_score (h r)
           in if (case best of None \<Rightarrow> True | Some (_, b) \<Rightarrow> score < b)
              then if score < 0 then Some (k, score) else find_weakest h rest (Some (k, score))
              else find_weakest h rest best)"

definition evict_weakest :: "memory_system \<Rightarrow> memory_system" where
  "evict_weakest m =
     (case find_weakest (ms_heap m) (ms_store m) None of
        None \<Rightarrow> m
      | Some (k, _) \<Rightarrow> if k = [] then m
                      else m\<lparr>ms_store := AList.delete k (ms_store m), ms_needs_full_save := True\<rparr>)"

section \<open>Admission\<close>

datatype memory_decision = ADMIT | QUARANTINE | REJECT

record admission_result =
  ar_decision :: memory_decision
  ar_reason :: string
  ar_quality_score :: rat
  ar_risk_score :: rat
  ar_contradiction_score :: rat

definition admission :: "memory_decision \<Rightarrow> string \<Rightarrow> memory_entry \<Rightarrow> admission_result" where
  "admission d why e =
     \<lparr>ar_decision = d, ar_reason = why, ar_quality_score = me_quality_score e,
      ar_risk_score = me_risk_score e, ar_contradiction_score = me_contradiction_score e\<rparr>"

definition score_entry :: "memory_system \<Rightarrow> ref \<Rightarrow> memory_entry" where
  "score_entry m r =
     (let e = entry_at m r
      in e\<lparr>me_quality_score := quality_score e, me_risk_score := risk_of_entry m e,
           me_contradiction_score := contradiction_score m e\<rparr>)"

definition make_room :: "memory_system \<Rightarrow> memory_system" where
  "make_room m = (if int (length (ms_store m)) \<ge> ms_max_entries m then evict_weakest m else m)"

definition insert_active :: "ref \<Rightarrow> memory_system \<Rightarrow> memory_system" where
  "insert_active r m =
     (let e = (entry_at m r)\<lparr>me_status := ''active'', me_version := ms_version m\<rparr>
      in (set_entry r e m)
           \<lparr>ms_store := AList.update (me_provenance_hash e) r (ms_store m),
            ms_unsaved := ms_unsaved m @ [r], ms_version := ms_version m + 1\<rparr>)"

definition admit :: "runtime \<Rightarrow> ref \<Rightarrow> memory_system \<Rightarrow> admission_result \<times> memory_system" where
  "admit R r m =
     (let e = score_entry m r; m1 = set_entry r e m;
          q = me_quality_score e; rk = me_risk_score e; c = me_contradiction_score e;
          fx = rt_fixed R 2; fs = (\<lambda>x. rt_str R (PFloat x))
      in if rk > ms_risk_max m
         then (admission REJECT (''Risk too high: '' @ fx rk @ '' > '' @ fs (ms_risk_max m)) e, m1)
         else if c > ms_contradiction_max m
         then (admission QUARANTINE
                 (''Contradiction detected: '' @ fx c @ '' > '' @ fs (ms_contradiction_max m)) e,
               (set_entry r (e\<lparr>me_status := ''quarantined''\<rparr>) m1)
                 \<lparr>ms_quarantine := AList.update (me_provenance_hash e) r (ms_quarantine m1),
                  ms_version := ms_version m1 + 1\<rparr>)
         else if q < ms_quality_min m
         then (admission REJECT (''Quality too low: '' @ fx q @ '' < '' @ fs (ms_quality_min m)) e, m1)
         else (admission ADMIT ''admitted'' e, insert_active r (make_room m1)))"

section \<open>Management\<close>

definition protect_axiom :: "ref \<Rightarrow> memory_system \<Rightarrow> memory_system" where
  "protect_axiom r m =
     (let e = (entry_at m r)\<lparr>me_status := ''core''\<rparr>; k = me_provenance_hash e
      in (set_entry r e m)
           \<lparr>ms_core_axioms := AList.update k r (ms_core_axioms m),
            ms_store := AList.update k r (ms_store m)\<rparr>)"

definition stale :: "rat \<Rightarrow> rat \<Rightarrow> memory_entry \<Rightarrow> bool" where
  "stale now rate e \<longleftrightarrow>
     me_status e \<noteq> ''core''
     \<and> (let age = now - me_created_at e;
            idle = now - (if me_last_accessed e = 0 then me_created_at e else me_last_accessed e);
            factor = rate * (age / 3600) * (idle / 3600)
        in factor > 1 \<and> me_access_count e < 3 \<or> factor > 2)"

text \<open>The loop over the store: it marks stale entries and collects their keys.\<close>

fun decay_loop ::
    "rat \<Rightarrow> rat \<Rightarrow> (string \<times> ref) list \<Rightarrow> (ref \<Rightarrow> memory_entry) \<Rightarrow> string list
      \<Rightarrow> (ref \<Rightarrow> memory_entry) \<times> string list" where
  "decay_loop now rate [] h removed = (h, removed)"
| "decay_loop now rate ((k, r) # rest) h removed =
     (if stale now rate (h r)
      then decay_loop now rate rest (h(r := (h r)\<lparr>me_status := ''decayed''\<rparr>)) (removed @ [k])
      else decay_loop now rate rest h removed)"

definition decay :: "rat \<Rightarrow> memory_system \<Rightarrow> nat \<times> memory_system" where
  "decay now m =
     (let (h, removed) = decay_loop now (ms_decay_rate m) (ms_store m) (ms_heap m) [];
          m1 = m\<lparr>ms_heap := h, ms_store := foldl (\<lambda>d k. AList.delete k d) (ms_store m) removed\<rparr>
      in if removed = [] then (0, m1)
         else (length removed, m1\<lparr>ms_version := ms_version m + 1, ms_needs_full_save := True\<rparr>))"

text \<open>
  Feedback on an entry. The denominator \<open>1 + n / 10\<close> is positive for the counts the system keeps,
  which never fall below zero.
\<close>

definition feedback :: "bool \<Rightarrow> rat \<Rightarrow> memory_entry \<Rightarrow> memory_entry" where
  "feedback success now e =
     (let e1 = (if success then e\<lparr>me_success_count := me_success_count e + 1\<rparr>
                else e\<lparr>me_failure_count := me_failure_count e + 1\<rparr>);
          n = me_success_count e1 + me_failure_count e1;
          k_factor = max (5 / 100) (4 / 10 / (1 + of_int n * (1 / 10)));
          expected = me_quality_score e;
          actual = (if success then 1 else 0)
      in e1\<lparr>me_last_accessed := now, me_access_count := me_access_count e + 1,
            me_quality_score := max (1 / 100) (min 1 (expected + k_factor * (actual - expected)))\<rparr>)"

definition record_outcome :: "string \<Rightarrow> bool \<Rightarrow> rat \<Rightarrow> memory_system \<Rightarrow> memory_system" where
  "record_outcome key success now m =
     (case map_of (ms_store m) key of
        None \<Rightarrow> m
      | Some r \<Rightarrow> set_entry r (feedback success now (entry_at m r)) m)"

definition promote_quarantined :: "string \<Rightarrow> memory_system \<Rightarrow> bool \<times> memory_system" where
  "promote_quarantined key m =
     (case map_of (ms_quarantine m) key of
        None \<Rightarrow> (False, m)
      | Some r \<Rightarrow>
          (True, (set_entry r ((entry_at m r)\<lparr>me_status := ''active''\<rparr>) m)
             \<lparr>ms_quarantine := AList.delete key (ms_quarantine m),
              ms_store := AList.update key r (ms_store m), ms_version := ms_version m + 1\<rparr>))"

section \<open>Retrieval\<close>

definition store_entries :: "memory_system \<Rightarrow> memory_entry list" where
  "store_entries m = map (\<lambda>(k, r). entry_at m r) (ms_store m)"

text \<open>A descending stable sort by a key, as \<open>sort(key=..., reverse=True)\<close>.\<close>

definition sort_desc :: "('a \<Rightarrow> rat) \<Rightarrow> 'a list \<Rightarrow> 'a list" where
  "sort_desc f xs = sort_key (\<lambda>x. - f x) xs"

definition lookup_type :: "string \<Rightarrow> nat \<Rightarrow> memory_system \<Rightarrow> memory_entry list" where
  "lookup_type ty limit m =
     take limit (sort_desc me_quality_score
       (filter (\<lambda>e. me_entry_type e = ty \<and> me_status e = ''active'') (store_entries m)))"

definition relevance :: "string list \<Rightarrow> rat \<Rightarrow> memory_entry \<Rightarrow> rat" where
  "relevance query_words now e =
     (let overlap = length (filter (\<lambda>w. w \<in> set (word_set (me_content e))) query_words);
          keyword = min 1 (of_nat overlap / of_nat (max (length query_words) 1));
          age_hours = (now - me_created_at e) / 3600;
          recency = max 0 (1 - age_hours / 24)
      in keyword * (4 / 10) + recency * (3 / 10) + me_quality_score e * (3 / 10))"

definition retrieve_relevant ::
    "string \<Rightarrow> string \<Rightarrow> nat \<Rightarrow> rat \<Rightarrow> memory_system \<Rightarrow> memory_entry list" where
  "retrieve_relevant query ty limit now m =
     (let candidates = filter (\<lambda>e. me_status e \<in> {''active'', ''core''} \<and> (ty = [] \<or> me_entry_type e = ty))
                         (store_entries m)
      in take limit (sort_desc (relevance (word_set query) now) candidates))"

section \<open>Persistence\<close>

text \<open>
  A JSONL file is a list of lines: a blank one, one that does not parse or lacks a required field,
  or the fields of an entry. \<open>None\<close> is a file that does not exist.
\<close>

datatype mem_line = BlankLine | CorruptLine | EntryLine memory_entry

definition save_memory :: "memory_system \<Rightarrow> nat \<times> mem_line list \<times> memory_system" where
  "save_memory m =
     (length (ms_store m), map EntryLine (store_entries m),
      m\<lparr>ms_unsaved := [], ms_needs_full_save := False\<rparr>)"

definition append_save ::
    "mem_line list \<Rightarrow> memory_system \<Rightarrow> nat \<times> mem_line list \<times> memory_system" where
  "append_save file m =
     (if ms_needs_full_save m then save_memory m
      else if ms_unsaved m = [] then (0, file, m)
      else (length (ms_unsaved m), file @ map (\<lambda>r. EntryLine (entry_at m r)) (ms_unsaved m),
            m\<lparr>ms_unsaved := []\<rparr>))"

text \<open>Each loaded entry is a new object; its status decides where it goes.\<close>

definition load_entry :: "runtime \<Rightarrow> rat \<Rightarrow> memory_entry \<Rightarrow> nat \<times> memory_system \<Rightarrow> nat \<times> memory_system" where
  "load_entry R now d st =
     (let (count, m) = st; e = entry_post_init R now d; r = ms_next m; k = me_provenance_hash e;
          m1 = (set_entry r e m)\<lparr>ms_next := Suc r\<rparr>
      in if me_status e = ''core''
         then (Suc count, m1\<lparr>ms_core_axioms := AList.update k r (ms_core_axioms m1),
                              ms_store := AList.update k r (ms_store m1)\<rparr>)
         else if me_status e = ''quarantined''
         then (count, m1\<lparr>ms_quarantine := AList.update k r (ms_quarantine m1)\<rparr>)
         else (Suc count, m1\<lparr>ms_store := AList.update k r (ms_store m1)\<rparr>))"

fun load_lines :: "runtime \<Rightarrow> rat \<Rightarrow> mem_line list \<Rightarrow> nat \<times> memory_system \<Rightarrow> nat \<times> memory_system" where
  "load_lines R now [] st = st"
| "load_lines R now (EntryLine d # ls) st = load_lines R now ls (load_entry R now d st)"
| "load_lines R now (_ # ls) st = load_lines R now ls st"

definition load_memory ::
    "runtime \<Rightarrow> rat \<Rightarrow> mem_line list option \<Rightarrow> memory_system \<Rightarrow> nat \<times> memory_system" where
  "load_memory R now file m =
     (case file of None \<Rightarrow> (0, m) | Some ls \<Rightarrow> load_lines R now ls (0, m))"

section \<open>Bounds of the scores\<close>

definition counts_ok :: "memory_entry \<Rightarrow> bool" where
  "counts_ok e \<longleftrightarrow> 0 \<le> me_success_count e \<and> 0 \<le> me_failure_count e"

lemma rate_01:
  fixes a b :: int
  assumes "0 \<le> a" "0 \<le> b" "0 < a + b"
  shows "0 \<le> (of_int a :: rat) / (of_int a + of_int b)" "(of_int a :: rat) / (of_int a + of_int b) \<le> 1"
proof -
  have "0 < (of_int a :: rat) + of_int b" using assms(3) by (metis of_int_add of_int_0_less_iff)
  then show "0 \<le> (of_int a :: rat) / (of_int a + of_int b)" "(of_int a :: rat) / (of_int a + of_int b) \<le> 1"
    using assms by (simp_all add: divide_simps)
qed

lemma quality_score_bounds:
  assumes "counts_ok e"
  shows "3 / 10 \<le> quality_score e" "quality_score e \<le> 1"
proof -
  let ?n = "me_success_count e + me_failure_count e"
  define w :: rat where "w = (if 0 < ?n then 3 / 10 * (of_int (me_success_count e) / of_int ?n) else 0)"
  have w: "0 \<le> w"
    using rate_01(1) [of "me_success_count e" "me_failure_count e"] assms
    by (simp add: counts_ok_def w_def)
  have "\<exists>a b. 0 \<le> a \<and> 0 \<le> b \<and> quality_score e = min 1 (3 / 10 + a + w + b)"
    by (rule exI [of _ "if me_source e \<in> {''kernel'', ''learner'', ''test_result''} then 3 / 10
          else if me_source e \<in> {''planner'', ''llm''} then 1 / 10 else 0"],
        rule exI [of _ "if 10 < length (me_content e) \<and> length (me_content e) < 5000 then 1 / 10 else 0"])
      (simp add: quality_score_def Let_def w_def)
  with w show "3 / 10 \<le> quality_score e" "quality_score e \<le> 1" by (auto simp: min_def)
qed

lemma risk_of_entry_bounds:
  assumes "counts_ok e"
  shows "0 \<le> risk_of_entry m e" "risk_of_entry m e \<le> 9 / 10"
proof -
  let ?n = "me_success_count e + me_failure_count e"
  define f :: rat where "f = of_int (me_failure_count e) / of_int ?n"
  define r1 :: rat where "r1 = (if 3 \<le> ?n then f * (1 / 2) else 0)"
  have "0 \<le> f \<and> f \<le> 1" if "3 \<le> ?n"
    using rate_01 [of "me_failure_count e" "me_success_count e"] that assms
    by (simp add: counts_ok_def f_def add.commute)
  then have r1: "0 \<le> r1" "r1 \<le> 1 / 2" by (auto simp: r1_def)
  have "risk_of_entry m e = min 1 r1 \<or> risk_of_entry m e = min 1 (r1 + 4 / 10)"
    by (auto simp: risk_of_entry_def Let_def r1_def f_def)
  with r1 show "0 \<le> risk_of_entry m e" "risk_of_entry m e \<le> 9 / 10" by auto
qed

lemma fraction_01:
  "0 \<le> (of_nat (length (filter P xs)) / of_nat (length xs) :: rat)"
  "(of_nat (length (filter P xs)) / of_nat (length xs) :: rat) \<le> 1"
  by (simp_all add: divide_le_eq_1)

lemma contradiction_score_bounds: "0 \<le> contradiction_score m e" "contradiction_score m e \<le> 1"
  unfolding contradiction_score_def Let_def by (auto simp only: fraction_01 split: if_splits)

lemma feedback_bounds: "1 / 100 \<le> me_quality_score (feedback s now e)" "me_quality_score (feedback s now e) \<le> 1"
  by (auto simp: feedback_def Let_def)

section \<open>The store as a heap of shared entries\<close>

text \<open>
  Every key of the store is the provenance hash of the entry it holds, so an entry sits in the store
  at most once.
\<close>

definition keyed :: "memory_system \<Rightarrow> bool" where
  "keyed m \<longleftrightarrow> dict_ok (ms_store m)
     \<and> (\<forall>(k, r) \<in> set (ms_store m). me_provenance_hash (ms_heap m r) = k \<and> k \<noteq> [])"

definition evictable :: "memory_system \<Rightarrow> (string \<times> ref) list" where
  "evictable m = filter (\<lambda>(k, r). me_status (ms_heap m r) \<noteq> ''core'') (ms_store m)"

lemma find_weakest_in:
  "find_weakest h xs best = Some (k, q) \<Longrightarrow>
     best = Some (k, q) \<or> (\<exists>r. (k, r) \<in> set xs \<and> me_status (h r) \<noteq> ''core'')"
proof (induction h xs best rule: find_weakest.induct)
  case (1 h best)
  then show ?case by simp
next
  case (2 h k' r rest best)
  then show ?case by (auto simp: Let_def split: if_splits option.splits)
qed

lemma find_weakest_None:
  "find_weakest h xs best = None \<Longrightarrow> best = None \<and> (\<forall>(k, r) \<in> set xs. me_status (h r) = ''core'')"
proof (induction h xs best rule: find_weakest.induct)
  case (1 h best)
  then show ?case by simp
next
  case (2 h k' r rest best)
  then show ?case by (auto simp: Let_def split: if_splits option.splits)
qed

text \<open>What eviction removes: one entry, never an axiom, and only when there is nothing else.\<close>

lemma evict_cases:
  assumes "keyed m"
  obtains (none) "evict_weakest m = m" "evictable m = []"
  | (one) k r where "(k, r) \<in> set (ms_store m)" "me_status (ms_heap m r) \<noteq> ''core''"
      "evict_weakest m = m\<lparr>ms_store := AList.delete k (ms_store m), ms_needs_full_save := True\<rparr>"
proof (cases "find_weakest (ms_heap m) (ms_store m) None")
  case None
  from find_weakest_None [OF this] have "evictable m = []"
    by (auto simp: evictable_def filter_empty_conv)
  moreover have "evict_weakest m = m" using None by (simp add: evict_weakest_def)
  ultimately show ?thesis by (rule none [rotated])
next
  case (Some p)
  obtain k q where p: "p = (k, q)" by (cases p)
  from find_weakest_in [OF Some [unfolded p]] obtain r
    where r: "(k, r) \<in> set (ms_store m)" "me_status (ms_heap m r) \<noteq> ''core''" by auto
  with assms have "k \<noteq> []" by (auto simp: keyed_def)
  with Some p have "evict_weakest m = m\<lparr>ms_store := AList.delete k (ms_store m), ms_needs_full_save := True\<rparr>"
    by (simp add: evict_weakest_def)
  with r show ?thesis by (rule one)
qed

section \<open>The invariant of the store\<close>

text \<open>
  References come from one counter, keys are the entries' provenance hashes, and the entries that
  may be evicted never outnumber the capacity. Axioms are not counted: \<open>protect_axiom\<close> adds them
  without a capacity check.
\<close>

definition capacity :: "memory_system \<Rightarrow> nat" where
  "capacity m = nat (max 1 (ms_max_entries m))"

definition memory_ok :: "memory_system \<Rightarrow> bool" where
  "memory_ok m \<longleftrightarrow> keyed m \<and> (\<forall>(k, r) \<in> set (ms_store m). r < ms_next m)
     \<and> length (evictable m) \<le> capacity m"

definition new_memory :: "rat \<Rightarrow> rat \<Rightarrow> rat \<Rightarrow> rat \<Rightarrow> int \<Rightarrow> memory_entry \<Rightarrow> memory_system" where
  "new_memory q r c d n blank =
     \<lparr>ms_quality_min = q, ms_risk_max = r, ms_contradiction_max = c, ms_decay_rate = d,
      ms_max_entries = n, ms_heap = (\<lambda>_. blank), ms_next = 0, ms_store = [], ms_core_axioms = [],
      ms_quarantine = [], ms_version = 0, ms_unsaved = [], ms_needs_full_save = False\<rparr>"

text \<open>Constructing an entry object: the fields, \<open>__post_init__\<close>, a fresh reference.\<close>

definition alloc :: "runtime \<Rightarrow> rat \<Rightarrow> memory_entry \<Rightarrow> memory_system \<Rightarrow> ref \<times> memory_system" where
  "alloc R now e m =
     (ms_next m, (set_entry (ms_next m) (entry_post_init R now e) m)\<lparr>ms_next := Suc (ms_next m)\<rparr>)"

datatype memory_op =
    Admit rat memory_entry
  | Protect rat memory_entry
  | Decay rat
  | Outcome string bool rat

fun memory_step :: "runtime \<Rightarrow> memory_system \<Rightarrow> memory_op \<Rightarrow> memory_system" where
  "memory_step R m (Admit now e) = (let (r, m1) = alloc R now e m in snd (admit R r m1))"
| "memory_step R m (Protect now e) = (let (r, m1) = alloc R now e m in protect_axiom r m1)"
| "memory_step R m (Decay now) = snd (decay now m)"
| "memory_step R m (Outcome k s now) = record_outcome k s now m"

lemmas memory_upd = set_entry_def entry_at_def keyed_def evictable_def capacity_def

lemma evict_keyed:
  assumes "keyed m" shows "keyed (evict_weakest m)"
  using assms by (cases rule: evict_cases [OF assms]) (auto simp: keyed_def dict_simps)

lemma evict_frame [simp]:
  "ms_heap (evict_weakest m) = ms_heap m" "ms_next (evict_weakest m) = ms_next m"
  "ms_max_entries (evict_weakest m) = ms_max_entries m"
  by (auto simp: evict_weakest_def split: option.splits prod.splits)

lemma evict_subset: "set (ms_store (evict_weakest m)) \<subseteq> set (ms_store m)"
  by (auto simp: evict_weakest_def dict_simps split: option.splits prod.splits)

lemma make_room_frame [simp]:
  "ms_heap (make_room m) = ms_heap m" "ms_next (make_room m) = ms_next m"
  "ms_max_entries (make_room m) = ms_max_entries m"
  by (auto simp: make_room_def)

lemma make_room_subset: "set (ms_store (make_room m)) \<subseteq> set (ms_store m)"
  using evict_subset by (auto simp: make_room_def)

lemma make_room_keyed: "keyed m \<Longrightarrow> keyed (make_room m)"
  by (simp add: make_room_def evict_keyed)

lemma make_room_free:
  assumes "memory_ok m"
  shows "length (evictable (make_room m)) < capacity m"
proof (cases "int (length (ms_store m)) \<ge> ms_max_entries m")
  case False
  have "length (evictable m) \<le> length (ms_store m)" by (simp add: evictable_def)
  with False show ?thesis by (simp add: make_room_def capacity_def)
next
  case True
  from assms have k: "keyed m" by (simp add: memory_ok_def)
  have "length (evictable (evict_weakest m)) < capacity m"
  proof (rule evict_cases [OF k])
    assume "evict_weakest m = m" "evictable m = []"
    then show ?thesis by (simp add: capacity_def)
  next
    fix k r
    assume one: "(k, r) \<in> set (ms_store m)" "me_status (ms_heap m r) \<noteq> ''core''"
      "evict_weakest m = m\<lparr>ms_store := AList.delete k (ms_store m), ms_needs_full_save := True\<rparr>"
    have "evictable (evict_weakest m) = filter (\<lambda>p. fst p \<noteq> k) (evictable m)"
      using one by (auto simp: evictable_def AList.delete_eq intro!: filter_cong)
    moreover have "(k, r) \<in> set (evictable m)" using one by (simp add: evictable_def)
    ultimately have "length (evictable (evict_weakest m)) < length (evictable m)"
      using length_filter_less [of "(k, r)" "evictable m" "\<lambda>p. fst p \<noteq> k"] by simp
    with assms show ?thesis by (simp add: memory_ok_def)
  qed
  with True show ?thesis by (simp add: make_room_def)
qed

lemma length_filter_mono:
  "(\<And>x. x \<in> set xs \<Longrightarrow> P x \<Longrightarrow> Q x) \<Longrightarrow> length (filter P xs) \<le> length (filter Q xs)"
  by (induction xs) (auto simp: le_SucI)

lemma filter_update_le:
  assumes "dict_ok d" "\<And>k' r'. (k', r') \<in> set d \<Longrightarrow> k' \<noteq> k \<Longrightarrow> P' (k', r') \<Longrightarrow> P (k', r')"
  shows "length (filter P' (AList.update k r d)) \<le> length (filter P d) + (if P' (k, r) then 1 else 0)"
  using assms
proof (induction d)
  case Nil
  then show ?case by simp
next
  case (Cons x d)
  obtain k' r' where x: "x = (k', r')" by (cases x)
  show ?case
  proof (cases "k' = k")
    case True
    have "k \<notin> fst ` set d" using Cons.prems(1) x True by (auto simp: dict_ok_def)
    then have "length (filter P' d) \<le> length (filter P d)"
      using Cons.prems(2) by (intro length_filter_mono) force
    with x True show ?thesis by auto
  next
    case False
    have "length (filter P' (AList.update k r d)) \<le> length (filter P d) + (if P' (k, r) then 1 else 0)"
      using Cons by (auto simp: dict_ok_def)
    with False x Cons.prems(2) [of k' r'] show ?thesis by auto
  qed
qed

section \<open>Every operation keeps the invariant\<close>

lemma filter_cong_status:
  "(\<And>k r. (k, r) \<in> set d \<Longrightarrow> me_status (h r) = me_status (h' r)) \<Longrightarrow>
   filter (\<lambda>(k, r). me_status (h r) \<noteq> ''core'') d = filter (\<lambda>(k, r). me_status (h' r) \<noteq> ''core'') d"
  by (auto intro: filter_cong)

text \<open>Changing fields other than status and provenance.\<close>

lemma memory_ok_set_entry [machine_inv]:
  assumes "memory_ok m" "me_status e = me_status (ms_heap m r)"
    "me_provenance_hash e = me_provenance_hash (ms_heap m r)"
  shows "memory_ok (set_entry r e m)"
proof -
  have "evictable (set_entry r e m) = evictable m"
    using assms(2) by (auto simp: evictable_def set_entry_def intro!: filter_cong)
  with assms show ?thesis
    by (auto simp: memory_ok_def keyed_def set_entry_def capacity_def)
qed

text \<open>A fresh entry is not in the store.\<close>

lemma memory_ok_alloc:
  assumes "memory_ok m" "alloc R now e m = (r, m1)"
  shows "memory_ok m1" "r < ms_next m1" "r \<notin> snd ` set (ms_store m1)"
    "ms_heap m1 r = entry_post_init R now e" "ms_store m1 = ms_store m"
    "ms_next m \<le> r" "\<And>r'. r' \<noteq> r \<Longrightarrow> ms_heap m1 r' = ms_heap m r'"
proof -
  have r: "r = ms_next m" and m1: "m1 = (set_entry r (entry_post_init R now e) m)\<lparr>ms_next := Suc r\<rparr>"
    using assms(2) by (auto simp: alloc_def)
  have fresh: "(k, r') \<in> set (ms_store m) \<Longrightarrow> r' \<noteq> r" for k r'
    using assms(1) r by (auto simp: memory_ok_def)
  then have "evictable m1 = evictable m"
    by (auto simp: m1 evictable_def set_entry_def intro!: filter_cong)
  moreover have "keyed m1"
    using assms(1) fresh by (auto simp: m1 keyed_def set_entry_def memory_ok_def)
  ultimately show "memory_ok m1"
    using assms(1) r by (force simp: m1 memory_ok_def capacity_def set_entry_def)
  show "r < ms_next m1" "r \<notin> snd ` set (ms_store m1)" "ms_heap m1 r = entry_post_init R now e"
    "ms_store m1 = ms_store m" "ms_next m \<le> r" "\<And>r'. r' \<noteq> r \<Longrightarrow> ms_heap m1 r' = ms_heap m r'"
    using fresh r by (auto simp: m1 set_entry_def dest: fresh)
qed

text \<open>Putting a fresh entry into the store under its provenance hash.\<close>

lemma memory_ok_put:
  assumes m: "keyed m" "\<And>k r'. (k, r') \<in> set (ms_store m) \<Longrightarrow> r' < ms_next m"
    and r: "r < ms_next m" "r \<notin> snd ` set (ms_store m)"
    and e: "me_provenance_hash e \<noteq> []"
    and room: "length (evictable m) + (if me_status e \<noteq> ''core'' then 1 else 0) \<le> capacity m"
    and m': "ms_heap m' = (ms_heap m)(r := e)" "ms_next m' = ms_next m"
      "ms_max_entries m' = ms_max_entries m"
      "ms_store m' = AList.update (me_provenance_hash e) r (ms_store m)"
  shows "memory_ok m'"
proof -
  have fresh: "r' \<noteq> r" if "(k', r') \<in> set (ms_store m)" for k' r' using r(2) that by force
  have old: "(k', r') = (me_provenance_hash e, r) \<or> (k', r') \<in> set (ms_store m)"
    if "(k', r') \<in> set (ms_store m')" for k' r'
    using set_update_subset that m'(4) by fastforce
  have "length (evictable m') \<le> length (evictable m) + (if me_status e \<noteq> ''core'' then 1 else 0)"
    using filter_update_le [of "ms_store m" "me_provenance_hash e"
        "\<lambda>(k, r). me_status (ms_heap m' r) \<noteq> ''core''" "\<lambda>(k, r). me_status (ms_heap m r) \<noteq> ''core''" r]
      m(1) fresh by (auto simp: evictable_def m' keyed_def)
  moreover have "keyed m'"
    unfolding keyed_def
  proof (intro conjI ballI)
    show "dict_ok (ms_store m')" using m(1) by (simp add: m' keyed_def dict_simps)
    fix p assume p: "p \<in> set (ms_store m')"
    obtain k' r' where kr: "p = (k', r')" by (cases p)
    from old p kr fresh m(1) e show "case p of (k, r) \<Rightarrow> me_provenance_hash (ms_heap m' r) = k \<and> k \<noteq> []"
      by (fastforce simp: m' keyed_def)
  qed
  moreover have "\<forall>(k, r') \<in> set (ms_store m'). r' < ms_next m'"
    using old m(2) r(1) by (fastforce simp: m'(2))
  ultimately show ?thesis using room by (simp add: memory_ok_def capacity_def m'(3))
qed

text \<open>What the decay loop returns: the marked heap and the keys of the stale entries.\<close>

lemma decay_loop_eq:
  assumes "distinct (map snd d)"
  shows "decay_loop now rate d h removed =
     (\<lambda>r. if \<exists>k. (k, r) \<in> set d \<and> stale now rate (h r) then (h r)\<lparr>me_status := ''decayed''\<rparr> else h r,
      removed @ map fst (filter (\<lambda>(k, r). stale now rate (h r)) d))"
  using assms
proof (induction d arbitrary: h removed)
  case Nil
  then show ?case by auto
next
  case (Cons x d)
  obtain k r where x: "x = (k, r)" by (cases x)
  have fresh: "r \<notin> snd ` set d" using Cons.prems x by simp
  let ?h = "h(r := (h r)\<lparr>me_status := ''decayed''\<rparr>)"
  have "filter (\<lambda>(k, x). stale now rate (?h x)) d = filter (\<lambda>(k, x). stale now rate (h x)) d"
    using fresh by (force intro: filter_cong)
  moreover have "(\<lambda>x. if \<exists>k. (k, x) \<in> set d \<and> stale now rate (?h x)
       then (?h x)\<lparr>me_status := ''decayed''\<rparr> else ?h x) =
     (\<lambda>x. if \<exists>k'. (k', x) \<in> set ((k, r) # d) \<and> stale now rate (h x)
       then (h x)\<lparr>me_status := ''decayed''\<rparr> else h x)" if "stale now rate (h r)"
    using fresh that by (force simp: fun_eq_iff)
  moreover have "(\<lambda>x. if \<exists>k. (k, x) \<in> set d \<and> stale now rate (h x)
       then (h x)\<lparr>me_status := ''decayed''\<rparr> else h x) =
     (\<lambda>x. if \<exists>k'. (k', x) \<in> set ((k, r) # d) \<and> stale now rate (h x)
       then (h x)\<lparr>me_status := ''decayed''\<rparr> else h x)" if "\<not> stale now rate (h r)"
    using that by (auto simp: fun_eq_iff)
  ultimately show ?case using Cons x by auto
qed

lemma keyed_distinct: "keyed m \<Longrightarrow> distinct (map snd (ms_store m))"
proof -
  assume m: "keyed m"
  then have "map fst (ms_store m) = map (\<lambda>r. me_provenance_hash (ms_heap m r)) (map snd (ms_store m))"
    by (auto simp: keyed_def)
  with m show ?thesis unfolding keyed_def dict_ok_def by (metis distinct_map)
qed

lemma foldl_delete: "foldl (\<lambda>d k. AList.delete k d) d ks = filter (\<lambda>p. fst p \<notin> set ks) d"
proof (induction ks arbitrary: d)
  case Nil
  then show ?case by simp
next
  case (Cons k ks)
  then show ?case by (auto simp: AList.delete_eq intro!: filter_cong)
qed

lemma decay_fields:
  "ms_store (snd (decay now m)) = foldl (\<lambda>d k. AList.delete k d) (ms_store m)
     (snd (decay_loop now (ms_decay_rate m) (ms_store m) (ms_heap m) []))"
  "ms_heap (snd (decay now m)) = fst (decay_loop now (ms_decay_rate m) (ms_store m) (ms_heap m) [])"
  "ms_next (snd (decay now m)) = ms_next m"
  "ms_max_entries (snd (decay now m)) = ms_max_entries m"
  "fst (decay now m) = length (snd (decay_loop now (ms_decay_rate m) (ms_store m) (ms_heap m) []))"
  by (simp_all add: decay_def Let_def split: prod.split)

lemma key_in_filter:
  assumes "dict_ok d" "(k, v) \<in> set d"
  shows "k \<in> set (map fst (filter Q d)) \<longleftrightarrow> Q (k, v)"
proof
  assume "k \<in> set (map fst (filter Q d))"
  then obtain w where w: "(k, w) \<in> set d" "Q (k, w)" by auto
  with assms have "w = v" by (metis dict_ok_def eq_key_imp_eq_value)
  with w show "Q (k, v)" by simp
next
  assume "Q (k, v)"
  with assms(2) show "k \<in> set (map fst (filter Q d))" by force
qed

text \<open>What \<open>decay\<close> leaves in the store: exactly the entries that are not stale.\<close>

lemma decay_store:
  assumes "keyed m"
  shows "ms_store (snd (decay now m)) =
           filter (\<lambda>(k, r). \<not> stale now (ms_decay_rate m) (ms_heap m r)) (ms_store m)"
proof -
  have "dict_ok (ms_store m)" using assms by (simp add: keyed_def)
  note key = key_in_filter [OF this]
  show ?thesis
    unfolding decay_fields decay_loop_eq [OF keyed_distinct [OF assms]] foldl_delete snd_conv append_Nil
  proof (rule filter_cong [OF refl])
    fix p assume p: "p \<in> set (ms_store m)"
    obtain k r where kr: "p = (k, r)" by (cases p)
    show "(fst p \<notin> set (map fst (filter (\<lambda>(k, r). stale now (ms_decay_rate m) (ms_heap m r)) (ms_store m))))
        = (case p of (k, r) \<Rightarrow> \<not> stale now (ms_decay_rate m) (ms_heap m r))"
      unfolding kr fst_conv key [OF p [unfolded kr]] by simp
  qed
qed

lemma decay_frame:
  assumes "keyed m" "(k, r) \<in> set (ms_store (snd (decay now m)))"
  shows "(k, r) \<in> set (ms_store m)" "ms_heap (snd (decay now m)) r = ms_heap m r"
proof -
  have *: "(k, r) \<in> set (ms_store m)" "\<not> stale now (ms_decay_rate m) (ms_heap m r)"
    using assms by (auto simp: decay_store)
  then show "(k, r) \<in> set (ms_store m)" by simp
  show "ms_heap (snd (decay now m)) r = ms_heap m r"
    using * by (simp add: decay_fields decay_loop_eq [OF keyed_distinct [OF assms(1)]])
qed

lemma memory_ok_decay [machine_inv]:
  assumes "memory_ok m" shows "memory_ok (snd (decay now m))"
proof -
  let ?m = "snd (decay now m)"
  have k: "keyed m" using assms by (simp add: memory_ok_def)
  have "evictable ?m = filter (\<lambda>(k, r). me_status (ms_heap m r) \<noteq> ''core'') (ms_store ?m)"
    using decay_frame(2) [OF k] by (auto simp: evictable_def intro!: filter_cong)
  then have "length (evictable ?m) \<le> length (evictable m)"
    by (auto simp: evictable_def decay_store [OF k] intro!: length_filter_mono)
  moreover have "keyed ?m"
    unfolding keyed_def
  proof (intro conjI ballI)
    show "dict_ok (ms_store ?m)"
      using k by (auto simp: decay_store keyed_def dict_ok_def distinct_map_filter)
    fix p assume "p \<in> set (ms_store ?m)"
    with decay_frame [OF k] k show "case p of (k, r) \<Rightarrow> me_provenance_hash (ms_heap ?m r) = k \<and> k \<noteq> []"
      by (fastforce simp: keyed_def)
  qed
  ultimately show ?thesis
    using assms decay_frame(1) [OF k] by (fastforce simp: memory_ok_def capacity_def decay_fields(3,4))
qed

lemma feedback_simps [simp]:
  "me_status (feedback s now e) = me_status e"
  "me_provenance_hash (feedback s now e) = me_provenance_hash e"
  by (auto simp: feedback_def Let_def)

lemma memory_ok_outcome [machine_inv]: "memory_ok m \<Longrightarrow> memory_ok (record_outcome k s now m)"
  by (auto simp: record_outcome_def entry_at_def intro: memory_ok_set_entry split: option.splits)

lemma score_entry_simps [simp]:
  "me_status (score_entry m r) = me_status (ms_heap m r)"
  "me_provenance_hash (score_entry m r) = me_provenance_hash (ms_heap m r)"
  by (auto simp: score_entry_def entry_at_def Let_def)

lemma memory_ok_admit:
  assumes ok: "memory_ok m" and r: "r < ms_next m" "r \<notin> snd ` set (ms_store m)"
    and p: "me_provenance_hash (ms_heap m r) \<noteq> []"
  shows "memory_ok (snd (admit R r m))"
proof -
  let ?m1 = "set_entry r (score_entry m r) m"
  have m1: "memory_ok ?m1" using ok by (rule memory_ok_set_entry) simp_all
  have frame: "ms_next ?m1 = ms_next m" "ms_store ?m1 = ms_store m"
    "me_provenance_hash (ms_heap ?m1 r) = me_provenance_hash (ms_heap m r)"
    by (simp_all add: set_entry_def)
  have room: "memory_ok (insert_active r (make_room ?m1))"
  proof (rule memory_ok_put)
    show "keyed (make_room ?m1)" using m1 by (simp add: memory_ok_def make_room_keyed)
    show "\<And>k r'. (k, r') \<in> set (ms_store (make_room ?m1)) \<Longrightarrow> r' < ms_next (make_room ?m1)"
      using make_room_subset [of ?m1] m1 by (fastforce simp: memory_ok_def)
    show "r < ms_next (make_room ?m1)" using r frame by simp
    show "r \<notin> snd ` set (ms_store (make_room ?m1))"
      using make_room_subset [of ?m1] r frame by force
    let ?e = "(entry_at (make_room ?m1) r)\<lparr>me_status := ''active'', me_version := ms_version (make_room ?m1)\<rparr>"
    show "me_provenance_hash ?e \<noteq> []" using p by (simp add: entry_at_def frame)
    show "length (evictable (make_room ?m1)) + (if me_status ?e \<noteq> ''core'' then 1 else 0)
        \<le> capacity (make_room ?m1)"
      using make_room_free [OF m1] by (simp add: capacity_def)
  qed (auto simp: insert_active_def Let_def set_entry_def)
  have "memory_ok (set_entry r ((score_entry m r)\<lparr>me_status := ''quarantined''\<rparr>) ?m1)"
  proof -
    have fresh: "r' \<noteq> r" if "(k', r') \<in> set (ms_store m)" for k' r' using r(2) that by force
    then have "evictable (set_entry r ((score_entry m r)\<lparr>me_status := ''quarantined''\<rparr>) ?m1) = evictable ?m1"
      by (auto simp: evictable_def set_entry_def intro!: filter_cong)
    with m1 fresh show ?thesis by (auto simp: memory_ok_def keyed_def set_entry_def capacity_def)
  qed
  then have quarantine: "memory_ok (m2\<lparr>ms_quarantine := q, ms_version := v\<rparr>)"
    if "m2 = set_entry r ((score_entry m r)\<lparr>me_status := ''quarantined''\<rparr>) ?m1" for m2 q v
    using that by (simp add: memory_ok_def keyed_def evictable_def capacity_def)
  show ?thesis
    using m1 room quarantine by (auto simp: admit_def Let_def)
qed

text \<open>A SHA-256 hex digest has 64 characters.\<close>

definition digests :: "runtime \<Rightarrow> bool" where
  "digests R \<longleftrightarrow> (\<forall>s. length (rt_sha256 R s) = 64)"

lemma post_init_provenance: "digests R \<Longrightarrow> me_provenance_hash (entry_post_init R now e) \<noteq> []"
proof -
  assume "digests R"
  then have "take 16 (rt_sha256 R s) \<noteq> []" for s
    by (metis digests_def length_0_conv take_eq_Nil zero_neq_numeral)
  then show ?thesis by (auto simp: entry_post_init_def Let_def)
qed

lemma memory_ok_new [simp]: "memory_ok (new_memory q r c d n blank)"
  by (simp add: new_memory_def memory_ok_def keyed_def evictable_def)

lemma memory_ok_step [machine_inv]:
  assumes "digests R" "memory_ok m" shows "memory_ok (memory_step R m op)"
proof (cases op)
  case (Admit now e)
  obtain r m1 where al: "alloc R now e m = (r, m1)" by (cases "alloc R now e m")
  note f = memory_ok_alloc [OF assms(2) al]
  have "memory_ok (snd (admit R r m1))"
    using f(1-3) post_init_provenance [OF assms(1)] by (intro memory_ok_admit) (simp_all add: f(4))
  then show ?thesis by (simp add: Admit al)
next
  case (Protect now e)
  obtain r m1 where al: "alloc R now e m = (r, m1)" by (cases "alloc R now e m")
  note f = memory_ok_alloc [OF assms(2) al]
  have "memory_ok (protect_axiom r m1)"
  proof (rule memory_ok_put)
    let ?e = "(entry_at m1 r)\<lparr>me_status := ''core''\<rparr>"
    show "keyed m1" using f(1) by (simp add: memory_ok_def)
    show "\<And>k r'. (k, r') \<in> set (ms_store m1) \<Longrightarrow> r' < ms_next m1" using f(1) by (auto simp: memory_ok_def)
    show "me_provenance_hash ?e \<noteq> []"
      using post_init_provenance [OF assms(1)] by (simp add: entry_at_def f(4))
    show "length (evictable m1) + (if me_status ?e \<noteq> ''core'' then 1 else 0) \<le> capacity m1"
      using f(1) by (simp add: memory_ok_def)
  qed (use f in \<open>auto simp: protect_axiom_def Let_def set_entry_def\<close>)
  then show ?thesis by (simp add: Protect al)
qed (use assms in \<open>auto intro: machine_inv\<close>)

interpretation mem: machine "memory_step R" "new_memory q rk c d n blank" "\<lambda>m. digests R \<longrightarrow> memory_ok m"
  for R q rk c d n blank
  by unfold_locales (auto intro: memory_ok_step)

section \<open>Axioms stay\<close>

lemma evict_keeps_core:
  assumes "keyed m" "(k, r) \<in> set (ms_store m)" "me_status (ms_heap m r) = ''core''"
  shows "(k, r) \<in> set (ms_store (evict_weakest m))"
proof (rule evict_cases [OF assms(1)])
  assume "evict_weakest m = m"
  with assms(2) show ?thesis by simp
next
  fix k' r'
  assume *: "(k', r') \<in> set (ms_store m)" "me_status (ms_heap m r') \<noteq> ''core''"
    "evict_weakest m = m\<lparr>ms_store := AList.delete k' (ms_store m), ms_needs_full_save := True\<rparr>"
  have "k' \<noteq> k"
    using * assms by (metis dict_ok_def eq_key_imp_eq_value keyed_def)
  with * assms(2) show ?thesis by (simp add: set_delete)
qed

lemma make_room_keeps_core:
  "keyed m \<Longrightarrow> (k, r) \<in> set (ms_store m) \<Longrightarrow> me_status (ms_heap m r) = ''core'' \<Longrightarrow>
   (k, r) \<in> set (ms_store (make_room m))"
  by (simp add: make_room_def evict_keeps_core)

definition core_entry :: "memory_system \<Rightarrow> string \<Rightarrow> ref \<Rightarrow> bool" where
  "core_entry m k r \<longleftrightarrow> (k, r) \<in> set (ms_store m) \<and> me_status (ms_heap m r) = ''core''"

lemma insert_active_keeps_core:
  assumes "core_entry m k r'" "r' \<noteq> r" "me_provenance_hash (ms_heap m r) \<noteq> k"
  shows "core_entry (insert_active r m) k r'"
  using assms by (simp add: core_entry_def insert_active_def Let_def set_entry_def entry_at_def set_update_other)

lemma admit_keeps_core:
  assumes "keyed m" "core_entry m k r'" "r' \<noteq> r" "me_provenance_hash (ms_heap m r) \<noteq> k"
  shows "core_entry (snd (admit R r m)) k r'"
proof -
  let ?m1 = "set_entry r (score_entry m r) m"
  have m1: "keyed ?m1" "core_entry ?m1 k r'"
    using assms by (auto simp: keyed_def core_entry_def set_entry_def)
  then have "core_entry (make_room ?m1) k r'"
    using make_room_keeps_core by (simp add: core_entry_def)
  then have "core_entry (insert_active r (make_room ?m1)) k r'"
    using assms by (intro insert_active_keeps_core) (simp_all add: set_entry_def)
  with m1 assms(3) show ?thesis
    by (auto simp: admit_def Let_def core_entry_def set_entry_def)
qed

lemma decay_keeps_core:
  "keyed m \<Longrightarrow> core_entry m k r \<Longrightarrow> core_entry (snd (decay now m)) k r"
proof -
  assume m: "keyed m" "core_entry m k r"
  then have "(k, r) \<in> set (ms_store (snd (decay now m)))"
    by (simp add: decay_store core_entry_def stale_def)
  with decay_frame(2) [OF m(1) this] m(2) show ?thesis by (simp add: core_entry_def)
qed

section \<open>Round trip\<close>

text \<open>An entry the loader takes over unchanged into the store.\<close>

definition loadable :: "memory_entry \<Rightarrow> bool" where
  "loadable e \<longleftrightarrow> me_created_at e \<noteq> 0 \<and> me_provenance_hash e \<noteq> [] \<and> me_status e \<noteq> ''quarantined''"

lemma update_fresh: "k \<notin> fst ` set d \<Longrightarrow> AList.update k v d = d @ [(k, v)]"
  by (induction d) auto

lemma load_entry_fresh:
  assumes "loadable e" "me_provenance_hash e \<notin> fst ` set (ms_store m)"
  shows "\<exists>m'. load_entry R now e (c, m) = (Suc c, m')
    \<and> ms_store m' = ms_store m @ [(me_provenance_hash e, ms_next m)]
    \<and> ms_heap m' = (ms_heap m)(ms_next m := e) \<and> ms_next m' = Suc (ms_next m)"
proof -
  have "entry_post_init R now e = e" using assms(1) by (simp add: loadable_def entry_post_init_def)
  then show ?thesis
    using assms by (simp add: load_entry_def Let_def loadable_def set_entry_def update_fresh)
qed

lemma load_lines_store:
  assumes "\<forall>e \<in> set es. loadable e" "distinct (map me_provenance_hash es)"
    "\<forall>e \<in> set es. me_provenance_hash e \<notin> fst ` set (ms_store m)"
    "\<forall>(k, r) \<in> set (ms_store m). r < ms_next m"
  shows "fst (load_lines R now (map EntryLine es) (c, m)) = c + length es
    \<and> map fst (ms_store (snd (load_lines R now (map EntryLine es) (c, m)))) =
        map fst (ms_store m) @ map me_provenance_hash es
    \<and> store_entries (snd (load_lines R now (map EntryLine es) (c, m))) = store_entries m @ es"
  using assms
proof (induction es arbitrary: c m)
  case Nil
  then show ?case by (simp add: store_entries_def)
next
  case (Cons e es)
  from Cons.prems(1,3) obtain m' where st: "load_entry R now e (c, m) = (Suc c, m')"
      "ms_store m' = ms_store m @ [(me_provenance_hash e, ms_next m)]"
      "ms_heap m' = (ms_heap m)(ms_next m := e)" "ms_next m' = Suc (ms_next m)"
    using load_entry_fresh [of e m R now c] by auto
  have se: "store_entries m' = store_entries m @ [e]"
    using Cons.prems(4) by (force simp: store_entries_def entry_at_def st)
  have IH: "fst (load_lines R now (map EntryLine es) (Suc c, m')) = Suc c + length es
    \<and> map fst (ms_store (snd (load_lines R now (map EntryLine es) (Suc c, m')))) =
        map fst (ms_store m') @ map me_provenance_hash es
    \<and> store_entries (snd (load_lines R now (map EntryLine es) (Suc c, m'))) = store_entries m' @ es"
  proof (rule Cons.IH)
    have "me_provenance_hash x \<noteq> me_provenance_hash e" if "x \<in> set es" for x
      using Cons.prems(2) imageI [OF that, of me_provenance_hash] by (auto simp: image_iff)
    with Cons.prems(3) show "\<forall>x \<in> set es. me_provenance_hash x \<notin> fst ` set (ms_store m')"
      by (simp add: st(2))
    show "\<forall>(k, r) \<in> set (ms_store m'). r < ms_next m'"
      using Cons.prems(4) by (auto simp: st(2,4) less_SucI)
  qed (use Cons.prems in auto)
  then show ?case by (simp add: st(1) se) (simp add: st(2))
qed

section \<open>Properties\<close>


definition sample_entry :: memory_entry where
  "sample_entry = \<lparr>me_content = ''tests passed'', me_source = ''kernel'', me_entry_type = ''context'',
     me_provenance_hash = ''p1'', me_quality_score = 1 / 2, me_risk_score = 0,
     me_contradiction_score = 0, me_access_count = 0, me_success_count = 0, me_failure_count = 0,
     me_created_at = 1, me_last_accessed = 0, me_version = 0, me_status = ''active''\<rparr>"

definition digest_runtime :: runtime where
  "digest_runtime = toy_runtime\<lparr>rt_sha256 := (\<lambda>s. replicate 64 (CHR ''0''))\<rparr>"

lemma digests_digest_runtime [simp]: "digests digest_runtime"
  by (simp add: digests_def digest_runtime_def)


text \<open>A core axiom survives every operation of the memory system, eviction and decay included,
  except one that constructs a new entry with the axiom's own provenance hash.\<close>

theorem core_axiom_survives:
  assumes "memory_ok m" "core_entry m k r"
    and "\<And>now e. op = Admit now e \<or> op = Protect now e \<Longrightarrow>
      me_provenance_hash (entry_post_init R now e) \<noteq> k"
  shows "core_entry (memory_step R m op) k r"
proof (cases op)
  case (Admit now e)
  obtain r' m1 where al: "alloc R now e m = (r', m1)" by (cases "alloc R now e m")
  note f = memory_ok_alloc [OF assms(1) al]
  have "r \<noteq> r'" using f(3,5) assms(2) by (force simp: core_entry_def)
  then have "core_entry m1 k r" using assms(2) by (simp add: core_entry_def f(5,7))
  then show ?thesis
    using f(1,4) assms(3) \<open>r \<noteq> r'\<close> by (auto simp: Admit al memory_ok_def intro!: admit_keeps_core)
next
  case (Protect now e)
  obtain r' m1 where al: "alloc R now e m = (r', m1)" by (cases "alloc R now e m")
  note f = memory_ok_alloc [OF assms(1) al]
  have "r \<noteq> r'" using f(3,5) assms(2) by (force simp: core_entry_def)
  moreover have "me_provenance_hash (entry_post_init R now e) \<noteq> k" using assms(3) Protect by blast
  ultimately have "core_entry (protect_axiom r' m1) k r"
    using assms(2) by (simp add: protect_axiom_def core_entry_def Let_def set_entry_def entry_at_def
        f(4,5,7) set_update_other)
  then show ?thesis by (simp add: Protect al)
next
  case (Decay now)
  with assms show ?thesis by (simp add: memory_ok_def decay_keeps_core)
next
  case (Outcome k' s now)
  with assms(2) show ?thesis
    by (auto simp: core_entry_def record_outcome_def set_entry_def entry_at_def split: option.splits)
qed

definition axiom_memory :: memory_system where
  "axiom_memory = memory_step digest_runtime (new_memory (3/10) (7/10) (6/10) (1/100) 1 sample_entry)
     (Protect 5 sample_entry)"

lemma axiom_memory_ok: "memory_ok axiom_memory" "core_entry axiom_memory ''p1'' 0"
proof -
  show "memory_ok axiom_memory" unfolding axiom_memory_def by (rule memory_ok_step) simp_all
  show "core_entry axiom_memory ''p1'' 0"
    by (simp add: axiom_memory_def core_entry_def new_memory_def alloc_def set_entry_def
        protect_axiom_def entry_at_def entry_post_init_def sample_entry_def Let_def)
qed

theorem core_axiom_survives_witness:
  "core_entry (memory_step digest_runtime axiom_memory
     (Admit 9 (sample_entry\<lparr>me_provenance_hash := ''p2''\<rparr>))) ''p1'' 0"
  by (rule core_axiom_survives) (auto simp: axiom_memory_ok entry_post_init_def sample_entry_def Let_def)

text \<open>The admission pipeline on an entry with non-negative counts. The three scores lie in
  \<open>[0.3, 1]\<close>, \<open>[0, 0.9]\<close> and \<open>[0, 1]\<close>. With a quality threshold up to 0.3, the constructor's
  default, the quality gate never fires: an entry is rejected exactly when its risk is above the
  limit, quarantined when it contradicts too many recent entries, and admitted otherwise. A
  rejection leaves store, quarantine, axioms and version alone; a quarantined entry enters the
  quarantine only; an admitted one can be looked up, active, under its provenance hash.\<close>

theorem admission_pipeline:
  assumes "counts_ok (ms_heap m r)" "ms_quality_min m \<le> 3 / 10"
  shows "case admit R r m of (res, m') \<Rightarrow>
      3 / 10 \<le> ar_quality_score res \<and> ar_quality_score res \<le> 1
    \<and> 0 \<le> ar_risk_score res \<and> ar_risk_score res \<le> 9 / 10
    \<and> 0 \<le> ar_contradiction_score res \<and> ar_contradiction_score res \<le> 1
    \<and> (ar_decision res = REJECT \<longleftrightarrow> ar_risk_score res > ms_risk_max m)
    \<and> (ar_decision res = QUARANTINE \<longleftrightarrow>
         ar_risk_score res \<le> ms_risk_max m \<and> ar_contradiction_score res > ms_contradiction_max m)
    \<and> (case ar_decision res of
         REJECT \<Rightarrow> ms_store m' = ms_store m \<and> ms_quarantine m' = ms_quarantine m
           \<and> ms_version m' = ms_version m \<and> ms_unsaved m' = ms_unsaved m
       | QUARANTINE \<Rightarrow> ms_store m' = ms_store m \<and> ms_version m' = ms_version m + 1
           \<and> map_of (ms_quarantine m') (me_provenance_hash (ms_heap m r)) = Some r
           \<and> me_status (ms_heap m' r) = ''quarantined''
       | ADMIT \<Rightarrow> map_of (ms_store m') (me_provenance_hash (ms_heap m r)) = Some r
           \<and> me_status (ms_heap m' r) = ''active'' \<and> ms_version m' = ms_version m + 1
           \<and> ms_quarantine m' = ms_quarantine m)
    \<and> ms_core_axioms m' = ms_core_axioms m"
proof -
  have room: "ms_version (make_room x) = ms_version x" "ms_quarantine (make_room x) = ms_quarantine x"
    "ms_core_axioms (make_room x) = ms_core_axioms x" for x
    by (auto simp: make_room_def evict_weakest_def split: option.splits prod.splits)
  let ?e = "ms_heap m r"
  have q: "\<not> quality_score ?e < ms_quality_min m"
    using quality_score_bounds(1) [OF assms(1)] assms(2) by linarith
  show ?thesis
    using q quality_score_bounds [OF assms(1)] risk_of_entry_bounds [OF assms(1), of m]
      contradiction_score_bounds [of m ?e]
    by (simp add: admit_def Let_def admission_def score_entry_def entry_at_def set_entry_def
        insert_active_def room map_of_update)
qed

theorem admission_pipeline_witness:
  "case admit toy_runtime 0 (new_memory (3/10) (7/10) (6/10) (1/100) 1 sample_entry) of (res, m') \<Rightarrow>
     ar_quality_score res \<le> 1"
  using admission_pipeline [of "new_memory (3/10) (7/10) (6/10) (1/100) 1 sample_entry" 0 toy_runtime]
  by (simp add: new_memory_def counts_ok_def sample_entry_def split: prod.splits)

text \<open>Saving a store and loading the file into a new memory system restores the store: the same
  keys in the same order, each holding an entry equal to the saved one, and the loader reports as
  many entries as the saver wrote.\<close>

theorem memory_save_load:
  assumes "memory_ok m" "\<forall>e \<in> set (store_entries m). loadable e"
  shows "case save_memory m of (written, file, _) \<Rightarrow>
    (case load_memory R now (Some file) (new_memory q rk c d n blank) of (loaded, m') \<Rightarrow>
       loaded = written \<and> map fst (ms_store m') = map fst (ms_store m)
       \<and> store_entries m' = store_entries m)"
proof -
  have keys: "map me_provenance_hash (store_entries m) = map fst (ms_store m)"
    using assms(1) by (auto simp: store_entries_def memory_ok_def keyed_def entry_at_def)
  have "distinct (map me_provenance_hash (store_entries m))"
    using assms(1) by (simp add: keys memory_ok_def keyed_def dict_ok_def)
  moreover have new: "ms_store (new_memory q rk c d n blank) = []" by (simp add: new_memory_def)
  moreover have "store_entries (new_memory q rk c d n blank) = []" by (simp add: store_entries_def new)
  moreover have "length (store_entries m) = length (ms_store m)" by (simp add: store_entries_def)
  ultimately show ?thesis
    using load_lines_store [of "store_entries m" "new_memory q rk c d n blank" R now 0] assms(2) keys
    by (auto simp: save_memory_def load_memory_def split: prod.split)
qed

theorem memory_save_load_witness:
  "case save_memory axiom_memory of (written, file, _) \<Rightarrow>
    (case load_memory toy_runtime 0 (Some file) (new_memory 0 0 0 0 5 sample_entry) of (loaded, m') \<Rightarrow>
       loaded = written \<and> map fst (ms_store m') = map fst (ms_store axiom_memory)
       \<and> store_entries m' = store_entries axiom_memory)"
  by (rule memory_save_load)
    (simp_all add: axiom_memory_ok, simp add: axiom_memory_def store_entries_def new_memory_def alloc_def
        set_entry_def protect_axiom_def entry_at_def entry_post_init_def sample_entry_def loadable_def Let_def)

end
