(* ===== verification/Simulate.thy ===== *)
theory Simulate
  imports Kernel_State Memory
begin

text \<open>
  The predictive layer, \<open>rfsn_kernel/simulate.py\<close>: the bounded outcome history, the heuristics for
  cost, loops, drift and failure modes, and \<open>simulate\<close>, which combines them with the learner's
  priors, known traps and memory entries. Nothing here has a side effect; ill-typed parameters of a
  proposal raise.
\<close>

record sim_result =
  sr_success_prob :: rat
  sr_failure_mode :: "string option"
  sr_cost_est :: rat
  sr_drift_risk :: rat
  sr_loop_risk :: rat

section \<open>Outcome history\<close>

record action_stats =
  as_n :: int
  as_success :: int
  as_fail :: int
  as_total_cost :: rat
  as_recent_failure_rate :: rat

record outcome_history =
  oh_max :: int
  oh_stats :: "(string \<times> action_stats) list"

definition new_history :: "int \<Rightarrow> outcome_history" where
  "new_history n = \<lparr>oh_max = n, oh_stats = []\<rparr>"

definition history_key :: "string \<Rightarrow> string \<Rightarrow> string" where
  "history_key action context = action @ ''|'' @ context"

definition fresh_stats :: action_stats where
  "fresh_stats = \<lparr>as_n = 0, as_success = 0, as_fail = 0, as_total_cost = 0, as_recent_failure_rate = 0\<rparr>"

definition bump :: "bool \<Rightarrow> rat \<Rightarrow> action_stats \<Rightarrow> action_stats" where
  "bump success cost s =
     s\<lparr>as_n := as_n s + 1, as_success := as_success s + (if success then 1 else 0),
       as_fail := as_fail s + (if success then 0 else 1), as_total_cost := as_total_cost s + cost,
       as_recent_failure_rate :=
         3 / 10 * (if success then 0 else 1) + 7 / 10 * as_recent_failure_rate s\<rparr>"

text \<open>\<open>heapq.nsmallest(n, keys, key)\<close> is \<open>sorted(keys, key=key)[:n]\<close>, a stable sort.\<close>

definition least_used :: "nat \<Rightarrow> (string \<times> action_stats) list \<Rightarrow> string list" where
  "least_used n stats = take n (map fst (sort_key (\<lambda>(k, s). as_n s) stats))"

definition prune :: "outcome_history \<Rightarrow> outcome_history" where
  "prune h =
     (if int (length (oh_stats h)) > oh_max h
      then h\<lparr>oh_stats := foldl (\<lambda>d k. AList.delete k d) (oh_stats h)
               (least_used (length (oh_stats h) div 4) (oh_stats h))\<rparr>
      else h)"

definition history_record ::
    "string \<Rightarrow> string \<Rightarrow> bool \<Rightarrow> rat \<Rightarrow> outcome_history \<Rightarrow> outcome_history" where
  "history_record action context success cost h =
     (let key = history_key action context;
          s = (case map_of (oh_stats h) key of None \<Rightarrow> fresh_stats | Some s \<Rightarrow> s)
      in prune (h\<lparr>oh_stats := AList.update key (bump success cost s) (oh_stats h)\<rparr>))"

definition history_lookup :: "string \<Rightarrow> string \<Rightarrow> outcome_history \<Rightarrow> action_stats option" where
  "history_lookup action context h = map_of (oh_stats h) (history_key action context)"

definition success_rate :: "action_stats \<Rightarrow> rat" where
  "success_rate s = of_int (as_success s) / of_int (max (as_n s) 1)"

definition avg_cost :: "action_stats \<Rightarrow> rat" where
  "avg_cost s = as_total_cost s / of_int (max (as_n s) 1)"

section \<open>Heuristics\<close>

definition BASE_COSTS :: "(string \<times> rat) list" where
  "BASE_COSTS =
     [(''repo_search'', 5 / 100), (''repo_read_range'', 3 / 100), (''read_file'', 2 / 100),
      (''detect_project'', 3 / 100), (''detect_workdirs'', 6 / 100), (''apply_patch'', 3 / 10),
      (''run_tests'', 5 / 10), (''run_cmd_template'', 4 / 10), (''format_fix'', 35 / 100),
      (''ensure_deps'', 2 / 10)]"

definition table_or :: "(string \<times> rat) list \<Rightarrow> rat \<Rightarrow> string \<Rightarrow> rat" where
  "table_or t d k = (case map_of t k of None \<Rightarrow> d | Some x \<Rightarrow> x)"

text \<open>\<open>len((proposal.params.get("patch", "") or "").splitlines())\<close>.\<close>

definition patch_lines :: "proposal \<Rightarrow> nat res" where
  "patch_lines p =
     ebind (as_str (py_or (dget_or (pr_params p) ''patch'' (PStr [])) (PStr [])))
       (\<lambda>patch. Inr (length (splitlines patch)))"

definition estimate_cost :: "proposal \<Rightarrow> rat res" where
  "estimate_cost p =
     (let base = table_or BASE_COSTS (1 / 10) (pr_action p)
      in ebind (if pr_action p = ''apply_patch''
                then ebind (patch_lines p) (\<lambda>n. Inr (base + of_nat n * (5 / 1000)))
                else Inr base) (\<lambda>base.
         ebind (if pr_action p = ''run_tests''
                then ebind (dget_int (pr_params p) ''timeout_s'' 240)
                       (\<lambda>t. Inr (base + of_int t * (5 / 10000)))
                else Inr base) (\<lambda>base.
         Inr (round4 base))))"

definition detect_loop :: "string \<Rightarrow> system_state \<Rightarrow> rat" where
  "detect_loop action s =
     (if st_recent_actions s = [] then 0
      else let recent = last_n 10 (st_recent_actions s);
               same = length (filter (\<lambda>a. a = action) recent);
               consecutive = length (takeWhile (\<lambda>a. a = action) (rev recent))
           in if consecutive \<ge> 4 then 95 / 100
              else if consecutive \<ge> 3 then 7 / 10
              else if same \<ge> 6 then 6 / 10
              else if same \<ge> 4 then 3 / 10 else 0)"

definition detect_drift :: "system_state \<Rightarrow> rat" where
  "detect_drift s =
     (if st_step_count s = 0 then 0
      else let ratio = of_int (st_recent_failures s) / of_int (max (st_step_count s) 1)
           in round4 (min 1 (ratio * 2 + st_drift_variance s)))"

definition predict_failure_mode ::
    "string \<Rightarrow> system_state \<Rightarrow> outcome_history option \<Rightarrow> string \<Rightarrow> string option" where
  "predict_failure_mode action s history context =
     (let stats = Option.bind history (history_lookup action context);
          late = (if st_recent_failures s \<ge> 5 then Some ''instability'' else None)
      in case stats of
           None \<Rightarrow> late
         | Some st \<Rightarrow>
             if as_recent_failure_rate st > 7 / 10 then Some ''cluster_failure''
             else if avg_cost st > 1 then Some ''resource_failure'' else late)"

section \<open>The simulation\<close>

definition base_probs :: "(string \<times> rat) list" where
  "base_probs =
     [(''repo_search'', 85 / 100), (''repo_read_range'', 95 / 100), (''read_file'', 96 / 100),
      (''detect_project'', 95 / 100), (''detect_workdirs'', 9 / 10), (''apply_patch'', 6 / 10),
      (''run_tests'', 5 / 10), (''run_cmd_template'', 55 / 100), (''format_fix'', 7 / 10),
      (''ensure_deps'', 8 / 10)]"

definition clamp :: "rat \<Rightarrow> rat \<Rightarrow> rat" where
  "clamp lo x = max lo (min 1 x)"

definition blend_history :: "outcome_history option \<Rightarrow> string \<Rightarrow> string \<Rightarrow> rat \<Rightarrow> rat" where
  "blend_history history action context prob =
     (case Option.bind history (history_lookup action context) of
        None \<Rightarrow> prob
      | Some st \<Rightarrow>
          if as_n st \<ge> 3
          then (let w = min (of_int (as_n st) / 10) 1 in (1 - w) * prob + w * success_rate st)
          else prob)"

definition blend_prior :: "rat option \<Rightarrow> int \<Rightarrow> rat \<Rightarrow> rat" where
  "blend_prior prior trials prob =
     (case prior of
        None \<Rightarrow> prob
      | Some x \<Rightarrow>
          (let pr = clamp (1 / 100) x; confidence = clamp 0 (of_int trials / 20);
               w = 1 / 4 + 1 / 2 * confidence
           in (1 - w) * prob + w * pr))"

definition state_penalty :: "system_state \<Rightarrow> rat \<Rightarrow> rat" where
  "state_penalty s p0 =
     (let p1 = (if st_recent_failures s \<ge> 3 then p0 * (7 / 10) else p0);
          p2 = (if st_recent_failures s \<ge> 6 then p1 * (5 / 10) else p1)
      in if st_safety_level s \<ge> 1 then p2 * (9 / 10) else p2)"

definition trap_penalty :: "string list \<Rightarrow> string \<Rightarrow> rat \<Rightarrow> rat" where
  "trap_penalty traps action p0 =
     (let p1 = (if ''action:'' @ action \<in> set traps then p0 * (1 / 10) else p0)
      in if action \<in> set traps then p1 * (1 / 10) else p1)"

definition blend_memory :: "memory_entry list \<Rightarrow> string \<Rightarrow> rat \<Rightarrow> rat" where
  "blend_memory mems action prob =
     (let hits = filter (\<lambda>me. occurs_in action (lower (me_content me))) mems;
          ts = sum_list (map me_success_count hits); tf = sum_list (map me_failure_count hits)
      in if ts + tf \<ge> 2
         then clamp (1 / 100) (85 / 100 * prob + 15 / 100 * (of_int ts / of_int (ts + tf)))
         else prob)"

definition success_estimate ::
    "proposal \<Rightarrow> system_state \<Rightarrow> outcome_history option \<Rightarrow> string \<Rightarrow> rat option \<Rightarrow> int
      \<Rightarrow> string list \<Rightarrow> memory_entry list \<Rightarrow> rat" where
  "success_estimate p s history context prior trials traps mems =
     (let a = pr_action p;
          prob = table_or base_probs (5 / 10) a;
          prob = blend_history history a context prob;
          prob = blend_prior prior trials prob;
          prob = state_penalty s prob;
          prob = trap_penalty traps a prob;
          prob = clamp (1 / 100) prob
      in blend_memory mems a prob)"

definition simulate ::
    "proposal \<Rightarrow> system_state \<Rightarrow> outcome_history option \<Rightarrow> string \<Rightarrow> rat option \<Rightarrow> int \<Rightarrow> rat option
      \<Rightarrow> string list \<Rightarrow> memory_entry list \<Rightarrow> sim_result res" where
  "simulate p s history context prior trials prior_loop traps mems =
     ebind (estimate_cost p) (\<lambda>cost.
       Inr \<lparr>sr_success_prob = round4 (success_estimate p s history context prior trials traps mems),
            sr_failure_mode = predict_failure_mode (pr_action p) s history context,
            sr_cost_est = cost,
            sr_drift_risk = detect_drift s,
            sr_loop_risk =
              (let l = detect_loop (pr_action p) s
               in case prior_loop of None \<Rightarrow> l | Some x \<Rightarrow> max l (clamp 0 x))\<rparr>)"

section \<open>Bounds\<close>

lemma clamp_bounds: "lo \<le> 1 \<Longrightarrow> lo \<le> clamp lo x" "lo \<le> 1 \<Longrightarrow> clamp lo x \<le> 1"
  by (simp_all add: clamp_def)

lemma detect_loop_bounds: "0 \<le> detect_loop a s" "detect_loop a s \<le> 95 / 100"
  by (simp_all add: detect_loop_def Let_def)

lemma detect_drift_bounds:
  assumes "state_ok s" shows "0 \<le> detect_drift s" "detect_drift s \<le> 1"
proof -
  let ?x = "of_int (st_recent_failures s) / of_int (max (st_step_count s) 1) * 2 + st_drift_variance s"
  have "0 \<le> ?x" using assms by (auto simp: state_ok_def)
  then have "0 \<le> round4 (min 1 ?x) \<and> round4 (min 1 ?x) \<le> 1" by (intro round4_01) auto
  then show "0 \<le> detect_drift s" "detect_drift s \<le> 1" by (auto simp: detect_drift_def Let_def)
qed

lemma clamp_01: "1 / 100 \<le> clamp (1 / 100) x" "clamp (1 / 100) x \<le> 1"
  by (rule clamp_bounds; simp)+

lemma blend_memory_bounds:
  assumes "1 / 100 \<le> x" "x \<le> 1"
  shows "1 / 100 \<le> blend_memory ms a x" "blend_memory ms a x \<le> 1"
  unfolding blend_memory_def Let_def using assms clamp_01 by presburger+

lemma success_estimate_bounds:
  "1 / 100 \<le> success_estimate p s h c pr t tr ms" "success_estimate p s h c pr t tr ms \<le> 1"
  unfolding success_estimate_def Let_def by (rule blend_memory_bounds [OF clamp_01])+

lemma round4_probability: "1 / 100 \<le> x \<Longrightarrow> x \<le> 1 \<Longrightarrow> 1 / 100 \<le> round4 x \<and> round4 x \<le> 1"
  using round4_between [of "1 / 100" x 1 100 10000] by simp

lemma simulate_ok:
  "simulate p s h c pr t pl tr ms = Inr sim \<longleftrightarrow>
     (\<exists>cost. estimate_cost p = Inr cost \<and> sim =
       \<lparr>sr_success_prob = round4 (success_estimate p s h c pr t tr ms),
        sr_failure_mode = predict_failure_mode (pr_action p) s h c, sr_cost_est = cost,
        sr_drift_risk = detect_drift s,
        sr_loop_risk = (case pl of None \<Rightarrow> detect_loop (pr_action p) s
                        | Some x \<Rightarrow> max (detect_loop (pr_action p) s) (clamp 0 x))\<rparr>)"
  by (auto simp: simulate_def Let_def)

section \<open>The history as a machine\<close>

definition stats_ok :: "action_stats \<Rightarrow> bool" where
  "stats_ok s \<longleftrightarrow> 0 \<le> as_success s \<and> 0 \<le> as_fail s \<and> as_n s = as_success s + as_fail s
     \<and> 0 \<le> as_recent_failure_rate s \<and> as_recent_failure_rate s \<le> 1"

text \<open>Below three entries a quarter rounds down to nothing, so three is the least real bound.\<close>

definition history_ok :: "outcome_history \<Rightarrow> bool" where
  "history_ok h \<longleftrightarrow> dict_ok (oh_stats h) \<and> (\<forall>(k, s) \<in> set (oh_stats h). stats_ok s)
     \<and> int (length (oh_stats h)) \<le> max 3 (oh_max h)"

lemma stats_ok_bump: "stats_ok s \<Longrightarrow> stats_ok (bump b c s)"
  by (auto simp: stats_ok_def bump_def)

lemma stats_ok_fresh: "stats_ok fresh_stats"
  by (simp add: stats_ok_def fresh_stats_def)

lemma foldl_delete_subset: "set (foldl (\<lambda>d k. AList.delete k d) d ks) \<subseteq> set d"
  by (auto simp: foldl_delete)

lemma dict_ok_foldl_delete: "dict_ok d \<Longrightarrow> dict_ok (foldl (\<lambda>d k. AList.delete k d) d ks)"
  by (simp add: foldl_delete dict_ok_def distinct_map_filter)

lemma length_foldl_delete:
  assumes "distinct ks" "set ks \<subseteq> fst ` set d" "dict_ok d"
  shows "length (foldl (\<lambda>d k. AList.delete k d) d ks) + length ks \<le> length d"
  using assms
proof (induction ks arbitrary: d)
  case Nil
  then show ?case by simp
next
  case (Cons k ks)
  have "set ks \<subseteq> fst ` set (AList.delete k d)" using Cons.prems(1,2) by (force simp: set_delete)
  then have "length (foldl (\<lambda>d k. AList.delete k d) (AList.delete k d) ks) + length ks \<le> length (AList.delete k d)"
    using Cons by (auto simp: dict_simps)
  moreover have "length (AList.delete k d) < length d"
    using Cons.prems(2) by (intro length_delete_in) auto
  ultimately show ?case by simp
qed

lemma least_used_ok:
  assumes "dict_ok d" "n \<le> length d"
  shows "distinct (least_used n d)" "set (least_used n d) \<subseteq> fst ` set d" "length (least_used n d) = n"
proof -
  have "distinct (map fst (sort_key (\<lambda>(k, s). as_n s) d))"
    using assms(1) by (simp add: dict_ok_def distinct_map)
  then show "distinct (least_used n d)" by (simp add: least_used_def)
  show "set (least_used n d) \<subseteq> fst ` set d" by (auto simp: least_used_def dest: in_set_takeD)
  show "length (least_used n d) = n" using assms(2) by (simp add: least_used_def)
qed

lemma prune_ok:
  assumes "dict_ok (oh_stats h)" "int (length (oh_stats h)) \<le> max 3 (oh_max h) + 1"
  shows "int (length (oh_stats (prune h))) \<le> max 3 (oh_max h)" "dict_ok (oh_stats (prune h))"
    "set (oh_stats (prune h)) \<subseteq> set (oh_stats h)" "oh_max (prune h) = oh_max h"
proof -
  let ?d = "oh_stats h" and ?n = "length (oh_stats h) div 4"
  note lu = least_used_ok [OF assms(1), of ?n]
  have "length (foldl (\<lambda>d k. AList.delete k d) ?d (least_used ?n ?d)) + ?n \<le> length ?d"
    using length_foldl_delete [OF lu(1,2) assms(1)] lu(3) by simp
  then show "int (length (oh_stats (prune h))) \<le> max 3 (oh_max h)"
    using assms(2) by (auto simp: prune_def)
  show "dict_ok (oh_stats (prune h))" using assms(1) by (simp add: prune_def dict_ok_foldl_delete)
  show "set (oh_stats (prune h)) \<subseteq> set (oh_stats h)" using foldl_delete_subset by (auto simp: prune_def)
  show "oh_max (prune h) = oh_max h" by (simp add: prune_def)
qed

lemma history_ok_record [machine_inv]:
  assumes "history_ok h" shows "history_ok (history_record a c b cost h)"
proof -
  let ?k = "history_key a c"
  let ?s = "case map_of (oh_stats h) ?k of None \<Rightarrow> fresh_stats | Some s \<Rightarrow> s"
  let ?h = "h\<lparr>oh_stats := AList.update ?k (bump b cost ?s) (oh_stats h)\<rparr>"
  have s: "stats_ok ?s"
    using assms stats_ok_fresh by (auto simp: history_ok_def split: option.splits dest!: map_of_SomeD)
  have d: "dict_ok (oh_stats ?h)" using assms by (simp add: history_ok_def dict_simps)
  have l: "int (length (oh_stats ?h)) \<le> max 3 (oh_max ?h) + 1"
    using assms by (auto simp: history_ok_def length_update)
  have "\<forall>(k, s) \<in> set (oh_stats ?h). stats_ok s"
    using set_update_subset [of ?k "bump b cost ?s" "oh_stats h"] assms stats_ok_bump [OF s]
    by (fastforce simp: history_ok_def)
  then show ?thesis
    using prune_ok [OF d l] by (auto simp: history_record_def Let_def history_ok_def)
qed

lemma history_ok_new: "history_ok (new_history n)"
  by (simp add: new_history_def history_ok_def)

definition history_step :: "outcome_history \<Rightarrow> string \<times> string \<times> bool \<times> rat \<Rightarrow> outcome_history" where
  "history_step h ev = (case ev of (a, c, b, cost) \<Rightarrow> history_record a c b cost h)"

interpretation history: machine history_step "new_history n" history_ok
  for n
proof unfold_locales
  show "history_ok (new_history n)" by (rule history_ok_new)
  show "history_ok h \<Longrightarrow> history_ok (history_step h ev)" for h ev
    by (cases ev) (simp add: history_step_def history_ok_record)
qed

section \<open>Properties\<close>

text \<open>Whatever outcomes are recorded, the outcome history holds at most its maximum number of
  keys (three when the maximum is smaller), every key once, and every record in it is consistent:
  successes and failures are non-negative and add up to the number of trials, and the smoothed
  failure rate is a probability.\<close>

theorem history_bounded: "history_ok (foldl history_step (new_history n) evs)"
  by (rule history.reach_inv)

text \<open>A simulation that returns gives a success probability in \<open>[0.01, 1]\<close>, and drift and loop
  risks in \<open>[0, 1]\<close>, for every well-formed state, history, learner prior, trap list and memory.\<close>

theorem simulate_bounds:
  assumes "state_ok s" "simulate p s h c pr t pl tr ms = Inr sim"
  shows "1 / 100 \<le> sr_success_prob sim \<and> sr_success_prob sim \<le> 1
    \<and> 0 \<le> sr_drift_risk sim \<and> sr_drift_risk sim \<le> 1
    \<and> 0 \<le> sr_loop_risk sim \<and> sr_loop_risk sim \<le> 1"
proof (intro conjI)
  from assms(2) obtain cost where sim: "sim =
       \<lparr>sr_success_prob = round4 (success_estimate p s h c pr t tr ms),
        sr_failure_mode = predict_failure_mode (pr_action p) s h c, sr_cost_est = cost,
        sr_drift_risk = detect_drift s,
        sr_loop_risk = (case pl of None \<Rightarrow> detect_loop (pr_action p) s
                        | Some x \<Rightarrow> max (detect_loop (pr_action p) s) (clamp 0 x))\<rparr>"
    by (auto simp: simulate_ok)
  show "1 / 100 \<le> sr_success_prob sim" "sr_success_prob sim \<le> 1"
    using round4_probability [OF success_estimate_bounds] by (simp_all add: sim)
  show "0 \<le> sr_drift_risk sim" "sr_drift_risk sim \<le> 1"
    using detect_drift_bounds [OF assms(1)] by (simp_all add: sim)
  have "detect_loop (pr_action p) s \<le> 1" "0 \<le> detect_loop (pr_action p) s"
    using detect_loop_bounds [of "pr_action p" s] by linarith+
  then show "0 \<le> sr_loop_risk sim" "sr_loop_risk sim \<le> 1"
    using clamp_bounds [of 0] by (auto simp: sim le_max_iff_disj split: option.split)
qed

definition sample_proposal :: "string \<Rightarrow> pydict \<Rightarrow> proposal" where
  "sample_proposal a ps = \<lparr>pr_action = a, pr_params = ps, pr_context_hash = [], pr_planner_hash = [],
     pr_timestamp = 1, pr_intent = [], pr_bundle_id = []\<rparr>"

theorem simulate_bounds_witness:
  "\<exists>sim. simulate (sample_proposal ''read_file'' []) initial_state None [] None 0 None [] [] = Inr sim
     \<and> sr_success_prob sim \<le> 1"
proof -
  obtain sim where "simulate (sample_proposal ''read_file'' []) initial_state None [] None 0 None [] [] = Inr sim"
    by (simp add: simulate_ok estimate_cost_def sample_proposal_def)
  with simulate_bounds [OF state_ok_initial this] show ?thesis by blast
qed

end
