(* ===== verification/Risk_Decide.thy ===== *)
theory Risk_Decide
  imports Simulate
begin

text \<open>
  Scoring and the decision law: \<open>rfsn_kernel/risk.py\<close>, \<open>rfsn_kernel/decide.py\<close> and the postcondition
  check \<open>rfsn_kernel/verify.py\<close>. Weights and thresholds are read from the policy with \<open>float(...)\<close> and
  \<open>int(...)\<close>, so a policy of the wrong type raises before anything is decided.
\<close>

section \<open>Risk\<close>

record risk_breakdown =
  rb_execution :: rat
  rb_environment :: rat
  rb_uncertainty :: rat
  rb_cost :: rat
  rb_loop :: rat
  rb_total :: rat
  rb_effective :: rat
  rb_ev_bonus :: rat

definition ACTION_RISK :: "(string \<times> rat) list" where
  "ACTION_RISK =
     [(''repo_search'', 5 / 100), (''repo_read_range'', 2 / 100), (''read_file'', 2 / 100),
      (''detect_project'', 3 / 100), (''detect_workdirs'', 5 / 100), (''apply_patch'', 6 / 10),
      (''run_tests'', 15 / 100), (''run_cmd_template'', 2 / 10), (''format_fix'', 25 / 100),
      (''ensure_deps'', 3 / 10)]"

definition execution_risk :: "proposal \<Rightarrow> rat res" where
  "execution_risk p =
     (let base = table_or ACTION_RISK (3 / 10) (pr_action p)
      in if pr_action p = ''apply_patch''
         then ebind (patch_lines p) (\<lambda>n.
           Inr (if n > 100 then min 1 (base + 2 / 10)
                else if n > 50 then min 1 (base + 1 / 10) else base))
         else Inr base)"

definition environment_risk :: "system_state \<Rightarrow> rat" where
  "environment_risk s =
     (let r0 = (if st_step_count s > 0
                then of_int (st_recent_failures s) / of_int (max (st_step_count s) 1) * (5 / 10) else 0);
          r1 = r0 + st_drift_variance s * (3 / 10);
          r2 = r1 + of_int (st_safety_level s) * (15 / 100)
      in min 1 r2)"

definition normalize_cost :: "rat \<Rightarrow> rat" where
  "normalize_cost c = min 1 (c / 2)"

definition ev_bonus :: "proposal \<Rightarrow> rat res" where
  "ev_bonus p =
     (if pr_action p = ''apply_patch''
      then ebind (patch_lines p) (\<lambda>n.
        Inr (if n \<le> 20 then 3 / 10 else if n \<le> 50 then 15 / 100 else 5 / 100))
      else Inr 0)"

definition risk_score ::
    "proposal \<Rightarrow> sim_result \<Rightarrow> system_state \<Rightarrow> pydict \<Rightarrow> risk_breakdown res" where
  "risk_score p sim s policy =
     ebind (execution_risk p) (\<lambda>r_exec.
     ebind (dget_float policy ''w_exec'' (30 / 100)) (\<lambda>w_exec.
     ebind (dget_float policy ''w_env'' (20 / 100)) (\<lambda>w_env.
     ebind (dget_float policy ''w_unc'' (20 / 100)) (\<lambda>w_unc.
     ebind (dget_float policy ''w_cost'' (10 / 100)) (\<lambda>w_cost.
     ebind (dget_float policy ''w_loop'' (20 / 100)) (\<lambda>w_loop.
     let r_env = environment_risk s;
         r_unc = 1 - sr_success_prob sim;
         r_cost = normalize_cost (sr_cost_est sim);
         r_loop = sr_loop_risk sim;
         all = min 1 (w_exec * r_exec + w_env * r_env + w_unc * r_unc + w_cost * r_cost + w_loop * r_loop)
     in ebind (ev_bonus p) (\<lambda>ev.
     ebind (dget_float policy ''risk_lambda'' (7 / 10)) (\<lambda>lam.
       Inr \<lparr>rb_execution = r_exec, rb_environment = r_env, rb_uncertainty = r_unc, rb_cost = r_cost,
            rb_loop = r_loop, rb_total = all, rb_effective = lam * all - (1 - lam) * ev,
            rb_ev_bonus = ev\<rparr>))))))))"

section \<open>Decision\<close>

record decision =
  dc_approved :: bool
  dc_reason :: string
  dc_risk :: "risk_breakdown option"

definition fl :: "runtime \<Rightarrow> rat \<Rightarrow> string" where
  "fl R x = rt_str R (PFloat x)"

definition decide ::
    "runtime \<Rightarrow> proposal \<Rightarrow> sim_result \<Rightarrow> risk_breakdown \<Rightarrow> pydict \<Rightarrow> decision res" where
  "decide R p sim risk policy =
     ebind (dget_float policy ''risk_max'' (65 / 100)) (\<lambda>risk_max.
     ebind (dget_float policy ''success_min'' (15 / 100)) (\<lambda>success_min.
     ebind (dget_float policy ''loop_max'' (8 / 10)) (\<lambda>loop_max.
     ebind (dget_float policy ''drift_max'' (85 / 100)) (\<lambda>drift_max.
     let fx = rt_fixed R 2; rej = (\<lambda>why. Inr \<lparr>dc_approved = False, dc_reason = why, dc_risk = Some risk\<rparr>)
     in if sr_loop_risk sim > loop_max
        then rej (''Loop detected: loop_risk='' @ fx (sr_loop_risk sim) @ '' > '' @ fl R loop_max)
        else if sr_drift_risk sim > drift_max
        then rej (''Drift detected: drift_risk='' @ fx (sr_drift_risk sim) @ '' > '' @ fl R drift_max)
        else if sr_failure_mode sim = Some ''cluster_failure''
        then rej (''Cluster failure predicted for '' @ pr_action p)
        else if rb_effective risk > risk_max
        then rej (''Risk too high: effective='' @ fx (rb_effective risk) @ '' > '' @ fl R risk_max
                    @ '' (total='' @ fx (rb_total risk) @ '', ev='' @ fx (rb_ev_bonus risk) @ '')'')
        else if sr_success_prob sim < success_min
        then rej (''Success too low: '' @ fx (sr_success_prob sim) @ '' < '' @ fl R success_min)
        else Inr \<lparr>dc_approved = True, dc_reason = ''approved'', dc_risk = Some risk\<rparr>))))"

section \<open>Postconditions\<close>

record violation =
  vi_code :: string
  vi_msg :: string

record verification_result =
  vr_ok :: bool
  vr_violations :: "violation list"

definition violated :: "bool \<Rightarrow> string \<Rightarrow> string \<Rightarrow> violation list" where
  "violated b c m = (if b then [\<lparr>vi_code = c, vi_msg = m\<rparr>] else [])"

definition verify :: "runtime \<Rightarrow> outcome \<Rightarrow> system_state \<Rightarrow> pydict \<Rightarrow> verification_result res" where
  "verify R oc s policy =
     ebind (dget_int policy ''max_safety_level'' 2) (\<lambda>max_safety.
     ebind (dget_float policy ''max_step_duration'' 900) (\<lambda>max_duration.
     ebind (dget_float policy ''max_total_cost'' 50) (\<lambda>max_cost.
     ebind (dget_int policy ''fail_cluster_threshold'' 8) (\<lambda>cluster.
     let vs = violated (st_safety_level s > max_safety) ''SAFETY_LEVEL_EXCEEDED''
                 (''Safety level '' @ int_str (st_safety_level s) @ '' > '' @ int_str max_safety)
              @ violated (oc_duration_sec oc > max_duration) ''DURATION_EXCEEDED''
                 (''Duration '' @ rt_fixed R 1 (oc_duration_sec oc) @ ''s > '' @ fl R max_duration @ ''s'')
              @ violated (st_total_cost s > max_cost) ''COST_EXCEEDED''
                 (''Total cost '' @ rt_fixed R 2 (st_total_cost s) @ '' > '' @ fl R max_cost)
              @ violated (st_recent_failures s \<ge> cluster) ''FAILURE_CLUSTER''
                 (''Failure cluster detected: '' @ int_str (st_recent_failures s)
                   @ '' recent failures >= '' @ int_str cluster)
     in Inr \<lparr>vr_ok = (vs = []), vr_violations = vs\<rparr>))))"

section \<open>Lemmas\<close>

lemma table_or_bounds:
  "(\<And>k x. (k, x) \<in> set t \<Longrightarrow> lo \<le> x \<and> x \<le> hi) \<Longrightarrow> lo \<le> d \<Longrightarrow> d \<le> hi \<Longrightarrow>
   lo \<le> table_or t d a \<and> table_or t d a \<le> hi"
  by (auto simp: table_or_def split: option.splits dest!: map_of_SomeD)

lemma action_risk_bounds:
  "2 / 100 \<le> table_or ACTION_RISK (3 / 10) a \<and> table_or ACTION_RISK (3 / 10) a \<le> 6 / 10"
  by (rule table_or_bounds) (auto simp: ACTION_RISK_def)

lemma action_risk_other: "a \<noteq> ''apply_patch'' \<Longrightarrow> table_or ACTION_RISK (3 / 10) a \<le> 3 / 10"
  by (auto simp: table_or_def ACTION_RISK_def)

lemma environment_risk_bounds: "state_ok s \<Longrightarrow> 0 \<le> environment_risk s \<and> environment_risk s \<le> 1"
  by (auto simp: environment_risk_def Let_def state_ok_def intro!: add_nonneg_nonneg)

lemma execution_risk_patch:
  "execution_risk p = Inr r \<Longrightarrow> 0 \<le> r \<and> r \<le> (if pr_action p = ''apply_patch'' then 8 / 10 else 3 / 10)"
  using action_risk_bounds [of "pr_action p"] action_risk_other [of "pr_action p"]
  by (auto simp: execution_risk_def Let_def min_def split: if_splits)

lemma ev_bonus_bounds:
  "ev_bonus p = Inr ev \<Longrightarrow> (if pr_action p = ''apply_patch'' then 5 / 100 else 0) \<le> ev \<and> ev \<le> 3 / 10"
  by (auto simp: ev_bonus_def split: if_splits)

lemma risk_score_eq:
  "risk_score p sim s policy = Inr rb \<longleftrightarrow>
     (\<exists>e we wv wu wc wl ev lam.
        execution_risk p = Inr e \<and> dget_float policy ''w_exec'' (30 / 100) = Inr we
        \<and> dget_float policy ''w_env'' (20 / 100) = Inr wv \<and> dget_float policy ''w_unc'' (20 / 100) = Inr wu
        \<and> dget_float policy ''w_cost'' (10 / 100) = Inr wc \<and> dget_float policy ''w_loop'' (20 / 100) = Inr wl
        \<and> ev_bonus p = Inr ev \<and> dget_float policy ''risk_lambda'' (7 / 10) = Inr lam
        \<and> (\<exists>all. all = min 1 (we * e + wv * environment_risk s + wu * (1 - sr_success_prob sim)
              + wc * normalize_cost (sr_cost_est sim) + wl * sr_loop_risk sim)
           \<and> rb = \<lparr>rb_execution = e, rb_environment = environment_risk s,
              rb_uncertainty = 1 - sr_success_prob sim, rb_cost = normalize_cost (sr_cost_est sim),
              rb_loop = sr_loop_risk sim, rb_total = all,
              rb_effective = lam * all - (1 - lam) * ev, rb_ev_bonus = ev\<rparr>))"
  unfolding risk_score_def Let_def ebind_Inr_iff by blast

lemma decide_eq:
  "decide R p sim risk policy = Inr d \<Longrightarrow>
     \<exists>rm sm lm dm. dget_float policy ''risk_max'' (65 / 100) = Inr rm
       \<and> dget_float policy ''success_min'' (15 / 100) = Inr sm
       \<and> dget_float policy ''loop_max'' (8 / 10) = Inr lm
       \<and> dget_float policy ''drift_max'' (85 / 100) = Inr dm
       \<and> dc_risk d = Some risk
       \<and> (dc_approved d \<longleftrightarrow> sr_loop_risk sim \<le> lm \<and> sr_drift_risk sim \<le> dm
            \<and> sr_failure_mode sim \<noteq> Some ''cluster_failure''
            \<and> rb_effective risk \<le> rm \<and> sm \<le> sr_success_prob sim)
       \<and> (dc_approved d \<longleftrightarrow> dc_reason d = ''approved'')"
  unfolding decide_def Let_def ebind_Inr_iff
  by (elim exE conjE) (rule exI, rule exI, rule exI, rule exI, auto split: if_splits)

lemma detect_loop_four:
  assumes "\<exists>xs. st_recent_actions s = xs @ [a, a, a, a]"
  shows "detect_loop a s = 95 / 100"
proof -
  from assms obtain xs where xs: "st_recent_actions s = xs @ [a, a, a, a]" by blast
  have "\<exists>ys. last_n 10 (xs @ [a, a, a, a]) = ys @ [a, a, a, a]" by (simp add: last_n_def)
  then obtain ys where "last_n 10 (st_recent_actions s) = ys @ [a, a, a, a]" using xs by auto
  then show ?thesis by (simp add: detect_loop_def Let_def xs)
qed

lemma last_n_suffix: "length ys \<le> n \<Longrightarrow> 0 < n \<Longrightarrow> \<exists>zs. last_n n (xs @ ys) = zs @ ys"
  by (simp add: last_n_def)

text \<open>The last actions of the window after four recordings.\<close>

lemma four_actions:
  "\<exists>xs. st_recent_actions (record_action a (record_action a (record_action a (record_action a s)))) = xs @ [a, a, a, a]"
proof -
  have step: "\<exists>zs. st_recent_actions (record_action a t) = zs @ ys @ [a]"
    if "st_recent_actions t = xs @ ys" "length ys < 20" for t xs ys
    using last_n_suffix [of "ys @ [a]" 20 xs] that by (simp add: record_action_window)
  obtain x1 where "st_recent_actions (record_action a s) = x1 @ [] @ [a]"
    using step [of s _ "[]"] by auto
  from step [OF this [simplified]] obtain x2 where
    "st_recent_actions (record_action a (record_action a s)) = x2 @ [a] @ [a]" by auto
  from step [OF this] obtain x3 where
    "st_recent_actions (record_action a (record_action a (record_action a s))) = x3 @ ([a] @ [a]) @ [a]" by auto
  from step [OF this] show ?thesis by auto
qed

section \<open>Properties\<close>

text \<open>The decision law. A proposal is approved exactly when its loop risk and drift risk are
  within their limits, no cluster failure is predicted, the effective risk is within its limit and
  the success probability reaches its floor, each limit read from the policy with its default; the
  recorded reason is \<open>approved\<close> exactly for an approval, and the risk breakdown is passed on.\<close>

theorem decision_law:
  assumes "decide R p sim risk policy = Inr d"
  shows "\<exists>rm sm lm dm. dget_float policy ''risk_max'' (65 / 100) = Inr rm
       \<and> dget_float policy ''success_min'' (15 / 100) = Inr sm
       \<and> dget_float policy ''loop_max'' (8 / 10) = Inr lm
       \<and> dget_float policy ''drift_max'' (85 / 100) = Inr dm
       \<and> dc_risk d = Some risk
       \<and> (dc_approved d \<longleftrightarrow> sr_loop_risk sim \<le> lm \<and> sr_drift_risk sim \<le> dm
            \<and> sr_failure_mode sim \<noteq> Some ''cluster_failure''
            \<and> rb_effective risk \<le> rm \<and> sm \<le> sr_success_prob sim)
       \<and> (dc_approved d \<longleftrightarrow> dc_reason d = ''approved'')"
  using assms by (rule decide_eq)

definition calm_sim :: sim_result where
  "calm_sim = \<lparr>sr_success_prob = 9 / 10, sr_failure_mode = None, sr_cost_est = 1 / 10,
     sr_drift_risk = 0, sr_loop_risk = 0\<rparr>"

definition calm_risk :: risk_breakdown where
  "calm_risk = \<lparr>rb_execution = 0, rb_environment = 0, rb_uncertainty = 0, rb_cost = 0, rb_loop = 0,
     rb_total = 0, rb_effective = 0, rb_ev_bonus = 0\<rparr>"

theorem decision_law_witness:
  "\<exists>d. decide toy_runtime (sample_proposal ''read_file'' []) calm_sim calm_risk [] = Inr d \<and> dc_approved d"
proof -
  obtain d where d: "decide toy_runtime (sample_proposal ''read_file'' []) calm_sim calm_risk [] = Inr d"
    by (simp add: decide_def calm_sim_def calm_risk_def)
  from decision_law [OF this] have "dc_approved d" by (auto simp: calm_sim_def calm_risk_def)
  with d show ?thesis by blast
qed

text \<open>The loop trap closes. After the same action has been recorded four times in a row, the
  simulation and decision of a further proposal of that action end in a rejection, whatever the
  history, priors and memory say, unless the policy sets its own loop limit.\<close>

theorem fourth_repetition_rejected:
  assumes "dget policy ''loop_max'' = None"
    and "simulate p (record_action a (record_action a (record_action a (record_action a s))))
           h c pr t pl tr ms = Inr sim" "pr_action p = a"
    and "decide R p sim risk policy = Inr d"
  shows "\<not> dc_approved d"
proof -
  from assms(2,3) have "95 / 100 \<le> sr_loop_risk sim"
    using detect_loop_four [OF four_actions, of a s] by (auto simp: simulate_ok split: option.splits)
  with decide_eq [OF assms(4)] assms(1) show ?thesis by auto
qed

theorem fourth_repetition_rejected_witness:
  "\<exists>sim d. simulate (sample_proposal ''read_file'' [])
       (record_action ''read_file'' (record_action ''read_file'' (record_action ''read_file''
         (record_action ''read_file'' initial_state)))) None [] None 0 None [] [] = Inr sim
     \<and> decide toy_runtime (sample_proposal ''read_file'' []) sim calm_risk [] = Inr d \<and> \<not> dc_approved d"
proof -
  let ?p = "sample_proposal ''read_file'' []"
  let ?s = "record_action ''read_file'' (record_action ''read_file'' (record_action ''read_file''
         (record_action ''read_file'' initial_state)))"
  obtain sim where s: "simulate ?p ?s None [] None 0 None [] [] = Inr sim"
    by (simp add: simulate_ok estimate_cost_def sample_proposal_def)
  have "\<exists>d. decide toy_runtime ?p sim calm_risk [] = Inr d"
    by (simp add: decide_def Let_def)
  then obtain d where d: "decide toy_runtime ?p sim calm_risk [] = Inr d" by blast
  have "\<not> dc_approved d"
    by (rule fourth_repetition_rejected [OF _ s _ d]) (simp_all add: sample_proposal_def)
  with s d show ?thesis by blast
qed

text \<open>Risk is monotone in the prediction. With non-negative weights, a simulation that is at
  least as likely to succeed, costs no more and is no more of a loop never gets a higher total or
  effective risk for the same proposal, state and policy.\<close>

theorem risk_monotone:
  assumes "risk_score p sim s policy = Inr rb" "risk_score p sim' s policy = Inr rb'"
    and "sr_success_prob sim \<le> sr_success_prob sim'" "sr_cost_est sim' \<le> sr_cost_est sim"
      "sr_loop_risk sim' \<le> sr_loop_risk sim"
    and "\<And>k x y. k \<in> {''w_unc'', ''w_cost'', ''w_loop'', ''risk_lambda''} \<Longrightarrow>
      dget_float policy k x = Inr y \<Longrightarrow> 0 \<le> x \<Longrightarrow> 0 \<le> y"
  shows "rb_total rb' \<le> rb_total rb \<and> rb_effective rb' \<le> rb_effective rb"
proof -
  from assms(1) obtain e we wv wu wc wl ev lam where a:
      "execution_risk p = Inr e" "dget_float policy ''w_exec'' (30 / 100) = Inr we"
      "dget_float policy ''w_env'' (20 / 100) = Inr wv" "dget_float policy ''w_unc'' (20 / 100) = Inr wu"
      "dget_float policy ''w_cost'' (10 / 100) = Inr wc" "dget_float policy ''w_loop'' (20 / 100) = Inr wl"
      "ev_bonus p = Inr ev" "dget_float policy ''risk_lambda'' (7 / 10) = Inr lam"
    and rb: "rb_total rb = min 1 (we * e + wv * environment_risk s + wu * (1 - sr_success_prob sim)
        + wc * normalize_cost (sr_cost_est sim) + wl * sr_loop_risk sim)"
      "rb_effective rb = lam * rb_total rb - (1 - lam) * ev"
    unfolding risk_score_eq by auto
  from assms(2) a have rb': "rb_total rb' = min 1 (we * e + wv * environment_risk s
        + wu * (1 - sr_success_prob sim') + wc * normalize_cost (sr_cost_est sim') + wl * sr_loop_risk sim')"
      "rb_effective rb' = lam * rb_total rb' - (1 - lam) * ev"
    unfolding risk_score_eq by auto
  have pos: "0 \<le> wu" "0 \<le> wc" "0 \<le> wl" "0 \<le> lam"
    using assms(6) [OF _ a(4)] assms(6) [OF _ a(5)] assms(6) [OF _ a(6)] assms(6) [OF _ a(8)] by auto
  have "normalize_cost (sr_cost_est sim') \<le> normalize_cost (sr_cost_est sim)"
    using assms(4) by (auto simp: normalize_cost_def min_def)
  then have t: "rb_total rb' \<le> rb_total rb"
    unfolding rb rb' using pos assms(3,5)
    by (intro min.mono add_mono mult_left_mono order_refl) auto
  then show ?thesis using pos(4) by (simp add: rb(2) rb'(2) mult_left_mono)
qed

theorem risk_monotone_witness:
  "\<exists>rb rb'. risk_score (sample_proposal ''read_file'' []) (calm_sim\<lparr>sr_loop_risk := 1\<rparr>) initial_state [] = Inr rb
     \<and> risk_score (sample_proposal ''read_file'' []) calm_sim initial_state [] = Inr rb'
     \<and> rb_total rb' \<le> rb_total rb"
proof -
  let ?p = "sample_proposal ''read_file'' []"
  obtain rb where rb: "risk_score ?p (calm_sim\<lparr>sr_loop_risk := 1\<rparr>) initial_state [] = Inr rb"
    by (simp add: risk_score_def execution_risk_def ev_bonus_def sample_proposal_def Let_def)
  obtain rb' where rb': "risk_score ?p calm_sim initial_state [] = Inr rb'"
    by (simp add: risk_score_def execution_risk_def ev_bonus_def sample_proposal_def Let_def)
  from risk_monotone [OF rb rb'] have "rb_total rb' \<le> rb_total rb"
    by (simp add: calm_sim_def)
  with rb rb' show ?thesis by blast
qed

text \<open>The default risk limit never binds. Under a policy without weights of its own, the
  effective risk of every proposal in every well-formed state stays below the default limit 0.65,
  because the one action risky enough to exceed it earns an expected-value bonus; so a default
  rejection always comes from the loop, drift, failure or success gate.\<close>

theorem default_risk_gate_inert:
  assumes "state_ok s" "1 / 100 \<le> sr_success_prob sim" "sr_loop_risk sim \<le> 1"
    and "\<And>k. k \<in> {''w_exec'', ''w_env'', ''w_unc'', ''w_cost'', ''w_loop'', ''risk_lambda''} \<Longrightarrow>
      dget policy k = None"
    and "risk_score p sim s policy = Inr rb"
  shows "rb_effective rb \<le> 643 / 1000"
proof -
  have d: "dget_float policy ''w_exec'' x = Inr x" "dget_float policy ''w_env'' x = Inr x"
      "dget_float policy ''w_unc'' x = Inr x" "dget_float policy ''w_cost'' x = Inr x"
      "dget_float policy ''w_loop'' x = Inr x" "dget_float policy ''risk_lambda'' x = Inr x" for x
    by (simp_all add: assms(4))
  obtain e ev where a: "execution_risk p = Inr e" "ev_bonus p = Inr ev"
    and rb: "rb_effective rb = 7 / 10 * min 1 (30 / 100 * e + 20 / 100 * environment_risk s
        + 20 / 100 * (1 - sr_success_prob sim) + 10 / 100 * normalize_cost (sr_cost_est sim)
        + 20 / 100 * sr_loop_risk sim) - (1 - 7 / 10) * ev"
    using assms(5) unfolding risk_score_def d ebind.simps Let_def ebind_Inr_iff by force
  have c: "normalize_cost (sr_cost_est sim) \<le> 1" by (simp add: normalize_cost_def)
  have env: "environment_risk s \<le> 1" using environment_risk_bounds [OF assms(1)] by simp
  define S where "S = 30 / 100 * e + 20 / 100 * environment_risk s
        + 20 / 100 * (1 - sr_success_prob sim) + 10 / 100 * normalize_cost (sr_cost_est sim)
        + 20 / 100 * sr_loop_risk sim"
  have "S \<le> 30 / 100 * e + 698 / 1000" unfolding S_def using c env assms(2,3) by (simp add: field_simps)
  moreover have "min 1 S \<le> S" by simp
  ultimately have "rb_effective rb \<le> 7 / 10 * (30 / 100 * e + 698 / 1000) - 3 / 10 * ev"
    unfolding rb S_def [symmetric] by (simp add: field_simps)
  then have "rb_effective rb * 10000 \<le> 2100 * e + 4886 - 3000 * ev" by (simp add: field_simps)
  then show ?thesis
    using execution_risk_patch [OF a(1)] ev_bonus_bounds [OF a(2)]
    by (cases "pr_action p = ''apply_patch''") auto
qed

theorem default_risk_gate_inert_witness:
  "\<exists>rb. risk_score (sample_proposal ''run_tests'' []) calm_sim initial_state [] = Inr rb
     \<and> rb_effective rb \<le> 643 / 1000"
proof -
  let ?p = "sample_proposal ''run_tests'' []"
  obtain rb where rb: "risk_score ?p calm_sim initial_state [] = Inr rb"
    by (simp add: risk_score_def execution_risk_def ev_bonus_def sample_proposal_def Let_def)
  from default_risk_gate_inert [OF state_ok_initial _ _ _ rb] have "rb_effective rb \<le> 643 / 1000"
    by (simp add: calm_sim_def)
  with rb show ?thesis by blast
qed

end
