(* ===== verification/Tier_Policy.thy ===== *)
theory Tier_Policy
  imports Kernel_State
begin

text \<open>
  Tiers: which files a step may touch at which tier (\<open>rfsn_kernel/tier_policy.py\<close>), how executor
  output is read as failure kinds (\<open>rfsn_kernel/failure_kinds.py\<close>), how those escalate the tier, and
  the per-run tier store (\<open>rfsn_kernel/run_state.py\<close>). The policy is parsed YAML, so \<open>.get\<close> on
  something that is not a mapping raises.
\<close>

text \<open>\<open>v.get(key, default)\<close> and \<open>v.get(key)\<close>.\<close>

definition py_get :: "pyval \<Rightarrow> string \<Rightarrow> pyval \<Rightarrow> pyval res" where
  "py_get v key d = (case as_dict v of None \<Rightarrow> Inl AttributeError | Some m \<Rightarrow> Inr (dget_or m key d))"

section \<open>Path classes\<close>

text \<open>One glob; a glob that is not a string makes \<open>fnmatch\<close> raise.\<close>

definition glob_hit :: "string \<Rightarrow> pyval \<Rightarrow> bool res" where
  "glob_hit path g =
     (case g of
        PStr g \<Rightarrow> Inr (fnmatch path g
          \<or> startswith g ''**/''
            \<and> (let leaf = drop 3 g
               in fnmatch path leaf \<or> endswith (''/'' @ path) (''/'' @ leaf)))
      | _ \<Rightarrow> Inl TypeError)"

definition glob_any :: "string \<Rightarrow> pyval \<Rightarrow> bool res" where
  "glob_any path globs = ebind (py_iter globs) (eany (glob_hit path))"

datatype path_kind = Tests | Deps | Ci | Code

definition classify_path :: "string \<Rightarrow> pyval \<Rightarrow> path_kind res" where
  "classify_path path classifiers =
     (let p = strip path; hit = (\<lambda>key. ebind (py_get classifiers key (PList [])) (glob_any p))
      in if p = [] then Inr Code
         else ebind (hit ''tests_globs'') (\<lambda>t. if t then Inr Tests
         else ebind (hit ''deps_globs'') (\<lambda>d. if d then Inr Deps
         else ebind (hit ''ci_globs'') (\<lambda>c. if c then Inr Ci else Inr Code))))"

section \<open>The files a step touches\<close>

definition header_path :: "string \<Rightarrow> string list" where
  "header_path l =
     (if startswith l ''+++ b/'' \<or> startswith l ''--- a/'' then [strip (drop 6 l)] else [])"

text \<open>The regular expression \<open>^diff --git a/(.+?) b/(.+)$\<close>: the shortest first group.\<close>

fun split_at_b :: "string \<Rightarrow> string \<Rightarrow> (string \<times> string) option" where
  "split_at_b acc [] = None"
| "split_at_b acc (c # cs) =
     (if acc \<noteq> [] \<and> startswith (c # cs) '' b/'' \<and> drop 3 (c # cs) \<noteq> []
      then Some (rev acc, drop 3 (c # cs)) else split_at_b (c # acc) cs)"

definition diff_git_paths :: "string \<Rightarrow> string list" where
  "diff_git_paths l =
     (if startswith l ''diff --git a/''
      then (case split_at_b [] (drop 13 l) of None \<Rightarrow> [] | Some (a, b) \<Rightarrow> [strip a, strip b])
      else [])"

definition paths_from_patch :: "string \<Rightarrow> string list" where
  "paths_from_patch patch =
     (let lines = splitlines patch; paths = concat (map header_path lines)
      in if paths \<noteq> [] then paths else concat (map diff_git_paths lines))"

definition str_item :: "pyval \<Rightarrow> string list" where
  "str_item v = (case v of PStr s \<Rightarrow> [s] | _ \<Rightarrow> [])"

definition file_item :: "pyval \<Rightarrow> string list" where
  "file_item v =
     (case v of
        PDict d \<Rightarrow> (case dget d ''path'' of Some (PStr s) \<Rightarrow> [s] | _ \<Rightarrow> [])
      | PStr s \<Rightarrow> [s]
      | _ \<Rightarrow> [])"

definition step_touches :: "pydict \<Rightarrow> string list" where
  "step_touches step =
     dedupe ((case dget step ''path'' of Some v \<Rightarrow> str_item v | None \<Rightarrow> [])
       @ (case dget step ''paths'' of Some (PList xs) \<Rightarrow> concat (map str_item xs) | _ \<Rightarrow> [])
       @ (case dget step ''files'' of Some (PList xs) \<Rightarrow> concat (map file_item xs) | _ \<Rightarrow> [])
       @ (case dget step ''patch'' of Some (PStr s) \<Rightarrow> paths_from_patch s | _ \<Rightarrow> []))"

section \<open>The tier gate\<close>

definition tier_forbids :: "pyval \<Rightarrow> pyval \<Rightarrow> string \<Rightarrow> string option res" where
  "tier_forbids allow classifiers path =
     (let ask = (\<lambda>key what. ebind (py_get allow key (PBool False)) (\<lambda>v.
            Inr (if truthy v then None else Some (''tier forbids '' @ what @ '' edits: '' @ path))))
      in ebind (classify_path path classifiers) (\<lambda>kind.
           case kind of
             Tests \<Rightarrow> ask ''edit_tests'' ''tests''
           | Deps \<Rightarrow> ask ''edit_deps'' ''deps''
           | Ci \<Rightarrow> ask ''edit_ci'' ''CI''
           | Code \<Rightarrow> Inr None))"

fun first_forbidden :: "pyval \<Rightarrow> pyval \<Rightarrow> string list \<Rightarrow> string option res" where
  "first_forbidden allow classifiers [] = Inr None"
| "first_forbidden allow classifiers (p # ps) =
     ebind (tier_forbids allow classifiers p) (\<lambda>r.
       case r of Some why \<Rightarrow> Inr (Some why) | None \<Rightarrow> first_forbidden allow classifiers ps)"

text \<open>\<open>None\<close> when the step is allowed, otherwise the reason.\<close>

definition tier_allows_step :: "pydict \<Rightarrow> pydict \<Rightarrow> pyval \<Rightarrow> string option res" where
  "tier_allows_step step tier_cfg classifiers =
     first_forbidden (dget_or tier_cfg ''allow'' (PDict [])) classifiers (step_touches step)"

section \<open>Escalation\<close>

text \<open>\<open>x in kinds\<close> for a set of strings: an unhashable \<open>x\<close> raises.\<close>

fun in_kinds :: "pyval \<Rightarrow> string list \<Rightarrow> bool res" where
  "in_kinds (PStr s) kinds = Inr (s \<in> set kinds)"
| "in_kinds (PList xs) kinds = Inl TypeError"
| "in_kinds (PDict d) kinds = Inl TypeError"
| "in_kinds _ kinds = Inr False"

fun first_rule :: "string list \<Rightarrow> pyval list \<Rightarrow> string option res" where
  "first_rule kinds [] = Inr None"
| "first_rule kinds (r # rs) =
     ebind (py_get r ''failure_kind'' (PStr [])) (\<lambda>v.
     ebind (in_kinds v kinds) (\<lambda>hit.
       if \<not> hit then first_rule kinds rs
       else case as_dict r of
              Some d \<Rightarrow> (case dget d ''failure_kind'' of
                  Some (PStr s) \<Rightarrow> Inr (Some s) | _ \<Rightarrow> Inl KeyError)
            | None \<Rightarrow> Inl AttributeError))"

definition rule_hit :: "pyval \<Rightarrow> string \<Rightarrow> string list \<Rightarrow> string option res" where
  "rule_hit rules key kinds =
     ebind (py_get rules key (PDict [])) (\<lambda>rule.
     ebind (py_get rule ''requires_any'' (PList [])) (\<lambda>reqs.
     ebind (py_iter reqs) (first_rule kinds)))"

definition try_tier ::
    "pyval \<Rightarrow> string list \<Rightarrow> int \<Rightarrow> int \<Rightarrow> string \<Rightarrow> (int \<times> string) res \<Rightarrow> (int \<times> string) res" where
  "try_tier rules kinds current t key rest =
     (if current < t
      then ebind (rule_hit rules key kinds) (\<lambda>hit.
        case hit of
          Some k \<Rightarrow> Inr (t, ''escalate->'' @ int_str t @ '' due to '' @ k)
        | None \<Rightarrow> rest)
      else rest)"

definition pick_next_tier :: "int \<Rightarrow> string list \<Rightarrow> pydict \<Rightarrow> (int \<times> string) res" where
  "pick_next_tier current kinds policy =
     (let rules = dget_or policy ''escalation_rules'' (PDict [])
      in try_tier rules kinds current 1 ''to_tier_1''
        (try_tier rules kinds current 2 ''to_tier_2''
        (try_tier rules kinds current 3 ''to_tier_3''
        (Inr (current, ''no escalation'')))))"

section \<open>Failure kinds\<close>

definition kind_rules :: "string \<Rightarrow> (bool \<times> string) list" where
  "kind_rules low =
     (let has = (\<lambda>s. occurs_in s low)
      in [(has ''failed'' \<and> (has ''pytest'' \<or> has ''unittest'' \<or> has ''tests''), ''tests_failed''),
          (has_word ''assertionerror'' low, ''tests_failed''),
          (has ''collected 0 items'' \<and> has ''error'', ''tests_failed''),
          (has_word ''modulenotfounderror'' low \<or> has ''no module named'', ''import_error_missing_module''),
          (has ''missing venv; ensure_deps first'', ''deps_install_failed''),
          (has ''pip'' \<and> (has ''could not find a version'' \<or> has ''resolutionimpossible''), ''deps_install_failed''),
          (has ''error: subprocess-exited-with-error'' \<and> has ''pip'', ''deps_install_failed''),
          (has ''missing dependency'' \<or> has ''not found: '' \<and> (has ''gcc'' \<or> has ''cmake''),
             ''build_system_missing_dependency''),
          (has ''.github/workflows'' \<or> has ''workflow'' \<and> has ''yaml'', ''ci_config_invalid''),
          (has ''ci'' \<and> (has ''failed'' \<or> has ''error''), ''ci_failed''),
          (has ''runner'' \<and> (has ''ubuntu'' \<or> has ''windows'' \<or> has ''macos''), ''ci_env_mismatch'')])"

definition extract_failure_kinds :: "runtime \<Rightarrow> pydict \<Rightarrow> string list res" where
  "extract_failure_kinds R out =
     ebind (py_int (py_or (dget_or out ''status'' (PInt 1)) (PInt 1))) (\<lambda>status.
       let logs = py_str R (py_or (dget_or out ''logs'' PNone)
                    (py_or (dget_or out ''payload'' PNone) (PStr [])));
           low = lower logs
       in if status = 0 then Inr [] else Inr (dedupe (map snd (filter fst (kind_rules low)))))"

section \<open>Run state\<close>

record run_state =
  run_tier :: int
  run_failure_kinds :: "string list"

type_synonym run_store = "(string \<times> run_state) list"

definition run_key :: "string \<Rightarrow> string" where
  "run_key run_id = (if run_id = [] then ''__default__'' else run_id)"

definition fresh_run :: run_state where
  "fresh_run = \<lparr>run_tier = 0, run_failure_kinds = []\<rparr>"

definition run_get :: "string \<Rightarrow> run_store \<Rightarrow> run_state \<times> run_store" where
  "run_get run_id st =
     (case map_of st (run_key run_id) of
        Some rs \<Rightarrow> (rs, st)
      | None \<Rightarrow> (fresh_run, AList.update (run_key run_id) fresh_run st))"

text \<open>Assigning a field of the object \<open>get\<close> returned.\<close>

definition run_put :: "string \<Rightarrow> run_state \<Rightarrow> run_store \<Rightarrow> run_store" where
  "run_put run_id rs st = AList.update (run_key run_id) rs st"

definition run_clear :: "string \<Rightarrow> run_store \<Rightarrow> run_store" where
  "run_clear run_id st = AList.delete (run_key run_id) st"

definition run_snapshot :: "run_store \<Rightarrow> (string \<times> int \<times> string list) list" where
  "run_snapshot st = map (\<lambda>(rid, rs). (rid, run_tier rs, run_failure_kinds rs)) st"

definition set_tier :: "string \<Rightarrow> int \<Rightarrow> run_store \<Rightarrow> run_store" where
  "set_tier run_id tier st =
     (let (rs, st1) = run_get run_id st in run_put run_id (rs\<lparr>run_tier := tier\<rparr>) st1)"

section \<open>Lemmas\<close>

lemma try_tier_cases:
  assumes "try_tier rules kinds current t key rest = Inr (t', why)"
  shows "t' = t \<and> current < t \<and> (\<exists>k. rule_hit rules key kinds = Inr (Some k)) \<or> rest = Inr (t', why)"
  using assms by (auto simp: try_tier_def split: if_splits option.splits)

lemma first_rule_hit: "first_rule kinds rs = Inr (Some k) \<Longrightarrow> k \<in> set kinds"
proof (induction kinds rs rule: first_rule.induct)
  case (1 kinds)
  then show ?case by simp
next
  case (2 kinds r rs)
  from "2.prems" obtain v hit where v: "py_get r ''failure_kind'' (PStr []) = Inr v" "in_kinds v kinds = Inr hit"
    by auto
  show ?case
  proof (cases hit)
    case False
    with 2 v show ?thesis by simp
  next
    case True
    from "2.prems" v True obtain d where d: "as_dict r = Some d" "dget d ''failure_kind'' = Some (PStr k)"
      by (auto split: option.splits pyval.splits)
    with v have "v = PStr k" by (simp add: py_get_def dget_or_def)
    with v True show ?thesis by simp
  qed
qed

lemma rule_hit_kind: "rule_hit rules key kinds = Inr (Some k) \<Longrightarrow> k \<in> set kinds"
  unfolding rule_hit_def ebind_Inr_iff using first_rule_hit by blast

lemma pick_next_tier_cases:
  assumes "pick_next_tier current kinds policy = Inr (t, why)"
  shows "t = current \<or> (t \<in> {1, 2, 3} \<and> current < t \<and> kinds \<noteq> [])"
proof -
  let ?rules = "dget_or policy ''escalation_rules'' (PDict [])"
  have ne: "kinds \<noteq> []" if "rule_hit ?rules key kinds = Inr (Some k)" for key k
    using rule_hit_kind [OF that] by auto
  show ?thesis
    using assms ne unfolding pick_next_tier_def Let_def
    by (auto dest!: try_tier_cases)
qed

definition tier_permits :: "pyval \<Rightarrow> path_kind \<Rightarrow> bool" where
  "tier_permits allow kind =
     (case kind of Code \<Rightarrow> True
      | _ \<Rightarrow> (case py_get allow (case kind of Tests \<Rightarrow> ''edit_tests'' | Deps \<Rightarrow> ''edit_deps'' | _ \<Rightarrow> ''edit_ci'')
                    (PBool False) of Inr v \<Rightarrow> truthy v | Inl _ \<Rightarrow> False))"

lemma tier_forbids_None:
  "tier_forbids allow cls p = Inr None \<longleftrightarrow> (\<exists>kind. classify_path p cls = Inr kind \<and> tier_permits allow kind)"
  by (auto simp: tier_forbids_def tier_permits_def Let_def split: path_kind.splits if_splits sum.splits)

lemma first_forbidden_None:
  "first_forbidden allow cls ps = Inr None \<longleftrightarrow> (\<forall>p \<in> set ps. tier_forbids allow cls p = Inr None)"
  by (induction allow cls ps rule: first_forbidden.induct) (auto split: option.splits)

lemma run_get_put:
  "run_get r st = (rs, st1) \<Longrightarrow> fst (run_get r (run_put r rs' st1)) = rs'"
  "run_key q \<noteq> run_key r \<Longrightarrow> fst (run_get q (run_put r rs' st)) = fst (run_get q st)"
  by (auto simp: run_get_def run_put_def dict_simps split: option.splits)

lemma run_get_snd: "fst (run_get q (snd (run_get r st))) = fst (run_get q st)"
  by (auto simp: run_get_def dict_simps split: option.splits)

section \<open>Properties\<close>

text \<open>Escalation only goes up and at most to tier 3. Choosing the next tier either keeps the
  current one or raises it to 1, 2 or 3, and the latter only when some failure kind was reported.\<close>

theorem escalation_monotone:
  assumes "pick_next_tier current kinds policy = Inr (t, why)"
  shows "current \<le> t \<and> t \<le> max 3 current \<and> (kinds = [] \<longrightarrow> t = current)"
  using pick_next_tier_cases [OF assms] by auto

theorem escalation_monotone_witness:
  "\<exists>t why. pick_next_tier 0 [] [] = Inr (t, why) \<and> t = 0"
proof -
  obtain t why where t: "pick_next_tier 0 [] [] = Inr (t, why)"
    by (simp add: pick_next_tier_def try_tier_def rule_hit_def py_get_def py_iter.simps Let_def)
  with escalation_monotone [OF this] show ?thesis by auto
qed



text \<open>Exit status 0 does not count as success. The failure kinds of an executor result with
  status 0 are those of the same result with status 1, because \<open>0 or 1\<close> is 1; the early return for
  a status of 0 is reached only when the status is given as a string or a small fraction.\<close>

theorem status_zero_is_failure:
  "extract_failure_kinds R (dput ''status'' (PInt 0) out) = extract_failure_kinds R (dput ''status'' (PInt 1) out)"
  by (simp add: extract_failure_kinds_def py_or_def dict_simps)

end
