(* ===== verification/Hard_Ledger.thy ===== *)
theory Hard_Ledger
  imports Memory
begin

text \<open>
  The append-only hash chain of the kernel, \<open>rfsn_kernel/hard_ledger.py\<close>, after the interface both
  ledgers of the program satisfy: a link function that binds an entry to the hash before it as long
  as the digest does not collide. The ledger file is a list of lines, each blank, unparsable or a
  record; writing a record and reading it back gives the record.
\<close>

section \<open>Hash chains\<close>

fun links :: "('h \<Rightarrow> 'e \<Rightarrow> 'h) \<Rightarrow> 'h \<Rightarrow> 'e list \<Rightarrow> ('h \<times> 'e) list" where
  "links link h [] = []"
| "links link h (e # es) = (h, e) # links link (link h e) es"

definition unclashed :: "('p \<Rightarrow> 'p \<Rightarrow> bool) \<Rightarrow> 'p list \<Rightarrow> 'p list \<Rightarrow> bool" where
  "unclashed clash ps qs \<longleftrightarrow> (\<forall>p \<in> set ps. \<forall>q \<in> set qs. \<not> clash p q)"

lemma links_snoc: "links link h (es @ [e]) = links link h es @ [(foldl link h es, e)]"
  by (induction es arbitrary: h) auto

locale hash_link =
  fixes link :: "'h \<Rightarrow> 'e \<Rightarrow> 'h"
    and clash :: "'h \<times> 'e \<Rightarrow> 'h \<times> 'e \<Rightarrow> bool"
  assumes link_binding: "link p e = link q f \<Longrightarrow> \<not> clash (p, e) (q, f) \<Longrightarrow> p = q \<and> e = f"
begin

text \<open>Two chains from the same start with the same head and length have the same entries.\<close>

lemma chain_binding:
  assumes "length es = length fs" "foldl link h es = foldl link h fs"
    "unclashed clash (links link h es) (links link h fs)"
  shows "es = fs"
  using assms
proof (induction es arbitrary: fs rule: rev_induct)
  case Nil
  then show ?case by simp
next
  case (snoc e es)
  from snoc.prems(1) obtain fs' f where fs: "fs = fs' @ [f]" by (cases fs rule: rev_cases) auto
  have "\<not> clash (foldl link h es, e) (foldl link h fs', f)"
    using snoc.prems(3) by (simp add: fs links_snoc unclashed_def)
  with snoc.prems(2) have eq: "foldl link h es = foldl link h fs'" "e = f"
    using link_binding by (auto simp: fs)
  have "es = fs'"
    using snoc.prems(1,3) eq(1) by (intro snoc.IH) (auto simp: fs links_snoc unclashed_def)
  with eq fs show ?case by simp
qed

end

text \<open>Two texts whose digests coincide although they differ, or differ in length.\<close>

definition digest_clash :: "runtime \<Rightarrow> string \<Rightarrow> string \<Rightarrow> bool" where
  "digest_clash R x y \<longleftrightarrow>
     x \<noteq> y \<and> rt_sha256 R x = rt_sha256 R y \<or> length (rt_sha256 R x) \<noteq> length (rt_sha256 R y)"

section \<open>Records\<close>

record ledger_record =
  lr_proposal_hash :: string
  lr_simulation :: pydict
  lr_risk :: pydict
  lr_decision :: string
  lr_decision_reason :: string
  lr_outcome_hash :: "string option"
  lr_state_hash :: string
  lr_verification :: "pydict option"
  lr_entry_hash :: string
  lr_prev_chain_hash :: string
  lr_chain_hash :: string
  lr_ts :: rat
  lr_metadata :: pydict

definition opt_str :: "string option \<Rightarrow> pyval" where
  "opt_str x = (case x of None \<Rightarrow> PNone | Some s \<Rightarrow> PStr s)"

definition opt_dict :: "pydict option \<Rightarrow> pyval" where
  "opt_dict x = (case x of None \<Rightarrow> PNone | Some d \<Rightarrow> PDict d)"

text \<open>\<open>_canon\<close> of the fields that the entry hash covers: neither \<open>ts\<close> nor \<open>metadata\<close> is among them.\<close>

definition record_body :: "runtime \<Rightarrow> ledger_record \<Rightarrow> string" where
  "record_body R r = rt_dumps R False (PDict
     [(PStr ''proposal_hash'', PStr (lr_proposal_hash r)), (PStr ''simulation'', PDict (lr_simulation r)),
      (PStr ''risk'', PDict (lr_risk r)), (PStr ''decision'', PStr (lr_decision r)),
      (PStr ''decision_reason'', PStr (lr_decision_reason r)),
      (PStr ''outcome_hash'', opt_str (lr_outcome_hash r)), (PStr ''state_hash'', PStr (lr_state_hash r)),
      (PStr ''verification'', opt_dict (lr_verification r))])"

section \<open>The ledger\<close>

datatype ledger_line = Blank | BadJson | Rec ledger_record

text \<open>\<open>hl_file\<close> is \<open>None\<close> while the file does not exist.\<close>

record hard_ledger =
  hl_file :: "ledger_line list option"
  hl_prev :: string
  hl_count :: nat

definition genesis :: string where
  "genesis = replicate 64 (CHR ''0'')"

definition file_lines :: "hard_ledger \<Rightarrow> ledger_line list" where
  "file_lines L = (case hl_file L of None \<Rightarrow> [] | Some ls \<Rightarrow> ls)"

text \<open>\<open>__init__\<close>: the last chain hash and the number of records of an existing file. A record
  without a chain hash (modelled as the empty string) leaves \<open>prev\<close> as it is.\<close>

fun scan_lines :: "ledger_line list \<Rightarrow> string \<times> nat \<Rightarrow> string \<times> nat" where
  "scan_lines [] st = st"
| "scan_lines (Rec r # ls) (prev, n) =
     scan_lines ls (if lr_chain_hash r = [] then prev else lr_chain_hash r, Suc n)"
| "scan_lines (_ # ls) st = scan_lines ls st"

definition open_ledger :: "ledger_line list option \<Rightarrow> hard_ledger" where
  "open_ledger file =
     (let (prev, n) = (case file of None \<Rightarrow> (genesis, 0) | Some ls \<Rightarrow> scan_lines ls (genesis, 0))
      in \<lparr>hl_file = file, hl_prev = prev, hl_count = n\<rparr>)"

text \<open>\<open>hmac\<close> signs the chain hash when a key is configured.\<close>

definition seal_record ::
    "runtime \<Rightarrow> (string \<Rightarrow> string) option \<Rightarrow> rat \<Rightarrow> string \<Rightarrow> ledger_record \<Rightarrow> ledger_record" where
  "seal_record R sign now prev r =
     (let eh = rt_sha256 R (record_body R r); ch = rt_sha256 R (prev @ eh)
      in r\<lparr>lr_ts := now, lr_entry_hash := eh, lr_prev_chain_hash := prev, lr_chain_hash := ch,
           lr_metadata := (case sign of None \<Rightarrow> lr_metadata r
                           | Some f \<Rightarrow> dput ''hmac'' (PStr (f ch)) (lr_metadata r))\<rparr>)"

definition append_record ::
    "runtime \<Rightarrow> (string \<Rightarrow> string) option \<Rightarrow> rat \<Rightarrow> ledger_record \<Rightarrow> hard_ledger
      \<Rightarrow> ledger_record \<times> hard_ledger" where
  "append_record R sign now r L =
     (let r' = seal_record R sign now (hl_prev L) r
      in (r', \<lparr>hl_file = Some (file_lines L @ [Rec r']), hl_prev = lr_chain_hash r',
               hl_count = Suc (hl_count L)\<rparr>))"

datatype ledger_error =
    JsonParse
  | MissingHashFields
  | ChainBreak string string
  | EntryMismatch string string
  | ChainMismatch string string

definition check_record :: "runtime \<Rightarrow> string \<Rightarrow> ledger_record \<Rightarrow> ledger_error list" where
  "check_record R prev r =
     (let computed_entry = rt_sha256 R (record_body R r);
          computed = rt_sha256 R (prev @ lr_entry_hash r)
      in (if lr_prev_chain_hash r \<noteq> prev then [ChainBreak (take 12 prev) (take 12 (lr_prev_chain_hash r))] else [])
       @ (if computed_entry \<noteq> lr_entry_hash r
          then [EntryMismatch (take 12 computed_entry) (take 12 (lr_entry_hash r))] else [])
       @ (if computed \<noteq> lr_chain_hash r
          then [ChainMismatch (take 12 computed) (take 12 (lr_chain_hash r))] else []))"

text \<open>The loop of \<open>verify_chain\<close>: line number, previous hash, count and errors so far.\<close>

fun verify_lines ::
    "runtime \<Rightarrow> ledger_line list \<Rightarrow> nat \<Rightarrow> string \<Rightarrow> nat \<Rightarrow> (nat \<times> ledger_error) list
      \<Rightarrow> nat \<times> (nat \<times> ledger_error) list" where
  "verify_lines R [] n prev count errs = (count, errs)"
| "verify_lines R (Blank # ls) n prev count errs = verify_lines R ls (Suc n) prev count errs"
| "verify_lines R (BadJson # ls) n prev count errs =
     verify_lines R ls (Suc n) prev (Suc count) (errs @ [(n, JsonParse)])"
| "verify_lines R (Rec r # ls) n prev count errs =
     (if lr_entry_hash r = [] \<or> lr_prev_chain_hash r = [] \<or> lr_chain_hash r = []
      then verify_lines R ls (Suc n) prev (Suc count) (errs @ [(n, MissingHashFields)])
      else verify_lines R ls (Suc n) (lr_chain_hash r) (Suc count)
             (errs @ map (\<lambda>e. (n, e)) (check_record R prev r)))"

definition verify_chain :: "runtime \<Rightarrow> hard_ledger \<Rightarrow> bool \<times> nat \<times> (nat \<times> ledger_error) list" where
  "verify_chain R L =
     (case hl_file L of
        None \<Rightarrow> (True, 0, [])
      | Some ls \<Rightarrow> (let (count, errs) = verify_lines R ls 1 genesis 0 [] in (errs = [], count, errs)))"

definition line_record :: "ledger_line \<Rightarrow> ledger_record list" where
  "line_record l = (case l of Rec r \<Rightarrow> [r] | _ \<Rightarrow> [])"

definition file_records :: "ledger_line list \<Rightarrow> ledger_record list" where
  "file_records ls = concat (map line_record ls)"

text \<open>\<open>read_all\<close>: an empty \<open>run_id\<close> does not filter.\<close>

definition read_all :: "string \<Rightarrow> hard_ledger \<Rightarrow> ledger_record list" where
  "read_all run_id L =
     filter (\<lambda>r. run_id = [] \<or> dget (lr_metadata r) ''run_id'' = Some (PStr run_id))
       (file_records (file_lines L))"

lemma file_records_snoc [simp]: "file_records (ls @ [Rec r]) = file_records ls @ [r]"
  by (simp add: file_records_def line_record_def)

section \<open>Valid chains\<close>

text \<open>A chain of records that links up from \<open>prev\<close>.\<close>

fun linked :: "runtime \<Rightarrow> string \<Rightarrow> ledger_record list \<Rightarrow> bool" where
  "linked R prev [] = True"
| "linked R prev (r # rs) =
     (lr_entry_hash r \<noteq> [] \<and> lr_prev_chain_hash r \<noteq> [] \<and> lr_chain_hash r \<noteq> []
      \<and> check_record R prev r = [] \<and> linked R (lr_chain_hash r) rs)"

fun head_hash :: "string \<Rightarrow> ledger_record list \<Rightarrow> string" where
  "head_hash prev [] = prev"
| "head_hash prev (r # rs) = head_hash (lr_chain_hash r) rs"

lemma verify_lines_errs: "\<exists>more. snd (verify_lines R ls n prev c errs) = errs @ more"
  by (induction R ls n prev c errs rule: verify_lines.induct) auto

lemma verify_lines_ok:
  "snd (verify_lines R ls n prev c errs) = [] \<longleftrightarrow>
     errs = [] \<and> BadJson \<notin> set ls \<and> linked R prev (file_records ls)"
proof (induction R ls n prev c errs rule: verify_lines.induct)
  case (1 R n prev count errs)
  then show ?case by (simp add: file_records_def)
next
  case (2 R ls n prev count errs)
  then show ?case by (simp add: file_records_def line_record_def)
next
  case (3 R ls n prev count errs)
  then show ?case by simp
next
  case (4 R r ls n prev count errs)
  then show ?case by (auto simp: file_records_def line_record_def)
qed

lemma verify_lines_count:
  "BadJson \<notin> set ls \<Longrightarrow> fst (verify_lines R ls n prev c errs) = c + length (file_records ls)"
  by (induction R ls n prev c errs rule: verify_lines.induct) (auto simp: file_records_def line_record_def)

lemma verify_chain_ok:
  "fst (verify_chain R L) \<longleftrightarrow> BadJson \<notin> set (file_lines L) \<and> linked R genesis (file_records (file_lines L))"
  using verify_lines_ok [of R "file_lines L" 1 genesis 0 "[]"]
  by (auto simp: verify_chain_def file_lines_def file_records_def split: option.splits prod.splits)

lemma verify_chain_count:
  "fst (verify_chain R L) \<Longrightarrow> fst (snd (verify_chain R L)) = length (file_records (file_lines L))"
  using verify_lines_count [of "file_lines L" R 1 genesis 0 "[]"] verify_chain_ok [of R L]
  by (auto simp: verify_chain_def file_lines_def file_records_def split: option.splits prod.splits)

lemma linked_append: "linked R prev (rs @ rs') \<longleftrightarrow> linked R prev rs \<and> linked R (head_hash prev rs) rs'"
  by (induction rs arbitrary: prev) auto

lemma head_hash_append: "head_hash prev (rs @ rs') = head_hash (head_hash prev rs) rs'"
  by (induction rs arbitrary: prev) auto

lemma check_record_Nil:
  "check_record R prev r = [] \<longleftrightarrow> lr_prev_chain_hash r = prev
     \<and> rt_sha256 R (record_body R r) = lr_entry_hash r \<and> rt_sha256 R (prev @ lr_entry_hash r) = lr_chain_hash r"
  by (simp add: check_record_def Let_def)

lemma scan_lines_eq:
  "BadJson \<notin> set ls \<Longrightarrow> linked R p (file_records ls) \<Longrightarrow>
   scan_lines ls (prev, n) = (head_hash prev (file_records ls), n + length (file_records ls))"
  by (induction ls "(prev, n)" arbitrary: prev n p rule: scan_lines.induct)
    (auto simp: file_records_def line_record_def)

section \<open>The chain as a machine\<close>

text \<open>The link of the kernel ledger: the text of a record's body joins the hash before it.\<close>

definition ledger_link :: "runtime \<Rightarrow> string \<Rightarrow> string \<Rightarrow> string" where
  "ledger_link R prev body = rt_sha256 R (prev @ rt_sha256 R body)"

definition ledger_clash :: "runtime \<Rightarrow> string \<times> string \<Rightarrow> string \<times> string \<Rightarrow> bool" where
  "ledger_clash R p q \<longleftrightarrow>
     digest_clash R (snd p) (snd q)
     \<or> digest_clash R (fst p @ rt_sha256 R (snd p)) (fst q @ rt_sha256 R (snd q))"

interpretation ledger_chain: hash_link "ledger_link R" "ledger_clash R" for R
  by unfold_locales (auto simp: ledger_link_def ledger_clash_def digest_clash_def)

lemma linked_head: "linked R prev rs \<Longrightarrow> head_hash prev rs = foldl (ledger_link R) prev (map (record_body R) rs)"
proof (induction rs arbitrary: prev)
  case Nil
  then show ?case by simp
next
  case (Cons r rs)
  have "lr_chain_hash r = ledger_link R prev (record_body R r)"
    using Cons.prems by (simp add: check_record_Nil ledger_link_def)
  with Cons show ?case by auto
qed

definition ledger_ok :: "runtime \<Rightarrow> hard_ledger \<Rightarrow> bool" where
  "ledger_ok R L \<longleftrightarrow> fst (verify_chain R L)
     \<and> hl_prev L = head_hash genesis (file_records (file_lines L))
     \<and> hl_count L = length (file_records (file_lines L)) \<and> hl_prev L \<noteq> []"

lemma ledger_ok_new [simp]: "ledger_ok R (open_ledger None)"
  by (simp add: ledger_ok_def open_ledger_def verify_chain_def file_lines_def file_records_def genesis_def)

lemma append_record_simps:
  "file_lines (snd (append_record R sign now r L)) = file_lines L @ [Rec (seal_record R sign now (hl_prev L) r)]"
  "fst (append_record R sign now r L) = seal_record R sign now (hl_prev L) r"
  "hl_count (snd (append_record R sign now r L)) = Suc (hl_count L)"
  "hl_prev (snd (append_record R sign now r L)) = lr_chain_hash (seal_record R sign now (hl_prev L) r)"
  by (simp_all add: append_record_def file_lines_def Let_def)

lemma seal_record_body [simp]: "record_body R (seal_record R sign now prev r) = record_body R r"
  by (simp add: seal_record_def record_body_def Let_def)

lemma digests_nonempty: "digests R \<Longrightarrow> rt_sha256 R s \<noteq> []"
  by (metis digests_def length_0_conv zero_neq_numeral)

lemma seal_record_linked:
  "digests R \<Longrightarrow> prev \<noteq> [] \<Longrightarrow> linked R prev [seal_record R sign now prev r]"
  by (simp add: check_record_Nil) (simp add: seal_record_def Let_def digests_nonempty)

lemma ledger_ok_append [machine_inv]:
  assumes "digests R" "ledger_ok R L" shows "ledger_ok R (snd (append_record R sign now r L))"
proof -
  let ?r = "seal_record R sign now (hl_prev L) r"
  have "lr_chain_hash ?r \<noteq> []" using assms(1) by (simp add: seal_record_def Let_def digests_nonempty)
  moreover have "linked R (hl_prev L) [?r]"
    using assms by (intro seal_record_linked) (auto simp: ledger_ok_def)
  ultimately show ?thesis
    using assms(2)
    by (auto simp: ledger_ok_def verify_chain_ok append_record_simps linked_append head_hash_append)
qed

definition append_step ::
    "runtime \<Rightarrow> (string \<Rightarrow> string) option \<Rightarrow> hard_ledger \<Rightarrow> rat \<times> ledger_record \<Rightarrow> hard_ledger" where
  "append_step R sign L x = snd (append_record R sign (fst x) (snd x) L)"

interpretation hard_ledger: growing_machine "append_step R sign" "open_ledger None"
    "\<lambda>L. digests R \<longrightarrow> ledger_ok R L" "\<lambda>L. length (file_lines L)" for R sign
  by unfold_locales (auto simp: append_step_def append_record_simps intro: ledger_ok_append)

section \<open>Properties\<close>

text \<open>C5: a ledger that starts empty verifies after any sequence of appends, with or without signing:
  no errors, as many entries as appends, and reopening the file restores the head hash and the
  count, so the chain can be continued after a restart.\<close>

theorem ledger_appends_verify:
  assumes "digests R"
  shows "let L = foldl (append_step R sign) (open_ledger None) xs
    in fst (verify_chain R L) \<and> fst (snd (verify_chain R L)) = hl_count L
       \<and> hl_count L = length xs \<and> open_ledger (hl_file L) = L"
proof -
  let ?L = "foldl (append_step R sign) (open_ledger None) xs"
  have ok: "ledger_ok R ?L" using hard_ledger.reach_inv assms by blast
  have count: "hl_count (foldl (append_step R sign) L xs) = hl_count L + length xs" for L
    by (induction xs arbitrary: L) (auto simp: append_step_def append_record_simps)
  have lines: "BadJson \<notin> set (file_lines ?L)" "linked R genesis (file_records (file_lines ?L))"
    using ok by (simp_all add: ledger_ok_def verify_chain_ok)
  have "open_ledger (hl_file ?L) = ?L"
    using ok scan_lines_eq [OF lines, of genesis 0]
    by (cases "hl_file ?L")
      (auto simp: open_ledger_def ledger_ok_def file_lines_def file_records_def Let_def)
  moreover have "hl_count ?L = length xs"
    using count [of "open_ledger None"] by (simp add: open_ledger_def)
  ultimately show ?thesis
    using ok verify_chain_count [of R ?L] by (simp add: Let_def ledger_ok_def)
qed

definition sample_record :: "string \<Rightarrow> string \<Rightarrow> ledger_record" where
  "sample_record d why = \<lparr>lr_proposal_hash = ''p'', lr_simulation = [], lr_risk = [], lr_decision = d,
     lr_decision_reason = why, lr_outcome_hash = None, lr_state_hash = ''s'', lr_verification = None,
     lr_entry_hash = [], lr_prev_chain_hash = [], lr_chain_hash = [], lr_ts = 0, lr_metadata = []\<rparr>"

theorem ledger_appends_verify_witness:
  "let L = foldl (append_step digest_runtime None) (open_ledger None) [(0, sample_record ''REJECT'' ''r'')]
    in fst (verify_chain digest_runtime L) \<and> fst (snd (verify_chain digest_runtime L)) = hl_count L
       \<and> hl_count L = length [(0 :: rat, sample_record ''REJECT'' ''r'')] \<and> open_ledger (hl_file L) = L"
  by (rule ledger_appends_verify) simp

text \<open>C6: tamper evidence. Two ledger files that both verify, hold the same number of records and end
  in the same chain hash agree on the hashed text of every record, unless two of the texts hashed
  along the chains collide: no field the entry hash covers can be changed, no record swapped or
  replaced, without changing the head or failing verification.\<close>

theorem ledger_tamper_evident:
  assumes "fst (verify_chain R L)" "fst (verify_chain R L')"
    and "rs = file_records (file_lines L)" "rs' = file_records (file_lines L')"
    and "length rs = length rs'" "head_hash genesis rs = head_hash genesis rs'"
    and "unclashed (ledger_clash R) (links (ledger_link R) genesis (map (record_body R) rs))
           (links (ledger_link R) genesis (map (record_body R) rs'))"
  shows "map (record_body R) rs = map (record_body R) rs'"
proof (rule ledger_chain.chain_binding)
  show "length (map (record_body R) rs) = length (map (record_body R) rs')" using assms(5) by simp
  show "foldl (ledger_link R) genesis (map (record_body R) rs) =
      foldl (ledger_link R) genesis (map (record_body R) rs')"
    using assms(1-4,6) linked_head [of R genesis rs] linked_head [of R genesis rs']
    by (simp add: verify_chain_ok)
qed (use assms(7) in simp)

theorem ledger_tamper_evident_witness:
  "let L = snd (append_record digest_runtime None 0 (sample_record ''REJECT'' ''r'') (open_ledger None));
       L' = snd (append_record digest_runtime None 7 (sample_record ''REJECT'' ''r'') (open_ledger None))
   in map (record_body digest_runtime) (file_records (file_lines L)) =
      map (record_body digest_runtime) (file_records (file_lines L'))"
  unfolding Let_def
proof (rule ledger_tamper_evident [OF _ _ refl refl])
  let ?L = "\<lambda>now. snd (append_record digest_runtime None now (sample_record ''REJECT'' ''r'') (open_ledger None))"
  have ok: "ledger_ok digest_runtime (?L now)" for now by (intro ledger_ok_append) simp_all
  then show "fst (verify_chain digest_runtime (?L 0))" "fst (verify_chain digest_runtime (?L 7))"
    by (simp_all add: ledger_ok_def)
  have new: "file_lines (open_ledger None) = []" "hl_prev (open_ledger None) = genesis"
    by (simp_all add: open_ledger_def file_lines_def)
  have rec: "file_records (file_lines (?L now)) =
      [seal_record digest_runtime None now genesis (sample_record ''REJECT'' ''r'')]" for now
    using file_records_snoc [of "[]"] by (simp add: append_record_simps new file_records_def)
  show "length (file_records (file_lines (?L 0))) = length (file_records (file_lines (?L 7)))"
    by (simp add: rec)
  show "head_hash genesis (file_records (file_lines (?L 0))) = head_hash genesis (file_records (file_lines (?L 7)))"
    by (simp add: rec) (simp add: seal_record_def Let_def)
  show "unclashed (ledger_clash digest_runtime)
     (links (ledger_link digest_runtime) genesis (map (record_body digest_runtime) (file_records (file_lines (?L 0)))))
     (links (ledger_link digest_runtime) genesis (map (record_body digest_runtime) (file_records (file_lines (?L 7)))))"
    by (simp add: rec unclashed_def ledger_clash_def digest_clash_def)
qed

text \<open>What the chain does not protect. Replacing the metadata (run, tier, action, signature) and the
  time stamp of any records of a ledger file changes nothing that verification looks at: the result,
  error list included, is the same.\<close>

theorem metadata_unprotected:
  "verify_chain R (L\<lparr>hl_file := map_option (map (\<lambda>l. case l of
       Rec r \<Rightarrow> Rec (r\<lparr>lr_metadata := f r, lr_ts := g r\<rparr>) | _ \<Rightarrow> l)) (hl_file L)\<rparr>)
   = verify_chain R L"
proof -
  let ?m = "\<lambda>l. case l of Rec r \<Rightarrow> Rec (r\<lparr>lr_metadata := f r, lr_ts := g r\<rparr>) | _ \<Rightarrow> l"
  have check: "check_record R prev (r\<lparr>lr_metadata := m\<rparr>) = check_record R prev r"
    "check_record R prev (r\<lparr>lr_ts := t\<rparr>) = check_record R prev r" for R prev r m t
    by (simp_all add: check_record_def record_body_def Let_def)
  have "verify_lines R (map ?m ls) n prev c errs = verify_lines R ls n prev c errs" for ls n prev c errs
    by (induction R ls n prev c errs rule: verify_lines.induct)
      (simp_all add: check)
  then show ?thesis by (simp add: verify_chain_def split: option.split)
qed

end
