(* ===== verification/Replay.thy ===== *)
theory Replay
  imports Hard_Ledger
begin

text \<open>
  Deterministic replay, \<open>rfsn_kernel/replay.py\<close>: the kernel records of a ledger file are checked for
  chain linkage, expected state hashes and the consistency of decisions and outcomes, and a decision
  trace is extracted from them.
\<close>

record replay_step =
  rs_index :: nat
  rs_record :: ledger_record
  rs_divergence :: "string option"

record replay_result =
  rp_ok :: bool
  rp_total_steps :: nat
  rp_matched_steps :: nat
  rp_divergences :: "(nat \<times> string \<times> string) list"
  rp_steps :: "replay_step list"

definition is_event :: "ledger_record \<Rightarrow> bool" where
  "is_event r \<longleftrightarrow>
     dget (lr_metadata r) ''record_type'' \<in> {Some (PStr ''orchestrator_event''), Some (PStr ''kernel_event'')}"

definition kernel_records :: "ledger_record list \<Rightarrow> ledger_record list" where
  "kernel_records rs = filter (\<lambda>r. \<not> is_event r) rs"

text \<open>The linkage check: in run-filtered mode each record against its own previous hash, otherwise
  against the record before it in the list.\<close>

definition link_divergence ::
    "runtime \<Rightarrow> string \<Rightarrow> ledger_record list \<Rightarrow> nat \<Rightarrow> string option" where
  "link_divergence R run_id rs i =
     (let rec = rs ! i
      in if run_id \<noteq> []
         then (let computed = rt_sha256 R (lr_prev_chain_hash rec @ lr_entry_hash rec)
               in if lr_chain_hash rec \<noteq> computed
                  then Some (''Chain hash mismatch at step '' @ nat_str i @ '': expected=''
                         @ take 12 computed @ ''... got='' @ take 12 (lr_chain_hash rec) @ ''...'')
                  else None)
         else if i > 0
         then (let expected = lr_chain_hash (rs ! (i - 1))
               in if lr_prev_chain_hash rec \<noteq> expected
                  then Some (''Chain break at step '' @ nat_str i @ '': expected prev=''
                         @ take 12 expected @ ''... got='' @ take 12 (lr_prev_chain_hash rec) @ ''...'')
                  else None)
         else None)"

text \<open>Later checks overwrite the message of earlier ones.\<close>

definition orelse :: "'a option \<Rightarrow> 'a option \<Rightarrow> 'a option" where
  "orelse later earlier = (case later of Some x \<Rightarrow> Some x | None \<Rightarrow> earlier)"

definition step_divergence ::
    "runtime \<Rightarrow> string list \<Rightarrow> string \<Rightarrow> ledger_record list \<Rightarrow> nat \<Rightarrow> string option" where
  "step_divergence R expected run_id rs i =
     (let rec = rs ! i;
          linkage = link_divergence R run_id rs i;
          state = (if i < length expected \<and> lr_state_hash rec \<noteq> expected ! i
                   then Some (''State divergence at step '' @ nat_str i @ '': expected=''
                          @ take 12 (expected ! i) @ ''... got='' @ take 12 (lr_state_hash rec) @ ''...'')
                   else None);
          invalid = (if lr_decision rec \<notin> {''APPROVE'', ''REJECT''}
                     then Some (''Invalid decision at step '' @ nat_str i @ '': '' @ lr_decision rec) else None);
          missing = (if lr_decision rec = ''APPROVE'' \<and> lr_outcome_hash rec \<in> {None, Some []}
                     then Some (''APPROVE without outcome at step '' @ nat_str i) else None)
      in orelse missing (orelse invalid (orelse state linkage)))"

definition replay_records ::
    "runtime \<Rightarrow> string list \<Rightarrow> string \<Rightarrow> ledger_record list \<Rightarrow> replay_result" where
  "replay_records R expected run_id rs =
     (let steps = map (\<lambda>i. \<lparr>rs_index = i, rs_record = rs ! i,
                             rs_divergence = step_divergence R expected run_id rs i\<rparr>) [0..<length rs];
          divs = concat (map (\<lambda>st. case rs_divergence st of
                     None \<Rightarrow> []
                   | Some m \<Rightarrow> [(rs_index st, m, take 12 (lr_entry_hash (rs_record st)))]) steps)
      in \<lparr>rp_ok = (divs = []), rp_total_steps = length rs,
          rp_matched_steps = length (filter (\<lambda>st. rs_divergence st = None) steps),
          rp_divergences = divs, rp_steps = steps\<rparr>)"

definition replay_verify ::
    "runtime \<Rightarrow> string list \<Rightarrow> string \<Rightarrow> hard_ledger \<Rightarrow> replay_result" where
  "replay_verify R expected run_id L = replay_records R expected run_id (kernel_records (read_all run_id L))"

definition extract_decision_trace :: "string \<Rightarrow> hard_ledger \<Rightarrow> pydict list" where
  "extract_decision_trace run_id L =
     map (\<lambda>r. [(PStr ''run_id'', dget_or (lr_metadata r) ''run_id'' (PStr [])),
               (PStr ''action'', dget_or (lr_metadata r) ''action'' (PStr [])),
               (PStr ''intent'', dget_or (lr_metadata r) ''intent'' (PStr [])),
               (PStr ''decision'', PStr (lr_decision r)),
               (PStr ''reason'', PStr (lr_decision_reason r)),
               (PStr ''success_prob'', dget_or (lr_simulation r) ''success_prob'' (PInt 0)),
               (PStr ''loop_risk'', dget_or (lr_simulation r) ''loop_risk'' (PInt 0)),
               (PStr ''drift_risk'', dget_or (lr_simulation r) ''drift_risk'' (PInt 0)),
               (PStr ''effective_risk'', dget_or (lr_risk r) ''effective_risk'' (PInt 0)),
               (PStr ''total_risk'', dget_or (lr_risk r) ''total_risk'' (PInt 0))])
       (kernel_records (read_all run_id L))"

section \<open>Lemmas\<close>

definition decision_consistent :: "ledger_record \<Rightarrow> bool" where
  "decision_consistent r \<longleftrightarrow> lr_decision r = ''REJECT''
     \<or> lr_decision r = ''APPROVE'' \<and> lr_outcome_hash r \<noteq> None \<and> lr_outcome_hash r \<noteq> Some []"

lemma orelse_None [simp]: "orelse a b = None \<longleftrightarrow> a = None \<and> b = None"
  by (auto simp: orelse_def split: option.splits)

lemma step_divergence_None:
  "step_divergence R expected run_id rs i = None \<longleftrightarrow>
     link_divergence R run_id rs i = None
     \<and> (i < length expected \<longrightarrow> lr_state_hash (rs ! i) = expected ! i)
     \<and> decision_consistent (rs ! i)"
  by (auto simp: step_divergence_def Let_def decision_consistent_def split: if_splits)

lemma replay_records_ok:
  "rp_ok (replay_records R expected run_id rs) \<longleftrightarrow>
     (\<forall>i < length rs. step_divergence R expected run_id rs i = None)"
  by (auto simp: replay_records_def Let_def split: option.splits)

lemma linked_nth:
  "linked R prev rs \<Longrightarrow> i < length rs \<Longrightarrow>
     lr_prev_chain_hash (rs ! i) = (if i = 0 then prev else lr_chain_hash (rs ! (i - 1)))
     \<and> lr_chain_hash (rs ! i) = rt_sha256 R (lr_prev_chain_hash (rs ! i) @ lr_entry_hash (rs ! i))"
proof (induction rs arbitrary: prev i)
  case Nil
  then show ?case by simp
next
  case (Cons r rs)
  show ?case
  proof (cases i)
    case 0
    with Cons.prems show ?thesis by (simp add: check_record_Nil)
  next
    case (Suc j)
    with Cons.prems Cons.IH [of "lr_chain_hash r" j] show ?thesis by (cases j) auto
  qed
qed

section \<open>Properties\<close>

text \<open>Replay of one run is faithful to the ledger. On a ledger that verifies, the replay of a named
  run with no expected state hashes succeeds exactly when every kernel record of that run is
  consistent, that is a rejection, or an approval with an outcome hash; records of other runs
  and events in between do not matter.\<close>

theorem replay_run_ok:
  assumes "fst (verify_chain R L)" "run_id \<noteq> []"
  shows "rp_ok (replay_verify R [] run_id L) \<longleftrightarrow>
    (\<forall>r \<in> set (kernel_records (read_all run_id L)). decision_consistent r)"
proof -
  let ?rs = "kernel_records (read_all run_id L)"
  have "linked R genesis (file_records (file_lines L))" using assms(1) by (simp add: verify_chain_ok)
  from linked_nth [OF this]
  have "lr_chain_hash r = rt_sha256 R (lr_prev_chain_hash r @ lr_entry_hash r)"
    if "r \<in> set (file_records (file_lines L))" for r
    using that by (metis in_set_conv_nth)
  then have "link_divergence R run_id ?rs i = None" if "i < length ?rs" for i
    using nth_mem [OF that] assms(2) by (auto simp: link_divergence_def Let_def kernel_records_def read_all_def)
  then show ?thesis
    by (simp add: replay_verify_def replay_records_ok step_divergence_None all_set_conv_all_nth)
qed

text \<open>Replay of the whole ledger takes events for chain breaks. If two kernel records of a
  verifying ledger have only event records between them, at least one, and the digest does not
  repeat along the chain, then the unfiltered replay reports a divergence although the chain is
  intact.\<close>

theorem replay_breaks_on_events:
  assumes "file_records (file_lines L) = as @ r # ev # evs @ r' # bs"
    and "fst (verify_chain R L)" "\<forall>e \<in> set (ev # evs). is_event e" "\<not> is_event r" "\<not> is_event r'"
    and "lr_chain_hash (last (ev # evs)) \<noteq> lr_chain_hash r"
  shows "\<not> rp_ok (replay_verify R expected [] L)"
proof -
  let ?rs = "kernel_records (read_all [] L)" and ?k = "length (kernel_records as)"
  have rs: "?rs = kernel_records as @ r # r' # kernel_records bs"
    using assms(1,3-5) by (auto simp: kernel_records_def read_all_def filter_empty_conv)
  have "linked R genesis (as @ r # ev # evs @ r' # bs)" using assms(1,2) by (simp add: verify_chain_ok)
  then have "linked R (head_hash genesis (as @ r # ev # evs)) (r' # bs)"
    using linked_append [of R genesis "as @ r # ev # evs" "r' # bs"] by simp
  then have "lr_prev_chain_hash r' = head_hash genesis (as @ r # ev # evs)" by (simp add: check_record_Nil)
  also have "\<dots> = lr_chain_hash (last (ev # evs))"
  proof -
    have "head_hash p (x # xs) = lr_chain_hash (last (x # xs))" for p x xs
      by (induction xs arbitrary: p x) auto
    then show ?thesis by (simp add: head_hash_append del: head_hash.simps)
  qed
  finally have "lr_prev_chain_hash r' \<noteq> lr_chain_hash r" using assms(6) by simp
  then have "link_divergence R [] ?rs (Suc ?k) \<noteq> None"
    by (simp add: link_divergence_def rs nth_append)
  then have "step_divergence R expected [] ?rs (Suc ?k) \<noteq> None"
    unfolding step_divergence_None by blast
  moreover have "Suc ?k < length ?rs" unfolding rs by simp
  ultimately have "\<not> rp_ok (replay_records R expected [] ?rs)"
    unfolding replay_records_ok by metis
  then show ?thesis unfolding replay_verify_def .
qed

text \<open>Both replays on one concrete ledger: a rejection, a kernel event, a rejection.\<close>

definition event_record :: ledger_record where
  "event_record = (sample_record ''REJECT'' ''event:TIER_ESCALATED'')
     \<lparr>lr_metadata := [(PStr ''record_type'', PStr ''kernel_event''), (PStr ''run_id'', PStr ''r'')]\<rparr>"

definition step_record :: "ledger_record" where
  "step_record = (sample_record ''REJECT'' ''no'')\<lparr>lr_metadata := [(PStr ''run_id'', PStr ''r'')]\<rparr>"

text \<open>A digest of length 64 that counts: it tells the chain hashes of the ledger apart.\<close>

definition counting_runtime :: runtime where
  "counting_runtime = toy_runtime\<lparr>rt_sha256 := (\<lambda>s. take 64 (CHR ''1'' # s @ replicate 64 (CHR ''0'')))\<rparr>"

lemma digests_counting: "digests counting_runtime"
  unfolding digests_def counting_runtime_def by simp linarith

definition event_ledger :: hard_ledger where
  "event_ledger = foldl (append_step counting_runtime None) (open_ledger None)
     [(0, step_record), (0, event_record), (0, step_record)]"

lemma event_ledger_ok: "fst (verify_chain counting_runtime event_ledger)"
  by code_simp

theorem replay_run_ok_witness: "rp_ok (replay_verify counting_runtime [] ''r'' event_ledger)"
proof -
  have "list_all decision_consistent (kernel_records (read_all ''r'' event_ledger))" by code_simp
  with replay_run_ok [OF event_ledger_ok, of "''r''"] show ?thesis by (simp add: list_all_iff)
qed

theorem replay_breaks_on_events_witness: "\<not> rp_ok (replay_verify counting_runtime [] [] event_ledger)"
proof (rule replay_breaks_on_events [of _ "[]" _ _ "[]" _ "[]"])
  let ?rs = "file_records (file_lines event_ledger)"
  show "?rs = [] @ ?rs ! 0 # ?rs ! 1 # [] @ ?rs ! 2 # []" by code_simp
  show "fst (verify_chain counting_runtime event_ledger)" by (rule event_ledger_ok)
  have "is_event (?rs ! 1) \<and> \<not> is_event (?rs ! 0) \<and> \<not> is_event (?rs ! 2)" by code_simp
  then show "\<forall>e \<in> set [?rs ! 1]. is_event e" "\<not> is_event (?rs ! 0)" "\<not> is_event (?rs ! 2)" by simp_all
  have "lr_chain_hash (?rs ! 1) \<noteq> lr_chain_hash (?rs ! 0)" by code_simp
  then show "lr_chain_hash (last [?rs ! 1]) \<noteq> lr_chain_hash (?rs ! 0)" by simp
qed

end
