(* ===== verification/Kernel.thy ===== *)
theory Kernel
  imports Validate Risk_Decide Tier_Policy Replay
begin

text \<open>
  The kernel, \<open>rfsn_kernel/kernel.py\<close>: the one path to execution. \<open>kernel_step\<close> is modelled stage by
  stage in a monad of a mutable kernel and Python exceptions, so that what an exception leaves behind
  is part of the model: the state is returned even when the call raises. The executor is a parameter
  that either raises (its message) or returns an outcome; the clock, the signing key and the JSON
  parser are fields of the environment, with one clock reading per call.
\<close>

section \<open>State and monad\<close>

record kernel =
  k_policy :: pydict
  k_ledger :: hard_ledger
  k_history :: outcome_history
  k_state :: system_state
  k_tier_policy :: pydict
  k_classifiers :: pyval
  k_runs :: run_store
  k_step_count :: int
  k_consecutive :: int

record env =
  en_clock :: rat
  en_sign :: "(string \<Rightarrow> string) option"
  en_loads :: "string \<Rightarrow> pyval option"

type_synonym 'a km = "kernel \<Rightarrow> 'a res \<times> kernel"

type_synonym executor = "pydict \<Rightarrow> string + outcome"

definition kret :: "'a \<Rightarrow> 'a km" where
  "kret x k = (Inr x, k)"

definition klift :: "'a res \<Rightarrow> 'a km" where
  "klift r k = (r, k)"

definition kbind :: "'a km \<Rightarrow> ('a \<Rightarrow> 'b km) \<Rightarrow> 'b km" where
  "kbind m f k = (case m k of (Inl e, k') \<Rightarrow> (Inl e, k') | (Inr x, k') \<Rightarrow> f x k')"

definition kupd :: "(kernel \<Rightarrow> kernel) \<Rightarrow> unit km" where
  "kupd f k = (Inr (), f k)"

definition kget :: "(kernel \<Rightarrow> 'a) \<Rightarrow> 'a km" where
  "kget f k = (Inr (f k), k)"

record kernel_result =
  kr_phase :: string
  kr_proposal :: proposal
  kr_validation :: "validation_result option"
  kr_simulation :: "sim_result option"
  kr_risk :: "risk_breakdown option"
  kr_decision :: "decision option"
  kr_outcome :: "outcome option"
  kr_verification :: "verification_result option"
  kr_ledger_record :: "ledger_record option"
  kr_error :: "string option"

definition blank_result :: "string \<Rightarrow> proposal \<Rightarrow> ledger_record \<Rightarrow> kernel_result" where
  "blank_result phase p r =
     \<lparr>kr_phase = phase, kr_proposal = p, kr_validation = None, kr_simulation = None, kr_risk = None,
      kr_decision = None, kr_outcome = None, kr_verification = None, kr_ledger_record = Some r,
      kr_error = None\<rparr>"

section \<open>Tier policy\<close>

definition tier_entry :: "int \<Rightarrow> string \<Rightarrow> bool \<Rightarrow> bool \<Rightarrow> bool \<Rightarrow> pyval \<times> pyval" where
  "tier_entry i name t d c =
     (PInt i, PDict [(PStr ''name'', PStr name),
        (PStr ''allow'', PDict [(PStr ''edit_tests'', PBool t), (PStr ''edit_deps'', PBool d),
           (PStr ''edit_ci'', PBool c)]),
        (PStr ''budgets'', PDict [])])"

definition DEFAULT_TIERS :: pyval where
  "DEFAULT_TIERS = PDict
     [tier_entry 0 ''code-only'' False False False, tier_entry 1 ''tests-allowed'' True False False,
      tier_entry 2 ''deps-allowed'' True True False, tier_entry 3 ''ci-allowed'' True True True]"

definition requires_any :: "string list \<Rightarrow> pyval" where
  "requires_any ks = PDict [(PStr ''requires_any'',
     PList (map (\<lambda>k. PDict [(PStr ''failure_kind'', PStr k)]) ks))]"

definition DEFAULT_TIER_POLICY :: pydict where
  "DEFAULT_TIER_POLICY =
     [(PStr ''tiers'', DEFAULT_TIERS),
      (PStr ''escalation_rules'', PDict
        [(PStr ''to_tier_1'', requires_any [''tests_failed'']),
         (PStr ''to_tier_2'', requires_any [''deps_install_failed'', ''import_error_missing_module'',
            ''build_system_missing_dependency'']),
         (PStr ''to_tier_3'', requires_any [''ci_failed'', ''ci_config_invalid'', ''ci_env_mismatch''])]),
      (PStr ''classifiers'', PDict
        [(PStr ''tests_globs'', PList [PStr ''**/tests/**'']),
         (PStr ''deps_globs'', PList [PStr ''**/requirements.txt'', PStr ''**/pyproject.toml'']),
         (PStr ''ci_globs'', PList [PStr ''**/.github/workflows/**''])])]"

text \<open>The loop that turns the keys of \<open>tiers\<close> into integers and drops what is not a mapping.\<close>

fun fix_tiers :: "pydict \<Rightarrow> pydict \<Rightarrow> pydict" where
  "fix_tiers [] acc = acc"
| "fix_tiers ((k, v) # rest) acc =
     (case (py_int k, as_dict v) of
        (Inr i, Some d) \<Rightarrow> fix_tiers rest (AList.update (PInt i) v acc)
      | _ \<Rightarrow> fix_tiers rest acc)"

text \<open>\<open>file\<close> is what the YAML parser gives for the path, \<open>None\<close> when reading or parsing raises.\<close>

definition load_tier_policy :: "string \<Rightarrow> pyval option \<Rightarrow> pydict" where
  "load_tier_policy path file =
     (if path = [] then DEFAULT_TIER_POLICY
      else case file of
             None \<Rightarrow> DEFAULT_TIER_POLICY
           | Some v \<Rightarrow>
               (case as_dict (py_or v (PDict [])) of
                  None \<Rightarrow> DEFAULT_TIER_POLICY
                | Some data \<Rightarrow>
                    (let fixed = (case dget_or data ''tiers'' (PDict []) of
                                    PDict ts \<Rightarrow> fix_tiers ts [] | _ \<Rightarrow> [])
                     in dput ''tiers'' (if fixed = [] then DEFAULT_TIERS else PDict fixed) data)))"

definition tier_cfg :: "pydict \<Rightarrow> int \<Rightarrow> pydict" where
  "tier_cfg policy tier =
     (case as_dict (dget_or policy ''tiers'' (PDict [])) of
        None \<Rightarrow> []
      | Some tiers \<Rightarrow>
          (case Option.bind (map_of tiers (PInt tier)) as_dict of
             Some cfg \<Rightarrow> cfg
           | None \<Rightarrow>
               (case Option.bind (dget tiers (int_str tier)) as_dict of
                  Some cfg \<Rightarrow> cfg | None \<Rightarrow> [])))"

section \<open>Construction\<close>

definition new_kernel :: "runtime \<Rightarrow> ledger_line list option \<Rightarrow> pydict \<Rightarrow> pydict \<Rightarrow> kernel res" where
  "new_kernel R file policy tiers =
     ebind (dget_int policy ''history_max'' 500) (\<lambda>hmax.
     ebind (dget_int policy ''rng_seed'' 42) (\<lambda>seed.
       Inr \<lparr>k_policy = policy, k_ledger = open_ledger file, k_history = new_history hmax,
            k_state = initial_state\<lparr>st_rng_seed := seed,
              st_policy_hash := py_str R (dget_or policy ''policy_hash'' (PStr []))\<rparr>,
            k_tier_policy = tiers,
            k_classifiers = py_or (dget_or tiers ''classifiers'' PNone) (PDict []),
            k_runs = [], k_step_count = 0, k_consecutive = 0\<rparr>))"

section \<open>Ledger records\<close>

definition sim_dict :: "sim_result \<Rightarrow> pydict" where
  "sim_dict s =
     [(PStr ''success_prob'', PFloat (round4 (sr_success_prob s))),
      (PStr ''failure_mode'', opt_str (sr_failure_mode s)),
      (PStr ''cost_est'', PFloat (round4 (sr_cost_est s))),
      (PStr ''drift_risk'', PFloat (round4 (sr_drift_risk s))),
      (PStr ''loop_risk'', PFloat (round4 (sr_loop_risk s)))]"

definition risk_dict :: "risk_breakdown \<Rightarrow> pydict" where
  "risk_dict r =
     [(PStr ''execution_risk'', PFloat (round4 (rb_execution r))),
      (PStr ''environment_risk'', PFloat (round4 (rb_environment r))),
      (PStr ''uncertainty_risk'', PFloat (round4 (rb_uncertainty r))),
      (PStr ''cost_risk'', PFloat (round4 (rb_cost r))), (PStr ''loop_risk'', PFloat (round4 (rb_loop r))),
      (PStr ''total_risk'', PFloat (round4 (rb_total r))),
      (PStr ''effective_risk'', PFloat (round4 (rb_effective r))),
      (PStr ''ev_bonus'', PFloat (round4 (rb_ev_bonus r)))]"

definition verification_dict :: "verification_result \<Rightarrow> pydict" where
  "verification_dict v =
     [(PStr ''ok'', PBool (vr_ok v)),
      (PStr ''violations'', PList (map (\<lambda>x. PDict
         [(PStr ''code'', PStr (vi_code x)), (PStr ''msg'', PStr (vi_msg x))]) (vr_violations v)))]"

definition push_record :: "runtime \<Rightarrow> env \<Rightarrow> ledger_record \<Rightarrow> ledger_record km" where
  "push_record R en r k =
     (let (r', L) = append_record R (en_sign en) (en_clock en) r (k_ledger k)
      in (Inr r', k\<lparr>k_ledger := L\<rparr>))"

definition event_payload :: "string \<Rightarrow> string \<Rightarrow> string \<Rightarrow> string \<Rightarrow> pydict \<Rightarrow> pydict" where
  "event_payload ty run_id intent bundle extra =
     foldl (\<lambda>d (k, v). AList.update k v d)
       [(PStr ''type'', PStr ty), (PStr ''run_id'', PStr run_id), (PStr ''intent'', PStr intent),
        (PStr ''bundle_id'', PStr bundle)] extra"

definition append_kernel_event ::
    "runtime \<Rightarrow> env \<Rightarrow> string \<Rightarrow> string \<Rightarrow> string \<Rightarrow> string \<Rightarrow> pydict \<Rightarrow> ledger_record km" where
  "append_kernel_event R en ty run_id intent bundle extra =
     (let payload = event_payload ty run_id intent bundle extra;
          ev_hash = rt_sha256 R (rt_dumps R False (PDict payload));
          state_hash = rt_sha256 R (''kernel_event:'' @ ev_hash)
      in push_record R en
           \<lparr>lr_proposal_hash = ev_hash, lr_simulation = [], lr_risk = [], lr_decision = ''REJECT'',
            lr_decision_reason = ''event:'' @ ty, lr_outcome_hash = None, lr_state_hash = state_hash,
            lr_verification = None, lr_entry_hash = [], lr_prev_chain_hash = [], lr_chain_hash = [],
            lr_ts = 0,
            lr_metadata =
              [(PStr ''record_type'', PStr ''kernel_event''), (PStr ''run_id'', PStr run_id),
               (PStr ''event_type'', PStr ty), (PStr ''action'', PStr (''event:'' @ ty)),
               (PStr ''intent'', PStr intent), (PStr ''bundle_id'', PStr bundle),
               (PStr ''event'', PDict payload), (PStr ''ts'', PFloat (en_clock en))]\<rparr>)"

definition kget_run :: "string \<Rightarrow> run_state km" where
  "kget_run run_id k = (let (rs, st) = run_get run_id (k_runs k) in (Inr rs, k\<lparr>k_runs := st\<rparr>))"

definition commit_record ::
    "runtime \<Rightarrow> proposal \<Rightarrow> sim_result option \<Rightarrow> risk_breakdown option \<Rightarrow> string \<Rightarrow> string
      \<Rightarrow> outcome option \<Rightarrow> verification_result option \<Rightarrow> string \<Rightarrow> int \<Rightarrow> system_state \<Rightarrow> ledger_record" where
  "commit_record R p sim risk decision reason oc ver run_id tier s =
     \<lparr>lr_proposal_hash = proposal_hash R p,
      lr_simulation = (case sim of None \<Rightarrow> [] | Some x \<Rightarrow> sim_dict x),
      lr_risk = (case risk of None \<Rightarrow> [] | Some x \<Rightarrow> risk_dict x),
      lr_decision = decision, lr_decision_reason = reason,
      lr_outcome_hash = map_option (outcome_hash R) oc,
      lr_state_hash = state_hash R s,
      lr_verification = map_option verification_dict ver,
      lr_entry_hash = [], lr_prev_chain_hash = [], lr_chain_hash = [], lr_ts = 0,
      lr_metadata =
        [(PStr ''action'', PStr (pr_action p)), (PStr ''intent'', PStr (pr_intent p)),
         (PStr ''run_id'', PStr run_id), (PStr ''bundle_id'', PStr (pr_bundle_id p)),
         (PStr ''tier'', PInt tier), (PStr ''context_hash'', PStr (pr_context_hash p)),
         (PStr ''memory_version'', PStr (st_memory_version s)),
         (PStr ''env_hash'', PStr (st_env_hash s)), (PStr ''step_count'', PInt (st_step_count s))]\<rparr>"

definition commit_ledger ::
    "runtime \<Rightarrow> env \<Rightarrow> proposal \<Rightarrow> sim_result option \<Rightarrow> risk_breakdown option \<Rightarrow> string \<Rightarrow> string
      \<Rightarrow> outcome option \<Rightarrow> verification_result option \<Rightarrow> string \<Rightarrow> ledger_record km" where
  "commit_ledger R en p sim risk decision reason oc ver run_id =
     kbind (kget_run run_id) (\<lambda>rs.
     kbind (kget k_state) (\<lambda>s.
       push_record R en (commit_record R p sim risk decision reason oc ver run_id (run_tier rs) s)))"

section \<open>Tier gates\<close>

definition budget_int :: "pyval \<Rightarrow> string \<Rightarrow> int res" where
  "budget_int budgets key = ebind (py_get budgets key (PInt 0)) (\<lambda>v. py_int (py_or v (PInt 0)))"

definition changed_lines :: "string \<Rightarrow> int" where
  "changed_lines patch = int (length (filter (\<lambda>l.
     startswith l ''+'' \<and> \<not> startswith l ''+++'' \<or> startswith l ''-'' \<and> \<not> startswith l ''---'')
     (splitlines patch)))"

definition patch_budget_reason :: "runtime \<Rightarrow> pydict \<Rightarrow> pyval \<Rightarrow> string option res" where
  "patch_budget_reason R raw budgets =
     (let patch = py_str R (dget_or raw ''patch'' (PStr [])); n = int (length (step_touches raw))
      in ebind (budget_int budgets ''max_patch_bytes'') (\<lambda>max_bytes.
         if max_bytes > 0 \<and> int (utf8_length patch) > max_bytes
         then Inr (Some (''tier max_patch_bytes exceeded: > '' @ int_str max_bytes))
         else ebind (budget_int budgets ''max_files_touched'') (\<lambda>max_files.
         if max_files > 0 \<and> n > max_files
         then Inr (Some (''tier max_files_touched exceeded: '' @ int_str n @ '' > '' @ int_str max_files))
         else ebind (budget_int budgets ''max_total_lines_changed'') (\<lambda>max_lines.
         if max_lines > 0 \<and> changed_lines patch > max_lines
         then Inr (Some (''tier max_total_lines_changed exceeded: '' @ int_str (changed_lines patch)
                     @ '' > '' @ int_str max_lines))
         else Inr None))))"

definition budget_reason :: "runtime \<Rightarrow> pydict \<Rightarrow> pydict \<Rightarrow> system_state \<Rightarrow> string option res" where
  "budget_reason R raw cfg s =
     (let budgets = dget_or cfg ''budgets'' (PDict [])
      in ebind (budget_int budgets ''max_total_steps'') (\<lambda>max_steps.
         if max_steps > 0 \<and> st_step_count s \<ge> max_steps
         then Inr (Some (''tier max_total_steps exceeded: '' @ int_str (st_step_count s) @ '' >= ''
                     @ int_str max_steps))
         else if dget raw ''type'' = Some (PStr ''apply_patch'') then patch_budget_reason R raw budgets
         else Inr None))"

definition tier_reject ::
    "runtime \<Rightarrow> env \<Rightarrow> proposal \<Rightarrow> string \<Rightarrow> int \<Rightarrow> string \<Rightarrow> string \<Rightarrow> kernel_result km" where
  "tier_reject R en p run_id tier reason error =
     kbind (append_kernel_event R en ''TIER_STEP_REJECTED'' run_id (pr_intent p) (pr_bundle_id p)
              [(PStr ''tier'', PInt tier), (PStr ''reason'', PStr reason)]) (\<lambda>_.
     kbind (commit_ledger R en p None None ''REJECT'' reason None None run_id) (\<lambda>r.
       kret ((blank_result ''VALIDATE'' p r)
         \<lparr>kr_decision := Some \<lparr>dc_approved = False, dc_reason = reason, dc_risk = None\<rparr>,
          kr_error := Some error\<rparr>)))"

section \<open>Simulation inputs\<close>

text \<open>\<open>try: ... except (TypeError, ValueError)\<close>.\<close>

definition try_or :: "'a \<Rightarrow> 'a res \<Rightarrow> 'a res" where
  "try_or d r =
     (case r of Inr x \<Rightarrow> Inr x | Inl e \<Rightarrow> if e \<in> {TypeError, ValueError} then Inr d else Inl e)"

record evidence =
  ev_success_prob :: "rat option"
  ev_trials :: int
  ev_loop_risk :: "rat option"
  ev_traps :: "string list"

definition no_evidence :: evidence where
  "no_evidence = \<lparr>ev_success_prob = None, ev_trials = 0, ev_loop_risk = None, ev_traps = []\<rparr>"

definition read_evidence :: "runtime \<Rightarrow> pydict option \<Rightarrow> evidence res" where
  "read_evidence R learner =
     (case learner of
        None \<Rightarrow> Inr no_evidence
      | Some d \<Rightarrow>
          ebind (try_or None (case dget_or d ''prior_success_prob'' PNone of
                   PNone \<Rightarrow> Inr None | v \<Rightarrow> ebind (py_float v) (\<lambda>x. Inr (Some x)))) (\<lambda>prob.
          ebind (try_or 0 (dget_int0 d ''prior_trials'')) (\<lambda>trials.
          ebind (try_or 0 (dget_int0 d ''failure_occurrence'')) (\<lambda>occ.
          ebind (try_or 0 (py_float (py_or (dget_or d ''failure_best_win_rate'' (PFloat 0)) (PFloat 0)))) (\<lambda>_.
            Inr \<lparr>ev_success_prob = prob, ev_trials = trials,
                 ev_loop_risk = (if occ \<ge> 2
                   then Some (max (min (9 / 10) (2 / 10 + 1 / 10 * of_int (min occ 5))) (7 / 10))
                   else None),
                 ev_traps = (case dget_or d ''known_traps'' PNone of
                   PList xs \<Rightarrow> map (py_str R) xs | _ \<Rightarrow> [])\<rparr>)))))"

section \<open>Adaptive envelope\<close>

definition adaptive_tighten :: "unit km" where
  "adaptive_tighten =
     kbind (kupd (\<lambda>k. k\<lparr>k_state := (k_state k)\<lparr>st_safety_level := min 2 (st_safety_level (k_state k) + 1)\<rparr>\<rparr>)) (\<lambda>_.
     kbind (kget k_policy) (\<lambda>pol.
     kbind (klift (dget_float pol ''risk_max'' (65 / 100))) (\<lambda>rm.
     kbind (klift (dget_float pol ''success_min'' (15 / 100))) (\<lambda>sm.
       kupd (\<lambda>k. k\<lparr>k_policy := dput ''success_min'' (PFloat (min (5 / 10) (sm + 5 / 100)))
                    (dput ''risk_max'' (PFloat (max (3 / 10) (rm - 1 / 10))) (k_policy k))\<rparr>)))))"

definition adaptive_relax :: "unit km" where
  "adaptive_relax =
     kbind (kupd (\<lambda>k. if st_safety_level (k_state k) > 0
              then k\<lparr>k_state := (k_state k)\<lparr>st_safety_level := st_safety_level (k_state k) - 1\<rparr>\<rparr> else k)) (\<lambda>_.
     kbind (kget k_policy) (\<lambda>pol.
     kbind (klift (dget_float pol ''risk_max'' (65 / 100))) (\<lambda>rm.
     kbind (klift (dget_float pol ''success_min'' (15 / 100))) (\<lambda>sm.
       kupd (\<lambda>k. k\<lparr>k_policy := dput ''success_min'' (PFloat (max (1 / 10) (sm - 2 / 100)))
                    (dput ''risk_max'' (PFloat (min (8 / 10) (rm + 5 / 100))) (k_policy k))\<rparr>)))))"

section \<open>Execution and its aftermath\<close>

definition failed_outcome :: "string \<Rightarrow> outcome" where
  "failed_outcome msg =
     \<lparr>oc_success = False, oc_exit_code = -1, oc_payload = [], oc_logs = [], oc_duration_sec = 0,
      oc_error = Some msg, oc_state_delta_hash = []\<rparr>"

definition run_executor :: "executor \<Rightarrow> proposal \<Rightarrow> outcome" where
  "run_executor exec p =
     (case exec (proposal_to_step p) of Inr oc \<Rightarrow> oc | Inl msg \<Rightarrow> failed_outcome msg)"

definition rollback_note :: string where
  "rollback_note = CHR 0x0A # ''[KERNEL SYSTEM OVERRIDE]: 3 consecutive failures. WORKSPACE ROLLED BACK. ABANDON HYPOTHESIS.''"

definition count_outcome :: "proposal \<Rightarrow> rat \<Rightarrow> outcome \<Rightarrow> kernel \<Rightarrow> kernel" where
  "count_outcome p cost oc k =
     (let s1 = record_action (pr_action p) (advance_step (k_state k));
          s2 = s1\<lparr>st_total_cost := st_total_cost s1 + cost\<rparr>
      in if oc_success oc
         then k\<lparr>k_state := record_success s2, k_consecutive := 0\<rparr>
         else k\<lparr>k_state := record_failure s2, k_consecutive := k_consecutive k + 1\<rparr>)"

text \<open>\<open>_check_and_trigger_rollback\<close> and the mutation of the outcome that follows it.\<close>

definition check_rollback :: "kernel \<Rightarrow> bool \<times> kernel" where
  "check_rollback k =
     (if k_consecutive k \<ge> 3 then (True, k\<lparr>k_consecutive := 0\<rparr>) else (False, k))"

definition note_rollback :: "bool \<Rightarrow> outcome \<Rightarrow> outcome" where
  "note_rollback b oc =
     (if b then oc\<lparr>oc_error := Some ((case oc_error oc of None \<Rightarrow> [] | Some e \<Rightarrow> e) @ rollback_note)\<rparr>
      else oc)"

definition settle :: "proposal \<Rightarrow> string \<Rightarrow> rat \<Rightarrow> outcome \<Rightarrow> outcome km" where
  "settle p context cost oc k =
     (let (rolled, k1) = check_rollback (count_outcome p cost oc k);
          oc1 = note_rollback rolled oc
      in (Inr oc1, k1\<lparr>k_history := history_record (pr_action p) context (oc_success oc1) cost (k_history k1)\<rparr>))"

text \<open>The failure kind the payload names, otherwise the kinds read off the logs.\<close>

definition payload_kinds :: "env \<Rightarrow> string \<Rightarrow> string list" where
  "payload_kinds en payload =
     (if payload = [] then []
      else case en_loads en payload of
             Some (PDict d) \<Rightarrow>
               (case dget d ''failure_kind'' of
                  Some (PStr f) \<Rightarrow> if f = [] then [] else [f]
                | _ \<Rightarrow> [])
           | _ \<Rightarrow> [])"

definition outcome_kinds :: "runtime \<Rightarrow> env \<Rightarrow> outcome \<Rightarrow> string list res" where
  "outcome_kinds R en oc =
     (case payload_kinds en (oc_payload oc) of
        [] \<Rightarrow> extract_failure_kinds R
               [(PStr ''status'', PInt (oc_exit_code oc)), (PStr ''logs'', PStr (oc_logs oc)),
                (PStr ''payload'', PStr (oc_payload oc))]
      | ks \<Rightarrow> Inr ks)"

definition escalate :: "runtime \<Rightarrow> env \<Rightarrow> string \<Rightarrow> proposal \<Rightarrow> run_state \<Rightarrow> string list \<Rightarrow> unit km" where
  "escalate R en run_id p rs kinds =
     kbind (kupd (\<lambda>k. k\<lparr>k_runs := run_put run_id (rs\<lparr>run_failure_kinds := kinds\<rparr>) (k_runs k)\<rparr>)) (\<lambda>_.
     kbind (kget k_tier_policy) (\<lambda>policy.
     kbind (klift (pick_next_tier (run_tier rs) kinds policy)) (\<lambda>(tier, why).
       if tier = run_tier rs then kret ()
       else kbind (kupd (\<lambda>k. k\<lparr>k_runs := run_put run_id \<lparr>run_tier = tier, run_failure_kinds = kinds\<rparr> (k_runs k)\<rparr>)) (\<lambda>_.
            kbind (append_kernel_event R en ''TIER_ESCALATED'' run_id (pr_intent p) (pr_bundle_id p)
                     [(PStr ''from'', PInt (run_tier rs)), (PStr ''to'', PInt tier), (PStr ''reason'', PStr why),
                      (PStr ''failure_kinds'', PList (map PStr kinds))]) (\<lambda>_.
              kret ())))))"

definition tighten_on_cluster :: "verification_result \<Rightarrow> unit km" where
  "tighten_on_cluster v =
     (if \<exists>x \<in> set (vr_violations v). vi_code x = ''FAILURE_CLUSTER'' then adaptive_tighten else kret ())"

definition aftermath ::
    "runtime \<Rightarrow> env \<Rightarrow> proposal \<Rightarrow> string \<Rightarrow> run_state \<Rightarrow> validation_result
      \<Rightarrow> sim_result \<Rightarrow> risk_breakdown \<Rightarrow> decision \<Rightarrow> outcome \<Rightarrow> kernel_result km" where
  "aftermath R en p run_id rs val sim risk dec oc =
     kbind (klift (outcome_kinds R en oc)) (\<lambda>kinds.
     kbind (escalate R en run_id p rs kinds) (\<lambda>_.
     kbind (kget k_state) (\<lambda>s.
     kbind (kget k_policy) (\<lambda>pol.
     kbind (klift (verify R oc s pol)) (\<lambda>ver.
     kbind (tighten_on_cluster ver) (\<lambda>_.
     kbind (commit_ledger R en p (Some sim) (Some risk) ''APPROVE'' (dc_reason dec) (Some oc) (Some ver) run_id) (\<lambda>r.
     kbind (kupd (\<lambda>k. k\<lparr>k_step_count := k_step_count k + 1\<rparr>)) (\<lambda>_.
       kret ((blank_result ''COMMIT'' p r)
         \<lparr>kr_validation := Some val, kr_simulation := Some sim, kr_risk := Some risk,
          kr_decision := Some dec, kr_outcome := Some oc, kr_verification := Some ver\<rparr>)))))))))"

definition execute_stage ::
    "runtime \<Rightarrow> env \<Rightarrow> executor \<Rightarrow> proposal \<Rightarrow> string \<Rightarrow> string \<Rightarrow> run_state \<Rightarrow> validation_result
      \<Rightarrow> sim_result \<Rightarrow> risk_breakdown \<Rightarrow> decision \<Rightarrow> kernel_result km" where
  "execute_stage R en exec p context run_id rs val sim risk dec =
     kbind (settle p context (sr_cost_est sim) (run_executor exec p))
       (aftermath R en p run_id rs val sim risk dec)"

section \<open>The step\<close>

definition validation_reason :: "runtime \<Rightarrow> verror list \<Rightarrow> string" where
  "validation_reason R errs = ''Validation failed: '' @ rt_repr R (PList (map (\<lambda>(c, m).
     PDict [(PStr ''code'', PStr (vcode_name c)), (PStr ''msg'', PStr m)]) errs))"

definition validated_stage ::
    "runtime \<Rightarrow> env \<Rightarrow> executor \<Rightarrow> proposal \<Rightarrow> string \<Rightarrow> string \<Rightarrow> pydict option \<Rightarrow> run_state
      \<Rightarrow> validation_result \<Rightarrow> kernel_result km" where
  "validated_stage R en exec p context run_id learner rs val =
     kbind (klift (read_evidence R learner)) (\<lambda>ev.
     kbind (kget (\<lambda>k. k)) (\<lambda>k.
     kbind (klift (simulate p (k_state k) (Some (k_history k)) context (ev_success_prob ev)
                     (ev_trials ev) (ev_loop_risk ev) (ev_traps ev) [])) (\<lambda>sim.
     kbind (klift (risk_score p sim (k_state k) (k_policy k))) (\<lambda>risk.
     kbind (klift (decide R p sim risk (k_policy k))) (\<lambda>dec.
       if dc_approved dec
       then execute_stage R en exec p context run_id rs val sim risk dec
       else kbind (kupd (\<lambda>k. k\<lparr>k_state := record_action (pr_action p) (k_state k)\<rparr>)) (\<lambda>_.
            kbind (commit_ledger R en p (Some sim) (Some risk) ''REJECT'' (dc_reason dec) None None run_id) (\<lambda>r.
              kret ((blank_result ''DECIDE'' p r)
                \<lparr>kr_validation := Some val, kr_simulation := Some sim, kr_risk := Some risk,
                 kr_decision := Some dec\<rparr>))))))))"

definition gated_stage ::
    "runtime \<Rightarrow> env \<Rightarrow> executor \<Rightarrow> proposal \<Rightarrow> string \<Rightarrow> string \<Rightarrow> pydict option \<Rightarrow> run_state
      \<Rightarrow> kernel_result km" where
  "gated_stage R en exec p context run_id learner rs =
     kbind (kget (\<lambda>k. k)) (\<lambda>k.
     kbind (klift (validate R p (k_state k) (k_policy k))) (\<lambda>val.
       if val_ok val then validated_stage R en exec p context run_id learner rs val
       else kbind (commit_ledger R en p None None ''REJECT'' (validation_reason R (val_errors val)) None None run_id) (\<lambda>r.
              kret ((blank_result ''VALIDATE'' p r)
                \<lparr>kr_validation := Some val, kr_error := Some ''Validation failed''\<rparr>))))"

definition policy_stage ::
    "runtime \<Rightarrow> env \<Rightarrow> executor \<Rightarrow> pydict \<Rightarrow> proposal \<Rightarrow> string \<Rightarrow> string \<Rightarrow> pydict option
      \<Rightarrow> run_state \<Rightarrow> pydict \<Rightarrow> kernel_result km" where
  "policy_stage R en exec raw p context run_id learner rs cfg =
     kbind (kget k_classifiers) (\<lambda>classifiers.
     kbind (klift (tier_allows_step raw cfg classifiers)) (\<lambda>gate.
       case gate of
         Some why \<Rightarrow> tier_reject R en p run_id (run_tier rs) why ''tier policy rejected step''
       | None \<Rightarrow> gated_stage R en exec p context run_id learner rs))"

definition kernel_step ::
    "runtime \<Rightarrow> env \<Rightarrow> executor \<Rightarrow> pydict \<Rightarrow> string \<Rightarrow> string \<Rightarrow> string \<Rightarrow> string \<Rightarrow> pydict option
      \<Rightarrow> kernel_result km" where
  "kernel_step R en exec raw context intent bundle run_id learner =
     (let p = normalize_step R (en_clock en) raw intent context bundle
      in kbind (kget_run run_id) (\<lambda>rs.
         kbind (kget k_tier_policy) (\<lambda>policy.
         kbind (kget k_state) (\<lambda>s.
         let cfg = tier_cfg policy (run_tier rs)
         in kbind (klift (budget_reason R raw cfg s)) (\<lambda>budget.
              case budget of
                Some why \<Rightarrow> tier_reject R en p run_id (run_tier rs) why ''tier budget rejected step''
              | None \<Rightarrow> policy_stage R en exec raw p context run_id learner rs cfg)))))"

section \<open>Life cycle\<close>

definition reset_for_run ::
    "runtime \<Rightarrow> string \<Rightarrow> int option \<Rightarrow> string \<Rightarrow> string \<Rightarrow> string option \<Rightarrow> bool \<Rightarrow> unit km" where
  "reset_for_run R run_id seed env_hash mem_version policy_hash reset_history =
     kbind (kget k_policy) (\<lambda>pol.
     kbind (klift (case seed of Some i \<Rightarrow> Inr i | None \<Rightarrow> dget_int pol ''rng_seed'' 42)) (\<lambda>seed'.
     kbind (kupd (\<lambda>k. k\<lparr>k_state := initial_state
              \<lparr>st_memory_version := mem_version, st_env_hash := env_hash, st_rng_seed := seed',
               st_policy_hash := (case policy_hash of Some h \<Rightarrow> h
                                  | None \<Rightarrow> py_str R (dget_or pol ''policy_hash'' (PStr []))),
               st_resource_state := [(PStr ''run_id'', PStr run_id)]\<rparr>\<rparr>)) (\<lambda>_.
     kbind (if reset_history
            then kbind (klift (dget_int pol ''history_max'' 500)) (\<lambda>n.
                   kupd (\<lambda>k. k\<lparr>k_history := new_history n\<rparr>))
            else kret ()) (\<lambda>_.
       kupd (\<lambda>k. k\<lparr>k_runs := run_put run_id fresh_run (snd (run_get run_id (k_runs k)))\<rparr>)))))"

definition reset_for_iteration :: "unit km" where
  "reset_for_iteration =
     kupd (\<lambda>k. k\<lparr>k_state := (k_state k)\<lparr>st_iter_count := st_iter_count (k_state k) + 1,
                   st_recent_actions := []\<rparr>\<rparr>)"

definition end_run :: "string \<Rightarrow> unit km" where
  "end_run run_id = kupd (\<lambda>k. k\<lparr>k_runs := run_clear run_id (k_runs k)\<rparr>)"

definition get_stats :: "kernel \<Rightarrow> (int \<times> nat \<times> int \<times> int \<times> rat \<times> rat \<times> rat \<times> rat
    \<times> (string \<times> int \<times> string list) list) res" where
  "get_stats k =
     ebind (dget_float (k_policy k) ''risk_max'' (65 / 100)) (\<lambda>rm.
     ebind (dget_float (k_policy k) ''success_min'' (15 / 100)) (\<lambda>sm.
       Inr (k_step_count k, hl_count (k_ledger k), st_safety_level (k_state k),
            st_recent_failures (k_state k), round4 (st_total_cost (k_state k)), rm, sm,
            round6 (st_drift_variance (k_state k)), run_snapshot (k_runs k))))"

end
