(* ===== verification/Kernel_Facts.thy ===== *)
theory Kernel_Facts
  imports Kernel
begin

text \<open>
  What the kernel guarantees: an invariant of its whole state under every operation, the conditions
  under which the executor is consulted at all, and the audit trail in the ledger. The lemmas follow
  the monad: a property of the parts of a stage is lifted to the stage by one rule per combinator.
\<close>

section \<open>Relating the state before and after\<close>

text \<open>\<open>moves Q m\<close>: whatever \<open>m\<close> does, an exception included, the states before and after are related.\<close>

definition moves :: "(kernel \<Rightarrow> kernel \<Rightarrow> bool) \<Rightarrow> 'a km \<Rightarrow> bool" where
  "moves Q m \<longleftrightarrow> (\<forall>k. Q k (snd (m k)))"

lemma movesD: "moves Q m \<Longrightarrow> Q k (snd (m k))"
  by (simp add: moves_def)

lemma moves_kbind:
  assumes "transp Q" "moves Q m" "\<And>x. moves Q (f x)"
  shows "moves Q (kbind m f)"
  unfolding moves_def
proof
  fix k
  show "Q k (snd (kbind m f k))"
    using movesD [OF assms(2), of k] movesD [OF assms(3)] transpD [OF assms(1)]
    by (cases "m k"; cases "fst (m k)") (auto simp: kbind_def)
qed

lemma moves_pure:
  assumes "reflp Q" shows "moves Q (kret x)" "moves Q (klift r)" "moves Q (kget g)"
  using assms by (auto simp: moves_def kret_def klift_def kget_def reflp_def)

lemma moves_kupd: "moves Q (kupd f) \<longleftrightarrow> (\<forall>k. Q k (f k))"
  by (simp add: moves_def kupd_def)

text \<open>The relation of an invariant: what holds before holds after.\<close>

definition keeps :: "(kernel \<Rightarrow> bool) \<Rightarrow> kernel \<Rightarrow> kernel \<Rightarrow> bool" where
  "keeps I k k' \<longleftrightarrow> (I k \<longrightarrow> I k')"

lemma keeps_order [simp]: "reflp (keeps I)" "transp (keeps I)"
  by (auto simp: keeps_def reflp_def transp_def)

section \<open>The invariant\<close>

definition run_ok :: "run_state \<Rightarrow> bool" where
  "run_ok rs \<longleftrightarrow> 0 \<le> run_tier rs \<and> run_tier rs \<le> 3"

definition runs_ok :: "run_store \<Rightarrow> bool" where
  "runs_ok st \<longleftrightarrow> (\<forall>(rid, rs) \<in> set st. run_ok rs)"

definition kernel_ok :: "runtime \<Rightarrow> kernel \<Rightarrow> bool" where
  "kernel_ok R k \<longleftrightarrow> state_ok (k_state k) \<and> history_ok (k_history k) \<and> ledger_ok R (k_ledger k)
     \<and> runs_ok (k_runs k) \<and> 0 \<le> k_consecutive k \<and> k_consecutive k < 3"

abbreviation kernel_moves :: "runtime \<Rightarrow> 'a km \<Rightarrow> bool" where
  "kernel_moves R \<equiv> moves (keeps (\<lambda>k. digests R \<longrightarrow> kernel_ok R k))"

lemmas kernel_rel = moves_kbind [OF keeps_order(2)] moves_pure [OF keeps_order(1)]

lemma push_record_moves: "kernel_moves R (push_record R en r)"
  by (auto simp: moves_def keeps_def push_record_def kernel_ok_def split: prod.splits
      dest: arg_cong [where f = snd] intro: ledger_ok_append)
    (metis ledger_ok_append snd_conv)

lemma run_put_ok: "runs_ok st \<Longrightarrow> run_ok rs \<Longrightarrow> runs_ok (run_put r rs st)"
  using set_update_subset [of "run_key r" rs st] by (fastforce simp: run_put_def runs_ok_def)

lemma run_clear_ok: "runs_ok st \<Longrightarrow> runs_ok (run_clear r st)"
  by (auto simp: runs_ok_def run_clear_def set_delete)

lemma fresh_run_ok: "run_ok fresh_run"
  by (simp add: run_ok_def fresh_run_def)

lemma run_get_ok:
  assumes "runs_ok st"
  shows "run_ok (fst (run_get r st))" "runs_ok (snd (run_get r st))"
proof -
  show "run_ok (fst (run_get r st))"
    using assms fresh_run_ok by (auto simp: run_get_def runs_ok_def split: option.splits dest!: map_of_SomeD)
  show "runs_ok (snd (run_get r st))"
    using assms run_put_ok [OF assms fresh_run_ok, of r]
    by (auto simp: run_get_def run_put_def split: option.splits)
qed

lemma kget_run_eq: "kget_run r k = (Inr (fst (run_get r (k_runs k))), k\<lparr>k_runs := snd (run_get r (k_runs k))\<rparr>)"
  by (simp add: kget_run_def split: prod.split)

lemma kget_run_moves: "kernel_moves R (kget_run r)"
  by (auto simp: moves_def keeps_def kget_run_eq kernel_ok_def run_get_ok)

lemma append_kernel_event_moves: "kernel_moves R (append_kernel_event R en ty r i b fs)"
  unfolding append_kernel_event_def Let_def by (rule push_record_moves)

lemma commit_ledger_moves: "kernel_moves R (commit_ledger R en p sim risk d why oc ver r)"
  unfolding commit_ledger_def by (intro kernel_rel kget_run_moves push_record_moves)

lemma tier_reject_moves: "kernel_moves R (tier_reject R en p r t why er)"
  unfolding tier_reject_def by (intro kernel_rel append_kernel_event_moves commit_ledger_moves)

lemma state_ok_cost: "state_ok s \<Longrightarrow> state_ok (s\<lparr>st_total_cost := c\<rparr>)"
  by (simp add: state_ok_def)

lemma settle_moves: "kernel_moves R (settle p c cost oc)"
  unfolding moves_def keeps_def
proof (intro allI impI)
  fix k assume "digests R \<longrightarrow> kernel_ok R k" "digests R"
  then have k: "kernel_ok R k" by simp
  let ?k = "snd (check_rollback (count_outcome p cost oc k))"
  have "kernel_ok R ?k"
    using k by (auto simp: kernel_ok_def check_rollback_def count_outcome_def Let_def
        intro!: state_ok_record_success state_ok_record_failure state_ok_cost state_ok_record_action
          state_ok_advance_step)
  then show "kernel_ok R (snd (settle p c cost oc k))"
    by (auto simp: settle_def kernel_ok_def history_ok_record Let_def split: prod.splits)
qed

lemma adaptive_tighten_moves: "kernel_moves R adaptive_tighten"
  unfolding adaptive_tighten_def
  by (intro kernel_rel) (auto simp: moves_kupd keeps_def kernel_ok_def state_ok_def)

lemma adaptive_relax_moves: "kernel_moves R adaptive_relax"
  unfolding adaptive_relax_def
  by (intro kernel_rel) (auto simp: moves_kupd keeps_def kernel_ok_def state_ok_def)

lemma tighten_on_cluster_moves: "kernel_moves R (tighten_on_cluster v)"
  unfolding tighten_on_cluster_def by (auto intro: adaptive_tighten_moves kernel_rel)

lemma escalate_moves:
  assumes "run_ok rs" shows "kernel_moves R (escalate R en r p rs kinds)"
proof -
  have first: "kernel_moves R (kupd (\<lambda>k. k\<lparr>k_runs := run_put r rs' (k_runs k)\<rparr>))" if "run_ok rs'" for rs'
    using that run_put_ok by (auto simp: moves_kupd keeps_def kernel_ok_def)
  have tier: "run_ok \<lparr>run_tier = tier, run_failure_kinds = kinds\<rparr>"
    if "pick_next_tier (run_tier rs) kinds pol = Inr (tier, why)" for pol tier why
    using pick_next_tier_cases [OF that] assms by (auto simp: run_ok_def)
  show ?thesis
    unfolding escalate_def
  proof (rule kernel_rel(1) [OF _ kernel_rel(1)])
    show "kernel_moves R (kupd (\<lambda>k. k\<lparr>k_runs := run_put r (rs\<lparr>run_failure_kinds := kinds\<rparr>) (k_runs k)\<rparr>))"
      using assms by (intro first) (simp add: run_ok_def)
    show "kernel_moves R (kget k_tier_policy)" by (rule kernel_rel)
    fix pol
    let ?rest = "\<lambda>(tier, why). if tier = run_tier rs then kret ()
       else kbind (kupd (\<lambda>k. k\<lparr>k_runs := run_put r \<lparr>run_tier = tier, run_failure_kinds = kinds\<rparr> (k_runs k)\<rparr>)) (\<lambda>_.
            kbind (append_kernel_event R en ''TIER_ESCALATED'' r (pr_intent p) (pr_bundle_id p)
                     [(PStr ''from'', PInt (run_tier rs)), (PStr ''to'', PInt tier), (PStr ''reason'', PStr why),
                      (PStr ''failure_kinds'', PList (map PStr kinds))]) (\<lambda>_.
              kret ()))"
    have rest: "kernel_moves R (?rest (tier, why))"
      if "pick_next_tier (run_tier rs) kinds pol = Inr (tier, why)" for tier why
      using first [OF tier [OF that]] by (auto intro!: kernel_rel append_kernel_event_moves)
    show "kernel_moves R (kbind (klift (pick_next_tier (run_tier rs) kinds pol)) ?rest)"
      using rest by (cases "pick_next_tier (run_tier rs) kinds pol")
        (auto simp: moves_def kbind_def klift_def keeps_def)
  qed
qed

lemma execute_stage_moves:
  assumes "run_ok rs" shows "kernel_moves R (execute_stage R en exec p c r rs val sim risk dec)"
  unfolding execute_stage_def aftermath_def
  by (intro kernel_rel settle_moves escalate_moves [OF assms] tighten_on_cluster_moves commit_ledger_moves)
    (auto simp: moves_kupd keeps_def kernel_ok_def)

lemma validated_stage_moves:
  assumes "run_ok rs" shows "kernel_moves R (validated_stage R en exec p c r ev rs val)"
  unfolding validated_stage_def
  by (auto intro!: kernel_rel execute_stage_moves [OF assms] commit_ledger_moves)
    (auto simp: moves_kupd keeps_def kernel_ok_def state_ok_record_action)

lemma gated_stage_moves:
  assumes "run_ok rs" shows "kernel_moves R (gated_stage R en exec p c r ev rs)"
  unfolding gated_stage_def by (auto intro!: kernel_rel validated_stage_moves [OF assms] commit_ledger_moves)

lemma kget_run_result: "kernel_ok R k \<Longrightarrow> fst (kget_run r k) = Inr rs \<Longrightarrow> run_ok rs"
  using run_get_ok(1) [of "k_runs k" r] by (auto simp: kget_run_eq kernel_ok_def)

lemma policy_stage_moves:
  assumes "run_ok rs" shows "kernel_moves R (policy_stage R en exec raw p c r ev rs cfg)"
  unfolding policy_stage_def
  by (intro kernel_rel) (auto split: option.split intro!: tier_reject_moves gated_stage_moves [OF assms])

text \<open>A step reads its run first; what follows may assume a run state within bounds.\<close>

lemma moves_after_run:
  assumes "\<And>rs. run_ok rs \<Longrightarrow> kernel_moves R (f rs)"
  shows "kernel_moves R (kbind (kget_run rid) f)"
  unfolding moves_def keeps_def
proof (intro allI impI)
  fix k assume "digests R \<longrightarrow> kernel_ok R k" and R: "digests R"
  then have k: "kernel_ok R k" by simp
  obtain rs k1 where g: "kget_run rid k = (Inr rs, k1)" by (simp add: kget_run_eq)
  have "kernel_ok R k1" using movesD [OF kget_run_moves, of R k rid] k R by (simp add: g keeps_def)
  moreover have "run_ok rs" using kget_run_result [OF k, of rid rs] by (simp add: g)
  ultimately show "kernel_ok R (snd (kbind (kget_run rid) f k))"
    using movesD [OF assms, of rs k1] R by (simp add: kbind_def g keeps_def)
qed

lemma kernel_step_moves: "kernel_moves R (kernel_step R en exec raw c i b r ev)"
  unfolding kernel_step_def Let_def
  by (intro moves_after_run kernel_rel)
    (auto split: option.split intro: tier_reject_moves policy_stage_moves)

lemma reset_for_run_moves: "kernel_moves R (reset_for_run R r seed eh mv ph rh)"
  unfolding reset_for_run_def
  by (intro kernel_rel)
    (auto intro!: kernel_rel run_put_ok run_get_ok fresh_run_ok simp: moves_kupd keeps_def kernel_ok_def
      history_ok_new state_ok_def initial_state_def)

lemma reset_for_iteration_moves: "kernel_moves R reset_for_iteration"
  by (auto simp: reset_for_iteration_def moves_kupd keeps_def kernel_ok_def state_ok_def)

lemma end_run_moves: "kernel_moves R (end_run r)"
  by (auto simp: end_run_def moves_kupd keeps_def kernel_ok_def run_clear_ok)

section \<open>The kernel as a machine\<close>

datatype kernel_op =
    Step env executor pydict string string string string "pydict option"
  | Reset string "int option" string string "string option" bool
  | Iteration
  | Relax
  | End string

fun kernel_run :: "runtime \<Rightarrow> kernel \<Rightarrow> kernel_op \<Rightarrow> kernel" where
  "kernel_run R k (Step en exec raw c i b r ev) = snd (kernel_step R en exec raw c i b r ev k)"
| "kernel_run R k (Reset r seed eh mv ph rh) = snd (reset_for_run R r seed eh mv ph rh k)"
| "kernel_run R k Iteration = snd (reset_for_iteration k)"
| "kernel_run R k Relax = snd (adaptive_relax k)"
| "kernel_run R k (End r) = snd (end_run r k)"

definition blank_kernel :: "pydict \<Rightarrow> pydict \<Rightarrow> kernel" where
  "blank_kernel policy tiers =
     \<lparr>k_policy = policy, k_ledger = open_ledger None, k_history = new_history 500,
      k_state = initial_state\<lparr>st_rng_seed := 42\<rparr>, k_tier_policy = tiers,
      k_classifiers = py_or (dget_or tiers ''classifiers'' PNone) (PDict []), k_runs = [],
      k_step_count = 0, k_consecutive = 0\<rparr>"

lemma kernel_ok_blank: "kernel_ok R (blank_kernel policy tiers)"
  by (simp add: kernel_ok_def blank_kernel_def state_ok_def initial_state_def history_ok_new runs_ok_def)

lemma kernel_ok_new: "new_kernel R None policy tiers = Inr k \<Longrightarrow> kernel_ok R k"
  by (auto simp: new_kernel_def kernel_ok_def history_ok_new state_ok_def initial_state_def runs_ok_def)

lemma kernel_ok_run: "digests R \<Longrightarrow> kernel_ok R k \<Longrightarrow> kernel_ok R (kernel_run R k op)"
  using movesD [OF kernel_step_moves] movesD [OF reset_for_run_moves] movesD [OF reset_for_iteration_moves]
    movesD [OF adaptive_relax_moves] movesD [OF end_run_moves]
  by (cases op) (auto simp: keeps_def)

interpretation kernel: machine "kernel_run R" "blank_kernel policy tiers" "\<lambda>k. digests R \<longrightarrow> kernel_ok R k"
  for R policy tiers
  by unfold_locales (auto intro: kernel_ok_blank kernel_ok_run)

section \<open>The audit trail\<close>

text \<open>\<open>events_only m\<close>: \<open>m\<close> appends nothing to the ledger but events. \<open>audited m\<close>: a normal return of \<open>m\<close>
  appends events and then one record of the step, which the result carries; an exception leaves
  no record of the step.\<close>

definition events_only :: "'a km \<Rightarrow> bool" where
  "events_only m \<longleftrightarrow> (\<forall>k. \<exists>evs. file_lines (k_ledger (snd (m k))) = file_lines (k_ledger k) @ map Rec evs
     \<and> list_all is_event evs)"

definition step_audit :: "kernel_result res \<Rightarrow> ledger_record list \<Rightarrow> bool" where
  "step_audit r new \<longleftrightarrow>
     (case r of
        Inl e \<Rightarrow> list_all is_event new
      | Inr res \<Rightarrow> (\<exists>evs rec. new = evs @ [rec] \<and> list_all is_event evs \<and> \<not> is_event rec
          \<and> kr_ledger_record res = Some rec
          \<and> lr_decision rec = (if kr_phase res = ''COMMIT'' then ''APPROVE'' else ''REJECT'')
          \<and> (lr_outcome_hash rec \<noteq> None \<longleftrightarrow> kr_phase res = ''COMMIT'')))"

definition audited :: "kernel_result km \<Rightarrow> bool" where
  "audited m \<longleftrightarrow> (\<forall>k. \<exists>new. file_lines (k_ledger (snd (m k))) = file_lines (k_ledger k) @ map Rec new
     \<and> step_audit (fst (m k)) new)"

lemma events_onlyD:
  "events_only m \<Longrightarrow> \<exists>evs. file_lines (k_ledger (snd (m k))) = file_lines (k_ledger k) @ map Rec evs
     \<and> list_all is_event evs"
  by (simp add: events_only_def)

lemma silent_events_only: "(\<And>k. k_ledger (snd (m k)) = k_ledger k) \<Longrightarrow> events_only m"
  by (simp add: events_only_def)

lemma events_only_pure [simp]: "events_only (kret x)" "events_only (klift r)" "events_only (kget g)"
  "events_only (kget_run rid)"
  by (rule silent_events_only, simp add: kret_def klift_def kget_def kget_run_eq)+

lemma events_only_kupd [simp]: "(\<And>k. k_ledger (f k) = k_ledger k) \<Longrightarrow> events_only (kupd f)"
  by (rule silent_events_only) (simp add: kupd_def)

lemma kbind_split:
  obtains e k1 where "m k = (Inl e, k1)" "kbind m f k = (Inl e, k1)"
  | x k1 where "m k = (Inr x, k1)" "kbind m f k = f x k1"
  by (cases "m k"; cases "fst (m k)") (auto simp: kbind_def)

lemma events_only_kbind:
  assumes "events_only m" "\<And>x. events_only (f x)" shows "events_only (kbind m f)"
  unfolding events_only_def
proof
  fix k
  show "\<exists>evs. file_lines (k_ledger (snd (kbind m f k))) = file_lines (k_ledger k) @ map Rec evs
     \<and> list_all is_event evs"
  proof (cases rule: kbind_split [of m k f])
    case (1 e k1)
    with events_onlyD [OF assms(1), of k] show ?thesis by simp
  next
    case (2 x k1)
    from events_onlyD [OF assms(1), of k] 2 obtain evs where
      "file_lines (k_ledger k1) = file_lines (k_ledger k) @ map Rec evs" "list_all is_event evs" by auto
    moreover from events_onlyD [OF assms(2), of x k1] obtain evs' where
      "file_lines (k_ledger (snd (f x k1))) = file_lines (k_ledger k1) @ map Rec evs'" "list_all is_event evs'" by auto
    ultimately show ?thesis using 2 by (intro exI [of _ "evs @ evs'"]) simp
  qed
qed

lemma audited_kbind:
  assumes "events_only m" "\<And>x. audited (f x)" shows "audited (kbind m f)"
  unfolding audited_def
proof
  fix k
  show "\<exists>new. file_lines (k_ledger (snd (kbind m f k))) = file_lines (k_ledger k) @ map Rec new
     \<and> step_audit (fst (kbind m f k)) new"
  proof (cases rule: kbind_split [of m k f])
    case (1 e k1)
    with events_onlyD [OF assms(1), of k] show ?thesis by (auto simp: step_audit_def)
  next
    case (2 x k1)
    from events_onlyD [OF assms(1), of k] 2 obtain evs where evs:
      "file_lines (k_ledger k1) = file_lines (k_ledger k) @ map Rec evs" "list_all is_event evs" by auto
    from assms(2) [of x] obtain new where new:
      "file_lines (k_ledger (snd (f x k1))) = file_lines (k_ledger k1) @ map Rec new"
      "step_audit (fst (f x k1)) new" unfolding audited_def by blast
    from new(2) evs(2) have "step_audit (fst (f x k1)) (evs @ new)"
      by (auto simp: step_audit_def split: sum.splits)
    with 2 evs new show ?thesis by (intro exI [of _ "evs @ new"]) simp
  qed
qed

lemma push_record_eq:
  "push_record R en r k =
     (Inr (seal_record R (en_sign en) (en_clock en) (hl_prev (k_ledger k)) r),
      k\<lparr>k_ledger := snd (append_record R (en_sign en) (en_clock en) r (k_ledger k))\<rparr>)"
  using append_record_simps(2) [of R "en_sign en" "en_clock en" r "k_ledger k"]
  by (auto simp: push_record_def split: prod.split)

lemma seal_simps [simp]:
  "lr_decision (seal_record R sign now prev r) = lr_decision r"
  "lr_outcome_hash (seal_record R sign now prev r) = lr_outcome_hash r"
  "is_event (seal_record R sign now prev r) = is_event r"
  by (auto simp: seal_record_def Let_def is_event_def dict_simps split: option.splits)

lemma events_only_event: "events_only (append_kernel_event R en ty rid i b fs)"
  unfolding events_only_def
proof
  fix k
  let ?m = "append_kernel_event R en ty rid i b fs"
  obtain r where "?m k = push_record R en r k" "is_event r"
    by (simp add: append_kernel_event_def Let_def is_event_def)
  then show "\<exists>evs. file_lines (k_ledger (snd (?m k))) = file_lines (k_ledger k) @ map Rec evs
     \<and> list_all is_event evs"
    by (intro exI [of _ "[seal_record R (en_sign en) (en_clock en) (hl_prev (k_ledger k)) r]"])
      (simp add: push_record_eq append_record_simps)
qed

text \<open>The commit of a step followed by a tail that returns its record.\<close>

lemma audited_commit:
  assumes "\<And>r k. fst (t r k) = Inr (g r) \<and> k_ledger (snd (t r k)) = k_ledger k"
    and "\<And>r. kr_ledger_record (g r) = Some r"
    and "\<And>r. (kr_phase (g r) = ''COMMIT'') = (d = ''APPROVE'')" "d = ''APPROVE'' \<or> d = ''REJECT''"
    and "oc \<noteq> None \<longleftrightarrow> d = ''APPROVE''"
  shows "audited (kbind (commit_ledger R en p sim risk d why oc ver rid) t)"
  unfolding audited_def
proof
  fix k :: kernel
  let ?m = "commit_ledger R en p sim risk d why oc ver rid"
  let ?rs = "fst (run_get rid (k_runs k))" and ?k1 = "k\<lparr>k_runs := snd (run_get rid (k_runs k))\<rparr>"
  have "?m k = push_record R en (commit_record R p sim risk d why oc ver rid (run_tier ?rs) (k_state k)) ?k1"
    by (simp add: commit_ledger_def kbind_def kget_run_eq kget_def)
  then obtain r k1 where m: "?m k = push_record R en r k1" "k_ledger k1 = k_ledger k" "\<not> is_event r"
      "lr_decision r = d" "lr_outcome_hash r \<noteq> None \<longleftrightarrow> oc \<noteq> None"
    by (simp add: commit_record_def is_event_def)
  let ?r = "seal_record R (en_sign en) (en_clock en) (hl_prev (k_ledger k1)) r"
  let ?k = "k1\<lparr>k_ledger := snd (append_record R (en_sign en) (en_clock en) r (k_ledger k1))\<rparr>"
  have "kbind ?m t k = t ?r ?k" by (simp add: kbind_def m push_record_eq)
  then show "\<exists>new. file_lines (k_ledger (snd (kbind ?m t k))) = file_lines (k_ledger k) @ map Rec new
     \<and> step_audit (fst (kbind ?m t k)) new"
    using assms m by (intro exI [of _ "[?r]"]) (auto simp: append_record_simps step_audit_def)
qed

lemma audited_tier_reject: "audited (tier_reject R en p rid t why er)"
  unfolding tier_reject_def
  by (rule audited_kbind [OF events_only_event], rule audited_commit) (auto simp: kret_def blank_result_def)

lemma events_only_settle: "events_only (settle p c cost oc)"
  by (rule silent_events_only)
    (auto simp: settle_def check_rollback_def count_outcome_def Let_def split: prod.splits if_splits)

lemma events_only_escalate: "events_only (escalate R en rid p rs kinds)"
  unfolding escalate_def
  by (intro events_only_kbind) (auto intro!: events_only_kbind events_only_event)

lemma events_only_tighten: "events_only (tighten_on_cluster v)"
  by (auto simp: tighten_on_cluster_def adaptive_tighten_def intro!: events_only_kbind)

lemma audited_execute: "audited (execute_stage R en exec p c rid rs val sim risk dec)"
  unfolding execute_stage_def aftermath_def
  by (intro audited_kbind events_only_settle events_only_escalate events_only_tighten events_only_pure
      audited_commit) (auto simp: kbind_def kupd_def kret_def blank_result_def)

lemma audited_rejection:
  assumes "\<And>r. kr_ledger_record (g r) = Some r" "\<And>r. kr_phase (g r) \<noteq> ''COMMIT''"
  shows "audited (kbind (commit_ledger R en p sim risk ''REJECT'' why None ver rid) (\<lambda>r. kret (g r)))"
  by (rule audited_commit) (auto simp: kret_def assms)

lemma audited_kupd:
  "(\<And>k. k_ledger (f k) = k_ledger k) \<Longrightarrow> audited m \<Longrightarrow> audited (kbind (kupd f) (\<lambda>_. m))"
  by (rule audited_kbind [OF events_only_kupd])

lemma audited_validated: "audited (validated_stage R en exec p c rid ev rs val)"
  unfolding validated_stage_def
  by (intro audited_kbind events_only_pure)
    (auto intro!: audited_execute audited_kupd audited_rejection simp: blank_result_def)

lemma audited_gated: "audited (gated_stage R en exec p c rid ev rs)"
  unfolding gated_stage_def
  by (intro audited_kbind events_only_pure)
    (auto intro: audited_validated audited_rejection simp: blank_result_def)

lemma audited_policy: "audited (policy_stage R en exec raw p c rid ev rs cfg)"
  unfolding policy_stage_def
  by (intro audited_kbind events_only_pure) (auto intro: audited_gated audited_tier_reject split: option.split)

lemma audited_kernel_step: "audited (kernel_step R en exec raw c i b rid ev)"
  unfolding kernel_step_def Let_def
  by (intro audited_kbind events_only_pure)
    (auto intro: audited_policy audited_tier_reject split: option.split)

section \<open>When the executor is consulted\<close>

lemma kbind_Inr:
  "kbind m f k = (Inr y, k') \<longleftrightarrow> (\<exists>x k1. m k = (Inr x, k1) \<and> f x k1 = (Inr y, k'))"
  by (cases "m k"; cases "fst (m k)") (auto simp: kbind_def)

lemma kret_Inr [simp]: "kret x k = (Inr y, k') \<longleftrightarrow> y = x \<and> k' = k"
  by (auto simp: kret_def)

lemma klift_Inr [simp]: "klift r k = (Inr y, k') \<longleftrightarrow> r = Inr y \<and> k' = k"
  by (auto simp: klift_def)

lemma kget_Inr [simp]: "kget g k = (Inr y, k') \<longleftrightarrow> y = g k \<and> k' = k"
  by (auto simp: kget_def)

lemma kupd_Inr [simp]: "kupd f k = (Inr y, k') \<longleftrightarrow> k' = f k"
  by (auto simp: kupd_def)

lemma kget_run_Inr:
  "kget_run rid k = (Inr rs, k') \<longleftrightarrow>
     rs = fst (run_get rid (k_runs k)) \<and> k' = k\<lparr>k_runs := snd (run_get rid (k_runs k))\<rparr>"
  by (auto simp: kget_run_eq)

lemma execute_stage_result:
  assumes "execute_stage R en exec p c rid rs val sim risk dec k = (Inr res, k')"
  shows "kr_phase res = ''COMMIT''" "kr_decision res = Some dec" "kr_validation res = Some val"
    "kr_simulation res = Some sim"
    "\<exists>oc k1. settle p c (sr_cost_est sim) (run_executor exec p) k = (Inr oc, k1) \<and> kr_outcome res = Some oc"
  using assms unfolding execute_stage_def aftermath_def kbind_Inr by (auto simp: blank_result_def)

text \<open>Two stages that return the same result unless a step was executed.\<close>

definition same_unless_executed :: "kernel_result km \<Rightarrow> kernel_result km \<Rightarrow> kernel \<Rightarrow> bool" where
  "same_unless_executed m m' k \<longleftrightarrow>
     (\<forall>res k'. m k = (Inr res, k') \<and> kr_phase res \<noteq> ''COMMIT'' \<longrightarrow> m' k = m k)"

lemma same_refl [simp]: "same_unless_executed m m k"
  by (simp add: same_unless_executed_def)

lemma same_kbind:
  assumes "\<And>x k1. m k = (Inr x, k1) \<Longrightarrow> same_unless_executed (f x) (f' x) k1"
  shows "same_unless_executed (kbind m f) (kbind m f') k"
  using assms by (cases "m k"; cases "fst (m k)") (auto simp: same_unless_executed_def kbind_def)

lemma same_execute:
  "same_unless_executed (execute_stage R en exec p c rid rs val sim risk dec)
     (execute_stage R en exec' p c rid rs val sim risk dec) k"
  using execute_stage_result(1) by (fastforce simp: same_unless_executed_def)

lemma same_kernel_step:
  "same_unless_executed (kernel_step R en exec raw c i b rid ev) (kernel_step R en exec' raw c i b rid ev) k"
  unfolding kernel_step_def policy_stage_def gated_stage_def validated_stage_def Let_def
  by (auto intro!: same_kbind same_execute split: option.split)

text \<open>The way to a commit: every gate answered yes.\<close>

lemma tier_reject_phase: "tier_reject R en p rid t why er k = (Inr res, k') \<Longrightarrow> kr_phase res = ''VALIDATE''"
  by (auto simp: tier_reject_def kbind_Inr blank_result_def)

lemma validated_commit:
  assumes "validated_stage R en exec p c rid ev rs val k = (Inr res, k')" "kr_phase res = ''COMMIT''"
  shows "\<exists>sim risk dec. risk_score p sim (k_state k) (k_policy k) = Inr risk
         \<and> decide R p sim risk (k_policy k) = Inr dec \<and> dc_approved dec
         \<and> execute_stage R en exec p c rid rs val sim risk dec k = (Inr res, k')"
  using assms unfolding validated_stage_def
  by (fastforce simp: kbind_Inr blank_result_def split: if_splits)

lemma gated_commit:
  assumes "gated_stage R en exec p c rid ev rs k = (Inr res, k')" "kr_phase res = ''COMMIT''"
  shows "\<exists>val. validate R p (k_state k) (k_policy k) = Inr val \<and> val_ok val
         \<and> validated_stage R en exec p c rid ev rs val k = (Inr res, k')"
  using assms unfolding gated_stage_def by (auto simp: kbind_Inr blank_result_def split: if_splits)

lemma policy_commit:
  assumes "policy_stage R en exec raw p c rid ev rs cfg k = (Inr res, k')" "kr_phase res = ''COMMIT''"
  shows "tier_allows_step raw cfg (k_classifiers k) = Inr None
    \<and> gated_stage R en exec p c rid ev rs k = (Inr res, k')"
proof -
  from assms(1) obtain gate where gate: "tier_allows_step raw cfg (k_classifiers k) = Inr gate"
    and rest: "(case gate of Some why \<Rightarrow> tier_reject R en p rid (run_tier rs) why ''tier policy rejected step''
                  | None \<Rightarrow> gated_stage R en exec p c rid ev rs) k = (Inr res, k')"
    unfolding policy_stage_def kbind_Inr kget_Inr klift_Inr by blast
  from rest tier_reject_phase assms(2) have "gate = None" by (cases gate) fastforce+
  with gate rest show ?thesis by simp
qed

lemma kernel_step_commit:
  assumes "kernel_step R en exec raw c i b rid ev k = (Inr res, k')" "kr_phase res = ''COMMIT''"
    and "p = normalize_step R (en_clock en) raw i c b" "rs = fst (run_get rid (k_runs k))"
    and "cfg = tier_cfg (k_tier_policy k) (run_tier rs)" "k1 = k\<lparr>k_runs := snd (run_get rid (k_runs k))\<rparr>"
  shows "budget_reason R raw cfg (k_state k) = Inr None
    \<and> policy_stage R en exec raw p c rid ev rs cfg k1 = (Inr res, k')"
proof -
  from assms(1) obtain budget where budget: "budget_reason R raw cfg (k_state k) = Inr budget"
    and rest: "(case budget of
              Some why \<Rightarrow> tier_reject R en p rid (run_tier rs) why ''tier budget rejected step''
            | None \<Rightarrow> policy_stage R en exec raw p c rid ev rs cfg) k1 = (Inr res, k')"
    unfolding kernel_step_def Let_def kbind_Inr kget_Inr klift_Inr kget_run_Inr assms(3-6)
    by (auto cong: option.case_cong)
  from rest tier_reject_phase assms(2) have "budget = None" by (cases budget) fastforce+
  with budget rest show ?thesis by simp
qed

section \<open>Tiers only rise\<close>

definition tier_of :: "string \<Rightarrow> kernel \<Rightarrow> int" where
  "tier_of rid k = run_tier (fst (run_get rid (k_runs k)))"

text \<open>The run of the step is at least at tier \<open>t\<close>, and the other runs are as in \<open>st\<close>.\<close>

definition tier_floor :: "string \<Rightarrow> int \<Rightarrow> run_store \<Rightarrow> kernel \<Rightarrow> bool" where
  "tier_floor rid t st k \<longleftrightarrow> t \<le> tier_of rid k
     \<and> (\<forall>q. run_key q \<noteq> run_key rid \<longrightarrow> fst (run_get q (k_runs k)) = fst (run_get q st))"

abbreviation floor_moves :: "string \<Rightarrow> int \<Rightarrow> run_store \<Rightarrow> 'a km \<Rightarrow> bool" where
  "floor_moves rid t st \<equiv> moves (keeps (tier_floor rid t st))"

lemma floor_runs: "(\<And>k. k_runs (snd (m k)) = k_runs k) \<Longrightarrow> floor_moves rid t st m"
  by (simp add: moves_def keeps_def tier_floor_def tier_of_def)

lemma floor_kget_run: "floor_moves rid t st (kget_run rid)"
  by (simp add: moves_def keeps_def tier_floor_def tier_of_def kget_run_eq run_get_snd)

lemma floor_push: "floor_moves rid t st (push_record R en r)"
  by (rule floor_runs) (simp add: push_record_eq)

lemma floor_event: "floor_moves rid t st (append_kernel_event R en ty r i b fs)"
  unfolding append_kernel_event_def Let_def by (rule floor_push)

lemma floor_commit: "floor_moves rid t st (commit_ledger R en p sim risk d why oc ver rid)"
  unfolding commit_ledger_def by (intro kernel_rel floor_kget_run floor_push)

lemma floor_reject: "floor_moves rid t st (tier_reject R en p rid tier why er)"
  unfolding tier_reject_def by (intro kernel_rel floor_event floor_commit)

lemma floor_settle: "floor_moves rid t st (settle p c cost oc)"
  by (rule floor_runs)
    (auto simp: settle_def check_rollback_def count_outcome_def Let_def split: prod.splits if_splits)

lemma floor_kupd: "(\<And>k. k_runs (f k) = k_runs k) \<Longrightarrow> floor_moves rid t st (kupd f)"
  by (rule floor_runs) (simp add: kupd_def)

lemma floor_tighten: "floor_moves rid t st (tighten_on_cluster v)"
  unfolding tighten_on_cluster_def adaptive_tighten_def
  by (auto intro!: kernel_rel floor_kupd)

lemma floor_put: "t \<le> run_tier rs \<Longrightarrow> floor_moves rid t st (kupd (\<lambda>k. k\<lparr>k_runs := run_put rid rs (k_runs k)\<rparr>))"
  by (auto simp: moves_kupd keeps_def tier_floor_def tier_of_def run_get_put(2))
    (simp add: run_get_def run_put_def dict_simps)

lemma floor_escalate:
  assumes "run_tier rs = t" shows "floor_moves rid t st (escalate R en rid p rs kinds)"
proof -
  let ?rest = "\<lambda>(tier, why). if tier = run_tier rs then kret ()
       else kbind (kupd (\<lambda>k. k\<lparr>k_runs := run_put rid \<lparr>run_tier = tier, run_failure_kinds = kinds\<rparr> (k_runs k)\<rparr>)) (\<lambda>_.
            kbind (append_kernel_event R en ''TIER_ESCALATED'' rid (pr_intent p) (pr_bundle_id p)
                     [(PStr ''from'', PInt (run_tier rs)), (PStr ''to'', PInt tier), (PStr ''reason'', PStr why),
                      (PStr ''failure_kinds'', PList (map PStr kinds))]) (\<lambda>_.
              kret ()))"
  have rest: "floor_moves rid t st (?rest (tier, why))"
    if "pick_next_tier (run_tier rs) kinds pol = Inr (tier, why)" for pol tier why
    using pick_next_tier_cases [OF that] assms by (auto intro!: kernel_rel floor_event floor_put)
  have pick: "floor_moves rid t st (kbind (klift (pick_next_tier (run_tier rs) kinds pol)) ?rest)" for pol
    using rest [of pol] by (cases "pick_next_tier (run_tier rs) kinds pol")
      (auto simp: moves_def kbind_def klift_def keeps_def)
  show ?thesis
    unfolding escalate_def
    by (rule kernel_rel(1) [OF floor_put kernel_rel(1) [OF kernel_rel(4) pick]]) (simp add: assms)
qed

lemma floor_execute:
  assumes "run_tier rs = t" shows "floor_moves rid t st (execute_stage R en exec p c rid rs val sim risk dec)"
  unfolding execute_stage_def aftermath_def
  by (intro kernel_rel floor_settle floor_escalate [OF assms] floor_tighten floor_commit floor_kupd) simp

lemma floor_gated:
  assumes "run_tier rs = t" shows "floor_moves rid t st (gated_stage R en exec p c rid ev rs)"
  unfolding gated_stage_def validated_stage_def
  by (auto intro!: kernel_rel floor_execute [OF assms] floor_commit floor_kupd)

lemma floor_policy:
  assumes "run_tier rs = t" shows "floor_moves rid t st (policy_stage R en exec raw p c rid ev rs cfg)"
  unfolding policy_stage_def
  by (intro kernel_rel) (auto intro: floor_gated [OF assms] floor_reject split: option.split)

lemma kernel_step_floor: "tier_floor rid (tier_of rid k) (k_runs k) (snd (kernel_step R en exec raw c i b rid ev k))"
proof -
  let ?rs = "fst (run_get rid (k_runs k))" and ?k = "k\<lparr>k_runs := snd (run_get rid (k_runs k))\<rparr>"
  define f where "f rs = kbind (kget k_tier_policy) (\<lambda>policy. kbind (kget k_state) (\<lambda>s.
      kbind (klift (budget_reason R raw (tier_cfg policy (run_tier rs)) s)) (\<lambda>budget.
        case budget of
          Some why \<Rightarrow> tier_reject R en (normalize_step R (en_clock en) raw i c b) rid (run_tier rs) why
                        ''tier budget rejected step''
        | None \<Rightarrow> policy_stage R en exec raw (normalize_step R (en_clock en) raw i c b) c rid ev rs
                    (tier_cfg policy (run_tier rs)))))" for rs
  have "kernel_step R en exec raw c i b rid ev k = f ?rs ?k"
    by (simp add: kernel_step_def Let_def kbind_def [of "kget_run rid"] kget_run_eq f_def)
  moreover have "floor_moves rid (tier_of rid k) (k_runs k) (f ?rs)"
    unfolding f_def
    by (intro kernel_rel) (auto intro: floor_reject floor_policy simp: tier_of_def split: option.split)
  moreover have "tier_floor rid (tier_of rid k) (k_runs k) ?k"
    by (simp add: tier_floor_def tier_of_def run_get_snd)
  ultimately show ?thesis by (auto dest: movesD simp: keeps_def)
qed

section \<open>Failure counting\<close>

lemma settle_cases:
  assumes "settle p c cost oc k = (r, k')"
  shows "if oc_success oc then r = Inr oc \<and> k_consecutive k' = 0
    else if k_consecutive k \<ge> 2 then r = Inr (note_rollback True oc) \<and> k_consecutive k' = 0
    else r = Inr oc \<and> k_consecutive k' = k_consecutive k + 1"
  using assms
  by (auto simp: settle_def check_rollback_def count_outcome_def Let_def note_rollback_def split: if_splits)

abbreviation count_moves :: "'a km \<Rightarrow> bool" where
  "count_moves \<equiv> moves (\<lambda>k k'. k_consecutive k' = k_consecutive k)"

lemma count_order: "reflp (\<lambda>k k'. k_consecutive k' = k_consecutive k)"
  "transp (\<lambda>k k'. k_consecutive k' = k_consecutive k)"
  by (auto simp: reflp_def transp_def)

lemmas count_rel = moves_kbind [OF count_order(2)] moves_pure [OF count_order(1)]

lemma count_ledger: "count_moves (append_kernel_event R en ty r i b fs)"
  "count_moves (commit_ledger R en p sim risk d why oc ver rid)"
  by (auto simp: append_kernel_event_def commit_ledger_def Let_def push_record_eq kget_run_eq moves_def
      kbind_def kget_def)

lemma count_after: "count_moves (escalate R en rid p rs kinds)" "count_moves (tighten_on_cluster v)"
  unfolding escalate_def tighten_on_cluster_def adaptive_tighten_def
  by (auto intro!: count_rel count_ledger simp: moves_kupd)

lemma execute_stage_counts:
  assumes "execute_stage R en exec p c rid rs val sim risk dec k = (Inr res, k')"
  shows "\<exists>k1. settle p c (sr_cost_est sim) (run_executor exec p) k = (Inr (the (kr_outcome res)), k1)
    \<and> kr_outcome res \<noteq> None \<and> k_consecutive k' = k_consecutive k1"
proof -
  from assms obtain oc k1 where s: "settle p c (sr_cost_est sim) (run_executor exec p) k = (Inr oc, k1)"
    and rest: "aftermath R en p rid rs val sim risk dec oc k1 = (Inr res, k')"
    unfolding execute_stage_def kbind_Inr by blast
  have "count_moves (aftermath R en p rid rs val sim risk dec oc)"
    unfolding aftermath_def by (intro count_rel count_after count_ledger) (auto simp: moves_kupd)
  from movesD [OF this, of k1] have "k_consecutive k' = k_consecutive k1" by (simp add: rest)
  moreover have "kr_outcome res = Some oc"
    using rest unfolding aftermath_def kbind_Inr by (auto simp: blank_result_def)
  ultimately show ?thesis using s by auto
qed

definition quiet_env :: env where
  "quiet_env = \<lparr>en_clock = 0, en_sign = None, en_loads = (\<lambda>_. None)\<rparr>"

section \<open>One concrete executed step\<close>

text \<open>A failing read of \<open>a.py\<close> on a new kernel, worked out stage by stage; it serves the witnesses.\<close>

definition demo_exec :: executor where
  "demo_exec step = Inr \<lparr>oc_success = False, oc_exit_code = 1, oc_payload = [], oc_logs = [],
     oc_duration_sec = 1, oc_error = None, oc_state_delta_hash = []\<rparr>"

definition demo_raw :: pydict where
  "demo_raw = [(PStr ''type'', PStr ''read_file''), (PStr ''path'', PStr ''a.py'')]"

definition demo_kernel :: kernel where
  "demo_kernel = blank_kernel [] DEFAULT_TIER_POLICY"

definition demo_p :: proposal where
  "demo_p = normalize_step digest_runtime (en_clock quiet_env) demo_raw [] [] []"

definition demo_started :: kernel where
  "demo_started = demo_kernel\<lparr>k_runs := snd (run_get ''r'' (k_runs demo_kernel))\<rparr>"

definition demo_sim :: sim_result where
  "demo_sim = projr (simulate demo_p (k_state demo_started) (Some (k_history demo_started)) [] None 0 None [] [])"

definition demo_risk :: risk_breakdown where
  "demo_risk = projr (risk_score demo_p demo_sim (k_state demo_started) (k_policy demo_started))"

definition demo_dec :: decision where
  "demo_dec = projr (decide digest_runtime demo_p demo_sim demo_risk (k_policy demo_started))"

definition demo_val :: validation_result where
  "demo_val = \<lparr>val_ok = True, val_errors = []\<rparr>"

definition demo_oc :: outcome where
  "demo_oc = run_executor demo_exec demo_p"

definition demo_settled :: kernel where
  "demo_settled = snd (settle demo_p [] (sr_cost_est demo_sim) demo_oc demo_started)"

lemma not_isl: "\<not> isl x \<Longrightarrow> x = Inr (projr x)"
  by (cases x) auto

lemma demo_gates:
  "budget_reason digest_runtime demo_raw (tier_cfg (k_tier_policy demo_started) 0) (k_state demo_started) = Inr None"
  "tier_allows_step demo_raw (tier_cfg (k_tier_policy demo_started) 0) (k_classifiers demo_started) = Inr None"
  "validate digest_runtime demo_p (k_state demo_started) (k_policy demo_started) = Inr demo_val"
  "fst (run_get ''r'' (k_runs demo_kernel)) = fresh_run"
  by code_simp+

lemma demo_decision:
  "simulate demo_p (k_state demo_started) (Some (k_history demo_started)) [] None 0 None [] [] = Inr demo_sim"
  "risk_score demo_p demo_sim (k_state demo_started) (k_policy demo_started) = Inr demo_risk"
  "decide digest_runtime demo_p demo_sim demo_risk (k_policy demo_started) = Inr demo_dec"
  "dc_approved demo_dec"
proof -
  have "\<not> isl (simulate demo_p (k_state demo_started) (Some (k_history demo_started)) [] None 0 None [] [])"
    by code_simp
  then show "simulate demo_p (k_state demo_started) (Some (k_history demo_started)) [] None 0 None [] [] = Inr demo_sim"
    unfolding demo_sim_def by (rule not_isl)
  have "\<not> isl (risk_score demo_p demo_sim (k_state demo_started) (k_policy demo_started))" by code_simp
  then show "risk_score demo_p demo_sim (k_state demo_started) (k_policy demo_started) = Inr demo_risk"
    unfolding demo_risk_def by (rule not_isl)
  have "\<not> isl (decide digest_runtime demo_p demo_sim demo_risk (k_policy demo_started))" by code_simp
  then show "decide digest_runtime demo_p demo_sim demo_risk (k_policy demo_started) = Inr demo_dec"
    unfolding demo_dec_def by (rule not_isl)
  show "dc_approved demo_dec" by code_simp
qed

lemma demo_settle:
  "settle demo_p [] (sr_cost_est demo_sim) demo_oc demo_started = (Inr demo_oc, demo_settled)"
proof -
  have "\<not> oc_success demo_oc" "k_consecutive demo_started = 0" by code_simp+
  then have "fst (settle demo_p [] (sr_cost_est demo_sim) demo_oc demo_started) = Inr demo_oc"
    using settle_cases [of demo_p "[]" "sr_cost_est demo_sim" demo_oc demo_started]
    by (cases "settle demo_p [] (sr_cost_est demo_sim) demo_oc demo_started") simp
  then show ?thesis by (simp add: demo_settled_def prod_eq_iff)
qed

lemma commit_total: "\<exists>r k'. commit_ledger R en p sim risk d why oc ver rid k = (Inr r, k')"
  by (simp add: commit_ledger_def kbind_def kget_run_eq kget_def push_record_eq)

text \<open>No failure kinds, no escalation, no violation: the aftermath ends in the commit.\<close>

lemma aftermath_quiet:
  assumes "outcome_kinds R en oc = Inr []" "run_tier rs = 0"
    "pick_next_tier 0 [] (k_tier_policy k) = Inr (0, why)"
    "verify R oc (k_state k) (k_policy k) = Inr \<lparr>vr_ok = True, vr_violations = []\<rparr>"
  shows "\<exists>res k'. aftermath R en p rid rs val sim risk dec oc k = (Inr res, k')"
proof -
  let ?k = "k\<lparr>k_runs := run_put rid (rs\<lparr>run_failure_kinds := []\<rparr>) (k_runs k)\<rparr>"
  have "escalate R en rid p rs [] k = (Inr (), ?k)"
    using assms(2,3) by (simp add: escalate_def kbind_def kupd_def kget_def klift_def kret_def)
  moreover obtain r k' where "commit_ledger R en p (Some sim) (Some risk) ''APPROVE'' (dc_reason dec)
      (Some oc) (Some \<lparr>vr_ok = True, vr_violations = []\<rparr>) rid ?k = (Inr r, k')"
    using commit_total by blast
  ultimately show ?thesis
    using assms(1,4) by (simp add: aftermath_def kbind_def klift_def kget_def tighten_on_cluster_def kret_def kupd_def)
qed

lemma demo_aftermath:
  "\<exists>res k'. aftermath digest_runtime quiet_env demo_p ''r'' fresh_run demo_val demo_sim demo_risk demo_dec
     demo_oc demo_settled = (Inr res, k')"
  by (rule aftermath_quiet; code_simp)

lemma demo_executed:
  "\<exists>res k'. kernel_step digest_runtime quiet_env demo_exec demo_raw [] [] [] ''r'' None demo_kernel = (Inr res, k')
     \<and> kr_phase res = ''COMMIT''"
proof -
  have start: "kget_run ''r'' demo_kernel = (Inr fresh_run, demo_started)"
    using demo_gates(4) by (simp add: kget_run_eq demo_started_def)
  have ev: "read_evidence digest_runtime None = Inr no_evidence" by (simp add: read_evidence_def)
  obtain res k' where after: "aftermath digest_runtime quiet_env demo_p ''r'' fresh_run demo_val demo_sim
      demo_risk demo_dec demo_oc demo_settled = (Inr res, k')" using demo_aftermath by blast
  have exec: "execute_stage digest_runtime quiet_env demo_exec demo_p [] ''r'' fresh_run demo_val demo_sim
      demo_risk demo_dec demo_started = (Inr res, k')"
    using demo_settle after by (simp add: execute_stage_def kbind_def demo_oc_def)
  then have "validated_stage digest_runtime quiet_env demo_exec demo_p [] ''r'' None fresh_run demo_val
      demo_started = (Inr res, k')"
    using demo_decision by (simp add: validated_stage_def kbind_def klift_def kget_def ev no_evidence_def)
  then have "gated_stage digest_runtime quiet_env demo_exec demo_p [] ''r'' None fresh_run demo_started = (Inr res, k')"
    using demo_gates(3) by (simp add: gated_stage_def kbind_def klift_def kget_def demo_val_def)
  then have "policy_stage digest_runtime quiet_env demo_exec demo_raw demo_p [] ''r'' None fresh_run
      (tier_cfg (k_tier_policy demo_started) 0) demo_started = (Inr res, k')"
    using demo_gates(2) by (simp add: policy_stage_def kbind_def klift_def kget_def)
  then have "kernel_step digest_runtime quiet_env demo_exec demo_raw [] [] [] ''r'' None demo_kernel = (Inr res, k')"
    using demo_gates(1) start
    by (simp add: kernel_step_def Let_def kbind_def klift_def kget_def fresh_run_def demo_p_def [symmetric])
  with execute_stage_result(1) [OF exec] show ?thesis by blast
qed

text \<open>A step of no known action on the same kernel, and one whose pattern is not a string.\<close>

definition demo_bad :: pydict where
  "demo_bad = [(PStr ''type'', PStr ''repo_search''), (PStr ''pattern'', PInt 5)]"

lemma demo_rejected:
  "\<exists>res k'. kernel_step digest_runtime quiet_env demo_exec [] [] [] [] ''r'' None demo_kernel = (Inr res, k')
     \<and> kr_phase res = ''VALIDATE''"
proof -
  let ?p = "normalize_step digest_runtime (en_clock quiet_env) [] [] [] []"
  have gates: "budget_reason digest_runtime [] (tier_cfg (k_tier_policy demo_started) 0) (k_state demo_started) = Inr None"
    "tier_allows_step [] (tier_cfg (k_tier_policy demo_started) 0) (k_classifiers demo_started) = Inr None"
    by code_simp+
  have val: "validate digest_runtime ?p (k_state demo_started) (k_policy demo_started) =
      Inr (result_of [(UNKNOWN_ACTION, ''Unknown action: '')])" by code_simp
  have start: "kget_run ''r'' demo_kernel = (Inr fresh_run, demo_started)"
    using demo_gates(4) by (simp add: kget_run_eq demo_started_def)
  obtain r k' where "commit_ledger digest_runtime quiet_env ?p None None ''REJECT''
      (validation_reason digest_runtime [(UNKNOWN_ACTION, ''Unknown action: '')]) None None ''r'' demo_started = (Inr r, k')"
    using commit_total by blast
  then have "kernel_step digest_runtime quiet_env demo_exec [] [] [] [] ''r'' None demo_kernel =
      (Inr ((blank_result ''VALIDATE'' ?p r)\<lparr>kr_validation := Some (result_of [(UNKNOWN_ACTION, ''Unknown action: '')]),
         kr_error := Some ''Validation failed''\<rparr>), k')"
    using gates val start
    by (simp add: kernel_step_def policy_stage_def gated_stage_def Let_def kbind_def klift_def kget_def kret_def
        fresh_run_def result_of_def)
  then show ?thesis by (simp add: blank_result_def)
qed

lemma demo_raises:
  "kernel_step digest_runtime quiet_env exec demo_bad [] [] [] ''r'' None demo_kernel = (Inl TypeError, demo_started)"
proof -
  let ?p = "normalize_step digest_runtime (en_clock quiet_env) demo_bad [] [] []"
  have gates: "budget_reason digest_runtime demo_bad (tier_cfg (k_tier_policy demo_started) 0) (k_state demo_started) = Inr None"
    "tier_allows_step demo_bad (tier_cfg (k_tier_policy demo_started) 0) (k_classifiers demo_started) = Inr None"
    "validate digest_runtime ?p (k_state demo_started) (k_policy demo_started) = Inl TypeError" by code_simp+
  have start: "kget_run ''r'' demo_kernel = (Inr fresh_run, demo_started)"
    using demo_gates(4) by (simp add: kget_run_eq demo_started_def)
  show ?thesis
    using gates start
    by (simp add: kernel_step_def policy_stage_def gated_stage_def Let_def kbind_def klift_def kget_def fresh_run_def)
qed

section \<open>Properties\<close>

text \<open>C4: the kernel's invariant. Whatever sequence of steps (with any executor, exceptions included),
  run resets, iteration resets, relaxations and run endings a new kernel goes through, its state
  stays well formed (safety level 0 to 2, at most 20 recent actions), its outcome history bounded
  and consistent, its ledger valid and in step with its file, every run's tier between 0 and 3, and
  fewer than three consecutive failures are pending.\<close>

theorem kernel_invariant:
  assumes "digests R" "new_kernel R None policy tiers = Inr k"
  shows "kernel_ok R (foldl (kernel_run R) k ops)"
  using kernel.run_inv [of R k ops] assms kernel_ok_new by blast

theorem kernel_invariant_witness:
  "\<exists>k. new_kernel digest_runtime None [] DEFAULT_TIER_POLICY = Inr k
     \<and> kernel_ok digest_runtime (foldl (kernel_run digest_runtime) k [Iteration, Relax])"
proof -
  obtain k where k: "new_kernel digest_runtime None [] DEFAULT_TIER_POLICY = Inr k"
    by (simp add: new_kernel_def)
  with kernel_invariant [OF digests_digest_runtime k] show ?thesis by blast
qed



text \<open>C2: what a commit implies. A step that was executed has an enabled tool as its action, ran below
  the safety lockdown and within the step budget of the policy, passed the action's own checks,
  the tier budget and the tier gate of its run, and was approved by the decision law; the result
  records that decision.\<close>

theorem execution_requires_gates:
  assumes "kernel_step R en exec raw c i b rid ev k = (Inr res, k')" "kr_phase res = ''COMMIT''"
    and "p = normalize_step R (en_clock en) raw i c b"
    and "cfg = tier_cfg (k_tier_policy k) (tier_of rid k)"
  shows "pr_action p \<in> set ENABLED_TOOL_NAMES \<and> st_safety_level (k_state k) < 2
    \<and> (\<exists>m. dget_int (k_policy k) ''max_total_steps'' 100 = Inr m \<and> st_step_count (k_state k) < m)
    \<and> check_action R p (k_policy k) = Inr []
    \<and> budget_reason R raw cfg (k_state k) = Inr None
    \<and> tier_allows_step raw cfg (k_classifiers k) = Inr None
    \<and> (\<exists>sim risk dec. risk_score p sim (k_state k) (k_policy k) = Inr risk
         \<and> decide R p sim risk (k_policy k) = Inr dec \<and> dc_approved dec \<and> kr_decision res = Some dec)"
proof -
  let ?rs = "fst (run_get rid (k_runs k))" and ?k = "k\<lparr>k_runs := snd (run_get rid (k_runs k))\<rparr>"
  have cfg: "cfg = tier_cfg (k_tier_policy k) (run_tier ?rs)" by (simp add: assms(4) tier_of_def)
  from kernel_step_commit [OF assms(1-3) refl cfg refl]
  have budget: "budget_reason R raw cfg (k_state k) = Inr None"
    and pol: "policy_stage R en exec raw p c rid ev ?rs cfg ?k = (Inr res, k')" by blast+
  from policy_commit [OF pol assms(2)] have gate: "tier_allows_step raw cfg (k_classifiers k) = Inr None"
    and gated: "gated_stage R en exec p c rid ev ?rs ?k = (Inr res, k')" by simp_all
  from gated_commit [OF gated assms(2)] obtain val where val:
    "validate R p (k_state k) (k_policy k) = Inr val" "val_ok val"
    "validated_stage R en exec p c rid ev ?rs val ?k = (Inr res, k')" by auto
  from validated_commit [OF val(3) assms(2)] obtain sim risk dec where dec:
    "risk_score p sim (k_state k) (k_policy k) = Inr risk" "decide R p sim risk (k_policy k) = Inr dec"
    "dc_approved dec" "execute_stage R en exec p c rid ?rs val sim risk dec ?k = (Inr res, k')" by auto
  from execute_stage_result(2) [OF dec(4)] have "kr_decision res = Some dec" .
  with validate_okD [OF val(1,2)] budget gate dec(1-3) show ?thesis by blast
qed

theorem execution_requires_gates_witness:
  "st_safety_level (k_state demo_kernel) < 2 \<and> pr_action demo_p \<in> set ENABLED_TOOL_NAMES"
proof -
  from demo_executed obtain res k' where
    "kernel_step digest_runtime quiet_env demo_exec demo_raw [] [] [] ''r'' None demo_kernel = (Inr res, k')"
    "kr_phase res = ''COMMIT''" by blast
  from execution_requires_gates [OF this refl refl] show ?thesis by (simp add: demo_p_def)
qed

text \<open>C3: the audit trail. A step that returns appends to the ledger file some kernel events and then
  exactly one record of the step, which the result carries: APPROVE with the hash of the outcome if
  the step was executed, REJECT without one otherwise. A step that raises leaves no record of
  itself, only events it had already written.\<close>

theorem kernel_step_audited:
  "\<exists>evs rec. case kernel_step R en exec raw c i b rid ev k of (r, k') \<Rightarrow>
     list_all is_event evs
     \<and> (case r of
          Inl e \<Rightarrow> file_lines (k_ledger k') = file_lines (k_ledger k) @ map Rec evs
        | Inr res \<Rightarrow> file_lines (k_ledger k') = file_lines (k_ledger k) @ map Rec evs @ [Rec rec]
            \<and> \<not> is_event rec \<and> kr_ledger_record res = Some rec
            \<and> lr_decision rec = (if kr_phase res = ''COMMIT'' then ''APPROVE'' else ''REJECT'')
            \<and> (lr_outcome_hash rec \<noteq> None \<longleftrightarrow> kr_phase res = ''COMMIT''))"
proof -
  obtain r k' where s: "kernel_step R en exec raw c i b rid ev k = (r, k')"
    by (cases "kernel_step R en exec raw c i b rid ev k")
  from audited_kernel_step [of R en exec raw c i b rid ev] s obtain new where
    new: "file_lines (k_ledger k') = file_lines (k_ledger k) @ map Rec new" "step_audit r new"
    unfolding audited_def by (metis fst_conv snd_conv)
  show ?thesis
  proof (cases r)
    case (Inl e)
    with new show ?thesis by (intro exI [of _ new] exI) (simp add: s step_audit_def)
  next
    case (Inr res)
    with new(2) obtain evs rec where "new = evs @ [rec]" "list_all is_event evs" "\<not> is_event rec"
        "kr_ledger_record res = Some rec"
        "lr_decision rec = (if kr_phase res = ''COMMIT'' then ''APPROVE'' else ''REJECT'')"
        "lr_outcome_hash rec \<noteq> None \<longleftrightarrow> kr_phase res = ''COMMIT''"
      by (auto simp: step_audit_def)
    with new(1) Inr show ?thesis by (intro exI [of _ evs] exI [of _ rec]) (simp add: s)
  qed
qed

text \<open>Tiers only rise during a step, and only for the step's own run: the tier of that run after the
  step is at least what it was, and every other run keeps its tier and failure kinds.\<close>

theorem kernel_step_tiers:
  "case kernel_step R en exec raw c i b rid ev k of (r, k') \<Rightarrow>
     tier_of rid k \<le> tier_of rid k'
     \<and> (\<forall>q. run_key q = run_key rid \<or> fst (run_get q (k_runs k')) = fst (run_get q (k_runs k)))"
  using kernel_step_floor [of rid k R en exec raw c i b ev]
  by (auto simp: tier_floor_def split: prod.splits)

text \<open>The rollback trigger. When two failures are pending, the next executed step that fails gets the
  rollback note appended to its error and the count starts again; a success clears the count; any
  other failure adds one and leaves the executor's outcome as it is.\<close>

theorem third_failure_rolls_back:
  assumes "kernel_step R en exec raw c i b rid ev k = (Inr res, k')" "kr_phase res = ''COMMIT''"
    and "oc = run_executor exec (normalize_step R (en_clock en) raw i c b)"
  shows "if oc_success oc then kr_outcome res = Some oc \<and> k_consecutive k' = 0
    else if k_consecutive k \<ge> 2
    then kr_outcome res = Some (oc\<lparr>oc_error := Some ((case oc_error oc of None \<Rightarrow> [] | Some e \<Rightarrow> e) @ rollback_note)\<rparr>)
      \<and> k_consecutive k' = 0
    else kr_outcome res = Some oc \<and> k_consecutive k' = k_consecutive k + 1"
proof -
  let ?p = "normalize_step R (en_clock en) raw i c b"
  let ?rs = "fst (run_get rid (k_runs k))" and ?k = "k\<lparr>k_runs := snd (run_get rid (k_runs k))\<rparr>"
  from kernel_step_commit [OF assms(1,2) refl refl refl refl]
  obtain cfg where "policy_stage R en exec raw ?p c rid ev ?rs cfg ?k = (Inr res, k')" by blast
  with policy_commit [OF _ assms(2)] have "gated_stage R en exec ?p c rid ev ?rs ?k = (Inr res, k')" by blast
  with gated_commit [OF _ assms(2)] obtain val
    where "validated_stage R en exec ?p c rid ev ?rs val ?k = (Inr res, k')" by blast
  with validated_commit [OF _ assms(2)] obtain sim risk dec
    where "execute_stage R en exec ?p c rid ?rs val sim risk dec ?k = (Inr res, k')" by blast
  from execute_stage_counts [OF this] obtain k1 where
    "settle ?p c (sr_cost_est sim) oc ?k = (Inr (the (kr_outcome res)), k1)"
    "kr_outcome res \<noteq> None" "k_consecutive k' = k_consecutive k1"
    unfolding assms(3) by blast
  with settle_cases [OF this(1)] show ?thesis by (auto simp: note_rollback_def split: if_splits)
qed


theorem third_failure_rolls_back_witness:
  "\<exists>res k'. kernel_step digest_runtime quiet_env demo_exec demo_raw [] [] [] ''r'' None demo_kernel = (Inr res, k')
     \<and> k_consecutive k' = 1"
proof -
  from demo_executed obtain res k' where step:
    "kernel_step digest_runtime quiet_env demo_exec demo_raw [] [] [] ''r'' None demo_kernel = (Inr res, k')"
    "kr_phase res = ''COMMIT''" by blast
  have "\<not> oc_success demo_oc" "k_consecutive demo_kernel = 0" by code_simp+
  with third_failure_rolls_back [OF step refl] have "k_consecutive k' = 1"
    by (simp add: demo_oc_def demo_p_def)
  with step(1) show ?thesis by blast
qed

text \<open>The audit trail has a gap. A search step whose pattern is a number, on a new kernel with the
  default tier policy, makes \<open>kernel_step\<close> raise \<open>TypeError\<close> whatever the executor, and nothing at
  all is written to the ledger, not even an event.\<close>

theorem ill_typed_step_unrecorded:
  "fst (kernel_step digest_runtime quiet_env exec demo_bad [] [] [] ''r'' None demo_kernel) = Inl TypeError
   \<and> file_lines (k_ledger (snd (kernel_step digest_runtime quiet_env exec demo_bad [] [] [] ''r'' None demo_kernel))) = []"
proof -
  have "file_lines (k_ledger demo_started) = []" by code_simp
  then show ?thesis by (simp add: demo_raises)
qed

end
