(* ===== verification/Ledger_Chain.thy ===== *)
theory Ledger_Chain
  imports Hard_Ledger
begin

text \<open>
  The in-memory hash chain of \<open>rfsn_kernel/ledger_chain.py\<close>, its verification and its JSON file. The
  chain entries are dictionaries: the caller's entry with three metadata keys set on it.
\<close>

record chain =
  ch_entries :: "pydict list"
  ch_seed :: string
  ch_prev_hash :: string

definition entry_text :: "runtime \<Rightarrow> pydict \<Rightarrow> string" where
  "entry_text R e = rt_dumps R True (PDict e)"

definition chain_entry_hash :: "runtime \<Rightarrow> pydict \<Rightarrow> string \<Rightarrow> string" where
  "chain_entry_hash R e prev = rt_sha256 R (prev @ ''|'' @ entry_text R e)"

definition new_chain :: "runtime \<Rightarrow> string \<Rightarrow> chain" where
  "new_chain R seed = \<lparr>ch_entries = [], ch_seed = seed, ch_prev_hash = rt_sha256 R seed\<rparr>"

definition chain_append :: "runtime \<Rightarrow> pydict \<Rightarrow> chain \<Rightarrow> pydict \<times> chain" where
  "chain_append R e c =
     (let h = chain_entry_hash R e (ch_prev_hash c);
          ce = dput ''_chain_hash'' (PStr h)
                 (dput ''_prev_hash'' (PStr (ch_prev_hash c))
                   (dput ''_chain_index'' (PInt (int (length (ch_entries c)))) e))
      in (ce, c\<lparr>ch_entries := ch_entries c @ [ce], ch_prev_hash := h\<rparr>))"

definition reserved :: "pyval \<Rightarrow> bool" where
  "reserved k \<longleftrightarrow> k \<in> {PStr ''_chain_index'', PStr ''_chain_hash'', PStr ''_prev_hash''}"

definition clean_entry :: "pydict \<Rightarrow> pydict" where
  "clean_entry e = filter (\<lambda>(k, v). \<not> reserved k) e"

datatype chain_fault = PrevMismatch | ContentTampered

text \<open>\<open>verify\<close>: the index and kind of the first fault, or none. A hash is compared as a value, so an
  entry without one never matches.\<close>

fun chain_verify_from :: "runtime \<Rightarrow> string \<Rightarrow> nat \<Rightarrow> pydict list \<Rightarrow> (nat \<times> chain_fault) option" where
  "chain_verify_from R prev i [] = None"
| "chain_verify_from R prev i (e # es) =
     (if dget e ''_prev_hash'' \<noteq> Some (PStr prev) then Some (i, PrevMismatch)
      else let h = chain_entry_hash R (clean_entry e) prev
           in if dget e ''_chain_hash'' \<noteq> Some (PStr h) then Some (i, ContentTampered)
              else chain_verify_from R h (Suc i) es)"

definition chain_verify :: "runtime \<Rightarrow> chain \<Rightarrow> (nat \<times> chain_fault) option" where
  "chain_verify R c = chain_verify_from R (rt_sha256 R (ch_seed c)) 0 (ch_entries c)"

text \<open>The file holds the seed and the entries; loading takes the last entry's hash as the head, and an
  entry without one raises. A hash that is not a string is outside the model.\<close>

definition chain_save :: "chain \<Rightarrow> string \<times> pydict list" where
  "chain_save c = (ch_seed c, ch_entries c)"

definition chain_load :: "runtime \<Rightarrow> string \<times> pydict list \<Rightarrow> chain res" where
  "chain_load R file =
     (let c = (new_chain R (fst file))\<lparr>ch_entries := snd file\<rparr>
      in if snd file = [] then Inr c
         else case dget (last (snd file)) ''_chain_hash'' of
                Some (PStr h) \<Rightarrow> Inr (c\<lparr>ch_prev_hash := h\<rparr>)
              | _ \<Rightarrow> Inl KeyError)"

section \<open>Lemmas\<close>

definition plain_entry :: "pydict \<Rightarrow> bool" where
  "plain_entry e \<longleftrightarrow> (\<forall>(k, v) \<in> set e. \<not> reserved k)"

lemma clean_dput: "reserved (PStr key) \<Longrightarrow> clean_entry (dput key v e) = clean_entry e"
  by (induction e) (auto simp: dput_def clean_entry_def)

lemma clean_plain: "plain_entry e \<Longrightarrow> clean_entry e = e"
  by (auto simp: plain_entry_def clean_entry_def filter_id_conv)

lemma chain_append_entry:
  assumes "plain_entry e"
  shows "dget (fst (chain_append R e c)) ''_prev_hash'' = Some (PStr (ch_prev_hash c))"
    "dget (fst (chain_append R e c)) ''_chain_hash'' = Some (PStr (chain_entry_hash R e (ch_prev_hash c)))"
    "clean_entry (fst (chain_append R e c)) = e"
  using assms by (simp_all add: chain_append_def Let_def dict_simps clean_dput reserved_def clean_plain)

text \<open>The head a verified list of entries leads to.\<close>

definition chain_link :: "runtime \<Rightarrow> string \<Rightarrow> string \<Rightarrow> string" where
  "chain_link R prev text = rt_sha256 R (prev @ ''|'' @ text)"

definition texts :: "runtime \<Rightarrow> pydict list \<Rightarrow> string list" where
  "texts R es = map (\<lambda>e. entry_text R (clean_entry e)) es"

lemma chain_entry_link: "chain_entry_hash R e prev = chain_link R prev (entry_text R e)"
  by (simp add: chain_entry_hash_def chain_link_def)

definition chain_clash :: "runtime \<Rightarrow> string \<times> string \<Rightarrow> string \<times> string \<Rightarrow> bool" where
  "chain_clash R p q \<longleftrightarrow> length (fst p) \<noteq> length (fst q)
     \<or> digest_clash R (fst p @ ''|'' @ snd p) (fst q @ ''|'' @ snd q)"

interpretation entry_chain: hash_link "chain_link R" "chain_clash R" for R
  by unfold_locales (auto simp: chain_link_def chain_clash_def digest_clash_def)

lemma chain_verify_snoc:
  "chain_verify_from R prev i (es @ [e]) = None \<longleftrightarrow>
     chain_verify_from R prev i es = None
     \<and> dget e ''_prev_hash'' = Some (PStr (foldl (chain_link R) prev (texts R es)))
     \<and> dget e ''_chain_hash'' = Some (PStr (chain_entry_hash R (clean_entry e) (foldl (chain_link R) prev (texts R es))))"
  by (induction es arbitrary: prev i) (auto simp: texts_def Let_def chain_entry_link)

definition chain_ok :: "runtime \<Rightarrow> chain \<Rightarrow> bool" where
  "chain_ok R c \<longleftrightarrow> chain_verify R c = None
     \<and> ch_prev_hash c = foldl (chain_link R) (rt_sha256 R (ch_seed c)) (texts R (ch_entries c))"

lemma chain_ok_append [machine_inv]:
  assumes "chain_ok R c" "plain_entry e" shows "chain_ok R (snd (chain_append R e c))"
proof -
  have c: "snd (chain_append R e c) =
      c\<lparr>ch_entries := ch_entries c @ [fst (chain_append R e c)], ch_prev_hash := chain_entry_hash R e (ch_prev_hash c)\<rparr>"
    by (simp add: chain_append_def Let_def)
  show ?thesis
    unfolding c using assms chain_append_entry [OF assms(2), of R c]
    by (auto simp: chain_ok_def chain_verify_def chain_verify_snoc) (simp_all add: texts_def chain_entry_link)
qed

text \<open>Appending an entry that uses a reserved key is outside the invariant (see below).\<close>

definition chain_step :: "runtime \<Rightarrow> chain \<Rightarrow> pydict \<Rightarrow> chain" where
  "chain_step R c e = (if plain_entry e then snd (chain_append R e c) else c)"

lemma chain_ok_new: "chain_ok R (new_chain R seed)"
  by (simp add: new_chain_def chain_ok_def chain_verify_def texts_def)

lemma chain_ok_step: "chain_ok R c \<Longrightarrow> chain_ok R (chain_step R c e)"
  by (simp add: chain_step_def chain_ok_append)

interpretation entry_log: growing_machine "chain_step R" "new_chain R seed" "chain_ok R" "\<lambda>c. length (ch_entries c)"
  for R seed
proof unfold_locales
  show "chain_ok R (new_chain R seed)" by (rule chain_ok_new)
  show "chain_ok R (chain_step R c e)" if "chain_ok R c" for c e using that by (rule chain_ok_step)
  show "length (ch_entries c) \<le> length (ch_entries (chain_step R c e))" for c e
    by (simp add: chain_step_def chain_append_def Let_def)
qed

lemma chain_verify_append:
  "chain_verify_from R prev i (es @ fs) = None \<Longrightarrow> chain_verify_from R prev i es = None"
  by (induction es arbitrary: prev i) (auto simp: Let_def split: if_splits)

lemma chain_step_entries: "\<exists>es. ch_entries (foldl (chain_step R) c xs) = ch_entries c @ es"
proof (induction xs arbitrary: c)
  case Nil
  then show ?case by simp
next
  case (Cons x xs)
  from Cons [of "chain_step R c x"] show ?case by (auto simp: chain_step_def chain_append_def Let_def)
qed

lemma chain_step_seed: "ch_seed (foldl (chain_step R) c xs) = ch_seed c"
  by (induction xs arbitrary: c) (auto simp: chain_step_def chain_append_def Let_def)

lemma chain_verify_head:
  "chain_verify_from R prev i (es @ [e]) = None \<Longrightarrow>
   dget e ''_chain_hash'' = Some (PStr (foldl (chain_link R) prev (texts R (es @ [e]))))"
  by (simp add: chain_verify_snoc chain_entry_link texts_def)

section \<open>Properties\<close>

text \<open>An in-memory chain grown from its seed by entries that do not use the reserved keys always
  verifies; saving it and loading the file gives the chain back, head hash included, so appends can
  go on; and every prefix of it verifies too, so cutting off the newest entries goes unnoticed.\<close>

theorem chain_grows_and_reloads:
  assumes "c = foldl (chain_step R) (new_chain R seed) xs"
  shows "chain_verify R c = None \<and> chain_load R (chain_save c) = Inr c
    \<and> (\<forall>n. chain_verify R (c\<lparr>ch_entries := take n (ch_entries c)\<rparr>) = None)"
proof (intro conjI allI)
  have ok: "chain_ok R c" unfolding assms by (rule entry_log.reach_inv)
  have seed: "ch_seed c = seed" using assms chain_step_seed by (simp add: new_chain_def)
  show v: "chain_verify R c = None" using ok by (simp add: chain_ok_def)
  show "chain_verify R (c\<lparr>ch_entries := take n (ch_entries c)\<rparr>) = None" for n
    using v chain_verify_append [of R _ 0 "take n (ch_entries c)" "drop n (ch_entries c)"]
    by (simp add: chain_verify_def)
  show "chain_load R (chain_save c) = Inr c"
  proof (cases "ch_entries c" rule: rev_cases)
    case Nil
    then show ?thesis using ok by (simp add: chain_load_def chain_save_def new_chain_def chain_ok_def texts_def)
  next
    case (snoc es e)
    have "dget e ''_chain_hash'' = Some (PStr (ch_prev_hash c))"
      using v ok chain_verify_head [of R _ 0 es e] by (simp add: chain_verify_def chain_ok_def snoc)
    then show ?thesis by (simp add: chain_load_def chain_save_def snoc new_chain_def Let_def)
  qed
qed

theorem chain_grows_and_reloads_witness:
  "chain_verify toy_runtime (foldl (chain_step toy_runtime) (new_chain toy_runtime ''GENESIS'') [[(PStr ''a'', PInt 1)]]) = None"
  using chain_grows_and_reloads [OF refl] by blast

end
