(* ===== verification/Frustration.thy ===== *)
theory Frustration
  imports Py_Value
begin

text \<open>
  The frustration monitor of \<open>rfsn_kernel/memory.py\<close>: it watches the output of the agent for the same
  error several times in a row and for oversized stack traces, and compresses long texts.
\<close>

datatype suggested = Compress | Stop

record frustration_signal =
  fs_severity :: rat
  fs_reason :: string
  fs_suggested_action :: suggested

record frustration_manager =
  fm_history :: "string list"
  fm_last_error_hash :: string
  fm_consecutive :: int
  fm_history_size :: int

definition new_frustration :: "int \<Rightarrow> frustration_manager" where
  "new_frustration n =
     \<lparr>fm_history = [], fm_last_error_hash = [], fm_consecutive = 0, fm_history_size = n\<rparr>"

definition push_history :: "string \<Rightarrow> frustration_manager \<Rightarrow> frustration_manager" where
  "push_history out f =
     (let h = fm_history f @ [take 1000 out]
      in f\<lparr>fm_history := (if int (length h) > fm_history_size f then tl h else h)\<rparr>)"

definition count_error :: "runtime \<Rightarrow> string \<Rightarrow> bool \<Rightarrow> frustration_manager \<Rightarrow> frustration_manager" where
  "count_error R out is_error f =
     (if is_error
      then (let cur = rt_md5 R out
            in if cur = fm_last_error_hash f then f\<lparr>fm_consecutive := fm_consecutive f + 1\<rparr>
               else f\<lparr>fm_last_error_hash := cur, fm_consecutive := 1\<rparr>)
      else f\<lparr>fm_consecutive := 0\<rparr>)"

definition check_frustration ::
    "runtime \<Rightarrow> string \<Rightarrow> bool \<Rightarrow> frustration_manager \<Rightarrow> frustration_signal option \<times> frustration_manager" where
  "check_frustration R out is_error f =
     (let f1 = count_error R out is_error (push_history out f)
      in if is_error \<and> fm_consecutive f1 \<ge> 3
         then (Some \<lparr>fs_severity = 8 / 10,
                 fs_reason = ''Identical error detected '' @ int_str (fm_consecutive f1) @ '' times in a row.'',
                 fs_suggested_action = Stop\<rparr>, f1)
         else if length out > 2000 \<and> occurs_in ''Traceback'' out
         then (Some \<lparr>fs_severity = 4 / 10, fs_reason = ''Large stack trace detected.'',
                 fs_suggested_action = Compress\<rparr>, f1)
         else (None, f1))"

definition compress_context :: "string \<Rightarrow> string" where
  "compress_context text =
     (if length text < 1000 then text
      else let lines = splitlines text
           in if length lines < 20 then text
              else join [CHR 0x0A]
                (take 5 lines
                 @ [''... [Compressed '' @ nat_str (length lines - 20) @ '' lines of output] ...'']
                 @ last_n 15 lines))"

section \<open>Properties\<close>

text \<open>The length of the current run of one error, read off the whole history of outputs.\<close>

definition error_run :: "runtime \<Rightarrow> (string \<times> bool) list \<Rightarrow> nat" where
  "error_run R evs =
     (case rev evs of
        [] \<Rightarrow> 0
      | (out, _) # _ \<Rightarrow> length (takeWhile (\<lambda>(x, e). e \<and> rt_md5 R x = rt_md5 R out) (rev evs)))"

definition watch :: "runtime \<Rightarrow> frustration_manager \<Rightarrow> string \<times> bool \<Rightarrow> frustration_manager" where
  "watch R f ev = snd (check_frustration R (fst ev) (snd ev) f)"

lemma watch_eq: "watch R f ev = count_error R (fst ev) (snd ev) (push_history (fst ev) f)"
  by (simp add: watch_def check_frustration_def Let_def)

definition tracks :: "runtime \<Rightarrow> (string \<times> bool) list \<Rightarrow> frustration_manager \<Rightarrow> bool" where
  "tracks R evs f \<longleftrightarrow> fm_consecutive f = int (error_run R evs)
     \<and> (0 < error_run R evs \<longrightarrow> fm_last_error_hash f = rt_md5 R (fst (last evs)))"

lemma error_run_snoc:
  "error_run R (evs @ [(out, e)]) =
     (if \<not> e then 0
      else if evs \<noteq> [] \<and> rt_md5 R (fst (last evs)) = rt_md5 R out then Suc (error_run R evs) else 1)"
proof (cases "rev evs")
  case Nil
  then show ?thesis by (simp add: error_run_def)
next
  case (Cons x xs)
  then have l: "last evs = x" "evs \<noteq> []" by (metis hd_rev list.sel(1), auto)
  show ?thesis using Cons l by (cases x) (auto simp: error_run_def)
qed

lemma tracks_watch:
  assumes "tracks R evs f" shows "tracks R (evs @ [ev]) (watch R f ev)"
proof -
  obtain out e where ev: "ev = (out, e)" by (cases ev)
  have "error_run R evs = 0" if "evs = []" using that by (simp add: error_run_def)
  then show ?thesis
    using assms by (auto simp: ev tracks_def watch_eq error_run_snoc count_error_def push_history_def Let_def)
qed

lemma tracks_run: "tracks R evs f \<Longrightarrow> tracks R (evs @ evs') (foldl (watch R) f evs')"
proof (induction evs' arbitrary: evs f)
  case Nil
  then show ?case by simp
next
  case (Cons ev evs')
  from Cons.IH [OF tracks_watch [OF Cons.prems]] show ?case by simp
qed

text \<open>After any history of outputs, the monitor answers an error with the advice to stop exactly
  when the last three or more outputs, this one included, were errors with the same digest; a
  success in between or a different error starts the count again.\<close>

theorem stop_iff_three_identical_errors:
  "(\<exists>s. fst (check_frustration R out e (foldl (watch R) (new_frustration n) evs)) = Some s
        \<and> fs_suggested_action s = Stop)
   \<longleftrightarrow> 3 \<le> error_run R (evs @ [(out, e)])"
proof -
  let ?f = "foldl (watch R) (new_frustration n) evs"
  have "tracks R [] (new_frustration n)" by (simp add: tracks_def new_frustration_def error_run_def)
  from tracks_run [OF this, of evs] have "tracks R evs ?f" by simp
  from tracks_watch [OF this, of "(out, e)"]
  have "fm_consecutive (count_error R out e (push_history out ?f)) = int (error_run R (evs @ [(out, e)]))"
    by (simp add: tracks_def watch_eq)
  then show ?thesis by (auto simp: check_frustration_def Let_def error_run_snoc)
qed

end
