(* ===== verification/Model_Check.thy ===== *)
theory Model_Check
  imports Py_Value
begin

text \<open>
  The state space explorer of the kernel, \<open>rfsn_kernel/model_check.py\<close>, and the minimisation of the
  paths it reports, \<open>rfsn_kernel/counterexample.py\<close>. The system under exploration is given by three
  callbacks; they are pure functions here, and a transition may raise (its message).
\<close>

record explorer =
  ex_actions :: "pydict \<Rightarrow> string list"
  ex_transition :: "pydict \<Rightarrow> string \<Rightarrow> string + pydict"
  ex_check :: "pydict \<Rightarrow> string option"
  ex_max_states :: int
  ex_max_depth :: int

record mc_violation =
  vi_depth :: nat
  vi_message :: string
  vi_path :: "string list"

record mc_result =
  mc_visited :: int
  mc_deadlocks :: "string list"
  mc_violations :: "mc_violation list"
  mc_max_depth :: int

definition mc_ok :: "mc_result \<Rightarrow> bool" where
  "mc_ok r \<longleftrightarrow> mc_violations r = [] \<and> mc_deadlocks r = []"

type_synonym node = "pydict \<times> nat \<times> string list"

definition state_fingerprint :: "runtime \<Rightarrow> pydict \<Rightarrow> string" where
  "state_fingerprint R s = rt_dumps R True (PDict s)"

section \<open>Exploration\<close>

text \<open>A transition that raised \<open>e\<close> on action \<open>a\<close> of the node at depth \<open>d\<close> and path \<open>p\<close>.\<close>

definition step_error :: "nat \<Rightarrow> string list \<Rightarrow> string \<Rightarrow> string \<Rightarrow> mc_violation" where
  "step_error d p a e = \<lparr>vi_depth = d + 1,
     vi_message = ''Transition error on '' @ a @ '': '' @ e, vi_path = p @ [a]\<rparr>"

text \<open>The loop over the actions: new nodes in the order they are put into the queue, the fingerprints
  seen afterwards, and the transitions that raised.\<close>

fun expand :: "runtime \<Rightarrow> explorer \<Rightarrow> node \<Rightarrow> string list \<Rightarrow> string set
    \<Rightarrow> node list \<times> string set \<times> mc_violation list" where
  "expand R E n [] seen = ([], seen, [])"
| "expand R E (s, d, path) (a # as) seen =
     (case ex_transition E s a of
        Inl e \<Rightarrow>
          (let (cs, seen', vs) = expand R E (s, d, path) as seen
           in (cs, seen', step_error d path a e # vs))
      | Inr t \<Rightarrow>
          (let f = state_fingerprint R t
           in if f \<in> seen then expand R E (s, d, path) as seen
              else let (cs, seen', vs) = expand R E (s, d, path) as (insert f seen)
                   in ((t, d + 1, path @ [a]) # cs, seen', vs)))"

text \<open>One iteration of the loop on the node that was taken out of the queue; \<open>order\<close> is the order in
  which the actions are tried.\<close>

definition visit :: "(string list \<Rightarrow> string list) \<Rightarrow> runtime \<Rightarrow> explorer \<Rightarrow> node \<Rightarrow> string set
    \<Rightarrow> mc_result \<Rightarrow> node list \<times> string set \<times> mc_result" where
  "visit order R E n seen r0 =
     (case n of (s, d, path) \<Rightarrow>
       let r = r0\<lparr>mc_visited := mc_visited r0 + 1, mc_max_depth := max (mc_max_depth r0) (int d)\<rparr>
       in case ex_check E s of
            Some msg \<Rightarrow>
              ([], seen, r\<lparr>mc_violations := mc_violations r
                            @ [\<lparr>vi_depth = d, vi_message = msg, vi_path = path\<rparr>]\<rparr>)
          | None \<Rightarrow>
              if ex_max_depth E \<le> int d then ([], seen, r)
              else if ex_actions E s = [] then
                ([], seen, r\<lparr>mc_deadlocks := mc_deadlocks r
                   @ [''depth='' @ int_str (int d) @ '', path='' @ rt_str R (PList (map PStr path))]\<rparr>)
              else let (cs, seen', vs) = expand R E n (order (ex_actions E s)) seen
                   in (cs, seen', r\<lparr>mc_violations := mc_violations r @ vs\<rparr>))"

lemma visit_visited: "mc_visited (snd (snd (visit order R E n seen r))) = mc_visited r + 1"
  by (cases n) (auto simp: visit_def Let_def split: option.split prod.split)

text \<open>The loop. \<open>push\<close> puts the new nodes into the queue, whose head is taken out next. At most
  \<open>ex_max_states\<close> iterations remain, which bounds the recursion.\<close>

function explore_loop :: "(string list \<Rightarrow> string list) \<Rightarrow> (node list \<Rightarrow> node list \<Rightarrow> node list)
    \<Rightarrow> runtime \<Rightarrow> explorer \<Rightarrow> node list \<Rightarrow> string set \<Rightarrow> mc_result \<Rightarrow> mc_result" where
  "explore_loop order push R E [] seen r = r"
| "explore_loop order push R E (n # q) seen r =
     (if mc_visited r < ex_max_states E
      then explore_loop order push R E (push q (fst (visit order R E n seen r)))
             (fst (snd (visit order R E n seen r))) (snd (snd (visit order R E n seen r)))
      else r)"
  by pat_completeness auto
termination
  by (relation "measure (\<lambda>(order, push, R, E, q, seen, r). nat (ex_max_states E - mc_visited r))")
     (auto simp: visit_visited split_def)

definition no_findings :: mc_result where
  "no_findings = \<lparr>mc_visited = 0, mc_deadlocks = [], mc_violations = [], mc_max_depth = 0\<rparr>"

definition explore_bfs :: "runtime \<Rightarrow> explorer \<Rightarrow> pydict \<Rightarrow> mc_result" where
  "explore_bfs R E s0 =
     explore_loop (\<lambda>as. as) (\<lambda>q cs. q @ cs) R E [(s0, 0, [])] {state_fingerprint R s0} no_findings"

text \<open>The stack is written with its top first.\<close>

definition explore_dfs :: "runtime \<Rightarrow> explorer \<Rightarrow> pydict \<Rightarrow> mc_result" where
  "explore_dfs R E s0 =
     explore_loop rev (\<lambda>q cs. rev cs @ q) R E [(s0, 0, [])] {state_fingerprint R s0} no_findings"

section \<open>Counterexamples\<close>

fun triggers_violation :: "explorer \<Rightarrow> pydict \<Rightarrow> string list \<Rightarrow> bool" where
  "triggers_violation E s [] = False"
| "triggers_violation E s (a # as) =
     (case ex_transition E s a of
        Inl e \<Rightarrow> True
      | Inr t \<Rightarrow> if ex_check E t \<noteq> None then True else triggers_violation E t as)"

text \<open>The \<open>for\<close> loop over the positions: the first removal that still triggers.\<close>

fun first_removal :: "explorer \<Rightarrow> pydict \<Rightarrow> string list \<Rightarrow> nat list \<Rightarrow> string list option" where
  "first_removal E s path [] = None"
| "first_removal E s path (i # is) =
     (let candidate = take i path @ drop (i + 1) path
      in if triggers_violation E s candidate then Some candidate else first_removal E s path is)"

lemma first_removal_Some:
  "first_removal E s path is = Some c \<Longrightarrow>
     triggers_violation E s c \<and> (\<exists>i \<in> set is. c = take i path @ drop (i + 1) path)"
  by (induction "is") (auto simp: Let_def split: if_splits)

lemma first_removal_None:
  "first_removal E s path is = None \<longleftrightarrow>
     (\<forall>i \<in> set is. \<not> triggers_violation E s (take i path @ drop (i + 1) path))"
  by (induction "is") (auto simp: Let_def)

lemma first_removal_shorter:
  "first_removal E s path [0..<length path] = Some c \<Longrightarrow> length c < length path"
  by (drule first_removal_Some) auto

function minimize_path :: "explorer \<Rightarrow> pydict \<Rightarrow> string list \<Rightarrow> string list" where
  "minimize_path E s path =
     (case first_removal E s path [0..<length path] of
        None \<Rightarrow> path
      | Some c \<Rightarrow> minimize_path E s c)"
  by pat_completeness auto
termination
  by (relation "measure (\<lambda>(E, s, path). length path)") (auto dest: first_removal_shorter)

record counterexample =
  cx_original_length :: nat
  cx_minimized_length :: nat
  cx_minimized_path :: "string list"
  cx_violation_message :: "string option"
  cx_final_state :: pydict

fun replay_path :: "explorer \<Rightarrow> pydict \<Rightarrow> string list \<Rightarrow> string option \<times> pydict" where
  "replay_path E s [] = (None, s)"
| "replay_path E s (a # as) =
     (case ex_transition E s a of
        Inl e \<Rightarrow> (Some (''Exception: '' @ e), s)
      | Inr t \<Rightarrow> (case ex_check E t of Some msg \<Rightarrow> (Some msg, t) | None \<Rightarrow> replay_path E t as))"

definition generate_counterexample :: "explorer \<Rightarrow> pydict \<Rightarrow> string list \<Rightarrow> counterexample" where
  "generate_counterexample E s path =
     (let m = minimize_path E s path; (msg, final) = replay_path E s m
      in \<lparr>cx_original_length = length path, cx_minimized_length = length m, cx_minimized_path = m,
          cx_violation_message = msg, cx_final_state = final\<rparr>)"

section \<open>Paths\<close>

text \<open>The state a path of enabled actions leads to through states that satisfy the invariant.\<close>

fun follow :: "explorer \<Rightarrow> pydict \<Rightarrow> string list \<Rightarrow> pydict option" where
  "follow E s [] = Some s"
| "follow E s (a # as) =
     (if ex_check E s = None \<and> a \<in> set (ex_actions E s)
      then case ex_transition E s a of Inl e \<Rightarrow> None | Inr t \<Rightarrow> follow E t as
      else None)"

lemma follow_snoc:
  "follow E s (p @ [a]) = Some u \<longleftrightarrow>
     (\<exists>t. follow E s p = Some t \<and> ex_check E t = None \<and> a \<in> set (ex_actions E t)
          \<and> ex_transition E t a = Inr u)"
  by (induction E s p rule: follow.induct) (auto split: sum.splits)

text \<open>What a reported violation means.\<close>

definition genuine :: "explorer \<Rightarrow> pydict \<Rightarrow> mc_violation \<Rightarrow> bool" where
  "genuine E s0 v \<longleftrightarrow> length (vi_path v) = vi_depth v \<and>
     ((\<exists>t. follow E s0 (vi_path v) = Some t \<and> ex_check E t = Some (vi_message v))
      \<or> (\<exists>p a t e. v = step_error (length p) p a e \<and> follow E s0 p = Some t \<and> ex_check E t = None
           \<and> a \<in> set (ex_actions E t) \<and> ex_transition E t a = Inl e))"

text \<open>Equal fingerprints mean states that the callbacks do not tell apart.\<close>

definition fingerprints_respect :: "runtime \<Rightarrow> explorer \<Rightarrow> bool" where
  "fingerprints_respect R E \<longleftrightarrow>
     (\<forall>s t. state_fingerprint R s = state_fingerprint R t \<longrightarrow>
        ex_check E s = ex_check E t \<and> set (ex_actions E s) = set (ex_actions E t) \<and>
        (\<forall>a. (\<forall>e. ex_transition E s a = Inl e \<longleftrightarrow> ex_transition E t a = Inl e) \<and>
             (\<forall>u. ex_transition E s a = Inr u \<longrightarrow>
                (\<exists>u'. ex_transition E t a = Inr u' \<and> state_fingerprint R u = state_fingerprint R u'))))"

lemma fingerprints_respectD:
  assumes "fingerprints_respect R E" "state_fingerprint R s = state_fingerprint R t"
  shows "ex_check E s = ex_check E t" "set (ex_actions E s) = set (ex_actions E t)"
    "ex_transition E s a = Inl e \<longleftrightarrow> ex_transition E t a = Inl e"
    "ex_transition E s a = Inr u \<Longrightarrow>
       \<exists>u'. ex_transition E t a = Inr u' \<and> state_fingerprint R u = state_fingerprint R u'"
  using assms unfolding fingerprints_respect_def by metis+

text \<open>A node leads where its path leads.\<close>

definition node_ok :: "explorer \<Rightarrow> pydict \<Rightarrow> node \<Rightarrow> bool" where
  "node_ok E s0 n \<longleftrightarrow> (case n of (s, d, p) \<Rightarrow> follow E s0 p = Some s \<and> length p = d)"

section \<open>The loop invariant\<close>

text \<open>
  A state is known when a node with its fingerprint is among the nodes, at a depth that satisfies \<open>D\<close>.
  \<open>near\<close> relates the depth of a visited node to the depths at which its successors are known.
\<close>

definition known :: "runtime \<Rightarrow> node set \<Rightarrow> pydict \<Rightarrow> (nat \<Rightarrow> bool) \<Rightarrow> bool" where
  "known R N t D \<longleftrightarrow> (\<exists>(s', d', p') \<in> N. state_fingerprint R s' = state_fingerprint R t \<and> D d')"

lemma known_mono: "known R N t D \<Longrightarrow> N \<subseteq> N' \<Longrightarrow> known R N' t D"
  unfolding known_def by blast

text \<open>What visiting a node has left among the known nodes and the violations.\<close>

definition visited_ok :: "(nat \<Rightarrow> nat \<Rightarrow> bool) \<Rightarrow> runtime \<Rightarrow> explorer \<Rightarrow> node set \<Rightarrow> mc_violation set \<Rightarrow> node \<Rightarrow> bool" where
  "visited_ok near R E N V n \<longleftrightarrow> (case n of (s, d, p) \<Rightarrow>
     (\<forall>msg. ex_check E s = Some msg \<longrightarrow> \<lparr>vi_depth = d, vi_message = msg, vi_path = p\<rparr> \<in> V) \<and>
     (ex_check E s = None \<longrightarrow> int d < ex_max_depth E \<longrightarrow>
        (\<forall>a \<in> set (ex_actions E s).
           (\<forall>e. ex_transition E s a = Inl e \<longrightarrow> step_error d p a e \<in> V) \<and>
           (\<forall>t. ex_transition E s a = Inr t \<longrightarrow> known R N t (near d)))))"

lemma visited_ok_mono:
  "visited_ok near R E N V n \<Longrightarrow> N \<subseteq> N' \<Longrightarrow> V \<subseteq> V' \<Longrightarrow> visited_ok near R E N' V' n"
  unfolding visited_ok_def using known_mono [of R N _ _ N'] by (auto split: prod.splits)

definition fps :: "runtime \<Rightarrow> node set \<Rightarrow> string set" where
  "fps R N = (\<lambda>n. state_fingerprint R (fst n)) ` N"

lemma fps_simps [simp]:
  "fps R {} = {}" "fps R (insert n N) = insert (state_fingerprint R (fst n)) (fps R N)"
  "fps R (N \<union> M) = fps R N \<union> fps R M"
  by (auto simp: fps_def)

lemma expand_spec:
  assumes "expand R E (s, d, p) as seen = (cs, seen', vs)"
  shows "seen' = seen \<union> fps R (set cs)"
    and "n \<in> set cs \<Longrightarrow> \<exists>a t. a \<in> set as \<and> ex_transition E s a = Inr t \<and> n = (t, d + 1, p @ [a])"
    and "v \<in> set vs \<longleftrightarrow> (\<exists>a e. a \<in> set as \<and> ex_transition E s a = Inl e \<and> v = step_error d p a e)"
    and "a \<in> set as \<Longrightarrow> ex_transition E s a = Inr t \<Longrightarrow> state_fingerprint R t \<in> seen'"
  using assms
proof (induction as arbitrary: seen cs seen' vs)
  case Nil
  { case 1 then show ?case by auto next case 2 then show ?case by auto
    next case 3 then show ?case by auto next case 4 then show ?case by auto }
next
  case (Cons b as)
  { case 1
    then show ?case
      by (cases "ex_transition E s b")
         (auto simp: Let_def dest!: Cons.IH(1) split: if_splits prod.splits)
  next
    case 2
    then show ?case
      by (cases "ex_transition E s b")
         (auto simp: Let_def dest!: Cons.IH(2) [rotated] split: if_splits prod.splits)
  next
    case 3
    show ?case
    proof (cases "ex_transition E s b")
      case (Inl e)
      with 3 obtain vs1 where r: "expand R E (s, d, p) as seen = (cs, seen', vs1)"
        and vs: "vs = step_error d p b e # vs1"
        by (auto simp: Let_def split: prod.splits)
      show ?thesis unfolding vs using Inl by (simp add: Cons.IH(3) [OF r]) (metis sum.inject(1))
    next
      case (Inr u)
      with 3 show ?thesis
        by (auto simp: Let_def Cons.IH(3) split: if_splits prod.splits)
    qed
  next
    case 4
    then show ?case
      by (cases "ex_transition E s b")
         (auto simp: Let_def dest: Cons.IH(1,4) split: if_splits prod.splits)
  }
qed

lemma visit_spec:
  assumes "visit order R E (s, d, p) seen r = (cs, seen', r')" "\<And>as. set (order as) = set as"
  shows "seen' = seen \<union> fps R (set cs)"
    and "n \<in> set cs \<Longrightarrow> ex_check E s = None \<and> int d < ex_max_depth E \<and>
           (\<exists>a t. a \<in> set (ex_actions E s) \<and> ex_transition E s a = Inr t \<and> n = (t, d + 1, p @ [a]))"
    and "v \<in> set (mc_violations r') \<longleftrightarrow> v \<in> set (mc_violations r) \<or>
           (\<exists>msg. ex_check E s = Some msg \<and> v = \<lparr>vi_depth = d, vi_message = msg, vi_path = p\<rparr>) \<or>
           (ex_check E s = None \<and> int d < ex_max_depth E \<and>
              (\<exists>a e. a \<in> set (ex_actions E s) \<and> ex_transition E s a = Inl e \<and> v = step_error d p a e))"
    and "ex_check E s = None \<Longrightarrow> int d < ex_max_depth E \<Longrightarrow> a \<in> set (ex_actions E s) \<Longrightarrow>
           ex_transition E s a = Inr t \<Longrightarrow> state_fingerprint R t \<in> seen'"
    and "mc_max_depth r' = max (mc_max_depth r) (int d)"
    and "mc_visited r' = mc_visited r + 1"
proof -
  obtain cs1 se1 vs1 where e: "expand R E (s, d, p) (order (ex_actions E s)) seen = (cs1, se1, vs1)"
    by (metis prod_cases3)
  note x = expand_spec [OF e, unfolded assms(2)]
  note b = assms(1) [unfolded visit_def, simplified, unfolded Let_def e, simplified]
  show "seen' = seen \<union> fps R (set cs)"
    using b x(1) by (auto split: option.splits if_splits)
  show "n \<in> set cs \<Longrightarrow> ex_check E s = None \<and> int d < ex_max_depth E \<and>
      (\<exists>a t. a \<in> set (ex_actions E s) \<and> ex_transition E s a = Inr t \<and> n = (t, d + 1, p @ [a]))"
    using b x(2) [of n] by (auto split: option.splits if_splits)
  show "v \<in> set (mc_violations r') \<longleftrightarrow> v \<in> set (mc_violations r) \<or>
      (\<exists>msg. ex_check E s = Some msg \<and> v = \<lparr>vi_depth = d, vi_message = msg, vi_path = p\<rparr>) \<or>
      (ex_check E s = None \<and> int d < ex_max_depth E \<and>
        (\<exists>a e. a \<in> set (ex_actions E s) \<and> ex_transition E s a = Inl e \<and> v = step_error d p a e))"
    using b x(3) by (cases "ex_check E s"; auto split: if_splits; blast)
  show "ex_check E s = None \<Longrightarrow> int d < ex_max_depth E \<Longrightarrow> a \<in> set (ex_actions E s) \<Longrightarrow>
      ex_transition E s a = Inr t \<Longrightarrow> state_fingerprint R t \<in> seen'"
    using b x(4) [of a t] by (auto split: option.splits if_splits)
  show "mc_max_depth r' = max (mc_max_depth r) (int d)" "mc_visited r' = mc_visited r + 1"
    using b by (auto split: option.splits if_splits)
qed

text \<open>\<open>P\<close> are the nodes taken out so far, \<open>q\<close> those in the queue.\<close>

definition search_inv :: "(nat \<Rightarrow> nat \<Rightarrow> bool) \<Rightarrow> runtime \<Rightarrow> explorer \<Rightarrow> pydict \<Rightarrow> node set \<Rightarrow> node list
    \<Rightarrow> string set \<Rightarrow> mc_result \<Rightarrow> bool" where
  "search_inv near R E s0 P q seen r \<longleftrightarrow>
     seen = fps R (P \<union> set q)
     \<and> (\<forall>n \<in> P \<union> set q. node_ok E s0 n)
     \<and> known R (P \<union> set q) s0 (\<lambda>d. d = 0)
     \<and> (\<forall>v \<in> set (mc_violations r). genuine E s0 v)
     \<and> (\<forall>n \<in> P. visited_ok near R E (P \<union> set q) (set (mc_violations r)) n
                  \<and> int (fst (snd n)) \<le> mc_max_depth r)"

lemma search_inv_start:
  "search_inv near R E s0 {} [(s0, 0, [])] {state_fingerprint R s0} no_findings"
  by (auto simp: search_inv_def node_ok_def known_def no_findings_def)

lemma search_inv_visit:
  assumes inv: "search_inv near R E s0 P (n # q) seen r"
    and v: "visit order R E n seen r = (cs, seen', r')" and ord: "\<And>as. set (order as) = set as"
    and q': "set q' = set q \<union> set cs"
    and near: "\<forall>m \<in> P \<union> set (n # q). near (fst (snd n)) (fst (snd m))" "\<And>d. near d (d + 1)"
  shows "search_inv near R E s0 (insert n P) q' seen' r'"
proof -
  obtain s d p where n: "n = (s, d, p)" by (cases n)
  note vs = visit_spec [OF v [unfolded n] ord]
  let ?N = "P \<union> set (n # q)" and ?N' = "insert n P \<union> set q'"
  have N: "?N' = ?N \<union> set cs" using q' by auto
  have nok: "follow E s0 p = Some s" "length p = d"
    using inv by (auto simp: search_inv_def node_ok_def n)
  have seen: "seen' = fps R ?N'" using inv vs(1) unfolding N by (simp add: search_inv_def)
  have new: "node_ok E s0 m" if "m \<in> set cs" for m
    using vs(2) [OF that] nok by (auto simp: node_ok_def follow_snoc)
  have sub: "set (mc_violations r) \<subseteq> set (mc_violations r')" using vs(3) by blast
  have gen: "genuine E s0 w" if w: "w \<in> set (mc_violations r')" for w
  proof -
    from w [unfolded vs(3)] consider "w \<in> set (mc_violations r)"
      | msg where "ex_check E s = Some msg" "w = \<lparr>vi_depth = d, vi_message = msg, vi_path = p\<rparr>"
      | a e where "ex_check E s = None" "a \<in> set (ex_actions E s)" "ex_transition E s a = Inl e"
          "w = step_error d p a e" by blast
    then show ?thesis
    proof cases
      case 1
      with inv show ?thesis by (simp add: search_inv_def)
    next
      case 2
      with nok show ?thesis by (simp add: genuine_def)
    next
      case 3
      with nok have "w = step_error (length p) p a e \<and> follow E s0 p = Some s" by simp
      with 3 nok show ?thesis unfolding genuine_def by (auto simp: step_error_def)
    qed
  qed
  have old: "visited_ok near R E ?N' (set (mc_violations r')) m" if "m \<in> P" for m
    using that inv sub unfolding search_inv_def N by (blast intro: visited_ok_mono)
  have kn: "known R ?N' t (near d)" if "state_fingerprint R t \<in> seen'" for t
  proof -
    from that obtain m where m: "m \<in> ?N'" "state_fingerprint R (fst m) = state_fingerprint R t"
      unfolding seen fps_def by force
    have "near d (fst (snd m))"
      using m(1) near vs(2) [of m] unfolding N by (auto simp: n)
    with m show ?thesis unfolding known_def by (intro bexI [of _ m]) (auto split: prod.splits)
  qed
  have nvis: "visited_ok near R E ?N' (set (mc_violations r')) n"
    unfolding visited_ok_def n prod.case
  proof (intro conjI allI impI ballI)
    show "\<lparr>vi_depth = d, vi_message = msg, vi_path = p\<rparr> \<in> set (mc_violations r')"
      if "ex_check E s = Some msg" for msg
      using that unfolding vs(3) by blast
    show "step_error d p a e \<in> set (mc_violations r')"
      if "ex_check E s = None" "int d < ex_max_depth E" "a \<in> set (ex_actions E s)"
        "ex_transition E s a = Inl e" for a e
      using that unfolding vs(3) by blast
    show "known R (insert (s, d, p) P \<union> set q') t (near d)"
      if "ex_check E s = None" "int d < ex_max_depth E" "a \<in> set (ex_actions E s)"
        "ex_transition E s a = Inr t" for a t
      using kn [OF vs(4) [OF that]] by (simp add: n)
  qed
  show ?thesis
    unfolding search_inv_def
  proof (intro conjI ballI)
    show "seen' = fps R ?N'" by (rule seen)
    show "node_ok E s0 m" if "m \<in> ?N'" for m
      using that new inv unfolding N search_inv_def by blast
    show "known R ?N' s0 (\<lambda>d. d = 0)"
      using inv unfolding N search_inv_def by (blast intro: known_mono)
    show "genuine E s0 w" if "w \<in> set (mc_violations r')" for w by (rule gen [OF that])
    show "visited_ok near R E ?N' (set (mc_violations r')) m" if "m \<in> insert n P" for m
      using that old nvis by blast
    show "int (fst (snd m)) \<le> mc_max_depth r'" if "m \<in> insert n P" for m
      using that inv vs(5) by (auto simp: search_inv_def n)
  qed
qed

text \<open>
  When the queue ran empty, every path is matched by a visited node with the fingerprint of its end,
  provided the nodes on the way were within the depth bound. \<open>B k d\<close> says that depth \<open>d\<close> is possible for
  the match of a path of length \<open>k\<close>.
\<close>

lemma path_matched:
  assumes inv: "search_inv near R E s0 P [] seen r" and fp: "fingerprints_respect R E"
    and B: "B 0 0" "\<And>k d d'. B k d \<Longrightarrow> near d d' \<Longrightarrow> B (Suc k) d'"
    and cut: "\<And>k d. k < length p \<Longrightarrow> B k d \<Longrightarrow> int d \<le> mc_max_depth r \<Longrightarrow> int d < ex_max_depth E"
    and path: "follow E s0 p = Some t"
  shows "known R P t (B (length p))"
  using path cut
proof (induction p arbitrary: t rule: rev_induct)
  case Nil
  then show ?case using inv B(1) by (auto simp: search_inv_def known_def)
next
  case (snoc a p)
  from snoc.prems(1) obtain u where u: "follow E s0 p = Some u" "ex_check E u = None"
    "a \<in> set (ex_actions E u)" "ex_transition E u a = Inr t" by (auto simp: follow_snoc)
  have "known R P u (B (length p))"
    by (rule snoc.IH [OF u(1)]) (rule snoc.prems(2), auto)
  then obtain s' d' p' where n: "(s', d', p') \<in> P" "state_fingerprint R s' = state_fingerprint R u"
    "B (length p) d'" by (auto simp: known_def)
  have ok: "visited_ok near R E P (set (mc_violations r)) (s', d', p')" "int d' \<le> mc_max_depth r"
    using inv n(1) by (auto simp: search_inv_def)
  have "int d' < ex_max_depth E" using snoc.prems(2) [of "length p" d'] n(3) ok(2) by simp
  moreover have same: "ex_check E s' = None" "a \<in> set (ex_actions E s')"
    using fingerprints_respectD(1,2) [OF fp n(2)] u(2,3) by simp_all
  moreover obtain t' where t': "ex_transition E s' a = Inr t'"
    "state_fingerprint R t' = state_fingerprint R t"
    using fingerprints_respectD(4) [OF fp n(2) [symmetric] u(4)] by auto
  ultimately have "known R P t' (near d')" using ok(1) by (simp add: visited_ok_def)
  then show ?case using t'(2) B(2) [OF n(3)] by (auto simp: known_def)
qed

lemma violation_matched:
  assumes inv: "search_inv near R E s0 P [] seen r" and fp: "fingerprints_respect R E"
    and known: "known R P t D" and chk: "ex_check E t = Some msg"
  shows "\<exists>v \<in> set (mc_violations r). vi_message v = msg \<and> D (vi_depth v)"
proof -
  from known obtain s' d' p' where n: "(s', d', p') \<in> P"
    "state_fingerprint R s' = state_fingerprint R t" "D d'" by (auto simp: known_def)
  have "ex_check E s' = Some msg" using fingerprints_respectD(1) [OF fp n(2)] chk by simp
  moreover have "visited_ok near R E P (set (mc_violations r)) (s', d', p')"
    using inv n(1) by (auto simp: search_inv_def)
  ultimately have "\<lparr>vi_depth = d', vi_message = msg, vi_path = p'\<rparr> \<in> set (mc_violations r)"
    by (simp add: visited_ok_def)
  then show ?thesis using n(3) by force
qed

section \<open>Search strategies\<close>

text \<open>
  What the loop needs of the order in which actions are tried and nodes are taken out: nothing is
  lost, and every node in sight of the one that is taken out lies at a depth \<open>near\<close> allows.
\<close>

locale search_strategy =
  fixes order :: "string list \<Rightarrow> string list"
    and push :: "node list \<Rightarrow> node list \<Rightarrow> node list"
    and near :: "nat \<Rightarrow> nat \<Rightarrow> bool"
    and ordered :: "node set \<Rightarrow> node list \<Rightarrow> bool"
  assumes set_order: "set (order as) = set as"
    and set_push: "set (push q cs) = set q \<union> set cs"
    and near_next: "near d (d + 1)"
    and ordered_start: "ordered {} [(s, 0, [])]"
    and ordered_near: "ordered P (n # q) \<Longrightarrow> m \<in> P \<union> set (n # q) \<Longrightarrow> near (fst (snd n)) (fst (snd m))"
    and ordered_push: "ordered P (n # q) \<Longrightarrow> \<forall>c \<in> set cs. fst (snd c) = fst (snd n) + 1 \<Longrightarrow>
      ordered (insert n P) (push q cs)"
begin

lemma loop_inv:
  assumes "search_inv near R E s0 P q seen r" "ordered P q"
  shows "\<exists>P' q' seen'. search_inv near R E s0 P' q' seen' (explore_loop order push R E q seen r)
    \<and> (q' = [] \<or> ex_max_states E \<le> mc_visited (explore_loop order push R E q seen r))"
  using assms
proof (induction "nat (ex_max_states E - mc_visited r)" arbitrary: P q seen r rule: less_induct)
  case less
  show ?case
  proof (cases "q = [] \<or> ex_max_states E \<le> mc_visited r")
    case True
    then have "explore_loop order push R E q seen r = r" by (cases q) auto
    with less.prems(1) True show ?thesis by metis
  next
    case False
    then obtain n q1 where q: "q = n # q1" and lt: "mc_visited r < ex_max_states E" by (cases q) auto
    obtain cs seen' r' where v: "visit order R E n seen r = (cs, seen', r')" by (metis prod_cases3)
    obtain s d p where n: "n = (s, d, p)" by (cases n)
    note vs = visit_spec [OF v [unfolded n] set_order]
    have inv: "search_inv near R E s0 (insert n P) (push q1 cs) seen' r'"
      using less.prems(1) less.prems(2) ordered_near [of P n q1] near_next set_push
      by (intro search_inv_visit [OF _ v set_order]) (auto simp: q)
    have ord: "ordered (insert n P) (push q1 cs)"
      using less.prems(2) vs(2) by (intro ordered_push) (fastforce simp: q n)+
    have "nat (ex_max_states E - mc_visited r') < nat (ex_max_states E - mc_visited r)"
      using lt vs(6) by simp
    from less.hyps [OF this inv ord] lt show ?thesis by (simp add: q v)
  qed
qed

definition search :: "runtime \<Rightarrow> explorer \<Rightarrow> pydict \<Rightarrow> mc_result" where
  "search R E s0 = explore_loop order push R E [(s0, 0, [])] {state_fingerprint R s0} no_findings"

lemma search_sound: "v \<in> set (mc_violations (search R E s0)) \<Longrightarrow> genuine E s0 v"
  using loop_inv [OF search_inv_start ordered_start, of R E s0]
  unfolding search_def [symmetric] by (auto simp: search_inv_def)

lemma search_exhausted:
  assumes "mc_visited (search R E s0) < ex_max_states E"
  shows "\<exists>P seen. search_inv near R E s0 P [] seen (search R E s0)"
  using loop_inv [OF search_inv_start ordered_start, of R E s0] assms
  unfolding search_def [symmetric] by auto

lemma search_complete:
  assumes "fingerprints_respect R E" "mc_visited (search R E s0) < ex_max_states E"
    "B 0 0" "\<And>k d d'. B k d \<Longrightarrow> near d d' \<Longrightarrow> B (Suc k) d'"
    "\<And>k d. k < length p \<Longrightarrow> B k d \<Longrightarrow> int d \<le> mc_max_depth (search R E s0) \<Longrightarrow> int d < ex_max_depth E"
    "follow E s0 p = Some t" "ex_check E t = Some msg"
  shows "\<exists>v \<in> set (mc_violations (search R E s0)). vi_message v = msg \<and> B (length p) (vi_depth v)"
proof -
  from search_exhausted [OF assms(2)] obtain P seen where
    inv: "search_inv near R E s0 P [] seen (search R E s0)" by blast
  have "known R P t (B (length p))"
    by (rule path_matched [OF inv assms(1), where B = B and p = p]) (use assms in auto)
  then show ?thesis by (rule violation_matched [OF inv assms(1) _ assms(7)])
qed

end

text \<open>In the queue the depths never fall, and differ by at most one.\<close>

definition bfs_ordered :: "node set \<Rightarrow> node list \<Rightarrow> bool" where
  "bfs_ordered P q \<longleftrightarrow> sorted (map (\<lambda>n. fst (snd n)) q) \<and>
     (\<forall>m \<in> set q. fst (snd m) \<le> fst (snd (hd q)) + 1 \<and> (\<forall>n \<in> P. fst (snd n) \<le> fst (snd m)))"

lemma bfs_ordered_push:
  assumes "bfs_ordered P (n # q)" "\<forall>c \<in> set cs. fst (snd c) = fst (snd n) + 1"
  shows "bfs_ordered (insert n P) (q @ cs)"
proof -
  from assms have q: "sorted (map (\<lambda>n. fst (snd n)) q)"
    "\<And>m. m \<in> set q \<Longrightarrow> fst (snd n) \<le> fst (snd m) \<and> fst (snd m) \<le> fst (snd n) + 1"
    "\<And>m k. m \<in> set (n # q) \<Longrightarrow> k \<in> P \<Longrightarrow> fst (snd k) \<le> fst (snd m)"
    by (auto simp: bfs_ordered_def)
  have cs: "sorted (map (\<lambda>n. fst (snd n)) cs)"
    using assms(2) by (induction cs) auto
  have "sorted (map (\<lambda>n. fst (snd n)) (q @ cs))"
    using q(1,2) cs assms(2) by (auto simp: sorted_append)
  moreover have "fst (snd m) \<le> fst (snd (hd (q @ cs))) + 1" if "m \<in> set (q @ cs)" for m
  proof -
    have "hd (q @ cs) \<in> set (q @ cs)" using that by (intro hd_in_set) auto
    then have "fst (snd n) \<le> fst (snd (hd (q @ cs)))" using q(2) assms(2) by fastforce
    moreover have "fst (snd m) \<le> fst (snd n) + 1"
      using that q(2) [of m] assms(2) by (cases "m \<in> set q") auto
    ultimately show ?thesis by simp
  qed
  moreover have "fst (snd k) \<le> fst (snd m)" if "m \<in> set (q @ cs)" "k \<in> insert n P" for m k
  proof -
    have "fst (snd k) \<le> fst (snd n)" using that(2) q(3) [of n k] by auto
    moreover have "fst (snd n) \<le> fst (snd m)"
      using that(1) q(2) [of m] assms(2) by (cases "m \<in> set q") auto
    ultimately show ?thesis by simp
  qed
  ultimately show ?thesis by (auto simp: bfs_ordered_def)
qed

interpretation bfs: search_strategy "\<lambda>as. as" "\<lambda>q cs. q @ cs" "\<lambda>d d'. d' \<le> d + 1" bfs_ordered
proof unfold_locales
  show "bfs_ordered P (n # q) \<Longrightarrow> m \<in> P \<union> set (n # q) \<Longrightarrow> fst (snd m) \<le> fst (snd n) + 1" for P n q m
    by (auto simp: bfs_ordered_def le_SucI)
qed (auto simp: bfs_ordered_def [of "{}"] simp del: One_nat_def intro!: bfs_ordered_push)

interpretation dfs: search_strategy rev "\<lambda>q cs. rev cs @ q" "\<lambda>d d'. True" "\<lambda>P q. True"
  by unfold_locales auto

lemma bfs_search: "bfs.search R E s0 = explore_bfs R E s0"
  by (simp add: bfs.search_def explore_bfs_def)

lemma dfs_search: "dfs.search R E s0 = explore_dfs R E s0"
  by (simp add: dfs.search_def explore_dfs_def)

section \<open>Minimised paths\<close>

declare minimize_path.simps [simp del]

lemma subseq_remove: "i < length xs \<Longrightarrow> subseq (take i xs @ drop (i + 1) xs) xs"
  by (metis Cons_nth_drop_Suc Suc_eq_plus1 append_take_drop_id subseq_append_iff list_emb_append_mono
      subseq_Cons' subseq_order.refl)

lemma minimize_subseq: "subseq (minimize_path E s p) p"
proof (induction E s p rule: minimize_path.induct)
  case (1 E s p)
  show ?case
  proof (cases "first_removal E s p [0..<length p]")
    case None
    then show ?thesis by (subst minimize_path.simps) simp
  next
    case (Some c)
    then have "subseq c p" by (auto dest!: first_removal_Some intro: subseq_remove [simplified])
    with 1 [OF Some] Some show ?thesis
      by (subst minimize_path.simps) (auto intro: subseq_order.trans)
  qed
qed

lemma minimize_triggers: "triggers_violation E s p \<Longrightarrow> triggers_violation E s (minimize_path E s p)"
proof (induction E s p rule: minimize_path.induct)
  case (1 E s p)
  show ?case
  proof (cases "first_removal E s p [0..<length p]")
    case None
    with 1 show ?thesis by (subst minimize_path.simps) simp
  next
    case (Some c)
    from first_removal_Some [OF Some] 1(1) [OF Some] Some show ?thesis
      by (subst minimize_path.simps) simp
  qed
qed

lemma minimize_minimal:
  "i < length (minimize_path E s p) \<Longrightarrow>
     \<not> triggers_violation E s (take i (minimize_path E s p) @ drop (i + 1) (minimize_path E s p))"
proof (induction E s p rule: minimize_path.induct)
  case (1 E s p)
  show ?case
  proof (cases "first_removal E s p [0..<length p]")
    case None
    then have "minimize_path E s p = p" by (subst minimize_path.simps) simp
    with None 1(2) show ?thesis by (simp add: first_removal_None)
  next
    case (Some c)
    then have "minimize_path E s p = minimize_path E s c" by (subst minimize_path.simps) simp
    with 1(1) [OF Some] 1(2) show ?thesis by simp
  qed
qed

lemma replay_triggers: "fst (replay_path E s p) \<noteq> None \<longleftrightarrow> triggers_violation E s p"
  by (induction E s p rule: replay_path.induct) (auto split: sum.splits option.splits)

section \<open>A system to explore\<close>

text \<open>States are numbers. From 0 two ways lead to 4, and only one is short enough to go on to 5, which
  violates the invariant; a depth bound of 3 separates them.\<close>

definition demo_num :: "pydict \<Rightarrow> nat" where
  "demo_num s = (case s of [(k, PInt i)] \<Rightarrow> nat i | _ \<Rightarrow> 0)"

definition demo_state :: "int \<Rightarrow> pydict" where
  "demo_state i = [(PStr ''n'', PInt i)]"

definition demo_runtime :: runtime where
  "demo_runtime = toy_runtime\<lparr>rt_dumps := (\<lambda>a v. case v of PDict s \<Rightarrow> replicate (demo_num s) (CHR ''x'') | _ \<Rightarrow> [])\<rparr>"

definition demo_explorer :: "int \<Rightarrow> explorer" where
  "demo_explorer bound = \<lparr>
     ex_actions = (\<lambda>s. if demo_num s = 0 then [''a'', ''b''] else [''c'']),
     ex_transition = (\<lambda>s a.
        if demo_num s = 0 then Inr (demo_state (if a = ''a'' then 1 else 2))
        else if demo_num s = 1 then Inr (demo_state 3)
        else if demo_num s = 2 \<or> demo_num s = 3 then Inr (demo_state 4)
        else if demo_num s = 4 then Inr (demo_state 5) else Inl ''stuck''),
     ex_check = (\<lambda>s. if demo_num s = 5 then Some ''five'' else None),
     ex_max_states = 100, ex_max_depth = bound\<rparr>"

lemma demo_respects: "fingerprints_respect demo_runtime (demo_explorer bound)"
  by (auto simp: fingerprints_respect_def state_fingerprint_def demo_runtime_def demo_explorer_def
      replicate_eq_replicate split: if_splits)

section \<open>Properties\<close>

text \<open>C10: Breadth-first exploration finds every violation within its depth bound. When it ends with the
  state budget not used up, every state that breaks the invariant and can be reached by a path of
  enabled actions of at most the depth bound is reported with its message, at a depth not greater
  than the length of that path, provided that states with the same fingerprint behave alike.\<close>

theorem bfs_finds_every_violation:
  assumes "fingerprints_respect R E" "mc_visited (explore_bfs R E s0) < ex_max_states E"
    "follow E s0 p = Some t" "ex_check E t = Some msg" "int (length p) \<le> ex_max_depth E"
  shows "\<exists>v \<in> set (mc_violations (explore_bfs R E s0)). vi_message v = msg \<and> vi_depth v \<le> length p"
  using bfs.search_complete [of R E s0 "\<lambda>k d. d \<le> k" p t msg] assms unfolding bfs_search by force

theorem bfs_finds_every_violation_witness:
  "\<exists>v \<in> set (mc_violations (explore_bfs demo_runtime (demo_explorer 3) (demo_state 0))).
     vi_message v = ''five'' \<and> vi_depth v \<le> length [''b'', ''c'', ''c'']"
proof (rule bfs_finds_every_violation [OF demo_respects])
  show "mc_visited (explore_bfs demo_runtime (demo_explorer 3) (demo_state 0)) < ex_max_states (demo_explorer 3)"
    by code_simp
  show "follow (demo_explorer 3) (demo_state 0) [''b'', ''c'', ''c''] = Some (demo_state 5)" by code_simp
  show "ex_check (demo_explorer 3) (demo_state 5) = Some ''five''" by code_simp
  show "int (length [''b'', ''c'', ''c'']) \<le> ex_max_depth (demo_explorer 3)" by code_simp
qed

text \<open>Whatever the explorers report is genuine: the path of every violation is as long as its depth
  says and leads from the initial state, by enabled actions through states that satisfy the
  invariant, to a state that breaks it with the reported message or to a transition that raised.\<close>

theorem explorers_report_genuine:
  assumes "v \<in> set (mc_violations (explore_bfs R E s0)) \<union> set (mc_violations (explore_dfs R E s0))"
  shows "genuine E s0 v"
  using assms bfs.search_sound [of v R E s0] dfs.search_sound [of v R E s0]
  by (auto simp: bfs_search dfs_search)

theorem explorers_report_genuine_witness:
  "genuine (demo_explorer 3) (demo_state 0) \<lparr>vi_depth = 3, vi_message = ''five'', vi_path = [''b'', ''c'', ''c'']\<rparr>"
  by (rule explorers_report_genuine [of _ demo_runtime]) code_simp

text \<open>Depth-first exploration marks a state as seen at the depth where it first meets it and does not
  return to it on a shorter path. It finds every reachable violation when no node reached the depth
  bound; otherwise it can end without findings where breadth-first exploration, with the same bounds,
  reports a violation.\<close>

theorem dfs_finds_violations_unless_cut:
  assumes "fingerprints_respect R E" "mc_visited (explore_dfs R E s0) < ex_max_states E"
    "mc_max_depth (explore_dfs R E s0) < ex_max_depth E"
    "follow E s0 p = Some t" "ex_check E t = Some msg"
  shows "\<exists>v \<in> set (mc_violations (explore_dfs R E s0)). vi_message v = msg"
  using dfs.search_complete [of R E s0 "\<lambda>k d. True" p t msg] assms unfolding dfs_search by force

theorem dfs_finds_violations_unless_cut_witness:
  "\<exists>v \<in> set (mc_violations (explore_dfs demo_runtime (demo_explorer 9) (demo_state 0))). vi_message v = ''five''"
proof (rule dfs_finds_violations_unless_cut [OF demo_respects])
  show "mc_visited (explore_dfs demo_runtime (demo_explorer 9) (demo_state 0)) < ex_max_states (demo_explorer 9)"
    by code_simp
  show "mc_max_depth (explore_dfs demo_runtime (demo_explorer 9) (demo_state 0)) < ex_max_depth (demo_explorer 9)"
    by code_simp
  show "follow (demo_explorer 9) (demo_state 0) [''b'', ''c'', ''c''] = Some (demo_state 5)"
    by code_simp
  show "ex_check (demo_explorer 9) (demo_state 5) = Some ''five''" by code_simp
qed

lemma dfs_misses_a_violation:
  "mc_visited (explore_dfs demo_runtime (demo_explorer 3) (demo_state 0)) < ex_max_states (demo_explorer 3)"
  "mc_violations (explore_dfs demo_runtime (demo_explorer 3) (demo_state 0)) = []"
  "mc_violations (explore_bfs demo_runtime (demo_explorer 3) (demo_state 0)) \<noteq> []"
  by code_simp+

text \<open>Minimising a path that triggers a violation gives a subsequence that still triggers one, that
  no further removal of a single action leaves triggering, and whose report names a violation.\<close>

theorem minimized_path_is_minimal:
  assumes "triggers_violation E s p" and m: "m = cx_minimized_path (generate_counterexample E s p)"
  shows "subseq m p \<and> triggers_violation E s m
    \<and> (\<forall>i < length m. \<not> triggers_violation E s (take i m @ drop (i + 1) m))
    \<and> cx_violation_message (generate_counterexample E s p) \<noteq> None"
proof -
  have "m = minimize_path E s p"
    by (simp add: m generate_counterexample_def Let_def split: prod.splits)
  with assms(1) show ?thesis
    using minimize_subseq [of E s p] minimize_triggers [of E s p] minimize_minimal [of _ E s p]
      replay_triggers [of E s "minimize_path E s p"]
    by (auto simp: generate_counterexample_def Let_def split: prod.splits)
qed

theorem minimized_path_is_minimal_witness:
  "subseq [''c'', ''c'', ''c''] [''b'', ''c'', ''c'', ''c'']
   \<and> \<not> triggers_violation (demo_explorer 3) (demo_state 0) [''c'', ''c'']"
proof -
  have m: "[''c'', ''c'', ''c'']
      = cx_minimized_path (generate_counterexample (demo_explorer 3) (demo_state 0) [''b'', ''c'', ''c'', ''c''])"
    by code_simp
  have t: "triggers_violation (demo_explorer 3) (demo_state 0) [''b'', ''c'', ''c'', ''c'']" by code_simp
  note x = minimized_path_is_minimal [OF t m]
  from x have "\<not> triggers_violation (demo_explorer 3) (demo_state 0)
      (take 0 [''c'', ''c'', ''c''] @ drop (0 + 1) [''c'', ''c'', ''c''])" by blast
  with x show ?thesis by (simp only: take_0 append_Nil drop_Suc_Cons drop_0 add_0 One_nat_def) blast
qed

text \<open>The removals do not ask which actions are enabled: the minimised path need not be one.\<close>

lemma minimized_path_not_enabled:
  "follow (demo_explorer 3) (demo_state 0) [''a'', ''c'', ''c'', ''c''] \<noteq> None"
  "follow (demo_explorer 3) (demo_state 0)
     (cx_minimized_path (generate_counterexample (demo_explorer 3) (demo_state 0) [''a'', ''c'', ''c'', ''c'']))
     = None"
  by code_simp+

end
