(* ===== verification/Effects.thy ===== *)
theory Effects
  imports Prelude
begin

text \<open>
  Computations with a mutable state and exceptions, for the components outside the kernel that call
  back into agents, clocks and stores: the state is returned also when an exception is raised. The
  triple \<open>triple P m Q\<close> speaks about the runs that return; what the code leaves behind when it raises is
  stated on the pair itself where it matters.
\<close>

type_synonym ('s, 'e, 'a) eff = "'s \<Rightarrow> ('e + 'a) \<times> 's"

definition sret :: "'a \<Rightarrow> ('s, 'e, 'a) eff" where
  "sret x = (\<lambda>s. (Inr x, s))"

definition sraise :: "'e \<Rightarrow> ('s, 'e, 'a) eff" where
  "sraise e = (\<lambda>s. (Inl e, s))"

definition sbind :: "('s, 'e, 'a) eff \<Rightarrow> ('a \<Rightarrow> ('s, 'e, 'b) eff) \<Rightarrow> ('s, 'e, 'b) eff" where
  "sbind m f = (\<lambda>s. case m s of (Inl e, s') \<Rightarrow> (Inl e, s') | (Inr x, s') \<Rightarrow> f x s')"

definition sread :: "('s \<Rightarrow> 'a) \<Rightarrow> ('s, 'e, 'a) eff" where
  "sread f = (\<lambda>s. (Inr (f s), s))"

definition supdate :: "('s \<Rightarrow> 's) \<Rightarrow> ('s, 'e, unit) eff" where
  "supdate f = (\<lambda>s. (Inr (), f s))"

text \<open>A Python loop over a list whose body returns a value; the values are collected.\<close>

fun smap :: "('x \<Rightarrow> ('s, 'e, 'a) eff) \<Rightarrow> 'x list \<Rightarrow> ('s, 'e, 'a list) eff" where
  "smap f [] = sret []"
| "smap f (x # xs) = sbind (f x) (\<lambda>y. sbind (smap f xs) (\<lambda>ys. sret (y # ys)))"

named_theorems eff_simps "evaluation of the combinators on a state"

lemma sret_apply [eff_simps]: "sret x s = (Inr x, s)"
  by (simp add: sret_def)

lemma sraise_apply [eff_simps]: "sraise e s = (Inl e, s)"
  by (simp add: sraise_def)

lemma sread_apply [eff_simps]: "sread f s = (Inr (f s), s)"
  by (simp add: sread_def)

lemma supdate_apply [eff_simps]: "supdate f s = (Inr (), f s)"
  by (simp add: supdate_def)

lemma sbind_Inr [eff_simps]: "m s = (Inr x, s') \<Longrightarrow> sbind m f s = f x s'"
  by (simp add: sbind_def)

lemma sbind_Inl [eff_simps]: "m s = (Inl e, s') \<Longrightarrow> sbind m f s = (Inl e, s')"
  by (simp add: sbind_def)

lemma sbind_returns:
  "sbind m f s = (Inr y, s'') \<longleftrightarrow> (\<exists>x s'. m s = (Inr x, s') \<and> f x s' = (Inr y, s''))"
  by (auto simp: sbind_def split: prod.splits sum.splits)

section \<open>Triples\<close>

definition triple :: "('s \<Rightarrow> bool) \<Rightarrow> ('s, 'e, 'a) eff \<Rightarrow> ('a \<Rightarrow> 's \<Rightarrow> bool) \<Rightarrow> bool" where
  "triple P m Q \<longleftrightarrow> (\<forall>s x s'. P s \<longrightarrow> m s = (Inr x, s') \<longrightarrow> Q x s')"

lemma tripleI: "(\<And>s x s'. P s \<Longrightarrow> m s = (Inr x, s') \<Longrightarrow> Q x s') \<Longrightarrow> triple P m Q"
  by (auto simp: triple_def)

lemma tripleD: "triple P m Q \<Longrightarrow> P s \<Longrightarrow> m s = (Inr x, s') \<Longrightarrow> Q x s'"
  by (auto simp: triple_def)

lemma triple_sbind: "triple P m Q \<Longrightarrow> (\<And>x. triple (Q x) (f x) T) \<Longrightarrow> triple P (sbind m f) T"
  by (auto simp: triple_def sbind_returns)

lemma triple_sret: "(\<And>s. P s \<Longrightarrow> Q x s) \<Longrightarrow> triple P (sret x) Q"
  by (auto simp: triple_def sret_def)

lemma triple_supdate: "(\<And>s. P s \<Longrightarrow> Q () (f s)) \<Longrightarrow> triple P (supdate f) Q"
  by (auto simp: triple_def supdate_def)

lemma triple_sread: "(\<And>s. P s \<Longrightarrow> Q (f s) s) \<Longrightarrow> triple P (sread f) Q"
  by (auto simp: triple_def sread_def)

lemma triple_conseq:
  "triple P' m Q' \<Longrightarrow> (\<And>s. P s \<Longrightarrow> P' s) \<Longrightarrow> (\<And>x s. Q' x s \<Longrightarrow> Q x s) \<Longrightarrow> triple P m Q"
  unfolding triple_def by blast

lemma triple_pure: "(F \<Longrightarrow> triple P m Q) \<Longrightarrow> triple (\<lambda>s. F \<and> P s) m Q"
  by (auto simp: triple_def)

text \<open>A loop whose body keeps \<open>I\<close> and relates each item to its value by \<open>V\<close>.\<close>

lemma triple_smap:
  assumes "\<And>x. x \<in> set xs \<Longrightarrow> triple I (f x) (\<lambda>y s. V x y \<and> I s)"
  shows "triple I (smap f xs) (\<lambda>ys s. list_all2 V xs ys \<and> I s)"
  using assms
proof (induction xs)
  case Nil
  then show ?case by (auto intro: triple_sret)
next
  case (Cons x xs)
  have body: "triple I (f x) (\<lambda>y s. V x y \<and> I s)" using Cons.prems by simp
  have rest: "triple I (smap f xs) (\<lambda>ys s. list_all2 V xs ys \<and> I s)" using Cons by simp
  show ?case
  proof (rule tripleI)
    fix s zs s3
    assume I: "I s" and run: "smap f (x # xs) s = (Inr zs, s3)"
    from run obtain y s1 where y: "f x s = (Inr y, s1)"
      and r: "sbind (smap f xs) (\<lambda>ys. sret (y # ys)) s1 = (Inr zs, s3)"
      by (auto simp: sbind_returns)
    from r obtain ys where ys: "smap f xs s1 = (Inr ys, s3)" "zs = y # ys"
      by (auto simp: sbind_returns sret_def)
    from tripleD [OF body I y] have "V x y" "I s1" by auto
    with tripleD [OF rest _ ys(1)] show "list_all2 V (x # xs) zs \<and> I s3" by (simp add: ys(2))
  qed
qed

section \<open>Computations that never raise\<close>

definition returns :: "('s, 'e, 'a) eff \<Rightarrow> bool" where
  "returns m \<longleftrightarrow> (\<forall>s. \<exists>x s'. m s = (Inr x, s'))"

named_theorems returning "computations that never raise"

lemma returns_sbind [returning]: "returns m \<Longrightarrow> (\<And>x. returns (f x)) \<Longrightarrow> returns (sbind m f)"
  by (auto simp: returns_def sbind_returns) metis

lemma returns_sret [returning]: "returns (sret x)"
  by (simp add: returns_def sret_def)

lemma returns_sread [returning]: "returns (sread f)"
  by (simp add: returns_def sread_def)

lemma returns_supdate [returning]: "returns (supdate f)"
  by (simp add: returns_def supdate_def)

lemma returns_smap [returning]: "(\<And>x. returns (f x)) \<Longrightarrow> returns (smap f xs)"
  by (induction xs) (auto intro: returning)

lemma returns_obtain: "returns m \<Longrightarrow> (\<And>x s'. m s = (Inr x, s') \<Longrightarrow> thesis) \<Longrightarrow> thesis"
  unfolding returns_def by blast

end
