(* ===== verification/Swarm.thy ===== *)
theory Swarm
  imports Effects Py_Value
begin

text \<open>
  The multi-agent swarm, \<open>rfsn_kernel/swarm\<close>: the roles, the messages, and the coordinator, which lets
  an architect split a task, a coder propose patches and a reviewer judge them, with a bounded number
  of revisions. The three agents and the ledger are callbacks on a state \<open>'w\<close> of their own and may
  raise; the coordinator keeps no state but the log of the run.
\<close>

section \<open>Roles\<close>

record agent_role =
  ro_name :: string
  ro_persona :: string
  ro_allowed_actions :: "string set"
  ro_temperature :: rat
  ro_max_tokens :: int

definition can_do :: "agent_role \<Rightarrow> string \<Rightarrow> bool" where
  "can_do r action \<longleftrightarrow> action \<in> ro_allowed_actions r"

datatype role_error = PermissionError string string

definition enforce :: "agent_role \<Rightarrow> string \<Rightarrow> role_error + unit" where
  "enforce r action = (if can_do r action then Inr () else Inl (PermissionError (ro_name r) action))"

definition ARCHITECT :: agent_role where
  "ARCHITECT = \<lparr>ro_name = ''architect'',
     ro_persona =
       ''You are the Architect. Your job is to analyze the task, '' @
       ''understand the codebase structure, and decompose the work into '' @
       ''clear, actionable subtasks. You decide WHAT to do and WHERE, '' @
       ''but you never write code yourself. Output a structured plan '' @
       ''with acceptance criteria for each subtask.'',
     ro_allowed_actions = {''read_file'', ''search'', ''list_dir'', ''plan'', ''generate_repo_map'', ''analyze''},
     ro_temperature = 1 / 5, ro_max_tokens = 4096\<rparr>"

definition CODER :: agent_role where
  "CODER = \<lparr>ro_name = ''coder'',
     ro_persona =
       ''You are the Coder. You receive subtasks from the Architect and '' @
       ''implement them precisely. Write clean, minimal patches that '' @
       ''satisfy the acceptance criteria. You can read files for context '' @
       ''and run commands to test, but defer all planning decisions to '' @
       ''the Architect and all review to QA.'',
     ro_allowed_actions = {''read_file'', ''write_file'', ''apply_patch'', ''run_command'', ''search''},
     ro_temperature = 3 / 10, ro_max_tokens = 4096\<rparr>"

definition QA :: agent_role where
  "QA = \<lparr>ro_name = ''qa'',
     ro_persona =
       ''You are QA. You review patches from the Coder with a critical eye. '' @
       ''Check for correctness, edge cases, security issues, and style. '' @
       ''Run tests to verify behavior. You MUST issue a clear verdict: '' @
       ''APPROVE (ready to commit), REQUEST_CHANGES (specific feedback), '' @
       ''or REJECT (fundamental flaw requiring re-planning).'',
     ro_allowed_actions = {''read_file'', ''run_tests'', ''run_command'', ''critique'', ''search''},
     ro_temperature = 1 / 10, ro_max_tokens = 4096\<rparr>"

section \<open>Messages\<close>

datatype verdict = APPROVE | REQUEST_CHANGES | REJECT

fun verdict_value :: "verdict \<Rightarrow> string" where
  "verdict_value APPROVE = ''APPROVE''"
| "verdict_value REQUEST_CHANGES = ''REQUEST_CHANGES''"
| "verdict_value REJECT = ''REJECT''"

record subtask =
  su_description :: string
  su_target_files :: "string list"
  su_acceptance_criteria :: string
  su_priority :: int

record task_decomposition =
  td_analysis :: string
  td_subtasks :: "subtask list"
  td_strategy :: string
  td_timestamp :: rat

record patch_proposal =
  pp_subtask_index :: int
  pp_diff :: string
  pp_reasoning :: string
  pp_files_modified :: "string list"
  pp_timestamp :: rat

record review_verdict =
  rv_verdict :: verdict
  rv_comments :: string
  rv_issues :: "string list"
  rv_tests_passed :: "bool option"
  rv_timestamp :: rat

record revision_request =
  rq_original_patch :: patch_proposal
  rq_qa_feedback :: string
  rq_issues_to_fix :: "string list"
  rq_revision_number :: int
  rq_timestamp :: rat

definition str_list :: "string list \<Rightarrow> pyval" where
  "str_list xs = PList (map PStr xs)"

definition subtask_dict :: "subtask \<Rightarrow> pydict" where
  "subtask_dict s =
     [(PStr ''description'', PStr (su_description s)), (PStr ''target_files'', str_list (su_target_files s)),
      (PStr ''acceptance_criteria'', PStr (su_acceptance_criteria s)), (PStr ''priority'', PInt (su_priority s))]"

definition decomposition_dict :: "task_decomposition \<Rightarrow> pydict" where
  "decomposition_dict d =
     [(PStr ''analysis'', PStr (td_analysis d)),
      (PStr ''subtasks'', PList (map (\<lambda>s. PDict (subtask_dict s)) (td_subtasks d))),
      (PStr ''strategy'', PStr (td_strategy d)), (PStr ''timestamp'', PFloat (td_timestamp d))]"

definition patch_dict :: "patch_proposal \<Rightarrow> pydict" where
  "patch_dict p =
     [(PStr ''subtask_index'', PInt (pp_subtask_index p)), (PStr ''diff'', PStr (pp_diff p)),
      (PStr ''reasoning'', PStr (pp_reasoning p)), (PStr ''files_modified'', str_list (pp_files_modified p)),
      (PStr ''timestamp'', PFloat (pp_timestamp p))]"

text \<open>Both \<open>fingerprint\<close> methods.\<close>

definition dict_fingerprint :: "runtime \<Rightarrow> pydict \<Rightarrow> string" where
  "dict_fingerprint R d = take 16 (rt_sha256 R (rt_dumps R True (PDict d)))"

definition decomposition_fingerprint :: "runtime \<Rightarrow> task_decomposition \<Rightarrow> string" where
  "decomposition_fingerprint R d = dict_fingerprint R (decomposition_dict d)"

definition patch_fingerprint :: "runtime \<Rightarrow> patch_proposal \<Rightarrow> string" where
  "patch_fingerprint R p = dict_fingerprint R (patch_dict p)"

definition review_dict :: "review_verdict \<Rightarrow> pydict" where
  "review_dict v =
     [(PStr ''verdict'', PStr (verdict_value (rv_verdict v))), (PStr ''comments'', PStr (rv_comments v)),
      (PStr ''issues'', str_list (rv_issues v)),
      (PStr ''tests_passed'', case rv_tests_passed v of None \<Rightarrow> PNone | Some b \<Rightarrow> PBool b),
      (PStr ''timestamp'', PFloat (rv_timestamp v))]"

definition request_dict :: "runtime \<Rightarrow> revision_request \<Rightarrow> pydict" where
  "request_dict R q =
     [(PStr ''original_patch_fingerprint'', PStr (patch_fingerprint R (rq_original_patch q))),
      (PStr ''qa_feedback'', PStr (rq_qa_feedback q)), (PStr ''issues_to_fix'', str_list (rq_issues_to_fix q)),
      (PStr ''revision_number'', PInt (rq_revision_number q)), (PStr ''timestamp'', PFloat (rq_timestamp q))]"

section \<open>Results\<close>

record subtask_result =
  sr_subtask :: subtask
  sr_final_patch :: "patch_proposal option"
  sr_final_verdict :: "review_verdict option"
  sr_revisions :: int
  sr_status :: string

record swarm_result =
  sw_task :: string
  sw_decomposition :: "task_decomposition option"
  sw_subtask_results :: "subtask_result list"
  sw_status :: string
  sw_total_revisions :: int
  sw_elapsed :: rat
  sw_ledger_entries :: "pydict list"

definition approved_patches :: "swarm_result \<Rightarrow> patch_proposal list" where
  "approved_patches r = concat (map (\<lambda>s. case sr_final_patch s of None \<Rightarrow> [] | Some p \<Rightarrow> [p])
     (filter (\<lambda>s. sr_status s = ''approved'') (sw_subtask_results r)))"

text \<open>\<open>SwarmResult.to_dict\<close> rounds the elapsed time to three decimals.\<close>

definition round3 :: "rat \<Rightarrow> rat" where
  "round3 x = of_int (round_half_even (x * 1000)) / 1000"

definition swarm_dict :: "swarm_result \<Rightarrow> pydict" where
  "swarm_dict r =
     [(PStr ''task'', PStr (sw_task r)), (PStr ''status'', PStr (sw_status r)),
      (PStr ''total_revisions'', PInt (sw_total_revisions r)), (PStr ''elapsed'', PFloat (round3 (sw_elapsed r))),
      (PStr ''subtasks'', PList (map (\<lambda>s. PDict
         [(PStr ''description'', PStr (su_description (sr_subtask s))), (PStr ''status'', PStr (sr_status s)),
          (PStr ''revisions'', PInt (sr_revisions s))]) (sw_subtask_results r)))]"

section \<open>The coordinator\<close>

record 'w coordinator =
  co_architect :: "string \<Rightarrow> string \<Rightarrow> ('w, string, task_decomposition) eff"
  co_coder :: "subtask \<Rightarrow> string \<Rightarrow> revision_request option \<Rightarrow> ('w, string, patch_proposal) eff"
  co_qa :: "subtask \<Rightarrow> patch_proposal \<Rightarrow> ('w, string, review_verdict) eff"
  co_ledger :: "pydict \<Rightarrow> ('w, string, unit) eff"
  co_clock :: "'w \<Rightarrow> rat"
  co_max_revisions :: int

text \<open>A run works on the state of the callbacks and the entries logged so far.\<close>

type_synonym ('w, 'a) swarm = "('w \<times> pydict list, string, 'a) eff"

definition on_world :: "('w, string, 'a) eff \<Rightarrow> ('w, 'a) swarm" where
  "on_world m = (\<lambda>(w, es). case m w of (r, w') \<Rightarrow> (r, (w', es)))"

definition swarm_log :: "'w coordinator \<Rightarrow> pydict \<Rightarrow> ('w, unit) swarm" where
  "swarm_log C entry =
     sbind (sread (\<lambda>(w, es). dput ''timestamp'' (PFloat (co_clock C w)) entry)) (\<lambda>e.
     sbind (on_world (co_ledger C e)) (\<lambda>_.
     supdate (\<lambda>(w, es). (w, es @ [e]))))"

definition proposal_entry :: "runtime \<Rightarrow> nat \<Rightarrow> int \<Rightarrow> patch_proposal \<Rightarrow> pydict" where
  "proposal_entry R idx revision p =
     [(PStr ''type'', PStr ''PATCH_PROPOSAL''), (PStr ''agent'', PStr ''coder''),
      (PStr ''subtask_index'', PInt (int idx)), (PStr ''revision'', PInt revision),
      (PStr ''fingerprint'', PStr (patch_fingerprint R p)), (PStr ''files'', str_list (pp_files_modified p))]"

definition verdict_entry :: "nat \<Rightarrow> int \<Rightarrow> review_verdict \<Rightarrow> pydict" where
  "verdict_entry idx revision v =
     [(PStr ''type'', PStr ''REVIEW_VERDICT''), (PStr ''agent'', PStr ''qa''),
      (PStr ''subtask_index'', PInt (int idx)), (PStr ''verdict'', PStr (verdict_value (rv_verdict v))),
      (PStr ''revision'', PInt revision)]"

definition end_entry :: "string \<Rightarrow> nat \<Rightarrow> string \<Rightarrow> pydict" where
  "end_entry kind idx reason =
     [(PStr ''type'', PStr kind), (PStr ''subtask_index'', PInt (int idx)), (PStr ''reason'', PStr reason)]"

text \<open>The three branches in which \<open>_process_subtask\<close> returns after a verdict.\<close>

definition finish_review :: "'w coordinator \<Rightarrow> nat \<Rightarrow> int \<Rightarrow> review_verdict \<Rightarrow> subtask_result \<Rightarrow>
    ('w, subtask_result) swarm" where
  "finish_review C idx revision v st =
     (case rv_verdict v of
        APPROVE \<Rightarrow> sret (st\<lparr>sr_status := ''approved'', sr_revisions := revision\<rparr>)
      | REJECT \<Rightarrow>
          sbind (swarm_log C (end_entry ''SUBTASK_REJECTED'' idx (rv_comments v))) (\<lambda>_.
          sret (st\<lparr>sr_status := ''rejected'', sr_revisions := revision\<rparr>))
      | REQUEST_CHANGES \<Rightarrow>
          sbind (swarm_log C (end_entry ''SUBTASK_ESCALATED'' idx
             (''Max revisions ('' @ int_str (co_max_revisions C) @ '') exceeded''))) (\<lambda>_.
          sret (st\<lparr>sr_status := ''escalated'', sr_revisions := revision\<rparr>)))"

definition next_request :: "'w coordinator \<Rightarrow> int \<Rightarrow> patch_proposal \<Rightarrow> review_verdict \<Rightarrow>
    ('w, revision_request option) swarm" where
  "next_request C revision p v = sread (\<lambda>(w, es). Some
     \<lparr>rq_original_patch = p, rq_qa_feedback = rv_comments v, rq_issues_to_fix = rv_issues v,
      rq_revision_number = revision + 1, rq_timestamp = co_clock C w\<rparr>)"

text \<open>
  The loop of \<open>_process_subtask\<close> over the revisions that remain; \<open>st\<close> is the result under construction
  and \<open>rq\<close> the revision request of the round before. Only a request for changes before the last
  revision goes round again.
\<close>

fun debate :: "runtime \<Rightarrow> 'w coordinator \<Rightarrow> nat \<Rightarrow> subtask \<Rightarrow> string \<Rightarrow> int list \<Rightarrow>
    revision_request option \<Rightarrow> subtask_result \<Rightarrow> ('w, subtask_result) swarm" where
  "debate R C idx t ctx [] rq st = sret (st\<lparr>sr_status := ''escalated''\<rparr>)"
| "debate R C idx t ctx (revision # revs) rq st =
     sbind (on_world (co_coder C t ctx rq)) (\<lambda>p.
     sbind (swarm_log C (proposal_entry R idx revision p)) (\<lambda>_.
     sbind (on_world (co_qa C t p)) (\<lambda>v.
     sbind (swarm_log C (verdict_entry idx revision v)) (\<lambda>_.
       if rv_verdict v = REQUEST_CHANGES \<and> revision < co_max_revisions C then
         sbind (next_request C revision p v) (\<lambda>rq'.
         debate R C idx t ctx revs rq'
           (st\<lparr>sr_final_patch := Some p, sr_final_verdict := Some v, sr_revisions := revision + 1\<rparr>))
       else finish_review C idx revision v
              (st\<lparr>sr_final_patch := Some p, sr_final_verdict := Some v\<rparr>)))))"

definition process_subtask :: "runtime \<Rightarrow> 'w coordinator \<Rightarrow> string \<Rightarrow> nat \<times> subtask \<Rightarrow> ('w, subtask_result) swarm" where
  "process_subtask R C ctx item =
     (case item of (idx, t) \<Rightarrow>
       debate R C idx t ctx [0..co_max_revisions C] None
         \<lparr>sr_subtask = t, sr_final_patch = None, sr_final_verdict = None, sr_revisions = 0,
          sr_status = ''pending''\<rparr>)"

definition overall_status :: "subtask_result list \<Rightarrow> string" where
  "overall_status rs =
     (let approved = length (filter (\<lambda>r. sr_status r = ''approved'') rs)
      in if approved = length rs then ''completed'' else if 0 < approved then ''partial'' else ''failed'')"

text \<open>The result object collects the entries while they are logged; it is put together at the end.\<close>

definition swarm_result_of :: "string \<Rightarrow> task_decomposition \<Rightarrow> subtask_result list \<Rightarrow> string \<Rightarrow> rat \<Rightarrow>
    ('w, swarm_result) swarm" where
  "swarm_result_of task d rs status elapsed =
     sread (\<lambda>(w, es). \<lparr>sw_task = task, sw_decomposition = Some d, sw_subtask_results = rs,
        sw_status = status, sw_total_revisions = sum_list (map sr_revisions rs), sw_elapsed = elapsed,
        sw_ledger_entries = es\<rparr>)"

definition end_swarm :: "'w coordinator \<Rightarrow> string \<Rightarrow> task_decomposition \<Rightarrow> rat \<Rightarrow> subtask_result list \<Rightarrow>
    ('w, swarm_result) swarm" where
  "end_swarm C task d start rs =
     sbind (sread (\<lambda>(w, es). co_clock C w - start)) (\<lambda>elapsed.
     sbind (swarm_log C [(PStr ''type'', PStr ''SWARM_END''), (PStr ''status'', PStr (overall_status rs)),
        (PStr ''approved'', PInt (int (length (filter (\<lambda>r. sr_status r = ''approved'') rs)))),
        (PStr ''total'', PInt (int (length rs))), (PStr ''elapsed'', PFloat (round3 elapsed))]) (\<lambda>_.
     swarm_result_of task d rs (overall_status rs) elapsed))"

definition end_without_subtasks :: "'w coordinator \<Rightarrow> string \<Rightarrow> task_decomposition \<Rightarrow> rat \<Rightarrow>
    ('w, swarm_result) swarm" where
  "end_without_subtasks C task d start =
     sbind (swarm_log C [(PStr ''type'', PStr ''SWARM_END''), (PStr ''status'', PStr ''failed''),
        (PStr ''reason'', PStr ''no subtasks'')]) (\<lambda>_.
     sbind (sread (\<lambda>(w, es). co_clock C w - start)) (\<lambda>elapsed.
     swarm_result_of task d [] ''failed'' elapsed))"

definition swarm_body :: "runtime \<Rightarrow> 'w coordinator \<Rightarrow> string \<Rightarrow> string \<Rightarrow> ('w, swarm_result) swarm" where
  "swarm_body R C task ctx =
     sbind (sread (\<lambda>(w, es). co_clock C w)) (\<lambda>start.
     sbind (swarm_log C [(PStr ''type'', PStr ''SWARM_START''), (PStr ''task'', PStr task)]) (\<lambda>_.
     sbind (on_world (co_architect C task ctx)) (\<lambda>d.
     sbind (swarm_log C [(PStr ''type'', PStr ''DECOMPOSITION''), (PStr ''agent'', PStr ''architect''),
        (PStr ''subtask_count'', PInt (int (length (td_subtasks d)))), (PStr ''strategy'', PStr (td_strategy d)),
        (PStr ''fingerprint'', PStr (decomposition_fingerprint R d))]) (\<lambda>_.
     if td_subtasks d = [] then end_without_subtasks C task d start
     else sbind (smap (process_subtask R C ctx) (enumerate 0 (td_subtasks d))) (end_swarm C task d start)))))"

definition swarm_run :: "runtime \<Rightarrow> 'w coordinator \<Rightarrow> string \<Rightarrow> string \<Rightarrow> ('w, string, swarm_result) eff" where
  "swarm_run R C task ctx w = (case swarm_body R C task ctx (w, []) of (r, (w', es)) \<Rightarrow> (r, w'))"

section \<open>One debate\<close>

text \<open>The outcome of a debate: the last patch was judged by the reviewer, and the status is its verdict.\<close>

definition reviewed :: "'w coordinator \<Rightarrow> subtask \<Rightarrow> subtask_result \<Rightarrow> bool" where
  "reviewed C t r \<longleftrightarrow> sr_subtask r = t \<and> 0 \<le> sr_revisions r \<and> sr_revisions r \<le> co_max_revisions C \<and>
     (\<exists>p v w w'. sr_final_patch r = Some p \<and> sr_final_verdict r = Some v \<and> co_qa C t p w = (Inr v, w') \<and>
        (case rv_verdict v of
           APPROVE \<Rightarrow> sr_status r = ''approved''
         | REJECT \<Rightarrow> sr_status r = ''rejected''
         | REQUEST_CHANGES \<Rightarrow> sr_status r = ''escalated'' \<and> sr_revisions r = co_max_revisions C))"

definition of_type :: "string \<Rightarrow> pydict list \<Rightarrow> nat" where
  "of_type kind es = length (filter (\<lambda>e. dget e ''type'' = Some (PStr kind)) es)"

lemma of_type_simps [simp]: "of_type kind [] = 0"
  "of_type kind (es @ [e]) = of_type kind es + (if dget e ''type'' = Some (PStr kind) then 1 else 0)"
  by (simp_all add: of_type_def)

lemma triple_on_world:
  "(\<And>w x w'. m w = (Inr x, w') \<Longrightarrow> F x) \<Longrightarrow>
     triple (\<lambda>s. P (snd s)) (on_world m) (\<lambda>x s. F x \<and> P (snd s))"
  by (auto simp: triple_def on_world_def split: prod.splits)

text \<open>Logging an entry adds it, with a time stamp, at the end.\<close>

lemma triple_log:
  assumes "\<And>es t. P es \<Longrightarrow> Q (es @ [dput ''timestamp'' (PFloat t) e])"
  shows "triple (\<lambda>s. P (snd s)) (swarm_log C e) (\<lambda>_ s. Q (snd s))"
  unfolding swarm_log_def using assms
  by (auto simp: triple_def sbind_returns sread_def supdate_def on_world_def split: prod.splits)

definition counts :: "int \<Rightarrow> int \<Rightarrow> pydict list \<Rightarrow> bool" where
  "counts a b es \<longleftrightarrow> int (of_type ''PATCH_PROPOSAL'' es) = a \<and> int (of_type ''REVIEW_VERDICT'' es) = b"

lemma triple_log_counts:
  assumes "dget e ''type'' = Some (PStr kind)"
    "a' = a + (if kind = ''PATCH_PROPOSAL'' then 1 else 0)" "b' = b + (if kind = ''REVIEW_VERDICT'' then 1 else 0)"
  shows "triple (\<lambda>s. counts a b (snd s)) (swarm_log C e) (\<lambda>_ s. counts a' b' (snd s))"
  using assms by (intro triple_log) (auto simp: counts_def dict_simps)

lemma finish_reviewed:
  assumes "\<exists>w w'. co_qa C t p w = (Inr v, w')" "sr_subtask st = t" "0 \<le> k" "k \<le> co_max_revisions C"
    "sr_final_patch st = Some p" "sr_final_verdict st = Some v"
    "rv_verdict v = REQUEST_CHANGES \<Longrightarrow> k = co_max_revisions C"
  shows "triple (\<lambda>s. counts a b (snd s)) (finish_review C idx k v st)
    (\<lambda>r s. reviewed C t r \<and> sr_revisions r = k \<and> counts a b (snd s))"
proof -
  have r: "reviewed C t (st\<lparr>sr_status := status, sr_revisions := k\<rparr>)"
    if "case rv_verdict v of APPROVE \<Rightarrow> status = ''approved'' | REJECT \<Rightarrow> status = ''rejected''
      | REQUEST_CHANGES \<Rightarrow> status = ''escalated''" for status
    using that assms by (auto simp: reviewed_def split: verdict.splits)
  have log: "triple (\<lambda>s. counts a b (snd s)) (swarm_log C (end_entry kind idx reason))
      (\<lambda>_ s. counts a b (snd s))" if "kind \<noteq> ''PATCH_PROPOSAL''" "kind \<noteq> ''REVIEW_VERDICT''" for kind reason
    using that by (intro triple_log_counts [of _ kind]) (auto simp: end_entry_def)
  show ?thesis
    unfolding finish_review_def using r
    by (cases "rv_verdict v") (auto intro!: triple_sret triple_sbind [OF log])
qed

lemma debate_reviewed:
  assumes "0 \<le> k" "k \<le> co_max_revisions C" "sr_subtask st = t"
  shows "triple (\<lambda>s. counts a b (snd s)) (debate R C idx t ctx [k..co_max_revisions C] rq st)
    (\<lambda>r s. reviewed C t r \<and> counts (a + sr_revisions r - k + 1) (b + sr_revisions r - k + 1) (snd s))"
  using assms
proof (induction "nat (co_max_revisions C - k)" arbitrary: k rq st a b rule: less_induct)
  case less
  have upto: "[k..co_max_revisions C] = k # [k + 1..co_max_revisions C]"
    using less.prems(2) by (rule upto_rec1)
  have coder: "triple (\<lambda>s. counts a b (snd s)) (on_world (co_coder C t ctx rq)) (\<lambda>p s. True \<and> counts a b (snd s))"
    by (rule triple_on_world) simp
  have log1: "triple (\<lambda>s. True \<and> counts a b (snd s)) (swarm_log C (proposal_entry R idx k p))
      (\<lambda>_ s. counts (a + 1) b (snd s))" for p
    by (simp, rule triple_log_counts [of _ "''PATCH_PROPOSAL''"]) (auto simp: proposal_entry_def)
  have qa: "triple (\<lambda>s. counts (a + 1) b (snd s)) (on_world (co_qa C t p))
      (\<lambda>v s. (\<exists>w w'. co_qa C t p w = (Inr v, w')) \<and> counts (a + 1) b (snd s))" for p
    by (rule triple_on_world) blast
  have log2: "triple (\<lambda>s. (\<exists>w w'. co_qa C t p w = (Inr v, w')) \<and> counts (a + 1) b (snd s))
      (swarm_log C (verdict_entry idx k v))
      (\<lambda>_ s. (\<exists>w w'. co_qa C t p w = (Inr v, w')) \<and> counts (a + 1) (b + 1) (snd s))" for p v
    by (rule triple_pure, rule triple_conseq [OF triple_log_counts [of _ "''REVIEW_VERDICT''"]])
       (auto simp: verdict_entry_def)
  have req: "triple (\<lambda>s. counts (a + 1) (b + 1) (snd s)) (next_request C k p v)
      (\<lambda>_ s. counts (a + 1) (b + 1) (snd s))" for p v
    unfolding next_request_def by (rule triple_sread)
  show ?case
    unfolding upto debate.simps
  proof (rule triple_sbind [OF coder], rule triple_sbind [OF log1], rule triple_sbind [OF qa],
      rule triple_sbind [OF log2], rule triple_pure)
    fix p u v u'
    assume qa: "\<exists>w w'. co_qa C t p w = (Inr v, w')"
    let ?st = "st\<lparr>sr_final_patch := Some p, sr_final_verdict := Some v\<rparr>"
    show "triple (\<lambda>s. counts (a + 1) (b + 1) (snd s))
      (if rv_verdict v = REQUEST_CHANGES \<and> k < co_max_revisions C then
         sbind (next_request C k p v) (\<lambda>rq'.
         debate R C idx t ctx [k + 1..co_max_revisions C] rq' (?st\<lparr>sr_revisions := k + 1\<rparr>))
       else finish_review C idx k v ?st)
      (\<lambda>r s. reviewed C t r \<and> counts (a + sr_revisions r - k + 1) (b + sr_revisions r - k + 1) (snd s))"
    proof (cases "rv_verdict v = REQUEST_CHANGES \<and> k < co_max_revisions C")
      case True
      then have lt: "nat (co_max_revisions C - (k + 1)) < nat (co_max_revisions C - k)" by simp
      have "triple (\<lambda>s. counts (a + 1) (b + 1) (snd s))
          (debate R C idx t ctx [k + 1..co_max_revisions C] rq' (?st\<lparr>sr_revisions := k + 1\<rparr>))
          (\<lambda>r s. reviewed C t r \<and> counts (a + sr_revisions r - k + 1) (b + sr_revisions r - k + 1) (snd s))" for rq'
        using less.hyps [OF lt, of "?st\<lparr>sr_revisions := k + 1\<rparr>" "a + 1" "b + 1"] less.prems True
        by (simp add: algebra_simps)
      with True show ?thesis by (auto intro: triple_sbind [OF req])
    next
      case False
      have "triple (\<lambda>s. counts (a + 1) (b + 1) (snd s)) (finish_review C idx k v ?st)
          (\<lambda>r s. reviewed C t r \<and> sr_revisions r = k \<and> counts (a + 1) (b + 1) (snd s))"
        using less.prems False by (intro finish_reviewed [OF qa]) auto
      then show ?thesis using False by (auto elim!: triple_conseq simp: algebra_simps)
    qed
  qed
qed

section \<open>The run\<close>

definition spent :: "subtask_result list \<Rightarrow> int" where
  "spent rs = sum_list (map (\<lambda>r. sr_revisions r + 1) rs)"

lemma spent_simps [simp]: "spent [] = 0" "spent (r # rs) = sr_revisions r + 1 + spent rs"
  by (simp_all add: spent_def)

lemma subtasks_reviewed:
  assumes "0 \<le> co_max_revisions C"
  shows "triple (\<lambda>s. counts a b (snd s)) (smap (process_subtask R C ctx) (enumerate n ts))
    (\<lambda>rs s. list_all2 (reviewed C) ts rs \<and> counts (a + spent rs) (b + spent rs) (snd s))"
proof (induction ts arbitrary: n a b)
  case Nil
  then show ?case by (auto intro: triple_sret)
next
  case (Cons t ts)
  have one: "triple (\<lambda>s. counts a b (snd s)) (process_subtask R C ctx (n, t))
      (\<lambda>r s. reviewed C t r \<and> counts (a + sr_revisions r + 1) (b + sr_revisions r + 1) (snd s))"
    unfolding process_subtask_def prod.case
    by (rule triple_conseq [OF debate_reviewed [OF _ assms]]) auto
  have two: "triple (\<lambda>s. reviewed C t r \<and> counts (a + sr_revisions r + 1) (b + sr_revisions r + 1) (snd s))
      (sbind (smap (process_subtask R C ctx) (enumerate (Suc n) ts)) (\<lambda>rs. sret (r # rs)))
      (\<lambda>rs s. list_all2 (reviewed C) (t # ts) rs \<and> counts (a + spent rs) (b + spent rs) (snd s))" for r
    by (rule triple_pure, rule triple_sbind [OF Cons.IH]) (auto intro!: triple_sret simp: algebra_simps)
  show ?case
    unfolding enumerate_simps smap.simps by (rule triple_sbind [OF one two])
qed

text \<open>What a run promises: every subtask was debated to a verdict, the status sums up the verdicts, and
  the log holds one proposal and one verdict per round.\<close>

definition swarm_promise :: "'w coordinator \<Rightarrow> swarm_result \<Rightarrow> bool" where
  "swarm_promise C r \<longleftrightarrow> (\<exists>d. sw_decomposition r = Some d \<and>
     list_all2 (reviewed C) (td_subtasks d) (sw_subtask_results r) \<and>
     sw_status r = (if td_subtasks d = [] then ''failed'' else overall_status (sw_subtask_results r)) \<and>
     sw_total_revisions r = sum_list (map sr_revisions (sw_subtask_results r)) \<and>
     counts (spent (sw_subtask_results r)) (spent (sw_subtask_results r)) (sw_ledger_entries r))"

lemma log_other_counts:
  "dget e ''type'' = Some (PStr kind) \<Longrightarrow> kind \<noteq> ''PATCH_PROPOSAL'' \<Longrightarrow> kind \<noteq> ''REVIEW_VERDICT'' \<Longrightarrow>
     triple (\<lambda>s. counts a b (snd s)) (swarm_log C e) (\<lambda>_ s. counts a b (snd s))"
  by (rule triple_log_counts) auto

lemma read_counts: "triple (\<lambda>s. counts a b (snd s)) (sread f) (\<lambda>_ s. counts a b (snd s))"
  by (rule triple_sread)

lemma result_promise:
  assumes "list_all2 (reviewed C) (td_subtasks d) rs"
    "status = (if td_subtasks d = [] then ''failed'' else overall_status rs)" "n = spent rs"
  shows "triple (\<lambda>s. counts n n (snd s)) (swarm_result_of task d rs status x) (\<lambda>r s. swarm_promise C r)"
  unfolding swarm_result_of_def
proof (rule triple_sread, goal_cases)
  case (1 s)
  with assms show ?case by (cases s) (simp add: swarm_promise_def)
qed

lemma end_swarm_promise:
  assumes "list_all2 (reviewed C) (td_subtasks d) rs" "td_subtasks d \<noteq> []"
  shows "triple (\<lambda>s. counts (spent rs) (spent rs) (snd s)) (end_swarm C task d start rs) (\<lambda>r s. swarm_promise C r)"
  unfolding end_swarm_def using assms
  by (intro triple_sbind [OF read_counts] triple_sbind [OF log_other_counts [of _ "''SWARM_END''"]]
      result_promise) simp_all

lemma end_without_subtasks_promise:
  assumes "td_subtasks d = []"
  shows "triple (\<lambda>s. counts 0 0 (snd s)) (end_without_subtasks C task d start) (\<lambda>r s. swarm_promise C r)"
  unfolding end_without_subtasks_def using assms
  by (intro triple_sbind [OF read_counts] triple_sbind [OF log_other_counts [of _ "''SWARM_END''"]]
      result_promise) simp_all

lemma swarm_body_promise:
  assumes "0 \<le> co_max_revisions C"
  shows "triple (\<lambda>s. counts 0 0 (snd s)) (swarm_body R C task ctx) (\<lambda>r s. swarm_promise C r)"
proof -
  have arch: "triple (\<lambda>s. counts 0 0 (snd s)) (on_world (co_architect C task ctx))
      (\<lambda>d s. True \<and> counts 0 0 (snd s))" by (rule triple_on_world) simp
  have tail: "triple (\<lambda>s. counts 0 0 (snd s))
      (if td_subtasks d = [] then end_without_subtasks C task d start
       else sbind (smap (process_subtask R C ctx) (enumerate 0 (td_subtasks d))) (end_swarm C task d start))
      (\<lambda>r s. swarm_promise C r)" for d start
  proof (cases "td_subtasks d = []")
    case True
    then show ?thesis by (simp add: end_without_subtasks_promise)
  next
    case False
    have "triple (\<lambda>s. counts 0 0 (snd s))
        (sbind (smap (process_subtask R C ctx) (enumerate 0 (td_subtasks d))) (end_swarm C task d start))
        (\<lambda>r s. swarm_promise C r)"
      by (rule triple_sbind [OF subtasks_reviewed [OF assms]], simp only: add_0, rule triple_pure,
          rule end_swarm_promise [OF _ False])
    with False show ?thesis by simp
  qed
  show ?thesis
    unfolding swarm_body_def
    by (rule triple_sbind [OF read_counts], rule triple_sbind [OF log_other_counts [of _ "''SWARM_START''"]],
        simp, simp, simp, rule triple_sbind [OF arch], simp only: simp_thms,
        rule triple_sbind [OF log_other_counts [of _ "''DECOMPOSITION''"]], simp, simp, simp, rule tail)
qed

lemma length_filter_eq_iff: "length (filter P xs) = length xs \<longleftrightarrow> (\<forall>x \<in> set xs. P x)"
proof (induction xs)
  case (Cons x xs)
  have "length (filter P xs) \<noteq> Suc (length xs)" using length_filter_le [of P xs] by linarith
  with Cons show ?case by (cases "P x") auto
qed simp

lemma overall_status_cases:
  "overall_status rs = ''completed'' \<longleftrightarrow> (\<forall>s \<in> set rs. sr_status s = ''approved'')"
  "rs \<noteq> [] \<Longrightarrow> overall_status rs = ''failed'' \<longleftrightarrow> (\<forall>s \<in> set rs. sr_status s \<noteq> ''approved'')"
proof -
  let ?P = "\<lambda>r. sr_status r = ''approved''"
  have all: "length (filter ?P rs) = length rs \<longleftrightarrow> (\<forall>s \<in> set rs. ?P s)"
    by (rule length_filter_eq_iff)
  have ex: "0 < length (filter ?P rs) \<longleftrightarrow> (\<exists>s \<in> set rs. ?P s)"
    by (auto simp: filter_empty_conv)
  show "overall_status rs = ''completed'' \<longleftrightarrow> (\<forall>s \<in> set rs. ?P s)"
    using all by (auto simp: overall_status_def Let_def)
  show "rs \<noteq> [] \<Longrightarrow> overall_status rs = ''failed'' \<longleftrightarrow> (\<forall>s \<in> set rs. \<not> ?P s)"
    using all ex by (cases rs) (auto simp: overall_status_def Let_def)
qed

lemma swarm_run_promise:
  assumes "0 \<le> co_max_revisions C" "swarm_run R C task ctx w = (Inr r, w')"
  shows "swarm_promise C r"
proof -
  from assms(2) obtain es where "swarm_body R C task ctx (w, []) = (Inr r, (w', es))"
    by (auto simp: swarm_run_def split: prod.splits)
  then show ?thesis
    by (rule tripleD [OF swarm_body_promise [OF assms(1)], rotated]) (simp add: counts_def)
qed

lemma spent_bound:
  "list_all2 (reviewed C) ts rs \<Longrightarrow> spent rs = sum_list (map sr_revisions rs) + int (length ts)
     \<and> spent rs \<le> (co_max_revisions C + 1) * int (length ts)"
  by (induction rule: list_all2_induct) (auto simp: reviewed_def algebra_simps)

text \<open>A run returns when the callbacks do.\<close>

lemma returns_on_world [returning]:
  assumes "returns m" shows "returns (on_world m)"
  unfolding returns_def
proof (rule allI, goal_cases)
  case (1 s)
  obtain x w' where "m (fst s) = (Inr x, w')" using assms unfolding returns_def by blast
  then show ?case by (cases s) (simp add: on_world_def)
qed

definition agents_return :: "'w coordinator \<Rightarrow> bool" where
  "agents_return C \<longleftrightarrow> (\<forall>task ctx. returns (co_architect C task ctx)) \<and>
     (\<forall>t ctx rq. returns (co_coder C t ctx rq)) \<and> (\<forall>t p. returns (co_qa C t p)) \<and>
     (\<forall>e. returns (co_ledger C e))"

lemma returns_log: "agents_return C \<Longrightarrow> returns (swarm_log C e)"
  unfolding swarm_log_def by (intro returning) (simp add: agents_return_def)

lemma returns_debate: "agents_return C \<Longrightarrow> returns (debate R C idx t ctx revs rq st)"
proof (induction revs arbitrary: rq st)
  case (Cons k revs)
  then show ?case
    by (auto intro!: returning returns_log simp: agents_return_def finish_review_def next_request_def
        split: verdict.splits)
qed (auto intro: returning)

lemma returns_process_subtask: "agents_return C \<Longrightarrow> returns (process_subtask R C ctx item)"
  by (cases item) (simp add: process_subtask_def returns_debate)

lemma returns_swarm_body: "agents_return C \<Longrightarrow> returns (swarm_body R C task ctx)"
  unfolding swarm_body_def end_swarm_def end_without_subtasks_def swarm_result_of_def
  by (auto intro!: returning returns_log returns_process_subtask simp: agents_return_def)

section \<open>A swarm\<close>

text \<open>The agents of the witnesses: the reviewer accepts the second patch of every subtask.\<close>

definition demo_patch :: patch_proposal where
  "demo_patch = \<lparr>pp_subtask_index = 0, pp_diff = ''d'', pp_reasoning = [], pp_files_modified = [''f''],
     pp_timestamp = 0\<rparr>"

definition demo_verdict :: "verdict \<Rightarrow> review_verdict" where
  "demo_verdict v = \<lparr>rv_verdict = v, rv_comments = ''c'', rv_issues = [], rv_tests_passed = None, rv_timestamp = 0\<rparr>"

definition demo_swarm :: "nat coordinator" where
  "demo_swarm = \<lparr>
     co_architect = (\<lambda>task ctx. sret \<lparr>td_analysis = [], td_subtasks =
        [\<lparr>su_description = ''one'', su_target_files = [], su_acceptance_criteria = [], su_priority = 0\<rparr>],
        td_strategy = [], td_timestamp = 0\<rparr>),
     co_coder = (\<lambda>t ctx rq. sret demo_patch),
     co_qa = (\<lambda>t p n. (Inr (demo_verdict (if even n then REQUEST_CHANGES else APPROVE)), Suc n)),
     co_ledger = (\<lambda>e. sret ()), co_clock = (\<lambda>n. 0), co_max_revisions = 3\<rparr>"

definition demo_run :: "(string + swarm_result) \<times> nat" where
  "demo_run = swarm_run toy_runtime demo_swarm ''t'' [] 0"

definition demo_outcome :: swarm_result where
  "demo_outcome = projr (fst demo_run)"

lemma demo_run_returns:
  "swarm_run toy_runtime demo_swarm ''t'' [] 0 = (Inr demo_outcome, snd demo_run)"
proof -
  have "\<not> isl (fst demo_run)" by code_simp
  then have "fst demo_run = Inr demo_outcome" by (simp add: demo_outcome_def)
  then show ?thesis by (simp add: demo_run_def [symmetric] prod_eq_iff)
qed

section \<open>Properties\<close>

text \<open>A swarm run that returns has debated every subtask of the decomposition, in order, until the
  reviewer judged the last patch or the revisions were used up; it is completed exactly when there
  are subtasks and all were approved, and failed exactly when none was. The log shows one patch
  proposal and one verdict per round, which is the number of revisions plus the number of subtasks
  and at most the revision limit plus one for each subtask.\<close>

theorem swarm_run_outcome:
  assumes "0 \<le> co_max_revisions C" "swarm_run R C task ctx w = (Inr r, w')"
  shows "\<exists>d. sw_decomposition r = Some d \<and> list_all2 (reviewed C) (td_subtasks d) (sw_subtask_results r)
    \<and> (sw_status r = ''completed'' \<longleftrightarrow> td_subtasks d \<noteq> []
         \<and> (\<forall>s \<in> set (sw_subtask_results r). sr_status s = ''approved''))
    \<and> (sw_status r = ''failed'' \<longleftrightarrow> (\<forall>s \<in> set (sw_subtask_results r). sr_status s \<noteq> ''approved''))
    \<and> int (of_type ''PATCH_PROPOSAL'' (sw_ledger_entries r)) = sw_total_revisions r + int (length (td_subtasks d))
    \<and> of_type ''REVIEW_VERDICT'' (sw_ledger_entries r) = of_type ''PATCH_PROPOSAL'' (sw_ledger_entries r)
    \<and> int (of_type ''PATCH_PROPOSAL'' (sw_ledger_entries r)) \<le> (co_max_revisions C + 1) * int (length (td_subtasks d))"
proof -
  from swarm_run_promise [OF assms] obtain d where d: "sw_decomposition r = Some d"
    and rv: "list_all2 (reviewed C) (td_subtasks d) (sw_subtask_results r)"
    and st: "sw_status r = (if td_subtasks d = [] then ''failed'' else overall_status (sw_subtask_results r))"
    and total: "sw_total_revisions r = sum_list (map sr_revisions (sw_subtask_results r))"
    and cnt: "counts (spent (sw_subtask_results r)) (spent (sw_subtask_results r)) (sw_ledger_entries r)"
    by (auto simp: swarm_promise_def)
  have ne: "td_subtasks d = [] \<longleftrightarrow> sw_subtask_results r = []" using rv by auto
  have sums: "int (of_type ''PATCH_PROPOSAL'' (sw_ledger_entries r)) = sw_total_revisions r + int (length (td_subtasks d))"
    "of_type ''REVIEW_VERDICT'' (sw_ledger_entries r) = of_type ''PATCH_PROPOSAL'' (sw_ledger_entries r)"
    "int (of_type ''PATCH_PROPOSAL'' (sw_ledger_entries r)) \<le> (co_max_revisions C + 1) * int (length (td_subtasks d))"
    using cnt total spent_bound [OF rv] by (auto simp: counts_def)
  show ?thesis
  proof (intro exI conjI)
    show "sw_status r = ''completed'' \<longleftrightarrow> td_subtasks d \<noteq> []
         \<and> (\<forall>s \<in> set (sw_subtask_results r). sr_status s = ''approved'')"
      using overall_status_cases(1) [of "sw_subtask_results r"] by (simp add: st)
    show "sw_status r = ''failed'' \<longleftrightarrow> (\<forall>s \<in> set (sw_subtask_results r). sr_status s \<noteq> ''approved'')"
      using overall_status_cases(2) [of "sw_subtask_results r"] ne by (simp add: st)
  qed (use d rv sums in auto)
qed

theorem swarm_run_outcome_witness:
  "\<exists>d. sw_decomposition demo_outcome = Some d \<and> sw_status demo_outcome = ''completed''
     \<and> int (of_type ''PATCH_PROPOSAL'' (sw_ledger_entries demo_outcome))
         = sw_total_revisions demo_outcome + int (length (td_subtasks d))"
proof -
  have "0 \<le> co_max_revisions demo_swarm" by code_simp
  from swarm_run_outcome [OF this demo_run_returns] obtain d where
    "sw_decomposition demo_outcome = Some d"
    "int (of_type ''PATCH_PROPOSAL'' (sw_ledger_entries demo_outcome))
       = sw_total_revisions demo_outcome + int (length (td_subtasks d))" by blast
  moreover have "sw_status demo_outcome = ''completed''" by code_simp
  ultimately show ?thesis by blast
qed





end
