(* ===== verification/Consensus.thy ===== *)
theory Consensus
  imports Effects Py_Value
begin

text \<open>
  The replicated log of \<open>services/consensus/deterministic_consensus.py\<close>: a follower appends the entries
  a leader sends after checking the entry before them. List indices are Python's: a negative one
  counts from the end, and one out of range raises.
\<close>

record log_entry =
  le_term :: int
  le_index :: int
  le_content :: pydict
  le_leader_id :: string

record consensus_log =
  cl_node_id :: string
  cl_current_term :: int
  cl_log :: "log_entry list"
  cl_commit_index :: int

definition new_consensus_log :: "string \<Rightarrow> consensus_log" where
  "new_consensus_log node =
     \<lparr>cl_node_id = node, cl_current_term = 0, cl_log = [], cl_commit_index = - 1\<rparr>"

text \<open>\<open>xs[i]\<close> and \<open>xs[:i]\<close>.\<close>

definition py_nth :: "'a list \<Rightarrow> int \<Rightarrow> 'a option" where
  "py_nth xs i =
     (let j = (if i < 0 then i + int (length xs) else i)
      in if 0 \<le> j \<and> j < int (length xs) then Some (xs ! nat j) else None)"

definition py_take :: "int \<Rightarrow> 'a list \<Rightarrow> 'a list" where
  "py_take i xs = take (nat (if i < 0 then i + int (length xs) else i)) xs"

lemma py_nth_nat: "i < length xs \<Longrightarrow> py_nth xs (int i) = Some (xs ! i)"
  by (simp add: py_nth_def)

lemma py_take_nat [simp]: "py_take (int i) xs = take i xs"
  by (simp add: py_take_def)

section \<open>Appending\<close>

text \<open>The loop over the entries; \<open>lg\<close> is what \<open>self.log\<close> holds, also when an index is out of range.\<close>

fun append_loop :: "int \<Rightarrow> log_entry list \<Rightarrow> log_entry list \<Rightarrow> unit res \<times> log_entry list" where
  "append_loop idx [] lg = (Inr (), lg)"
| "append_loop idx (e # es) lg =
     (if idx < int (length lg) then
        (case py_nth lg idx of
           None \<Rightarrow> (Inl IndexError, lg)
         | Some x \<Rightarrow>
             if le_term x \<noteq> le_term e then append_loop (idx + 1) es (py_take idx lg @ [e])
             else append_loop (idx + 1) es lg)
      else append_loop (idx + 1) es (lg @ [e]))"

text \<open>The check before the entries are touched: a gap, or another term at \<open>prev_index\<close>.\<close>

definition prev_consistent :: "log_entry list \<Rightarrow> int \<Rightarrow> int \<Rightarrow> bool" where
  "prev_consistent lg prev_index prev_term \<longleftrightarrow>
     (0 \<le> prev_index \<longrightarrow> prev_index < int (length lg) \<and> le_term (lg ! nat prev_index) = prev_term)"

definition append_entries :: "int \<Rightarrow> int \<Rightarrow> log_entry list \<Rightarrow> (consensus_log, pyerr, bool) eff" where
  "append_entries prev_index prev_term es L =
     (if \<not> prev_consistent (cl_log L) prev_index prev_term then (Inr False, L)
      else case append_loop (prev_index + 1) es (cl_log L) of
             (Inl e, lg) \<Rightarrow> (Inl e, L\<lparr>cl_log := lg\<rparr>)
           | (Inr u, lg) \<Rightarrow> (Inr True, L\<lparr>cl_log := lg\<rparr>))"

definition propose :: "pydict \<Rightarrow> (consensus_log, pyerr, log_entry) eff" where
  "propose content L =
     (let e = \<lparr>le_term = cl_current_term L, le_index = int (length (cl_log L)), le_content = content,
               le_leader_id = cl_node_id L\<rparr>
      in (Inr e, L\<lparr>cl_log := cl_log L @ [e]\<rparr>))"

section \<open>Log matching\<close>

text \<open>Where two logs have an entry with the same term, they agree up to there.\<close>

definition matching :: "log_entry list \<Rightarrow> log_entry list \<Rightarrow> bool" where
  "matching M L \<longleftrightarrow> (\<forall>i. i < length M \<longrightarrow> i < length L \<longrightarrow> le_term (M ! i) = le_term (L ! i) \<longrightarrow>
     take (Suc i) M = take (Suc i) L)"

lemma matchingD:
  "matching M L \<Longrightarrow> i < length M \<Longrightarrow> i < length L \<Longrightarrow> le_term (M ! i) = le_term (L ! i) \<Longrightarrow>
     take (Suc i) M = take (Suc i) L"
  by (simp add: matching_def)

lemma matching_prefix: "take (length M) L = M \<Longrightarrow> matching M L"
  unfolding matching_def by (metis Suc_leI min.absorb1 take_take)

text \<open>The loop makes the log agree with the leader's as far as the entries go, and keeps what it had
  beyond them unless it found a conflict.\<close>

lemma append_loop_matching:
  assumes "matching M L" "take n M = take n L" "n \<le> length M" "n + length es \<le> length L"
    "es = take (length es) (drop n L)"
  shows "\<exists>M'. append_loop (int n) es M = (Inr (), M') \<and> matching M' L
    \<and> take (n + length es) M' = take (n + length es) L
    \<and> (M' = M \<or> length M' \<le> n + length es)"
  using assms
proof (induction es arbitrary: n M)
  case Nil
  then show ?case by simp
next
  case (Cons e es)
  have lt: "n < length L" using Cons.prems(4) by simp
  then have "drop n L = L ! n # drop (Suc n) L" by (rule Cons_nth_drop_Suc [symmetric])
  with Cons.prems(5) have e: "e = L ! n" "es = take (length es) (drop (Suc n) L)" by simp_all
  have len: "Suc n + length es \<le> length L" using Cons.prems(4) by simp
  have IH: "\<exists>M'. append_loop (int n + 1) es M1 = (Inr (), M') \<and> matching M' L
      \<and> take (n + length (e # es)) M' = take (n + length (e # es)) L
      \<and> (M' = M1 \<or> length M' \<le> n + length (e # es))"
    if "matching M1 L" "take (Suc n) M1 = take (Suc n) L" "Suc n \<le> length M1" for M1
    using Cons.IH [OF that len e(2)] by (simp add: add.commute)
  have new: "\<exists>M'. append_loop (int n + 1) es (take n M @ [e]) = (Inr (), M') \<and> matching M' L
      \<and> take (n + length (e # es)) M' = take (n + length (e # es)) L \<and> length M' \<le> n + length (e # es)"
  proof -
    have M1: "take n M @ [e] = take (Suc n) L"
      using Cons.prems(2) lt by (simp add: e(1) take_Suc_conv_app_nth)
    have "matching (take n M @ [e]) L" unfolding M1 using lt by (intro matching_prefix) simp
    from IH [OF this] show ?thesis using M1 lt Cons.prems(3) by fastforce
  qed
  show ?case
  proof (cases "n < length M")
    case False
    with Cons.prems(3) have "n = length M" by simp
    with new show ?thesis by auto
  next
    case True
    show ?thesis
    proof (cases "le_term (M ! n) = le_term e")
      case same: True
      with Cons.prems(1) True lt have "take (Suc n) M = take (Suc n) L" by (simp add: matchingD e(1))
      from IH [OF Cons.prems(1) this] True same show ?thesis by (auto simp: py_nth_nat)
    next
      case False
      with new True show ?thesis by (auto simp: py_nth_nat)
    qed
  qed
qed

lemma prev_consistent_matching:
  assumes "matching M L" "n \<le> length L" "n > 0 \<Longrightarrow> t = le_term (L ! (n - 1))"
  shows "prev_consistent M (int n - 1) t \<longleftrightarrow> take n M = take n L"
proof (cases n)
  case 0
  then show ?thesis by (simp add: prev_consistent_def)
next
  case (Suc m)
  have "take (Suc m) M = take (Suc m) L \<longleftrightarrow> m < length M \<and> le_term (M ! m) = le_term (L ! m)"
  proof
    assume eq: "take (Suc m) M = take (Suc m) L"
    then have "length (take (Suc m) M) = Suc m" using assms(2) Suc by simp
    moreover have "take (Suc m) M ! m = take (Suc m) L ! m" by (simp only: eq)
    ultimately show "m < length M \<and> le_term (M ! m) = le_term (L ! m)" by simp
  qed (use assms(1,2) Suc in \<open>auto intro: matchingD\<close>)
  then show ?thesis using assms(3) Suc by (auto simp: prev_consistent_def)
qed

section \<open>Properties\<close>

text \<open>Log matching. When a follower whose log matches the leader's receives the leader's entries
  from position \<open>n\<close> on, together with the term before them, the call returns; it accepts exactly when
  the two logs agree up to \<open>n\<close>. Accepting makes them agree up to the last entry sent and keeps them
  matching, refusing changes nothing.\<close>

theorem append_keeps_logs_matching:
  assumes "matching (cl_log F) L" "n + length es \<le> length L" "es = take (length es) (drop n L)"
    "n > 0 \<Longrightarrow> t = le_term (L ! (n - 1))"
  shows "\<exists>ok F'. append_entries (int n - 1) t es F = (Inr ok, F')
    \<and> (ok \<longleftrightarrow> take n (cl_log F) = take n L)
    \<and> (ok \<longrightarrow> matching (cl_log F') L \<and> take (n + length es) (cl_log F') = take (n + length es) L)
    \<and> (\<not> ok \<longrightarrow> F' = F)"
proof -
  have n: "n \<le> length L" using assms(2) by simp
  note pc = prev_consistent_matching [OF assms(1) n assms(4)]
  show ?thesis
  proof (cases "take n (cl_log F) = take n L")
    case False
    with pc show ?thesis by (intro exI [of _ False] exI [of _ F]) (simp add: append_entries_def)
  next
    case True
    then have "length (take n (cl_log F)) = n" using n by simp
    then have "n \<le> length (cl_log F)" by simp
    from append_loop_matching [OF assms(1) True this assms(2,3)] True pc show ?thesis
      by (auto simp: append_entries_def)
  qed
qed

definition demo_entry :: "int \<Rightarrow> int \<Rightarrow> log_entry" where
  "demo_entry t i = \<lparr>le_term = t, le_index = i, le_content = [], le_leader_id = ''a''\<rparr>"

theorem append_keeps_logs_matching_witness:
  "\<exists>ok F'. append_entries 0 1 [demo_entry 2 1]
       ((new_consensus_log ''b'')\<lparr>cl_log := [demo_entry 1 0, demo_entry 1 1]\<rparr>) = (Inr ok, F')
     \<and> take 2 (cl_log F') = [demo_entry 1 0, demo_entry 2 1]"
  using append_keeps_logs_matching
    [of "(new_consensus_log ''b'')\<lparr>cl_log := [demo_entry 1 0, demo_entry 1 1]\<rparr>"
        "[demo_entry 1 0, demo_entry 2 1]" 1 "[demo_entry 2 1]" 1]
  by (fastforce simp: matching_def demo_entry_def less_Suc_eq numeral_2_eq_2)

end
