(* ===== verification/Circuit_Breaker.thy ===== *)
theory Circuit_Breaker
  imports Prelude
begin

text \<open>
  The circuit breaker of \<open>system/circuit_breaker.py\<close>. A call enters under the lock, runs the function
  outside it, and reports success or failure under the lock again, so calls of several threads
  interleave at these points: the breaker is a step relation over the events of all threads, with the
  calls in flight as part of the state. \<open>cb_call\<close> is one call without interference.
\<close>

datatype breaker_state = CLOSED | OPEN | HALF_OPEN

record breaker =
  cb_state :: breaker_state
  cb_failures :: int
  cb_last :: rat
  cb_threshold :: int
  cb_timeout :: rat

definition new_breaker :: "int \<Rightarrow> rat \<Rightarrow> breaker" where
  "new_breaker threshold timeout =
     \<lparr>cb_state = CLOSED, cb_failures = 0, cb_last = 0, cb_threshold = threshold, cb_timeout = timeout\<rparr>"

section \<open>The code\<close>

text \<open>The first critical section of \<open>call\<close>: whether the call goes on, and the breaker.\<close>

definition cb_enter :: "rat \<Rightarrow> breaker \<Rightarrow> bool \<times> breaker" where
  "cb_enter now b =
     (if cb_state b = OPEN then
        if cb_timeout b < now - cb_last b then (True, b\<lparr>cb_state := HALF_OPEN\<rparr>) else (False, b)
      else (True, b))"

definition handle_failure :: "rat \<Rightarrow> breaker \<Rightarrow> breaker" where
  "handle_failure now b0 =
     (let b = b0\<lparr>cb_failures := cb_failures b0 + 1, cb_last := now\<rparr>
      in if cb_state b = HALF_OPEN \<or> cb_threshold b \<le> cb_failures b then b\<lparr>cb_state := OPEN\<rparr> else b)"

definition handle_success :: "breaker \<Rightarrow> breaker" where
  "handle_success b =
     (case cb_state b of
        HALF_OPEN \<Rightarrow> b\<lparr>cb_state := CLOSED, cb_failures := 0\<rparr>
      | CLOSED \<Rightarrow> b\<lparr>cb_failures := 0\<rparr>
      | OPEN \<Rightarrow> b)"

text \<open>What a call ends with: its result, an exception of the function (and whether it is excluded), or the
  refusal with the number of failures.\<close>

datatype ('a, 'e) call_result = Returned 'a | Raised 'e | CircuitBreakerOpen int

definition cb_call :: "('e \<Rightarrow> bool) \<Rightarrow> rat \<Rightarrow> rat \<Rightarrow> 'e + 'a \<Rightarrow> breaker \<Rightarrow> ('a, 'e) call_result \<times> breaker" where
  "cb_call excluded now later result b0 =
     (case cb_enter now b0 of
        (False, b) \<Rightarrow> (CircuitBreakerOpen (cb_failures b), b)
      | (True, b) \<Rightarrow>
          (case result of
             Inl e \<Rightarrow> (Raised e, if excluded e then b else handle_failure later b)
           | Inr x \<Rightarrow> (Returned x, handle_success b)))"

section \<open>Interleaved calls\<close>

datatype cb_event = Enter rat | Fail rat | Succeed | Exclude

text \<open>The second component counts the calls in flight.\<close>

inductive cb_step :: "breaker \<times> nat \<Rightarrow> cb_event \<Rightarrow> breaker \<times> nat \<Rightarrow> bool" where
  admit: "cb_enter now b = (True, b') \<Longrightarrow> cb_step (b, n) (Enter now) (b', Suc n)"
| refuse: "cb_enter now b = (False, b') \<Longrightarrow> cb_step (b, n) (Enter now) (b', n)"
| failing: "cb_step (b, Suc n) (Fail now) (handle_failure now b, n)"
| succeed: "cb_step (b, Suc n) Succeed (handle_success b, n)"
| exclude: "cb_step (b, Suc n) Exclude (b, n)"

inductive cb_reach :: "breaker \<times> nat \<Rightarrow> cb_event list \<Rightarrow> breaker \<times> nat \<Rightarrow> bool" for s0 where
  start: "cb_reach s0 [] s0"
| step: "cb_reach s0 tr s \<Longrightarrow> cb_step s e s' \<Longrightarrow> cb_reach s0 (tr @ [e]) s'"

inductive_cases cb_enterE: "cb_step (b, n) (Enter now) s'"
inductive_cases cb_failE: "cb_step (b, n) (Fail now) s'"
inductive_cases cb_stepE: "cb_step (b, n) e (b', n')"

text \<open>The failures reported since the last success.\<close>

fun trailing_from :: "nat \<Rightarrow> cb_event list \<Rightarrow> nat" where
  "trailing_from k [] = k"
| "trailing_from k (Fail t # tr) = trailing_from (Suc k) tr"
| "trailing_from k (Succeed # tr) = trailing_from 0 tr"
| "trailing_from k (e # tr) = trailing_from k tr"

definition trailing_failures :: "cb_event list \<Rightarrow> nat" where
  "trailing_failures tr = trailing_from 0 tr"

lemma trailing_from_append: "trailing_from k (xs @ ys) = trailing_from (trailing_from k xs) ys"
  by (induction k xs rule: trailing_from.induct) auto

lemma trailing_snoc [simp]:
  "trailing_failures [] = 0"
  "trailing_failures (tr @ [Fail t]) = Suc (trailing_failures tr)"
  "trailing_failures (tr @ [Succeed]) = 0"
  "trailing_failures (tr @ [Enter t]) = trailing_failures tr"
  "trailing_failures (tr @ [Exclude]) = trailing_failures tr"
  by (simp_all add: trailing_failures_def trailing_from_append)

text \<open>The time of the last failure reported, if there was one.\<close>

definition last_failure :: "cb_event list \<Rightarrow> rat option" where
  "last_failure tr = fold (\<lambda>e t. case e of Fail now \<Rightarrow> Some now | _ \<Rightarrow> t) tr None"

lemma last_failure_snoc [simp]:
  "last_failure [] = None"
  "last_failure (tr @ [Fail t]) = Some t"
  "last_failure (tr @ [Succeed]) = last_failure tr"
  "last_failure (tr @ [Enter t]) = last_failure tr"
  "last_failure (tr @ [Exclude]) = last_failure tr"
  by (simp_all add: last_failure_def)

section \<open>The invariant\<close>

text \<open>The configuration never changes; a closed breaker has counted the failures since the last success,
  fewer than the threshold; any other has failed, and knows when it last did.\<close>

definition cb_inv :: "int \<Rightarrow> rat \<Rightarrow> cb_event list \<Rightarrow> breaker \<Rightarrow> bool" where
  "cb_inv threshold timeout tr b \<longleftrightarrow> cb_threshold b = threshold \<and> cb_timeout b = timeout \<and>
     (cb_state b = CLOSED \<longrightarrow> cb_failures b = int (trailing_failures tr) \<and> cb_failures b < max 1 threshold) \<and>
     (cb_state b \<noteq> CLOSED \<longrightarrow> 0 < cb_failures b \<and> last_failure tr = Some (cb_last b))"

lemma cb_inv_step:
  "cb_inv threshold timeout tr b \<Longrightarrow> cb_step (b, n) e (b', n') \<Longrightarrow> cb_inv threshold timeout (tr @ [e]) b'"
  by (erule cb_stepE)
     (auto simp: cb_inv_def cb_enter_def handle_failure_def handle_success_def Let_def
       split: if_splits breaker_state.splits)

lemma cb_inv_reach:
  "cb_reach s0 tr s \<Longrightarrow> s0 = (new_breaker threshold timeout, 0) \<Longrightarrow> cb_inv threshold timeout tr (fst s)"
proof (induction rule: cb_reach.induct)
  case start
  then show ?case by (simp add: cb_inv_def new_breaker_def)
next
  case (step tr s e s')
  then show ?case by (cases s, cases s') (auto intro: cb_inv_step)
qed

text \<open>A run of the witnesses: one call fails.\<close>

lemma demo_failed:
  "cb_reach (new_breaker k 30, 0) [Enter 0, Fail 1] (handle_failure 1 (new_breaker k 30), 0)"
proof -
  have "cb_enter 0 (new_breaker k 30) = (True, new_breaker k 30)"
    by (simp add: cb_enter_def new_breaker_def)
  from cb_reach.step [OF cb_reach.step [OF cb_reach.start admit [OF this]] failing] show ?thesis by simp
qed

section \<open>Properties\<close>

text \<open>However the calls of several threads interleave, a closed breaker has counted exactly the
  failures reported since the last success, always fewer than its threshold, and it leaves the closed
  state only with a failure that makes this number reach the threshold.\<close>

theorem breaker_counts_failures:
  assumes "cb_reach (new_breaker threshold timeout, 0) tr (b, n)" "cb_state b = CLOSED"
  shows "cb_failures b = int (trailing_failures tr) \<and> cb_failures b < max 1 threshold
    \<and> (\<forall>e b' n'. cb_step (b, n) e (b', n') \<longrightarrow>
         (cb_state b' \<noteq> CLOSED \<longleftrightarrow> int (trailing_failures (tr @ [e])) = max 1 threshold))"
proof (intro conjI allI impI)
  have inv: "cb_inv threshold timeout tr b" using cb_inv_reach [OF assms(1)] by simp
  then show cnt: "cb_failures b = int (trailing_failures tr)" "cb_failures b < max 1 threshold"
    using assms(2) by (auto simp: cb_inv_def)
  fix e b' n' assume "cb_step (b, n) e (b', n')"
  then show "cb_state b' \<noteq> CLOSED \<longleftrightarrow> int (trailing_failures (tr @ [e])) = max 1 threshold"
    using inv assms(2)
    by (elim cb_stepE)
       (auto simp: cb_inv_def cb_enter_def handle_failure_def handle_success_def Let_def split: if_splits)
qed

theorem breaker_counts_failures_witness:
  "int (trailing_failures [Enter 0, Fail 1]) < max 1 (5 :: int)"
  using breaker_counts_failures [OF demo_failed [of 5]] by (simp add: handle_failure_def new_breaker_def)

text \<open>While the breaker is open, a call that arrives within the recovery timeout after the last
  reported failure is refused with the breaker unchanged, and one that arrives later is let through
  as a probe; this holds in every state that interleaved calls can reach.\<close>

theorem open_breaker_refuses:
  assumes "cb_reach (new_breaker threshold timeout, 0) tr (b, n)" "cb_state b = OPEN"
  shows "\<exists>t. last_failure tr = Some t \<and> (\<forall>now. cb_enter now b =
    (if now - t \<le> timeout then (False, b) else (True, b\<lparr>cb_state := HALF_OPEN\<rparr>)))"
  using cb_inv_reach [OF assms(1)] assms(2) by (auto simp: cb_inv_def cb_enter_def)

theorem open_breaker_refuses_witness:
  "\<exists>t. last_failure [Enter 0, Fail 1] = Some t \<and> (\<forall>now. fst (cb_enter now (handle_failure 1 (new_breaker 1 30)))
     = (\<not> now - t \<le> 30))"
  using open_breaker_refuses [OF demo_failed [of 1]] by (auto simp: handle_failure_def new_breaker_def)

text \<open>The breaker always recovers. From every state that interleaved calls can reach there is a time
  after which one call that succeeds undisturbed is let through, returns its result and leaves the
  breaker closed with no failures counted.\<close>

theorem breaker_recovers:
  assumes "cb_reach (new_breaker threshold timeout, 0) tr (b, n)"
  shows "\<exists>t. \<forall>now > t. \<forall>later excluded x. \<exists>b'. cb_call excluded now later (Inr x) b = (Returned x, b')
    \<and> cb_state b' = CLOSED \<and> cb_failures b' = 0 \<and> cb_inv threshold timeout (tr @ [Enter now, Succeed]) b'"
proof (rule exI [of _ "cb_last b + timeout"], intro allI impI)
  have inv: "cb_inv threshold timeout tr b" using cb_inv_reach [OF assms] by simp
  have tr: "trailing_failures (tr @ [Enter now, Succeed]) = 0" for now
    by (simp add: trailing_failures_def trailing_from_append)
  fix now later excluded x
  assume "cb_last b + timeout < now"
  then have "cb_call excluded now later (Inr x) b = (Returned x, handle_success (snd (cb_enter now b)))
      \<and> cb_state (handle_success (snd (cb_enter now b))) = CLOSED
      \<and> cb_failures (handle_success (snd (cb_enter now b))) = 0
      \<and> cb_inv threshold timeout (tr @ [Enter now, Succeed]) (handle_success (snd (cb_enter now b)))"
    using inv
    by (cases "cb_state b")
       (auto simp: tr cb_call_def cb_enter_def handle_success_def cb_inv_def split: breaker_state.splits)
  then show "\<exists>b'. cb_call excluded now later (Inr x) b = (Returned x, b')
      \<and> cb_state b' = CLOSED \<and> cb_failures b' = 0 \<and> cb_inv threshold timeout (tr @ [Enter now, Succeed]) b'"
    by blast
qed

theorem breaker_recovers_witness:
  "\<exists>t. \<forall>now > t. \<exists>b'. cb_call (\<lambda>e :: nat. False) now now (Inr ''ok'') (handle_failure 1 (new_breaker 1 30))
     = (Returned ''ok'', b') \<and> cb_state b' = CLOSED"
  using breaker_recovers [OF demo_failed [of 1], where ?'a = nat and ?'b = string] by blast

text \<open>The half-open state lets any number of calls through, not the single probe.\<close>

lemma half_open_admits_many:
  "\<exists>tr b. cb_reach (new_breaker 1 30, 0) tr (b, 2) \<and> cb_state b = HALF_OPEN"
proof -
  let ?b0 = "new_breaker 1 30"
  let ?b1 = "handle_failure 0 ?b0" and ?b2 = "(handle_failure 0 ?b0)\<lparr>cb_state := HALF_OPEN\<rparr>"
  have 1: "cb_enter 0 ?b0 = (True, ?b0)" by code_simp
  have 2: "cb_enter 100 ?b1 = (True, ?b2)" by code_simp
  have "cb_reach (?b0, 0) ((([] @ [Enter 0]) @ [Fail 0]) @ [Enter 100]) (?b2, Suc 0)"
    by (rule cb_reach.step [OF cb_reach.step [OF cb_reach.step [OF cb_reach.start admit [OF 1]] failing]
        admit [OF 2]])
  moreover have "cb_step (?b2, Suc 0) (Enter 101) (?b2, Suc (Suc 0))"
    by (rule admit) (simp add: cb_enter_def)
  ultimately have "cb_reach (?b0, 0) (((([] @ [Enter 0]) @ [Fail 0]) @ [Enter 100]) @ [Enter 101]) (?b2, 2)"
    using cb_reach.step by (metis numeral_2_eq_2)
  then show ?thesis by (intro exI conjI) auto
qed

end
