(* ===== verification/Py_Regex.thy ===== *)
theory Py_Regex
  imports Py_String
begin

text \<open>
  The regular expressions of Python's \<open>re\<close>, as the program uses them. A match state is what has been
  consumed (reversed), what is left, and the groups; \<open>rx_run\<close> lists the states a pattern can reach in
  the order in which Python's backtracking tries them, so the first one is the match Python reports.
  An iteration of a repetition that consumes nothing ends it.
\<close>

datatype rx =
    REps
  | RSet "char \<Rightarrow> bool"
  | RSeq rx rx
  | RAlt rx rx
  | RStar bool rx
  | RGroup nat rx
  | RLook bool rx
  | RBegin
  | REnd
  | RLast
  | RWordB

record mstate =
  m_done :: string
  m_rest :: string
  m_groups :: "(nat \<times> string) list"

text \<open>The greedy (or lazy) repetition of \<open>f\<close>, at most \<open>n\<close> times.\<close>

fun rx_star :: "bool \<Rightarrow> (mstate \<Rightarrow> mstate list) \<Rightarrow> nat \<Rightarrow> mstate \<Rightarrow> mstate list" where
  "rx_star greedy f 0 s = [s]"
| "rx_star greedy f (Suc n) s =
     (let more = concat (map (rx_star greedy f n) (filter (\<lambda>t. length (m_rest t) < length (m_rest s)) (f s)))
      in if greedy then more @ [s] else s # more)"

definition at_word :: "string \<Rightarrow> bool" where
  "at_word s \<longleftrightarrow> s \<noteq> [] \<and> is_word (hd s)"

primrec rx_run :: "rx \<Rightarrow> mstate \<Rightarrow> mstate list" where
  "rx_run REps s = [s]"
| "rx_run (RSet p) s =
     (case m_rest s of
        [] \<Rightarrow> []
      | c # cs \<Rightarrow> if p c then [s\<lparr>m_done := c # m_done s, m_rest := cs\<rparr>] else [])"
| "rx_run (RSeq a b) s = concat (map (rx_run b) (rx_run a s))"
| "rx_run (RAlt a b) s = rx_run a s @ rx_run b s"
| "rx_run (RStar greedy r) s = rx_star greedy (rx_run r) (length (m_rest s)) s"
| "rx_run (RGroup k r) s =
     map (\<lambda>t. t\<lparr>m_groups := (k, take (length (m_rest s) - length (m_rest t)) (m_rest s)) # m_groups t\<rparr>)
       (rx_run r s)"
| "rx_run (RLook positive r) s = (if (rx_run r s \<noteq> []) = positive then [s] else [])"
| "rx_run RBegin s = (if m_done s = [] then [s] else [])"
| "rx_run REnd s = (if m_rest s = [] \<or> m_rest s = [CHR 10] then [s] else [])"
| "rx_run RLast s = (if m_rest s = [] then [s] else [])"
| "rx_run RWordB s = (if at_word (m_done s) \<noteq> at_word (m_rest s) then [s] else [])"

section \<open>Matching\<close>

definition m_start :: "string \<Rightarrow> mstate" where
  "m_start s = \<lparr>m_done = [], m_rest = s, m_groups = []\<rparr>"

text \<open>\<open>re.match\<close>, \<open>re.fullmatch\<close> and \<open>re.search\<close>; a search gives the place where the match starts too.\<close>

definition rx_match :: "rx \<Rightarrow> string \<Rightarrow> mstate option" where
  "rx_match r s = (case rx_run r (m_start s) of [] \<Rightarrow> None | t # ts \<Rightarrow> Some t)"

definition rx_fullmatch :: "rx \<Rightarrow> string \<Rightarrow> mstate option" where
  "rx_fullmatch r s = rx_match (RSeq r RLast) s"

fun rx_find :: "rx \<Rightarrow> string \<Rightarrow> string \<Rightarrow> (mstate \<times> mstate) option" where
  "rx_find r pre rest =
     (let s = \<lparr>m_done = pre, m_rest = rest, m_groups = []\<rparr>
      in case rx_run r s of
           t # ts \<Rightarrow> Some (s, t)
         | [] \<Rightarrow> (case rest of [] \<Rightarrow> None | c # cs \<Rightarrow> rx_find r (c # pre) cs))"

definition rx_search_in :: "rx \<Rightarrow> string \<Rightarrow> (mstate \<times> mstate) option" where
  "rx_search_in r s = rx_find r [] s"

definition rx_found :: "rx \<Rightarrow> string \<Rightarrow> bool" where
  "rx_found r s \<longleftrightarrow> rx_search_in r s \<noteq> None"

text \<open>\<open>m.group(0)\<close> and \<open>m.group(k)\<close>.\<close>

definition m_text :: "mstate \<times> mstate \<Rightarrow> string" where
  "m_text m = take (length (m_rest (fst m)) - length (m_rest (snd m))) (m_rest (fst m))"

definition m_group :: "mstate \<Rightarrow> nat \<Rightarrow> string option" where
  "m_group t k = map_of (m_groups t) k"

text \<open>The non-overlapping matches from left to right, at most \<open>n\<close>; after an empty match the search goes
  on one character later.\<close>

fun rx_all :: "nat \<Rightarrow> rx \<Rightarrow> string \<Rightarrow> string \<Rightarrow> (mstate \<times> mstate) list" where
  "rx_all 0 r pre rest = []"
| "rx_all (Suc n) r pre rest =
     (case rx_find r pre rest of
        None \<Rightarrow> []
      | Some (s, t) \<Rightarrow>
          if length (m_rest t) < length (m_rest s) then (s, t) # rx_all n r (m_done t) (m_rest t)
          else (case m_rest t of
                  [] \<Rightarrow> [(s, t)]
                | c # cs \<Rightarrow> (s, t) # rx_all n r (c # m_done t) cs))"

definition rx_finditer :: "rx \<Rightarrow> string \<Rightarrow> (mstate \<times> mstate) list" where
  "rx_finditer r s = rx_all (Suc (length s)) r [] s"

text \<open>\<open>re.sub\<close> with a fixed text, for a pattern that never matches the empty string.\<close>

fun rx_replace :: "nat \<Rightarrow> rx \<Rightarrow> string \<Rightarrow> string \<Rightarrow> string \<Rightarrow> string" where
  "rx_replace 0 r new pre rest = rest"
| "rx_replace (Suc n) r new pre rest =
     (case rx_find r pre rest of
        None \<Rightarrow> rest
      | Some (s, t) \<Rightarrow>
          take (length rest - length (m_rest s)) rest @ new @ rx_replace n r new (m_done t) (m_rest t))"

definition rx_sub :: "rx \<Rightarrow> string \<Rightarrow> string \<Rightarrow> string" where
  "rx_sub r new s = rx_replace (Suc (length s)) r new [] s"

section \<open>Building patterns\<close>

definition rplus :: "rx \<Rightarrow> rx" where
  "rplus r = RSeq r (RStar True r)"

definition ropt :: "rx \<Rightarrow> rx" where
  "ropt r = RAlt r REps"

fun rseq :: "rx list \<Rightarrow> rx" where
  "rseq [] = REps"
| "rseq [r] = r"
| "rseq (r # rs) = RSeq r (rseq rs)"

fun ralts :: "rx list \<Rightarrow> rx" where
  "ralts [] = RLook False REps"
| "ralts [r] = r"
| "ralts (r # rs) = RAlt r (ralts rs)"

text \<open>A literal, and one under \<open>re.IGNORECASE\<close>.\<close>

definition rlit :: "string \<Rightarrow> rx" where
  "rlit s = rseq (map (\<lambda>c. RSet (\<lambda>x. x = c)) s)"

definition rlit_ci :: "string \<Rightarrow> rx" where
  "rlit_ci s = rseq (map (\<lambda>c. RSet (\<lambda>x. lower_char x = lower_char c)) s)"

text \<open>\<open>.\<close>, \<open>\s\<close>, \<open>\S\<close>, \<open>\d\<close>, \<open>\w\<close> and bounded repetition.\<close>

definition rdot :: rx where "rdot = RSet (\<lambda>c. code c \<noteq> 10)"
definition rany :: rx where "rany = RSet (\<lambda>c. True)"
definition rspace :: rx where "rspace = RSet is_space"
definition rnspace :: rx where "rnspace = RSet (\<lambda>c. \<not> is_space c)"
definition rdigit :: rx where "rdigit = RSet is_digit"
definition rword :: rx where "rword = RSet is_word"

definition alnum_ascii :: "char \<Rightarrow> bool" where
  "alnum_ascii c \<longleftrightarrow> (let n = code c in 48 \<le> n \<and> n \<le> 57 \<or> 65 \<le> n \<and> n \<le> 90 \<or> 97 \<le> n \<and> n \<le> 122)"

definition rcls :: "string \<Rightarrow> rx" where
  "rcls extra = RSet (\<lambda>c. alnum_ascii c \<or> c \<in> set extra)"

fun rtimes :: "nat \<Rightarrow> rx \<Rightarrow> rx" where
  "rtimes 0 r = REps"
| "rtimes (Suc n) r = RSeq r (rtimes n r)"

fun rup_to :: "nat \<Rightarrow> rx \<Rightarrow> rx" where
  "rup_to 0 r = REps"
| "rup_to (Suc n) r = RAlt (RSeq r (rup_to n r)) REps"

definition rrange :: "nat \<Rightarrow> nat \<Rightarrow> rx \<Rightarrow> rx" where
  "rrange lo hi r = RSeq (rtimes lo r) (rup_to (hi - lo) r)"

section \<open>What a match says\<close>

text \<open>A pattern only moves characters from the rest to the consumed part.\<close>

definition advances :: "mstate \<Rightarrow> mstate \<Rightarrow> bool" where
  "advances s t \<longleftrightarrow> (\<exists>u. m_rest s = u @ m_rest t \<and> m_done t = rev u @ m_done s)"

lemma advances_refl [simp]: "advances s s"
  by (simp add: advances_def)

lemma advances_trans: "advances s t \<Longrightarrow> advances t u \<Longrightarrow> advances s u"
  by (fastforce simp: advances_def)

lemma rx_star_advances:
  assumes "\<And>s t. t \<in> set (f s) \<Longrightarrow> advances s t"
  shows "t \<in> set (rx_star greedy f n s) \<Longrightarrow> advances s t"
proof (induction n arbitrary: s)
  case (Suc n)
  then show ?case using assms
    by (auto simp: Let_def split: if_splits dest!: Suc.IH intro: advances_trans)
qed simp

lemma rx_run_advances: "t \<in> set (rx_run r s) \<Longrightarrow> advances s t"
proof (induction r arbitrary: s t)
  case (RSet p)
  then show ?case by (auto simp: advances_def split: list.splits if_splits)
next
  case (RSeq a b)
  then obtain u where "u \<in> set (rx_run a s)" "t \<in> set (rx_run b u)" by auto
  with RSeq.IH show ?case by (blast intro: advances_trans)
next
  case (RStar greedy r)
  then show ?case by (auto dest: rx_star_advances [rotated])
next
  case (RGroup k r)
  then show ?case by (fastforce simp: advances_def)
qed (auto split: if_splits)

text \<open>A repetition of a character class consumes only characters of the class.\<close>

lemma in_rx_run_RSet:
  "u \<in> set (rx_run (RSet p) s) \<longleftrightarrow>
     (\<exists>c cs. m_rest s = c # cs \<and> p c \<and> u = s\<lparr>m_done := c # m_done s, m_rest := cs\<rparr>)"
  by (cases "m_rest s") auto

lemma rx_star_set:
  "t \<in> set (rx_star greedy (rx_run (RSet p)) n s) \<Longrightarrow>
     \<exists>u. m_rest s = u @ m_rest t \<and> (\<forall>c \<in> set u. p c)"
proof (induction n arbitrary: s)
  case (Suc n)
  from Suc.prems consider "t = s"
    | c cs where "m_rest s = c # cs" "p c"
        "t \<in> set (rx_star greedy (rx_run (RSet p)) n (s\<lparr>m_done := c # m_done s, m_rest := cs\<rparr>))"
    by (auto simp: Let_def in_rx_run_RSet simp del: rx_run.simps(2) split: if_splits)
  then show ?case
  proof cases
    case 1
    then show ?thesis by simp
  next
    case 2
    from Suc.IH [OF 2(3)] obtain u where "cs = u @ m_rest t" "\<forall>c \<in> set u. p c" by auto
    with 2 show ?thesis by (intro exI [of _ "c # u"]) auto
  qed
qed simp

lemma rx_run_star_set:
  assumes "t \<in> set (rx_run (RStar greedy (RSet p)) s)"
  shows "\<exists>u. m_rest s = u @ m_rest t \<and> (\<forall>c \<in> set u. p c)"
  using assms unfolding rx_run.simps(5) by (rule rx_star_set)

lemma rx_run_plus_set:
  assumes "t \<in> set (rx_run (rplus (RSet p)) s)"
  shows "\<exists>u. m_rest s = u @ m_rest t \<and> u \<noteq> [] \<and> (\<forall>c \<in> set u. p c)"
proof -
  from assms obtain c cs where c: "m_rest s = c # cs" "p c"
    "t \<in> set (rx_run (RStar True (RSet p)) (s\<lparr>m_done := c # m_done s, m_rest := cs\<rparr>))"
    unfolding rplus_def by (cases "m_rest s") (auto simp del: rx_run.simps(5) split: if_splits)
  from rx_run_star_set [OF c(3)] obtain u where "cs = u @ m_rest t" "\<forall>c \<in> set u. p c" by auto
  with c show ?thesis by (intro exI [of _ "c # u"]) auto
qed

text \<open>Bounded repetition: how many characters, and which.\<close>

lemma rx_run_up_to_set:
  "t \<in> set (rx_run (rup_to n (RSet p)) s) \<Longrightarrow>
     \<exists>u. m_rest s = u @ m_rest t \<and> length u \<le> n \<and> (\<forall>c \<in> set u. p c)"
proof (induction n arbitrary: s)
  case (Suc n)
  from Suc.prems consider "t = s"
    | c cs where "m_rest s = c # cs" "p c"
        "t \<in> set (rx_run (rup_to n (RSet p)) (s\<lparr>m_done := c # m_done s, m_rest := cs\<rparr>))"
    by (cases "m_rest s") (auto split: if_splits)
  then show ?case
  proof cases
    case 1
    then show ?thesis by simp
  next
    case 2
    from Suc.IH [OF 2(3)] obtain u where "cs = u @ m_rest t" "length u \<le> n" "\<forall>c \<in> set u. p c" by auto
    with 2 show ?thesis by (intro exI [of _ "c # u"]) auto
  qed
qed simp

lemma rx_run_times_set:
  "t \<in> set (rx_run (rtimes n (RSet p)) s) \<Longrightarrow>
     \<exists>u. m_rest s = u @ m_rest t \<and> length u = n \<and> (\<forall>c \<in> set u. p c)"
proof (induction n arbitrary: s)
  case (Suc n)
  then obtain c cs where 2: "m_rest s = c # cs" "p c"
      "t \<in> set (rx_run (rtimes n (RSet p)) (s\<lparr>m_done := c # m_done s, m_rest := cs\<rparr>))"
    by (cases "m_rest s") (auto split: if_splits)
  from Suc.IH [OF 2(3)] obtain u where "cs = u @ m_rest t" "length u = n" "\<forall>c \<in> set u. p c" by auto
  with 2 show ?case by (intro exI [of _ "c # u"]) auto
qed simp

lemma rx_run_range_set:
  assumes "t \<in> set (rx_run (rrange lo hi (RSet p)) s)" "lo \<le> hi"
  shows "\<exists>u. m_rest s = u @ m_rest t \<and> lo \<le> length u \<and> length u \<le> hi \<and> (\<forall>c \<in> set u. p c)"
proof -
  from assms(1) obtain s1 where 1: "s1 \<in> set (rx_run (rtimes lo (RSet p)) s)"
    "t \<in> set (rx_run (rup_to (hi - lo) (RSet p)) s1)" by (auto simp: rrange_def)
  from rx_run_times_set [OF 1(1)] obtain u where u: "m_rest s = u @ m_rest s1" "length u = lo"
    "\<forall>c \<in> set u. p c" by auto
  from rx_run_up_to_set [OF 1(2)] obtain v where v: "m_rest s1 = v @ m_rest t" "length v \<le> hi - lo"
    "\<forall>c \<in> set v. p c" by auto
  from u v assms(2) show ?thesis by (intro exI [of _ "u @ v"]) auto
qed

end
