(* ===== verification/Self_Healing.thy ===== *)
theory Self_Healing
  imports Py_Value Py_Regex
begin

text \<open>
  Self healing, \<open>rfsn_kernel/self_healing\<close>: signals extracted from logs (\<open>signals.py\<close>), the memory of
  failure clusters (\<open>memory.py\<close>) and the core that keeps a window of outcomes and sets the hardening
  level (\<open>core.py\<close>). The clock is read once per operation.
\<close>

section \<open>Signals\<close>

definition error_pattern :: "string \<Rightarrow> rx" where
  "error_pattern name = rseq [rlit_ci (name @ '':''), RStar True rspace, RGroup 1 (rplus rdot)]"

definition FAILURE_PATTERNS :: "(string \<times> rx) list" where
  "FAILURE_PATTERNS =
     [(''import_error'', rseq [ralts [rlit_ci ''ModuleNotFoundError'', rlit_ci ''ImportError''], rlit '':'',
         RStar True rspace, RGroup 1 (rplus rdot)]),
      (''syntax_error'', error_pattern ''SyntaxError''), (''type_error'', error_pattern ''TypeError''),
      (''attribute_error'', error_pattern ''AttributeError''),
      (''recursion_error'', error_pattern ''RecursionError''), (''timeout'', rlit_ci ''[TIMEOUT]''),
      (''oom'', RGroup 1 (ralts [rlit_ci ''MemoryError'', rlit_ci ''Killed'', rlit_ci ''OOMKilled''])),
      (''permission_denied'', error_pattern ''PermissionError''),
      (''file_not_found'', error_pattern ''FileNotFoundError''),
      (''assertion_error'', rlit_ci ''AssertionError''),
      (''test_failure'', rseq [rlit_ci ''FAILED'', rplus rspace, rplus rnspace]),
      (''patch_apply_failed'', ralts [rlit_ci ''error: patch failed'', rlit_ci ''REJECTED:''])]"

record signal =
  sg_failure_type :: string
  sg_stack_fingerprint :: string
  sg_anomaly_score :: rat
  sg_detail :: string
  sg_raw_traceback :: string

definition traceback_head :: string where
  "traceback_head = ''Traceback (most recent call last)''"

definition extract_traceback :: "string \<Rightarrow> string" where
  "extract_traceback logs =
     (let ms = rx_finditer (rseq [rlit (traceback_head @ '':''), RStar False rany,
                 RLook True (RAlt (RSeq (rlit [CHR 10]) rnspace) RLast)]) logs
      in if ms = [] then [] else strip (m_text (last ms)))"

definition is_hex :: "char \<Rightarrow> bool" where
  "is_hex c \<longleftrightarrow> is_digit c \<or> (let n = code c in 65 \<le> n \<and> n \<le> 70 \<or> 97 \<le> n \<and> n \<le> 102)"

definition normalize_traceback :: "string \<Rightarrow> string" where
  "normalize_traceback text =
     (let dd = RSeq rdigit rdigit;
          t1 = rx_sub (rseq [rlit ''line '', rplus rdigit]) ''line N'' text;
          t2 = rx_sub (rseq [rlit ''0x'', rplus (RSet is_hex)]) ''0xADDR'' t1
      in rx_sub (rseq [RSeq dd dd, rlit ''-'', dd, rlit ''-'', dd, RSet (\<lambda>c. c = CHR ''T'' \<or> c = CHR '' ''),
           dd, rlit '':'', dd, rlit '':'', dd]) ''TIMESTAMP'' t2)"

definition fingerprint :: "runtime \<Rightarrow> string \<Rightarrow> string" where
  "fingerprint R text =
     take 16 (rt_sha256 R (if text = [] then ''no_traceback'' else normalize_traceback text))"

text \<open>\<open>s.count(p)\<close> for a non-empty \<open>p\<close>.\<close>

fun count_from :: "nat \<Rightarrow> string \<Rightarrow> string \<Rightarrow> nat" where
  "count_from skip p [] = 0"
| "count_from (Suc k) p (c # cs) = count_from k p cs"
| "count_from 0 p (c # cs) =
     (if prefix p (c # cs) then 1 + count_from (length p - 1) p cs else count_from 0 p cs)"

definition anomaly_score :: "string \<Rightarrow> int \<Rightarrow> string \<Rightarrow> rat" where
  "anomaly_score logs status failure_type =
     min 1 ((if status \<noteq> 0 then 3 / 10 else 0)
       + (if failure_type \<in> {''recursion_error'', ''oom'', ''permission_denied'', ''timeout''} then 4 / 10 else 0)
       + (if 500000 < length logs then 2 / 10 else 0)
       + (if 2 < count_from 0 traceback_head logs then 1 / 10 else 0))"

text \<open>The loop over the patterns with its \<open>break\<close>.\<close>

fun classify :: "(string \<times> rx) list \<Rightarrow> string \<Rightarrow> string \<times> string" where
  "classify [] logs = (''unknown'', [])"
| "classify ((name, r) # ps) logs =
     (case rx_search_in r logs of
        None \<Rightarrow> classify ps logs
      | Some m \<Rightarrow> (name, case m_group (snd m) 1 of Some g \<Rightarrow> g | None \<Rightarrow> m_text m))"

definition extract_signals :: "runtime \<Rightarrow> string \<Rightarrow> int \<Rightarrow> signal" where
  "extract_signals R logs status =
     (if status = 0 then
        \<lparr>sg_failure_type = ''success'', sg_stack_fingerprint = fingerprint R [], sg_anomaly_score = 0,
         sg_detail = [], sg_raw_traceback = []\<rparr>
      else
        let (failure_type, detail) = classify FAILURE_PATTERNS logs; raw = extract_traceback logs
        in \<lparr>sg_failure_type = failure_type, sg_stack_fingerprint = fingerprint R raw,
            sg_anomaly_score = anomaly_score logs status failure_type,
            sg_detail = take 256 (strip detail), sg_raw_traceback = take 2048 raw\<rparr>)"

section \<open>Failure memory\<close>

record root_cause =
  rc_cause_id :: string
  rc_description :: string
  rc_suggested_action :: string
  rc_confidence :: rat

record failure_cluster =
  fc_fingerprint :: string
  fc_failure_type :: string
  fc_first_seen :: rat
  fc_last_seen :: rat
  fc_count :: int
  fc_details :: "string list"
  fc_root_cause :: "root_cause option"

definition record_occurrence :: "rat \<Rightarrow> string \<Rightarrow> failure_cluster \<Rightarrow> failure_cluster" where
  "record_occurrence now detail c =
     c\<lparr>fc_last_seen := now, fc_count := fc_count c + 1,
       fc_details := (if detail \<noteq> [] \<and> detail \<notin> set (fc_details c)
                      then (let ds = fc_details c @ [detail] in if 10 < length ds then last_n 10 ds else ds)
                      else fc_details c)\<rparr>"

definition recurrence_rate :: "failure_cluster \<Rightarrow> rat" where
  "recurrence_rate c = of_int (fc_count c) / (max (fc_last_seen c - fc_first_seen c) 1 / 3600)"

definition is_chronic :: "failure_cluster \<Rightarrow> bool" where
  "is_chronic c \<longleftrightarrow> 3 \<le> fc_count c \<and> 2 < recurrence_rate c"

definition cause :: "string \<Rightarrow> string \<Rightarrow> string \<Rightarrow> rat \<Rightarrow> root_cause" where
  "cause i d a c = \<lparr>rc_cause_id = i, rc_description = d, rc_suggested_action = a, rc_confidence = c\<rparr>"

definition ROOT_CAUSE_TEMPLATES :: "(string \<times> root_cause) list" where
  "ROOT_CAUSE_TEMPLATES =
     [(''import_error'', cause ''missing_dep'' ''A required Python package is not installed.''
         ''reinstall_deps'' (8 / 10)),
      (''syntax_error'', cause ''bad_patch'' ''A patch introduced invalid syntax.'' ''rollback_patch'' (9 / 10)),
      (''timeout'', cause ''infinite_loop'' ''Execution exceeded time limit, likely infinite loop.''
         ''rollback_patch'' (7 / 10)),
      (''recursion_error'', cause ''infinite_recursion'' ''Unbounded recursion detected.''
         ''rollback_patch'' (85 / 100)),
      (''oom'', cause ''memory_exhaustion'' ''Process consumed all available memory.''
         ''increase_mem_limit'' (7 / 10)),
      (''permission_denied'', cause ''sandbox_escape_attempt'' ''Code tried to access a restricted resource.''
         ''harden_capsule'' (6 / 10)),
      (''patch_apply_failed'', cause ''stale_patch'' ''Patch does not match current file state.''
         ''regenerate_patch'' (8 / 10))]"

record failure_memory =
  fm_clusters :: "(string \<times> failure_cluster) list"
  fm_max_clusters :: int

definition new_failure_memory :: "int \<Rightarrow> failure_memory" where
  "new_failure_memory n = \<lparr>fm_clusters = [], fm_max_clusters = n\<rparr>"

text \<open>\<open>min(..., key=last_seen)\<close>: the first of the least recently seen; the empty dict raises.\<close>

fun oldest :: "(string \<times> failure_cluster) list \<Rightarrow> (string \<times> failure_cluster) option" where
  "oldest [] = None"
| "oldest (x # xs) =
     (case oldest xs of
        None \<Rightarrow> Some x
      | Some y \<Rightarrow> if fc_last_seen (snd y) < fc_last_seen (snd x) then Some y else Some x)"

definition diagnose :: "string \<Rightarrow> failure_cluster \<Rightarrow> failure_cluster" where
  "diagnose failure_type c =
     (if fc_root_cause c = None \<and> map_of ROOT_CAUSE_TEMPLATES failure_type \<noteq> None
      then c\<lparr>fc_root_cause := map_of ROOT_CAUSE_TEMPLATES failure_type\<rparr> else c)"

definition make_cluster_room :: "failure_memory \<Rightarrow> failure_memory res" where
  "make_cluster_room m =
     (if fm_max_clusters m \<le> int (length (fm_clusters m)) then
        (case oldest (fm_clusters m) of
           None \<Rightarrow> Inl ValueError
         | Some (k, c) \<Rightarrow> Inr (m\<lparr>fm_clusters := AList.delete k (fm_clusters m)\<rparr>))
      else Inr m)"

definition record_cluster :: "rat \<Rightarrow> string \<Rightarrow> string \<Rightarrow> string \<Rightarrow> failure_memory
    \<Rightarrow> (failure_cluster \<times> failure_memory) res" where
  "record_cluster now fp failure_type detail m =
     (case map_of (fm_clusters m) fp of
        Some c \<Rightarrow>
          (let c' = diagnose failure_type (record_occurrence now detail c)
           in Inr (c', m\<lparr>fm_clusters := AList.update fp c' (fm_clusters m)\<rparr>))
      | None \<Rightarrow>
          ebind (make_cluster_room m) (\<lambda>m.
            (let c = diagnose failure_type
                   \<lparr>fc_fingerprint = fp, fc_failure_type = failure_type, fc_first_seen = now,
                    fc_last_seen = now, fc_count = 1, fc_details = (if detail \<noteq> [] then [detail] else []),
                    fc_root_cause = None\<rparr>
             in Inr (c, m\<lparr>fm_clusters := AList.update fp c (fm_clusters m)\<rparr>))))"

definition chronic_failures :: "failure_memory \<Rightarrow> failure_cluster list" where
  "chronic_failures m = filter is_chronic (map snd (fm_clusters m))"

section \<open>The core\<close>

datatype hardening = FAST | BALANCED | HARDENED

record healing_core =
  hc_memory :: failure_memory
  hc_window_size :: int
  hc_harden_threshold :: rat
  hc_relax_threshold :: rat
  hc_outcomes :: "bool list"
  hc_total_runs :: int
  hc_hardening :: hardening

definition new_core :: "int \<Rightarrow> rat \<Rightarrow> rat \<Rightarrow> healing_core" where
  "new_core window harden relax =
     \<lparr>hc_memory = new_failure_memory 256, hc_window_size = window, hc_harden_threshold = harden,
      hc_relax_threshold = relax, hc_outcomes = [], hc_total_runs = 0, hc_hardening = BALANCED\<rparr>"

definition stability_score :: "healing_core \<Rightarrow> rat" where
  "stability_score h =
     (if hc_outcomes h = [] then 1
      else of_nat (length (filter id (hc_outcomes h))) / of_nat (length (hc_outcomes h)))"

definition level_for :: "rat \<Rightarrow> rat \<Rightarrow> rat \<Rightarrow> hardening" where
  "level_for harden relax score = (if score \<le> harden then HARDENED else if relax \<le> score then FAST else BALANCED)"

definition adjust_hardening :: "healing_core \<Rightarrow> healing_core" where
  "adjust_hardening h =
     h\<lparr>hc_hardening := level_for (hc_harden_threshold h) (hc_relax_threshold h) (stability_score h)\<rparr>"

text \<open>\<open>xs[-w:]\<close>; for \<open>w \<le> 0\<close> the index counts from the front.\<close>

definition last_slice :: "int \<Rightarrow> 'a list \<Rightarrow> 'a list" where
  "last_slice w xs = (if w \<le> 0 then drop (nat (- w)) xs else drop (length xs - nat w) xs)"

definition push_outcome :: "bool \<Rightarrow> healing_core \<Rightarrow> healing_core" where
  "push_outcome success h =
     (let os = hc_outcomes h @ [success]
      in h\<lparr>hc_outcomes := (if hc_window_size h < int (length os) then last_slice (hc_window_size h) os else os),
           hc_total_runs := hc_total_runs h + 1\<rparr>)"

text \<open>The core is returned also when the failure memory raises.\<close>

definition ingest :: "runtime \<Rightarrow> rat \<Rightarrow> string \<Rightarrow> int \<Rightarrow> healing_core \<Rightarrow> signal res \<times> healing_core" where
  "ingest R now logs status h0 =
     (let s = extract_signals R logs status; h = push_outcome (status = 0) h0
      in if status = 0 then (Inr s, adjust_hardening h)
         else case record_cluster now (sg_stack_fingerprint s) (sg_failure_type s) (sg_detail s) (hc_memory h) of
                Inl e \<Rightarrow> (Inl e, h)
              | Inr (c, m) \<Rightarrow>
                  (let h1 = h\<lparr>hc_memory := m\<rparr>;
                       h2 = (if is_chronic c then h1\<lparr>hc_hardening := HARDENED\<rparr> else h1)
                   in (Inr s, adjust_hardening h2)))"

record health_snapshot =
  hs_timestamp :: rat
  hs_stability_score :: rat
  hs_hardening_level :: hardening
  hs_recent_success_rate :: rat
  hs_chronic_failure_count :: nat
  hs_total_runs :: int

definition health_snapshot_of :: "rat \<Rightarrow> healing_core \<Rightarrow> health_snapshot" where
  "health_snapshot_of now h =
     \<lparr>hs_timestamp = now, hs_stability_score = stability_score h, hs_hardening_level = hc_hardening h,
      hs_recent_success_rate = stability_score h,
      hs_chronic_failure_count = length (chronic_failures (hc_memory h)), hs_total_runs = hc_total_runs h\<rparr>"

definition reset_core :: "healing_core \<Rightarrow> healing_core" where
  "reset_core h =
     h\<lparr>hc_outcomes := [], hc_total_runs := 0, hc_hardening := BALANCED,
       hc_memory := (hc_memory h)\<lparr>fm_clusters := []\<rparr>\<rparr>"

section \<open>The failure memory keeps its invariant\<close>

definition cluster_ok :: "string \<times> failure_cluster \<Rightarrow> bool" where
  "cluster_ok p \<longleftrightarrow> fc_fingerprint (snd p) = fst p \<and> 1 \<le> fc_count (snd p) \<and>
     length (fc_details (snd p)) \<le> 10 \<and> distinct (fc_details (snd p))"

definition failure_memory_ok :: "failure_memory \<Rightarrow> bool" where
  "failure_memory_ok m \<longleftrightarrow> dict_ok (fm_clusters m) \<and> 1 \<le> fm_max_clusters m \<and>
     int (length (fm_clusters m)) \<le> fm_max_clusters m \<and> (\<forall>p \<in> set (fm_clusters m). cluster_ok p)"

lemma oldest_in: "oldest xs = Some y \<Longrightarrow> y \<in> set xs"
  by (induction xs arbitrary: y) (auto split: option.splits if_splits)

lemma oldest_None [simp]: "oldest xs = None \<longleftrightarrow> xs = []"
  by (cases xs) (auto split: option.splits)

lemma oldest_least: "oldest xs = Some y \<Longrightarrow> x \<in> set xs \<Longrightarrow> fc_last_seen (snd y) \<le> fc_last_seen (snd x)"
  by (induction xs arbitrary: y) (fastforce split: option.splits if_splits)+

lemma diagnose_fields [simp]:
  "fc_fingerprint (diagnose t c) = fc_fingerprint c" "fc_count (diagnose t c) = fc_count c"
  "fc_details (diagnose t c) = fc_details c" "fc_last_seen (diagnose t c) = fc_last_seen c"
  by (simp_all add: diagnose_def)

lemma record_occurrence_ok: "cluster_ok (k, c) \<Longrightarrow> cluster_ok (k, record_occurrence now detail c)"
  by (auto simp: cluster_ok_def record_occurrence_def Let_def last_n_def distinct_drop dest: in_set_dropD)

lemma make_cluster_room_ok:
  assumes "failure_memory_ok m"
  shows "\<exists>m'. make_cluster_room m = Inr m' \<and> failure_memory_ok m'
    \<and> int (length (fm_clusters m')) < fm_max_clusters m'
    \<and> fm_max_clusters m' = fm_max_clusters m \<and> set (fm_clusters m') \<subseteq> set (fm_clusters m)"
proof (cases "fm_max_clusters m \<le> int (length (fm_clusters m))")
  case True
  with assms have "fm_clusters m \<noteq> []" by (auto simp: failure_memory_ok_def)
  then obtain k c where old: "oldest (fm_clusters m) = Some (k, c)" by (metis oldest_None option.exhaust surj_pair)
  then have "k \<in> fst ` set (fm_clusters m)" by (force dest: oldest_in)
  then have "length (AList.delete k (fm_clusters m)) < length (fm_clusters m)" by (rule length_delete_in)
  with assms True old show ?thesis
    by (auto simp: make_cluster_room_def failure_memory_ok_def dict_simps)
next
  case False
  with assms show ?thesis by (simp add: make_cluster_room_def)
qed

lemma failure_memory_put:
  assumes "failure_memory_ok m" "cluster_ok (fp, c)"
    "fp \<in> fst ` set (fm_clusters m) \<or> int (length (fm_clusters m)) < fm_max_clusters m"
  shows "failure_memory_ok (m\<lparr>fm_clusters := AList.update fp c (fm_clusters m)\<rparr>)"
proof -
  have "\<forall>p \<in> set (AList.update fp c (fm_clusters m)). cluster_ok p"
    using assms(1,2) set_update_subset [of fp c "fm_clusters m"] by (auto simp: failure_memory_ok_def)
  with assms show ?thesis by (auto simp: failure_memory_ok_def dict_simps)
qed

lemma record_cluster_ok:
  assumes "failure_memory_ok m"
  shows "\<exists>c m'. record_cluster now fp t detail m = Inr (c, m') \<and> failure_memory_ok m'
    \<and> map_of (fm_clusters m') fp = Some c"
proof (cases "map_of (fm_clusters m) fp")
  case (Some c)
  then have "cluster_ok (fp, c)" using assms by (auto simp: failure_memory_ok_def dest: map_of_SomeD)
  then have "cluster_ok (fp, diagnose t (record_occurrence now detail c))"
    using record_occurrence_ok [of fp c now detail] by (simp add: cluster_ok_def)
  from failure_memory_put [OF assms this] Some show ?thesis
    by (force simp: record_cluster_def Let_def dict_simps dest: map_of_SomeD)
next
  case None
  from make_cluster_room_ok [OF assms] obtain m' where m': "make_cluster_room m = Inr m'"
    "failure_memory_ok m'" "int (length (fm_clusters m')) < fm_max_clusters m'" by blast
  let ?c = "diagnose t \<lparr>fc_fingerprint = fp, fc_failure_type = t, fc_first_seen = now, fc_last_seen = now,
    fc_count = 1, fc_details = (if detail \<noteq> [] then [detail] else []), fc_root_cause = None\<rparr>"
  have "cluster_ok (fp, ?c)" by (auto simp: cluster_ok_def)
  from failure_memory_put [OF m'(2) this] m' None show ?thesis
    by (auto simp: record_cluster_def Let_def dict_simps)
qed

section \<open>The core as a machine\<close>

datatype healing_op = Ingest rat string int | Reset

fun healing_step :: "runtime \<Rightarrow> healing_core \<Rightarrow> healing_op \<Rightarrow> healing_core" where
  "healing_step R h (Ingest now logs status) = snd (ingest R now logs status h)"
| "healing_step R h Reset = reset_core h"

text \<open>The outcomes since the last reset.\<close>

fun outcome_step :: "bool list \<Rightarrow> healing_op \<Rightarrow> bool list" where
  "outcome_step os (Ingest now logs status) = os @ [status = 0]"
| "outcome_step os Reset = []"

definition healing_config :: "int \<Rightarrow> rat \<Rightarrow> rat \<Rightarrow> healing_core \<Rightarrow> bool" where
  "healing_config w a b h \<longleftrightarrow> hc_window_size h = w \<and> hc_harden_threshold h = a \<and> hc_relax_threshold h = b
     \<and> failure_memory_ok (hc_memory h)"

text \<open>What the core knows after the outcomes \<open>os\<close>: the last \<open>w\<close> of them, and their level.\<close>

definition healing_view :: "int \<Rightarrow> rat \<Rightarrow> rat \<Rightarrow> bool list \<Rightarrow> healing_core \<Rightarrow> bool" where
  "healing_view w a b os h \<longleftrightarrow> hc_outcomes h = last_n (nat w) os \<and> hc_total_runs h = int (length os) \<and>
     hc_hardening h = (if os = [] then BALANCED else level_for a b (stability_score h))"

lemma ingest_memory:
  assumes "failure_memory_ok (hc_memory h)"
  shows "snd (ingest R now logs status h) = adjust_hardening (push_outcome (status = 0) h)
       \<or> (\<exists>m l. failure_memory_ok m \<and>
            snd (ingest R now logs status h)
              = adjust_hardening ((push_outcome (status = 0) h)\<lparr>hc_memory := m, hc_hardening := l\<rparr>))"
proof (cases "status = 0")
  case True
  then show ?thesis by (simp add: ingest_def Let_def)
next
  case False
  let ?s = "extract_signals R logs status"
  obtain c m where "record_cluster now (sg_stack_fingerprint ?s) (sg_failure_type ?s) (sg_detail ?s) (hc_memory h)
      = Inr (c, m)" "failure_memory_ok m"
    using record_cluster_ok [OF assms] by metis
  with False show ?thesis
    by (intro disjI2 exI [of _ m] exI [of _ "if is_chronic c then HARDENED else hc_hardening h"])
       (simp add: ingest_def Let_def push_outcome_def)
qed

lemma adjust_after:
  "adjust_hardening (h\<lparr>hc_memory := m, hc_hardening := l\<rparr>) = (adjust_hardening h)\<lparr>hc_memory := m\<rparr>"
  by (simp add: adjust_hardening_def stability_score_def)

lemma push_outcome_window:
  assumes "0 < hc_window_size h" "hc_outcomes h = last_n (nat (hc_window_size h)) os"
  shows "hc_outcomes (push_outcome x h) = last_n (nat (hc_window_size h)) (os @ [x])"
proof (cases "length os < nat (hc_window_size h)")
  case True
  with assms show ?thesis by (auto simp: push_outcome_def Let_def last_slice_def last_n_def)
next
  case False
  with assms have os: "hc_outcomes h = drop (length os - nat (hc_window_size h)) os"
    by (simp add: last_n_def)
  then have "length (hc_outcomes h) = nat (hc_window_size h)" using False by simp
  moreover have "Suc (length os) - nat (hc_window_size h) = Suc (length os - nat (hc_window_size h))"
    using False by simp
  ultimately show ?thesis
    using assms(1) False by (simp add: push_outcome_def Let_def last_slice_def last_n_def os)
qed

lemma healing_ingest:
  assumes "0 < w" "healing_config w a b h" "healing_view w a b os h"
  shows "healing_config w a b (snd (ingest R now logs status h))
    \<and> healing_view w a b (os @ [status = 0]) (snd (ingest R now logs status h))"
proof -
  let ?p = "push_outcome (status = 0) h"
  have p: "hc_outcomes ?p = last_n (nat w) (os @ [status = 0])" "hc_total_runs ?p = int (length os) + 1"
    "hc_window_size ?p = w" "hc_harden_threshold ?p = a" "hc_relax_threshold ?p = b" "hc_memory ?p = hc_memory h"
    using assms push_outcome_window [of h os "status = 0"]
    by (auto simp: healing_config_def healing_view_def push_outcome_def Let_def)
  have "healing_config w a b (adjust_hardening ?p) \<and> healing_view w a b (os @ [status = 0]) (adjust_hardening ?p)"
    using p assms(2) by (simp add: healing_config_def healing_view_def adjust_hardening_def stability_score_def)
  moreover have "healing_config w a b ((adjust_hardening ?p)\<lparr>hc_memory := m\<rparr>)
      \<and> healing_view w a b (os @ [status = 0]) ((adjust_hardening ?p)\<lparr>hc_memory := m\<rparr>)"
    if "failure_memory_ok m" for m
    using p that by (simp add: healing_config_def healing_view_def adjust_hardening_def stability_score_def)
  moreover have "failure_memory_ok (hc_memory h)" using assms(2) by (simp add: healing_config_def)
  ultimately show ?thesis
    using ingest_memory [of h R now logs status] by (auto simp: adjust_after)
qed

text \<open>The core, paired with the outcomes since the last reset.\<close>

definition healing_pair :: "runtime \<Rightarrow> healing_core \<times> bool list \<Rightarrow> healing_op \<Rightarrow> healing_core \<times> bool list" where
  "healing_pair R p x = (healing_step R (fst p) x, outcome_step (snd p) x)"

lemma foldl_healing_pair:
  "foldl (healing_pair R) (h, os) xs = (foldl (healing_step R) h xs, foldl outcome_step os xs)"
  by (induction xs arbitrary: h os) (auto simp: healing_pair_def)

definition healing_inv :: "int \<Rightarrow> rat \<Rightarrow> rat \<Rightarrow> healing_core \<times> bool list \<Rightarrow> bool" where
  "healing_inv w a b p \<longleftrightarrow> (0 < w \<longrightarrow> healing_config w a b (fst p) \<and> healing_view w a b (snd p) (fst p))"

interpretation healing: machine "healing_pair R" "(new_core w a b, [])" "healing_inv w a b" for R w a b
proof unfold_locales
  show "healing_inv w a b (new_core w a b, [])"
    by (auto simp: healing_inv_def healing_config_def healing_view_def new_core_def new_failure_memory_def
        failure_memory_ok_def last_n_def)
next
  fix p x assume inv: "healing_inv w a b p"
  show "healing_inv w a b (healing_pair R p x)"
  proof (cases x)
    case (Ingest now logs status)
    with inv show ?thesis using healing_ingest [of w a b "fst p" "snd p"]
      by (auto simp: healing_inv_def healing_pair_def)
  next
    case Reset
    with inv show ?thesis
      by (auto simp: healing_inv_def healing_pair_def healing_config_def healing_view_def reset_core_def
          failure_memory_ok_def last_n_def)
  qed
qed

lemma anomaly_bounds: "0 \<le> anomaly_score logs status t \<and> anomaly_score logs status t \<le> 1"
  by (simp add: anomaly_score_def)

lemma signal_bounds:
  "0 \<le> sg_anomaly_score (extract_signals R logs status) \<and> sg_anomaly_score (extract_signals R logs status) \<le> 1
     \<and> length (sg_detail (extract_signals R logs status)) \<le> 256
     \<and> length (sg_raw_traceback (extract_signals R logs status)) \<le> 2048"
  by (auto simp: extract_signals_def Let_def anomaly_bounds split: prod.splits)

lemma healing_run:
  assumes "0 < w"
  shows "healing_config w a b (foldl (healing_step R) (new_core w a b) ops)
    \<and> healing_view w a b (foldl outcome_step [] ops) (foldl (healing_step R) (new_core w a b) ops)"
  using healing.reach_inv [of w a b R ops] assms by (simp add: healing_inv_def foldl_healing_pair)

section \<open>Properties\<close>

text \<open>After any sequence of ingested runs and resets, the core remembers exactly the exit statuses of
  the last \<open>w\<close> runs since the last reset, and the hardening level is the level of the share of
  successes among them, whatever the logs said, when the runs were and which failures recurred. So
  the escalation on a chronic failure never outlasts the call that makes it.\<close>

theorem hardening_follows_window:
  assumes "0 < w" "h = foldl (healing_step R) (new_core w a b) ops" "os = last_n (nat w) (foldl outcome_step [] ops)"
  shows "hc_outcomes h = os \<and> hc_hardening h = (if os = [] then BALANCED
    else level_for a b (of_nat (length (filter id os)) / of_nat (length os)))"
proof -
  have "hc_outcomes h = os" "hc_hardening h = (if foldl outcome_step [] ops = [] then BALANCED
      else level_for a b (stability_score h))"
    using healing_run [OF assms(1), of a b R ops] assms(2,3) by (auto simp: healing_view_def)
  moreover have "foldl outcome_step [] ops = [] \<longleftrightarrow> os = []"
    using assms(1) by (auto simp: assms(3) last_n_def simp flip: length_0_conv)
  ultimately show ?thesis by (auto simp: stability_score_def)
qed

theorem hardening_follows_window_witness:
  "hc_hardening (foldl (healing_step toy_runtime) (new_core 2 (4 / 10) (8 / 10))
     [Ingest 0 ''Killed'' 1, Ingest 1 ''Killed'' 1, Ingest 2 ''Killed'' 1, Ingest 3 [] 0, Ingest 4 [] 0]) = FAST"
  using hardening_follows_window [OF _ refl refl, of 2 toy_runtime "4 / 10" "8 / 10"
    "[Ingest 0 ''Killed'' 1, Ingest 1 ''Killed'' 1, Ingest 2 ''Killed'' 1, Ingest 3 [] 0, Ingest 4 [] 0]"]
  by (simp add: last_n_def level_for_def)

text \<open>After any sequence of ingested runs and resets the failure memory holds at most its maximum of
  clusters, each under its own fingerprint, with a positive count and at most ten distinct details;
  recording a failure never raises, makes room by dropping a least recently seen cluster, and leaves
  the recorded cluster in the memory.\<close>

theorem failure_memory_bounded:
  assumes "0 < w" "m = hc_memory (foldl (healing_step R) (new_core w a b) ops)"
  shows "failure_memory_ok m
    \<and> (\<forall>now fp t detail. \<exists>c m'. record_cluster now fp t detail m = Inr (c, m') \<and> failure_memory_ok m'
         \<and> map_of (fm_clusters m') fp = Some c)
    \<and> (\<forall>k c. oldest (fm_clusters m) = Some (k, c) \<longrightarrow> (\<forall>p \<in> set (fm_clusters m). fc_last_seen c \<le> fc_last_seen (snd p)))"
proof -
  have ok: "failure_memory_ok m"
    using healing_run [OF assms(1), of a b R ops] assms(2) by (simp add: healing_config_def)
  then show ?thesis using record_cluster_ok [OF ok] oldest_least by fastforce
qed

theorem failure_memory_bounded_witness:
  "failure_memory_ok (hc_memory (foldl (healing_step toy_runtime) (new_core 2 (4 / 10) (8 / 10)) [Ingest 0 ''Killed'' 1]))"
  using failure_memory_bounded [OF _ refl, of 2 toy_runtime "4 / 10" "8 / 10" "[Ingest 0 ''Killed'' 1]"] by simp

end
