(* ===== verification/Py_Text.thy ===== *)
theory Py_Text
  imports Py_Value
begin

text \<open>
  More of Python's text operations: splitting and replacing on a separator of several characters,
  the last position of a substring, and the steps of a plan, dictionaries from names to texts.
\<close>

text \<open>\<open>s.split(sep)\<close> for a non-empty separator: matches are found from the left and do not overlap.
  The first argument is the number of characters of a match still to skip.\<close>

fun split_str_from :: "nat \<Rightarrow> string \<Rightarrow> string \<Rightarrow> string \<Rightarrow> string list" where
  "split_str_from (Suc k) sep cur (c # cs) = split_str_from k sep cur cs"
| "split_str_from 0 sep cur (c # cs) =
     (if prefix sep (c # cs) then rev cur # split_str_from (length sep - 1) sep [] cs
      else split_str_from 0 sep (c # cur) cs)"
| "split_str_from k sep cur [] = [rev cur]"

definition split_str :: "string \<Rightarrow> string \<Rightarrow> string list" where
  "split_str sep s = split_str_from 0 sep [] s"

lemma split_str_from_nonempty [simp]: "split_str_from k sep cur s \<noteq> []"
  by (induction k sep cur s rule: split_str_from.induct) auto

lemma split_str_nonempty [simp]: "split_str sep s \<noteq> []"
  by (simp add: split_str_def)

text \<open>Joining the pieces with the separator gives the text back.\<close>

lemma join_Cons: "xs \<noteq> [] \<Longrightarrow> join sep (x # xs) = x @ sep @ join sep xs"
  by (cases xs) auto

lemma join_split_str_from:
  assumes "sep \<noteq> []" "k \<le> length s"
  shows "join sep (split_str_from k sep cur s) = rev cur @ drop k s"
  using assms
proof (induction k sep cur s rule: split_str_from.induct)
  case (2 sep cur c cs)
  show ?case
  proof (cases "prefix sep (c # cs)")
    case True
    then obtain t where t: "c # cs = sep @ t" by (auto simp: prefix_def)
    then have k: "length sep - 1 \<le> length cs" and d: "drop (length sep - 1) cs = t"
      using 2 by (cases sep; auto)+
    have "join sep (split_str_from 0 sep cur (c # cs))
        = rev cur @ sep @ join sep (split_str_from (length sep - 1) sep [] cs)"
      using True by (simp add: join_Cons)
    also have "\<dots> = rev cur @ sep @ t" using 2(1) [OF True 2(3) k] d by simp
    finally show ?thesis using t by simp
  next
    case False
    with 2 show ?thesis by simp
  qed
qed auto

lemma join_split_str: "sep \<noteq> [] \<Longrightarrow> join sep (split_str sep s) = s"
  using join_split_str_from [of sep 0 s "[]"] by (simp add: split_str_def)

text \<open>\<open>s.replace(old, new)\<close> for a non-empty \<open>old\<close>.\<close>

definition replace_str :: "string \<Rightarrow> string \<Rightarrow> string \<Rightarrow> string" where
  "replace_str old new s = join new (split_str old s)"

text \<open>\<open>s.rstrip()\<close> and \<open>s.strip(chars)\<close>.\<close>

definition rstrip :: "string \<Rightarrow> string" where
  "rstrip s = rev (dropWhile is_space (rev s))"

definition strip_chars :: "string \<Rightarrow> string \<Rightarrow> string" where
  "strip_chars cs s = rev (dropWhile (\<lambda>c. c \<in> set cs) (rev (dropWhile (\<lambda>c. c \<in> set cs) s)))"

text \<open>\<open>s.find(p)\<close>: the first position, or -1.\<close>

fun find_from :: "int \<Rightarrow> string \<Rightarrow> string \<Rightarrow> int" where
  "find_from i p [] = (if p = [] then i else -1)"
| "find_from i p (c # cs) = (if prefix p (c # cs) then i else find_from (i + 1) p cs)"

definition find_str :: "string \<Rightarrow> string \<Rightarrow> int" where
  "find_str p s = find_from 0 p s"

text \<open>A prefix \<open>xs[:n]\<close>; a negative \<open>n\<close> counts from the end.\<close>

definition slice_to :: "int \<Rightarrow> 'a list \<Rightarrow> 'a list" where
  "slice_to n xs = (if 0 \<le> n then take (nat n) xs else take (length xs - nat (- n)) xs)"

lemma length_slice_to: "0 \<le> n \<Longrightarrow> int (length (slice_to n xs)) \<le> n"
  by (simp add: slice_to_def)

lemma set_slice_to: "set (slice_to n xs) \<subseteq> set xs"
  by (simp add: slice_to_def set_take_subset)

end
