(* ===== verification/Planner.thy ===== *)
theory Planner
  imports Py_Text Simulate "HOL-Library.Multiset"
begin

text \<open>
  The hierarchical planner, \<open>rfsn_kernel/planner.py\<close>: a goal is decomposed into subgoals, the current
  one is turned into a tactical plan, and completion, stagnation and escalation move along the
  subgoals. Subgoals are mutable objects that the strategic state, the plans and the callers share,
  so they live in a heap (a list, a reference is a position) to which every goal adds its own.

  The abstract view of the strategic layer is the queue of open subgoals with their attempts. The
  methods refine the operations of that queue, from which it follows that the planner gets through
  its subgoals.
\<close>

section \<open>State\<close>

record sub_goal =
  sg_goal_id :: string
  sg_description :: string
  sg_completed :: bool
  sg_attempts :: int
  sg_max_attempts :: int

definition subgoal_dict :: "sub_goal \<Rightarrow> pydict" where
  "subgoal_dict sg =
     [(PStr ''goal_id'', PStr (sg_goal_id sg)), (PStr ''description'', PStr (sg_description sg)),
      (PStr ''completed'', PBool (sg_completed sg)), (PStr ''attempts'', PInt (sg_attempts sg))]"

text \<open>The steps of a plan map names to texts.\<close>

type_synonym plan_step = "(string \<times> string) list"

record tactical_plan =
  tp_subgoal :: nat
  tp_actions :: "plan_step list"
  tp_expected_outcome :: string
  tp_fallback :: "plan_step list"
  tp_cost_estimate :: rat
  tp_risk_estimate :: rat

record strategic_state =
  ss_goal :: string
  ss_subgoals :: "nat list"
  ss_current_idx :: nat
  ss_progress :: rat
  ss_stability :: rat
  ss_stagnation :: int
  ss_total_attempts :: int
  ss_escalations :: int

record planner =
  pl_heap :: "sub_goal list"
  pl_state :: strategic_state
  pl_max_stagnation :: int
  pl_max_escalations :: int
  pl_plans :: "tactical_plan list"
  pl_current_plan :: "tactical_plan option"

definition fresh_strategy :: strategic_state where
  "fresh_strategy =
     \<lparr>ss_goal = [], ss_subgoals = [], ss_current_idx = 0, ss_progress = 0, ss_stability = 1,
      ss_stagnation = 0, ss_total_attempts = 0, ss_escalations = 0\<rparr>"

definition new_planner :: "int \<Rightarrow> int \<Rightarrow> planner" where
  "new_planner max_stagnation max_escalations =
     \<lparr>pl_heap = [], pl_state = fresh_strategy, pl_max_stagnation = max_stagnation,
      pl_max_escalations = max_escalations, pl_plans = [], pl_current_plan = None\<rparr>"

definition reset_planner :: "planner \<Rightarrow> planner" where
  "reset_planner p = p\<lparr>pl_state := fresh_strategy, pl_plans := [], pl_current_plan := None\<rparr>"

abbreviation upd_strategy :: "(strategic_state \<Rightarrow> strategic_state) \<Rightarrow> planner \<Rightarrow> planner" where
  "upd_strategy f p \<equiv> p\<lparr>pl_state := f (pl_state p)\<rparr>"

definition plan_dict :: "sub_goal list \<Rightarrow> tactical_plan \<Rightarrow> pydict" where
  "plan_dict heap t =
     [(PStr ''subgoal'', PDict (subgoal_dict (heap ! tp_subgoal t))),
      (PStr ''actions'', PList (map (\<lambda>a. PDict (map (\<lambda>(k, v). (PStr k, PStr v)) a)) (tp_actions t))),
      (PStr ''expected_outcome'', PStr (tp_expected_outcome t)),
      (PStr ''fallback_count'', PInt (int (length (tp_fallback t)))),
      (PStr ''cost_estimate'', PFloat (tp_cost_estimate t))]"

section \<open>Strategic layer\<close>

definition FIX_GENERIC :: "string list" where
  "FIX_GENERIC =
     [''Search for code relevant to the task'', ''Read relevant source files'',
      ''Apply a minimal, targeted fix'', ''Run targeted tests'', ''Run full test suite'']"

definition DECOMPOSITION_TEMPLATES :: "(string \<times> string list) list" where
  "DECOMPOSITION_TEMPLATES =
     [(''fix_test'',
       [''Locate the failing test and read its assertions'', ''Search for the implementation under test'',
        ''Read the implementation to understand the bug'', ''Apply a minimal fix to the implementation'',
        ''Run targeted tests to verify the fix'', ''Run full test suite to confirm no regressions'']),
      (''fix_import'',
       [''Identify the missing module or broken import'',
        ''Determine if it's an internal or external dependency'',
        ''Fix the import path or install the dependency'', ''Verify the import resolves correctly'',
        ''Run tests to confirm no regressions'']),
      (''fix_syntax'',
       [''Locate the syntax error from the traceback'', ''Read the surrounding code context'',
        ''Apply a surgical syntax fix'', ''Run tests to verify the fix'']),
      (''fix_generic'', FIX_GENERIC)]"

definition template_for :: "string \<Rightarrow> string list" where
  "template_for task_type =
     (case map_of DECOMPOSITION_TEMPLATES task_type of None \<Rightarrow> FIX_GENERIC | Some t \<Rightarrow> t)"

definition new_subgoal :: "nat \<Rightarrow> string \<Rightarrow> sub_goal" where
  "new_subgoal i desc =
     \<lparr>sg_goal_id = ''sg-'' @ int_str (int i + 1), sg_description = desc, sg_completed = False,
      sg_attempts = 0, sg_max_attempts = 3\<rparr>"

text \<open>\<open>set_goal\<close> keeps stability, stagnation and escalations of the goal before. The result is the list
  of the new subgoals.\<close>

definition set_goal :: "string \<Rightarrow> string \<Rightarrow> planner \<Rightarrow> nat list \<times> planner" where
  "set_goal goal task_type p =
     (let new = map (\<lambda>(i, d). new_subgoal i d) (enumerate 0 (template_for task_type));
          refs = [length (pl_heap p)..<length (pl_heap p) + length new]
      in (refs, upd_strategy (\<lambda>s. s\<lparr>ss_goal := goal, ss_subgoals := refs, ss_current_idx := 0,
                                     ss_progress := 0\<rparr>) (p\<lparr>pl_heap := pl_heap p @ new\<rparr>)))"

text \<open>The first position from \<open>i\<close> on with an open subgoal.\<close>

fun next_open :: "sub_goal list \<Rightarrow> nat \<Rightarrow> nat list \<Rightarrow> (nat \<times> nat) option" where
  "next_open heap i [] = None"
| "next_open heap i (r # rs) =
     (if sg_completed (heap ! r) then next_open heap (i + 1) rs else Some (i, r))"

definition current_subgoal :: "planner \<Rightarrow> nat option \<times> planner" where
  "current_subgoal p =
     (let idx = ss_current_idx (pl_state p); refs = ss_subgoals (pl_state p)
      in if idx < length refs \<and> \<not> sg_completed (pl_heap p ! (refs ! idx)) then (Some (refs ! idx), p)
         else case next_open (pl_heap p) 0 refs of
                None \<Rightarrow> (None, p)
              | Some (i, r) \<Rightarrow> (Some r, upd_strategy (\<lambda>s. s\<lparr>ss_current_idx := i\<rparr>) p))"

abbreviation open_subgoals :: "planner \<Rightarrow> nat list" where
  "open_subgoals p \<equiv> filter (\<lambda>r. \<not> sg_completed (pl_heap p ! r)) (ss_subgoals (pl_state p))"

abbreviation closed_subgoals :: "planner \<Rightarrow> nat list" where
  "closed_subgoals p \<equiv> filter (\<lambda>r. sg_completed (pl_heap p ! r)) (ss_subgoals (pl_state p))"

definition update_progress :: "planner \<Rightarrow> planner" where
  "update_progress p =
     (if ss_subgoals (pl_state p) = [] then upd_strategy (\<lambda>s. s\<lparr>ss_progress := 0\<rparr>) p
      else upd_strategy (\<lambda>s. s\<lparr>ss_progress :=
             of_nat (length (closed_subgoals p)) / of_nat (length (ss_subgoals (pl_state p)))\<rparr>) p)"

definition upd_subgoal :: "nat \<Rightarrow> (sub_goal \<Rightarrow> sub_goal) \<Rightarrow> planner \<Rightarrow> planner" where
  "upd_subgoal r f p = p\<lparr>pl_heap := (pl_heap p)[r := f (pl_heap p ! r)]\<rparr>"

definition complete :: "nat \<Rightarrow> planner \<Rightarrow> planner" where
  "complete r p = update_progress (upd_subgoal r (\<lambda>sg. sg\<lparr>sg_completed := True\<rparr>) p)"

definition advance_subgoal :: "planner \<Rightarrow> nat option \<times> planner" where
  "advance_subgoal p =
     (case current_subgoal p of
        (None, p1) \<Rightarrow> current_subgoal p1
      | (Some r, p1) \<Rightarrow>
          current_subgoal (upd_strategy (\<lambda>s. s\<lparr>ss_stagnation := 0\<rparr>) (complete r p1)))"

definition record_no_progress :: "planner \<Rightarrow> bool \<times> planner" where
  "record_no_progress p =
     (let p' = upd_strategy (\<lambda>s. s\<lparr>ss_stagnation := ss_stagnation s + 1,
                                    ss_stability := max 0 (ss_stability s - 1 / 10)\<rparr>) p
      in (pl_max_stagnation p' \<le> ss_stagnation (pl_state p'), p'))"

definition escalate_subgoal :: "planner \<Rightarrow> nat option \<times> planner" where
  "escalate_subgoal p =
     (case current_subgoal (upd_strategy (\<lambda>s. s\<lparr>ss_escalations := ss_escalations s + 1,
                                                  ss_stagnation := 0\<rparr>) p) of
        (None, p1) \<Rightarrow> (None, p1)
      | (Some r, p1) \<Rightarrow>
          (let p2 = upd_subgoal r (\<lambda>sg. sg\<lparr>sg_attempts := sg_attempts sg + 1\<rparr>) p1
           in if sg_max_attempts (pl_heap p2 ! r) \<le> sg_attempts (pl_heap p2 ! r)
              then current_subgoal (complete r p2)
              else (Some r, p2)))"

section \<open>Tactical layer\<close>

definition plan_action :: "string \<Rightarrow> string \<Rightarrow> plan_step" where
  "plan_action ty phase = [(''type'', ty), (''phase'', phase)]"

text \<open>The rows of \<open>tactical_plan\<close>: words to look for and the action they add.\<close>

definition ACTION_WORDS :: "(string list \<times> plan_step) list" where
  "ACTION_WORDS =
     [([''search'', ''locate'', ''find''], plan_action ''repo_search'' ''search''),
      ([''read'', ''understand''], plan_action ''repo_read_range'' ''read''),
      ([''fix'', ''patch'', ''apply''], plan_action ''apply_patch'' ''patch''),
      ([''test'', ''verify'', ''confirm''], plan_action ''run_tests'' ''test''),
      ([''install'', ''dependency''], plan_action ''ensure_deps'' ''deps'')]"

definition plan_actions :: "string \<Rightarrow> plan_step list" where
  "plan_actions desc =
     (let actions = map snd (filter (\<lambda>(ws, a). \<exists>w \<in> set ws. occurs_in w (lower desc)) ACTION_WORDS)
      in if actions = [] then [plan_action ''repo_search'' ''search'', plan_action ''repo_read_range'' ''read'']
         else actions)"

definition plan_fallback :: "plan_step list \<Rightarrow> plan_step list" where
  "plan_fallback actions =
     (if \<exists>a \<in> set actions. map_of a ''type'' = Some ''apply_patch''
      then [plan_action ''repo_search'' ''retry_search'', plan_action ''repo_read_range'' ''retry_read'',
            plan_action ''apply_patch'' ''retry_patch'']
      else [])"

definition tactical_plan_for :: "nat \<Rightarrow> planner \<Rightarrow> tactical_plan \<times> planner" where
  "tactical_plan_for r p =
     (let desc = sg_description (pl_heap p ! r); actions = plan_actions desc;
          plan = \<lparr>tp_subgoal = r, tp_actions = actions, tp_expected_outcome = ''Complete: '' @ desc,
                  tp_fallback = plan_fallback actions, tp_cost_estimate = 0, tp_risk_estimate = 0\<rparr>
      in (plan, p\<lparr>pl_current_plan := Some plan, pl_plans := pl_plans p @ [plan]\<rparr>))"

text \<open>\<open>rank_actions\<close>; the simulation sees a proposal without parameters.\<close>

definition candidate_proposal :: "plan_step \<Rightarrow> proposal" where
  "candidate_proposal c =
     \<lparr>pr_action = (case map_of c ''type'' of None \<Rightarrow> ''repo_search'' | Some t \<Rightarrow> t), pr_params = [],
      pr_context_hash = [], pr_planner_hash = [], pr_timestamp = 0, pr_intent = [], pr_bundle_id = []\<rparr>"

definition simulate_candidate :: "system_state \<Rightarrow> outcome_history \<Rightarrow> plan_step \<Rightarrow> sim_result res" where
  "simulate_candidate s h c = simulate (candidate_proposal c) s (Some h) [] None 0 None [] []"

fun score_candidates :: "system_state \<Rightarrow> outcome_history \<Rightarrow> plan_step list \<Rightarrow> (rat \<times> plan_step) list res" where
  "score_candidates s h [] = Inr []"
| "score_candidates s h (c # cs) =
     ebind (simulate_candidate s h c) (\<lambda>sim.
     ebind (score_candidates s h cs) (\<lambda>scored.
       Inr (if 7 / 10 < sr_loop_risk sim then scored else (sr_success_prob sim, c) # scored)))"

definition rank_actions :: "system_state \<Rightarrow> outcome_history \<Rightarrow> plan_step list \<Rightarrow> plan_step list res" where
  "rank_actions s h cs = ebind (score_candidates s h cs) (\<lambda>scored. Inr (map snd (sort_desc fst scored)))"

text \<open>\<open>select_template\<close>: the action sequence of the first entry with a good record that names one.\<close>

definition recorded_steps :: "string \<Rightarrow> string list res" where
  "recorded_steps content =
     (case split_words (last (split_str ''actions='' content)) of
        [] \<Rightarrow> Inl IndexError
      | w # ws \<Rightarrow> Inr (filter (\<lambda>s. s \<noteq> []) (map strip (split_char CHR '','' w))))"

definition good_record :: "memory_entry \<Rightarrow> bool" where
  "good_record e \<longleftrightarrow>
     (let n = me_success_count e + me_failure_count e
      in 2 \<le> n \<and> 6 / 10 \<le> (of_int (me_success_count e) / of_int n :: rat))"

fun winning_steps :: "memory_entry list \<Rightarrow> string list option res" where
  "winning_steps [] = Inr None"
| "winning_steps (e # es) =
     (if good_record e \<and> occurs_in ''actions='' (me_content e)
      then ebind (recorded_steps (me_content e)) (\<lambda>steps.
             if steps \<noteq> [] then Inr (Some steps) else winning_steps es)
      else winning_steps es)"

definition select_template :: "string \<Rightarrow> rat \<Rightarrow> memory_system option \<Rightarrow> string list res" where
  "select_template task_type now memory =
     ebind (case memory of
              None \<Rightarrow> Inr None
            | Some m \<Rightarrow> winning_steps (retrieve_relevant task_type ''strategy_result'' 3 now m))
       (\<lambda>found. Inr (case found of Some steps \<Rightarrow> steps | None \<Rightarrow> template_for task_type))"

section \<open>Execution layer\<close>

definition round_to3 :: "rat \<Rightarrow> rat" where
  "round_to3 x = of_int (round_half_even (x * 1000)) / 1000"

definition planner_context :: "planner \<Rightarrow> pydict \<times> planner" where
  "planner_context p0 =
     (case current_subgoal p0 of (cur, p) \<Rightarrow>
        ([(PStr ''goal'', PStr (ss_goal (pl_state p))),
          (PStr ''progress'', PFloat (round_to3 (ss_progress (pl_state p)))),
          (PStr ''stability'', PFloat (round_to3 (ss_stability (pl_state p)))),
          (PStr ''current_subgoal'',
             case cur of None \<Rightarrow> PNone | Some r \<Rightarrow> PDict (subgoal_dict (pl_heap p ! r))),
          (PStr ''current_plan'',
             case pl_current_plan p of None \<Rightarrow> PNone | Some t \<Rightarrow> PDict (plan_dict (pl_heap p) t)),
          (PStr ''remaining_subgoals'', PInt (int (length (open_subgoals p)))),
          (PStr ''escalation_count'', PInt (ss_escalations (pl_state p))),
          (PStr ''stagnation'', PInt (ss_stagnation (pl_state p)))], p))"

text \<open>The lines of the guidance. The marks of the lessons, a tick and a cross outside Latin-1, are
  written \<open>+\<close> and \<open>x\<close>.\<close>

definition lesson_line :: "runtime \<Rightarrow> memory_entry \<Rightarrow> string" where
  "lesson_line R e =
     (let n = me_success_count e + me_failure_count e;
          wr = (if 0 < n then of_int (me_success_count e) / of_int n else 0);
          label = (if 0 < n then if 1 / 2 \<le> wr then ''+'' else ''x'' else ''?'')
      in ''- ['' @ label @ ''] '' @ take 120 (me_content e) @ '' (quality='' @ rt_fixed R 2 (me_quality_score e)
         @ '', win_rate='' @ rt_fixed R 0 (wr * 100) @ ''%)'')"

definition lessons :: "runtime \<Rightarrow> rat \<Rightarrow> memory_system option \<Rightarrow> string \<Rightarrow> string list" where
  "lessons R now memory query =
     (case memory of
        None \<Rightarrow> []
      | Some m \<Rightarrow>
          (let relevant = retrieve_relevant query ''action_outcome'' 3 now m
           in if relevant = [] then []
              else [''''] @ [''## Lessons Learned (from memory)''] @ map (lesson_line R) relevant))"

definition critique_lines :: "string \<Rightarrow> string list" where
  "critique_lines last_error =
     (if last_error = [] then []
      else [''## Self-Critique (Previous Step Failed)'', ''Error: '' @ last_error,
            ''Analysis: The previous action failed. You must adjust your approach.'', ''''])"

definition warning_lines :: "strategic_state \<Rightarrow> string list" where
  "warning_lines s =
     (if 0 < ss_stagnation s
      then [''WARNING: '' @ int_str (ss_stagnation s) @ '' steps without progress. Focus or escalate.'']
      else [])
     @ (if ss_stability s < 1 / 2 then [''WARNING: System stability low. Use conservative actions.''] else [])"

definition step_type :: "plan_step \<Rightarrow> string" where
  "step_type a = (case map_of a ''type'' of None \<Rightarrow> [] | Some t \<Rightarrow> t)"

definition planner_guidance ::
    "runtime \<Rightarrow> rat \<Rightarrow> string \<Rightarrow> memory_system option \<Rightarrow> planner \<Rightarrow> string \<times> planner" where
  "planner_guidance R now last_error memory p0 =
     (case current_subgoal p0 of
        (None, p) \<Rightarrow> (''All subgoals completed. Verify final state.'', p)
      | (Some r, p) \<Rightarrow>
          (let sg = pl_heap p ! r; s = pl_state p in
           (join [CHR 0x0A]
              (critique_lines last_error
               @ [''## Strategic Context (progress: '' @ int_str (rat_trunc (ss_progress s * 100)) @ ''%)'',
                  ''Current subgoal ['' @ sg_goal_id sg @ '']: '' @ sg_description sg]
               @ (case pl_current_plan p of
                    None \<Rightarrow> []
                  | Some t \<Rightarrow> [''Expected actions: '' @ join '', '' (map step_type (tp_actions t))])
               @ warning_lines s
               @ [''Remaining subgoals: '' @ int_str (int (length (open_subgoals p)))]
               @ lessons R now memory (sg_description sg @ '' '' @ ss_goal s)), p)))"

definition classify_task :: "string \<Rightarrow> string \<Rightarrow> string" where
  "classify_task task failure_class =
     (let t = lower task; f = lower failure_class
      in if occurs_in ''import'' f \<or> occurs_in ''module'' f then ''fix_import''
         else if occurs_in ''syntax'' f then ''fix_syntax''
         else if occurs_in ''assert'' f \<or> occurs_in ''test'' t then ''fix_test''
         else ''fix_generic'')"

definition planner_stats :: "planner \<Rightarrow> pydict" where
  "planner_stats p =
     [(PStr ''goal'', PStr (ss_goal (pl_state p))),
      (PStr ''subgoals_total'', PInt (int (length (ss_subgoals (pl_state p))))),
      (PStr ''subgoals_completed'', PInt (int (length (closed_subgoals p)))),
      (PStr ''progress'', PFloat (round_to3 (ss_progress (pl_state p)))),
      (PStr ''stability'', PFloat (round_to3 (ss_stability (pl_state p)))),
      (PStr ''plans_created'', PInt (int (length (pl_plans p)))),
      (PStr ''escalations'', PInt (ss_escalations (pl_state p))),
      (PStr ''stagnation'', PInt (ss_stagnation (pl_state p)))]"

definition strategy_dict :: "planner \<Rightarrow> pydict" where
  "strategy_dict p =
     [(PStr ''goal'', PStr (ss_goal (pl_state p))),
      (PStr ''subgoal_count'', PInt (int (length (ss_subgoals (pl_state p))))),
      (PStr ''completed_count'', PInt (int (length (closed_subgoals p)))),
      (PStr ''current_idx'', PInt (int (ss_current_idx (pl_state p)))),
      (PStr ''progress'', PFloat (round_to3 (ss_progress (pl_state p)))),
      (PStr ''stability'', PFloat (round_to3 (ss_stability (pl_state p)))),
      (PStr ''stagnation'', PInt (ss_stagnation (pl_state p)))]"

section \<open>The strategic layer as a queue\<close>

definition planner_ok :: "planner \<Rightarrow> bool" where
  "planner_ok p \<longleftrightarrow>
     distinct (ss_subgoals (pl_state p))
     \<and> (\<forall>r \<in> set (ss_subgoals (pl_state p)). r < length (pl_heap p) \<and> sg_max_attempts (pl_heap p ! r) = 3
          \<and> 0 \<le> sg_attempts (pl_heap p ! r) \<and> (\<not> sg_completed (pl_heap p ! r) \<longrightarrow> sg_attempts (pl_heap p ! r) < 3))
     \<and> (\<forall>j < ss_current_idx (pl_state p). j < length (ss_subgoals (pl_state p)) \<longrightarrow>
          sg_completed (pl_heap p ! (ss_subgoals (pl_state p) ! j)))
     \<and> ss_progress (pl_state p) =
         of_nat (length (closed_subgoals p)) / of_nat (length (ss_subgoals (pl_state p)))
     \<and> 0 \<le> ss_stability (pl_state p) \<and> ss_stability (pl_state p) \<le> 1
     \<and> 0 \<le> ss_stagnation (pl_state p) \<and> 0 \<le> ss_escalations (pl_state p)"

lemma next_open_None: "next_open heap i rs = None \<longleftrightarrow> (\<forall>r \<in> set rs. sg_completed (heap ! r))"
  by (induction rs arbitrary: i) auto

lemma next_open_Some:
  "next_open heap i rs = Some (k, r) \<Longrightarrow>
     i \<le> k \<and> k - i < length rs \<and> r = rs ! (k - i) \<and> \<not> sg_completed (heap ! r)
     \<and> (\<forall>j < k - i. sg_completed (heap ! (rs ! j)))"
proof (induction rs arbitrary: i)
  case Nil
  then show ?case by simp
next
  case (Cons x rs)
  show ?case
  proof (cases "sg_completed (heap ! x)")
    case True
    with Cons.prems have "next_open heap (i + 1) rs = Some (k, r)" by simp
    from Cons.IH [OF this] True have "Suc i \<le> k" and
      rest: "k - Suc i < length rs" "r = rs ! (k - Suc i)" "\<not> sg_completed (heap ! r)"
        "\<forall>j < k - Suc i. sg_completed (heap ! (rs ! j))" by auto
    then have k: "k - i = Suc (k - Suc i)" by simp
    show ?thesis
      unfolding k using rest True \<open>Suc i \<le> k\<close> by (auto simp: less_Suc_eq_0_disj)
  next
    case False
    with Cons.prems show ?thesis by auto
  qed
qed

lemma filter_first:
  assumes "k < length xs" "P (xs ! k)" "\<forall>j < k. \<not> P (xs ! j)"
  shows "filter P xs = xs ! k # filter P (drop (Suc k) xs)"
proof -
  have "filter P (take k xs) = []"
    using assms(1,3) by (auto simp: filter_empty_conv in_set_conv_nth)
  moreover have "xs = take k xs @ xs ! k # drop (Suc k) xs"
    by (rule id_take_nth_drop [OF assms(1)])
  ultimately show ?thesis
    using assms(2) by (metis append_Nil filter.simps(2) filter_append)
qed

abbreviation move_to :: "nat \<Rightarrow> planner \<Rightarrow> planner" where
  "move_to i \<equiv> upd_strategy (\<lambda>s. s\<lparr>ss_current_idx := i\<rparr>)"

text \<open>The current subgoal is the first open one; finding it moves at most the index.\<close>

lemma current_subgoal_first:
  assumes ok: "planner_ok p"
  obtains i where "current_subgoal p = ((case open_subgoals p of [] \<Rightarrow> None | r # q \<Rightarrow> Some r), move_to i p)"
    "planner_ok (move_to i p)"
proof -
  let ?s = "pl_state p" and ?refs = "ss_subgoals (pl_state p)"
  have keep: "move_to (ss_current_idx ?s) p = p" by simp
  have before: "\<forall>j < ss_current_idx ?s. j < length ?refs \<longrightarrow> sg_completed (pl_heap p ! (?refs ! j))"
    using ok by (simp add: planner_ok_def)
  show thesis
  proof (cases "ss_current_idx ?s < length ?refs \<and> \<not> sg_completed (pl_heap p ! (?refs ! ss_current_idx ?s))")
    case True
    with before have "open_subgoals p = ?refs ! ss_current_idx ?s # filter (\<lambda>r. \<not> sg_completed (pl_heap p ! r)) (drop (Suc (ss_current_idx ?s)) ?refs)"
      by (intro filter_first) auto
    with True ok keep show thesis
      by (intro that [of "ss_current_idx ?s"]) (auto simp: current_subgoal_def Let_def)
  next
    case False
    show thesis
    proof (cases "next_open (pl_heap p) 0 ?refs")
      case None
      then have "open_subgoals p = []" by (auto simp: next_open_None filter_empty_conv)
      with False None ok keep show thesis
        by (intro that [of "ss_current_idx ?s"]) (auto simp: current_subgoal_def Let_def)
    next
      case (Some kr)
      obtain k r where kr: "kr = (k, r)" by fastforce
      from next_open_Some [OF Some [unfolded kr]]
      have k: "k < length ?refs" "r = ?refs ! k" "\<not> sg_completed (pl_heap p ! (?refs ! k))"
        "\<forall>j < k. sg_completed (pl_heap p ! (?refs ! j))" by auto
      then have "open_subgoals p = ?refs ! k # filter (\<lambda>r. \<not> sg_completed (pl_heap p ! r)) (drop (Suc k) ?refs)"
        by (intro filter_first) auto
      moreover have "planner_ok (move_to k p)"
        using ok k by (auto simp: planner_ok_def)
      ultimately show thesis
        using False Some kr k(2) by (intro that [of k]) (auto simp: current_subgoal_def Let_def)
    qed
  qed
qed

text \<open>Completing the first open subgoal takes it off the queue.\<close>

lemma update_progress_ok:
  "ss_progress (pl_state (update_progress p)) =
     of_nat (length (closed_subgoals p)) / of_nat (length (ss_subgoals (pl_state p)))"
  by (simp add: update_progress_def)

lemma update_progress_frame [simp]:
  "pl_heap (update_progress p) = pl_heap p"
  "ss_subgoals (pl_state (update_progress p)) = ss_subgoals (pl_state p)"
  "ss_current_idx (pl_state (update_progress p)) = ss_current_idx (pl_state p)"
  "ss_stability (pl_state (update_progress p)) = ss_stability (pl_state p)"
  "ss_stagnation (pl_state (update_progress p)) = ss_stagnation (pl_state p)"
  "ss_escalations (pl_state (update_progress p)) = ss_escalations (pl_state p)"
  by (simp_all add: update_progress_def)

lemma complete_frame [simp]:
  "ss_subgoals (pl_state (complete r p)) = ss_subgoals (pl_state p)"
  "ss_current_idx (pl_state (complete r p)) = ss_current_idx (pl_state p)"
  "ss_stability (pl_state (complete r p)) = ss_stability (pl_state p)"
  "ss_stagnation (pl_state (complete r p)) = ss_stagnation (pl_state p)"
  "ss_escalations (pl_state (complete r p)) = ss_escalations (pl_state p)"
  "pl_heap (complete r p) = (pl_heap p)[r := (pl_heap p ! r)\<lparr>sg_completed := True\<rparr>]"
  by (simp_all add: complete_def upd_subgoal_def)

lemma complete_progress:
  "ss_progress (pl_state (complete r p)) =
     of_nat (length (closed_subgoals (complete r p))) / of_nat (length (ss_subgoals (pl_state p)))"
  by (simp add: complete_def upd_subgoal_def update_progress_ok del: complete_frame)

lemma open_first:
  assumes "planner_ok p" "open_subgoals p = r # q"
  shows "r < length (pl_heap p)" "r \<in> set (ss_subgoals (pl_state p))" "r \<notin> set q" "\<not> sg_completed (pl_heap p ! r)"
proof -
  from assms(2) have "r \<in> set (open_subgoals p)" by simp
  then show "r \<in> set (ss_subgoals (pl_state p))" "\<not> sg_completed (pl_heap p ! r)" by simp_all
  then show "r < length (pl_heap p)" using assms(1) by (auto simp: planner_ok_def)
  have "distinct (open_subgoals p)" using assms(1) by (simp add: planner_ok_def)
  with assms(2) show "r \<notin> set q" by simp
qed

lemma complete_first:
  assumes ok: "planner_ok p" and q: "open_subgoals p = r # q"
  shows "open_subgoals (complete r p) = q" "planner_ok (complete r p)"
proof -
  note r = open_first [OF ok q]
  have closed: "sg_completed (pl_heap (complete r p) ! x) \<longleftrightarrow> x = r \<or> sg_completed (pl_heap p ! x)" for x
    using r(1) by (simp add: nth_list_update)
  have "open_subgoals (complete r p) = filter (\<lambda>x. x \<noteq> r) (open_subgoals p)"
    unfolding complete_frame(1) filter_filter
    by (rule filter_cong) (auto simp: closed [unfolded complete_frame(6)])
  also have "\<dots> = q" using q r(3) by (auto intro: filter_True)
  finally show "open_subgoals (complete r p) = q" .
  show "planner_ok (complete r p)"
    using ok r(1) complete_progress [of r p] unfolding planner_ok_def
    by (auto simp: nth_list_update)
qed

text \<open>The abstract machine: how many subgoals the goal has, and the open ones with their attempts.\<close>

type_synonym goal_queue = "nat \<times> (string \<times> int) list"

definition queue_of :: "planner \<Rightarrow> goal_queue" where
  "queue_of p =
     (length (ss_subgoals (pl_state p)),
      map (\<lambda>r. (sg_description (pl_heap p ! r), sg_attempts (pl_heap p ! r))) (open_subgoals p))"

datatype planner_op =
  SetGoal string string | CurrentSubgoal | Advance | NoProgress | Escalate | Tactical nat | ResetPlanner

fun queue_step :: "goal_queue \<Rightarrow> planner_op \<Rightarrow> goal_queue" where
  "queue_step Q (SetGoal g t) = (length (template_for t), map (\<lambda>d. (d, 0)) (template_for t))"
| "queue_step (n, q) Advance = (n, tl q)"
| "queue_step (n, q) Escalate =
     (n, case q of [] \<Rightarrow> [] | (d, a) # r \<Rightarrow> if 3 \<le> a + 1 then r else (d, a + 1) # r)"
| "queue_step Q ResetPlanner = (0, [])"
| "queue_step Q x = Q"

fun planner_step :: "planner \<Rightarrow> planner_op \<Rightarrow> planner" where
  "planner_step p (SetGoal g t) = snd (set_goal g t p)"
| "planner_step p CurrentSubgoal = snd (current_subgoal p)"
| "planner_step p Advance = snd (advance_subgoal p)"
| "planner_step p NoProgress = snd (record_no_progress p)"
| "planner_step p Escalate = snd (escalate_subgoal p)"
| "planner_step p (Tactical r) = snd (tactical_plan_for r p)"
| "planner_step p ResetPlanner = reset_planner p"

lemma queue_of_frame [simp]:
  "queue_of (upd_strategy (\<lambda>s. s\<lparr>ss_current_idx := i\<rparr>) p) = queue_of p"
  "queue_of (upd_strategy (\<lambda>s. s\<lparr>ss_stagnation := n\<rparr>) p) = queue_of p"
  by (simp_all add: queue_of_def)

lemma queue_of_complete:
  assumes "planner_ok p" "open_subgoals p = r # q"
  shows "queue_of (complete r p) = (fst (queue_of p), tl (snd (queue_of p)))"
proof -
  note r = open_first [OF assms]
  have "map (\<lambda>x. (sg_description (pl_heap (complete r p) ! x), sg_attempts (pl_heap (complete r p) ! x))) q
      = map (\<lambda>x. (sg_description (pl_heap p ! x), sg_attempts (pl_heap p ! x))) q"
    using r(3) by (intro map_cong refl) (metis complete_frame(6) nth_list_update_neq)
  with assms(2) complete_first(1) [OF assms] show ?thesis
    by (simp add: queue_of_def del: complete_frame(6))
qed

lemma planner_ok_stagnation: "planner_ok p \<Longrightarrow> 0 \<le> n \<Longrightarrow> planner_ok (upd_strategy (\<lambda>s. s\<lparr>ss_stagnation := n\<rparr>) p)"
  by (simp add: planner_ok_def)

lemma current_subgoal_keeps:
  assumes "planner_ok p"
  shows "planner_ok (snd (current_subgoal p))" "queue_of (snd (current_subgoal p)) = queue_of p"
    "fst (current_subgoal p) = (case open_subgoals p of [] \<Rightarrow> None | r # q \<Rightarrow> Some r)"
  using current_subgoal_first [OF assms] by (metis fst_conv snd_conv queue_of_frame(1))+

lemma advance_step:
  assumes ok: "planner_ok p"
  shows "planner_ok (snd (advance_subgoal p))"
    "queue_of (snd (advance_subgoal p)) = (fst (queue_of p), tl (snd (queue_of p)))"
    "fst (advance_subgoal p) = (case tl (open_subgoals p) of [] \<Rightarrow> None | r # q \<Rightarrow> Some r)"
proof -
  obtain i where cur: "current_subgoal p = ((case open_subgoals p of [] \<Rightarrow> None | r # q \<Rightarrow> Some r), move_to i p)"
    and ok1: "planner_ok (move_to i p)" by (rule current_subgoal_first [OF ok])
  let ?goal = "planner_ok (snd (advance_subgoal p)) \<and>
    queue_of (snd (advance_subgoal p)) = (fst (queue_of p), tl (snd (queue_of p))) \<and>
    fst (advance_subgoal p) = (case tl (open_subgoals p) of [] \<Rightarrow> None | r # q \<Rightarrow> Some r)"
  have ?goal
  proof (cases "open_subgoals p")
    case Nil
    then have "advance_subgoal p = current_subgoal (move_to i p)" "snd (queue_of p) = []"
      by (simp_all add: advance_subgoal_def cur queue_of_def)
    with Nil current_subgoal_keeps [OF ok1] show ?thesis by (auto simp: prod_eq_iff)
  next
    case (Cons r q)
    let ?p1 = "move_to i p"
    let ?p2 = "upd_strategy (\<lambda>s. s\<lparr>ss_stagnation := 0\<rparr>) (complete r ?p1)"
    have q1: "open_subgoals ?p1 = r # q" using Cons by simp
    have "advance_subgoal p = current_subgoal ?p2"
      using Cons by (simp add: advance_subgoal_def cur)
    moreover have "planner_ok ?p2"
      by (intro planner_ok_stagnation complete_first(2) [OF ok1 q1]) simp
    moreover have "queue_of ?p2 = (fst (queue_of p), tl (snd (queue_of p)))"
      unfolding queue_of_frame queue_of_complete [OF ok1 q1] ..
    moreover have "open_subgoals ?p2 = q" using complete_first(1) [OF ok1 q1] by simp
    ultimately show ?thesis using current_subgoal_keeps [of ?p2] Cons by simp
  qed
  then show "planner_ok (snd (advance_subgoal p))"
    "queue_of (snd (advance_subgoal p)) = (fst (queue_of p), tl (snd (queue_of p)))"
    "fst (advance_subgoal p) = (case tl (open_subgoals p) of [] \<Rightarrow> None | r # q \<Rightarrow> Some r)"
    by blast+
qed

definition bump_attempts :: "nat \<Rightarrow> planner \<Rightarrow> planner" where
  "bump_attempts r p = upd_subgoal r (\<lambda>sg. sg\<lparr>sg_attempts := sg_attempts sg + 1\<rparr>) p"

lemma bump_attempts_frame [simp]:
  "pl_state (bump_attempts r p) = pl_state p"
  "pl_heap (bump_attempts r p) = (pl_heap p)[r := (pl_heap p ! r)\<lparr>sg_attempts := sg_attempts (pl_heap p ! r) + 1\<rparr>]"
  by (simp_all add: bump_attempts_def upd_subgoal_def)

lemma bump_attempts_completed [simp]:
  "sg_completed ((pl_heap p)[r := (pl_heap p ! r)\<lparr>sg_attempts := n\<rparr>] ! x) = sg_completed (pl_heap p ! x)"
  by (cases "r < length (pl_heap p)"; cases "x = r") (simp_all add: list_update_beyond)

lemma bump_attempts_ok:
  assumes "planner_ok p" "open_subgoals p = r # q" "sg_attempts (pl_heap p ! r) + 1 < 3"
  shows "planner_ok (bump_attempts r p)" "open_subgoals (bump_attempts r p) = r # q"
    "queue_of (bump_attempts r p) =
       (fst (queue_of p), (case snd (queue_of p) of [] \<Rightarrow> [] | (d, a) # rest \<Rightarrow> (d, a + 1) # rest))"
proof -
  note r = open_first [OF assms(1,2)]
  show opn: "open_subgoals (bump_attempts r p) = r # q" using assms(2) by simp
  show "planner_ok (bump_attempts r p)"
    using assms(1,3) r(1) by (auto simp: planner_ok_def nth_list_update)
  have "map (\<lambda>x. (sg_description (pl_heap (bump_attempts r p) ! x), sg_attempts (pl_heap (bump_attempts r p) ! x))) q
      = map (\<lambda>x. (sg_description (pl_heap p ! x), sg_attempts (pl_heap p ! x))) q"
    using r(3) by (intro map_cong refl) (metis bump_attempts_frame(2) nth_list_update_neq)
  with r(1) assms(2) opn show "queue_of (bump_attempts r p) =
       (fst (queue_of p), (case snd (queue_of p) of [] \<Rightarrow> [] | (d, a) # rest \<Rightarrow> (d, a + 1) # rest))"
    by (simp add: queue_of_def)
qed

text \<open>The last attempt: the subgoal is bumped to its maximum and completed in one go.\<close>

lemma complete_bumped:
  assumes "planner_ok p" "open_subgoals p = r # q"
  shows "planner_ok (complete r (bump_attempts r p))" "open_subgoals (complete r (bump_attempts r p)) = q"
    "queue_of (complete r (bump_attempts r p)) = (fst (queue_of p), tl (snd (queue_of p)))"
proof -
  let ?p' = "complete r (bump_attempts r p)"
  note r = open_first [OF assms]
  have heap: "pl_heap ?p' = (pl_heap p)[r := (pl_heap p ! r)\<lparr>sg_attempts := sg_attempts (pl_heap p ! r) + 1, sg_completed := True\<rparr>]"
    using r(1) by simp
  have closed: "sg_completed (pl_heap ?p' ! x) \<longleftrightarrow> x = r \<or> sg_completed (pl_heap p ! x)" for x
    unfolding heap using r(1) by (simp add: nth_list_update)
  have refs: "ss_subgoals (pl_state ?p') = ss_subgoals (pl_state p)" by simp
  have "open_subgoals ?p' = filter (\<lambda>x. x \<noteq> r) (open_subgoals p)"
    unfolding refs filter_filter by (rule filter_cong) (auto simp: closed simp del: complete_frame bump_attempts_frame)
  also have "\<dots> = q" using assms(2) r(3) by (auto intro: filter_True)
  finally show opn: "open_subgoals ?p' = q" .
  have "ss_progress (pl_state ?p') = of_nat (length (closed_subgoals ?p')) / of_nat (length (ss_subgoals (pl_state p)))"
    using complete_progress [of r "bump_attempts r p"] by simp
  with assms(1) r(1,4) show "planner_ok ?p'"
    unfolding planner_ok_def by (auto simp: nth_list_update)
  have "map (\<lambda>x. (sg_description (pl_heap ?p' ! x), sg_attempts (pl_heap ?p' ! x))) q
      = map (\<lambda>x. (sg_description (pl_heap p ! x), sg_attempts (pl_heap p ! x))) q"
    using r(3) by (intro map_cong refl) (metis heap nth_list_update_neq)
  then show "queue_of ?p' = (fst (queue_of p), tl (snd (queue_of p)))"
    using assms(2) opn by (simp add: queue_of_def del: complete_frame(6) bump_attempts_frame(2))
qed

lemma escalate_step:
  assumes ok: "planner_ok p"
  shows "planner_ok (snd (escalate_subgoal p)) \<and> queue_of (snd (escalate_subgoal p)) = queue_step (queue_of p) Escalate"
proof -
  let ?p0 = "upd_strategy (\<lambda>s. s\<lparr>ss_escalations := ss_escalations s + 1, ss_stagnation := 0\<rparr>) p"
  have ok0: "planner_ok ?p0" and Q0: "queue_of ?p0 = queue_of p"
    using ok by (simp_all add: planner_ok_def queue_of_def)
  obtain i where cur: "current_subgoal ?p0 = ((case open_subgoals ?p0 of [] \<Rightarrow> None | r # q \<Rightarrow> Some r), move_to i ?p0)"
    and ok1: "planner_ok (move_to i ?p0)" by (rule current_subgoal_first [OF ok0])
  let ?p1 = "move_to i ?p0"
  have Q1: "queue_of ?p1 = queue_of p" unfolding queue_of_frame by (rule Q0)
  show ?thesis
  proof (cases "open_subgoals p")
    case Nil
    then have "escalate_subgoal p = (None, ?p1)" "snd (queue_of p) = []"
      by (simp_all add: escalate_subgoal_def cur queue_of_def)
    with ok1 Q1 show ?thesis by (cases "queue_of p") simp
  next
    case (Cons r q)
    have q1: "open_subgoals ?p1 = r # q" using Cons by simp
    note r = open_first [OF ok1 q1]
    have Q: "snd (queue_of p) = (sg_description (pl_heap p ! r), sg_attempts (pl_heap p ! r)) # tl (snd (queue_of p))"
      using Cons by (simp add: queue_of_def)
    let ?p2 = "bump_attempts r ?p1"
    have max3: "sg_max_attempts (pl_heap ?p2 ! r) = 3" "sg_attempts (pl_heap ?p2 ! r) = sg_attempts (pl_heap p ! r) + 1"
      using ok r(1,2) by (simp_all add: planner_ok_def)
    have eq: "escalate_subgoal p = (if 3 \<le> sg_attempts (pl_heap p ! r) + 1 then current_subgoal (complete r ?p2) else (Some r, ?p2))"
      using Cons max3 unfolding escalate_subgoal_def bump_attempts_def [symmetric]
      by (simp add: cur Let_def del: bump_attempts_frame)
    show ?thesis
    proof (cases "3 \<le> sg_attempts (pl_heap p ! r) + 1")
      case True
      note done3 = complete_bumped [OF ok1 q1]
      have "queue_of (complete r ?p2) = (fst (queue_of p), tl (snd (queue_of p)))"
        unfolding done3(3) Q1 ..
      moreover have "queue_step (queue_of p) Escalate = (fst (queue_of p), tl (snd (queue_of p)))"
        using Q True by (cases "queue_of p") (auto split: list.split)
      ultimately show ?thesis using True current_subgoal_keeps [OF done3(1)] by (simp add: eq)
    next
      case False
      have "sg_attempts (pl_heap ?p1 ! r) + 1 < 3" using False by simp
      note bumped = bump_attempts_ok [OF ok1 q1 this]
      have "queue_step (queue_of p) Escalate
          = (fst (queue_of p), (case snd (queue_of p) of [] \<Rightarrow> [] | (d, a) # rest \<Rightarrow> (d, a + 1) # rest))"
        using Q False by (cases "queue_of p") (auto split: list.split)
      then show ?thesis using False bumped Q1 by (simp add: eq)
    qed
  qed
qed

lemma set_goal_step: "planner_ok p \<Longrightarrow>
    planner_ok (snd (set_goal g t p)) \<and> queue_of (snd (set_goal g t p)) = queue_step (queue_of p) (SetGoal g t)"
proof -
  assume ok: "planner_ok p"
  let ?new = "map (\<lambda>(i, d). new_subgoal i d) (enumerate 0 (template_for t))"
  let ?p' = "snd (set_goal g t p)"
  have heap: "pl_heap ?p' = pl_heap p @ ?new"
    and refs: "ss_subgoals (pl_state ?p') = map (\<lambda>i. length (pl_heap p) + i) [0..<length (template_for t)]"
    by (simp_all add: set_goal_def Let_def map_add_upt add.commute)
  have at: "pl_heap ?p' ! (length (pl_heap p) + i) = new_subgoal i (template_for t ! i)" if "i < length (template_for t)" for i
    using that by (simp add: heap nth_enumerate_eq)
  have fresh: "\<not> sg_completed (pl_heap ?p' ! r)" if "r \<in> set (ss_subgoals (pl_state ?p'))" for r
    using that at [of "r - length (pl_heap p)"] unfolding refs by (auto simp: new_subgoal_def)
  have opn: "open_subgoals ?p' = ss_subgoals (pl_state ?p')" "closed_subgoals ?p' = []"
    using fresh by (simp_all add: filter_id_conv filter_empty_conv)
  have "queue_of ?p' = queue_step (queue_of p) (SetGoal g t)"
    unfolding queue_of_def opn unfolding refs by (simp, intro nth_equalityI) (simp_all add: at new_subgoal_def)
  moreover have "planner_ok ?p'"
  proof -
    have state: "ss_current_idx (pl_state ?p') = 0" "ss_progress (pl_state ?p') = 0"
      "ss_stability (pl_state ?p') = ss_stability (pl_state p)" "ss_stagnation (pl_state ?p') = ss_stagnation (pl_state p)"
      "ss_escalations (pl_state ?p') = ss_escalations (pl_state p)"
      by (simp_all add: set_goal_def Let_def)
    have "r < length (pl_heap ?p') \<and> sg_max_attempts (pl_heap ?p' ! r) = 3 \<and> sg_attempts (pl_heap ?p' ! r) = 0"
      if "r \<in> set (ss_subgoals (pl_state ?p'))" for r
      using that at [of "r - length (pl_heap p)"] heap unfolding refs by (auto simp: new_subgoal_def)
    moreover have "distinct (ss_subgoals (pl_state ?p'))" unfolding refs by (simp add: distinct_map)
    ultimately show ?thesis
      using ok unfolding planner_ok_def opn state by simp
  qed
  ultimately show ?thesis by simp
qed

lemma planner_refines:
  assumes "planner_ok p"
  shows "planner_ok (planner_step p x) \<and> queue_of (planner_step p x) = queue_step (queue_of p) x"
proof (cases x)
  case (SetGoal g t)
  then show ?thesis using set_goal_step [OF assms] by simp
next
  case CurrentSubgoal
  then show ?thesis using current_subgoal_keeps [OF assms] by simp
next
  case Advance
  then show ?thesis using advance_step [OF assms] by (cases "queue_of p") simp
next
  case NoProgress
  then show ?thesis
    using assms by (auto simp: record_no_progress_def Let_def planner_ok_def queue_of_def)
next
  case Escalate
  then show ?thesis using escalate_step [OF assms] by simp
next
  case (Tactical r)
  then show ?thesis
    using assms by (simp add: tactical_plan_for_def Let_def planner_ok_def queue_of_def)
next
  case ResetPlanner
  then show ?thesis
    by (simp add: reset_planner_def fresh_strategy_def planner_ok_def queue_of_def)
qed

lemma new_planner_ok: "planner_ok (new_planner m e)" "queue_of (new_planner m e) = (0, [])"
  by (simp_all add: new_planner_def fresh_strategy_def planner_ok_def queue_of_def)

interpretation strategy: machine planner_step "new_planner m e" planner_ok for m e
  by unfold_locales (simp_all add: new_planner_ok planner_refines)

lemma planner_run_refines:
  "planner_ok p \<Longrightarrow> queue_of (foldl planner_step p ops) = foldl queue_step (queue_of p) ops"
  by (induction ops arbitrary: p) (simp_all add: planner_refines)

lemma progress_of_queue:
  assumes "planner_ok p"
  shows "ss_progress (pl_state p) =
    (case queue_of p of (n, q) \<Rightarrow> if n = 0 then 0 else 1 - of_nat (length q) / of_nat n)"
proof -
  have "length (closed_subgoals p) + length (open_subgoals p) = length (ss_subgoals (pl_state p))"
    by (rule sum_length_filter_compl)
  then have "(of_nat (length (closed_subgoals p)) :: rat)
      = of_nat (length (ss_subgoals (pl_state p))) - of_nat (length (open_subgoals p))"
    by (metis add_diff_cancel_right' of_nat_add)
  with assms show ?thesis by (simp add: planner_ok_def queue_of_def diff_divide_distrib)
qed

text \<open>What escalations and advances leave of the queue: each uses up one attempt of the first open
  subgoal at least.\<close>

definition attempts_left :: "goal_queue \<Rightarrow> int" where
  "attempts_left Q = sum_list (map (\<lambda>(d, a). 3 - a) (snd Q))"

definition queue_ok :: "goal_queue \<Rightarrow> bool" where
  "queue_ok Q \<longleftrightarrow> (\<forall>(d, a) \<in> set (snd Q). a < 3)"

fun moves_on :: "planner_op \<Rightarrow> bool" where
  "moves_on Advance = True"
| "moves_on Escalate = True"
| "moves_on x = False"

fun same_goal :: "planner_op \<Rightarrow> bool" where
  "same_goal (SetGoal g t) = False"
| "same_goal ResetPlanner = False"
| "same_goal x = True"

lemma attempts_left_simps [simp]:
  "attempts_left (n, []) = 0" "attempts_left (n, (d, a) # q) = 3 - a + attempts_left (n, q)"
  by (simp_all add: attempts_left_def)

lemma queue_ok_simps [simp]: "queue_ok (n, [])" "queue_ok (n, (d, a) # q) \<longleftrightarrow> a < 3 \<and> queue_ok (n, q)"
  by (auto simp: queue_ok_def)

lemma queue_ok_attempts: "queue_ok (n, q) \<Longrightarrow> int (length q) \<le> attempts_left (n, q)"
  by (induction q) auto

lemma queue_step_ok:
  assumes "queue_ok (n, q)" "same_goal x"
  obtains q' where "queue_step (n, q) x = (n, q')" "queue_ok (n, q')"
    "attempts_left (n, q') \<le> (if moves_on x \<and> q \<noteq> [] then attempts_left (n, q) - 1 else attempts_left (n, q))"
proof (cases q)
  case Nil
  with assms show thesis by (cases x) (auto intro: that [of "[]"])
next
  case (Cons da r)
  obtain d a where da: "da = (d, a)" by fastforce
  show thesis
  proof (cases "moves_on x")
    case False
    with assms have "queue_step (n, q) x = (n, q)" by (cases x) auto
    with assms False show thesis by (intro that [of q]) auto
  next
    case True
    then consider "x = Advance" | "x = Escalate" "3 \<le> a + 1" | "x = Escalate" "a + 1 < 3"
      by (cases x) force+
    then show thesis
    proof cases
      case 3
      with assms Cons da show thesis by (intro that [of "(d, a + 1) # r"]) auto
    qed (use assms Cons da in \<open>auto intro!: that [of r]\<close>)
  qed
qed

lemma queue_empties:
  assumes "queue_ok (n, q)" "\<forall>x \<in> set ops. same_goal x" "attempts_left (n, q) \<le> int (length (filter moves_on ops))"
  shows "foldl queue_step (n, q) ops = (n, [])"
  using assms
proof (induction ops arbitrary: q)
  case Nil
  then have "attempts_left (n, q) \<le> 0" by simp
  with queue_ok_attempts [OF Nil(1)] have "int (length q) \<le> 0" by (rule order_trans)
  then show ?case by simp
next
  case (Cons x ops)
  then obtain q' where q': "queue_step (n, q) x = (n, q')" "queue_ok (n, q')"
    "attempts_left (n, q') \<le> (if moves_on x \<and> q \<noteq> [] then attempts_left (n, q) - 1 else attempts_left (n, q))"
    using queue_step_ok [of n q x] by auto
  have "attempts_left (n, q') \<le> int (length (filter moves_on ops))"
  proof (cases "q = []")
    case True
    with q'(3) show ?thesis by simp
  next
    case False
    with q'(3) Cons.prems(3) show ?thesis by (auto split: if_splits)
  qed
  with Cons.IH [OF q'(2)] Cons.prems(2) q'(1) show ?case by simp
qed

section \<open>Properties\<close>

lemma planner_queue_view:
  assumes p_def: "p = foldl planner_step (new_planner m e) ops" and Q_def: "Q = foldl queue_step (0, []) ops"
  shows "queue_of p = Q
    \<and> map_option (\<lambda>r. sg_description (pl_heap p ! r)) (fst (current_subgoal p)) =
         (case snd Q of [] \<Rightarrow> None | (d, a) # q \<Rightarrow> Some d)
    \<and> ss_progress (pl_state p) = (if fst Q = 0 then 0 else 1 - of_nat (length (snd Q)) / of_nat (fst Q))"
proof (intro conjI)
  have ok: "planner_ok p" unfolding p_def by (rule strategy.reach_inv)
  show q: "queue_of p = Q"
    unfolding p_def Q_def planner_run_refines [OF new_planner_ok(1)] new_planner_ok(2) ..
  show "map_option (\<lambda>r. sg_description (pl_heap p ! r)) (fst (current_subgoal p)) =
         (case snd Q of [] \<Rightarrow> None | (d, a) # q \<Rightarrow> Some d)"
    unfolding current_subgoal_keeps(3) [OF ok] q [symmetric]
    by (cases "open_subgoals p") (simp_all add: queue_of_def)
  show "ss_progress (pl_state p) = (if fst Q = 0 then 0 else 1 - of_nat (length (snd Q)) / of_nat (fst Q))"
    unfolding progress_of_queue [OF ok] q by (simp add: case_prod_beta)
qed

text \<open>C23: The strategic layer is a queue. After any sequence of method calls on a new planner, the open
  subgoals with their attempts are those of the abstract queue after the same operations; the
  current subgoal is the first of them, and the progress is the share of the goal's subgoals that is
  no longer in the queue.\<close>

theorem planner_is_queue:
  "let p = foldl planner_step (new_planner m e) ops; Q = foldl queue_step (0, []) ops
   in queue_of p = Q
    \<and> map_option (\<lambda>r. sg_description (pl_heap p ! r)) (fst (current_subgoal p)) =
         (case snd Q of [] \<Rightarrow> None | (d, a) # q \<Rightarrow> Some d)
    \<and> ss_progress (pl_state p) = (if fst Q = 0 then 0 else 1 - of_nat (length (snd Q)) / of_nat (fst Q))"
  unfolding Let_def by (rule planner_queue_view [OF refl refl])

text \<open>The planner gets through its subgoals: once a goal is set, and until the next goal or reset, three
  calls of \<open>advance_subgoal\<close> or \<open>escalate\<close> per subgoal of the template are enough to leave no current
  subgoal and a progress of 1, whatever other calls come between and whatever state the planner was
  in before. (\<open>max_escalations\<close> plays no part in this: no method reads it.)\<close>

theorem planner_finishes:
  assumes "\<forall>x \<in> set ops. same_goal x" "3 * length (template_for t) \<le> length (filter moves_on ops)"
    and "p = foldl planner_step (new_planner m e) (earlier @ SetGoal g t # ops)"
  shows "fst (current_subgoal p) = None \<and> ss_progress (pl_state p) = 1
    \<and> (\<forall>r \<in> set (ss_subgoals (pl_state p)). sg_completed (pl_heap p ! r))"
proof -
  let ?n = "length (template_for t)" and ?q = "map (\<lambda>d. (d, 0::int)) (template_for t)"
  have ok: "planner_ok p" unfolding assms(3) by (rule strategy.reach_inv)
  have "attempts_left (?n, ?q) = 3 * int ?n"
    by (simp add: attempts_left_def comp_def sum_list_triv)
  then have "foldl queue_step (?n, ?q) ops = (?n, [])"
    using assms(1,2) by (intro queue_empties) (auto simp: queue_ok_def)
  then have q: "queue_of p = (?n, [])"
    unfolding assms(3) planner_run_refines [OF new_planner_ok(1)] by simp
  have "template_for t \<noteq> []"
    by (simp add: template_for_def DECOMPOSITION_TEMPLATES_def FIX_GENERIC_def)
  with q progress_of_queue [OF ok] have "ss_progress (pl_state p) = 1" by simp
  moreover from q have "open_subgoals p = []" by (simp add: queue_of_def)
  ultimately show ?thesis
    using current_subgoal_keeps(3) [OF ok] by (auto simp: filter_empty_conv)
qed

definition demo_moves :: "planner_op list" where
  "demo_moves = Advance # NoProgress # Tactical 1 # replicate 3 Escalate @ Advance # replicate 9 Escalate"

theorem planner_finishes_witness:
  "fst (current_subgoal (foldl planner_step (new_planner 5 3) ([SetGoal ''a'' ''fix_test'', Advance] @ SetGoal ''b'' ''fix_syntax'' # demo_moves))) = None"
proof -
  have "\<forall>x \<in> set demo_moves. same_goal x" "3 * length (template_for ''fix_syntax'') \<le> length (filter moves_on demo_moves)"
    by (simp_all add: demo_moves_def template_for_def DECOMPOSITION_TEMPLATES_def numeral_eq_Suc)
  from planner_finishes [OF this refl] show ?thesis by blast
qed

lemma score_candidates_mem:
  "score_candidates s h cs = Inr scored \<Longrightarrow>
     map snd scored = filter (\<lambda>c. \<forall>sim. simulate_candidate s h c = Inr sim \<longrightarrow> sr_loop_risk sim \<le> 7 / 10) cs
     \<and> (\<forall>(x, c) \<in> set scored. \<exists>sim. simulate_candidate s h c = Inr sim \<and> x = sr_success_prob sim)
     \<and> (\<forall>c \<in> set cs. \<exists>sim. simulate_candidate s h c = Inr sim)"
  by (induction cs arbitrary: scored) (auto simp: not_le split: if_splits)

lemma sort_desc_desc: "sorted (map (\<lambda>x. - f x) (sort_desc f xs))"
  by (simp add: sort_desc_def)

text \<open>Ranking keeps exactly the candidates whose simulated loop risk is at most 0.7 and orders them by
  falling simulated success probability; candidates of the same probability keep their order. It
  never raises.\<close>

theorem ranked_actions_ordered:
  "\<exists>ranked. rank_actions s h cs = Inr ranked
     \<and> mset ranked = mset (filter (\<lambda>c. \<forall>sim. simulate_candidate s h c = Inr sim \<longrightarrow> sr_loop_risk sim \<le> 7 / 10) cs)
     \<and> sorted_wrt (\<lambda>a b. \<forall>x y. simulate_candidate s h a = Inr x \<longrightarrow> simulate_candidate s h b = Inr y
          \<longrightarrow> sr_success_prob y \<le> sr_success_prob x) ranked"
proof -
  have total: "\<exists>sim. simulate_candidate s h c = Inr sim" for c
    by (auto simp: simulate_candidate_def simulate_def candidate_proposal_def estimate_cost_def Let_def
        patch_lines_def py_or_def)
  have "\<exists>scored. score_candidates s h cs = Inr scored"
  proof (induction cs)
    case (Cons c cs)
    then obtain scored where "score_candidates s h cs = Inr scored" by blast
    moreover obtain sim where "simulate_candidate s h c = Inr sim" using total by blast
    ultimately show ?case by simp
  qed simp
  then obtain scored where sc: "score_candidates s h cs = Inr scored" by blast
  note mem = score_candidates_mem [OF sc]
  have fst_prob: "sr_success_prob sim = fst a"
    if "a \<in> set scored" "simulate_candidate s h (snd a) = Inr sim" for a sim
    using mem that by (cases a) fastforce
  have "sorted_wrt (\<lambda>a b. fst b \<le> fst a) (sort_desc fst scored)"
    using sort_desc_desc [of fst scored] by (simp add: sorted_wrt_map)
  then have "sorted_wrt (\<lambda>a b. \<forall>x y. simulate_candidate s h (snd a) = Inr x \<longrightarrow> simulate_candidate s h (snd b) = Inr y
          \<longrightarrow> sr_success_prob y \<le> sr_success_prob x) (sort_desc fst scored)"
    by (rule sorted_wrt_mono_rel [rotated]) (simp add: sort_desc_def fst_prob)
  moreover have "mset (map snd (sort_desc fst scored)) = mset (map snd scored)"
    by (simp add: sort_desc_def mset_map)
  ultimately show ?thesis
    using sc mem by (auto simp: rank_actions_def sorted_wrt_map)
qed

end
