(* ===== verification/Py_Path.thy ===== *)
theory Py_Path
  imports Py_Text
begin

text \<open>
  The functions of \<open>posixpath\<close> that the program uses, on resolved components, and what joining a
  relative path to a directory can reach.
\<close>

definition isabs :: "string \<Rightarrow> bool" where
  "isabs s \<longleftrightarrow> prefix [slash] s"

definition path_join :: "string \<Rightarrow> string \<Rightarrow> string" where
  "path_join a b =
     (if isabs b then b else if a = [] \<or> suffix [slash] a then a @ b else a @ slash # b)"

text \<open>The components that \<open>normpath\<close> keeps of an absolute path, last one first.\<close>

fun resolve :: "string list \<Rightarrow> string list \<Rightarrow> string list" where
  "resolve acc [] = acc"
| "resolve acc (c # cs) =
     (if c = [] \<or> c = ''.'' then resolve acc cs
      else if c = ''..'' then resolve (tl acc) cs
      else resolve (c # acc) cs)"

definition abs_comps :: "string \<Rightarrow> string \<Rightarrow> string list" where
  "abs_comps cwd p = rev (resolve [] (split_char slash (if isabs p then p else path_join cwd p)))"

text \<open>\<open>os.path.abspath\<close>: two leading slashes stay two.\<close>

definition abspath :: "string \<Rightarrow> string \<Rightarrow> string" where
  "abspath cwd p =
     (let full = (if isabs p then p else path_join cwd p)
      in (if prefix [slash, slash] full \<and> \<not> prefix [slash, slash, slash] full then [slash, slash] else [slash])
         @ join [slash] (abs_comps cwd p))"

text \<open>\<open>os.path.basename\<close>.\<close>

definition basename :: "string \<Rightarrow> string" where
  "basename p = last (split_char slash p)"

definition relpath :: "string \<Rightarrow> string \<Rightarrow> string \<Rightarrow> string" where
  "relpath cwd p start =
     (let s = abs_comps cwd start; q = abs_comps cwd p; i = length (longest_common_prefix s q);
          rel = replicate (length s - i) ''..'' @ drop i q
      in if rel = [] then ''.'' else join [slash] rel)"

definition unsafe_path :: "string \<Rightarrow> bool" where
  "unsafe_path p \<longleftrightarrow> isabs p \<or> ''..'' \<in> set (split_char slash p)"

lemma split_on_append: "split_on sep cur (a @ sep # b) = split_on sep cur a @ split_on sep [] b"
  by (induction a arbitrary: cur) auto

lemma split_on_snoc: "split_on sep cur (a @ [sep]) = split_on sep cur a @ [[]]"
  by (simp add: split_on_append)

lemma resolve_append: "resolve acc (xs @ ys) = resolve (resolve acc xs) ys"
  by (induction acc xs rule: resolve.induct) auto

lemma resolve_plain:
  "''..'' \<notin> set cs \<Longrightarrow> resolve acc cs = rev (filter (\<lambda>c. c \<noteq> [] \<and> c \<noteq> ''.'') cs) @ acc"
  by (induction acc cs rule: resolve.induct) auto

lemma resolve_join:
  assumes "\<not> isabs p" "a \<noteq> []"
  shows "resolve [] (split_char slash (path_join a p)) = resolve (resolve [] (split_char slash a)) (split_char slash p)"
proof (cases "suffix [slash] a")
  case True
  then obtain a' where a: "a = a' @ [slash]" by (auto simp: suffix_def)
  with assms have "path_join a p = a' @ slash # p" by (simp add: path_join_def suffix_def)
  then show ?thesis
    by (simp add: a split_char_def split_on_append resolve_append)
next
  case False
  with assms show ?thesis by (simp add: path_join_def split_char_def split_on_append resolve_append)
qed

text \<open>A relative path without \<open>..\<close> resolves to something below the directory it is joined to.\<close>

lemma join_below:
  assumes "\<not> unsafe_path p" "isabs ws"
  shows "abs_comps cwd (path_join ws p) =
    abs_comps cwd ws @ filter (\<lambda>c. c \<noteq> [] \<and> c \<noteq> ''.'') (split_char slash p)"
proof -
  from assms(2) have ws: "ws \<noteq> []" "isabs (path_join ws p)"
    using assms by (auto simp: isabs_def path_join_def unsafe_path_def prefix_def)
  with assms show ?thesis
    by (simp add: abs_comps_def resolve_join unsafe_path_def resolve_plain)
qed

end
