(* ===== verification/Dispatcher.thy ===== *)
theory Dispatcher
  imports Py_Path Tool_Registry
begin

text \<open>
  The tool dispatcher, \<open>rfsn_kernel/dispatcher.py\<close>: the gate that looks a tool up in the registry and
  the handlers it routes enabled tools to. The file system is a parameter; what a handler can reach is
  stated on resolved paths.
\<close>

section \<open>Results and environment\<close>

record tool_result =
  tr_success :: bool
  tr_tool :: string
  tr_output :: "string option"
  tr_stdout :: "string option"
  tr_stderr :: "string option"
  tr_exit_code :: "int option"
  tr_files_changed :: "string list"
  tr_diff_stats :: pydict
  tr_timeout :: bool
  tr_error :: "string option"
  tr_policy_decision_id :: "string option"
  tr_replay_event_id :: "string option"

record execution_context =
  xc_workspace_root :: string
  xc_run_id :: string
  xc_iter_count :: int
  xc_sandbox_mode :: string
  xc_dev_mode :: bool

text \<open>The operating system: reading gives the decoded text or the message of the \<open>OSError\<close>, walking a
  directory the visited directories with their files, and \<open>os_exc_text\<close> is \<open>str\<close> of an exception.\<close>

record os_env =
  os_cwd :: string
  os_isfile :: "string \<Rightarrow> bool"
  os_isdir :: "string \<Rightarrow> bool"
  os_read :: "string \<Rightarrow> string + string"
  os_walk :: "string \<Rightarrow> (string \<times> string list) list"
  os_exc_text :: "pyerr \<Rightarrow> string"

definition empty_result :: "bool \<Rightarrow> string \<Rightarrow> tool_result" where
  "empty_result ok tool =
     \<lparr>tr_success = ok, tr_tool = tool, tr_output = None, tr_stdout = None, tr_stderr = None,
      tr_exit_code = None, tr_files_changed = [], tr_diff_stats = [], tr_timeout = False,
      tr_error = None, tr_policy_decision_id = None, tr_replay_event_id = None\<rparr>"

definition fail_result :: "string \<Rightarrow> string \<Rightarrow> tool_result" where
  "fail_result tool err = (empty_result False tool)\<lparr>tr_error := Some err\<rparr>"

definition ok_result :: "string \<Rightarrow> string \<Rightarrow> tool_result" where
  "ok_result tool out = (empty_result True tool)\<lparr>tr_output := Some out\<rparr>"

section \<open>Handlers\<close>

text \<open>A value used as a path or a pattern: \<open>os.fspath\<close> raises on anything but a string.\<close>

fun fspath :: "pyval \<Rightarrow> string res" where
  "fspath (PStr s) = Inr s"
| "fspath _ = Inl TypeError"

definition handle_read_file :: "os_env \<Rightarrow> execution_context \<Rightarrow> pydict \<Rightarrow> tool_result res" where
  "handle_read_file S X args =
     (let v = dget_or args ''path'' (PStr [])
      in if \<not> truthy v then Inr (fail_result ''read_file'' ''missing path'')
         else ebind (fspath v) (\<lambda>path.
           if unsafe_path path then Inr (fail_result ''read_file'' ''unsafe path'')
           else let full = path_join (xc_workspace_root X) path
                in if \<not> os_isfile S full then Inr (fail_result ''read_file'' (''file not found: '' @ path))
                   else Inr (case os_read S full of
                               Inl msg \<Rightarrow> fail_result ''read_file'' msg
                             | Inr content \<Rightarrow> ok_result ''read_file'' (take 65536 content))))"

definition name_matches :: "pyval \<Rightarrow> string \<Rightarrow> bool res" where
  "name_matches pat name = ebind (fspath pat) (\<lambda>g. Inr (fnmatch name g))"

text \<open>The two nested loops of \<open>_handle_list_files\<close>; \<open>found\<close> are the results so far.\<close>

fun list_names :: "(string \<Rightarrow> string) \<Rightarrow> pyval \<Rightarrow> int \<Rightarrow> string list \<Rightarrow> string list \<Rightarrow> string list res" where
  "list_names rel pat limit [] found = Inr found"
| "list_names rel pat limit (name # names) found =
     ebind (name_matches pat name) (\<lambda>hit.
       if hit then
         (if limit \<le> int (length (found @ [rel name])) then Inr (found @ [rel name])
          else list_names rel pat limit names (found @ [rel name]))
       else list_names rel pat limit names found)"

fun list_walk :: "(string \<Rightarrow> string) \<Rightarrow> pyval \<Rightarrow> int \<Rightarrow> (string \<times> string list) list \<Rightarrow> string list
    \<Rightarrow> string list res" where
  "list_walk rel pat limit [] found = Inr found"
| "list_walk rel pat limit ((dir, files) # rest) found =
     ebind (list_names (\<lambda>name. rel (path_join dir name)) pat limit files found) (\<lambda>found'.
       if limit \<le> int (length found') then Inr found' else list_walk rel pat limit rest found')"

definition handle_list_files :: "os_env \<Rightarrow> execution_context \<Rightarrow> pydict \<Rightarrow> tool_result res" where
  "handle_list_files S X args =
     ebind (fspath (py_or (dget_or args ''path'' (PStr ''.'')) (PStr ''.''))) (\<lambda>path.
       if unsafe_path path then Inr (fail_result ''list_files'' ''unsafe path'')
       else
         (let pat = py_or (dget_or args ''glob'' (PStr ''*'')) (PStr ''*'')
          in ebind (py_int (py_or (dget_or args ''max_results'' PNone) (PInt 200))) (\<lambda>limit.
            let full = path_join (xc_workspace_root X) path
            in if \<not> os_isdir S full then Inr (fail_result ''list_files'' (''directory not found: '' @ path))
               else ebind (list_walk (\<lambda>p. relpath (os_cwd S) p (xc_workspace_root X)) pat limit (os_walk S full) [])
                      (\<lambda>found. Inr (ok_result ''list_files'' (join [CHR 0x0A] found))))))"

definition handle_apply_patch :: "os_env \<Rightarrow> execution_context \<Rightarrow> pydict \<Rightarrow> tool_result res" where
  "handle_apply_patch S X args =
     (let patch = dget_or args ''patch'' (PStr [])
      in if \<not> truthy patch then Inr (fail_result ''apply_patch'' ''empty patch rejected'')
         else ebind (as_str patch) (\<lambda>p.
           if strip p = [] then Inr (fail_result ''apply_patch'' ''empty patch rejected'')
           else Inr (ok_result ''apply_patch'' ''[dispatcher stub] patch gate check passed'')))"

definition handle_noop_read :: "os_env \<Rightarrow> execution_context \<Rightarrow> pydict \<Rightarrow> tool_result res" where
  "handle_noop_read S X args = Inr (ok_result [] ''[dispatcher stub] read-only tool acknowledged'')"

type_synonym handler = "os_env \<Rightarrow> execution_context \<Rightarrow> pydict \<Rightarrow> tool_result res"

definition HANDLERS :: "(string \<times> handler) list" where
  "HANDLERS =
     [(''read_file'', handle_read_file), (''list_files'', handle_list_files),
      (''repo_search'', handle_noop_read), (''repo_read_range'', handle_noop_read),
      (''detect_project'', handle_noop_read), (''detect_workdirs'', handle_noop_read),
      (''generate_repo_map'', handle_noop_read), (''apply_patch'', handle_apply_patch),
      (''run_tests'', handle_noop_read), (''run_cmd_template'', handle_noop_read),
      (''format_fix'', handle_noop_read), (''ensure_deps'', handle_noop_read)]"

section \<open>Dispatch\<close>

definition stamp :: "string \<Rightarrow> string option \<Rightarrow> string \<Rightarrow> tool_result \<Rightarrow> tool_result" where
  "stamp tool decision event r =
     r\<lparr>tr_tool := tool, tr_policy_decision_id := decision, tr_replay_event_id := Some event\<rparr>"

text \<open>\<open>event\<close> is the random event id.\<close>

definition dispatch_tool ::
    "runtime \<Rightarrow> os_env \<Rightarrow> string \<Rightarrow> string \<Rightarrow> pydict \<Rightarrow> execution_context \<Rightarrow> string option \<Rightarrow> tool_result" where
  "dispatch_tool R S event tool args X decision =
     (case map_of CANONICAL_TOOLS tool of
        None \<Rightarrow> stamp tool decision event (fail_result tool
          (''UNKNOWN_TOOL: '' @ rt_repr R (PStr tool) @ '' is not in the canonical registry''))
      | Some spec \<Rightarrow>
          if \<not> ts_enabled spec then stamp tool decision event (fail_result tool
            (''TOOL_DISABLED: '' @ rt_repr R (PStr tool)
              @ '' is disabled in the canonical registry and cannot be executed.''))
          else case map_of HANDLERS tool of
            None \<Rightarrow> stamp tool decision event (fail_result tool
              (''NO_HANDLER: '' @ rt_repr R (PStr tool)
                @ '' is enabled in the registry but has no executor handler.  This is a programming error.''))
          | Some handler \<Rightarrow>
              stamp tool decision event
                (case handler S X args of
                   Inl e \<Rightarrow> fail_result tool (''HANDLER_EXCEPTION: '' @ os_exc_text S e)
                 | Inr r \<Rightarrow> r))"

section \<open>What the handlers can reach\<close>

lemma map_of_upto:
  "map_of xs k = Some v \<Longrightarrow> (\<And>k v. (k, v) \<in> set xs \<Longrightarrow> P k v) \<Longrightarrow> P k v"
  by (auto dest: map_of_SomeD)

lemma enabled_tools_handled:
  "map_of CANONICAL_TOOLS tool = Some spec \<Longrightarrow> ts_enabled spec \<Longrightarrow> \<exists>h. map_of HANDLERS tool = Some h"
  by (auto simp: CANONICAL_TOOLS_def HANDLERS_def tool_defaults_def split: if_splits)

text \<open>A result a handler or the gate builds: an output or an error, never both or neither.\<close>

definition sound_result :: "tool_result \<Rightarrow> bool" where
  "sound_result r \<longleftrightarrow> (if tr_success r then tr_error r = None \<and> tr_output r \<noteq> None
                        else tr_error r \<noteq> None \<and> tr_output r = None)"

lemma sound_results [simp]: "sound_result (fail_result t e)" "sound_result (ok_result t out)"
  "sound_result (stamp t d e r) = sound_result r"
  by (simp_all add: sound_result_def fail_result_def ok_result_def empty_result_def stamp_def)

lemma handler_sound:
  assumes "map_of HANDLERS tool = Some h" "h S X args = Inr r"
  shows "sound_result r"
proof -
  have "(tool, h) \<in> set HANDLERS" by (rule map_of_SomeD [OF assms(1)])
  then have "h \<in> {handle_read_file, handle_list_files, handle_noop_read, handle_apply_patch}"
    by (auto simp: HANDLERS_def)
  with assms(2) show ?thesis
    by (auto simp: handle_read_file_def handle_list_files_def handle_noop_read_def handle_apply_patch_def
        Let_def split: if_splits sum.splits)
qed

text \<open>The file search: at most the limit, one result if the limit is not positive, and every result is the
  relative name of a file that the walk met and the pattern matches.\<close>

lemma list_names_spec:
  "list_names rel pat limit names found = Inr found' \<Longrightarrow>
     int (length found') \<le> max limit (int (length found) + 1)
     \<and> (\<forall>x \<in> set found'. x \<in> set found \<or> (\<exists>n \<in> set names. x = rel n \<and> name_matches pat n = Inr True))"
proof (induction names arbitrary: found)
  case (Cons n names)
  then obtain hit where hit: "name_matches pat n = Inr hit" by auto
  show ?case
  proof (cases "hit \<and> \<not> limit \<le> int (length (found @ [rel n]))")
    case True
    with Cons.prems hit have "list_names rel pat limit names (found @ [rel n]) = Inr found'" by simp
    from Cons.IH [OF this] True hit show ?thesis by auto
  next
    case False
    then consider "hit" "found' = found @ [rel n]" | "\<not> hit" "list_names rel pat limit names found = Inr found'"
      using Cons.prems hit by (cases hit) auto
    then show ?thesis
    proof cases
      case 2
      from Cons.IH [OF 2(2)] show ?thesis by auto
    qed (use hit in auto)
  qed
qed auto

lemma list_walk_spec:
  "list_walk rel pat limit ds found = Inr found' \<Longrightarrow> found = [] \<or> int (length found) < limit \<Longrightarrow>
     int (length found') \<le> max limit 1
     \<and> (\<forall>x \<in> set found'. x \<in> set found
          \<or> (\<exists>(dir, files) \<in> set ds. \<exists>n \<in> set files. x = rel (path_join dir n) \<and> name_matches pat n = Inr True))"
proof (induction ds arbitrary: found)
  case (Cons d ds)
  obtain dir files where d: "d = (dir, files)" by fastforce
  with Cons.prems obtain mid where mid:
    "list_names (\<lambda>name. rel (path_join dir name)) pat limit files found = Inr mid"
    and rest: "(if limit \<le> int (length mid) then Inr mid else list_walk rel pat limit ds mid) = Inr found'"
    by auto
  note names = list_names_spec [OF mid]
  have len: "int (length mid) \<le> max limit 1" using names Cons.prems(2) by auto
  show ?case
  proof (cases "limit \<le> int (length mid)")
    case True
    with rest names len d show ?thesis by auto
  next
    case False
    with rest have "list_walk rel pat limit ds mid = Inr found'" by simp
    from Cons.IH [OF this] False names d show ?thesis by fastforce
  qed
qed auto

section \<open>Properties\<close>


text \<open>C25: What \<open>read_file\<close> returns is at most 65536 characters of a file that lies below the workspace: the
  requested path is relative and without \<open>..\<close>, and the resolved components of the file start with
  those of the workspace root. (Symbolic links are the file system's affair.)\<close>

theorem read_file_confined:
  assumes "tr_success (dispatch_tool R S event ''read_file'' args X decision)" "isabs (xc_workspace_root X)"
  shows "\<exists>p content. dget args ''path'' = Some (PStr p) \<and> os_isfile S (path_join (xc_workspace_root X) p)
    \<and> os_read S (path_join (xc_workspace_root X) p) = Inr content
    \<and> tr_output (dispatch_tool R S event ''read_file'' args X decision) = Some (take 65536 content)
    \<and> prefix (abs_comps (os_cwd S) (xc_workspace_root X)) (abs_comps (os_cwd S) (path_join (xc_workspace_root X) p))"
proof -
  have reg: "map_of CANONICAL_TOOLS ''read_file'' = Some (tool_defaults ''read_file''
        ''Read an entire file.'' [''path'', ''timeout_s''])"
    by (simp add: CANONICAL_TOOLS_def)
  have eq: "dispatch_tool R S event ''read_file'' args X decision = stamp ''read_file'' decision event
      (case handle_read_file S X args of Inl e \<Rightarrow> fail_result ''read_file'' (''HANDLER_EXCEPTION: '' @ os_exc_text S e)
       | Inr r \<Rightarrow> r)"
    by (simp add: dispatch_tool_def reg HANDLERS_def tool_defaults_def)
  obtain p where p: "dget args ''path'' = Some (PStr p)" "\<not> unsafe_path p"
    and f: "os_isfile S (path_join (xc_workspace_root X) p)"
    and c: "\<exists>content. os_read S (path_join (xc_workspace_root X) p) = Inr content"
    using assms(1) unfolding eq handle_read_file_def
    by (cases "dget args ''path''"; cases "the (dget args ''path'')")
       (auto simp: dget_or_def stamp_def fail_result_def empty_result_def Let_def split: if_splits sum.splits)
  then obtain content where content: "os_read S (path_join (xc_workspace_root X) p) = Inr content" by blast
  have "p \<noteq> []" using assms(1) p unfolding eq handle_read_file_def
    by (auto simp: dget_or_def stamp_def fail_result_def empty_result_def)
  then have "tr_output (dispatch_tool R S event ''read_file'' args X decision) = Some (take 65536 content)"
    using p f content unfolding eq handle_read_file_def by (simp add: dget_or_def stamp_def ok_result_def Let_def)
  with p f content join_below [OF p(2) assms(2)] show ?thesis by (auto simp: prefix_def)
qed

definition demo_env :: os_env where
  "demo_env = \<lparr>os_cwd = ''/'', os_isfile = (\<lambda>p. p = ''/ws/src/a.py''), os_isdir = (\<lambda>p. p = ''/ws''),
     os_read = (\<lambda>p. Inr ''x = 1''), os_walk = (\<lambda>p. []), os_exc_text = (\<lambda>e. ''error'')\<rparr>"

definition demo_context :: execution_context where
  "demo_context = \<lparr>xc_workspace_root = ''/ws'', xc_run_id = [], xc_iter_count = 0,
     xc_sandbox_mode = ''local_dev'', xc_dev_mode = False\<rparr>"

theorem read_file_confined_witness:
  "prefix (abs_comps ''/'' ''/ws'') (abs_comps ''/'' (path_join ''/ws'' ''src/a.py''))
   \<and> tr_output (dispatch_tool toy_runtime demo_env ''e1'' ''read_file'' [(PStr ''path'', PStr ''src/a.py'')] demo_context None)
     = Some ''x = 1''"
proof -
  have run: "dispatch_tool toy_runtime demo_env ''e1'' ''read_file'' [(PStr ''path'', PStr ''src/a.py'')] demo_context None
      = stamp ''read_file'' None ''e1'' (ok_result ''read_file'' ''x = 1'')"
    by (simp add: dispatch_tool_def CANONICAL_TOOLS_def HANDLERS_def tool_defaults_def handle_read_file_def
        Let_def unsafe_path_def isabs_def split_char_def path_join_def suffix_to_prefix demo_env_def demo_context_def)
  then have "tr_success (dispatch_tool toy_runtime demo_env ''e1'' ''read_file'' [(PStr ''path'', PStr ''src/a.py'')] demo_context None)"
    by (simp add: stamp_def ok_result_def empty_result_def)
  from read_file_confined [OF this] show ?thesis
    by (auto simp: demo_env_def demo_context_def isabs_def)
qed

end
