(* ===== verification/Stability.thy ===== *)
theory Stability
  imports Py_Value
begin

text \<open>
  The stability package: \<open>stability/predictor.py\<close> smooths each signal exponentially and compares it with
  its thresholds, \<open>stability/signals.py\<close> keeps windows of samples, and \<open>stability/correct.py\<close> turns a
  prediction into a change of the environment variables the workers read, at most once per cooldown.
\<close>

section \<open>Exponential smoothing\<close>

record smoother =
  sm_alpha :: rat
  sm_smoothed :: "rat option"

definition smooth :: "rat \<Rightarrow> smoother \<Rightarrow> rat \<times> smoother" where
  "smooth x s =
     (let y = (case sm_smoothed s of None \<Rightarrow> x | Some v \<Rightarrow> sm_alpha s * x + (1 - sm_alpha s) * v)
      in (y, s\<lparr>sm_smoothed := Some y\<rparr>))"

definition reset_smoother :: "smoother \<Rightarrow> smoother" where
  "reset_smoother s = s\<lparr>sm_smoothed := None\<rparr>"

text \<open>The thresholds of a signal: \<open>warn\<close>, \<open>critical\<close> and \<open>direction\<close>.\<close>

type_synonym thresholds = "(string \<times> rat) list"

record predictor =
  pd_alpha :: rat
  pd_smoothers :: "(string \<times> smoother) list"
  pd_thresholds :: "(string \<times> thresholds) list"

definition DEFAULT_THRESHOLDS :: "(string \<times> thresholds) list" where
  "DEFAULT_THRESHOLDS =
     [(''error_count'', [(''warn'', 3), (''critical'', 10), (''direction'', 1)]),
      (''cpu_percent'', [(''warn'', 80), (''critical'', 95), (''direction'', 1)]),
      (''memory_percent'', [(''warn'', 85), (''critical'', 95), (''direction'', 1)]),
      (''patch_success_rate'', [(''warn'', 3 / 10), (''critical'', 1 / 10), (''direction'', -1)])]"

definition new_predictor :: "rat \<Rightarrow> (string \<times> thresholds) list \<Rightarrow> predictor" where
  "new_predictor alpha thresholds =
     \<lparr>pd_alpha = alpha, pd_smoothers = [],
      pd_thresholds = (if thresholds = [] then DEFAULT_THRESHOLDS else thresholds)\<rparr>"

definition smoother_of :: "predictor \<Rightarrow> string \<Rightarrow> smoother" where
  "smoother_of p name =
     (case map_of (pd_smoothers p) name of None \<Rightarrow> \<lparr>sm_alpha = pd_alpha p, sm_smoothed = None\<rparr> | Some s \<Rightarrow> s)"

definition pd_update :: "string \<Rightarrow> rat \<Rightarrow> predictor \<Rightarrow> rat \<times> predictor" where
  "pd_update name x p =
     (case smooth x (smoother_of p name) of
        (y, s) \<Rightarrow> (y, p\<lparr>pd_smoothers := AList.update name s (pd_smoothers p)\<rparr>))"

fun pd_update_batch :: "(string \<times> rat) list \<Rightarrow> predictor \<Rightarrow> (string \<times> rat) list \<times> predictor" where
  "pd_update_batch [] p = ([], p)"
| "pd_update_batch ((name, x) # rest) p =
     (case pd_update name x p of (y, p1) \<Rightarrow>
        (case pd_update_batch rest p1 of (ys, p2) \<Rightarrow> ((name, y) # ys, p2)))"

section \<open>Prediction\<close>

datatype health = Ok | Warn | Critical

fun health_text :: "health \<Rightarrow> string" where
  "health_text Ok = ''ok''"
| "health_text Warn = ''warn''"
| "health_text Critical = ''critical''"

text \<open>A missing \<open>warn\<close> or \<open>critical\<close> threshold is infinity (\<open>None\<close>) in either direction.\<close>

definition at_least :: "rat \<Rightarrow> rat option \<Rightarrow> bool" where
  "at_least x t = (case t of None \<Rightarrow> False | Some y \<Rightarrow> y \<le> x)"

definition at_most :: "rat \<Rightarrow> rat option \<Rightarrow> bool" where
  "at_most x t = (case t of None \<Rightarrow> True | Some y \<Rightarrow> x \<le> y)"

definition threshold_text :: "runtime \<Rightarrow> rat option \<Rightarrow> string" where
  "threshold_text R t = (case t of None \<Rightarrow> ''inf'' | Some y \<Rightarrow> rt_str R (PFloat y))"

definition judge :: "runtime \<Rightarrow> string \<Rightarrow> rat \<Rightarrow> thresholds \<Rightarrow> health \<times> string" where
  "judge R name x th =
     (let direction = (case map_of th ''direction'' of None \<Rightarrow> 1 | Some d \<Rightarrow> d);
          warn = map_of th ''warn''; critical = map_of th ''critical'';
          msg = (\<lambda>rel t. name @ ''='' @ rt_fixed R 2 x @ '' ('' @ rel @ threshold_text R t @ '')'')
      in if th = [] then (Ok, [])
         else if direction = 1 then
           (if at_least x critical then (Critical, msg ''>='' critical)
            else if at_least x warn then (Warn, msg ''>='' warn) else (Ok, []))
         else
           (if at_most x critical then (Critical, msg ''<='' critical)
            else if at_most x warn then (Warn, msg ''<='' warn) else (Ok, [])))"

definition judge_signal :: "runtime \<Rightarrow> predictor \<Rightarrow> string \<Rightarrow> rat \<Rightarrow> health \<times> string" where
  "judge_signal R p name x =
     judge R name x (case map_of (pd_thresholds p) name of None \<Rightarrow> [] | Some th \<Rightarrow> th)"

record prediction =
  pn_stable :: bool
  pn_warnings :: "string list"
  pn_criticals :: "string list"
  pn_signals :: "(string \<times> rat \<times> health) list"

definition observed :: "predictor \<Rightarrow> (string \<times> rat) list" where
  "observed p = concat (map (\<lambda>(name, s). case sm_smoothed s of None \<Rightarrow> [] | Some x \<Rightarrow> [(name, x)]) (pd_smoothers p))"

definition messages_of :: "runtime \<Rightarrow> predictor \<Rightarrow> health \<Rightarrow> string list" where
  "messages_of R p h =
     map (\<lambda>(name, x). snd (judge_signal R p name x))
       (filter (\<lambda>(name, x). fst (judge_signal R p name x) = h) (observed p))"

definition predict :: "runtime \<Rightarrow> predictor \<Rightarrow> prediction" where
  "predict R p =
     \<lparr>pn_stable = (messages_of R p Critical = []),
      pn_warnings = messages_of R p Warn, pn_criticals = messages_of R p Critical,
      pn_signals = map (\<lambda>(name, x). (name, round4 x, fst (judge_signal R p name x))) (observed p)\<rparr>"

definition is_stable :: "runtime \<Rightarrow> predictor \<Rightarrow> bool" where
  "is_stable R p = pn_stable (predict R p)"

section \<open>Windows of samples\<close>

record collector =
  cl_window :: nat
  cl_series :: "(string \<times> (rat \<times> rat) list) list"
  cl_counts :: "(string \<times> int) list"

definition new_collector :: "nat \<Rightarrow> collector" where
  "new_collector w = \<lparr>cl_window = w, cl_series = [], cl_counts = []\<rparr>"

text \<open>A full deque drops its oldest sample.\<close>

definition push_sample :: "nat \<Rightarrow> 'a \<Rightarrow> 'a list \<Rightarrow> 'a list" where
  "push_sample w x xs = drop (length xs + 1 - w) (xs @ [x])"

definition cl_record :: "rat \<Rightarrow> string \<Rightarrow> rat \<Rightarrow> rat option \<Rightarrow> collector \<Rightarrow> collector" where
  "cl_record now name x ts c =
     (let t = (case ts of None \<Rightarrow> now | Some t \<Rightarrow> if t = 0 then now else t);
          old = (case map_of (cl_series c) name of None \<Rightarrow> [] | Some xs \<Rightarrow> xs);
          count = (case map_of (cl_series c) name of None \<Rightarrow> 0
                   | Some xs \<Rightarrow> (case map_of (cl_counts c) name of None \<Rightarrow> 0 | Some k \<Rightarrow> k))
      in c\<lparr>cl_series := AList.update name (push_sample (cl_window c) (t, x) old) (cl_series c),
           cl_counts := AList.update name (count + 1) (cl_counts c)\<rparr>)"

definition samples :: "collector \<Rightarrow> string \<Rightarrow> (rat \<times> rat) list" where
  "samples c name = (case map_of (cl_series c) name of None \<Rightarrow> [] | Some xs \<Rightarrow> xs)"

definition cl_latest :: "collector \<Rightarrow> string \<Rightarrow> rat option" where
  "cl_latest c name = (if samples c name = [] then None else Some (snd (last (samples c name))))"

text \<open>\<open>vals[-n:]\<close> for any integer.\<close>

definition tail_slice :: "int \<Rightarrow> 'a list \<Rightarrow> 'a list" where
  "tail_slice n xs = (if 0 < n then last_n (nat n) xs else drop (nat (- n)) xs)"

text \<open>\<open>None\<close> without samples; dividing by the length of an empty slice raises.\<close>

datatype mean_result = NoMean | Mean rat | ZeroDivision

definition cl_mean :: "collector \<Rightarrow> string \<Rightarrow> int option \<Rightarrow> mean_result" where
  "cl_mean c name n =
     (if samples c name = [] then NoMean
      else let vals = (case n of None \<Rightarrow> samples c name | Some k \<Rightarrow> tail_slice k (samples c name))
           in if vals = [] then ZeroDivision else Mean (sum_list (map snd vals) / of_nat (length vals)))"

definition cl_trend :: "collector \<Rightarrow> string \<Rightarrow> int \<Rightarrow> rat option" where
  "cl_trend c name n =
     (if length (samples c name) < 2 then None
      else let vals = tail_slice n (samples c name)
           in if length vals < 2 then Some 0
              else let (t0, v0) = hd vals; (t1, v1) = last vals; dt = t1 - t0
                   in Some (if dt = 0 then 0 else (v1 - v0) / dt))"

definition collect_agent_signals :: "rat \<Rightarrow> int \<Rightarrow> int \<Rightarrow> int \<Rightarrow> rat \<Rightarrow> collector \<Rightarrow> collector" where
  "collect_agent_signals now attempted succeeded errors duration c =
     (let c1 = (if 0 < attempted
                then cl_record now ''patch_success_rate'' (of_int succeeded / of_int attempted) None c else c);
          c2 = cl_record now ''error_count'' (of_int errors) None c1
      in if 0 < duration then cl_record now ''run_duration_s'' duration None c2 else c2)"

section \<open>Correction\<close>

text \<open>The dictionaries that an evaluation returns; \<open>co_applied\<close> is absent when nothing was done.\<close>

record correction =
  co_action :: string
  co_reason :: string
  co_prediction :: prediction
  co_applied :: "bool option"

text \<open>The environment variables are shared by the process. The history keeps each correction, here with
  the time it was taken at.\<close>

record corrector =
  cr_cooldown :: rat
  cr_last_action :: rat
  cr_actions :: "(correction \<times> rat) list"
  cr_env :: "(string \<times> string) list"

definition new_corrector :: "rat \<Rightarrow> (string \<times> string) list \<Rightarrow> corrector" where
  "new_corrector cooldown env =
     \<lparr>cr_cooldown = cooldown, cr_last_action = 0, cr_actions = [], cr_env = env\<rparr>"

definition env_int :: "(string \<times> string) list \<Rightarrow> string \<Rightarrow> int \<Rightarrow> int res" where
  "env_int env name d =
     (case map_of env name of
        None \<Rightarrow> Inr d
      | Some s \<Rightarrow> (case int_of_str s of None \<Rightarrow> Inl ValueError | Some i \<Rightarrow> Inr i))"

definition apply_throttle :: "(string \<times> string) list \<Rightarrow> (string \<times> string) list res" where
  "apply_throttle env =
     ebind (env_int env ''RFSN_PARALLEL_WORKERS'' 4) (\<lambda>current.
       Inr (if 1 < current
            then AList.update ''RFSN_PARALLEL_WORKERS'' (int_str (max 1 (current - 1))) env else env))"

definition apply_pause :: "(string \<times> string) list \<Rightarrow> (string \<times> string) list res" where
  "apply_pause env = Inr (AList.update ''RFSN_PAUSED'' ''1'' env)"

definition apply_reduce_workload :: "(string \<times> string) list \<Rightarrow> (string \<times> string) list res" where
  "apply_reduce_workload env =
     ebind (env_int env ''RFSN_BATCH_SIZE'' 10) (\<lambda>current.
       Inr (AList.update ''RFSN_BATCH_SIZE'' (int_str (max 1 (current div 2))) env))"

definition correction_for :: "prediction \<Rightarrow> string" where
  "correction_for p =
     (if \<not> pn_stable p then
        (if \<exists>c \<in> set (pn_criticals p). occurs_in ''memory_percent'' c then ''reduce_workload''
         else if \<exists>c \<in> set (pn_criticals p). occurs_in ''error_count'' c then ''pause''
         else ''throttle'')
      else if pn_warnings p \<noteq> [] then ''throttle'' else ''none'')"

definition apply_correction :: "string \<Rightarrow> (string \<times> string) list \<Rightarrow> (string \<times> string) list res" where
  "apply_correction action env =
     (if action = ''reduce_workload'' then apply_reduce_workload env
      else if action = ''pause'' then apply_pause env else apply_throttle env)"

text \<open>The reason names the first critical signal of the kind, or all messages.\<close>

definition correction_reason :: "runtime \<Rightarrow> prediction \<Rightarrow> string" where
  "correction_reason R p =
     (if \<not> pn_stable p then
        (case find (occurs_in ''memory_percent'') (pn_criticals p) of
           Some c \<Rightarrow> ''Critical memory: '' @ c
         | None \<Rightarrow>
             (case find (occurs_in ''error_count'') (pn_criticals p) of
                Some c \<Rightarrow> ''Critical error rate: '' @ c
              | None \<Rightarrow> ''Critical: '' @ py_str R (PList (map PStr (pn_criticals p)))))
      else if pn_warnings p \<noteq> [] then ''Warnings: '' @ py_str R (PList (map PStr (pn_warnings p)))
      else ''system stable'')"

definition evaluate_and_correct :: "runtime \<Rightarrow> rat \<Rightarrow> predictor \<Rightarrow> corrector \<Rightarrow> correction res \<times> corrector" where
  "evaluate_and_correct R now p k =
     (let pn = predict R p; action = correction_for pn; reason = correction_reason R pn
      in if now - cr_last_action k < cr_cooldown k
         then (Inr \<lparr>co_action = ''cooldown'',
                    co_reason = ''Last action was '' @ rt_fixed R 0 (now - cr_last_action k) @ ''s ago'',
                    co_prediction = pn, co_applied = None\<rparr>, k)
         else if action = ''none''
         then (Inr \<lparr>co_action = action, co_reason = reason, co_prediction = pn, co_applied = None\<rparr>, k)
         else case apply_correction action (cr_env k) of
                Inl e \<Rightarrow> (Inl e, k)
              | Inr env \<Rightarrow>
                  (let c = \<lparr>co_action = action, co_reason = reason, co_prediction = pn, co_applied = Some True\<rparr>
                   in (Inr c, k\<lparr>cr_env := env, cr_last_action := now, cr_actions := cr_actions k @ [(c, now)]\<rparr>)))"

section \<open>Facts\<close>

lemma smoother_of_update:
  "smoother_of (snd (pd_update name x p)) other =
     (if other = name then snd (smooth x (smoother_of p name)) else smoother_of p other)"
proof -
  have "snd (pd_update name x p) =
      p\<lparr>pd_smoothers := AList.update name (snd (smooth x (smoother_of p name))) (pd_smoothers p)\<rparr>"
    by (simp add: pd_update_def split: prod.split)
  then show ?thesis by (simp add: smoother_of_def dict_simps split: option.split)
qed

lemma smooth_alpha [simp]: "sm_alpha (snd (smooth x s)) = sm_alpha s"
  by (simp add: smooth_def Let_def)

lemma smooth_between:
  assumes "0 \<le> sm_alpha s" "sm_alpha s \<le> 1" "lo \<le> x" "x \<le> hi"
    and "\<And>v. sm_smoothed s = Some v \<Longrightarrow> lo \<le> v \<and> v \<le> hi"
  shows "\<exists>y. sm_smoothed (snd (smooth x s)) = Some y \<and> lo \<le> y \<and> y \<le> hi"
proof (cases "sm_smoothed s")
  case None
  with assms show ?thesis by (simp add: smooth_def Let_def)
next
  case (Some v)
  let ?a = "sm_alpha s"
  from Some assms(5) have v: "lo \<le> v" "v \<le> hi" by auto
  have "?a * lo + (1 - ?a) * lo \<le> ?a * x + (1 - ?a) * v" "?a * x + (1 - ?a) * v \<le> ?a * hi + (1 - ?a) * hi"
    using assms(1-4) v by (intro add_mono mult_left_mono; simp)+
  moreover have "?a * z + (1 - ?a) * z = z" for z :: rat by (simp add: algebra_simps)
  ultimately show ?thesis using Some by (simp add: smooth_def Let_def)
qed

text \<open>The observations of one signal in a sequence of updates.\<close>

definition observations :: "string \<Rightarrow> (string \<times> rat) list \<Rightarrow> rat list" where
  "observations name ops = map snd (filter (\<lambda>e. fst e = name) ops)"

abbreviation pd_step :: "predictor \<Rightarrow> string \<times> rat \<Rightarrow> predictor" where
  "pd_step p e \<equiv> snd (pd_update (fst e) (snd e) p)"

lemma smoother_run:
  "smoother_of (foldl pd_step p ops) name = foldl (\<lambda>s x. snd (smooth x s)) (smoother_of p name) (observations name ops)"
  by (induction ops arbitrary: p) (auto simp: observations_def smoother_of_update)

lemma smooth_run_between:
  assumes "0 \<le> sm_alpha s" "sm_alpha s \<le> 1" "\<forall>x \<in> set xs. lo \<le> x \<and> x \<le> hi"
    and "\<And>v. sm_smoothed s = Some v \<Longrightarrow> lo \<le> v \<and> v \<le> hi" "xs \<noteq> [] \<or> sm_smoothed s \<noteq> None"
  shows "\<exists>y. sm_smoothed (foldl (\<lambda>s x. snd (smooth x s)) s xs) = Some y \<and> lo \<le> y \<and> y \<le> hi"
  using assms
proof (induction xs arbitrary: s)
  case (Cons x xs)
  from smooth_between [OF Cons.prems(1,2), of lo x hi] Cons.prems(3,4)
  obtain y where "sm_smoothed (snd (smooth x s)) = Some y" "lo \<le> y" "y \<le> hi" by auto
  with Cons.IH [of "snd (smooth x s)"] Cons.prems(1-3) show ?case by auto
qed auto

lemma strip_digits: "\<forall>c \<in> set s. \<not> is_space c \<Longrightarrow> strip s = s"
proof -
  assume s: "\<forall>c \<in> set s. \<not> is_space c"
  have "dropWhile is_space xs = xs" if "set xs \<subseteq> set s" for xs
    using s that by (cases xs) auto
  from this [of s] this [of "rev s"] show ?thesis by (simp add: strip_def)
qed

lemma digit_no_space: "is_digit c \<Longrightarrow> \<not> is_space c"
  by (auto simp: is_digit_def is_space_def)

lemma int_of_str_int_str:
  assumes "0 \<le> i"
  shows "int_of_str (int_str i) = Some i"
proof -
  let ?s = "nat_str (nat i)"
  have digits: "\<forall>c \<in> set ?s. is_digit c" by (rule nat_str_digits)
  then have strip: "strip ?s = ?s" by (intro strip_digits) (auto dest: digit_no_space)
  obtain c cs where c: "?s = c # cs" by (meson neq_Nil_conv nat_str_nonempty)
  with digits have "is_digit c" by simp
  then have "c \<noteq> CHR ''-''" "c \<noteq> CHR ''+''" by (auto simp: is_digit_def code_def)
  moreover have "nat_of_str ?s = Some (nat i)"
    using c \<open>is_digit c\<close> digits_val_nat_str [of "nat i"] by (simp add: nat_of_str_def)
  ultimately show ?thesis
    using assms c strip by (simp add: int_of_str_def int_str_def)
qed

definition corrector_ok :: "corrector \<Rightarrow> bool" where
  "corrector_ok k \<longleftrightarrow>
     successively (\<lambda>a b. cr_cooldown k \<le> snd b - snd a) (cr_actions k)
     \<and> (cr_actions k \<noteq> [] \<longrightarrow> snd (last (cr_actions k)) = cr_last_action k)
     \<and> (\<exists>n \<ge> 1. env_int (cr_env k) ''RFSN_PARALLEL_WORKERS'' 4 = Inr n)"

lemma apply_correction_workers:
  assumes "apply_correction action env = Inr env'" "env_int env ''RFSN_PARALLEL_WORKERS'' 4 = Inr n" "1 \<le> n"
  shows "\<exists>n' \<ge> 1. env_int env' ''RFSN_PARALLEL_WORKERS'' 4 = Inr n'"
  using assms
  by (auto simp: apply_correction_def apply_reduce_workload_def apply_pause_def apply_throttle_def
      env_int_def dict_simps int_of_str_int_str split: if_splits)

lemma corrector_step_ok:
  assumes "corrector_ok k"
  shows "corrector_ok (snd (evaluate_and_correct R now p k))"
    "cr_cooldown (snd (evaluate_and_correct R now p k)) = cr_cooldown k"
proof -
  let ?act = "correction_for (predict R p)"
  have "corrector_ok (snd (evaluate_and_correct R now p k)) \<and> cr_cooldown (snd (evaluate_and_correct R now p k)) = cr_cooldown k"
  proof (cases "now - cr_last_action k < cr_cooldown k \<or> ?act = ''none''")
    case True
    with assms show ?thesis by (auto simp: evaluate_and_correct_def Let_def)
  next
    case False
    then show ?thesis
      using assms apply_correction_workers [of ?act "cr_env k"]
      by (cases "apply_correction ?act (cr_env k)")
         (auto simp: evaluate_and_correct_def Let_def corrector_ok_def successively_append_iff)
  qed
  then show "corrector_ok (snd (evaluate_and_correct R now p k))"
    "cr_cooldown (snd (evaluate_and_correct R now p k)) = cr_cooldown k" by blast+
qed

lemma push_sample_last: "push_sample w x (drop (length xs - w) xs) = drop (length xs + 1 - w) (xs @ [x])"
  by (cases "w \<le> length xs") (auto simp: push_sample_def Suc_diff_le)

abbreviation record_step :: "collector \<Rightarrow> rat \<times> string \<times> rat \<Rightarrow> collector" where
  "record_step c e \<equiv> cl_record (fst e) (fst (snd e)) (snd (snd e)) None c"

definition recorded :: "string \<Rightarrow> (rat \<times> string \<times> rat) list \<Rightarrow> (rat \<times> rat) list" where
  "recorded name ops = map (\<lambda>(t, n, x). (t, x)) (filter (\<lambda>e. fst (snd e) = name) ops)"

lemma samples_record:
  "samples (cl_record t name x None c) other =
     (if other = name then push_sample (cl_window c) (t, x) (samples c name) else samples c other)"
  by (simp add: cl_record_def samples_def Let_def dict_simps split: option.split)

lemma cl_window_run [simp]: "cl_window (foldl record_step c ops) = cl_window c"
  by (induction ops arbitrary: c) (simp_all add: cl_record_def Let_def)

lemma collector_run:
  fixes w ops name
  defines "c \<equiv> foldl record_step (new_collector w) ops" and "xs \<equiv> recorded name ops"
  shows "samples c name = drop (length xs - w) xs
    \<and> map_of (cl_counts c) name = (if xs = [] then None else Some (int (length xs)))
    \<and> (map_of (cl_series c) name = None \<longleftrightarrow> xs = [])"
  unfolding c_def xs_def
proof (induction ops rule: rev_induct)
  case Nil
  then show ?case by (simp add: samples_def new_collector_def recorded_def)
next
  case (snoc e ops)
  obtain t n x where e: "e = (t, n, x)" by (cases e)
  let ?c = "foldl record_step (new_collector w) ops"
  have samp: "samples (foldl record_step (new_collector w) (ops @ [e])) name
      = drop (length (recorded name (ops @ [e])) - w) (recorded name (ops @ [e]))"
    using snoc push_sample_last [of w "(t, x)" "recorded name ops"]
    by (auto simp: e samples_record recorded_def new_collector_def)
  have "map_of (cl_counts (cl_record t n x None ?c)) name =
      (if name = n then Some (1 + int (length (recorded name ops))) else map_of (cl_counts ?c) name)"
    using snoc by (auto simp: cl_record_def Let_def dict_simps split: option.split if_splits)
  moreover have "map_of (cl_series (cl_record t n x None ?c)) name = None \<longleftrightarrow> name \<noteq> n \<and> map_of (cl_series ?c) name = None"
    by (simp add: cl_record_def Let_def dict_simps)
  ultimately show ?case using samp snoc by (auto simp: e recorded_def)
qed

section \<open>Properties\<close>

text \<open>The smoothed value of a signal depends on the observations of that signal only, and for a
  smoothing factor between 0 and 1 it lies between the smallest and the largest of them.\<close>

theorem smoothing_bounded:
  assumes "0 \<le> alpha" "alpha \<le> 1" "p = foldl pd_step (new_predictor alpha th) ops" "observations name ops \<noteq> []"
  shows "\<exists>y. sm_smoothed (smoother_of p name) = Some y
    \<and> Min (set (observations name ops)) \<le> y \<and> y \<le> Max (set (observations name ops))
    \<and> (\<forall>ops'. observations name ops' = observations name ops \<longrightarrow>
         sm_smoothed (smoother_of (foldl pd_step (new_predictor alpha th) ops') name) = Some y)"
proof -
  have init: "smoother_of (new_predictor alpha th) name = \<lparr>sm_alpha = alpha, sm_smoothed = None\<rparr>"
    by (simp add: new_predictor_def smoother_of_def)
  show ?thesis
    using smooth_run_between [of "smoother_of (new_predictor alpha th) name" "observations name ops"
        "Min (set (observations name ops))" "Max (set (observations name ops))"] assms
    by (auto simp: smoother_run init)
qed

theorem smoothing_bounded_witness:
  "\<exists>y. sm_smoothed (smoother_of (foldl pd_step (new_predictor (3 / 10) []) [(''a'', 1), (''b'', 50), (''a'', 2)]) ''a'') = Some y
     \<and> 1 \<le> y \<and> y \<le> 2"
proof -
  have obs: "observations ''a'' [(''a'', 1), (''b'', 50), (''a'', 2)] = [1, 2]"
    by (simp add: observations_def)
  from smoothing_bounded [OF _ _ refl, of "3 / 10" "''a''" "[(''a'', 1), (''b'', 50), (''a'', 2)]" "[]"]
  show ?thesis unfolding obs by auto
qed

text \<open>A collector keeps, for every signal, exactly the last samples recorded for it, at most its window
  size, and counts all of them.\<close>

theorem collector_window:
  "let c = foldl record_step (new_collector (Suc w)) ops; xs = recorded name ops
   in samples c name = drop (length xs - Suc w) xs
      \<and> (if xs = [] then map_of (cl_counts c) name = None \<and> cl_latest c name = None
         else map_of (cl_counts c) name = Some (int (length xs)) \<and> cl_latest c name = Some (snd (last xs)))"
  using collector_run [of "Suc w" ops name]
  by (cases "recorded name ops") (simp_all add: Let_def cl_latest_def last_drop)

text \<open>However often the corrector evaluates and whatever the predictors say, the actions it takes are at
  least its cooldown apart, and the number of workers it leaves in the environment stays positive.\<close>

theorem corrections_spaced:
  assumes "env_int env ''RFSN_PARALLEL_WORKERS'' 4 = Inr n" "1 \<le> n"
    and "k = foldl (\<lambda>k (now, p). snd (evaluate_and_correct R now p k)) (new_corrector cooldown env) calls"
  shows "successively (\<lambda>a b. cooldown \<le> snd b - snd a) (cr_actions k)
    \<and> (\<exists>m \<ge> 1. env_int (cr_env k) ''RFSN_PARALLEL_WORKERS'' 4 = Inr m)"
proof -
  have "corrector_ok (foldl (\<lambda>k (now, p). snd (evaluate_and_correct R now p k)) k0 calls)
      \<and> cr_cooldown (foldl (\<lambda>k (now, p). snd (evaluate_and_correct R now p k)) k0 calls) = cr_cooldown k0"
    if "corrector_ok k0" for k0
    using that
  proof (induction calls arbitrary: k0)
    case (Cons c calls)
    then show ?case using corrector_step_ok [OF Cons.prems] by (cases c) simp
  qed simp
  moreover have "corrector_ok (new_corrector cooldown env)"
    using assms(1,2) by (auto simp: corrector_ok_def new_corrector_def)
  ultimately have "corrector_ok k" "cr_cooldown k = cooldown"
    using assms(3) by (auto simp: new_corrector_def)
  then show ?thesis by (auto simp: corrector_ok_def)
qed

definition hot_predictor :: predictor where
  "hot_predictor = snd (pd_update ''cpu_percent'' 97 (new_predictor (3 / 10) []))"

theorem corrections_spaced_witness:
  "successively (\<lambda>a b. 30 \<le> snd b - snd a)
     (cr_actions (foldl (\<lambda>k (now, p). snd (evaluate_and_correct toy_runtime now p k)) (new_corrector 30 [])
        [(100, hot_predictor), (110, hot_predictor), (140, hot_predictor)]))"
  using corrections_spaced [OF _ _ refl, of "[]" 4 30 toy_runtime "[(100, hot_predictor), (110, hot_predictor), (140, hot_predictor)]"]
  by (simp add: env_int_def)

text \<open>A signal for which low values are bad and whose \<open>critical\<close> threshold is missing is always critical:
  the default is infinity for both directions.\<close>

lemma missing_critical_is_critical:
  "th \<noteq> [] \<Longrightarrow> map_of th ''direction'' = Some (-1) \<Longrightarrow> map_of th ''critical'' = None \<Longrightarrow> fst (judge R name x th) = Critical"
  by (simp add: judge_def Let_def at_most_def)

end
