(* ===== verification/Run_Helpers.thy ===== *)
theory Run_Helpers
  imports Py_Text
begin

text \<open>
  The small stores and rules around a run: the admission of concurrent runs
  (\<open>rfsn_kernel/scheduler.py\<close>), the result cache (\<open>sim_cache.py\<close>), the inbox of external advice
  (\<open>advisor.py\<close>), the phases of a repair cycle (\<open>repair_loop.py\<close>), the trimming of diffs
  (\<open>patch_minimize.py\<close>) and the choice of command templates (\<open>command_infer.py\<close>).
\<close>

section \<open>Scheduler\<close>

record run_budget =
  rb_start :: rat
  rb_max_seconds :: int

definition budget_fine :: "rat \<Rightarrow> run_budget \<Rightarrow> bool" where
  "budget_fine now b \<longleftrightarrow> now - rb_start b \<le> of_int (rb_max_seconds b)"

record scheduler =
  sd_max_concurrent :: int
  sd_active :: "(string \<times> run_budget) list"

definition new_scheduler :: "int \<Rightarrow> scheduler" where
  "new_scheduler n = \<lparr>sd_max_concurrent = max 1 n, sd_active = []\<rparr>"

definition run_name :: "string \<Rightarrow> string" where
  "run_name run_id = (if run_id = [] then ''__default__'' else run_id)"

definition start_run :: "rat \<Rightarrow> string \<Rightarrow> int \<Rightarrow> scheduler \<Rightarrow> bool \<times> scheduler" where
  "start_run now run_id max_seconds s =
     (let rid = run_name run_id
      in if map_of (sd_active s) rid \<noteq> None then (True, s)
         else if sd_max_concurrent s \<le> int (length (sd_active s)) then (False, s)
         else (True, s\<lparr>sd_active := AList.update rid \<lparr>rb_start = now, rb_max_seconds = max_seconds\<rparr> (sd_active s)\<rparr>))"

definition finish_run :: "string \<Rightarrow> scheduler \<Rightarrow> scheduler" where
  "finish_run run_id s = s\<lparr>sd_active := AList.delete (run_name run_id) (sd_active s)\<rparr>"

definition budget_ok :: "rat \<Rightarrow> string \<Rightarrow> scheduler \<Rightarrow> bool" where
  "budget_ok now run_id s =
     (case map_of (sd_active s) (run_name run_id) of None \<Rightarrow> False | Some b \<Rightarrow> budget_fine now b)"

definition scheduler_stats :: "scheduler \<Rightarrow> int \<times> int" where
  "scheduler_stats s = (sd_max_concurrent s, int (length (sd_active s)))"

section \<open>Result cache and advice\<close>

text \<open>The values are copied on both ways, so the cache is a map of values.\<close>

definition cache_key :: "runtime \<Rightarrow> pydict \<Rightarrow> string \<Rightarrow> string" where
  "cache_key R step workdir =
     rt_sha256 R (rt_dumps R True (PDict [(PStr ''step'', PDict step), (PStr ''workdir'', PStr workdir)]))"

definition cache_get :: "string \<Rightarrow> (string \<times> pydict) list \<Rightarrow> pydict option" where
  "cache_get key m = map_of m key"

definition cache_put :: "string \<Rightarrow> pydict \<Rightarrow> (string \<times> pydict) list \<Rightarrow> (string \<times> pydict) list" where
  "cache_put key v m = AList.update key v m"

record advice =
  ad_source :: string
  ad_content :: string
  ad_timestamp :: rat
  ad_acknowledged :: bool

record advisor =
  av_log :: "advice list"
  av_pending :: "advice list"

definition ingest_pr_comment :: "rat \<Rightarrow> string \<Rightarrow> string \<Rightarrow> advisor \<Rightarrow> advisor" where
  "ingest_pr_comment now body author a =
     (let x = \<lparr>ad_source = ''pr_comment:'' @ author, ad_content = body, ad_timestamp = now,
               ad_acknowledged = False\<rparr>
      in a\<lparr>av_log := av_log a @ [x], av_pending := av_pending a @ [x]\<rparr>)"

definition get_pending_advice :: "advisor \<Rightarrow> advice list \<times> advisor" where
  "get_pending_advice a = (av_pending a, a\<lparr>av_pending := []\<rparr>)"

section \<open>Repair cycle\<close>

definition PHASE_ORDER :: "string list" where
  "PHASE_ORDER = [''SEARCH'', ''LOCALIZE'', ''PATCH'', ''VERIFY'', ''ISOLATE'']"

text \<open>\<open>xs.index(x)\<close>, with \<open>None\<close> for the \<open>ValueError\<close>.\<close>

fun index_of :: "'a \<Rightarrow> 'a list \<Rightarrow> nat option" where
  "index_of x [] = None"
| "index_of x (y # ys) = (if x = y then Some 0 else map_option Suc (index_of x ys))"

definition next_phase :: "runtime \<Rightarrow> pydict \<Rightarrow> string res" where
  "next_phase R st =
     (let phase = py_str R (dget_or st ''phase'' (PStr ''SEARCH''))
      in ebind (py_int (py_or (dget_or st ''last_status'' (PInt 1)) (PInt 1))) (\<lambda>last_status.
           Inr (if last_status = 0 \<and> (phase = ''VERIFY'' \<or> phase = ''ISOLATE'') then ''DONE''
                else case index_of phase PHASE_ORDER of
                       None \<Rightarrow> ''SEARCH''
                     | Some i \<Rightarrow> if i + 1 < length PHASE_ORDER then PHASE_ORDER ! (i + 1) else ''PATCH'')))"

definition should_retry :: "pydict \<Rightarrow> bool res" where
  "should_retry st =
     ebind (py_int (py_or (dget_or st ''attempt'' (PInt 0)) (PInt 0))) (\<lambda>attempt.
     ebind (py_int (py_or (dget_or st ''max_attempts'' (PInt 3)) (PInt 3))) (\<lambda>limit.
       Inr (attempt < limit)))"

definition update_state :: "pydict \<Rightarrow> string \<Rightarrow> int \<Rightarrow> pydict res" where
  "update_state st phase status =
     (let st1 = dput ''last_status'' (PInt status) (dput ''phase'' (PStr phase) st)
      in if phase = ''PATCH''
         then ebind (py_int (py_or (dget_or st1 ''attempt'' (PInt 0)) (PInt 0))) (\<lambda>n.
                Inr (dput ''attempt'' (PInt (n + 1)) st1))
         else Inr st1)"

section \<open>Trimming a diff\<close>

text \<open>The loop over the lines: \<open>out\<close>, the hunk that is being collected, and whether it has a change.\<close>

definition flush_hunk :: "string list \<Rightarrow> string list \<Rightarrow> bool \<Rightarrow> string list" where
  "flush_hunk out hunk changed = (if hunk \<noteq> [] \<and> changed then out @ hunk else out)"

definition change_line :: "string \<Rightarrow> bool" where
  "change_line l \<longleftrightarrow>
     startswith l ''+'' \<and> \<not> startswith l ''+++'' \<or> startswith l ''-'' \<and> \<not> startswith l ''---''"

fun minimize_lines :: "string list \<Rightarrow> string list \<Rightarrow> bool \<Rightarrow> string list \<Rightarrow> string list" where
  "minimize_lines out hunk changed [] = flush_hunk out hunk changed"
| "minimize_lines out hunk changed (l # ls) =
     (if startswith l ''@@'' then minimize_lines (flush_hunk out hunk changed) [l] False ls
      else if hunk \<noteq> [] then minimize_lines out (hunk @ [l]) (changed \<or> change_line l) ls
      else minimize_lines (out @ [l]) hunk changed ls)"

definition minimize_unified_diff :: "string \<Rightarrow> string" where
  "minimize_unified_diff diff =
     (if diff = [] then []
      else join [CHR 0x0A] (minimize_lines [] [] False (splitlines diff))
           @ (if endswith diff [CHR 0x0A] then [CHR 0x0A] else []))"

section \<open>Command templates\<close>

definition has_marker :: "pydict \<Rightarrow> string list \<Rightarrow> bool" where
  "has_marker w markers =
     (case dget w ''markers'' of
        Some (PList ms) \<Rightarrow> (\<exists>m \<in> set ms. \<exists>s \<in> set markers. m = PStr s)
      | _ \<Rightarrow> False)"

fun first_id :: "(pydict \<Rightarrow> string \<Rightarrow> bool) \<Rightarrow> pydict list \<Rightarrow> string option" where
  "first_id ok [] = None"
| "first_id ok (w # ws) =
     (case dget w ''id'' of
        Some (PStr s) \<Rightarrow> if ok w s then Some s else first_id ok ws
      | _ \<Rightarrow> first_id ok ws)"

definition preferred_workdir :: "pydict list \<Rightarrow> string option" where
  "preferred_workdir ws =
     (case first_id (\<lambda>w s. dget w ''rel'' = Some (PStr ''.'')) ws of
        Some s \<Rightarrow> Some s
      | None \<Rightarrow> first_id (\<lambda>w s. s \<noteq> []) ws)"

definition put_first :: "string \<Rightarrow> string list \<Rightarrow> string list" where
  "put_first x xs = x # filter (\<lambda>y. y \<noteq> x) xs"

definition flag :: "pydict \<Rightarrow> string \<Rightarrow> bool" where
  "flag profile key = truthy (dget_or profile key (PBool False))"

definition test_templates :: "pydict \<Rightarrow> string list" where
  "test_templates pr =
     (if flag pr ''has_python'' then [''python:pytest'', ''python:unittest''] else [])
     @ (if flag pr ''has_node'' then [''node:test''] else [])
     @ (if flag pr ''has_go'' then [''go:test''] else [])
     @ (if flag pr ''has_rust'' then [''rust:test''] else [])
     @ (if flag pr ''has_make'' then [''make:test''] else [])"

text \<open>The first work directory whose \<open>id\<close> is the preferred one; without a preferred one this is the
  first whose \<open>id\<close> is missing or null.\<close>

fun chosen_workdir :: "string option \<Rightarrow> pydict list \<Rightarrow> pydict option" where
  "chosen_workdir pref [] = None"
| "chosen_workdir pref (w # ws) =
     (if dget_or w ''id'' PNone = (case pref of None \<Rightarrow> PNone | Some s \<Rightarrow> PStr s) then Some w
      else chosen_workdir pref ws)"

definition boosted :: "pydict option \<Rightarrow> string list \<Rightarrow> bool" where
  "boosted w markers = (case w of None \<Rightarrow> False | Some d \<Rightarrow> has_marker d markers)"

record command_plan =
  cp_workdir_id :: "string option"
  cp_test_templates :: "string list"
  cp_lint_templates :: "string list"
  cp_build_templates :: "string list"

definition infer_commands :: "pydict \<Rightarrow> pydict list \<Rightarrow> command_plan" where
  "infer_commands pr ws =
     (let pref = preferred_workdir ws; w = chosen_workdir pref ws;
          t1 = test_templates pr;
          t2 = (if boosted w [''package.json'', ''pnpm-lock.yaml'', ''yarn.lock'', ''package-lock.json'']
                   \<and> ''node:test'' \<in> set t1 then put_first ''node:test'' t1 else t1);
          t3 = (if boosted w [''pyproject.toml'', ''requirements.txt'', ''setup.py'', ''setup.cfg'']
                   \<and> ''python:pytest'' \<in> set t2 then put_first ''python:pytest'' t2 else t2)
      in \<lparr>cp_workdir_id = pref, cp_test_templates = t3,
          cp_lint_templates = (if flag pr ''has_python'' then [''python:ruff''] else [])
                              @ (if flag pr ''has_node'' then [''node:lint''] else []),
          cp_build_templates = (if flag pr ''has_node'' then [''tsc''] else [])\<rparr>)"

section \<open>Admission of runs\<close>

datatype scheduler_op = StartRun rat string int | EndRun string

fun scheduler_step :: "scheduler \<Rightarrow> scheduler_op \<Rightarrow> scheduler" where
  "scheduler_step s (StartRun now rid secs) = snd (start_run now rid secs s)"
| "scheduler_step s (EndRun rid) = finish_run rid s"

definition scheduler_ok :: "int \<Rightarrow> scheduler \<Rightarrow> bool" where
  "scheduler_ok n s \<longleftrightarrow>
     sd_max_concurrent s = max 1 n \<and> int (length (sd_active s)) \<le> max 1 n \<and> dict_ok (sd_active s)"

lemma scheduler_step_ok: "scheduler_ok n s \<Longrightarrow> scheduler_ok n (scheduler_step s x)"
proof (cases x)
  case (EndRun rid)
  assume "scheduler_ok n s"
  moreover have "int (length (AList.delete (run_name rid) (sd_active s))) \<le> int (length (sd_active s))"
    by (simp add: length_delete_le)
  ultimately show ?thesis using EndRun
    by (simp add: scheduler_ok_def finish_run_def dict_ok_delete)
qed (auto simp: scheduler_ok_def start_run_def Let_def dict_simps)

interpretation admission: machine scheduler_step "new_scheduler n" "scheduler_ok n" for n
  by unfold_locales (auto simp: scheduler_step_ok, simp add: scheduler_ok_def new_scheduler_def)

section \<open>The repair cycle\<close>

fun repair_run :: "runtime \<Rightarrow> pydict \<Rightarrow> int list \<Rightarrow> pydict res" where
  "repair_run R st [] = Inr st"
| "repair_run R st (s # ss) =
     ebind (next_phase R st) (\<lambda>ph. ebind (update_state st ph s) (\<lambda>st'. repair_run R st' ss))"

text \<open>The phase after \<open>n\<close> rounds.\<close>

definition phase_at :: "nat \<Rightarrow> string" where
  "phase_at n = (if n = 0 then ''SEARCH'' else if n = 1 then ''LOCALIZE''
                 else [''PATCH'', ''VERIFY'', ''ISOLATE''] ! ((n - 2) mod 3))"

definition repair_at :: "int \<Rightarrow> nat \<Rightarrow> pydict \<Rightarrow> bool" where
  "repair_at m n st \<longleftrightarrow>
     dget st ''max_attempts'' = Some (PInt m)
     \<and> dget st ''phase'' = (if n = 0 then None else Some (PStr (phase_at n)))
     \<and> (\<exists>s. dget_or st ''last_status'' (PInt 1) = PInt s)
     \<and> dget_or st ''attempt'' (PInt 0) = PInt (int ((n + 1) div 3))"

lemma phase_cases:
  fixes n :: nat
  obtains "n = 0" | "n = 1" | k where "n = 3 * k + 2" | k where "n = 3 * k + 3" | k where "n = 3 * k + 4"
proof -
  have "n = 0 \<or> n = 1 \<or> (\<exists>k. n = 3 * k + 2) \<or> (\<exists>k. n = 3 * k + 3) \<or> (\<exists>k. n = 3 * k + 4)"
    by presburger
  then show thesis using that by blast
qed

lemma phase_at_Suc:
  "(if False then ''DONE'' else case index_of (phase_at n) PHASE_ORDER of None \<Rightarrow> ''SEARCH''
     | Some i \<Rightarrow> if i + 1 < length PHASE_ORDER then PHASE_ORDER ! (i + 1) else ''PATCH'') = phase_at (Suc n)"
  by (rule phase_cases [of n]) (simp_all add: phase_at_def PHASE_ORDER_def mod_Suc)

lemma next_phase_at:
  assumes "repair_at m n st"
  shows "next_phase R st = Inr (phase_at (Suc n))"
proof -
  obtain s where s: "dget_or st ''last_status'' (PInt 1) = PInt s" using assms by (auto simp: repair_at_def)
  have "py_int (py_or (PInt s) (PInt 1)) = Inr (if s = 0 then 1 else s)" by (simp add: py_or_def)
  moreover have "py_str R (dget_or st ''phase'' (PStr ''SEARCH'')) = phase_at n"
    using assms by (auto simp: repair_at_def dget_or_def phase_at_def)
  ultimately show ?thesis
    using phase_at_Suc [of n] by (simp add: next_phase_def Let_def s)
qed

lemma update_state_at:
  assumes "repair_at m n st"
  shows "\<exists>st'. update_state st (phase_at (Suc n)) s = Inr st' \<and> repair_at m (Suc n) st'"
proof -
  have att: "dget_or st ''attempt'' (PInt 0) = PInt (int ((n + 1) div 3))" using assms by (simp add: repair_at_def)
  have py: "py_int (py_or (PInt i) (PInt 0)) = Inr i" for i by (simp add: py_or_def)
  have patch: "phase_at (Suc n) = ''PATCH'' \<longleftrightarrow> (n + 1) mod 3 = 2"
    by (rule phase_cases [of n]) (simp_all add: phase_at_def mod_Suc)
  have Suc: "(Suc n + 1) div 3 = (if (n + 1) mod 3 = 2 then (n + 1) div 3 + 1 else (n + 1) div 3)"
    by presburger
  show ?thesis
    using assms unfolding patch [symmetric] Suc repair_at_def update_state_def Let_def
    by (cases "phase_at (Suc n) = ''PATCH''") (auto simp: dict_simps att py patch Suc)
qed

lemma repair_run_at:
  "repair_at m n st \<Longrightarrow> \<exists>st'. repair_run R st statuses = Inr st' \<and> repair_at m (n + length statuses) st'"
proof (induction statuses arbitrary: st n)
  case (Cons s ss)
  from update_state_at [OF Cons.prems, of s] obtain st1
    where st1: "update_state st (phase_at (Suc n)) s = Inr st1" "repair_at m (Suc n) st1" by blast
  from Cons.IH [OF st1(2)] next_phase_at [OF Cons.prems, of R] st1(1) show ?case by simp
qed auto

section \<open>Hunks\<close>

text \<open>The lines before the first hunk, and the hunks.\<close>

fun hunks :: "string list \<Rightarrow> string list \<times> string list list" where
  "hunks [] = ([], [])"
| "hunks (l # ls) =
     (case hunks ls of (pre, hs) \<Rightarrow> if startswith l ''@@'' then ([], (l # pre) # hs) else (l # pre, hs))"

definition has_change :: "string list \<Rightarrow> bool" where
  "has_change h \<longleftrightarrow> (\<exists>l \<in> set h. change_line l)"

lemma header_no_change: "startswith l ''@@'' \<Longrightarrow> \<not> change_line l"
  by (cases l) (auto simp: startswith_def change_line_def)

lemma minimize_hunks:
  "minimize_lines out hunk changed ls =
     (case hunks ls of (pre, hs) \<Rightarrow>
        (if hunk = [] then out @ pre else if changed \<or> has_change pre then out @ hunk @ pre else out)
        @ concat (filter has_change hs))"
proof (induction out hunk changed ls rule: minimize_lines.induct)
  case (2 out hunk changed l ls)
  obtain pre hs where h: "hunks ls = (pre, hs)" by fastforce
  show ?case
  proof (cases "startswith l ''@@''")
    case True
    with 2(1) h header_no_change [OF True] show ?thesis
      by (auto simp: flush_hunk_def has_change_def)
  next
    case False
    with 2 h show ?thesis by (auto simp: has_change_def)
  qed
qed (simp add: flush_hunk_def has_change_def)

lemma hunks_concat: "hunks ls = (pre, hs) \<Longrightarrow> ls = pre @ concat hs"
  by (induction ls arbitrary: pre hs) (auto split: prod.splits if_splits)

lemma hunks_form:
  "hunks ls = (pre, hs) \<Longrightarrow>
     (\<forall>l \<in> set pre. \<not> startswith l ''@@'')
     \<and> (\<forall>h \<in> set hs. \<exists>l t. h = l # t \<and> startswith l ''@@'' \<and> (\<forall>x \<in> set t. \<not> startswith x ''@@''))"
  by (induction ls arbitrary: pre hs) (auto split: prod.splits if_splits)

lemma hunks_plain: "\<forall>l \<in> set pre. \<not> startswith l ''@@'' \<Longrightarrow> hunks (pre @ ls) = (pre @ fst (hunks ls), snd (hunks ls))"
  by (induction pre) (auto split: prod.split)

lemma hunks_join:
  assumes "\<forall>l \<in> set pre. \<not> startswith l ''@@''"
    and "\<forall>h \<in> set hs. \<exists>l t. h = l # t \<and> startswith l ''@@'' \<and> (\<forall>x \<in> set t. \<not> startswith x ''@@'')"
  shows "hunks (pre @ concat hs) = (pre, hs)"
proof -
  have "hunks (concat hs) = ([], hs)"
    using assms(2)
  proof (induction hs)
    case (Cons h hs)
    then obtain l t where "h = l # t" "startswith l ''@@''" "\<forall>x \<in> set t. \<not> startswith x ''@@''" by auto
    with Cons show ?case by (simp add: hunks_plain)
  qed simp
  with hunks_plain [OF assms(1)] show ?thesis by simp
qed

lemma subseq_concat_filter: "subseq (concat (filter P hs)) (concat hs)"
  by (induction hs) (auto intro: list_emb_append_mono subseq_drop_many)

lemma filter_concat_changes: "filter change_line (concat (filter has_change hs)) = filter change_line (concat hs)"
  by (induction hs) (auto simp: has_change_def filter_empty_conv)

section \<open>Properties\<close>

text \<open>The scheduler never has more runs than its limit (one if the limit is smaller), and no run twice.
  A start is refused exactly when the run is not active yet and the limit is reached; an active run
  that is started again keeps its budget.\<close>

theorem scheduler_admits_within_limit:
  "let s = foldl scheduler_step (new_scheduler n) ops
   in int (length (sd_active s)) \<le> max 1 n \<and> distinct (map fst (sd_active s))
      \<and> (fst (start_run now rid secs s) \<longleftrightarrow>
           map_of (sd_active s) (run_name rid) \<noteq> None \<or> int (length (sd_active s)) < max 1 n)
      \<and> (case map_of (sd_active s) (run_name rid) of
           Some b \<Rightarrow> snd (start_run now rid secs s) = s
         | None \<Rightarrow> \<not> budget_ok now rid s)"
proof -
  let ?s = "foldl scheduler_step (new_scheduler n) ops"
  have "scheduler_ok n ?s" by (rule admission.reach_inv)
  then have "sd_max_concurrent ?s = max 1 n" "int (length (sd_active ?s)) \<le> max 1 n" "distinct (map fst (sd_active ?s))"
    by (simp_all add: scheduler_ok_def dict_ok_def)
  then show ?thesis
    by (auto simp: Let_def start_run_def budget_ok_def split: option.split)
qed

text \<open>The repair cycle ends by its attempts only. Whatever statuses the rounds report (zero included),
  the phase after \<open>n\<close> rounds is the \<open>n\<close>-th of the fixed cycle and never DONE, and a retry is allowed
  exactly while less than \<open>m\<close> patches were made, so at most \<open>3 m - 2\<close> rounds are.\<close>

theorem repair_cycle_ends:
  assumes "m \<noteq> 0"
  shows "\<exists>st. repair_run R [(PStr ''max_attempts'', PInt m)] statuses = Inr st
    \<and> next_phase R st = Inr (phase_at (Suc (length statuses)))
    \<and> next_phase R st \<noteq> Inr ''DONE''
    \<and> should_retry st = Inr (int (length statuses) < 3 * m - 1)"
proof -
  let ?n = "length statuses"
  have "repair_at m 0 [(PStr ''max_attempts'', PInt m)]" by (simp add: repair_at_def)
  from repair_run_at [OF this] obtain st
    where st: "repair_run R [(PStr ''max_attempts'', PInt m)] statuses = Inr st" "repair_at m ?n st" by auto
  have "should_retry st = Inr (int ((?n + 1) div 3) < m)"
    using st(2) assms by (auto simp: should_retry_def repair_at_def dget_or_def py_or_def split: option.splits)
  moreover have "int ((?n + 1) div 3) < m \<longleftrightarrow> int ?n < 3 * m - 1" by presburger
  moreover have "phase_at (Suc ?n) \<noteq> ''DONE''"
    by (rule phase_cases [of ?n]) (simp_all add: phase_at_def mod_Suc)
  ultimately show ?thesis using st next_phase_at [OF st(2), of R] by auto
qed

theorem repair_cycle_ends_witness:
  "\<exists>st. repair_run toy_runtime [(PStr ''max_attempts'', PInt 2)] [1, 1, 0, 0, 0] = Inr st \<and> should_retry st = Inr False"
  using repair_cycle_ends [of 2 toy_runtime "[1, 1, 0, 0, 0]"] by auto

text \<open>Trimming keeps the lines before the first hunk and exactly the hunks with a change, in order. So
  every changed line survives, nothing is reordered or rewritten, and trimming again changes nothing.\<close>

theorem minimized_diff_keeps_changes:
  "let ls = splitlines diff; out = minimize_lines [] [] False ls
   in (\<exists>pre hs. hunks ls = (pre, hs) \<and> ls = pre @ concat hs \<and> out = pre @ concat (filter has_change hs))
      \<and> subseq out ls \<and> filter change_line out = filter change_line ls
      \<and> minimize_lines [] [] False out = out
      \<and> minimize_unified_diff diff = (if diff = [] then [] else
          join [CHR 0x0A] out @ (if endswith diff [CHR 0x0A] then [CHR 0x0A] else []))"
proof -
  let ?ls = "splitlines diff"
  obtain pre hs where h: "hunks ?ls = (pre, hs)" by fastforce
  have out: "minimize_lines [] [] False ?ls = pre @ concat (filter has_change hs)"
    by (simp add: minimize_hunks h)
  have ls: "?ls = pre @ concat hs" by (rule hunks_concat [OF h])
  have "hunks (pre @ concat (filter has_change hs)) = (pre, filter has_change hs)"
    using hunks_form [OF h] by (intro hunks_join) auto
  then have again: "minimize_lines [] [] False (pre @ concat (filter has_change hs)) = pre @ concat (filter has_change hs)"
    by (simp add: minimize_hunks)
  have "subseq (pre @ concat (filter has_change hs)) (pre @ concat hs)"
    by (intro list_emb_append_mono subseq_concat_filter) simp
  moreover have "minimize_unified_diff diff = (if diff = [] then [] else join [CHR 0x0A]
      (pre @ concat (filter has_change hs)) @ (if endswith diff [CHR 0x0A] then [CHR 0x0A] else []))"
    unfolding minimize_unified_diff_def out ..
  ultimately show ?thesis
    unfolding Let_def out using h ls again filter_concat_changes [of hs] by simp
qed

text \<open>The header of the next file belongs to the hunk before it: when that hunk has no change, the header
  goes with it, and the changes of the next file are attributed to the file before.\<close>

lemma minimize_swallows_header:
  "minimize_lines [] [] False [''--- a/f'', ''+++ b/f'', ''@@ -1 +1 @@'', '' x'', ''--- a/g'', ''+++ b/g'', ''@@ -1 +1 @@'', ''-y'']
   = [''--- a/f'', ''+++ b/f'', ''@@ -1 +1 @@'', ''-y'']"
  by (simp add: startswith_def change_line_def flush_hunk_def)

end
