(* ===== verification/Patch_Gate.thy ===== *)
theory Patch_Gate
  imports Py_Path Py_Regex "HOL-Library.List_Lexorder"
begin

text \<open>
  The patch risk gate, \<open>rfsn_swebench/gate.py\<close>, which the benchmark harness and the tool gateway share:
  the statistics of a unified diff, the policy with what the policy files override, and the verdict.
\<close>

section \<open>Diff statistics\<close>

record diff_stats =
  ds_size_bytes :: int
  ds_files :: "string list"
  ds_new_files :: int
  ds_added :: int
  ds_deleted :: int
  ds_deleted_test :: int
  ds_plus :: "string list"
  ds_plus_test :: "string list"
  ds_plus_source :: "string list"

definition empty_stats :: diff_stats where
  "empty_stats =
     \<lparr>ds_size_bytes = 0, ds_files = [], ds_new_files = 0, ds_added = 0, ds_deleted = 0,
      ds_deleted_test = 0, ds_plus = [], ds_plus_test = [], ds_plus_source = []\<rparr>"

text \<open>\<open>s.replace("a/", "", 1)\<close>: the first occurrence, wherever it is.\<close>

fun drop_first_a :: "string \<Rightarrow> string" where
  "drop_first_a (a # b # s) = (if a = CHR ''a'' \<and> b = slash then s else a # drop_first_a (b # s))"
| "drop_first_a s = s"

definition is_plus :: "string \<Rightarrow> bool" where
  "is_plus line \<longleftrightarrow> startswith line ''+'' \<and> \<not> startswith line ''+++''"

definition is_minus :: "string \<Rightarrow> bool" where
  "is_minus line \<longleftrightarrow> startswith line ''-'' \<and> \<not> startswith line ''---''"

text \<open>The file a line makes current, and the files it adds to the touched ones.\<close>

definition git_file :: "string \<Rightarrow> string option" where
  "git_file line =
     (if startswith line ''diff --git '' \<and> 4 \<le> length (split_words line)
      then Some (drop_first_a (split_words line ! 2)) else None)"

definition current_after :: "string \<Rightarrow> string \<Rightarrow> string" where
  "current_after cur line =
     (let c1 = (case git_file line of None \<Rightarrow> cur | Some f \<Rightarrow> f)
      in if startswith line ''+++ b/'' then drop 6 line else c1)"

definition diff_line :: "string \<times> diff_stats \<Rightarrow> string \<Rightarrow> string \<times> diff_stats" where
  "diff_line st line =
     (case st of (cur0, s0) \<Rightarrow>
       let cur = current_after cur0 line;
           s1 = (case git_file line of None \<Rightarrow> s0 | Some f \<Rightarrow> s0\<lparr>ds_files := ds_files s0 @ [f]\<rparr>);
           s2 = (if startswith line ''new file mode'' then s1\<lparr>ds_new_files := ds_new_files s1 + 1\<rparr> else s1);
           s3 = (if is_plus line then
                   (let s = s2\<lparr>ds_added := ds_added s2 + 1, ds_plus := ds_plus s2 @ [drop 1 line]\<rparr>
                    in if occurs_in ''test'' (lower cur)
                       then s\<lparr>ds_plus_test := ds_plus_test s @ [drop 1 line]\<rparr>
                       else s\<lparr>ds_plus_source := ds_plus_source s @ [drop 1 line]\<rparr>)
                 else if is_minus line then
                   (let s = s2\<lparr>ds_deleted := ds_deleted s2 + 1\<rparr>
                    in if occurs_in ''test'' (lower line)
                       then s\<lparr>ds_deleted_test := ds_deleted_test s + 1\<rparr> else s)
                 else s2)
       in (cur, s3))"

definition diff_analysis :: "string \<Rightarrow> diff_stats" where
  "diff_analysis diff =
     (let s = snd (foldl diff_line ([], empty_stats) (splitlines diff))
      in s\<lparr>ds_size_bytes := int (utf8_length diff), ds_files := sort (dedupe (ds_files s))\<rparr>)"

section \<open>Policy\<close>

text \<open>The banned patterns, with their source text for the reasons; the search ignores case.\<close>

definition DEFAULT_BANNED_PATTERNS :: "(string \<times> rx) list" where
  "DEFAULT_BANNED_PATTERNS =
     [(''pytest'' @ [backslash] @ ''.skip'', rlit_ci ''pytest.skip''),
      (''unittest'' @ [backslash] @ ''.skip'', rlit_ci ''unittest.skip''),
      (''@skip'', rlit_ci ''@skip''),
      (''@pytest'' @ [backslash] @ ''.mark'' @ [backslash] @ ''.skip'', rlit_ci ''@pytest.mark.skip''),
      (''xfail'', rlit_ci ''xfail''),
      (''remove'' @ [backslash] @ ''s+test'', rseq [rlit_ci ''remove'', rplus rspace, rlit_ci ''test'']),
      (''disable'' @ [backslash] @ ''s+test'', rseq [rlit_ci ''disable'', rplus rspace, rlit_ci ''test''])]"

definition TEST_ONLY_BANNED_PATTERNS :: "(string \<times> rx) list" where
  "TEST_ONLY_BANNED_PATTERNS =
     [(''__import__'' @ [backslash] @ ''s*'' @ [backslash] @ ''('',
        rseq [rlit_ci ''__import__'', RStar True rspace, rlit ''('']),
      (''eval'' @ [backslash] @ ''s*'' @ [backslash] @ ''('', rseq [rlit_ci ''eval'', RStar True rspace, rlit ''('']),
      (''exec'' @ [backslash] @ ''s*'' @ [backslash] @ ''('', rseq [rlit_ci ''exec'', RStar True rspace, rlit ''('']),
      (''subprocess'' @ [backslash] @ ''.'', rlit_ci ''subprocess.''),
      (''os'' @ [backslash] @ ''.system'' @ [backslash] @ ''('', rlit_ci ''os.system('')]"

definition DEFAULT_BANNED_PATH_FRAGMENTS :: "string list" where
  "DEFAULT_BANNED_PATH_FRAGMENTS =
     [''.github/workflows/'', ''ci/'', ''.circleci/'', ''Jenkinsfile'', ''requirements.txt'',
      ''pyproject.toml'', ''Dockerfile'', ''docker-compose'', ''.env'']"

record gate_policy =
  gp_max_patch_bytes :: int
  gp_max_files_touched :: int
  gp_max_new_files :: int
  gp_max_added :: int
  gp_max_deleted :: int
  gp_blocked_deps :: "pyval list"
  gp_banned_patterns :: "(string \<times> rx) list"
  gp_banned_fragments :: "string list"

definition default_policy :: gate_policy where
  "default_policy =
     \<lparr>gp_max_patch_bytes = 250000, gp_max_files_touched = 25, gp_max_new_files = 5, gp_max_added = 0,
      gp_max_deleted = 0, gp_blocked_deps = [], gp_banned_patterns = DEFAULT_BANNED_PATTERNS,
      gp_banned_fragments = DEFAULT_BANNED_PATH_FRAGMENTS\<rparr>"

text \<open>The statements under one \<open>try\<close>: the first that raises ends them, what was set before stays.\<close>

fun try_updates :: "('c \<Rightarrow> 'c res) list \<Rightarrow> 'c \<Rightarrow> 'c" where
  "try_updates [] c = c"
| "try_updates (u # us) c = (case u c of Inl e \<Rightarrow> c | Inr c' \<Rightarrow> try_updates us c')"

text \<open>\<open>if d.get(key): cfg[...] = conv(d[key])\<close>.\<close>

definition override :: "pydict \<Rightarrow> string \<Rightarrow> (pyval \<Rightarrow> 'a res) \<Rightarrow> ('a \<Rightarrow> 'c \<Rightarrow> 'c) \<Rightarrow> 'c \<Rightarrow> 'c res" where
  "override d key conv put c =
     (let v = dget_or d key PNone in if truthy v then ebind (conv v) (\<lambda>x. Inr (put x c)) else Inr c)"

text \<open>A policy file is \<open>None\<close> when it is missing or does not parse, else its value; one that is not a
  dictionary (nor empty) raises at the first \<open>get\<close>.\<close>

definition policy_dict :: "pyval option \<Rightarrow> pydict option" where
  "policy_dict f = (case f of None \<Rightarrow> None | Some v \<Rightarrow> as_dict (py_or v (PDict [])))"

definition load_policies :: "pyval option \<Rightarrow> pyval option \<Rightarrow> gate_policy" where
  "load_policies diff_guard allowlist =
     (let c1 = (case policy_dict diff_guard of
                  None \<Rightarrow> default_policy
                | Some d \<Rightarrow> try_updates
                    [override d ''max_changed_files'' py_int (\<lambda>i c. c\<lparr>gp_max_files_touched := i\<rparr>),
                     override d ''max_added_lines'' py_int (\<lambda>i c. c\<lparr>gp_max_added := i\<rparr>),
                     override d ''max_deleted_lines'' py_int (\<lambda>i c. c\<lparr>gp_max_deleted := i\<rparr>),
                     override d ''blocked_dependency_files'' py_iter (\<lambda>xs c. c\<lparr>gp_blocked_deps := xs\<rparr>)]
                    default_policy)
      in case policy_dict allowlist of
           None \<Rightarrow> c1
         | Some d \<Rightarrow> try_updates [override d ''max_patch_bytes'' py_int (\<lambda>i c. c\<lparr>gp_max_patch_bytes := i\<rparr>)] c1)"

section \<open>Verdict\<close>

datatype risk_decision = ALLOW | REJECT

record risk_report =
  rr_decision :: risk_decision
  rr_reasons :: "string list"

definition reason_if :: "bool \<Rightarrow> string \<Rightarrow> string list" where
  "reason_if b r = (if b then [r] else [])"

text \<open>Putting a list or a dictionary into a set raises.\<close>

fun hashable :: "pyval \<Rightarrow> bool" where
  "hashable (PList xs) = False"
| "hashable (PDict d) = False"
| "hashable v = True"

definition path_reasons :: "gate_policy \<Rightarrow> string \<Rightarrow> string list" where
  "path_reasons pol f =
     reason_if (PStr (basename f) \<in> set (gp_blocked_deps pol)) (''touches blocked dependency file: '' @ f)
     @ concat (map (\<lambda>frag. reason_if (occurs_in frag f)
          (''touches restricted path: '' @ f @ '' (matched '' @ frag @ '')'')) (gp_banned_fragments pol))"

definition pattern_reasons :: "string \<Rightarrow> (string \<times> rx) list \<Rightarrow> string list \<Rightarrow> string list" where
  "pattern_reasons msg pats lines =
     concat (map (\<lambda>(pat, r). reason_if (rx_found r (join [CHR 0x0A] lines)) (msg @ pat)) pats)"

definition gate_reasons :: "gate_policy \<Rightarrow> int \<Rightarrow> int \<Rightarrow> int \<Rightarrow> diff_stats \<Rightarrow> string list" where
  "gate_reasons pol max_bytes max_files max_new s =
     reason_if (max_bytes < ds_size_bytes s)
       (''patch too large: '' @ int_str (ds_size_bytes s) @ '' bytes > '' @ int_str max_bytes)
     @ reason_if (max_files < int (length (ds_files s)))
       (''too many files touched: '' @ int_str (int (length (ds_files s))) @ '' > '' @ int_str max_files)
     @ reason_if (max_new < ds_new_files s)
       (''too many new files: '' @ int_str (ds_new_files s) @ '' > '' @ int_str max_new)
     @ concat (map (path_reasons pol) (ds_files s))
     @ reason_if (gp_max_added pol \<noteq> 0 \<and> gp_max_added pol < ds_added s)
       (''too many added lines: '' @ int_str (ds_added s) @ '' > '' @ int_str (gp_max_added pol))
     @ reason_if (gp_max_deleted pol \<noteq> 0 \<and> gp_max_deleted pol < ds_deleted s)
       (''too many deleted lines: '' @ int_str (ds_deleted s) @ '' > '' @ int_str (gp_max_deleted pol))
     @ pattern_reasons ''banned pattern in added code: '' (gp_banned_patterns pol) (ds_plus s)
     @ (if ds_plus_test s = [] then []
        else pattern_reasons ''banned pattern in test code: '' TEST_ONLY_BANNED_PATTERNS (ds_plus_test s))
     @ reason_if (50 < ds_deleted_test s)
       (''large test deletions: '' @ int_str (ds_deleted_test s) @ '' lines'')"

definition limit_or :: "int option \<Rightarrow> int \<Rightarrow> int" where
  "limit_or x d = (case x of None \<Rightarrow> d | Some i \<Rightarrow> i)"

definition patch_risk_gate ::
    "gate_policy \<Rightarrow> string \<Rightarrow> int option \<Rightarrow> int option \<Rightarrow> int option \<Rightarrow> risk_report res" where
  "patch_risk_gate pol diff max_bytes max_files max_new =
     (if \<exists>v \<in> set (gp_blocked_deps pol). \<not> hashable v then Inl TypeError
      else let rs = gate_reasons pol (limit_or max_bytes (gp_max_patch_bytes pol))
                      (limit_or max_files (gp_max_files_touched pol))
                      (limit_or max_new (gp_max_new_files pol)) (diff_analysis diff)
           in Inr (if rs \<noteq> [] then \<lparr>rr_decision = REJECT, rr_reasons = rs\<rparr>
                   else \<lparr>rr_decision = ALLOW, rr_reasons = []\<rparr>))"

section \<open>Searching for a literal\<close>

lemma rx_run_rseq_Cons: "rx_run (rseq (r # rs)) s = concat (map (rx_run (rseq rs)) (rx_run r s))"
proof -
  have "rx_run REps = (\<lambda>s. [s])" by (rule ext) simp
  then show ?thesis by (cases rs) simp_all
qed

lemma rx_run_rlit_ci: "rx_run (rlit_ci w) s \<noteq> [] \<longleftrightarrow> prefix (lower w) (lower (m_rest s))"
proof (induction w arbitrary: s)
  case Nil
  then show ?case by (simp add: rlit_ci_def lower_def)
next
  case (Cons c w)
  show ?case
  proof (cases "m_rest s")
    case Nil
    then show ?thesis
      unfolding rlit_ci_def list.map rx_run_rseq_Cons by (simp add: lower_def)
  next
    case (Cons d ds)
    then show ?thesis
      using Cons.IH unfolding rlit_ci_def list.map rx_run_rseq_Cons
      by (auto simp: lower_def)
  qed
qed

lemma rx_find_iff:
  "rx_find r pre rest \<noteq> None \<longleftrightarrow>
     (\<exists>a b. rest = a @ b \<and> rx_run r \<lparr>m_done = rev a @ pre, m_rest = b, m_groups = []\<rparr> \<noteq> [])"
proof (induction rest arbitrary: pre)
  case Nil
  then show ?case by (simp add: Let_def split: list.split)
next
  case (Cons c cs)
  have "(\<exists>a b. c # cs = a @ b \<and> P a b) \<longleftrightarrow> P [] (c # cs) \<or> (\<exists>a b. cs = a @ b \<and> P (c # a) b)" for P
    by (metis (no_types, lifting) append_Cons append_Nil append_eq_Cons_conv)
  from this [of "\<lambda>a b. rx_run r \<lparr>m_done = rev a @ pre, m_rest = b, m_groups = []\<rparr> \<noteq> []"]
  show ?case using Cons.IH [of "c # pre"] by (auto simp: Let_def split: list.split simp del: not_None_eq)
qed

lemma occurs_in_prefix: "occurs_in p s \<longleftrightarrow> (\<exists>a b. s = a @ b \<and> prefix p b)"
  by (auto simp: occurs_in_iff prefix_def)

lemma lower_append: "lower (a @ b) = lower a @ lower b"
  by (simp add: lower_def)

lemma found_literal: "rx_found (rlit_ci w) s \<longleftrightarrow> occurs_in (lower w) (lower s)"
proof -
  have "(\<exists>a b. s = a @ b \<and> prefix (lower w) (lower b)) \<longleftrightarrow> (\<exists>a b. lower s = a @ b \<and> prefix (lower w) b)"
    by (metis lower_append lower_def append_eq_map_conv)
  then show ?thesis
    unfolding rx_found_def rx_search_in_def rx_find_iff rx_run_rlit_ci occurs_in_prefix by simp
qed

lemma occurs_in_join: "x \<in> set xs \<Longrightarrow> occurs_in p x \<Longrightarrow> occurs_in p (join sep xs)"
proof (induction sep xs rule: join.induct)
  case (3 sep x y ys)
  then show ?case
    by (cases "x \<in> set (y # ys)") (auto simp: occurs_in_iff; metis append.assoc)+
qed auto

lemma lower_join: "lower (join sep xs) = join (lower sep) (map lower xs)"
  by (induction sep xs rule: join.induct) (simp_all add: lower_append, simp add: lower_def)

text \<open>If a literal is not found in the joined lines, no line contains it.\<close>

lemma not_found_line:
  "\<not> rx_found (rlit_ci w) (join sep xs) \<Longrightarrow> x \<in> set xs \<Longrightarrow> \<not> occurs_in (lower w) (lower x)"
  unfolding found_literal lower_join using occurs_in_join [of "lower x" "map lower xs"] by auto

section \<open>What the statistics are\<close>

lemma diff_line_stats [simp]:
  "ds_plus (snd (diff_line st l)) = ds_plus (snd st) @ (if is_plus l then [drop 1 l] else [])"
  "ds_added (snd (diff_line st l)) = ds_added (snd st) + (if is_plus l then 1 else 0)"
  "ds_deleted (snd (diff_line st l)) = ds_deleted (snd st) + (if is_minus l \<and> \<not> is_plus l then 1 else 0)"
  "ds_files (snd (diff_line st l)) = ds_files (snd st) @ (case git_file l of None \<Rightarrow> [] | Some f \<Rightarrow> [f])"
  "ds_new_files (snd (diff_line st l)) = ds_new_files (snd st) + (if startswith l ''new file mode'' then 1 else 0)"
  "set (ds_plus_test (snd (diff_line st l))) \<union> set (ds_plus_source (snd (diff_line st l))) =
     set (ds_plus_test (snd st)) \<union> set (ds_plus_source (snd st)) \<union> (if is_plus l then {drop 1 l} else {})"
  by (cases st; auto simp: diff_line_def Let_def split: option.split)+

lemma diff_lines_stats:
  "ds_plus (snd (foldl diff_line (cur, empty_stats) lines)) = map (drop 1) (filter is_plus lines)"
  "ds_added (snd (foldl diff_line (cur, empty_stats) lines)) = int (length (filter is_plus lines))"
  "ds_deleted (snd (foldl diff_line (cur, empty_stats) lines)) = int (length (filter (\<lambda>l. is_minus l \<and> \<not> is_plus l) lines))"
  "ds_files (snd (foldl diff_line (cur, empty_stats) lines)) = concat (map (\<lambda>l. case git_file l of None \<Rightarrow> [] | Some f \<Rightarrow> [f]) lines)"
  "ds_new_files (snd (foldl diff_line (cur, empty_stats) lines)) = int (length (filter (\<lambda>l. startswith l ''new file mode'') lines))"
  "set (ds_plus_test (snd (foldl diff_line (cur, empty_stats) lines))) \<union> set (ds_plus_source (snd (foldl diff_line (cur, empty_stats) lines)))
     = set (map (drop 1) (filter is_plus lines))"
  by (induction lines rule: rev_induct; simp add: empty_stats_def)+

text \<open>The files that the headers of a diff name (the old name of each \<open>diff --git\<close> line).\<close>

definition named_files :: "string \<Rightarrow> string set" where
  "named_files diff = {f. \<exists>l \<in> set (splitlines diff). git_file l = Some f}"

lemma diff_analysis_stats:
  "ds_plus (diff_analysis diff) = map (drop 1) (filter is_plus (splitlines diff))"
  "ds_added (diff_analysis diff) = int (length (filter is_plus (splitlines diff)))"
  "ds_new_files (diff_analysis diff) = int (length (filter (\<lambda>l. startswith l ''new file mode'') (splitlines diff)))"
  "ds_size_bytes (diff_analysis diff) = int (utf8_length diff)"
  "set (ds_files (diff_analysis diff)) = named_files diff"
  "int (length (ds_files (diff_analysis diff))) = int (card (named_files diff))"
proof -
  have "set (concat (map (\<lambda>l. case git_file l of None \<Rightarrow> [] | Some f \<Rightarrow> [f]) (splitlines diff))) = named_files diff"
    by (auto simp: named_files_def split: option.splits)
  then show files: "set (ds_files (diff_analysis diff)) = named_files diff"
    by (simp add: diff_analysis_def Let_def diff_lines_stats)
  have "distinct (ds_files (diff_analysis diff))"
    by (simp add: diff_analysis_def Let_def)
  then show "int (length (ds_files (diff_analysis diff))) = int (card (named_files diff))"
    using files distinct_card by metis
qed (simp_all add: diff_analysis_def Let_def diff_lines_stats)

section \<open>Properties\<close>

lemma reason_if_Nil [simp]: "reason_if b r = [] \<longleftrightarrow> \<not> b"
  by (simp add: reason_if_def)

lemma allowed_reasons:
  assumes "patch_risk_gate pol diff mb mf mn = Inr r" "rr_decision r = ALLOW"
  shows "gate_reasons pol (limit_or mb (gp_max_patch_bytes pol)) (limit_or mf (gp_max_files_touched pol))
    (limit_or mn (gp_max_new_files pol)) (diff_analysis diff) = []"
  using assms by (auto simp: patch_risk_gate_def Let_def split: if_splits)


text \<open>Without a \<open>diff --git\<close> header the gate sees no file: a plain unified diff of a dependency manifest
  passes. The new name of a rename is not looked at either.\<close>

definition headerless_patch :: string where
  "headerless_patch = join [CHR 0x0A] [''--- a/pyproject.toml'', ''+++ b/pyproject.toml'', ''@@ -1 +1 @@'', ''+x'']"

lemma headerless_stats:
  "diff_analysis headerless_patch =
     \<lparr>ds_size_bytes = 56, ds_files = [], ds_new_files = 0, ds_added = 1, ds_deleted = 0, ds_deleted_test = 0,
      ds_plus = [''x''], ds_plus_test = [], ds_plus_source = [''x'']\<rparr>"
  by code_simp

lemma found_first_literal:
  assumes "rx_found (rseq (rlit_ci w # rs)) s"
  shows "occurs_in (lower w) (lower s)"
proof -
  from assms obtain a b where "s = a @ b"
    "rx_run (rseq (rlit_ci w # rs)) \<lparr>m_done = rev a @ [], m_rest = b, m_groups = []\<rparr> \<noteq> []"
    unfolding rx_found_def rx_search_in_def rx_find_iff by blast
  then have "rx_run (rlit_ci w) \<lparr>m_done = rev a @ [], m_rest = b, m_groups = []\<rparr> \<noteq> []"
    unfolding rx_run_rseq_Cons by auto
  with \<open>s = a @ b\<close> have "rx_found (rlit_ci w) s"
    unfolding rx_found_def rx_search_in_def rx_find_iff by blast
  then show ?thesis by (simp add: found_literal)
qed

lemma gate_blind_without_git_header:
  "patch_risk_gate default_policy headerless_patch None None None = Inr \<lparr>rr_decision = ALLOW, rr_reasons = []\<rparr>"
proof -
  have x: "lower ''x'' = ''x''" by code_simp
  have lit: "\<not> rx_found (rlit_ci w) ''x''" if "1 < length w" for w
  proof -
    have "\<not> prefix (lower w) ''x''" "\<not> prefix (lower w) []"
      using that by (auto simp: lower_def dest: prefix_length_le)
    then show ?thesis by (auto simp: found_literal x)
  qed
  have first: "\<not> rx_found (rseq (rlit_ci w # rs)) ''x''" if "1 < length w" for w rs
    using found_first_literal [of w rs "''x''"] lit [OF that] by (auto simp: found_literal)
  have "pattern_reasons m DEFAULT_BANNED_PATTERNS [''x''] = []" for m
    by (simp add: pattern_reasons_def DEFAULT_BANNED_PATTERNS_def lit first del: rseq.simps)
  then show ?thesis
    by (simp add: patch_risk_gate_def headerless_stats gate_reasons_def default_policy_def limit_or_def)
qed


end
