(* ===== verification/Gateway_Policy.thy ===== *)
theory Gateway_Policy
  imports Py_Path Patch_Gate
begin

text \<open>
  The path policy of the tool gateway, \<open>services/tool_gateway/policy.py\<close>: safe relative paths, blocked
  globs, prefixes and suffixes, the files a patch touches, and their combination
  \<open>validate_repo_path\<close>.
\<close>

text \<open>The parts of a \<open>PurePosixPath\<close> that is not absolute.\<close>

definition path_parts :: "string \<Rightarrow> string list" where
  "path_parts path = filter (\<lambda>c. c \<noteq> [] \<and> c \<noteq> ''.'') (split_char slash path)"

definition safe_relpath :: "string \<Rightarrow> bool" where
  "safe_relpath path \<longleftrightarrow>
     path \<noteq> [] \<and> \<not> startswith path ''/'' \<and> \<not> startswith path ''~''
     \<and> path_parts path \<noteq> [] \<and> ''..'' \<notin> set (path_parts path) \<and> CHR 0x00 \<notin> set path"

definition glob_blocked :: "string \<Rightarrow> string list \<Rightarrow> bool" where
  "glob_blocked path globs \<longleftrightarrow>
     (\<exists>g \<in> set globs. fnmatch path g
        \<or> startswith g ''**/'' \<and> (fnmatch path (drop 3 g) \<or> endswith (slash # path) (slash # drop 3 g)))"

definition norm_rel :: "string \<Rightarrow> string" where
  "norm_rel s = lstrip_char slash (drop_dot_slash (replace_char backslash slash s))"

definition affix_blocked :: "string \<Rightarrow> string list \<Rightarrow> string list \<Rightarrow> bool" where
  "affix_blocked path prefs suffs \<longleftrightarrow>
     (\<exists>p \<in> set prefs. norm_rel p \<noteq> [] \<and> startswith (norm_rel path) (norm_rel p))
     \<or> (\<exists>s \<in> set suffs. s \<noteq> [] \<and> endswith (norm_rel path) s)"

definition strip_side :: "string \<Rightarrow> string" where
  "strip_side p = (if startswith p ''a/'' \<or> startswith p ''b/'' then drop 2 p else p)"

definition line_paths :: "string \<Rightarrow> string list" where
  "line_paths raw =
     (let line = strip raw
      in if startswith line ''diff --git '' then
           (let parts = split_words line
            in if 4 \<le> length parts
               then filter (\<lambda>p. p \<noteq> [] \<and> p \<noteq> ''/dev/null'') (map strip_side [parts ! 2, parts ! 3])
               else [])
         else if startswith line ''+++ '' \<or> startswith line ''--- '' then
           (let parts = split_once line
            in if length parts \<noteq> 2 then []
               else let p = strip (parts ! 1)
                    in if p \<in> {''a/dev/null'', ''b/dev/null'', ''/dev/null''} then []
                       else filter (\<lambda>q. q \<noteq> []) [strip_side p])
         else [])"

text \<open>The set, as the list of its members in the order in which they were added.\<close>

definition gateway_touched :: "string \<Rightarrow> string list" where
  "gateway_touched patch = dedupe (concat (map line_paths (splitlines patch)))"

text \<open>The rules of a policy; \<open>root_required\<close> adds the check on resolved paths.\<close>

record path_rules =
  ru_allowed :: "string list"
  ru_blocked :: "string list"
  ru_root_required :: bool
  ru_prefixes :: "string list"
  ru_suffixes :: "string list"

definition below_root :: "string \<Rightarrow> string \<Rightarrow> string \<Rightarrow> bool" where
  "below_root cwd dir path \<longleftrightarrow>
     (let r = abspath cwd (if dir = [] then ''/work/repo'' else dir); p = abspath cwd (path_join r path)
      in p = r \<or> startswith p (r @ [slash]))"

definition validate_repo_path :: "string \<Rightarrow> path_rules \<Rightarrow> string \<Rightarrow> string \<Rightarrow> bool" where
  "validate_repo_path cwd rules dir path \<longleftrightarrow>
     safe_relpath path \<and> (ru_root_required rules \<longrightarrow> below_root cwd dir path)
     \<and> \<not> glob_blocked path (ru_blocked rules)
     \<and> \<not> affix_blocked path (ru_prefixes rules) (ru_suffixes rules)
     \<and> (\<exists>ap \<in> set (ru_allowed rules). fnmatch path ap)"

section \<open>Facts\<close>

lemma safe_relpath_parts: "safe_relpath path \<Longrightarrow> ''..'' \<notin> set (split_char slash path)"
  by (auto simp: safe_relpath_def path_parts_def)

lemma safe_relpath_safe: "safe_relpath path \<Longrightarrow> \<not> unsafe_path path"
  using safe_relpath_parts by (auto simp: unsafe_path_def safe_relpath_def isabs_def startswith_def)

text \<open>A safe path resolves below the root it is joined to, on its components.\<close>

lemma safe_relpath_below:
  assumes "safe_relpath path" "isabs dir"
  shows "abs_comps cwd (path_join dir path) = abs_comps cwd dir @ path_parts path" "path_parts path \<noteq> []"
  using join_below [OF safe_relpath_safe [OF assms(1)] assms(2)] assms(1)
  by (simp_all add: path_parts_def safe_relpath_def)

end
