(* ===== verification/Http.thy ===== *)
theory Http
  imports Effects Py_Text
begin

text \<open>
  The request handlers of the services: computations over the state of the service that end with a
  value, with the \<open>HTTPException\<close> the code raises, or with a Python exception that the framework turns
  into a server error.
\<close>

datatype http_error = HTTPException int string | ServerError pyerr

type_synonym ('s, 'a) handler_eff = "('s, http_error, 'a) eff"

definition http :: "int \<Rightarrow> string \<Rightarrow> ('s, 'a) handler_eff" where
  "http status detail = sraise (HTTPException status detail)"

definition lift_res :: "'a res \<Rightarrow> ('s, 'a) handler_eff" where
  "lift_res r = (case r of Inl e \<Rightarrow> sraise (ServerError e) | Inr x \<Rightarrow> sret x)"

text \<open>\<open>if b: raise HTTPException(code, detail)\<close>.\<close>

definition refuse :: "bool \<Rightarrow> int \<Rightarrow> string \<Rightarrow> ('s, unit) handler_eff" where
  "refuse b status detail = (if b then http status detail else sret ())"

fun sfor :: "('x \<Rightarrow> ('s, unit) handler_eff) \<Rightarrow> 'x list \<Rightarrow> ('s, unit) handler_eff" where
  "sfor f [] = sret ()"
| "sfor f (x # xs) = sbind (f x) (\<lambda>_. sfor f xs)"

text \<open>\<open>try: ... finally: ...\<close> with a clean-up that does not raise.\<close>

definition sfinally :: "('s, 'e, 'a) eff \<Rightarrow> ('s \<Rightarrow> 's) \<Rightarrow> ('s, 'e, 'a) eff" where
  "sfinally m cleanup = (\<lambda>s. case m s of (r, s') \<Rightarrow> (r, cleanup s'))"

definition str_or_empty :: "string option \<Rightarrow> string" where
  "str_or_empty x = (case x of None \<Rightarrow> [] | Some s \<Rightarrow> s)"

section \<open>Runs that return\<close>

named_theorems http_rules "what a computation that returns has established"

lemma sbind_returnsE:
  assumes "sbind m f st = (Inr y, st'')"
  obtains x st' where "m st = (Inr x, st')" "f x st' = (Inr y, st'')"
  using assms by (auto simp: sbind_returns)

lemma sret_returns [http_rules]: "sret x st = (Inr y, st') \<longleftrightarrow> y = x \<and> st' = st"
  by (auto simp: sret_def)

lemma http_returns [http_rules]: "\<not> http c d st = (Inr y, st')"
  by (simp add: http_def sraise_def)

lemma refuse_returns [http_rules]: "refuse b c d st = (Inr y, st') \<longleftrightarrow> \<not> b \<and> st' = st"
  by (auto simp: refuse_def http_def sraise_def sret_def)

lemma sread_returns [http_rules]: "sread f st = (Inr y, st') \<longleftrightarrow> y = f st \<and> st' = st"
  by (auto simp: sread_def)

lemma supdate_returns [http_rules]: "supdate f st = (Inr y, st') \<longleftrightarrow> st' = f st"
  by (auto simp: supdate_def)

lemma lift_res_returns [http_rules]: "lift_res r st = (Inr y, st') \<longleftrightarrow> r = Inr y \<and> st' = st"
  by (cases r) (auto simp: lift_res_def sraise_def sret_def)

lemmas http_bind = sbind_returns http_rules

lemma sfor_refuse_returns:
  assumes "\<And>x st st'. f x st = (Inr (), st') \<longleftrightarrow> P x \<and> st' = st"
  shows "sfor f xs st = (Inr (), st') \<longleftrightarrow> (\<forall>x \<in> set xs. P x) \<and> st' = st"
  by (induction xs arbitrary: st) (auto simp: http_bind assms)

end
