(* ===== verification/Tool_Gateway.thy ===== *)
theory Tool_Gateway
  imports Gateway_Policy Http
begin

text \<open>
  The tool gateway, \<open>services/tool_gateway/app.py\<close>: every step of the orchestrator is checked here once
  more before it is sent to the executor. Modelled are the request handler \<open>run_step\<close> with its budget
  counters and the store of work directories (\<open>workdir_store.py\<close>). The policies that are read at start
  are a record of parameters, the executor service and the JSON parser are functions, and the state
  records the requests that were sent, so that what reaches the executor can be stated.
\<close>

section \<open>Configuration and state\<close>

record gw_step =
  gs_id :: string
  gs_type :: string
  gs_path :: "string option"
  gs_patch :: "string option"
  gs_template_id :: "string option"
  gs_template :: "string option"
  gs_timeout_s :: "int option"
  gs_workdir_id :: "string option"
  gs_workdir :: "string option"
  gs_max_depth :: "int option"
  gs_other :: pydict
  gs_tier :: "int option"
  gs_allow_network :: bool
  gs_network_reason :: string
  gs_gate_verdict :: string
  gs_gate_reason :: string

text \<open>\<open>gs_other\<close> holds the fields that the gateway passes on unread (\<open>pattern\<close>, \<open>line_start\<close> and the like),
  the last five are the ones it adds.\<close>

record gw_request =
  gr_repo_id :: string
  gr_iter :: int
  gr_step :: gw_step
  gr_run_id :: "string option"
  gr_tier :: "int option"
  gr_warm :: bool

record gw_config =
  gc_allowed_types :: "string list"
  gc_rules :: path_rules
  gc_max_patch_bytes :: int
  gc_max_read_steps :: int
  gc_max_search_steps :: int
  gc_max_bytes_per_iter :: int
  gc_max_workdirs :: int
  gc_format_fix_min_tier :: int
  gc_network_min_tier :: int
  gc_command_templates :: "string list"
  gc_test_templates :: "string list"
  gc_max_files :: int
  gc_max_added :: int
  gc_max_deleted :: int
  gc_max_total :: int
  gc_gate_policy :: pydict
  gc_patch_gate :: "gate_policy option"
  gc_set_order :: "string list \<Rightarrow> string list"
  gc_json_loads :: "string \<Rightarrow> pyval option"
  gc_cwd :: string

text \<open>\<open>gc_set_order\<close> is the order in which Python iterates over the set of touched paths.\<close>

record gw_usage =
  us_reads :: int
  us_searches :: int
  us_bytes :: int

type_synonym budget_key = "string \<times> string \<times> int"

text \<open>What is sent to the executor: whether to the warm endpoint, and the step with its address.\<close>

record gw_sent =
  se_warm :: bool
  se_repo_id :: string
  se_iter :: "int option"
  se_run_id :: "string option"
  se_step :: gw_step

record gw_state =
  gw_usages :: "(budget_key \<times> gw_usage) list"
  gw_workdirs :: "(string \<times> (string \<times> string) list) list"
  gw_sent :: "gw_sent list"

type_synonym 'a gw = "(gw_state, 'a) handler_eff"

text \<open>The executor answers with a status code, the text of the response and its JSON object.\<close>

type_synonym gw_executor = "gw_sent \<Rightarrow> int \<times> string \<times> pydict"

section \<open>Budgets\<close>

definition usage_key :: "string \<Rightarrow> int \<Rightarrow> string option \<Rightarrow> budget_key" where
  "usage_key repo it run = (repo, if str_or_empty run = [] then ''repo:'' @ repo else str_or_empty run, it)"

definition usage_of :: "budget_key \<Rightarrow> gw_state \<Rightarrow> gw_usage" where
  "usage_of k s = (case map_of (gw_usages s) k of
       None \<Rightarrow> \<lparr>us_reads = 0, us_searches = 0, us_bytes = 0\<rparr> | Some u \<Rightarrow> u)"

definition put_usage :: "budget_key \<Rightarrow> gw_usage \<Rightarrow> gw_state \<Rightarrow> gw_state" where
  "put_usage k u s = s\<lparr>gw_usages := AList.update k u (gw_usages s)\<rparr>"

text \<open>Only the last five iterations of a scope are kept.\<close>

definition scope_iters :: "budget_key \<Rightarrow> gw_state \<Rightarrow> int list" where
  "scope_iters k s =
     sort (dedupe (map (\<lambda>e. snd (snd (fst e)))
       (filter (\<lambda>e. fst (fst e) = fst k \<and> fst (snd (fst e)) = fst (snd k)) (gw_usages s))))"

definition prune_usage :: "budget_key \<Rightarrow> gw_state \<Rightarrow> gw_state" where
  "prune_usage k s =
     (let iters = scope_iters k s; drop_set = set (take (length iters - 5) iters)
      in s\<lparr>gw_usages := filter (\<lambda>e. \<not> (fst (fst e) = fst k \<and> fst (snd (fst e)) = fst (snd k)
                                        \<and> snd (snd (fst e)) \<in> drop_set)) (gw_usages s)\<rparr>)"

datatype charge_kind = ChargeRead | ChargeSearch | ChargeBytes int

text \<open>The counters are raised before the limit is checked, and stay raised when it is exceeded.\<close>

definition charge :: "gw_config \<Rightarrow> budget_key \<Rightarrow> charge_kind \<Rightarrow> unit gw" where
  "charge C k kind =
     sbind (sread (usage_of k)) (\<lambda>u.
     sbind (case kind of
              ChargeRead \<Rightarrow>
                sbind (supdate (put_usage k (u\<lparr>us_reads := us_reads u + 1\<rparr>))) (\<lambda>_.
                refuse (gc_max_read_steps C < us_reads u + 1) 429 ''read budget exceeded'')
            | ChargeSearch \<Rightarrow>
                sbind (supdate (put_usage k (u\<lparr>us_searches := us_searches u + 1\<rparr>))) (\<lambda>_.
                refuse (gc_max_search_steps C < us_searches u + 1) 429 ''search budget exceeded'')
            | ChargeBytes b \<Rightarrow>
                sbind (supdate (put_usage k (u\<lparr>us_bytes := us_bytes u + b\<rparr>))) (\<lambda>_.
                refuse (b \<noteq> 0 \<and> gc_max_bytes_per_iter C < us_bytes u + b) 429 ''bytes budget exceeded'')) (\<lambda>_.
     supdate (prune_usage k)))"

section \<open>Work directories\<close>

definition store_name :: "string \<Rightarrow> string" where
  "store_name run = (if run = [] then ''__default__'' else run)"

definition get_rel :: "string \<Rightarrow> string \<Rightarrow> gw_state \<Rightarrow> string option" where
  "get_rel run wid s =
     (case map_of (gw_workdirs s) (store_name run) of None \<Rightarrow> None | Some m \<Rightarrow> map_of m wid)"

definition set_run_workdirs :: "string \<Rightarrow> (string \<times> string) list \<Rightarrow> gw_state \<Rightarrow> gw_state" where
  "set_run_workdirs run m s = s\<lparr>gw_workdirs := AList.update (store_name run) m (gw_workdirs s)\<rparr>"

definition clear_workdirs :: "string \<Rightarrow> gw_state \<Rightarrow> gw_state" where
  "clear_workdirs run s = s\<lparr>gw_workdirs := AList.delete (store_name run) (gw_workdirs s)\<rparr>"

definition resolve_workdir :: "string option \<Rightarrow> string \<Rightarrow> string gw" where
  "resolve_workdir run wid =
     sbind (sread (get_rel (str_or_empty run) wid)) (\<lambda>rel.
       case rel of
         None \<Rightarrow> http 403 (''unknown workdir_id: '' @ wid)
       | Some r \<Rightarrow> if r = [] then http 403 (''unknown workdir_id: '' @ wid) else sret r)"

fun workdir_mapping :: "pyval list \<Rightarrow> (string \<times> string) list \<Rightarrow> (string \<times> string) list" where
  "workdir_mapping [] m = m"
| "workdir_mapping (PDict d # rest) m =
     (case (dget d ''id'', dget d ''rel'') of
        (Some (PStr wid), Some (PStr rel)) \<Rightarrow> workdir_mapping rest (AList.update wid rel m)
      | _ \<Rightarrow> workdir_mapping rest m)"
| "workdir_mapping (v # rest) m = workdir_mapping rest m"

definition listed_workdirs :: "gw_config \<Rightarrow> pydict \<Rightarrow> (string \<times> string) list" where
  "listed_workdirs C out =
     (case dget out ''payload'' of
        Some (PStr p) \<Rightarrow>
          (if strip p = [] then []
           else case gc_json_loads C p of
                  Some (PDict d) \<Rightarrow>
                    (case dget d ''workdirs'' of
                       Some (PList ws) \<Rightarrow> workdir_mapping (slice_to (gc_max_workdirs C) ws) []
                     | _ \<Rightarrow> [])
                | _ \<Rightarrow> [])
      | _ \<Rightarrow> [])"

definition store_workdirs :: "gw_config \<Rightarrow> string option \<Rightarrow> pydict \<Rightarrow> gw_state \<Rightarrow> gw_state" where
  "store_workdirs C run out s =
     (if str_or_empty run = [] \<or> listed_workdirs C out = [] then s
      else set_run_workdirs (str_or_empty run) (listed_workdirs C out) s)"

section \<open>Checks of a step\<close>

definition effective_tier :: "int option \<Rightarrow> string option \<Rightarrow> int" where
  "effective_tier body header =
     (case body of
        Some t \<Rightarrow> max 0 t
      | None \<Rightarrow>
          (if str_or_empty header = [] then 0
           else case int_of_str (str_or_empty header) of None \<Rightarrow> 0 | Some t \<Rightarrow> max 0 t))"

definition gate_type :: "gw_config \<Rightarrow> budget_key \<Rightarrow> gw_step \<Rightarrow> unit gw" where
  "gate_type C k s =
     sbind (refuse (gs_type s \<notin> set (gc_allowed_types C)) 403 (''step type blocked: '' @ gs_type s)) (\<lambda>_.
     if gs_type s \<in> {''repo_search'', ''detect_project'', ''detect_workdirs''} then charge C k ChargeSearch
     else sret ())"

definition gate_read :: "gw_config \<Rightarrow> budget_key \<Rightarrow> string \<Rightarrow> gw_step \<Rightarrow> unit gw" where
  "gate_read C k repo_root s =
     (if gs_type s \<in> {''repo_read_range'', ''read_file''}
      then sbind (refuse (\<not> validate_repo_path (gc_cwd C) (gc_rules C) repo_root (str_or_empty (gs_path s))) 403 ''path blocked'')
             (\<lambda>_. charge C k ChargeRead)
      else sret ())"

definition int_or :: "int option \<Rightarrow> int \<Rightarrow> int" where
  "int_or x d = (case x of None \<Rightarrow> d | Some i \<Rightarrow> if i = 0 then d else i)"

definition gate_depth :: "gw_step \<Rightarrow> unit gw" where
  "gate_depth s =
     (let d = int_or (gs_max_depth s) 4
      in refuse (gs_type s = ''detect_workdirs'' \<and> (d < 1 \<or> 8 < d)) 403 ''invalid max_depth'')"

text \<open>The sanitizer of test targets. It reads the key \<open>target\<close> of the step, which is no field of the
  request model, so the value is always absent.\<close>

definition TARGET_PATTERN :: rx where
  "TARGET_PATTERN =
     rseq [RBegin, rplus (rcls ''_./:-''), RStar True (RSeq (rlit ''::'') (rplus (rcls ''_''))), REnd]"

definition check_target :: "runtime \<Rightarrow> string \<Rightarrow> string \<Rightarrow> unit gw" where
  "check_target R template_id target =
     (if target = [] then sret ()
      else sbind (refuse (\<exists>c \<in> set target. c \<in> set ('' '' @ [CHR 9, CHR 10, CHR 13] @ '';$`|&(){}[]<>'' @ [backslash] @ ''!''))
                    403 (''target contains forbidden character: '' @ rt_repr R (PStr target))) (\<lambda>_.
           refuse (template_id = ''pytest_targeted'' \<and> rx_fullmatch TARGET_PATTERN target = None)
             403 (''invalid pytest target pattern: '' @ rt_repr R (PStr target))))"

definition step_target :: "gw_step \<Rightarrow> string" where
  "step_target s = []"

definition gate_tests :: "runtime \<Rightarrow> gw_config \<Rightarrow> gw_step \<Rightarrow> unit gw" where
  "gate_tests R C s =
     (if gs_type s \<noteq> ''run_tests'' then sret ()
      else let t = strip (str_or_empty (gs_template_id s))
           in sbind (refuse (t = []) 403 ''run_tests template_id required'') (\<lambda>_.
              sbind (refuse (t \<notin> set (gc_test_templates C)) 403 (''unknown run_tests template_id: '' @ t)) (\<lambda>_.
              check_target R t (step_target s))))"

definition WORKDIR_PATTERN :: rx where
  "WORKDIR_PATTERN = rseq [RBegin, rlit ''workdir_'', rplus rdigit, REnd]"

definition gate_template :: "gw_config \<Rightarrow> string option \<Rightarrow> int \<Rightarrow> gw_step \<Rightarrow> gw_step gw" where
  "gate_template C run tier s =
     (if gs_type s \<notin> {''run_cmd_template'', ''format_fix''} then sret s
      else
        (let t = strip (str_or_empty (gs_template s)); wid = strip (str_or_empty (gs_workdir_id s))
         in sbind (refuse (t = []) 403 ''template required'') (\<lambda>_.
            sbind (refuse (t \<notin> set (gc_command_templates C)) 403 (''unknown template: '' @ t)) (\<lambda>_.
            sbind (refuse (str_or_empty (gs_workdir s) \<noteq> []) 403 ''raw workdir is not allowed'') (\<lambda>_.
            sbind (if gs_type s = ''format_fix'' then
                     sbind (refuse (tier < gc_format_fix_min_tier C) 403
                              (''format_fix requires tier >= '' @ int_str (gc_format_fix_min_tier C))) (\<lambda>_.
                     refuse (\<not> endswith t ''_fix'') 403 ''format_fix requires *_fix template'')
                   else refuse (endswith t ''_fix'') 403 ''fix templates require format_fix step type'') (\<lambda>_.
            if wid = [] then sret s
            else sbind (refuse (rx_fullmatch WORKDIR_PATTERN wid = None) 403 ''invalid workdir_id'') (\<lambda>_.
                 sbind (resolve_workdir run wid) (\<lambda>rel. sret (s\<lparr>gs_workdir := Some rel\<rparr>))))))))) "

definition gate_network :: "gw_config \<Rightarrow> int \<Rightarrow> gw_step \<Rightarrow> gw_step gw" where
  "gate_network C tier s0 =
     (let s = s0\<lparr>gs_tier := Some tier, gs_allow_network := False, gs_network_reason := []\<rparr>
      in if gs_type s \<noteq> ''ensure_deps'' then sret s
         else sbind (refuse (tier < gc_network_min_tier C) 403
                       (''ensure_deps requires network tier >= '' @ int_str (gc_network_min_tier C))) (\<lambda>_.
              sret (s\<lparr>gs_allow_network := True, gs_network_reason := ''ensure_deps''\<rparr>)))"

section \<open>Checks of a patch\<close>

definition SHELL_META :: string where
  "SHELL_META = '';&|`$'' @ [backslash] @ ''(){}[]!<>''"

definition header_line :: "string \<Rightarrow> bool" where
  "header_line l \<longleftrightarrow> startswith l ''diff --git '' \<or> startswith l ''+++ '' \<or> startswith l ''--- ''"

definition meta_header :: "string \<Rightarrow> bool" where
  "meta_header l \<longleftrightarrow>
     header_line l \<and> (let ws = split_words l in ws \<noteq> [] \<and> (\<exists>c \<in> set (last ws). c \<in> set SHELL_META))"

definition SENSITIVE_PATTERNS :: "rx list" where
  "SENSITIVE_PATTERNS =
     [rseq [rlit ''.env'', REnd], rlit ''.env.'', rlit ''id_rsa'', rseq [rlit ''.pem'', REnd],
      rseq [rlit ''.key'', REnd], rseq [rlit ''.p12'', REnd], rseq [rlit ''.pfx'', REnd],
      rseq [rlit ''.jks'', REnd], rseq [rlit ''.pypirc'', REnd], rseq [rlit ''.npmrc'', REnd],
      rseq [rlit ''.netrc'', REnd], rlit ''Dockerfile'', rlit ''docker-compose'']"

definition check_touched :: "gw_config \<Rightarrow> string \<Rightarrow> string \<Rightarrow> unit gw" where
  "check_touched C repo_root f =
     sbind (refuse (\<not> validate_repo_path (gc_cwd C) (gc_rules C) repo_root f) 403 (''patch path blocked: '' @ f)) (\<lambda>_.
     refuse (\<exists>r \<in> set SENSITIVE_PATTERNS. rx_found r f) 403 (''patch touches sensitive file: '' @ f))"

definition DEP_MANIFEST_NAMES :: "string list" where
  "DEP_MANIFEST_NAMES =
     [''pyproject.toml'', ''poetry.lock'', ''requirements.txt'', ''requirements-dev.txt'', ''requirements.in'',
      ''constraints.txt'', ''setup.py'', ''setup.cfg'', ''pipfile'', ''pipfile.lock'', ''package.json'',
      ''package-lock.json'', ''yarn.lock'', ''pnpm-lock.yaml'', ''go.mod'', ''go.sum'', ''cargo.toml'', ''cargo.lock'']"

definition gw_test_path :: "string \<Rightarrow> bool" where
  "gw_test_path p \<longleftrightarrow>
     startswith p ''tests/'' \<or> occurs_in ''/tests/'' (slash # p) \<or> startswith p ''test/''
     \<or> endswith p ''_test.py'' \<or> endswith p ''test.py''"

definition gw_ci_path :: "string \<Rightarrow> bool" where
  "gw_ci_path p \<longleftrightarrow> startswith p ''.github/workflows/'' \<or> startswith p ''ci/'' \<or> startswith p ''scripts/''"

definition gw_dep_path :: "string \<Rightarrow> bool" where
  "gw_dep_path p \<longleftrightarrow> lower (last (split_char slash p)) \<in> set DEP_MANIFEST_NAMES"

definition forbids :: "gw_config \<Rightarrow> string \<Rightarrow> bool" where
  "forbids C key = truthy (dget_or (gc_gate_policy C) key (PBool False))"

definition check_forbidden :: "gw_config \<Rightarrow> string \<Rightarrow> unit gw" where
  "check_forbidden C tp =
     (let p = lstrip_char slash (replace_char backslash slash tp)
      in sbind (refuse (forbids C ''forbid_test_edits'' \<and> gw_test_path p) 403
                  (''forbid_test_edits: patch touches test path: '' @ tp)) (\<lambda>_.
         sbind (refuse (forbids C ''forbid_ci_edits'' \<and> gw_ci_path p) 403
                  (''forbid_ci_edits: patch touches CI/scripts path: '' @ tp)) (\<lambda>_.
         refuse (forbids C ''forbid_dep_manifest_edits'' \<and> gw_dep_path p) 403
           (''forbid_dep_manifest_edits: patch touches dep manifest: '' @ tp))))"

definition added_lines :: "string \<Rightarrow> int" where
  "added_lines patch = int (length (filter is_plus (splitlines patch)))"

definition deleted_lines :: "string \<Rightarrow> int" where
  "deleted_lines patch = int (length (filter (\<lambda>l. \<not> is_plus l \<and> is_minus l) (splitlines patch)))"

definition limit_text :: "string \<Rightarrow> int \<Rightarrow> int \<Rightarrow> string" where
  "limit_text what n limit = ''diff guard: too many '' @ what @ '' ('' @ int_str n @ '' > '' @ int_str limit @ '')''"

definition check_limits :: "gw_config \<Rightarrow> string \<Rightarrow> string list \<Rightarrow> unit gw" where
  "check_limits C patch touched =
     (let n = int (length touched); a = added_lines patch; d = deleted_lines patch
      in sbind (refuse (gc_max_files C < n) 403 (limit_text ''files changed'' n (gc_max_files C))) (\<lambda>_.
         sbind (refuse (gc_max_added C < a) 403 (limit_text ''added lines'' a (gc_max_added C))) (\<lambda>_.
         sbind (refuse (gc_max_deleted C < d) 403 (limit_text ''deleted lines'' d (gc_max_deleted C))) (\<lambda>_.
         refuse (gc_max_total C < a + d) 403 (limit_text ''total changed lines'' (a + d) (gc_max_total C))))))"

definition verdict_text :: "risk_decision \<Rightarrow> string" where
  "verdict_text d = (case d of ALLOW \<Rightarrow> ''allow'' | REJECT \<Rightarrow> ''reject'')"

definition final_gate :: "gw_config \<Rightarrow> string \<Rightarrow> gw_step \<Rightarrow> gw_step gw" where
  "final_gate C patch s =
     (case gc_patch_gate C of
        None \<Rightarrow> sret (s\<lparr>gs_gate_verdict := ''na'', gs_gate_reason := ''gate not available''\<rparr>)
      | Some pol \<Rightarrow>
          sbind (lift_res (patch_risk_gate pol patch (Some (gc_max_patch_bytes C)) (Some (gc_max_files C)) (Some 5))) (\<lambda>r.
          sbind (refuse (rr_decision r = REJECT) 403 (''RFSN gate REJECT: '' @ join ''; '' (take 5 (rr_reasons r)))) (\<lambda>_.
          sret (s\<lparr>gs_gate_verdict := verdict_text (rr_decision r),
                  gs_gate_reason := join ''; '' (take 5 (rr_reasons r))\<rparr>))))"

definition gate_patch :: "gw_config \<Rightarrow> string \<Rightarrow> gw_step \<Rightarrow> gw_step gw" where
  "gate_patch C repo_root s =
     (if gs_type s \<noteq> ''apply_patch'' then sret s
      else
        (let patch = str_or_empty (gs_patch s); touched = gateway_touched patch
         in sbind (refuse (gc_max_patch_bytes C < int (utf8_length patch)) 413 ''patch too large'') (\<lambda>_.
            sbind (refuse (CHR 0x00 \<in> set patch) 403 ''patch contains null bytes'') (\<lambda>_.
            sbind (sfor (\<lambda>l. refuse (meta_header l) 403 (''patch contains shell metacharacters: '' @ take 80 l))
                     (splitlines patch)) (\<lambda>_.
            sbind (sfor (check_touched C repo_root) (gc_set_order C touched)) (\<lambda>_.
            sbind (sfor (check_forbidden C) (gc_set_order C touched)) (\<lambda>_.
            sbind (check_limits C patch touched) (\<lambda>_.
            final_gate C patch s))))))))"

section \<open>The request handler\<close>

fun py_item :: "pyval \<Rightarrow> string \<Rightarrow> pyval res" where
  "py_item (PDict d) key = (case dget d key of None \<Rightarrow> Inl KeyError | Some v \<Rightarrow> Inr v)"
| "py_item v key = Inl TypeError"

definition budget_timeout :: "gw_config \<Rightarrow> gw_step \<Rightarrow> gw_step res" where
  "budget_timeout C s =
     (case as_dict (dget_or (gc_gate_policy C) ''step_budgets'' (PDict [])) of
        None \<Rightarrow> Inl AttributeError
      | Some budgets \<Rightarrow>
          (let bt = dget_or budgets (gs_type s) PNone
           in if \<not> truthy bt then Inr s
              else ebind (py_contains_str ''timeout_s'' bt) (\<lambda>b.
                if \<not> b then Inr s
                else ebind (py_item bt ''timeout_s'') (\<lambda>v. ebind (py_int v) (\<lambda>m.
                       Inr (s\<lparr>gs_timeout_s := Some (min (int_or (gs_timeout_s s) m) m)\<rparr>))))))"

definition send_step :: "gw_executor \<Rightarrow> gw_request \<Rightarrow> gw_step \<Rightarrow> pydict gw" where
  "send_step ex q s =
     (let force_cold = gs_type s = ''ensure_deps'' \<and> gs_allow_network s;
          warm = str_or_empty (gr_run_id q) \<noteq> [] \<and> gr_warm q \<and> \<not> force_cold;
          sent = (if warm then \<lparr>se_warm = True, se_repo_id = gr_repo_id q, se_iter = None, se_run_id = gr_run_id q, se_step = s\<rparr>
                  else \<lparr>se_warm = False, se_repo_id = gr_repo_id q, se_iter = Some (gr_iter q), se_run_id = None, se_step = s\<rparr>)
      in sbind (supdate (\<lambda>st. st\<lparr>gw_sent := gw_sent st @ [sent]\<rparr>)) (\<lambda>_.
         case ex sent of (status, txt, out) \<Rightarrow> if status \<noteq> 200 then http status txt else sret out))"

definition payload_bytes :: "runtime \<Rightarrow> pydict \<Rightarrow> int" where
  "payload_bytes R out =
     (case dget_or out ''payload'' PNone of
        PStr s \<Rightarrow> int (utf8_length s)
      | PNone \<Rightarrow> 0
      | v \<Rightarrow> int (utf8_length (py_str R v)))"

fun is_zero :: "pyval \<Rightarrow> bool" where
  "is_zero (PInt i) = (i = 0)"
| "is_zero (PFloat x) = (x = 0)"
| "is_zero (PBool b) = (\<not> b)"
| "is_zero v = False"

definition check_step :: "runtime \<Rightarrow> gw_config \<Rightarrow> gw_request \<Rightarrow> string option \<Rightarrow> gw_step gw" where
  "check_step R C q header =
     (let s = gr_step q; repo_root = ''/data/repos/'' @ gr_repo_id q;
          tier = effective_tier (gr_tier q) header; k = usage_key (gr_repo_id q) (gr_iter q) (gr_run_id q)
      in sbind (gate_type C k s) (\<lambda>_.
         sbind (gate_read C k repo_root s) (\<lambda>_.
         sbind (gate_depth s) (\<lambda>_.
         sbind (gate_tests R C s) (\<lambda>_.
         sbind (gate_template C (gr_run_id q) tier s) (\<lambda>s1.
         sbind (gate_network C tier s1) (\<lambda>s2.
         sbind (gate_patch C repo_root s2) (\<lambda>s3.
         lift_res (budget_timeout C s3)))))))))"

definition run_step :: "runtime \<Rightarrow> gw_config \<Rightarrow> gw_executor \<Rightarrow> gw_request \<Rightarrow> string option \<Rightarrow> pydict gw" where
  "run_step R C ex q header =
     sbind (check_step R C q header) (\<lambda>s.
     sbind (send_step ex q s) (\<lambda>out.
     sbind (if gs_type s \<in> {''repo_search'', ''repo_read_range'', ''read_file'', ''detect_project'', ''detect_workdirs''}
            then charge C (usage_key (gr_repo_id q) (gr_iter q) (gr_run_id q)) (ChargeBytes (payload_bytes R out))
            else sret ()) (\<lambda>_.
     sbind (if gs_type s = ''detect_workdirs'' \<and> is_zero (dget_or out ''status'' (PInt 1))
            then supdate (store_workdirs C (gr_run_id q) out) else sret ()) (\<lambda>_.
     sret out))))"

definition run_cleanup :: "string \<Rightarrow> gw_state \<Rightarrow> gw_state" where
  "run_cleanup run s = clear_workdirs run s"

section \<open>Runs that return\<close>

text \<open>A computation that sends nothing and leaves the work directories alone, also when it raises.\<close>

definition quiet :: "'a gw \<Rightarrow> bool" where
  "quiet m \<longleftrightarrow> (\<forall>st. gw_sent (snd (m st)) = gw_sent st \<and> gw_workdirs (snd (m st)) = gw_workdirs st)"

named_theorems quiet_intros "computations that send nothing"

lemma quiet_sbind [quiet_intros]: "quiet m \<Longrightarrow> (\<And>x. quiet (f x)) \<Longrightarrow> quiet (sbind m f)"
  unfolding quiet_def sbind_def by (auto split: prod.split sum.split) (metis snd_conv)+

lemma quiet_basic [quiet_intros]:
  "quiet (sret x)" "quiet (http c d)" "quiet (refuse b c d)" "quiet (sread f)" "quiet (lift_res r)"
  by (auto simp: quiet_def sret_def http_def sraise_def refuse_def sread_def lift_res_def split: sum.split)

lemma quiet_supdate [quiet_intros]:
  "(\<And>st. gw_sent (f st) = gw_sent st \<and> gw_workdirs (f st) = gw_workdirs st) \<Longrightarrow> quiet (supdate f)"
  by (simp add: quiet_def supdate_def)

lemma quiet_if [quiet_intros]: "(b \<Longrightarrow> quiet m) \<Longrightarrow> (\<not> b \<Longrightarrow> quiet m') \<Longrightarrow> quiet (if b then m else m')"
  by simp

lemma quiet_charge [quiet_intros]: "quiet (charge C k kind)"
  unfolding charge_def
  by (cases kind) (auto intro!: quiet_intros simp: put_usage_def prune_usage_def Let_def)

lemma quiet_sfor [quiet_intros]: "(\<And>x. quiet (f x)) \<Longrightarrow> quiet (sfor f xs)"
  by (induction xs) (auto intro: quiet_intros)

lemma quiet_resolve [quiet_intros]: "quiet (resolve_workdir run wid)"
  unfolding resolve_workdir_def by (auto intro!: quiet_intros split: option.split)

lemma quiet_checks [quiet_intros]:
  "quiet (gate_type C k s)" "quiet (gate_read C k dir s)" "quiet (gate_depth s)" "quiet (gate_tests R C s)"
  "quiet (gate_template C run tier s)" "quiet (gate_network C tier s)" "quiet (gate_patch C dir s)"
  unfolding gate_type_def gate_read_def gate_depth_def gate_tests_def gate_template_def gate_network_def
    gate_patch_def check_target_def check_touched_def check_forbidden_def check_limits_def final_gate_def Let_def
  by (auto intro!: quiet_intros split: option.split)

lemma quiet_check_step: "quiet (check_step R C q header)"
  unfolding check_step_def Let_def by (auto intro!: quiet_intros)

lemma check_touched_returns:
  "check_touched C dir f st = (Inr (), st') \<longleftrightarrow>
     (validate_repo_path (gc_cwd C) (gc_rules C) dir f \<and> (\<forall>r \<in> set SENSITIVE_PATTERNS. \<not> rx_found r f)) \<and> st' = st"
  by (auto simp: check_touched_def http_bind)

lemma check_forbidden_returns:
  "check_forbidden C tp st = (Inr (), st') \<longleftrightarrow>
     (let p = lstrip_char slash (replace_char backslash slash tp)
      in \<not> (forbids C ''forbid_test_edits'' \<and> gw_test_path p) \<and> \<not> (forbids C ''forbid_ci_edits'' \<and> gw_ci_path p)
         \<and> \<not> (forbids C ''forbid_dep_manifest_edits'' \<and> gw_dep_path p)) \<and> st' = st"
  by (auto simp: check_forbidden_def http_bind Let_def)

lemma check_limits_returns:
  "check_limits C patch touched st = (Inr (), st') \<longleftrightarrow>
     (int (length touched) \<le> gc_max_files C \<and> added_lines patch \<le> gc_max_added C
      \<and> deleted_lines patch \<le> gc_max_deleted C \<and> added_lines patch + deleted_lines patch \<le> gc_max_total C) \<and> st' = st"
  by (auto simp: check_limits_def http_bind Let_def not_less)

section \<open>What a sent step satisfies\<close>

text \<open>The patch of a step that passed.\<close>

definition patch_cleared :: "gw_config \<Rightarrow> string \<Rightarrow> string \<Rightarrow> bool" where
  "patch_cleared C dir patch \<longleftrightarrow>
     int (utf8_length patch) \<le> gc_max_patch_bytes C \<and> CHR 0x00 \<notin> set patch
     \<and> (\<forall>l \<in> set (splitlines patch). \<not> meta_header l)
     \<and> (\<forall>f \<in> set (gateway_touched patch).
          validate_repo_path (gc_cwd C) (gc_rules C) dir f \<and> (\<forall>r \<in> set SENSITIVE_PATTERNS. \<not> rx_found r f)
          \<and> (let p = lstrip_char slash (replace_char backslash slash f)
             in \<not> (forbids C ''forbid_test_edits'' \<and> gw_test_path p) \<and> \<not> (forbids C ''forbid_ci_edits'' \<and> gw_ci_path p)
                \<and> \<not> (forbids C ''forbid_dep_manifest_edits'' \<and> gw_dep_path p)))
     \<and> int (length (gateway_touched patch)) \<le> gc_max_files C \<and> added_lines patch \<le> gc_max_added C
     \<and> deleted_lines patch \<le> gc_max_deleted C \<and> added_lines patch + deleted_lines patch \<le> gc_max_total C
     \<and> (\<forall>pol. gc_patch_gate C = Some pol \<longrightarrow>
          (\<exists>r. patch_risk_gate pol patch (Some (gc_max_patch_bytes C)) (Some (gc_max_files C)) (Some 5) = Inr r
               \<and> rr_decision r = ALLOW))"

definition same_request :: "gw_step \<Rightarrow> gw_step \<Rightarrow> bool" where
  "same_request s s' \<longleftrightarrow>
     gs_id s' = gs_id s \<and> gs_type s' = gs_type s \<and> gs_path s' = gs_path s \<and> gs_patch s' = gs_patch s
     \<and> gs_template_id s' = gs_template_id s \<and> gs_template s' = gs_template s \<and> gs_workdir_id s' = gs_workdir_id s
     \<and> gs_max_depth s' = gs_max_depth s \<and> gs_other s' = gs_other s"

lemma final_gate_returns:
  assumes "final_gate C patch s st = (Inr s', st')"
  shows "same_request s s' \<and> gs_workdir s' = gs_workdir s \<and> gs_tier s' = gs_tier s
    \<and> gs_allow_network s' = gs_allow_network s \<and> gs_timeout_s s' = gs_timeout_s s \<and> st' = st
    \<and> (\<forall>pol. gc_patch_gate C = Some pol \<longrightarrow>
          (\<exists>r. patch_risk_gate pol patch (Some (gc_max_patch_bytes C)) (Some (gc_max_files C)) (Some 5) = Inr r
               \<and> rr_decision r = ALLOW))"
proof (cases "gc_patch_gate C")
  case None
  with assms show ?thesis by (simp add: final_gate_def http_rules same_request_def)
next
  case (Some pol)
  with assms obtain r where r:
    "patch_risk_gate pol patch (Some (gc_max_patch_bytes C)) (Some (gc_max_files C)) (Some 5) = Inr r"
    "rr_decision r \<noteq> REJECT" "st' = st"
    "s' = s\<lparr>gs_gate_verdict := verdict_text (rr_decision r), gs_gate_reason := join ''; '' (take 5 (rr_reasons r))\<rparr>"
    by (auto simp: final_gate_def http_bind)
  then have "rr_decision r = ALLOW" by (cases "rr_decision r") auto
  with r Some show ?thesis by (simp add: same_request_def)
qed

lemma gate_patch_returns:
  assumes "gate_patch C dir s st = (Inr s', st')" "\<And>xs. set (gc_set_order C xs) = set xs"
  shows "same_request s s' \<and> gs_workdir s' = gs_workdir s \<and> gs_tier s' = gs_tier s
    \<and> gs_allow_network s' = gs_allow_network s \<and> st' = st
    \<and> (gs_type s = ''apply_patch'' \<longrightarrow> patch_cleared C dir (str_or_empty (gs_patch s)))"
proof (cases "gs_type s = ''apply_patch''")
  case False
  with assms(1) show ?thesis by (auto simp: gate_patch_def http_rules same_request_def)
next
  case True
  let ?patch = "str_or_empty (gs_patch s)"
  have meta: "sfor (\<lambda>l. refuse (meta_header l) 403 (msg l)) ls st0 = (Inr (), st1)
      \<longleftrightarrow> (\<forall>l \<in> set ls. \<not> meta_header l) \<and> st1 = st0" for msg ls st0 st1
    by (rule sfor_refuse_returns) (simp add: refuse_returns)
  note touched = sfor_refuse_returns [of "check_touched C dir", OF check_touched_returns]
  note forbidden = sfor_refuse_returns [of "check_forbidden C", OF check_forbidden_returns]
  from True assms(1) have "patch_cleared C dir ?patch \<and> final_gate C ?patch s st = (Inr s', st')"
    unfolding gate_patch_def
    by (auto simp: Let_def http_bind meta touched forbidden check_limits_returns assms(2) not_less patch_cleared_def
        dest: final_gate_returns)
  with final_gate_returns [of C ?patch s st s' st'] show ?thesis by simp
qed

lemma gate_template_returns:
  assumes "gate_template C run tier s st = (Inr s', st')"
  shows "same_request s s' \<and> st' = st
    \<and> (gs_type s \<in> {''run_cmd_template'', ''format_fix''} \<longrightarrow>
        strip (str_or_empty (gs_template s)) \<in> set (gc_command_templates C)
        \<and> (gs_type s = ''format_fix'' \<longleftrightarrow> endswith (strip (str_or_empty (gs_template s))) ''_fix'')
        \<and> (gs_type s = ''format_fix'' \<longrightarrow> gc_format_fix_min_tier C \<le> tier)
        \<and> (str_or_empty (gs_workdir s') = [] \<or> get_rel (str_or_empty run) (strip (str_or_empty (gs_workdir_id s))) st = gs_workdir s'))"
proof (cases "gs_type s \<in> {''run_cmd_template'', ''format_fix''}")
  case False
  with assms show ?thesis by (auto simp: gate_template_def http_rules same_request_def)
next
  case True
  have rel: "resolve_workdir run wid st0 = (Inr y, st1) \<longleftrightarrow> get_rel (str_or_empty run) wid st0 = Some y \<and> y \<noteq> [] \<and> st1 = st0"
    for wid st0 y st1 by (auto simp: resolve_workdir_def http_bind split: option.splits)
  from True assms show ?thesis
    unfolding gate_template_def
    by (auto simp: Let_def http_bind rel not_less same_request_def str_or_empty_def split: if_splits)
qed

lemma gate_network_returns:
  "gate_network C tier s st = (Inr s', st') \<Longrightarrow>
     same_request s s' \<and> gs_workdir s' = gs_workdir s \<and> gs_tier s' = Some tier \<and> st' = st
     \<and> (gs_allow_network s' \<longrightarrow> gs_type s = ''ensure_deps'' \<and> gc_network_min_tier C \<le> tier)"
  by (auto simp: gate_network_def http_bind Let_def same_request_def split: if_splits)

lemma budget_timeout_returns:
  "budget_timeout C s = Inr s' \<Longrightarrow>
     same_request s s' \<and> gs_workdir s' = gs_workdir s \<and> gs_tier s' = gs_tier s \<and> gs_allow_network s' = gs_allow_network s"
  by (auto simp: budget_timeout_def Let_def same_request_def split: option.splits if_splits)

lemma same_request_trans: "same_request a b \<Longrightarrow> same_request b c \<Longrightarrow> same_request a c"
  by (simp add: same_request_def)

lemma same_request_types: "same_request a b \<Longrightarrow> gs_type b = gs_type a \<and> gs_patch b = gs_patch a"
  by (simp add: same_request_def)

text \<open>What the executor may rely on.\<close>

definition step_cleared :: "gw_config \<Rightarrow> gw_request \<Rightarrow> string option \<Rightarrow> gw_state \<Rightarrow> gw_step \<Rightarrow> bool" where
  "step_cleared C q header st s \<longleftrightarrow>
     same_request (gr_step q) s \<and> gs_type s \<in> set (gc_allowed_types C)
     \<and> gs_tier s = Some (effective_tier (gr_tier q) header)
     \<and> (gs_allow_network s \<longrightarrow> gs_type s = ''ensure_deps'' \<and> gc_network_min_tier C \<le> effective_tier (gr_tier q) header)
     \<and> (gs_type s \<in> {''repo_read_range'', ''read_file''} \<longrightarrow>
          validate_repo_path (gc_cwd C) (gc_rules C) (''/data/repos/'' @ gr_repo_id q) (str_or_empty (gs_path s)))
     \<and> (gs_type s = ''run_tests'' \<longrightarrow> strip (str_or_empty (gs_template_id s)) \<in> set (gc_test_templates C))
     \<and> (gs_type s \<in> {''run_cmd_template'', ''format_fix''} \<longrightarrow>
          strip (str_or_empty (gs_template s)) \<in> set (gc_command_templates C)
          \<and> (gs_type s = ''format_fix'' \<longleftrightarrow> endswith (strip (str_or_empty (gs_template s))) ''_fix'')
          \<and> (gs_type s = ''format_fix'' \<longrightarrow> gc_format_fix_min_tier C \<le> effective_tier (gr_tier q) header)
          \<and> (str_or_empty (gs_workdir s) = []
             \<or> get_rel (str_or_empty (gr_run_id q)) (strip (str_or_empty (gs_workdir_id s))) st = gs_workdir s))
     \<and> (gs_type s = ''apply_patch'' \<longrightarrow> patch_cleared C (''/data/repos/'' @ gr_repo_id q) (str_or_empty (gs_patch s)))"

lemma gate_type_returns: "gate_type C k s st = (Inr (), st') \<Longrightarrow> gs_type s \<in> set (gc_allowed_types C)"
  by (auto simp: gate_type_def http_bind)

lemma gate_read_returns:
  "gate_read C k dir s st = (Inr (), st') \<Longrightarrow> gs_type s \<in> {''repo_read_range'', ''read_file''} \<Longrightarrow>
     validate_repo_path (gc_cwd C) (gc_rules C) dir (str_or_empty (gs_path s))"
  by (auto simp: gate_read_def http_bind)

lemma gate_tests_returns:
  "gate_tests R C s st = (Inr (), st') \<Longrightarrow> gs_type s = ''run_tests'' \<Longrightarrow>
     strip (str_or_empty (gs_template_id s)) \<in> set (gc_test_templates C)"
  by (auto simp: gate_tests_def http_bind Let_def)

lemma quiet_workdirs: "quiet m \<Longrightarrow> m st = (r, st') \<Longrightarrow> gw_workdirs st' = gw_workdirs st \<and> gw_sent st' = gw_sent st"
  by (metis quiet_def snd_conv)

lemma check_step_returns:
  assumes "check_step R C q header st = (Inr s, st')" "\<And>xs. set (gc_set_order C xs) = set xs"
  shows "step_cleared C q header st s"
proof -
  let ?s = "gr_step q" and ?dir = "''/data/repos/'' @ gr_repo_id q" and ?tier = "effective_tier (gr_tier q) header"
    and ?k = "usage_key (gr_repo_id q) (gr_iter q) (gr_run_id q)"
  from assms(1) obtain st1 st2 st3 st4 st5 st6 st7 s1 s2 s3 where
    1: "gate_type C ?k ?s st = (Inr (), st1)" and 2: "gate_read C ?k ?dir ?s st1 = (Inr (), st2)"
    and 3: "gate_depth ?s st2 = (Inr (), st3)" and 4: "gate_tests R C ?s st3 = (Inr (), st4)"
    and 5: "gate_template C (gr_run_id q) ?tier ?s st4 = (Inr s1, st5)"
    and 6: "gate_network C ?tier s1 st5 = (Inr s2, st6)" and 7: "gate_patch C ?dir s2 st6 = (Inr s3, st7)"
    and 8: "budget_timeout C s3 = Inr s"
    unfolding check_step_def Let_def by (elim sbind_returnsE) (auto simp: http_rules)
  have wd: "gw_workdirs st4 = gw_workdirs st"
    using quiet_workdirs [OF quiet_checks(1) 1] quiet_workdirs [OF quiet_checks(2) 2]
      quiet_workdirs [OF quiet_checks(3) 3] quiet_workdirs [OF quiet_checks(4) 4] by simp
  note r5 = gate_template_returns [OF 5] and r6 = gate_network_returns [OF 6]
    and r7 = gate_patch_returns [OF 7 assms(2)] and r8 = budget_timeout_returns [OF 8]
  have same: "same_request ?s s" using r5 r6 r7 r8 by (blast intro: same_request_trans)
  have eqs: "gs_type s1 = gs_type ?s" "gs_type s2 = gs_type ?s" "gs_type s = gs_type ?s" "gs_patch s2 = gs_patch ?s"
      "gs_patch s = gs_patch ?s"
    using r5 r6 same by (auto dest!: same_request_types)
  have "get_rel run wid st4 = get_rel run wid st" for run wid by (simp add: get_rel_def wd)
  then show ?thesis
    using same r5 r6 r7 r8 gate_type_returns [OF 1] gate_read_returns [OF 2] gate_tests_returns [OF 4]
    unfolding step_cleared_def eqs by (simp add: same_request_def)
qed

section \<open>The requests that are sent\<close>

definition silent :: "'a gw \<Rightarrow> bool" where
  "silent m \<longleftrightarrow> (\<forall>st. gw_sent (snd (m st)) = gw_sent st)"

lemma silent_quiet: "quiet m \<Longrightarrow> silent m"
  by (simp add: silent_def quiet_def)

lemma sbind_sent: "(\<And>x. silent (f x)) \<Longrightarrow> gw_sent (snd (sbind m f st)) = gw_sent (snd (m st))"
  unfolding silent_def sbind_def by (auto split: prod.split sum.split)

lemma silent_sbind: "silent m \<Longrightarrow> (\<And>x. silent (f x)) \<Longrightarrow> silent (sbind m f)"
  using sbind_sent by (metis silent_def)

lemma silent_store: "silent (supdate (store_workdirs C run out))"
  by (simp add: silent_def supdate_def store_workdirs_def set_run_workdirs_def)

definition after_send :: "runtime \<Rightarrow> gw_config \<Rightarrow> gw_request \<Rightarrow> gw_step \<Rightarrow> pydict \<Rightarrow> pydict gw" where
  "after_send R C q s out =
     sbind (if gs_type s \<in> {''repo_search'', ''repo_read_range'', ''read_file'', ''detect_project'', ''detect_workdirs''}
            then charge C (usage_key (gr_repo_id q) (gr_iter q) (gr_run_id q)) (ChargeBytes (payload_bytes R out))
            else sret ()) (\<lambda>_.
     sbind (if gs_type s = ''detect_workdirs'' \<and> is_zero (dget_or out ''status'' (PInt 1))
            then supdate (store_workdirs C (gr_run_id q) out) else sret ()) (\<lambda>_.
     sret out))"

lemma run_step_after_send:
  "run_step R C ex q header = sbind (check_step R C q header) (\<lambda>s. sbind (send_step ex q s) (after_send R C q s))"
  by (simp add: run_step_def after_send_def [abs_def])

lemma silent_after_send: "silent (after_send R C q s out)"
  unfolding after_send_def
  by (intro silent_sbind) (auto intro: silent_quiet quiet_intros silent_store)

lemma send_step_sent:
  "\<exists>e. gw_sent (snd (send_step ex q s st)) = gw_sent st @ [e] \<and> se_step e = s \<and> se_repo_id e = gr_repo_id q
     \<and> (se_warm e \<longrightarrow> se_run_id e = gr_run_id q \<and> \<not> (gs_type s = ''ensure_deps'' \<and> gs_allow_network s))
     \<and> gw_usages (snd (send_step ex q s st)) = gw_usages st"
  by (auto simp: send_step_def Let_def sbind_def supdate_def http_def sraise_def sret_def split: prod.split)

section \<open>Read budget\<close>

definition same_scope :: "budget_key \<Rightarrow> budget_key \<Rightarrow> bool" where
  "same_scope k k' \<longleftrightarrow> fst k' = fst k \<and> fst (snd k') = fst (snd k)"

text \<open>The scope of \<open>k\<close> has no other iteration.\<close>

definition alone :: "budget_key \<Rightarrow> gw_state \<Rightarrow> bool" where
  "alone k st \<longleftrightarrow> (\<forall>k' \<in> fst ` set (gw_usages st). same_scope k k' \<longrightarrow> k' = k)"

abbreviation reads_of :: "budget_key \<Rightarrow> gw_state \<Rightarrow> int" where
  "reads_of k st \<equiv> us_reads (usage_of k st)"

lemma distinct_le_1: "distinct xs \<Longrightarrow> set xs \<subseteq> {x} \<Longrightarrow> length xs \<le> 1"
  by (metis card.empty card_insert_disjoint card_mono distinct_card empty_iff finite.emptyI finite_insert One_nat_def)

lemma prune_alone: "alone k st \<Longrightarrow> prune_usage k st = st"
proof -
  assume a: "alone k st"
  have "set (scope_iters k st) \<subseteq> {snd (snd k)}" "distinct (scope_iters k st)"
    using a by (auto simp: scope_iters_def alone_def same_scope_def image_iff)
  then have "length (scope_iters k st) - 5 = 0" using distinct_le_1 by fastforce
  then show ?thesis by (simp add: prune_usage_def Let_def)
qed

lemma put_usage_alone: "alone k st \<Longrightarrow> alone k (put_usage k u st)"
  using set_update_subset [of k u "gw_usages st"] by (fastforce simp: alone_def put_usage_def)

lemma usage_of_put [simp]: "usage_of k (put_usage k u st) = u"
  by (simp add: usage_of_def put_usage_def dict_simps)

lemma charge_usage:
  assumes "alone k st"
  shows "alone k (snd (charge C k kind st))
    \<and> reads_of k (snd (charge C k kind st)) = reads_of k st + (if kind = ChargeRead then 1 else 0)"
  using assms prune_alone [OF put_usage_alone [OF assms]]
  by (cases kind) (auto simp: charge_def sbind_def sread_def supdate_def refuse_def http_def sraise_def sret_def put_usage_alone)

lemma charge_read_returns: "charge C k ChargeRead st = (Inr (), st') \<Longrightarrow> reads_of k st + 1 \<le> gc_max_read_steps C"
  by (auto simp: charge_def http_bind)

text \<open>Steps of a computation that never lowers the reads of a lone iteration.\<close>

definition counting :: "budget_key \<Rightarrow> 'a gw \<Rightarrow> bool" where
  "counting k m \<longleftrightarrow> (\<forall>st. alone k st \<longrightarrow> alone k (snd (m st)) \<and> reads_of k st \<le> reads_of k (snd (m st)))"

lemma counting_sbind: "counting k m \<Longrightarrow> (\<And>x. counting k (f x)) \<Longrightarrow> counting k (sbind m f)"
  unfolding counting_def sbind_def by (auto split: prod.split sum.split) (metis order_trans snd_conv)+

lemma counting_frame: "(\<And>st. gw_usages (snd (m st)) = gw_usages st) \<Longrightarrow> counting k m"
  by (simp add: counting_def alone_def usage_of_def)

lemma counting_charge: "counting k (charge C k kind)"
  using charge_usage by (simp add: counting_def)

text \<open>The checks beside the charges do not touch the state.\<close>

definition stateless :: "'a gw \<Rightarrow> bool" where
  "stateless m \<longleftrightarrow> (\<forall>st. snd (m st) = st)"

named_theorems stateless_intros "computations that leave the state alone"

lemma stateless_sbind [stateless_intros]: "stateless m \<Longrightarrow> (\<And>x. stateless (f x)) \<Longrightarrow> stateless (sbind m f)"
  unfolding stateless_def sbind_def by (auto split: prod.split sum.split) (metis snd_conv)+

lemma stateless_basic [stateless_intros]:
  "stateless (sret x)" "stateless (http c d)" "stateless (refuse b c d)" "stateless (sread f)" "stateless (lift_res r)"
  by (auto simp: stateless_def sret_def http_def sraise_def refuse_def sread_def lift_res_def split: sum.split)

lemma stateless_sfor [stateless_intros]: "(\<And>x. stateless (f x)) \<Longrightarrow> stateless (sfor f xs)"
  by (induction xs) (auto intro: stateless_intros)

lemma stateless_resolve [stateless_intros]: "stateless (resolve_workdir run wid)"
  unfolding resolve_workdir_def by (auto intro!: stateless_intros split: option.split)

lemma stateless_checks [stateless_intros]:
  "stateless (gate_depth s)" "stateless (gate_tests R C s)" "stateless (gate_template C run tier s)"
  "stateless (gate_network C tier s)" "stateless (gate_patch C dir s)"
  unfolding gate_depth_def gate_tests_def gate_template_def gate_network_def
    gate_patch_def check_target_def check_touched_def check_forbidden_def check_limits_def final_gate_def Let_def
  by (auto intro!: stateless_intros split: option.split)

lemma counting_stateless: "stateless m \<Longrightarrow> counting k m"
  by (rule counting_frame) (simp add: stateless_def)

definition late_checks :: "runtime \<Rightarrow> gw_config \<Rightarrow> gw_request \<Rightarrow> string option \<Rightarrow> gw_step gw" where
  "late_checks R C q header =
     (let s = gr_step q; tier = effective_tier (gr_tier q) header
      in sbind (gate_depth s) (\<lambda>_.
         sbind (gate_tests R C s) (\<lambda>_.
         sbind (gate_template C (gr_run_id q) tier s) (\<lambda>s1.
         sbind (gate_network C tier s1) (\<lambda>s2.
         sbind (gate_patch C (''/data/repos/'' @ gr_repo_id q) s2) (\<lambda>s3.
         lift_res (budget_timeout C s3)))))))"

lemma stateless_late: "stateless (late_checks R C q header)"
  unfolding late_checks_def Let_def by (intro stateless_intros)

lemma check_step_late:
  "check_step R C q header =
     sbind (gate_type C (usage_key (gr_repo_id q) (gr_iter q) (gr_run_id q)) (gr_step q)) (\<lambda>_.
     sbind (gate_read C (usage_key (gr_repo_id q) (gr_iter q) (gr_run_id q)) (''/data/repos/'' @ gr_repo_id q) (gr_step q)) (\<lambda>_.
     late_checks R C q header))"
  by (simp add: check_step_def late_checks_def Let_def)

definition is_read :: "gw_step \<Rightarrow> bool" where
  "is_read s \<longleftrightarrow> gs_type s \<in> {''repo_read_range'', ''read_file''}"

lemma counting_check_step: "counting (usage_key (gr_repo_id q) (gr_iter q) (gr_run_id q)) (check_step R C q header)"
  unfolding check_step_late gate_type_def gate_read_def
  by (auto intro!: counting_sbind counting_charge counting_stateless [OF stateless_late]
      intro: counting_stateless stateless_intros)

lemma check_step_counts:
  assumes "check_step R C q header st = (Inr s, st')" "alone k st"
    and k: "k = usage_key (gr_repo_id q) (gr_iter q) (gr_run_id q)" and "is_read (gr_step q)"
  shows "reads_of k st + 1 \<le> reads_of k st' \<and> reads_of k st + 1 \<le> gc_max_read_steps C"
proof -
  let ?s = "gr_step q"
  from assms(1) obtain st1 st2 where
    1: "gate_type C k ?s st = (Inr (), st1)" and 2: "gate_read C k (''/data/repos/'' @ gr_repo_id q) ?s st1 = (Inr (), st2)"
    and 3: "late_checks R C q header st2 = (Inr s, st')"
    unfolding check_step_late k by (elim sbind_returnsE) auto
  have "st' = st2" using stateless_late 3 by (metis stateless_def snd_conv)
  moreover have "st1 = st" using 1 assms(4) by (auto simp: gate_type_def http_bind is_read_def)
  moreover from 2 assms(4) have "charge C k ChargeRead st1 = (Inr (), st2)"
    by (auto simp: gate_read_def http_bind is_read_def)
  ultimately show ?thesis
    using charge_usage [OF assms(2), of C ChargeRead] charge_read_returns [of C k st st'] by simp
qed

text \<open>One request: what it sends, and what it does to the counter of reads of its iteration.\<close>

lemma run_step_sends:
  fixes R C ex q header st
  defines "st' \<equiv> snd (run_step R C ex q header st)" and "k \<equiv> usage_key (gr_repo_id q) (gr_iter q) (gr_run_id q)"
  assumes "\<And>xs. set (gc_set_order C xs) = set xs"
  obtains e where "fst (run_step R C ex q header st) = Inl e" "gw_sent st' = gw_sent st"
      "alone k st \<Longrightarrow> alone k st' \<and> reads_of k st \<le> reads_of k st'"
  | e where "gw_sent st' = gw_sent st @ [e]" "step_cleared C q header st (se_step e)" "se_repo_id e = gr_repo_id q"
      "se_warm e \<longrightarrow> se_run_id e = gr_run_id q \<and> \<not> (gs_type (se_step e) = ''ensure_deps'' \<and> gs_allow_network (se_step e))"
      "alone k st \<Longrightarrow> alone k st' \<and> reads_of k st + (if is_read (se_step e) then 1 else 0) \<le> reads_of k st'
         \<and> (is_read (se_step e) \<longrightarrow> reads_of k st + 1 \<le> gc_max_read_steps C)"
proof (cases "check_step R C q header st")
  case (Pair r st1)
  have sent: "gw_sent st1 = gw_sent st"
    using quiet_check_step [of R C q header] Pair by (metis quiet_def snd_conv)
  have cnt: "alone k st1 \<and> reads_of k st \<le> reads_of k st1" if "alone k st"
    using counting_check_step [of q R C header] Pair that unfolding k_def counting_def by (metis snd_conv)
  show thesis
  proof (cases r)
    case (Inl e)
    with Pair have "run_step R C ex q header st = (Inl e, st1)"
      by (simp add: run_step_after_send sbind_def)
    with sent cnt show thesis by (intro that(1)) (auto simp: st'_def)
  next
    case (Inr s)
    have eq: "run_step R C ex q header st = sbind (send_step ex q s) (after_send R C q s) st1"
      using Pair Inr by (simp add: run_step_after_send sbind_def)
    obtain e where e: "gw_sent (snd (send_step ex q s st1)) = gw_sent st1 @ [e]" "se_step e = s" "se_repo_id e = gr_repo_id q"
      "se_warm e \<longrightarrow> se_run_id e = gr_run_id q \<and> \<not> (gs_type s = ''ensure_deps'' \<and> gs_allow_network s)"
      using send_step_sent by blast
    have frame: "gw_usages (snd (send_step ex q s st0)) = gw_usages st0" for st0
      using send_step_sent by blast
    have st'_sent: "gw_sent st' = gw_sent st @ [e]"
      unfolding st'_def eq sbind_sent [OF silent_after_send] e(1) sent ..
    have cleared: "step_cleared C q header st (se_step e)"
      using check_step_returns [OF _ assms(3)] Pair Inr e(2) by simp
    have "counting k (supdate (store_workdirs C run out))" for run out
      by (rule counting_frame) (simp add: supdate_def store_workdirs_def set_run_workdirs_def)
    then have "counting k (after_send R C q s out)" for out
      unfolding after_send_def k_def
      by (auto intro!: counting_sbind counting_charge intro: counting_stateless stateless_intros)
    then have tail: "counting k (sbind (send_step ex q s) (after_send R C q s))"
      by (rule counting_sbind [OF counting_frame [OF frame]])
    have "alone k st' \<and> reads_of k st + (if is_read (se_step e) then 1 else 0) \<le> reads_of k st'
         \<and> (is_read (se_step e) \<longrightarrow> reads_of k st + 1 \<le> gc_max_read_steps C)" if a: "alone k st"
    proof -
      have "is_read (gr_step q) \<longleftrightarrow> is_read s"
        using cleared e(2) by (simp add: step_cleared_def same_request_def is_read_def)
      then have "reads_of k st + (if is_read s then 1 else 0) \<le> reads_of k st1
          \<and> (is_read s \<longrightarrow> reads_of k st + 1 \<le> gc_max_read_steps C)"
        using check_step_counts [of R C q header st s st1 k] Pair Inr a cnt k_def by auto
      moreover have "alone k st' \<and> reads_of k st1 \<le> reads_of k st'"
        using tail cnt [OF a] unfolding counting_def st'_def eq by blast
      ultimately show ?thesis using e(2) by auto
    qed
    with st'_sent cleared e(2-4) show thesis by (intro that(2)) auto
  qed
qed

section \<open>Properties\<close>

text \<open>C13: What reaches the executor has passed every check. A request either raises and sends nothing, or
  sends exactly one step: the requested one, of an allowed type, with the tier of the request; with
  network access only for \<open>ensure_deps\<close> from the network tier on and never through the warm sandbox;
  its path, template, work directory and patch cleared by the policy, for a patch including every
  touched file, the size limits and the verdict of the risk gate.\<close>

theorem gateway_sends_checked_steps:
  assumes "\<forall>xs. set (gc_set_order C xs) = set xs" "run_step R C ex q header st = (r, st')"
  shows "(\<exists>e. r = Inl e) \<and> gw_sent st' = gw_sent st
    \<or> (\<exists>e. gw_sent st' = gw_sent st @ [e] \<and> step_cleared C q header st (se_step e) \<and> se_repo_id e = gr_repo_id q
         \<and> (se_warm e \<longrightarrow> se_run_id e = gr_run_id q \<and> \<not> (gs_type (se_step e) = ''ensure_deps'' \<and> gs_allow_network (se_step e))))"
  using run_step_sends [of C R ex q header st] assms by (metis fst_conv snd_conv)

definition demo_rules :: path_rules where
  "demo_rules = \<lparr>ru_allowed = [''**''], ru_blocked = [''**/.git/**''], ru_root_required = True, ru_prefixes = [], ru_suffixes = [''.pem'']\<rparr>"

definition demo_config :: gw_config where
  "demo_config = \<lparr>gc_allowed_types = [''read_file''], gc_rules = demo_rules, gc_max_patch_bytes = 1000, gc_max_read_steps = 1,
     gc_max_search_steps = 4, gc_max_bytes_per_iter = 100, gc_max_workdirs = 4, gc_format_fix_min_tier = 2,
     gc_network_min_tier = 2, gc_command_templates = [], gc_test_templates = [], gc_max_files = 3, gc_max_added = 40,
     gc_max_deleted = 40, gc_max_total = 80, gc_gate_policy = [], gc_patch_gate = None, gc_set_order = (\<lambda>xs. xs),
     gc_json_loads = (\<lambda>s. None), gc_cwd = ''/''\<rparr>"

definition demo_request :: gw_request where
  "demo_request = \<lparr>gr_repo_id = ''r'', gr_iter = 1,
     gr_step = \<lparr>gs_id = ''s1'', gs_type = ''read_file'', gs_path = Some ''src/a.py'', gs_patch = None, gs_template_id = None,
       gs_template = None, gs_timeout_s = None, gs_workdir_id = None, gs_workdir = None, gs_max_depth = None, gs_other = [],
       gs_tier = None, gs_allow_network = False, gs_network_reason = [], gs_gate_verdict = [], gs_gate_reason = []\<rparr>,
     gr_run_id = Some ''run'', gr_tier = None, gr_warm = True\<rparr>"

definition idle_gateway :: gw_state where
  "idle_gateway = \<lparr>gw_usages = [], gw_workdirs = [], gw_sent = []\<rparr>"

definition demo_executor :: gw_executor where
  "demo_executor = (\<lambda>e. (200, [], [(PStr ''payload'', PStr ''x = 1'')]))"

lemma demo_step_runs:
  "fst (run_step toy_runtime demo_config demo_executor demo_request None idle_gateway)
    = Inr [(PStr ''payload'', PStr ''x = 1'')]"
  by code_simp

theorem gateway_sends_checked_steps_witness:
  "\<exists>e. gw_sent (snd (run_step toy_runtime demo_config demo_executor demo_request None idle_gateway)) = [e]
     \<and> validate_repo_path ''/'' demo_rules ''/data/repos/r'' (str_or_empty (gs_path (se_step e)))"
proof -
  have order: "\<forall>xs. set (gc_set_order demo_config xs) = set xs" by (simp add: demo_config_def)
  let ?run = "run_step toy_runtime demo_config demo_executor demo_request None idle_gateway"
  from gateway_sends_checked_steps [OF order surjective_pairing, of toy_runtime demo_executor demo_request None idle_gateway]
  obtain e where "gw_sent (snd ?run) = [e]" "step_cleared demo_config demo_request None idle_gateway (se_step e)"
    using demo_step_runs by (auto simp: idle_gateway_def)
  then show ?thesis
    by (auto simp: step_cleared_def same_request_def demo_request_def demo_config_def)
qed

text \<open>C26: The read budget of an iteration. However many requests of one iteration of a run arrive, at most
  \<open>max_read_steps\<close> of its reads are sent to the executor, as long as no other iteration of the run is
  being counted.\<close>

theorem iteration_read_budget:
  assumes "\<forall>xs. set (gc_set_order C xs) = set xs"
    and "\<forall>(q, h) \<in> set calls. usage_key (gr_repo_id q) (gr_iter q) (gr_run_id q) = k"
    and "\<forall>k' \<in> fst ` set (gw_usages st). \<not> same_scope k k'"
    and "st' = foldl (\<lambda>s (q, h). snd (run_step R C ex q h s)) st calls"
  shows "\<exists>more. gw_sent st' = gw_sent st @ more
    \<and> int (length (filter (\<lambda>e. is_read (se_step e)) more)) \<le> max 0 (gc_max_read_steps C)"
proof -
  have "\<exists>more. gw_sent (foldl (\<lambda>s (q, h). snd (run_step R C ex q h s)) s0 calls) = gw_sent s0 @ more
      \<and> (more' = [] \<or> True)
      \<and> int n + int (length (filter (\<lambda>e. is_read (se_step e)) more)) \<le> max 0 (gc_max_read_steps C)"
    if "alone k s0" "int n \<le> reads_of k s0" "int n \<le> max 0 (gc_max_read_steps C)" for s0 n more'
    using assms(2) that
  proof (induction calls arbitrary: s0 n)
    case (Cons c calls)
    obtain q h where c: "c = (q, h)" by fastforce
    with Cons.prems(1) have k: "usage_key (gr_repo_id q) (gr_iter q) (gr_run_id q) = k" by simp
    let ?s1 = "snd (run_step R C ex q h s0)"
    obtain es where es: "gw_sent ?s1 = gw_sent s0 @ es" "alone k ?s1"
      "int (n + length (filter (\<lambda>e. is_read (se_step e)) es)) \<le> reads_of k ?s1"
      "int (n + length (filter (\<lambda>e. is_read (se_step e)) es)) \<le> max 0 (gc_max_read_steps C)"
    proof (rule run_step_sends [of C R ex q h s0, unfolded k])
      show "set (gc_set_order C xs) = set xs" for xs using assms(1) by simp
    next
      fix e assume "gw_sent ?s1 = gw_sent s0" "alone k s0 \<Longrightarrow> alone k ?s1 \<and> reads_of k s0 \<le> reads_of k ?s1"
      then show thesis using Cons.prems(2-4) by (intro that [of "[]"]) auto
    next
      fix e assume "gw_sent ?s1 = gw_sent s0 @ [e]"
        "alone k s0 \<Longrightarrow> alone k ?s1 \<and> reads_of k s0 + (if is_read (se_step e) then 1 else 0) \<le> reads_of k ?s1
           \<and> (is_read (se_step e) \<longrightarrow> reads_of k s0 + 1 \<le> gc_max_read_steps C)"
      then show thesis using Cons.prems(2-4) by (intro that [of "[e]"]) (auto split: if_splits)
    qed
    from Cons.IH [OF _ es(2-4)] Cons.prems(1)
    obtain more where "gw_sent (foldl (\<lambda>s (q, h). snd (run_step R C ex q h s)) ?s1 calls) = gw_sent ?s1 @ more"
      "int (n + length (filter (\<lambda>e. is_read (se_step e)) es)) + int (length (filter (\<lambda>e. is_read (se_step e)) more))
         \<le> max 0 (gc_max_read_steps C)" by auto
    then show ?case using es(1) by (intro exI [of _ "es @ more"]) (simp add: c)
  qed simp
  moreover have "alone k st" using assms(3) by (auto simp: alone_def)
  moreover have "map_of (gw_usages st) k = None"
    using assms(3) by (auto simp: map_of_eq_None_iff same_scope_def)
  then have "reads_of k st = 0" by (simp add: usage_of_def)
  ultimately show ?thesis using assms(4) by (metis int_ops(1) add_0 max.cobounded1 order_refl)
qed

theorem iteration_read_budget_witness:
  "\<exists>more. gw_sent (foldl (\<lambda>s (q, h). snd (run_step toy_runtime demo_config demo_executor q h s)) idle_gateway
       [(demo_request, None), (demo_request, None)]) = more
     \<and> length (filter (\<lambda>e. is_read (se_step e)) more) \<le> 1"
  using iteration_read_budget [of demo_config "[(demo_request, None), (demo_request, None)]" "(''r'', ''run'', 1)" idle_gateway _
      toy_runtime demo_executor, OF _ _ _ refl]
  by (simp add: demo_config_def idle_gateway_def demo_request_def usage_key_def str_or_empty_def)

text \<open>Only five iterations of a run are counted: when a sixth is charged, the oldest starts afresh, so a
  client that comes back to it has its whole budget again.\<close>

definition busy_gateway :: gw_state where
  "busy_gateway = idle_gateway\<lparr>gw_usages :=
     map (\<lambda>i. ((''r'', ''run'', i), \<lparr>us_reads = 6, us_searches = 0, us_bytes = 0\<rparr>)) [0, 1, 2, 3, 4]\<rparr>"

lemma old_iteration_renews_budget:
  "us_reads (usage_of (''r'', ''run'', 0) busy_gateway) = 6"
  "us_reads (usage_of (''r'', ''run'', 0) (snd (charge demo_config (''r'', ''run'', 5) ChargeSearch busy_gateway))) = 0"
  by code_simp+

end
