(* ===== verification/Capsule.thy ===== *)
theory Capsule
  imports Py_Value
begin

text \<open>
  The container of a step, \<open>services/executor/capsule.py\<close>: the arguments of \<open>docker run\<close> and the shell
  command that fills an empty workspace from the read-only copy of the repository.
\<close>

record capsule =
  ca_name :: string
  ca_image :: string
  ca_repo_host :: string
  ca_work_type :: string
  ca_work_host :: "string option"
  ca_env :: "(string \<times> string) list"
  ca_network :: string
  ca_mem_limit :: string

definition DOCKER_HEAD :: "string list" where
  "DOCKER_HEAD = [''docker'', ''run'', ''-d'', ''--name'']"

text \<open>The fixed restrictions of every container.\<close>

definition DOCKER_LIMITS :: "string \<Rightarrow> string list" where
  "DOCKER_LIMITS mem_limit =
     [''--user'', ''1000:1000'', ''--security-opt'', ''no-new-privileges:true'', ''--read-only'',
      ''--memory'', mem_limit, ''--cpus'', ''2'', ''--pids-limit'', ''256'', ''--cap-drop'', ''ALL'',
      ''-e'', ''HOME=/tmp'', ''-w'', ''/work/repo'']"

definition work_mount :: "capsule \<Rightarrow> string list res" where
  "work_mount c =
     (if ca_work_type c = ''tmpfs'' then Inr [''--tmpfs'', ''/work/repo:rw,exec,nosuid,nodev,size=512m'']
      else if ca_work_type c = ''bind'' then
        (case ca_work_host c of
           None \<Rightarrow> Inl ValueError
         | Some h \<Rightarrow> if h = [] then Inl ValueError else Inr [''-v'', h @ '':/work/repo:rw''])
      else Inl ValueError)"

definition docker_args :: "capsule \<Rightarrow> string list res" where
  "docker_args c =
     ebind (work_mount c) (\<lambda>work.
       Inr (DOCKER_HEAD @ [ca_name c, ''--network'', ca_network c] @ DOCKER_LIMITS (ca_mem_limit c)
            @ concat (map (\<lambda>(k, v). [''-e'', k @ ''='' @ v]) (ca_env c))
            @ [''-v'', ca_repo_host c @ '':/mnt/repo_ro:ro''] @ work
            @ [''--tmpfs'', ''/tmp:rw,exec,nosuid,nodev,size=256m'']))"

definition entrypoint_cmd :: "capsule \<Rightarrow> string \<Rightarrow> string list" where
  "entrypoint_cmd c user_cmd =
     [ca_image c, ''bash'', ''-c'',
      ''if [ -z '' @ [CHR 0x22] @ ''$(ls -A /work/repo)'' @ [CHR 0x22] @ '' ]; then ''
      @ ''  echo '' @ [CHR 0x27] @ ''Initializing Capsule...'' @ [CHR 0x27] @ ''; ''
      @ ''  cp -r /mnt/repo_ro/. /work/repo/; '' @ ''fi; '' @ ''exec '' @ user_cmd]"

end
