(* ===== verification/Shell_Words.thy ===== *)
theory Shell_Words
  imports Py_Text Py_Regex
begin

text \<open>
  How a command line is written and read. \<open>shlex_quote\<close> is the function of Python's standard library
  that the executor builds scripts with. \<open>shell_commands\<close> is the reading of such a line by a POSIX shell
  (tokens, quote removal) as far as no expansion is involved: the commands that the unquoted
  semicolons separate, each a list of words, and \<open>None\<close> as soon as a character occurs at a place where
  the shell would give it a meaning of its own.
\<close>

abbreviation sq :: char where "sq \<equiv> CHR 0x27"

abbreviation dq :: char where "dq \<equiv> CHR 0x22"

section \<open>Quoting\<close>

definition shell_safe :: "char \<Rightarrow> bool" where
  "shell_safe c \<longleftrightarrow> alnum_ascii c \<or> c \<in> set ''_@%+=:,./-''"

definition quote_body :: "string \<Rightarrow> string" where
  "quote_body s = concat (map (\<lambda>c. if c = sq then [sq, dq, sq, dq, sq] else [c]) s)"

definition shlex_quote :: "string \<Rightarrow> string" where
  "shlex_quote s =
     (if s = [] then [sq, sq]
      else if \<forall>c \<in> set s. shell_safe c then s
      else sq # quote_body s @ [sq])"

definition shell_line :: "string list \<Rightarrow> string" where
  "shell_line ws = join '' '' (map shlex_quote ws)"

section \<open>Reading\<close>

datatype quoting = Bare | InSingle | InDouble

abbreviation so_far :: "string option \<Rightarrow> string" where
  "so_far w \<equiv> (case w of None \<Rightarrow> [] | Some x \<Rightarrow> x)"

abbreviation closed :: "string list \<Rightarrow> string option \<Rightarrow> string list" where
  "closed ws w \<equiv> ws @ (case w of None \<Rightarrow> [] | Some x \<Rightarrow> [x])"

text \<open>The arguments are the words of the current command, the word being read (\<open>None\<close> between words)
  and the rest of the line.\<close>

fun shell_read :: "quoting \<Rightarrow> string list \<Rightarrow> string option \<Rightarrow> string \<Rightarrow> string list list option" where
  "shell_read Bare ws w [] = Some [closed ws w]"
| "shell_read Bare ws w (c # cs) =
     (if c = sq then shell_read InSingle ws (Some (so_far w)) cs
      else if c = dq then shell_read InDouble ws (Some (so_far w)) cs
      else if c = CHR '' '' then shell_read Bare (closed ws w) None cs
      else if c = CHR '';'' then map_option (\<lambda>cmds. closed ws w # cmds) (shell_read Bare [] None cs)
      else if shell_safe c then shell_read Bare ws (Some (so_far w @ [c])) cs
      else None)"
| "shell_read InSingle ws w [] = None"
| "shell_read InSingle ws w (c # cs) =
     (if c = sq then shell_read Bare ws w cs else shell_read InSingle ws (Some (so_far w @ [c])) cs)"
| "shell_read InDouble ws w [] = None"
| "shell_read InDouble ws w (c # cs) =
     (if c = dq then shell_read Bare ws w cs
      else if c \<in> {CHR ''$'', CHR ''`'', backslash, CHR ''!''} then None
      else shell_read InDouble ws (Some (so_far w @ [c])) cs)"

definition shell_commands :: "string \<Rightarrow> string list list option" where
  "shell_commands line = shell_read Bare [] None line"

section \<open>A quoted word is read back\<close>

lemma safe_not_special:
  "shell_safe c \<Longrightarrow> c \<noteq> sq \<and> c \<noteq> dq \<and> c \<noteq> CHR '' '' \<and> c \<noteq> CHR '';''"
  by (auto simp: shell_safe_def alnum_ascii_def code_def)

lemma read_safe:
  assumes "\<forall>c \<in> set s. shell_safe c" "s \<noteq> [] \<or> w \<noteq> None"
  shows "shell_read Bare ws w (s @ rest) = shell_read Bare ws (Some (so_far w @ s)) rest"
  using assms
proof (induction s arbitrary: w)
  case (Cons c s)
  then have "shell_read Bare ws w ((c # s) @ rest) = shell_read Bare ws (Some (so_far w @ [c])) (s @ rest)"
    using safe_not_special [of c] by auto
  also have "\<dots> = shell_read Bare ws (Some (so_far w @ c # s)) rest"
    using Cons.IH [of "Some (so_far w @ [c])"] Cons.prems by simp
  finally show ?case .
qed auto

lemma read_quoted:
  "shell_read InSingle ws (Some v) (quote_body s @ sq # rest) = shell_read Bare ws (Some (v @ s)) rest"
proof (induction s arbitrary: v)
  case Nil
  then show ?case by (simp add: quote_body_def)
next
  case (Cons c s)
  have body: "quote_body (c # s) = (if c = sq then [sq, dq, sq, dq, sq] else [c]) @ quote_body s"
    by (simp add: quote_body_def)
  show ?case unfolding body using Cons [of "v @ [c]"] by (cases "c = sq") simp_all
qed

lemma read_shlex_quote:
  "shell_read Bare ws w (shlex_quote s @ rest) = shell_read Bare ws (Some (so_far w @ s)) rest"
proof -
  consider "s = []" | "s \<noteq> []" "\<forall>c \<in> set s. shell_safe c" | "s \<noteq> []" "\<not> (\<forall>c \<in> set s. shell_safe c)" by blast
  then show ?thesis
  proof cases
    case 1
    then show ?thesis by (simp add: shlex_quote_def)
  next
    case 2
    then show ?thesis using read_safe [of s w ws rest] by (simp add: shlex_quote_def)
  next
    case 3
    then have "shlex_quote s = sq # quote_body s @ [sq]" by (auto simp: shlex_quote_def)
    then show ?thesis using read_quoted [of ws "so_far w" s rest] by simp
  qed
qed

lemma read_shell_line:
  "shell_read Bare ws None (shell_line xs) = Some [ws @ xs]"
proof (induction xs arbitrary: ws)
  case Nil
  then show ?case by (simp add: shell_line_def)
next
  case (Cons s xs)
  show ?case
  proof (cases xs)
    case Nil
    then show ?thesis using read_shlex_quote [of ws None s "[]"] by (simp add: shell_line_def)
  next
    case more: (Cons t zs)
    then have "shell_line (s # xs) = shlex_quote s @ '' '' @ shell_line xs" by (simp add: shell_line_def)
    then have "shell_read Bare ws None (shell_line (s # xs)) = shell_read Bare (ws @ [s]) None (shell_line xs)"
      using read_shlex_quote [of ws None s] by simp
    then show ?thesis using Cons.IH [of "ws @ [s]"] by simp
  qed
qed

text \<open>The command line that is written for a list of words is read as exactly this one command.\<close>

lemma shell_line_read: "shell_commands (shell_line ws) = Some [ws]"
  by (simp add: shell_commands_def read_shell_line)

end
