(* ===== verification/Executor_Scripts.thy ===== *)
theory Executor_Scripts
  imports Shell_Words
begin

text \<open>
  The scripts that the executor writes, \<open>services/executor/app.py\<close>: the shell scripts that run in the
  container and the Python programs that these call, with the places where a value of the step is
  inserted as arguments. A text is the list of its lines.
\<close>

definition unlines :: "string list \<Rightarrow> string" where
  "unlines ls = concat (map (\<lambda>l. l @ [CHR 0x0A]) ls)"

section \<open>Programs that read the repository\<close>

definition COLD_SEARCH_PY :: "string" where
  "COLD_SEARCH_PY = unlines
     [''import os, re, pathlib, json, sys'',
      ''try:'',
      ''    pat = open('/tmp/rfsn_data/pattern.txt', 'r').read().strip()'',
      ''except Exception:'',
      ''    print('[]'); sys.exit(0)'',
      ''try:'',
      ''    rx = re.compile(pat, re.MULTILINE)'',
      ''except re.error as e:'',
      ''    print(json.dumps({'' @ [CHR 0x22] @ ''error'' @ [CHR 0x22] @ '': f'' @ [CHR 0x22] @ ''invalid regex: {e}'' @ [CHR 0x22] @ ''})); sys.exit(1)'',
      ''root = pathlib.Path('.')'',
      ''EXTS = {'.py', '.js', '.ts', '.jsx', '.tsx','',
      ''        '.java', '.rs', '.go', '.rb', '.c','',
      ''        '.cpp', '.h', '.hpp', '.cs', '.swift','',
      ''        '.kt', '.scala', '.toml', '.yaml','',
      ''        '.yml', '.json', '.cfg', '.ini','',
      ''        '.md', '.rst', '.txt', '.sh'}'',
      ''SKIP = {'.git', '__pycache__', 'node_modules','',
      ''        '.tox', '.mypy_cache', '.eggs','',
      ''        'dist', 'build', '.venv', 'venv'}'',
      ''# Config pre-index: always scan root configs'',
      ''CONFIG_NAMES = {'setup.py', 'setup.cfg','',
      ''    'pyproject.toml', 'Makefile', 'Dockerfile','',
      ''    'tox.ini', 'pytest.ini', '.flake8','',
      ''    'Cargo.toml', 'go.mod', 'package.json','',
      ''    'tsconfig.json', 'Gemfile', 'pom.xml','',
      ''    'CMakeLists.txt', 'Pipfile','',
      ''    'requirements.txt', 'requirements.in','',
      ''    'MANIFEST.in', 'conftest.py'}'',
      ''out = []'',
      ''# Pre-index: check root configs first'',
      ''for cn in sorted(CONFIG_NAMES):'',
      ''    cp = root / cn'',
      ''    if not cp.is_file():'',
      ''        continue'',
      ''    try:'',
      ''        txt = cp.read_text(encoding='utf-8', errors='replace')'',
      ''    except Exception:'',
      ''        continue'',
      ''    if rx.search(txt):'',
      ''        out.append(str(cp))'',
      ''for p in root.rglob('*'):'',
      ''    if any(s in p.parts for s in SKIP):'',
      ''        continue'',
      ''    if not p.is_file():'',
      ''        continue'',
      ''    if p.suffix not in EXTS:'',
      ''        continue'',
      ''    if str(p) in out:'',
      ''        continue'',
      ''    try:'',
      ''        txt = p.read_text(encoding='utf-8', errors='replace')'',
      ''    except Exception:'',
      ''        continue'',
      ''    if rx.search(txt):'',
      ''        out.append(str(p))'',
      ''    if len(out) >= 200:'',
      ''        break'',
      ''print(json.dumps(out[:200]))'']"

definition COLD_READ_PY :: "string" where
  "COLD_READ_PY = unlines
     [''import pathlib, sys, json'',
      ''cfg = json.loads(open('/tmp/rfsn_data/config.json').read())'',
      ''p = pathlib.Path(cfg['path'])'',
      ''if not p.exists() or not p.is_file():'',
      ''    print('' @ [CHR 0x27, CHR 0x27] @ '', end='' @ [CHR 0x27, CHR 0x27] @ ''); sys.exit(0)'',
      ''rp = p.resolve()'',
      ''if not str(rp).startswith(str(pathlib.Path('.').resolve())):'',
      ''    print('path traversal blocked', file=sys.stderr); sys.exit(1)'',
      ''lines = p.read_text(encoding='utf-8', errors='replace').splitlines()'',
      ''s = cfg['start'] - 1'',
      ''e = cfg['end']'',
      ''chunk = lines[s:e]'',
      ''for i, ln in enumerate(chunk, start=cfg['start']):'',
      ''    print(f'[L{i}] {ln}')'']"

definition SEARCH_PY :: "string" where
  "SEARCH_PY = unlines
     [''import os, re, pathlib, json, sys'',
      ''try:'',
      ''    pat = open('/tmp/rfsn_data/pattern.txt', 'r').read().strip()'',
      ''except Exception:'',
      ''    print('[]'); sys.exit(0)'',
      ''try:'',
      ''    rx = re.compile(pat, re.MULTILINE)'',
      ''except re.error as e:'',
      ''    print(json.dumps({'' @ [CHR 0x22] @ ''error'' @ [CHR 0x22] @ '': f'' @ [CHR 0x22] @ ''invalid regex: {e}'' @ [CHR 0x22] @ ''})); sys.exit(1)'',
      ''root = pathlib.Path('.')'',
      ''EXTS = {'.py', '.js', '.ts', '.jsx', '.tsx','',
      ''        '.java', '.rs', '.go', '.rb', '.c','',
      ''        '.cpp', '.h', '.hpp', '.cs', '.swift','',
      ''        '.kt', '.scala', '.toml', '.yaml','',
      ''        '.yml', '.json', '.cfg', '.ini','',
      ''        '.md', '.rst', '.txt', '.sh'}'',
      ''SKIP = {'.git', '__pycache__', 'node_modules','',
      ''        '.tox', '.mypy_cache', '.eggs','',
      ''        'dist', 'build', '.venv', 'venv'}'',
      ''CONFIG_NAMES = {'setup.py', 'setup.cfg','',
      ''    'pyproject.toml', 'Makefile', 'Dockerfile','',
      ''    'tox.ini', 'pytest.ini', '.flake8','',
      ''    'Cargo.toml', 'go.mod', 'package.json','',
      ''    'tsconfig.json', 'Gemfile', 'pom.xml','',
      ''    'CMakeLists.txt', 'Pipfile','',
      ''    'requirements.txt', 'requirements.in','',
      ''    'MANIFEST.in', 'conftest.py'}'',
      ''out = []'',
      ''for cn in sorted(CONFIG_NAMES):'',
      ''    cp = root / cn'',
      ''    if not cp.is_file():'',
      ''        continue'',
      ''    try:'',
      ''        txt = cp.read_text(encoding='utf-8', errors='replace')'',
      ''    except Exception:'',
      ''        continue'',
      ''    if rx.search(txt):'',
      ''        out.append(str(cp))'',
      ''for p in root.rglob('*'):'',
      ''    if any(s in p.parts for s in SKIP):'',
      ''        continue'',
      ''    if not p.is_file():'',
      ''        continue'',
      ''    if p.suffix not in EXTS:'',
      ''        continue'',
      ''    if str(p) in out:'',
      ''        continue'',
      ''    try:'',
      ''        txt = p.read_text(encoding='utf-8', errors='replace')'',
      ''    except Exception:'',
      ''        continue'',
      ''    if rx.search(txt):'',
      ''        out.append(str(p))'',
      ''    if len(out) >= 200:'',
      ''        break'',
      ''print(json.dumps(out[:200]))'']"

definition READ_PY :: "string" where
  "READ_PY = unlines
     [''import pathlib, sys, json'',
      ''cfg = json.loads(open('/tmp/rfsn_data/config.json').read())'',
      ''p = pathlib.Path(cfg['path'])'',
      ''if not p.exists() or not p.is_file():'',
      ''    print('' @ [CHR 0x27, CHR 0x27] @ '', end='' @ [CHR 0x27, CHR 0x27] @ ''); sys.exit(0)'',
      ''rp = p.resolve()'',
      ''if not str(rp).startswith(str(pathlib.Path('.').resolve())):'',
      ''    print('path traversal blocked', file=sys.stderr); sys.exit(1)'',
      ''lines = p.read_text(encoding='utf-8', errors='replace').splitlines()'',
      ''s = cfg['start'] - 1'',
      ''e = cfg['end']'',
      ''chunk = lines[s:e]'',
      ''for i, ln in enumerate(chunk, start=cfg['start']):'',
      ''    print(f'[L{i}] {ln}')'']"

definition READ_FILE_PY :: "string" where
  "READ_FILE_PY = unlines
     [''import hashlib, json, pathlib, sys'',
      ''cfg = json.loads(open('/tmp/rfsn_data/config.json').read())'',
      ''p = pathlib.Path(cfg['path'])'',
      ''if not p.exists() or not p.is_file():'',
      ''  print(json.dumps({'error': 'file not found'})); sys.exit(1)'',
      ''rp = p.resolve()'',
      ''root = pathlib.Path('.').resolve()'',
      ''if not str(rp).startswith(str(root)):'',
      ''  print(json.dumps({'error': 'path traversal blocked'})); sys.exit(1)'',
      ''data = p.read_bytes()'',
      ''if len(data) > int(cfg.get('max_bytes', 65536)):'',
      ''  print(json.dumps({'error': 'file too large'})); sys.exit(1)'',
      ''sha = hashlib.sha256(data).hexdigest()'',
      ''txt = data.decode('utf-8', errors='replace')'',
      ''print(json.dumps({'path': cfg['path'], 'sha256': sha, 'content': txt}))'']"

definition DETECT_PROJECT_PY :: "string" where
  "DETECT_PROJECT_PY = unlines
     [''import json, os'',
      ''found = {}'',
      ''cand = ['',
      '' 'pyproject.toml','requirements.txt','setup.cfg','setup.py','',
      '' 'package.json','pnpm-lock.yaml','yarn.lock','package-lock.json','',
      '' 'go.mod','Cargo.toml','Makefile','.github/workflows'' @ [CHR 0x27],
      '']'',
      ''for rel in cand:'',
      ''  if os.path.exists(rel):'',
      ''    found[rel] = True'',
      ''profile = {'',
      '' 'has_python': any(k in found for k in ['pyproject.toml','requirements.txt','setup.py','setup.cfg']),'',
      '' 'has_node': any(k in found for k in ['package.json','pnpm-lock.yaml','yarn.lock','package-lock.json']),'',
      '' 'has_go': 'go.mod' in found,'',
      '' 'has_rust': 'Cargo.toml' in found,'',
      '' 'has_make': 'Makefile' in found,'',
      '' 'has_github_actions': '.github/workflows' in found,'',
      '' 'found': sorted(list(found.keys())),'',
      ''}'',
      ''print(json.dumps({'profile': profile}))'']"

definition DETECT_WORKDIRS_PY :: "string" where
  "DETECT_WORKDIRS_PY = unlines
     [''import json, os'',
      ''from collections import deque'',
      ''cfg = json.loads(open('/tmp/rfsn_data/config.json').read())'',
      ''max_depth = int(cfg.get('max_depth', 4))'',
      ''max_workdirs = int(cfg.get('max_workdirs', 24))'',
      ''markers = ['pyproject.toml','requirements.txt','setup.py','setup.cfg','package.json','go.mod','Cargo.toml','Makefile']'',
      ''skip = {'.git','.venv','venv','__pycache__','node_modules','dist','build','.ruff_cache','.pytest_cache'}'',
      ''q = deque([('.', 0)])'',
      ''out = []'',
      ''while q and len(out) < max_workdirs:'',
      ''  rel, depth = q.popleft()'',
      ''  abs_dir = os.path.abspath(rel)'',
      ''  try:'',
      ''    entries = list(os.scandir(abs_dir))'',
      ''  except Exception:'',
      ''    continue'',
      ''  found = []'',
      ''  for m in markers:'',
      ''    if os.path.exists(os.path.join(abs_dir, m)):'',
      ''      found.append(m)'',
      ''  if found:'',
      ''    out.append({'rel': '.' if rel in ('' @ [CHR 0x27, CHR 0x27] @ '', '.') else rel, 'markers': sorted(found)})'',
      ''  if depth >= max_depth:'',
      ''    continue'',
      ''  for e in entries:'',
      ''    if not e.is_dir(follow_symlinks=False):'',
      ''      continue'',
      ''    if e.name in skip:'',
      ''      continue'',
      ''    child = e.name if rel in ('' @ [CHR 0x27, CHR 0x27] @ '', '.') else f'{rel}/{e.name}'' @ [CHR 0x27],
      ''    q.append((child, depth + 1))'',
      ''workdirs = []'',
      ''for i, item in enumerate(out):'',
      ''  workdirs.append({'id': f'workdir_{i}', 'rel': item['rel'], 'markers': item['markers']})'',
      ''print(json.dumps({'workdirs': workdirs}))'']"

definition MAP_PY :: "string \<Rightarrow> string \<Rightarrow> string \<Rightarrow> string" where
  "MAP_PY lib target focus = unlines
     [''import sys, os, ast, json'',
      lib,
      [],
      ''tgt = '' @ target,
      ''foc = '' @ focus,
      ''try:'',
      ''    # Walk if target is dir, else single file'',
      ''    if os.path.isdir(tgt):'',
      ''        # Simple walk and map specialized for prompt usage?'',
      ''        # The instruction says 'generate_repo_map(filepath)'' @ [CHR 0x27],
      ''        # Master plan says 'skeleton of target directory'.'',
      ''        # Let's assume input is a list of files or a specific file for now.'',
      ''        # For directory, maybe we map all .py files?'',
      ''        out = '' @ [CHR 0x27, CHR 0x27],
      ''        for root, dirs, files in os.walk(tgt):'',
      ''            for f in files:'',
      ''                if f.endswith('.py'):'',
      ''                    fp = os.path.join(root, f)'',
      ''                    out += f'--- {fp} ---'' @ [CHR 0x5C] @ ''n'' @ [CHR 0x27],
      ''                    out += generate_repo_map(fp, focus_nodes=foc) + '' @ [CHR 0x27, CHR 0x5C] @ ''n'' @ [CHR 0x5C] @ ''n'' @ [CHR 0x27],
      ''        print(out)'',
      ''    else:'',
      ''        print(generate_repo_map(tgt, focus_nodes=foc))'',
      ''except Exception as e:'',
      ''    print(f'Error generating map: {e}')'']"

definition SEMANTIC_PATCH_PY :: "string \<Rightarrow> string \<Rightarrow> string" where
  "SEMANTIC_PATCH_PY lib target = unlines
     [''import sys, os, re'',
      lib,
      [],
      ''tgt = '' @ target,
      ''patch_txt = open('/tmp/rfsn_data/patch.txt', 'r').read()'',
      [],
      ''if not os.path.exists(tgt):'',
      ''    print(f'Error: Target file {tgt} not found.')'',
      ''    sys.exit(1)'',
      [],
      ''try:'',
      ''    with open(tgt, 'r', encoding='utf-8') as f:'',
      ''        content = f.read()'',
      ''    new_content = apply_semantic_patch(content, patch_txt)'',
      ''    with open(tgt, 'w', encoding='utf-8') as f:'',
      ''        f.write(new_content)'',
      ''    print('SUCCESS: Semantic patch applied.')'',
      ''except PatchConflictError as e:'',
      ''    print(f'CONFLICT: {e}')'',
      ''    sys.exit(1)'',
      ''except Exception as e:'',
      ''    print(f'ERROR: {e}')'',
      ''    sys.exit(1)'']"

section \<open>Shell scripts\<close>

text \<open>The script that calls one of the programs.\<close>

definition python_script :: "string \<Rightarrow> string" where
  "python_script program = unlines
     [''#!/bin/bash'',
      ''set -euo pipefail'',
      ''cd /work/repo'',
      ''python3 '' @ program]"

definition cold_deps_script :: "string \<Rightarrow> string \<Rightarrow> string \<Rightarrow> string \<Rightarrow> string \<Rightarrow> string" where
  "cold_deps_script manifest rh ob cache_dir venv_mode = unlines
     [''#!/bin/bash'',
      ''set -euo pipefail'',
      ''cd /work/repo'',
      ''MFST='' @ shlex_quote manifest,
      ''if [ ! -f $MFST ]; then'',
      ''  echo '' @ [CHR 0x22] @ ''Missing manifest: '' @ manifest @ [CHR 0x22] @ ''; exit 31'',
      ''fi'',
      ''if [ '' @ rh @ '' -eq 1 ]; then'',
      ''  if ! grep -q -- '' @ [CHR 0x22] @ ''--hash='' @ [CHR 0x22] @ '' '' @ shlex_quote manifest @ ''; then'',
      ''    echo '' @ [CHR 0x22] @ ''Policy: requirements.txt must include --hash entries'' @ [CHR 0x22] @ ''; exit 33'',
      ''  fi'',
      ''fi'',
      ''python -m venv /work/venv'',
      ''. /work/venv/bin/activate'',
      ''python -m pip install --upgrade pip'',
      ''BIN_FLAG='' @ [CHR 0x22, CHR 0x22],
      ''if [ '' @ ob @ '' -eq 1 ]; then BIN_FLAG='' @ [CHR 0x22] @ ''--only-binary=:all:'' @ [CHR 0x22] @ ''; fi'',
      ''python -m pip install --require-hashes $BIN_FLAG '' @ [CHR 0x5C],
      ''  --cache-dir '' @ shlex_quote cache_dir @ '' '' @ [CHR 0x5C],
      ''  -r '' @ shlex_quote manifest,
      ''python -c '' @ [CHR 0x22] @ ''import sys; print('deps_ok', sys.version)'' @ [CHR 0x22],
      ''# Capture dep state hash for replay integrity verification.'',
      ''pip freeze | sort | sha256sum | awk '{print $1}' > /work/artifacts/dep_hash.sha256'',
      ''# Write deps_state.json for replay bundle.'',
      ''PYVER=$(python --version 2>&1)'',
      ''SPHASH=$(find /work/venv/lib -type f | sort | xargs -I{} sh -c 'echo '' @ [CHR 0x22] @ ''{}:$(stat -f%z {} 2>/dev/null || stat -c%s {} 2>/dev/null)'' @ [CHR 0x22, CHR 0x27] @ '' | sha256sum | awk '{print $1}')'',
      ''python -c '' @ [CHR 0x22],
      ''import json, os'',
      ''state = {'',
      ''    'venv_mode': '' @ [CHR 0x27] @ venv_mode @ [CHR 0x27] @ '','',
      ''    'python_version': '${PYVER}','',
      ''    'site_packages_hash': '${SPHASH}','',
      ''    'wheel_cache_path': '' @ [CHR 0x27] @ cache_dir @ [CHR 0x27] @ '','',
      ''    'venv_path': '/work/venv','',
      ''}'',
      ''with open('/work/artifacts/deps_state.json', 'w') as f:'',
      ''    json.dump(state, f, indent=2, sort_keys=True)'',
      [CHR 0x22]]"

definition deps_script :: "string \<Rightarrow> string \<Rightarrow> string \<Rightarrow> string \<Rightarrow> string" where
  "deps_script manifest rh ob cache_dir = unlines
     [''#!/bin/bash'',
      ''set -euo pipefail'',
      ''cd /work/repo'',
      ''MFST='' @ shlex_quote manifest,
      ''if [ ! -f $MFST ]; then'',
      ''  echo '' @ [CHR 0x22] @ ''Missing manifest: '' @ manifest @ [CHR 0x22],
      ''  exit 31'',
      ''fi'',
      ''if [ '' @ rh @ '' -eq 1 ]; then'',
      ''  if ! grep -q -- '' @ [CHR 0x22] @ ''--hash='' @ [CHR 0x22] @ '' '' @ shlex_quote manifest @ ''; then'',
      ''    echo '' @ [CHR 0x22] @ ''Policy: requirements.txt must include --hash entries'' @ [CHR 0x22],
      ''    exit 33'',
      ''  fi'',
      ''fi'',
      ''python -m venv /work/venv'',
      ''. /work/venv/bin/activate'',
      ''python -m pip install --upgrade pip'',
      ''BIN_FLAG='' @ [CHR 0x22, CHR 0x22],
      ''if [ '' @ ob @ '' -eq 1 ]; then BIN_FLAG='' @ [CHR 0x22] @ ''--only-binary=:all:'' @ [CHR 0x22] @ ''; fi'',
      ''python -m pip install --require-hashes $BIN_FLAG --cache-dir '' @ shlex_quote cache_dir @ '' -r '' @ shlex_quote manifest,
      ''python -c '' @ [CHR 0x22] @ ''import sys; print('deps_ok', sys.version)'' @ [CHR 0x22]]"

definition COLD_PATCH_SCRIPT :: "string" where
  "COLD_PATCH_SCRIPT = unlines
     [''#!/bin/bash'',
      ''set -euo pipefail'',
      ''cd /work/repo'',
      ''git init --quiet 2>/dev/null || true'',
      ''git add -A 2>/dev/null || true'',
      ''git apply --whitespace=nowarn /tmp/rfsn_data/patch.diff'',
      ''echo '' @ [CHR 0x22] @ ''---PATCH_STAT_START---'' @ [CHR 0x22],
      ''git diff --stat 2>/dev/null || true'',
      ''git diff --numstat 2>/dev/null || true'',
      ''echo '' @ [CHR 0x22] @ ''---PATCH_STAT_END---'' @ [CHR 0x22],
      ''echo '' @ [CHR 0x22] @ ''patch applied successfully'' @ [CHR 0x22]]"

definition cold_tests_script :: "string \<Rightarrow> string" where
  "cold_tests_script cmd_str = unlines
     [''#!/bin/bash'',
      ''set -euo pipefail'',
      ''cd /work'',
      ''rm -rf /work/scratch_repo'',
      ''mkdir -p /work/scratch_repo'',
      ''cp -a /work/repo/. /work/scratch_repo/'',
      ''# git-init-once: ensure mutation detection works even pre-patch'',
      ''if [ ! -d /work/repo/.git ]; then'',
      ''  (cd /work/repo && git init -q && git add -A && git commit -qm '' @ [CHR 0x22] @ ''baseline'' @ [CHR 0x22] @ '' --allow-empty) || true'',
      ''fi'',
      ''BEFORE_TRACKED='' @ [CHR 0x22] @ ''$(cd /work/repo && git status --porcelain 2>/dev/null || true)'' @ [CHR 0x22],
      ''if [ ! -f /work/venv/bin/activate ]; then'',
      ''  echo '' @ [CHR 0x22] @ ''Missing venv; ensure_deps first'' @ [CHR 0x22],
      ''  exit 39'',
      ''fi'',
      cmd_str,
      ''AFTER_TRACKED='' @ [CHR 0x22] @ ''$(cd /work/repo && git status --porcelain 2>/dev/null || true)'' @ [CHR 0x22],
      ''if [ '' @ [CHR 0x22] @ ''$AFTER_TRACKED'' @ [CHR 0x22] @ '' != '' @ [CHR 0x22] @ ''$BEFORE_TRACKED'' @ [CHR 0x22] @ '' ]; then'',
      ''  echo '' @ [CHR 0x22] @ ''tracked files mutated during tests'' @ [CHR 0x22],
      ''  exit 42'',
      ''fi'']"

definition UNKNOWN_TEMPLATE_SCRIPT :: "string" where
  "UNKNOWN_TEMPLATE_SCRIPT = unlines
     [''#!/bin/bash'',
      ''echo 'unknown template'' @ [CHR 0x27],
      ''exit 1'']"

definition template_script :: "string \<Rightarrow> string \<Rightarrow> string" where
  "template_script workdir cmd = unlines
     [''#!/bin/bash'',
      ''set -euo pipefail'',
      ''cd /work/repo'',
      ''if [ -f /work/venv/bin/activate ]; then'',
      ''  . /work/venv/bin/activate'',
      ''fi'',
      ''cd '' @ shlex_quote workdir,
      cmd]"

definition PATCH_SCRIPT :: "string" where
  "PATCH_SCRIPT = unlines
     [''#!/bin/bash'',
      ''set -euo pipefail'',
      ''cd /work/repo'',
      ''git init --quiet 2>/dev/null || true'',
      ''git add -A 2>/dev/null || true'',
      ''git apply --whitespace=nowarn /tmp/rfsn_data/patch.diff'',
      ''echo '' @ [CHR 0x22] @ ''patch applied successfully'' @ [CHR 0x22]]"

definition unknown_tests_script :: "string \<Rightarrow> string" where
  "unknown_tests_script template_id = unlines
     [''#!/bin/bash'',
      ''echo 'unknown template_id: '' @ template_id @ [CHR 0x27],
      ''exit 1'']"

definition tests_script :: "string \<Rightarrow> string" where
  "tests_script cmd_str = unlines
     [''#!/bin/bash'',
      ''set -euo pipefail'',
      ''cd /work'',
      ''rm -rf /work/scratch_repo'',
      ''mkdir -p /work/scratch_repo'',
      ''cp -a /work/repo/. /work/scratch_repo/'',
      ''# git-init-once: ensure mutation detection works even pre-patch'',
      ''if [ ! -d /work/repo/.git ]; then'',
      ''  (cd /work/repo && git init -q && git add -A && git commit -qm '' @ [CHR 0x22] @ ''baseline'' @ [CHR 0x22] @ '' --allow-empty) || true'',
      ''fi'',
      ''BEFORE_TRACKED='' @ [CHR 0x22] @ ''$(cd /work/repo && git status --porcelain 2>/dev/null || true)'' @ [CHR 0x22],
      ''if [ ! -f /work/venv/bin/activate ]; then'',
      ''  echo '' @ [CHR 0x22] @ ''Missing venv; ensure_deps first'' @ [CHR 0x22],
      ''  exit 39'',
      ''fi'',
      cmd_str,
      ''AFTER_TRACKED='' @ [CHR 0x22] @ ''$(cd /work/repo && git status --porcelain 2>/dev/null || true)'' @ [CHR 0x22],
      ''if [ '' @ [CHR 0x22] @ ''$AFTER_TRACKED'' @ [CHR 0x22] @ '' != '' @ [CHR 0x22] @ ''$BEFORE_TRACKED'' @ [CHR 0x22] @ '' ]; then'',
      ''  echo '' @ [CHR 0x22] @ ''tracked files mutated during tests'' @ [CHR 0x22],
      ''  exit 42'',
      ''fi'']"

definition unknown_step_script :: "string \<Rightarrow> string" where
  "unknown_step_script step_type = unlines
     [''#!/bin/bash'',
      ''echo 'unknown step type: '' @ step_type @ [CHR 0x27],
      ''exit 1'']"

definition STAT_SCRIPT :: "string" where
  "STAT_SCRIPT = unlines
     [''#!/bin/bash'',
      ''cd /work/repo'',
      ''git diff --numstat 2>/dev/null || true'']"

end
