(* ===== verification/Executor_Base.thy ===== *)
theory Executor_Base
  imports Http Capsule Executor_Scripts Py_Path Patch_Gate
begin

text \<open>
  The executor service, \<open>services/executor/app.py\<close>: configuration and state, the helpers of its
  handlers, the directories of a run and the ephemeral container in which a step runs.

  The operating system is a parameter: what a started process does, the file system and the clock are
  functions of a world \<open>'w\<close>. The state holds that world, the temporary files that exist, the argument
  lists of the processes started so far and the pool of warm sandboxes.
\<close>

section \<open>Configuration and state\<close>

record cmd_template =
  ct_cmd :: "string list"
  ct_target_regex :: string
  ct_max_seconds :: int

record exec_config =
  ec_rt :: runtime
  ec_use_docker :: bool
  ec_local_allowed :: bool
  ec_image :: string
  ec_host_data :: string
  ec_venv_mode :: string
  ec_deps :: pydict
  ec_cmd_templates :: "(string \<times> cmd_template) list"
  ec_safe_templates :: pydict
  ec_max_read_file :: int
  ec_max_workdirs :: int
  ec_network_min_tier :: int
  ec_max_log :: int
  ec_max_artifact_dir :: int
  ec_max_artifact_delta :: int
  ec_patch_gate :: "gate_policy option"
  ec_pool_enabled :: bool
  ec_pool_max_log :: int
  ec_idle_ttl :: rat
  ec_json :: "pyval \<Rightarrow> string"
  ec_fullmatch :: "string \<Rightarrow> string \<Rightarrow> bool"
  ec_library :: "string \<Rightarrow> string"

text \<open>\<open>ec_json\<close> is \<open>json.dumps\<close> with its defaults, \<open>ec_fullmatch\<close> is \<open>re.fullmatch\<close> on the patterns of the
  template policy, \<open>ec_library\<close> the text of a file that is put into a script.\<close>

text \<open>How a process ends: with an exit status and its output, at the timeout with the output so far,
  because its program does not exist, or with another exception.\<close>

datatype proc_end = Exited int string | TimedOut string | NotFound | Crashed string

text \<open>What the reading loop of a warm sandbox meets: the deadline, the end of the process with the rest of
  its output, a chunk of output, a tenth of a second without output, the end of the output, an exception.\<close>

datatype stream_event = Overdue | Ended int string | Chunk string | Quiet | Eof | Broken string

record 'w exec_world =
  ew_process :: "(string \<times> string) list \<Rightarrow> string list \<Rightarrow> int \<Rightarrow> 'w \<Rightarrow> proc_end \<times> 'w"
  ew_stream :: "(string \<times> string) list \<Rightarrow> string list \<Rightarrow> 'w \<Rightarrow> stream_event list \<times> 'w"
  ew_temp_name :: "string \<Rightarrow> string list \<Rightarrow> string"
  ew_uuid :: "'w \<Rightarrow> string"
  ew_clock :: "'w \<Rightarrow> rat"
  ew_isdir :: "string \<Rightarrow> 'w \<Rightarrow> bool"
  ew_exists :: "string \<Rightarrow> 'w \<Rightarrow> bool"
  ew_file_sizes :: "string \<Rightarrow> 'w \<Rightarrow> int option list"
  ew_makedirs :: "string \<Rightarrow> 'w \<Rightarrow> 'w"
  ew_rmtree :: "string \<Rightarrow> 'w \<Rightarrow> 'w"

record sandbox =
  sb_container_id :: string
  sb_run_id :: string
  sb_image :: string
  sb_image_hash :: string
  sb_created_at :: rat
  sb_last_used_at :: rat
  sb_exec_count :: int

record 'w exec_state =
  es_world :: 'w
  es_tmp :: "(string \<times> string) list"
  es_procs :: "string list list"
  es_pool :: "(string \<times> sandbox) list"

type_synonym ('w, 'a) exe = "('w exec_state, 'a) handler_eff"

section \<open>Results of a step\<close>

record patch_meta =
  pm_files_touched :: int
  pm_lines_added :: int
  pm_lines_deleted :: int
  pm_changed_files :: "string list"

text \<open>The dictionary \<open>out\<close> of a run of the container. A missing entry is the default that \<open>_result\<close> uses.\<close>

record step_out =
  so_status :: int
  so_seconds :: rat
  so_logs :: string
  so_truncated :: bool
  so_network :: "string option"
  so_failure_kind :: "string option"
  so_bytes_before :: int
  so_bytes_after :: int
  so_bytes_delta :: int
  so_patch_meta :: "patch_meta option"

definition plain_out :: "int \<Rightarrow> rat \<Rightarrow> string \<Rightarrow> bool \<Rightarrow> string option \<Rightarrow> step_out" where
  "plain_out status seconds logs truncated net =
     \<lparr>so_status = status, so_seconds = seconds, so_logs = logs, so_truncated = truncated, so_network = net,
      so_failure_kind = None, so_bytes_before = 0, so_bytes_after = 0, so_bytes_delta = 0, so_patch_meta = None\<rparr>"

record step_result =
  xr_status :: int
  xr_seconds :: rat
  xr_logs :: string
  xr_logs_truncated :: bool
  xr_payload :: "string option"
  xr_failure_kind :: "string option"
  xr_command :: "string list option"
  xr_workdir :: string
  xr_network_mode :: string
  xr_allow_network :: bool
  xr_tier :: int
  xr_network_reason :: string
  xr_bytes_before :: int
  xr_bytes_after :: int
  xr_bytes_delta :: int

section \<open>Helpers\<close>

definition classify_failure :: "string \<Rightarrow> int \<Rightarrow> string option" where
  "classify_failure logs status =
     (let low = lower logs; has = (\<lambda>w. occurs_in w low)
      in if status = 0 then None
         else if has ''failed'' \<and> (has ''pytest'' \<or> has ''unittest'' \<or> has ''tests'') then Some ''tests_failed''
         else if has ''modulenotfounderror'' \<or> has ''no module named'' then Some ''import_error_missing_module''
         else if has ''missing venv; ensure_deps first'' then Some ''deps_install_failed''
         else if has ''resolutionimpossible'' \<or> has ''could not find a version'' then Some ''deps_install_failed''
         else if has ''.github/workflows'' \<or> has ''workflow'' \<and> has ''yaml'' then Some ''ci_config_invalid''
         else if has ''ci'' \<and> (has ''failed'' \<or> has ''error'') then Some ''ci_failed''
         else None)"

definition normalize_workdir :: "string \<Rightarrow> ('s, string) handler_eff" where
  "normalize_workdir rel =
     (let w = strip (if rel = [] then ''.'' else rel)
      in if w = [] then sret ''.''
         else if startswith w ''/'' \<or> startswith w ''~'' then http 403 ''invalid workdir''
         else if ''..'' \<in> set (split_char slash w) then http 403 ''invalid workdir''
         else sret w)"

definition coerce_int :: "pyval \<Rightarrow> int \<Rightarrow> int" where
  "coerce_int v d = (case py_int v of Inl e \<Rightarrow> d | Inr i \<Rightarrow> i)"

text \<open>The longest beginning of a text that fits into so many bytes of UTF-8.\<close>

fun take_bytes :: "int \<Rightarrow> string \<Rightarrow> string" where
  "take_bytes k [] = []"
| "take_bytes k (c # cs) =
     (let n = int (utf8_length [c]) in if n \<le> k then c # take_bytes (k - n) cs else [])"

definition truncate_text :: "string \<Rightarrow> int \<Rightarrow> string \<times> bool" where
  "truncate_text text max_bytes =
     (if max_bytes \<le> 0 \<or> int (utf8_length text) \<le> max_bytes then (text, False)
      else (take_bytes max_bytes text, True))"

text \<open>The sizes of the first 200000 files below a directory; a file whose size cannot be read counts
  towards the number of files only.\<close>

definition dir_size :: "'w exec_world \<Rightarrow> string \<Rightarrow> 'w \<Rightarrow> int" where
  "dir_size W path w =
     (if \<not> ew_isdir W path w then 0
      else sum_list (map (\<lambda>s. case s of None \<Rightarrow> 0 | Some n \<Rightarrow> n) (take 200000 (ew_file_sizes W path w))))"

definition apply_artifact_quota :: "exec_config \<Rightarrow> int \<Rightarrow> int \<Rightarrow> step_out \<Rightarrow> step_out" where
  "apply_artifact_quota C before_size after_size out0 =
     (let delta = max 0 (after_size - before_size);
          out = out0\<lparr>so_bytes_before := before_size, so_bytes_after := after_size, so_bytes_delta := delta\<rparr>;
          over = (\<lambda>what n limit. out\<lparr>so_status := 1, so_failure_kind := Some ''artifact_quota_exceeded'',
             so_logs := so_logs out @ [CHR 0x0A] @ ''[ARTIFACT_QUOTA] '' @ what @ '' exceeds max ('' @ int_str n
                        @ '' > '' @ int_str limit @ '')''\<rparr>)
      in if ec_max_artifact_dir C < after_size then over ''artifact dir'' after_size (ec_max_artifact_dir C)
         else if ec_max_artifact_delta C < delta then over ''step artifact growth'' delta (ec_max_artifact_delta C)
         else out)"

definition field :: "pydict \<Rightarrow> string \<Rightarrow> pyval" where
  "field step key = dget_or step key PNone"

definition require_network_tier :: "exec_config \<Rightarrow> pydict \<Rightarrow> ('s, unit) handler_eff" where
  "require_network_tier C step =
     refuse (\<not> truthy (field step ''_rfsn_allow_network'')
             \<or> coerce_int (field step ''_rfsn_tier'') 0 < ec_network_min_tier C)
       403 (''networked ensure_deps requires tier >= '' @ int_str (ec_network_min_tier C))"

text \<open>The words of an allow-listed command; every element must be a text that is not blank.\<close>

fun template_words :: "pyval list \<Rightarrow> string list option" where
  "template_words [] = Some []"
| "template_words (v # vs) =
     (case v of
        PStr s \<Rightarrow> if strip s = [] then None else map_option ((#) s) (template_words vs)
      | _ \<Rightarrow> None)"

definition safe_template :: "exec_config \<Rightarrow> string \<Rightarrow> http_error + string list" where
  "safe_template C template =
     (case dget (ec_safe_templates C) template of
        Some (PList vs) \<Rightarrow>
          (if vs = [] then Inl (HTTPException 403 (''unknown safe command template: '' @ template))
           else case template_words vs of
                  None \<Rightarrow> Inl (HTTPException 403 (''invalid template element in '' @ template))
                | Some ws \<Rightarrow> Inr ws)
      | _ \<Rightarrow> Inl (HTTPException 403 (''unknown safe command template: '' @ template)))"

text \<open>What the handler adds to the result of a step.\<close>

record step_note =
  sn_payload :: "string option"
  sn_command :: "string list option"
  sn_workdir :: string
  sn_network_mode :: string
  sn_allow_network :: bool
  sn_tier :: int
  sn_network_reason :: string

definition result_of_out :: "exec_config \<Rightarrow> step_out \<Rightarrow> step_note \<Rightarrow> step_result" where
  "result_of_out C out n =
     (case truncate_text (so_logs out) (ec_max_log C) of (logs, trunc) \<Rightarrow>
        \<lparr>xr_status = so_status out, xr_seconds = so_seconds out, xr_logs = logs,
         xr_logs_truncated = (so_truncated out \<or> trunc), xr_payload = sn_payload n,
         xr_failure_kind =
           (case so_failure_kind out of
              Some k \<Rightarrow> if k \<noteq> [] then Some k else classify_failure logs (so_status out)
            | None \<Rightarrow> classify_failure logs (so_status out)),
         xr_command = sn_command n, xr_workdir = (if sn_workdir n = [] then ''.'' else sn_workdir n),
         xr_network_mode = sn_network_mode n, xr_allow_network = sn_allow_network n, xr_tier = sn_tier n,
         xr_network_reason = sn_network_reason n, xr_bytes_before = so_bytes_before out,
         xr_bytes_after = so_bytes_after out, xr_bytes_delta = so_bytes_delta out\<rparr>)"

text \<open>The lines that \<open>git diff --numstat\<close> prints between the two marks: lines added, lines deleted, file.\<close>

definition numstat_line :: "patch_meta \<Rightarrow> string \<Rightarrow> patch_meta" where
  "numstat_line m line =
     (case split_char (CHR 9) line of
        [a, d, f] \<Rightarrow>
          (case (int_of_str a, int_of_str d) of
             (Some i, Some j) \<Rightarrow>
               m\<lparr>pm_lines_added := pm_lines_added m + i, pm_lines_deleted := pm_lines_deleted m + j,
                 pm_changed_files := pm_changed_files m @ [strip f]\<rparr>
           | _ \<Rightarrow> m)
      | _ \<Rightarrow> m)"

fun stat_lines :: "bool \<Rightarrow> patch_meta \<Rightarrow> string list \<Rightarrow> patch_meta" where
  "stat_lines inside m [] = m"
| "stat_lines inside m (l # ls) =
     (if occurs_in ''---PATCH_STAT_START---'' l then stat_lines True m ls
      else if occurs_in ''---PATCH_STAT_END---'' l then stat_lines False m ls
      else stat_lines inside (if inside then numstat_line m l else m) ls)"

definition parse_patch_stat :: "string \<Rightarrow> patch_meta" where
  "parse_patch_stat logs =
     (let m = stat_lines False
                \<lparr>pm_files_touched = 0, pm_lines_added = 0, pm_lines_deleted = 0, pm_changed_files = []\<rparr>
                (splitlines logs)
      in m\<lparr>pm_files_touched := int (length (pm_changed_files m))\<rparr>)"

section \<open>Directories of a run\<close>

definition id_char :: "char \<Rightarrow> bool" where
  "id_char c \<longleftrightarrow> alnum_ascii c \<or> c \<in> set ''_.-''"

definition SAFE_REPO_ID :: rx where
  "SAFE_REPO_ID = rseq [RBegin, rrange 1 128 (RSet id_char), REnd]"

definition validate_repo_id :: "string \<Rightarrow> ('s, unit) handler_eff" where
  "validate_repo_id repo_id =
     sbind (refuse (rx_match SAFE_REPO_ID repo_id = None) 400
              (''invalid repo_id: must match ^[A-Za-z0-9_.-]{1,128}$'')) (\<lambda>_.
     refuse (occurs_in ''..'' repo_id) 400 (''repo_id must not contain '' @ [CHR 0x27] @ ''..'' @ [CHR 0x27]))"

text \<open>\<open>re.sub(r"[^A-Za-z0-9_.-]", "_", run_id)[:128]\<close>.\<close>

definition safe_run :: "string \<Rightarrow> string" where
  "safe_run run_id = take 128 (map (\<lambda>c. if id_char c then c else CHR ''_'') run_id)"

record exec_paths =
  ep_repo :: string
  ep_artifacts :: string
  ep_venv :: string
  ep_wheels :: string

definition own_venv :: "exec_config \<Rightarrow> string \<Rightarrow> bool" where
  "own_venv C run_id \<longleftrightarrow> ec_venv_mode C = ''per_run'' \<and> run_id \<noteq> []"

text \<open>The directories inside the executor, and those that are mounted: under the host's data directory when
  containers are used.\<close>

definition local_paths :: "exec_config \<Rightarrow> string \<Rightarrow> string \<Rightarrow> exec_paths" where
  "local_paths C repo_id run_id =
     \<lparr>ep_repo = abspath ''/'' (''/data/repos/'' @ repo_id), ep_artifacts = abspath ''/'' (''/data/artifacts/'' @ repo_id),
      ep_venv = abspath ''/'' (if own_venv C run_id then ''/data/venv/'' @ repo_id @ ''/'' @ safe_run run_id
                               else ''/data/venv/'' @ repo_id),
      ep_wheels = abspath ''/'' (''/data/wheels/'' @ repo_id)\<rparr>"

definition host_paths :: "exec_config \<Rightarrow> string \<Rightarrow> string \<Rightarrow> exec_paths" where
  "host_paths C repo_id run_id =
     (let below = (\<lambda>d. path_join (path_join (ec_host_data C) d) repo_id)
      in \<lparr>ep_repo = below ''repos'', ep_artifacts = below ''artifacts'',
          ep_venv = (if own_venv C run_id then path_join (below ''venv'') (safe_run run_id) else below ''venv''),
          ep_wheels = below ''wheels''\<rparr>)"

definition upd_world :: "('w \<Rightarrow> 'w) \<Rightarrow> ('w, unit) exe" where
  "upd_world f = supdate (\<lambda>st. st\<lparr>es_world := f (es_world st)\<rparr>)"

definition exec_dirs :: "exec_config \<Rightarrow> 'w exec_world \<Rightarrow> string \<Rightarrow> string \<Rightarrow> ('w, exec_paths) exe" where
  "exec_dirs C W repo_id run_id =
     (let p = local_paths C repo_id run_id
      in sbind (validate_repo_id repo_id) (\<lambda>_.
         sbind (refuse (\<exists>d \<in> {ep_repo p, ep_artifacts p, ep_venv p, ep_wheels p}. \<not> startswith d ''/data/'')
                  400 ''path traversal detected'') (\<lambda>_.
         sbind (upd_world (ew_makedirs W (ep_artifacts p))) (\<lambda>_.
         sbind (upd_world (ew_makedirs W (ep_venv p))) (\<lambda>_.
         sbind (upd_world (ew_makedirs W (ep_wheels p))) (\<lambda>_.
         sbind (sread (\<lambda>st. ew_isdir W (ep_repo p) (es_world st))) (\<lambda>found.
         sbind (refuse (\<not> found) 404 (''repo not found at /data/repos/'' @ repo_id)) (\<lambda>_.
         sret (if ec_use_docker C then host_paths C repo_id run_id else p)))))))))"

section \<open>Temporary files and processes\<close>

definition write_data_file :: "'w exec_world \<Rightarrow> string \<Rightarrow> string \<Rightarrow> ('w, string) exe" where
  "write_data_file W content suffix_text =
     sbind (sread (\<lambda>st. ew_temp_name W suffix_text (map fst (es_tmp st)))) (\<lambda>name.
     sbind (supdate (\<lambda>st. st\<lparr>es_tmp := (name, content) # es_tmp st\<rparr>)) (\<lambda>_. sret name))"

definition unlink_all :: "string list \<Rightarrow> 'w exec_state \<Rightarrow> 'w exec_state" where
  "unlink_all names st = st\<lparr>es_tmp := filter (\<lambda>(n, c). n \<notin> set names) (es_tmp st)\<rparr>"

definition start_process :: "'w exec_world \<Rightarrow> string list \<Rightarrow> int \<Rightarrow> ('w, proc_end) exe" where
  "start_process W argv timeout = (\<lambda>st.
     case ew_process W (es_tmp st) argv timeout (es_world st) of (r, w) \<Rightarrow>
       (Inr r, st\<lparr>es_world := w, es_procs := es_procs st @ [argv]\<rparr>))"

definition clock_now :: "'w exec_world \<Rightarrow> ('w, rat) exe" where
  "clock_now W = sread (\<lambda>st. ew_clock W (es_world st))"

definition unix_lines :: "string \<Rightarrow> string" where
  "unix_lines s = replace_str [CHR 13, CHR 10] [CHR 10] s"

definition TIMEOUT_MARK :: string where
  "TIMEOUT_MARK = [CHR 10] @ ''[TIMEOUT]'' @ [CHR 10]"

text \<open>The output dictionary of a finished process and of one that was stopped at the timeout.\<close>

definition finished_out :: "exec_config \<Rightarrow> string \<Rightarrow> rat \<Rightarrow> int \<Rightarrow> string \<Rightarrow> step_out" where
  "finished_out C net seconds status text =
     (case truncate_text (unix_lines text) (ec_max_log C) of (logs, trunc) \<Rightarrow>
        plain_out status seconds logs trunc (Some net))"

definition stopped_out :: "exec_config \<Rightarrow> string \<Rightarrow> rat \<Rightarrow> string \<Rightarrow> step_out" where
  "stopped_out C net seconds text =
     (case truncate_text (text @ TIMEOUT_MARK) (ec_max_log C) of (logs, trunc) \<Rightarrow>
        plain_out 124 seconds (unix_lines logs) trunc (Some net))"

section \<open>Running without a container\<close>

text \<open>\<open>os.path.dirname\<close>.\<close>

definition dirname :: "string \<Rightarrow> string" where
  "dirname p =
     (let head = rev (dropWhile (\<lambda>c. c \<noteq> slash) (rev p))
      in if \<exists>c \<in> set head. c \<noteq> slash then rev (dropWhile (\<lambda>c. c = slash) (rev head)) else head)"

definition local_script :: "string \<Rightarrow> (string \<times> string) list \<Rightarrow> exec_paths \<Rightarrow> string" where
  "local_script script data p =
     (let t1 = foldl (\<lambda>t (src, dst). replace_str src (shlex_quote dst) t) script
                 [(''/work/repo'', ep_repo p), (''/work/artifacts'', ep_artifacts p),
                  (''/work/venv'', ep_venv p), (''/work/wheels'', ep_wheels p)];
          t2 = replace_str ''cd repo'' (''cd '' @ shlex_quote (ep_repo p)) t1;
          setup = concat (map (\<lambda>(cpath, hpath).
             [''mkdir -p '' @ shlex_quote (if dirname cpath = [] then ''/tmp'' else dirname cpath),
              ''cp '' @ shlex_quote hpath @ '' '' @ shlex_quote cpath]) data)
      in if setup = [] then t2
         else ''# local-mode data mounts'' @ [CHR 10] @ join [CHR 10] setup @ [CHR 10] @ t2)"

definition run_local :: "exec_config \<Rightarrow> 'w exec_world \<Rightarrow> string \<Rightarrow> (string \<times> string) list \<Rightarrow> exec_paths \<Rightarrow> int
    \<Rightarrow> ('w, step_out) exe" where
  "run_local C W script data p timeout =
     sbind (clock_now W) (\<lambda>t0.
     sbind (start_process W [''bash'', ''-lc'', local_script script data p] timeout) (\<lambda>r.
     sbind (clock_now W) (\<lambda>t1.
       case r of
         Exited status text \<Rightarrow> sret (finished_out C ''local'' (t1 - t0) status text)
       | TimedOut text \<Rightarrow> sret (stopped_out C ''local'' (t1 - t0) text)
       | NotFound \<Rightarrow> sraise (ServerError OSError)
       | Crashed e \<Rightarrow> sraise (ServerError RuntimeError))))"

section \<open>Running in an ephemeral container\<close>

text \<open>\<open>args.remove("-d")\<close>, then \<open>args.insert(2, "--rm")\<close>.\<close>

definition foreground :: "string list \<Rightarrow> string list" where
  "foreground args = (let a = remove1 ''-d'' args in take 2 a @ [''--rm''] @ drop 2 a)"

definition data_mounts :: "(string \<times> string) list \<Rightarrow> string list" where
  "data_mounts data = concat (map (\<lambda>(cpath, hpath). [''-v'', hpath @ '':'' @ cpath @ '':ro'']) data)"

definition run_mounts :: "exec_paths \<Rightarrow> string list" where
  "run_mounts p =
     [''-v'', ep_artifacts p @ '':/work/artifacts:rw'', ''-v'', ep_venv p @ '':/work/venv:rw'',
      ''-v'', ep_wheels p @ '':/work/wheels:rw'']"

definition container_args ::
    "exec_config \<Rightarrow> string \<Rightarrow> string \<Rightarrow> string \<Rightarrow> (string \<times> string) list \<Rightarrow> exec_paths \<Rightarrow> string list res" where
  "container_args C uid net script_path data p =
     ebind (docker_args \<lparr>ca_name = ''rfsn-ephemeral-'' @ take 8 uid, ca_image = ec_image C, ca_repo_host = ep_repo p,
                          ca_work_type = ''bind'', ca_work_host = Some (ep_repo p), ca_env = [], ca_network = net,
                          ca_mem_limit = ''2g''\<rparr>) (\<lambda>args.
       Inr (foreground args @ [''-v'', script_path @ '':/tmp/rfsn_script.sh:ro''] @ data_mounts data @ run_mounts p
            @ [ec_image C, ''bash'', ''/tmp/rfsn_script.sh'']))"

definition run_container ::
    "exec_config \<Rightarrow> 'w exec_world \<Rightarrow> string \<Rightarrow> string \<Rightarrow> (string \<times> string) list \<Rightarrow> exec_paths \<Rightarrow> int \<Rightarrow> string
     \<Rightarrow> ('w, step_out) exe" where
  "run_container C W script script_path data p timeout net =
     sbind (sread (\<lambda>st. ew_uuid W (es_world st))) (\<lambda>uid.
     sbind (lift_res (container_args C uid net script_path data p)) (\<lambda>argv.
     sbind (clock_now W) (\<lambda>t0.
     sbind (start_process W argv timeout) (\<lambda>r.
     sbind (clock_now W) (\<lambda>t1.
       case r of
         Exited status text \<Rightarrow> sret (finished_out C net (t1 - t0) status text)
       | TimedOut text \<Rightarrow> sret (stopped_out C net (t1 - t0) text)
       | NotFound \<Rightarrow>
           if ec_local_allowed C then run_local C W script data p timeout
           else http 503 ''docker binary unavailable and local fallback disabled''
       | Crashed e \<Rightarrow> http 500 (''executor error: '' @ e))))))"

text \<open>The script and the data files are removed whatever happens, but only when a container was used.\<close>

definition run_with_data ::
    "exec_config \<Rightarrow> 'w exec_world \<Rightarrow> string \<Rightarrow> (string \<times> string) list \<Rightarrow> exec_paths \<Rightarrow> int \<Rightarrow> bool \<Rightarrow> ('w, step_out) exe" where
  "run_with_data C W script data p timeout network_disabled =
     (if \<not> ec_use_docker C then
        (if ec_local_allowed C then run_local C W script data p timeout
         else http 503 ''docker sandbox is required (set RFSN_DEV_MODE=1 and RFSN_ALLOW_LOCAL_EXEC=1 for dev-only local mode)'')
      else sbind (write_data_file W script ''.sh'') (\<lambda>script_path.
           sfinally (run_container C W script script_path data p timeout (if network_disabled then ''none'' else ''bridge''))
             (unlink_all (script_path # map snd data))))"

end
