(* ===== verification/Sandbox_Pool.thy ===== *)
theory Sandbox_Pool
  imports Executor_Base
begin

text \<open>
  The warm sandboxes, \<open>services/executor/sandbox_pool.py\<close>: one long-lived container per run, looked up or
  created on demand, in which scripts are executed. The operations are given as a single thread runs
  them; the two critical sections of \<open>get_or_create\<close> are a step relation of their own, in which
  requests of several threads interleave and containers may die at any time.
\<close>

section \<open>Containers\<close>

definition run_quietly :: "'w exec_world \<Rightarrow> string list \<Rightarrow> int \<Rightarrow> ('w, unit) exe" where
  "run_quietly W argv timeout =
     sbind (start_process W argv timeout) (\<lambda>r.
       case r of Exited n t \<Rightarrow> sret () | NotFound \<Rightarrow> sraise (ServerError OSError) | _ \<Rightarrow> sraise (ServerError RuntimeError))"

text \<open>\<open>subprocess.run(..., check=True)\<close>.\<close>

definition run_checked :: "'w exec_world \<Rightarrow> string list \<Rightarrow> int \<Rightarrow> ('w, unit) exe" where
  "run_checked W argv timeout =
     sbind (start_process W argv timeout) (\<lambda>r.
       case r of
         Exited n t \<Rightarrow> if n = 0 then sret () else sraise (ServerError RuntimeError)
       | NotFound \<Rightarrow> sraise (ServerError OSError)
       | _ \<Rightarrow> sraise (ServerError RuntimeError))"

definition is_alive :: "'w exec_world \<Rightarrow> sandbox \<Rightarrow> ('w, bool) exe" where
  "is_alive W sb =
     sbind (start_process W [''docker'', ''inspect'', ''--format'', ''{{.State.Running}}'', sb_container_id sb] 5) (\<lambda>r.
       sret (case r of Exited n t \<Rightarrow> n = 0 \<and> occurs_in ''true'' (lower t) | _ \<Rightarrow> False))"

definition destroy_container :: "'w exec_world \<Rightarrow> sandbox \<Rightarrow> ('w, unit) exe" where
  "destroy_container W sb =
     sbind (start_process W [''docker'', ''rm'', ''-f'', sb_container_id sb] 15) (\<lambda>_. sret ())"

definition sandbox_args :: "exec_config \<Rightarrow> string \<Rightarrow> exec_paths \<Rightarrow> string list res" where
  "sandbox_args C run_id p =
     (let cap = \<lparr>ca_name = ''rfsn-sandbox-'' @ take 12 (rt_sha256 (ec_rt C) run_id), ca_image = ec_image C,
                 ca_repo_host = ep_repo p, ca_work_type = ''tmpfs'', ca_work_host = None, ca_env = [],
                 ca_network = ''none'', ca_mem_limit = ''2g''\<rparr>
      in ebind (docker_args cap) (\<lambda>args.
           Inr (args @ run_mounts p @ entrypoint_cmd cap ''tail -f /dev/null'')))"

definition create_sandbox :: "exec_config \<Rightarrow> 'w exec_world \<Rightarrow> string \<Rightarrow> exec_paths \<Rightarrow> ('w, sandbox) exe" where
  "create_sandbox C W run_id p =
     sbind (lift_res (sandbox_args C run_id p)) (\<lambda>argv.
     sbind (start_process W argv 30) (\<lambda>r.
       case r of
         Exited n text \<Rightarrow>
           (if n \<noteq> 0 then sraise (ServerError RuntimeError)
            else let cid = strip text in
              sbind (start_process W [''docker'', ''inspect'', ''--format'', ''{{.Image}}'', cid] 5) (\<lambda>i.
              sbind (clock_now W) (\<lambda>t.
                sret \<lparr>sb_container_id = cid, sb_run_id = run_id, sb_image = ec_image C,
                      sb_image_hash = (case i of Exited k h \<Rightarrow> if k = 0 then take 24 (strip h) else [] | _ \<Rightarrow> []),
                      sb_created_at = t, sb_last_used_at = t, sb_exec_count = 0\<rparr>)))
       | NotFound \<Rightarrow> sraise (ServerError OSError)
       | _ \<Rightarrow> sraise (ServerError RuntimeError)))"

section \<open>The pool\<close>

definition pooled :: "string \<Rightarrow> 'w exec_state \<Rightarrow> sandbox option" where
  "pooled run_id st = map_of (es_pool st) run_id"

text \<open>\<open>sb and self._is_alive(sb)\<close>.\<close>

definition live_sandbox :: "'w exec_world \<Rightarrow> string \<Rightarrow> ('w, sandbox option) exe" where
  "live_sandbox W run_id =
     sbind (sread (pooled run_id)) (\<lambda>found.
       case found of
         None \<Rightarrow> sret None
       | Some sb \<Rightarrow> sbind (is_alive W sb) (\<lambda>alive. sret (if alive then Some sb else None)))"

definition get_or_create :: "exec_config \<Rightarrow> 'w exec_world \<Rightarrow> string \<Rightarrow> exec_paths \<Rightarrow> ('w, sandbox) exe" where
  "get_or_create C W run_id p =
     sbind (live_sandbox W run_id) (\<lambda>found.
       case found of
         Some sb \<Rightarrow> sret sb
       | None \<Rightarrow>
           sbind (create_sandbox C W run_id p) (\<lambda>sb.
           sbind (live_sandbox W run_id) (\<lambda>existing.
             case existing of
               Some e \<Rightarrow> sbind (destroy_container W sb) (\<lambda>_. sret e)
             | None \<Rightarrow>
                 sbind (supdate (\<lambda>st. st\<lparr>es_pool := AList.update run_id sb (es_pool st)\<rparr>)) (\<lambda>_. sret sb))))"

definition destroy_run :: "'w exec_world \<Rightarrow> string \<Rightarrow> ('w, string option) exe" where
  "destroy_run W run_id =
     sbind (sread (pooled run_id)) (\<lambda>found.
     sbind (supdate (\<lambda>st. st\<lparr>es_pool := AList.delete run_id (es_pool st)\<rparr>)) (\<lambda>_.
       case found of
         None \<Rightarrow> sret None
       | Some sb \<Rightarrow> sbind (destroy_container W sb) (\<lambda>_. sret (Some (sb_image_hash sb)))))"

text \<open>One round of the reaper.\<close>

definition reap :: "exec_config \<Rightarrow> 'w exec_world \<Rightarrow> ('w, unit) exe" where
  "reap C W =
     sbind (clock_now W) (\<lambda>t.
     sbind (sread (\<lambda>st. map fst (filter (\<lambda>(rid, sb). ec_idle_ttl C < t - sb_last_used_at sb) (es_pool st)))) (\<lambda>idle.
     sfor (\<lambda>rid. sbind (destroy_run W rid) (\<lambda>_. sret ())) idle))"

section \<open>Executing a script\<close>

definition LIMIT_MARK :: string where
  "LIMIT_MARK = [CHR 10] @ ''[OUTPUT TRUNCATED - LIMIT EXCEEDED]'' @ [CHR 10]"

definition KILLED_MARK :: string where
  "KILLED_MARK = [CHR 10] @ ''[KILLED - OUTPUT TOO MASSIVE]'' @ [CHR 10]"

text \<open>The loop that collects the output: the limit, what the loop meets, the output so far, its length
  (without the marks) and whether the limit was hit. The result is the status, the output and whether
  it was cut. A run of events that does not end is cut by the deadline. The status 137 stands for a
  return code that was not collected, which is the case when the output ends or the loop kills the
  process.\<close>

fun read_loop :: "int \<Rightarrow> stream_event list \<Rightarrow> string \<Rightarrow> int \<Rightarrow> bool \<Rightarrow> int \<times> string \<times> bool" where
  "read_loop M [] out n hit = (124, out @ TIMEOUT_MARK, True)"
| "read_loop M (Overdue # es) out n hit = (124, out @ TIMEOUT_MARK, True)"
| "read_loop M (Ended rc rest # es) out n hit =
     (if rest \<noteq> [] \<and> n < M then (rc, out @ rest, hit \<or> M < n + int (length rest))
      else (rc, out, hit \<or> M < n))"
| "read_loop M (Quiet # es) out n hit = read_loop M es out n hit"
| "read_loop M (Eof # es) out n hit = (137, out, hit \<or> M < n)"
| "read_loop M (Chunk c # es) out n hit =
     (if c = [] then (137, out, hit \<or> M < n)
      else if n < M then read_loop M es (out @ c) (n + int (length c)) hit
      else let out1 = (if hit then out else out @ LIMIT_MARK)
           in if M * 2 < n then (137, out1 @ KILLED_MARK, True) else read_loop M es out1 n True)"
| "read_loop M (Broken e # es) out n hit = (1, ''Internal Error: '' @ e, False)"

definition stream_script :: "exec_config \<Rightarrow> 'w exec_world \<Rightarrow> string \<Rightarrow> ('w, step_out) exe" where
  "stream_script C W cid =
     sbind (clock_now W) (\<lambda>t0.
     sbind (\<lambda>st. let argv = [''docker'', ''exec'', ''-w'', ''/work'', cid, ''bash'', ''/tmp/rfsn_script.sh''] in
              case ew_stream W (es_tmp st) argv (es_world st) of (events, w) \<Rightarrow>
                (Inr events, st\<lparr>es_world := w, es_procs := es_procs st @ [argv]\<rparr>)) (\<lambda>events.
     sbind (clock_now W) (\<lambda>t1.
       case read_loop (ec_pool_max_log C) events [] 0 False of (status, logs, truncated) \<Rightarrow>
         sret (plain_out status (t1 - t0) logs truncated None))))"

definition copy_data :: "'w exec_world \<Rightarrow> string \<Rightarrow> string \<Rightarrow> string \<Rightarrow> ('w, unit) exe" where
  "copy_data W cid cpath hpath =
     sbind (run_quietly W [''docker'', ''exec'', cid, ''mkdir'', ''-p'', dirname cpath] 5) (\<lambda>_.
     run_checked W [''docker'', ''cp'', hpath, cid @ '':'' @ cpath] 10)"

text \<open>The data files are removed at the end if they had been copied.\<close>

fun with_copies :: "'w exec_world \<Rightarrow> string \<Rightarrow> string list \<Rightarrow> (string \<times> string) list \<Rightarrow> ('w, step_out) exe \<Rightarrow> ('w, step_out) exe" where
  "with_copies W cid copied [] body = sfinally body (unlink_all copied)"
| "with_copies W cid copied ((cpath, hpath) # rest) body = (\<lambda>st.
     case copy_data W cid cpath hpath st of
       (Inl e, st') \<Rightarrow> (Inl e, unlink_all copied st')
     | (Inr _, st') \<Rightarrow> with_copies W cid (copied @ [hpath]) rest body st')"

text \<open>The sandbox object is the one in the pool.\<close>

definition touch :: "sandbox \<Rightarrow> rat \<Rightarrow> 'w exec_state \<Rightarrow> 'w exec_state" where
  "touch sb t st = st\<lparr>es_pool := map (\<lambda>(rid, s).
     (rid, if sb_container_id s = sb_container_id sb
           then s\<lparr>sb_last_used_at := t, sb_exec_count := sb_exec_count s + 1\<rparr> else s)) (es_pool st)\<rparr>"

definition exec_in :: "exec_config \<Rightarrow> 'w exec_world \<Rightarrow> sandbox \<Rightarrow> string \<Rightarrow> (string \<times> string) list \<Rightarrow> ('w, step_out) exe" where
  "exec_in C W sb script data =
     sbind (clock_now W) (\<lambda>t.
     sbind (supdate (touch sb t)) (\<lambda>_.
     sbind (write_data_file W script ''.sh'') (\<lambda>script_path. (\<lambda>st.
       case run_checked W [''docker'', ''cp'', script_path, sb_container_id sb @ '':/tmp/rfsn_script.sh''] 10 st of
         (Inl e, st') \<Rightarrow> (Inl e, unlink_all [script_path] st')
       | (Inr _, st') \<Rightarrow>
           with_copies W (sb_container_id sb) [script_path] data (stream_script C W (sb_container_id sb)) st'))))"

end
