(* ===== verification/Executor.thy ===== *)
theory Executor
  imports Sandbox_Pool
begin

text \<open>
  The handlers of the executor, \<open>services/executor/app.py\<close>: how a step becomes a script, the ephemeral
  path \<open>run\<close> and the warm path \<open>run_warm\<close>.
\<close>

section \<open>Values of a step\<close>

text \<open>\<open>step.get(key) or default\<close>, and its use as a text: another value raises the given exception.\<close>

definition field_or :: "pydict \<Rightarrow> string \<Rightarrow> pyval \<Rightarrow> pyval" where
  "field_or step key d = py_or (field step key) d"

fun as_text :: "pyerr \<Rightarrow> pyval \<Rightarrow> string res" where
  "as_text e (PStr s) = Inr s"
| "as_text e v = Inl e"

definition text_field :: "pyerr \<Rightarrow> pydict \<Rightarrow> string \<Rightarrow> ('s, string) handler_eff" where
  "text_field e step key = lift_res (as_text e (field_or step key (PStr [])))"

definition int_field :: "pydict \<Rightarrow> string \<Rightarrow> pyval \<Rightarrow> ('s, int) handler_eff" where
  "int_field step key d = lift_res (py_int (field_or step key d))"

definition step_kind :: "pydict \<Rightarrow> string" where
  "step_kind step = (case field step ''type'' of PStr s \<Rightarrow> s | _ \<Rightarrow> [])"

text \<open>A value used as a dictionary key: lists and dictionaries raise.\<close>

definition key_text :: "pyval \<Rightarrow> string option res" where
  "key_text v = (case v of PStr s \<Rightarrow> Inr (Some s) | PList xs \<Rightarrow> Inl TypeError | PDict d \<Rightarrow> Inl TypeError | _ \<Rightarrow> Inr None)"

section \<open>Ephemeral operations\<close>

definition bit :: "pyval \<Rightarrow> string" where
  "bit v = (if truthy v then ''1'' else ''0'')"

definition deps_text :: "exec_config \<Rightarrow> string \<Rightarrow> string \<Rightarrow> ('s, string) handler_eff" where
  "deps_text C key d = lift_res (as_text TypeError (dget_or (ec_deps C) key (PStr d)))"

definition cold_ensure_deps :: "exec_config \<Rightarrow> 'w exec_world \<Rightarrow> exec_paths \<Rightarrow> int \<Rightarrow> ('w, step_out) exe" where
  "cold_ensure_deps C W p timeout =
     sbind (deps_text C ''manifest'' ''requirements.txt'') (\<lambda>manifest.
     sbind (refuse (CHR ''/'' \<in> set manifest \<or> backslash \<in> set manifest \<or> occurs_in ''..'' manifest) 400
              (''invalid manifest name: '' @ manifest)) (\<lambda>_.
     sbind (deps_text C ''pip_cache_dir'' ''/work/wheels'') (\<lambda>cache_dir.
     run_with_data C W
       (cold_deps_script manifest (bit (dget_or (ec_deps C) ''require_hashes'' (PBool True)))
          (bit (dget_or (ec_deps C) ''only_binary'' (PBool True))) cache_dir (ec_venv_mode C))
       [] p timeout False)))"

definition cold_search :: "exec_config \<Rightarrow> 'w exec_world \<Rightarrow> pyval \<Rightarrow> exec_paths \<Rightarrow> int \<Rightarrow> ('w, step_out) exe" where
  "cold_search C W pattern p timeout =
     sbind (lift_res (py_len pattern)) (\<lambda>n.
     sbind (refuse (500 < n) 400 ''search pattern too long (max 500 chars)'') (\<lambda>_.
     sbind (lift_res (as_text TypeError pattern)) (\<lambda>text.
     sbind (write_data_file W text ''.pattern'') (\<lambda>pattern_file.
     sbind (write_data_file W COLD_SEARCH_PY ''.py'') (\<lambda>program.
     run_with_data C W (python_script ''/tmp/rfsn_data/search.py'')
       [(''/tmp/rfsn_data/pattern.txt'', pattern_file), (''/tmp/rfsn_data/search.py'', program)] p timeout True)))))"

text \<open>Also the check in \<open>_repo_read_range\<close>.\<close>

definition rejected_path :: "string \<Rightarrow> bool" where
  "rejected_path path \<longleftrightarrow> startswith path ''/'' \<or> startswith path ''~'' \<or> ''..'' \<in> set (split_char slash path)"

definition range_config :: "exec_config \<Rightarrow> pyval \<Rightarrow> int \<Rightarrow> int \<Rightarrow> string" where
  "range_config C path ls le =
     ec_json C (PDict [(PStr ''path'', path), (PStr ''start'', PInt ls), (PStr ''end'', PInt le)])"

definition cold_read_range :: "exec_config \<Rightarrow> 'w exec_world \<Rightarrow> pyval \<Rightarrow> int \<Rightarrow> int \<Rightarrow> exec_paths \<Rightarrow> int \<Rightarrow> ('w, step_out) exe" where
  "cold_read_range C W path ls le p timeout =
     sbind (lift_res (as_text AttributeError path)) (\<lambda>s.
     sbind (refuse (rejected_path s) 403 (''path rejected: '' @ s)) (\<lambda>_.
     sbind (write_data_file W (range_config C path ls le) ''.json'') (\<lambda>config.
     sbind (write_data_file W COLD_READ_PY ''.py'') (\<lambda>program.
     run_with_data C W (python_script ''/tmp/rfsn_data/reader.py'')
       [(''/tmp/rfsn_data/config.json'', config), (''/tmp/rfsn_data/reader.py'', program)] p timeout True))))"

definition NO_EFFECT :: string where
  "NO_EFFECT = [CHR 10] @ ''REJECTED: patch had no effect (diff is empty after apply)''"

definition patch_effect :: "step_out \<Rightarrow> step_out" where
  "patch_effect out0 =
     (let m = parse_patch_stat (so_logs out0); out = out0\<lparr>so_patch_meta := Some m\<rparr>
      in if so_status out = 0 \<and> pm_files_touched m = 0
         then out\<lparr>so_status := 1, so_logs := so_logs out @ NO_EFFECT\<rparr> else out)"

definition cold_apply_patch :: "exec_config \<Rightarrow> 'w exec_world \<Rightarrow> pyval \<Rightarrow> exec_paths \<Rightarrow> int \<Rightarrow> ('w, step_out) exe" where
  "cold_apply_patch C W patch p timeout =
     sbind (lift_res (as_text AttributeError patch)) (\<lambda>text.
     if strip text = [] then sret (plain_out 1 0 ''REJECTED: empty patch has no effect'' False None)
     else
     sbind (case ec_patch_gate C of
              None \<Rightarrow> sret []
            | Some pol \<Rightarrow> sbind (lift_res (patch_risk_gate pol text None None None)) (\<lambda>r.
                sret (if rr_decision r = REJECT
                      then ''DEFENSE_IN_DEPTH_REJECT: '' @ join ''; '' (take 5 (rr_reasons r)) else []))) (\<lambda>rejection.
     if rejection \<noteq> [] then sret (plain_out 1 0 rejection False None)
     else
     sbind (write_data_file W text ''.patch'') (\<lambda>patch_file.
     sbind (run_with_data C W COLD_PATCH_SCRIPT [(''/tmp/rfsn_data/patch.diff'', patch_file)] p timeout True) (\<lambda>out.
     sret (patch_effect out)))))"

text \<open>The command of a test template: the words are quoted first, then the quoted target replaces its
  place holder, also inside a quoted word.\<close>

definition test_command :: "string list \<Rightarrow> string \<Rightarrow> string" where
  "test_command cmd target =
     (let safe_target = (if target = [] then [] else shlex_quote target);
          c1 = replace_str ''{target}'' safe_target (shell_line cmd)
      in replace_str ''cd repo'' ''cd scratch_repo'' c1)"

definition TARGET_METACHARS :: string where
  "TARGET_METACHARS = ''$`|;&><'' @ [CHR 10, CHR 13, backslash] @ ''!''"

definition test_target :: "exec_config \<Rightarrow> cmd_template \<Rightarrow> string \<Rightarrow> pyval \<Rightarrow> ('s, string) handler_eff" where
  "test_target C t name target =
     (if ct_target_regex t \<noteq> [] then
        sbind (lift_res (as_text TypeError target)) (\<lambda>s.
        sbind (refuse (\<not> ec_fullmatch C (ct_target_regex t) s) 403
                 (''target rejected by regex: '' @ rt_repr (ec_rt C) target @ '' !~ '' @ ct_target_regex t)) (\<lambda>_. sret s))
      else sbind (refuse (truthy target) 403 (''target not allowed for template '' @ name)) (\<lambda>_. sret []))"

definition cold_run_tests ::
    "exec_config \<Rightarrow> 'w exec_world \<Rightarrow> pyval \<Rightarrow> pyval \<Rightarrow> exec_paths \<Rightarrow> int \<Rightarrow> ('w, step_out) exe" where
  "cold_run_tests C W template_id target p timeout =
     sbind (lift_res (key_text template_id)) (\<lambda>name.
     case (case name of None \<Rightarrow> None | Some s \<Rightarrow> map_of (ec_cmd_templates C) s) of
       None \<Rightarrow> http 403 (''unknown template_id: '' @ py_str (ec_rt C) template_id)
     | Some t \<Rightarrow>
         sbind (test_target C t (py_str (ec_rt C) template_id) target) (\<lambda>s.
         sbind (refuse (\<exists>c \<in> set s. c \<in> set TARGET_METACHARS) 403
                  (''target contains shell metacharacter: '' @ rt_repr (ec_rt C) target)) (\<lambda>_.
         run_with_data C W (cold_tests_script (test_command (ct_cmd t) s)) [] p timeout True)))"

section \<open>Scripts of the warm path\<close>

text \<open>The program and its data file.\<close>

definition with_config ::
    "'w exec_world \<Rightarrow> string \<Rightarrow> string \<Rightarrow> string \<Rightarrow> ('w, string \<times> (string \<times> string) list) exe" where
  "with_config W config program path =
     sbind (write_data_file W config ''.json'') (\<lambda>c.
     sbind (write_data_file W program ''.py'') (\<lambda>f.
     sret (python_script path, [(''/tmp/rfsn_data/config.json'', c), (path, f)])))"

definition template_step :: "exec_config \<Rightarrow> pydict \<Rightarrow> ('s, string) handler_eff" where
  "template_step C step =
     (case safe_template C (py_str (ec_rt C) (field_or step ''template'' (PStr []))) of
        Inl e \<Rightarrow> sret UNKNOWN_TEMPLATE_SCRIPT
      | Inr argv \<Rightarrow>
          sbind (normalize_workdir (py_str (ec_rt C) (field_or step ''workdir'' (PStr ''.'')))) (\<lambda>workdir.
          sret (template_script workdir (shell_line argv))))"

text \<open>\<open>step.get("template_params", {}) or {}\<close>, its entry \<open>target\<close> and the template.\<close>

definition tests_step :: "exec_config \<Rightarrow> pydict \<Rightarrow> ('s, string) handler_eff" where
  "tests_step C step =
     (let id_value = dget_or step ''template_id'' (PStr [])
      in case as_dict (field_or step ''template_params'' (PDict [])) of
           None \<Rightarrow> sraise (ServerError AttributeError)
         | Some params \<Rightarrow>
             sbind (lift_res (key_text id_value)) (\<lambda>name.
             case (case name of None \<Rightarrow> None | Some s \<Rightarrow> map_of (ec_cmd_templates C) s) of
               None \<Rightarrow> sret (unknown_tests_script (py_str (ec_rt C) id_value))
             | Some t \<Rightarrow>
                 sbind (let v = dget_or params ''target'' (PStr [])
                        in if truthy v then lift_res (as_text TypeError v) else sret []) (\<lambda>target.
                 sret (tests_script (test_command (ct_cmd t) target)))))"

definition build_step_script ::
    "exec_config \<Rightarrow> 'w exec_world \<Rightarrow> string \<Rightarrow> pydict \<Rightarrow> ('w, string \<times> (string \<times> string) list) exe" where
  "build_step_script C W kind step =
     (if kind = ''ensure_deps'' then
        sbind (deps_text C ''manifest'' ''requirements.txt'') (\<lambda>manifest.
        sbind (deps_text C ''pip_cache_dir'' ''/work/wheels'') (\<lambda>cache_dir.
        sret (deps_script manifest (bit (dget_or (ec_deps C) ''require_hashes'' (PBool True)))
                (bit (dget_or (ec_deps C) ''only_binary'' (PBool True))) cache_dir, [])))
      else if kind = ''repo_search'' then
        sbind (text_field TypeError step ''pattern'') (\<lambda>pattern.
        sbind (write_data_file W pattern ''.pattern'') (\<lambda>pf.
        sbind (write_data_file W SEARCH_PY ''.py'') (\<lambda>f.
        sret (python_script ''/tmp/rfsn_data/search.py'',
              [(''/tmp/rfsn_data/pattern.txt'', pf), (''/tmp/rfsn_data/search.py'', f)]))))
      else if kind = ''repo_read_range'' then
        sbind (int_field step ''line_start'' (PInt 1)) (\<lambda>ls.
        sbind (int_field step ''line_end'' (PInt ls)) (\<lambda>le.
        with_config W (range_config C (field_or step ''path'' (PStr [])) ls le) READ_PY ''/tmp/rfsn_data/reader.py''))
      else if kind = ''trace_execution'' then sraise (ServerError ValueError)
      else if kind = ''generate_repo_map'' then
        sbind (write_data_file W
                 (MAP_PY (ec_library C ''locator.py'') (ec_json C (field_or step ''path'' (PStr ''.'')))
                    (ec_json C (field_or step ''focus'' (PList [])))) ''.py'') (\<lambda>f.
        sret (python_script ''/tmp/rfsn_data/map.py'', [(''/tmp/rfsn_data/map.py'', f)]))
      else if kind = ''apply_semantic_patch'' then
        sbind (write_data_file W
                 (SEMANTIC_PATCH_PY (ec_library C ''patcher.py'') (ec_json C (field_or step ''path'' (PStr [])))) ''.py'') (\<lambda>f.
        sbind (text_field TypeError step ''patch'') (\<lambda>patch.
        sbind (write_data_file W patch ''.patch'') (\<lambda>pf.
        sret (python_script ''/tmp/rfsn_data/apply.py'',
              [(''/tmp/rfsn_data/apply.py'', f), (''/tmp/rfsn_data/patch.txt'', pf)]))))
      else if kind = ''read_file'' then
        with_config W (ec_json C (PDict [(PStr ''path'', field_or step ''path'' (PStr [])),
                                         (PStr ''max_bytes'', PInt (ec_max_read_file C))]))
          READ_FILE_PY ''/tmp/rfsn_data/read_file.py''
      else if kind = ''detect_project'' then
        sbind (write_data_file W DETECT_PROJECT_PY ''.py'') (\<lambda>f.
        sret (python_script ''/tmp/rfsn_data/detect_project.py'', [(''/tmp/rfsn_data/detect_project.py'', f)]))
      else if kind = ''detect_workdirs'' then
        sbind (int_field step ''max_depth'' (PInt 4)) (\<lambda>depth.
        with_config W (ec_json C (PDict [(PStr ''max_depth'', PInt (min (max depth 1) 8)),
                                         (PStr ''max_workdirs'', PInt (ec_max_workdirs C))]))
          DETECT_WORKDIRS_PY ''/tmp/rfsn_data/detect_workdirs.py'')
      else if kind = ''run_cmd_template'' \<or> kind = ''format_fix'' then
        sbind (template_step C step) (\<lambda>script. sret (script, []))
      else if kind = ''apply_patch'' then
        sbind (text_field TypeError step ''patch'') (\<lambda>patch.
        sbind (write_data_file W patch ''.patch'') (\<lambda>pf.
        sret (PATCH_SCRIPT, [(''/tmp/rfsn_data/patch.diff'', pf)])))
      else if kind = ''run_tests'' then
        sbind (tests_step C step) (\<lambda>script. sret (script, []))
      else sret (unknown_step_script kind, []))"

section \<open>The handlers\<close>

text \<open>A run of the container between two measurements of the artifact directory.\<close>

definition measured :: "exec_config \<Rightarrow> 'w exec_world \<Rightarrow> exec_paths \<Rightarrow> ('w, step_out) exe \<Rightarrow> ('w, step_out) exe" where
  "measured C W p m =
     sbind (sread (\<lambda>st. dir_size W (ep_artifacts p) (es_world st))) (\<lambda>before_size.
     sbind m (\<lambda>out.
     sbind (sread (\<lambda>st. dir_size W (ep_artifacts p) (es_world st))) (\<lambda>after_size.
     sret (apply_artifact_quota C before_size after_size out))))"

definition network_or :: "string \<Rightarrow> step_out \<Rightarrow> string" where
  "network_or d out = (case so_network out of None \<Rightarrow> d | Some n \<Rightarrow> if n = [] then d else n)"

definition note_of :: "exec_config \<Rightarrow> pydict \<Rightarrow> bool \<Rightarrow> string \<Rightarrow> step_note" where
  "note_of C step allow net =
     \<lparr>sn_payload = None, sn_command = None, sn_workdir = [], sn_network_mode = net, sn_allow_network = allow,
      sn_tier = coerce_int (field step ''_rfsn_tier'') 0,
      sn_network_reason = py_str (ec_rt C) (field_or step ''_rfsn_network_reason'' (PStr []))\<rparr>"

definition granted :: "pydict \<Rightarrow> bool" where
  "granted step \<longleftrightarrow> truthy (field step ''_rfsn_allow_network'')"

definition template_command :: "exec_config \<Rightarrow> pydict \<Rightarrow> string list option" where
  "template_command C step =
     (case safe_template C (py_str (ec_rt C) (field_or step ''template'' (PStr []))) of
        Inl e \<Rightarrow> None | Inr argv \<Rightarrow> Some argv)"

definition known_template :: "exec_config \<Rightarrow> pyval \<Rightarrow> cmd_template option" where
  "known_template C v = (case v of PStr s \<Rightarrow> map_of (ec_cmd_templates C) s | _ \<Rightarrow> None)"

definition run_step_script :: "exec_config \<Rightarrow> 'w exec_world \<Rightarrow> pydict \<Rightarrow> exec_paths \<Rightarrow> int \<Rightarrow> ('w, step_out) exe" where
  "run_step_script C W step p timeout =
     sbind (build_step_script C W (step_kind step) step) (\<lambda>(script, data).
     measured C W p (run_with_data C W script data p timeout True))"

definition run :: "exec_config \<Rightarrow> 'w exec_world \<Rightarrow> string \<Rightarrow> pydict \<Rightarrow> ('w, step_result) exe" where
  "run C W repo_id step =
     sbind (exec_dirs C W repo_id []) (\<lambda>p.
     let kind = step_kind step; allow = granted step;
         result = (\<lambda>out note. sret (result_of_out C out note))
     in
     if kind = ''ensure_deps'' then
       sbind (require_network_tier C step) (\<lambda>_.
       sbind (int_field step ''timeout_s'' (dget_or (ec_deps C) ''max_install_seconds'' (PInt 420))) (\<lambda>timeout.
       sbind (measured C W p (cold_ensure_deps C W p timeout)) (\<lambda>out.
       result out (note_of C step True (network_or ''bridge'' out)))))
     else if kind = ''repo_search'' then
       sbind (int_field step ''timeout_s'' (PInt 30)) (\<lambda>timeout.
       sbind (measured C W p (cold_search C W (field_or step ''pattern'' (PStr [])) p timeout)) (\<lambda>out.
       result out ((note_of C step allow (network_or ''none'' out))\<lparr>sn_payload := Some (strip (so_logs out))\<rparr>)))
     else if kind = ''repo_read_range'' then
       sbind (int_field step ''line_start'' (PInt 1)) (\<lambda>ls.
       sbind (int_field step ''line_end'' (PInt ls)) (\<lambda>le.
       sbind (int_field step ''timeout_s'' (PInt 30)) (\<lambda>timeout.
       sbind (measured C W p (cold_read_range C W (field_or step ''path'' (PStr [])) ls le p timeout)) (\<lambda>out.
       result out ((note_of C step allow (network_or ''none'' out))\<lparr>sn_payload := Some (so_logs out)\<rparr>)))))
     else if kind \<in> {''read_file'', ''detect_project'', ''detect_workdirs''} then
       sbind (int_field step ''timeout_s'' (PInt 60)) (\<lambda>timeout.
       sbind (run_step_script C W step p timeout) (\<lambda>out.
       result out ((note_of C step allow (network_or ''none'' out))\<lparr>sn_payload := Some (strip (so_logs out))\<rparr>)))
     else if kind = ''apply_patch'' then
       sbind (int_field step ''timeout_s'' (PInt 60)) (\<lambda>timeout.
       sbind (measured C W p (cold_apply_patch C W (field_or step ''patch'' (PStr [])) p timeout)) (\<lambda>out.
       result out (note_of C step allow (network_or ''none'' out))))
     else if kind = ''run_tests'' then
       (let template_id = field_or step ''template_id'' (PStr [])
        in case as_dict (field_or step ''template_params'' (PDict [])) of
             None \<Rightarrow> sraise (ServerError AttributeError)
           | Some params \<Rightarrow>
               sbind (int_field step ''timeout_s''
                        (PInt (case known_template C template_id of None \<Rightarrow> 240 | Some t \<Rightarrow> ct_max_seconds t))) (\<lambda>timeout.
               sbind (measured C W p
                        (cold_run_tests C W template_id (field_or params ''target'' (PStr [])) p timeout)) (\<lambda>out.
               result out ((note_of C step allow (network_or ''none'' out))
                  \<lparr>sn_command := map_option ct_cmd (known_template C template_id)\<rparr>))))
     else if kind = ''run_cmd_template'' \<or> kind = ''format_fix'' then
       sbind (int_field step ''timeout_s'' (PInt 240)) (\<lambda>timeout.
       sbind (run_step_script C W step p timeout) (\<lambda>out.
       result out ((note_of C step allow (network_or ''none'' out))
         \<lparr>sn_command := template_command C step,
          sn_workdir := py_str (ec_rt C) (field_or step ''workdir'' (PStr ''.''))\<rparr>)))
     else http 400 (''unknown step type: '' @ py_str (ec_rt C) (field step ''type'')))"

text \<open>The check after a patch in a warm sandbox.\<close>

definition verify_patch_result :: "exec_config \<Rightarrow> 'w exec_world \<Rightarrow> sandbox \<Rightarrow> step_out \<Rightarrow> ('w, step_out) exe" where
  "verify_patch_result C W sb out =
     (if so_status out \<noteq> 0 \<or> \<not> ec_pool_enabled C then sret out
      else sbind (exec_in C W sb STAT_SCRIPT []) (\<lambda>stat.
        let m = parse_patch_stat (so_logs stat); out1 = out\<lparr>so_patch_meta := Some m\<rparr>
        in sret (if pm_files_touched m = 0
                 then out1\<lparr>so_status := 1, so_logs := so_logs out1 @ NO_EFFECT\<rparr> else out1)))"

definition warm_payload :: "string \<Rightarrow> step_out \<Rightarrow> string option" where
  "warm_payload kind out =
     (if kind \<in> {''repo_search'', ''repo_read_range'', ''read_file'', ''detect_project'', ''detect_workdirs''}
      then Some (strip (so_logs out)) else None)"

definition run_warm :: "exec_config \<Rightarrow> 'w exec_world \<Rightarrow> string \<Rightarrow> string \<Rightarrow> pydict \<Rightarrow> ('w, step_result) exe" where
  "run_warm C W run_id repo_id step =
     (if \<not> ec_pool_enabled C then run C W repo_id step
      else
      sbind (validate_repo_id repo_id) (\<lambda>_.
      sbind (exec_dirs C W repo_id run_id) (\<lambda>p.
      let kind = step_kind step in
      sbind (int_field step ''timeout_s'' (PInt 300)) (\<lambda>timeout.
      if kind = ''ensure_deps'' then sbind (require_network_tier C step) (\<lambda>_. run C W repo_id step)
      else
      sbind (get_or_create C W run_id p) (\<lambda>sb.
      sbind (build_step_script C W kind step) (\<lambda>(script, data).
      sbind (measured C W p (exec_in C W sb script data)) (\<lambda>out0.
      sbind (if kind = ''apply_patch'' then verify_patch_result C W sb out0 else sret out0) (\<lambda>out.
      sret (result_of_out C out ((note_of C step (granted step) (network_or ''none'' out))
        \<lparr>sn_payload := warm_payload kind out,
         sn_command := (if kind = ''run_cmd_template'' \<or> kind = ''format_fix'' then template_command C step else None),
         sn_workdir := py_str (ec_rt C) (field_or step ''workdir'' (PStr ''.''))\<rparr>))))))))))"

definition sandbox_create :: "exec_config \<Rightarrow> 'w exec_world \<Rightarrow> string \<Rightarrow> string \<Rightarrow> ('w, string \<times> string) exe" where
  "sandbox_create C W run_id repo_id =
     (if \<not> ec_pool_enabled C then http 501 ''sandbox pool not available''
      else sbind (validate_repo_id repo_id) (\<lambda>_.
           sbind (exec_dirs C W repo_id run_id) (\<lambda>p.
           sbind (get_or_create C W run_id p) (\<lambda>sb.
           sret (take 12 (sb_container_id sb), sb_image_hash sb)))))"

definition sandbox_destroy :: "exec_config \<Rightarrow> 'w exec_world \<Rightarrow> string \<Rightarrow> ('w, string option) exe" where
  "sandbox_destroy C W run_id = (if \<not> ec_pool_enabled C then sret None else destroy_run W run_id)"

end
