(* ===== verification/Executor_Facts.thy ===== *)
theory Executor_Facts
  imports Executor
begin

text \<open>
  What the executor guarantees: which processes it starts and under which restrictions, that it leaves
  no temporary file behind, how the command line of a template is read by the shell, which directories
  a repository name stands for. The theorems on processes and files are about the configuration
  without local execution, the only one that the start of the service accepts outside development.
\<close>

section \<open>Started processes\<close>

definition starts :: "(string list \<Rightarrow> bool) \<Rightarrow> ('w, 'a) exe \<Rightarrow> bool" where
  "starts P m \<longleftrightarrow> (\<forall>st. \<exists>more. es_procs (snd (m st)) = es_procs st @ more \<and> (\<forall>a \<in> set more. P a))"

named_theorems starts_intros "computations that start only permitted processes"

lemma starts_silent: "(\<And>st. es_procs (snd (m st)) = es_procs st) \<Longrightarrow> starts P m"
  by (simp add: starts_def)

lemma starts_basic [starts_intros]:
  "starts P (sret x)" "starts P (sraise e)" "starts P (http c d)" "starts P (sread f)" "starts P (lift_res r)"
  "starts P (refuse b c d)" "starts P (write_data_file W t s)" "starts P (upd_world g)" "starts P (clock_now W)"
  by (auto intro!: starts_silent simp: sret_def sraise_def http_def sread_def lift_res_def refuse_def
      write_data_file_def sbind_def supdate_def upd_world_def clock_now_def split: sum.split)

lemma starts_sbind [starts_intros]:
  assumes "starts P m" "\<And>x. starts P (f x)"
  shows "starts P (sbind m f)"
  unfolding starts_def
proof
  fix st
  obtain r st1 where m: "m st = (r, st1)" by (cases "m st")
  from assms(1) obtain a where a: "es_procs st1 = es_procs st @ a" "\<forall>x \<in> set a. P x"
    unfolding starts_def using m by (metis snd_conv)
  show "\<exists>more. es_procs (snd (sbind m f st)) = es_procs st @ more \<and> (\<forall>a \<in> set more. P a)"
  proof (cases r)
    case (Inl e)
    then show ?thesis using a m by (auto simp: sbind_def)
  next
    case (Inr x)
    from assms(2) [of x] obtain b where "es_procs (snd (f x st1)) = es_procs st1 @ b" "\<forall>x \<in> set b. P x"
      unfolding starts_def by blast
    then show ?thesis using a m Inr by (intro exI [of _ "a @ b"]) (auto simp: sbind_def)
  qed
qed

text \<open>What follows a check may rely on it.\<close>

lemma starts_after_refuse: "(\<not> b \<Longrightarrow> starts P (f ())) \<Longrightarrow> starts P (sbind (refuse b c d) f)"
  by (auto simp: starts_def sbind_def refuse_def http_def sraise_def sret_def)

lemma starts_after_lift: "(\<And>x. r = Inr x \<Longrightarrow> starts P (f x)) \<Longrightarrow> starts P (sbind (lift_res r) f)"
  by (cases r) (auto simp: starts_def sbind_def lift_res_def sraise_def sret_def)

lemma starts_if [starts_intros]: "(b \<Longrightarrow> starts P m) \<Longrightarrow> (\<not> b \<Longrightarrow> starts P m') \<Longrightarrow> starts P (if b then m else m')"
  by simp

lemma starts_sfinally [starts_intros]:
  "starts P m \<Longrightarrow> (\<And>st. es_procs (g st) = es_procs st) \<Longrightarrow> starts P (sfinally m g)"
  unfolding starts_def sfinally_def by (auto split: prod.split) (metis snd_conv)

lemma starts_process [starts_intros]: "P argv \<Longrightarrow> starts P (start_process W argv timeout)"
  by (auto simp: starts_def start_process_def split: prod.split)

lemma es_procs_unlink [simp]: "es_procs (unlink_all names st) = es_procs st"
  by (simp add: unlink_all_def)

section \<open>Isolation\<close>

text \<open>A container with the fixed restrictions and the given network, removed after its run. What
  follows the restrictions are mounts only, then the image and the script.\<close>

fun mount_args :: "string list \<Rightarrow> bool" where
  "mount_args [] = True"
| "mount_args [x] = False"
| "mount_args (opt # v # rest) = (opt \<in> {''-v'', ''--tmpfs''} \<and> mount_args rest)"

lemma mount_args_append: "mount_args xs \<Longrightarrow> mount_args ys \<Longrightarrow> mount_args (xs @ ys)"
  by (induction xs rule: mount_args.induct) auto

lemma mount_args_parts: "mount_args (data_mounts data)" "mount_args (run_mounts p)"
proof -
  show "mount_args (data_mounts data)" by (induction data) (auto simp: data_mounts_def)
qed (simp add: run_mounts_def)

definition isolated :: "string \<Rightarrow> string list \<Rightarrow> bool" where
  "isolated net argv \<longleftrightarrow>
     (\<exists>name mounts image. mount_args mounts \<and>
        argv = [''docker'', ''run'', ''--rm'', ''--name'', name, ''--network'', net] @ DOCKER_LIMITS ''2g'' @ mounts
               @ [image, ''bash'', ''/tmp/rfsn_script.sh''])"

lemma container_isolated:
  assumes "container_args C uid net script data p = Inr argv"
  shows "isolated net argv"
proof -
  let ?m = "[''-v'', ep_repo p @ '':/mnt/repo_ro:ro'', ''-v'', ep_repo p @ '':/work/repo:rw'',
             ''--tmpfs'', ''/tmp:rw,exec,nosuid,nodev,size=256m'', ''-v'', script @ '':/tmp/rfsn_script.sh:ro'']
            @ data_mounts data @ run_mounts p"
  have "argv = [''docker'', ''run'', ''--rm'', ''--name'', ''rfsn-ephemeral-'' @ take 8 uid, ''--network'', net]
          @ DOCKER_LIMITS ''2g'' @ ?m @ [ec_image C, ''bash'', ''/tmp/rfsn_script.sh'']"
    using assms
    by (auto simp: container_args_def docker_args_def work_mount_def foreground_def DOCKER_HEAD_def DOCKER_LIMITS_def
        Let_def ebind_Inr_iff split: if_splits)
  moreover have "mount_args ?m"
    by (simp add: mount_args_append mount_args_parts)
  ultimately show ?thesis
    unfolding isolated_def by blast
qed

definition contained_config :: "exec_config \<Rightarrow> bool" where
  "contained_config C \<longleftrightarrow> ec_use_docker C \<and> \<not> ec_local_allowed C"

lemma starts_run_with_data:
  assumes "contained_config C" "\<And>a. isolated (if quiet then ''none'' else ''bridge'') a \<Longrightarrow> P a"
  shows "starts P (run_with_data C W script data p timeout quiet)"
proof -
  have "starts P (run_container C W script sp data p timeout (if quiet then ''none'' else ''bridge''))" for sp
    unfolding run_container_def
    using assms
    by (auto intro!: starts_after_lift starts_sbind [OF starts_basic(4)] starts_sbind [OF starts_basic(9)]
        starts_sbind [OF starts_process] starts_basic simp: contained_config_def dest: container_isolated
        split: proc_end.split)
  with assms(1) show ?thesis
    by (auto simp: run_with_data_def contained_config_def intro!: starts_intros)
qed

section \<open>Admitted steps\<close>

text \<open>What the ephemeral path has checked of a step before it starts a process.\<close>

definition EXEC_KINDS :: "string list" where
  "EXEC_KINDS =
     [''ensure_deps'', ''repo_search'', ''repo_read_range'', ''read_file'', ''detect_project'', ''detect_workdirs'',
      ''apply_patch'', ''run_tests'', ''run_cmd_template'', ''format_fix'']"

definition clear_patch :: "exec_config \<Rightarrow> pyval \<Rightarrow> bool" where
  "clear_patch C v \<longleftrightarrow>
     (\<exists>text. v = PStr text \<and> strip text \<noteq> []
        \<and> (\<forall>pol. ec_patch_gate C = Some pol \<longrightarrow>
             (\<exists>r. patch_risk_gate pol text None None None = Inr r \<and> rr_decision r = ALLOW)))"

definition clear_tests :: "exec_config \<Rightarrow> pyval \<Rightarrow> pyval \<Rightarrow> bool" where
  "clear_tests C template_id target \<longleftrightarrow>
     (\<exists>name t s. template_id = PStr name \<and> map_of (ec_cmd_templates C) name = Some t
        \<and> (\<forall>c \<in> set s. c \<notin> set TARGET_METACHARS)
        \<and> (if ct_target_regex t = [] then s = [] \<and> \<not> truthy target
           else target = PStr s \<and> ec_fullmatch C (ct_target_regex t) s))"

definition params_of :: "pydict \<Rightarrow> pydict" where
  "params_of step = (case as_dict (field_or step ''template_params'' (PDict [])) of None \<Rightarrow> [] | Some d \<Rightarrow> d)"

definition step_admitted :: "exec_config \<Rightarrow> pydict \<Rightarrow> bool" where
  "step_admitted C step \<longleftrightarrow>
     step_kind step \<in> set EXEC_KINDS
     \<and> (step_kind step = ''ensure_deps'' \<longrightarrow>
          granted step \<and> ec_network_min_tier C \<le> coerce_int (field step ''_rfsn_tier'') 0)
     \<and> (step_kind step = ''repo_search'' \<longrightarrow>
          (\<exists>s. field_or step ''pattern'' (PStr []) = PStr s \<and> length s \<le> 500))
     \<and> (step_kind step = ''repo_read_range'' \<longrightarrow>
          (\<exists>s. field_or step ''path'' (PStr []) = PStr s \<and> \<not> rejected_path s))
     \<and> (step_kind step = ''apply_patch'' \<longrightarrow> clear_patch C (field_or step ''patch'' (PStr [])))
     \<and> (step_kind step = ''run_tests'' \<longrightarrow>
          clear_tests C (field_or step ''template_id'' (PStr [])) (field_or (params_of step) ''target'' (PStr [])))"

definition network_for :: "pydict \<Rightarrow> string" where
  "network_for step = (if step_kind step = ''ensure_deps'' then ''bridge'' else ''none'')"

lemma starts_sbind_res:
  assumes "starts P m" "\<And>st x st'. m st = (Inr x, st') \<Longrightarrow> starts P (f x)"
  shows "starts P (sbind m f)"
  unfolding starts_def
proof
  fix st
  obtain r st1 where m: "m st = (r, st1)" by (cases "m st")
  from assms(1) obtain a where a: "es_procs st1 = es_procs st @ a" "\<forall>x \<in> set a. P x"
    unfolding starts_def using m by (metis snd_conv)
  show "\<exists>more. es_procs (snd (sbind m f st)) = es_procs st @ more \<and> (\<forall>a \<in> set more. P a)"
  proof (cases r)
    case (Inl e)
    then show ?thesis using a m by (auto simp: sbind_def)
  next
    case (Inr x)
    from assms(2) [of st x st1] m Inr obtain b where "es_procs (snd (f x st1)) = es_procs st1 @ b" "\<forall>x \<in> set b. P x"
      unfolding starts_def by blast
    then show ?thesis using a m Inr by (intro exI [of _ "a @ b"]) (auto simp: sbind_def)
  qed
qed

lemma starts_exec_dirs [starts_intros]: "starts P (exec_dirs C W repo_id run_id)"
  unfolding exec_dirs_def validate_repo_id_def Let_def by (auto intro!: starts_intros)

lemma starts_measured [starts_intros]: "starts P m \<Longrightarrow> starts P (measured C W p m)"
  unfolding measured_def by (auto intro!: starts_intros)

lemma starts_fields [starts_intros]:
  "starts P (int_field step key d)" "starts P (text_field e step key)" "starts P (deps_text C key' d')"
  "starts P (test_target C t name v)" "starts P (normalize_workdir rel)"
  by (auto simp: int_field_def text_field_def deps_text_def test_target_def normalize_workdir_def Let_def intro!: starts_intros)

lemma starts_tests_step [starts_intros]: "starts P (tests_step C step)"
  unfolding tests_step_def Let_def by (auto intro!: starts_intros split: option.split)

lemma starts_template_step [starts_intros]: "starts P (template_step C step)"
  unfolding template_step_def by (auto intro!: starts_intros split: sum.split)

lemma starts_with_config [starts_intros]: "starts P (with_config W config program path)"
  unfolding with_config_def by (auto intro!: starts_intros)

lemma starts_build [starts_intros]: "starts P (build_step_script C W kind step)"
  unfolding build_step_script_def by (auto intro!: starts_intros)

lemma clear_testsI:
  assumes "key_text template_id = Inr name" "(case name of None \<Rightarrow> None | Some s \<Rightarrow> map_of (ec_cmd_templates C) s) = Some t"
    and "test_target C t n target st = (Inr s, st')" "\<not> (\<exists>c \<in> set s. c \<in> set TARGET_METACHARS)"
  shows "clear_tests C template_id target"
proof -
  from assms(1,2) obtain nm where "template_id = PStr nm" "map_of (ec_cmd_templates C) nm = Some t"
    by (cases template_id) (auto simp: key_text_def split: option.splits)
  moreover from assms(3) have "if ct_target_regex t = [] then s = [] \<and> \<not> truthy target
           else target = PStr s \<and> ec_fullmatch C (ct_target_regex t) s"
    by (cases target) (auto simp: test_target_def http_bind split: if_splits)
  ultimately show ?thesis using assms(4) unfolding clear_tests_def by blast
qed

text \<open>Each ephemeral operation, under the condition that it has checked.\<close>

lemma starts_cold:
  assumes C: "contained_config C"
    and P: "\<And>a. isolated ''none'' a \<Longrightarrow> P a" and Pn: "\<And>a. isolated ''bridge'' a \<Longrightarrow> Q a"
  shows "starts Q (cold_ensure_deps C W p timeout)"
    and "starts (\<lambda>a. P a \<and> (\<exists>s. pattern = PStr s \<and> length s \<le> 500)) (cold_search C W pattern p timeout)"
    and "starts (\<lambda>a. P a \<and> (\<exists>s. path = PStr s \<and> \<not> rejected_path s)) (cold_read_range C W path ls le p timeout)"
    and "starts (\<lambda>a. P a \<and> clear_patch C patch) (cold_apply_patch C W patch p timeout)"
    and "starts (\<lambda>a. P a \<and> clear_tests C template_id target) (cold_run_tests C W template_id target p timeout)"
    and "starts P (run_with_data C W script data p timeout True)"
proof -
  have q: "starts (\<lambda>a. P a \<and> F) (run_with_data C W script data p timeout True)" if F for F script data
    using starts_run_with_data [OF C, of True "\<lambda>a. P a \<and> F"] P that by simp
  show "starts Q (cold_ensure_deps C W p timeout)"
    unfolding cold_ensure_deps_def
    by (intro starts_sbind starts_fields starts_basic starts_run_with_data [OF C]) (simp add: Pn)
  show "starts (\<lambda>a. P a \<and> (\<exists>s. pattern = PStr s \<and> length s \<le> 500)) (cold_search C W pattern p timeout)"
    unfolding cold_search_def
    by (cases pattern) (auto intro!: starts_after_lift starts_after_refuse starts_sbind [OF starts_basic(7)] q)
  show "starts (\<lambda>a. P a \<and> (\<exists>s. path = PStr s \<and> \<not> rejected_path s)) (cold_read_range C W path ls le p timeout)"
    unfolding cold_read_range_def
    by (cases path) (auto intro!: starts_after_lift starts_after_refuse starts_sbind [OF starts_basic(7)] q)
  show "starts (\<lambda>a. P a \<and> clear_tests C template_id target) (cold_run_tests C W template_id target p timeout)"
    unfolding cold_run_tests_def
    by (auto intro!: starts_after_lift starts_sbind_res [OF starts_fields(4)] starts_after_refuse q starts_basic
        clear_testsI split: option.split)
  show "starts P (run_with_data C W script data p timeout True)"
    using starts_run_with_data [OF C, of True P] P by simp
  show "starts (\<lambda>a. P a \<and> clear_patch C patch) (cold_apply_patch C W patch p timeout)"
  proof (cases patch)
    case (PStr tx)
    let ?gate = "case ec_patch_gate C of None \<Rightarrow> sret []
            | Some pol \<Rightarrow> sbind (lift_res (patch_risk_gate pol tx None None None)) (\<lambda>r.
                sret (if rr_decision r = REJECT
                      then ''DEFENSE_IN_DEPTH_REJECT: '' @ join ''; '' (take 5 (rr_reasons r)) else []))"
    have gate: "starts R ?gate" for R by (auto intro!: starts_intros split: option.split)
    have ok: "clear_patch C patch" if "?gate st = (Inr [], st')" "strip tx \<noteq> []" for st st'
      using that PStr
      by (auto simp: clear_patch_def http_bind split: option.splits if_splits) (metis risk_decision.exhaust)
    have "starts (\<lambda>a. P a \<and> clear_patch C patch)
       (sbind ?gate (\<lambda>rejection.
          if rejection \<noteq> [] then sret (plain_out 1 0 rejection False None)
          else sbind (write_data_file W tx ''.patch'') (\<lambda>patch_file.
               sbind (run_with_data C W COLD_PATCH_SCRIPT [(''/tmp/rfsn_data/patch.diff'', patch_file)] p timeout True)
                 (\<lambda>out. sret (patch_effect out)))))" if "strip tx \<noteq> []"
      using ok that
      by (intro starts_sbind_res [OF gate] starts_if starts_basic starts_sbind [OF starts_basic(7)] starts_sbind [OF q])
         auto
    then show ?thesis unfolding cold_apply_patch_def
      by (auto simp: PStr intro!: starts_after_lift starts_basic)
  qed (auto simp: cold_apply_patch_def intro!: starts_after_lift)
qed


lemma starts_run_step_script:
  assumes "contained_config C" "\<And>a. isolated ''none'' a \<Longrightarrow> P a"
  shows "starts P (run_step_script C W step p timeout)"
  unfolding run_step_script_def
  by (auto intro!: starts_intros starts_cold(6) assms split: prod.split)

lemma starts_mono: "starts P m \<Longrightarrow> (\<And>a. P a \<Longrightarrow> Q a) \<Longrightarrow> starts Q m"
  unfolding starts_def by blast

lemma starts_run:
  assumes C: "contained_config C"
  shows "starts (\<lambda>a. isolated (network_for step) a \<and> step_admitted C step) (run C W repo_id step)"
proof -
  let ?k = "step_kind step"
  let ?Q = "\<lambda>a. isolated (network_for step) a \<and> step_admitted C step"
  have simple: "starts ?Q (run_step_script C W step p timeout)"
    if "?k \<in> {''read_file'', ''detect_project'', ''detect_workdirs'', ''run_cmd_template'', ''format_fix''}" for p timeout
    using that by (intro starts_run_step_script [OF C]) (auto simp: network_for_def step_admitted_def EXEC_KINDS_def)
  have deps: "starts ?Q (cold_ensure_deps C W p timeout)"
    if "?k = ''ensure_deps''" "granted step" "ec_network_min_tier C \<le> coerce_int (field step ''_rfsn_tier'') 0" for p timeout
    using that by (intro starts_cold(1) [OF C, where P = "isolated ''none''"])
      (auto simp: network_for_def step_admitted_def EXEC_KINDS_def)
  have search: "starts ?Q (cold_search C W (field_or step ''pattern'' (PStr [])) p timeout)" if "?k = ''repo_search''" for p timeout
    by (rule starts_mono [OF starts_cold(2) [OF C, where P = "isolated ''none''" and Q = "isolated ''bridge''"]])
      (use that in \<open>auto simp: network_for_def step_admitted_def EXEC_KINDS_def\<close>)
  have range: "starts ?Q (cold_read_range C W (field_or step ''path'' (PStr [])) ls le p timeout)"
    if "?k = ''repo_read_range''" for ls le p timeout
    by (rule starts_mono [OF starts_cold(3) [OF C, where P = "isolated ''none''" and Q = "isolated ''bridge''"]])
      (use that in \<open>auto simp: network_for_def step_admitted_def EXEC_KINDS_def\<close>)
  have patch: "starts ?Q (cold_apply_patch C W (field_or step ''patch'' (PStr [])) p timeout)"
    if "?k = ''apply_patch''" for p timeout
    by (rule starts_mono [OF starts_cold(4) [OF C, where P = "isolated ''none''" and Q = "isolated ''bridge''"]])
      (use that in \<open>auto simp: network_for_def step_admitted_def EXEC_KINDS_def\<close>)
  have tests: "starts ?Q (cold_run_tests C W (field_or step ''template_id'' (PStr [])) (field_or params ''target'' (PStr [])) p timeout)"
    if "?k = ''run_tests''" "as_dict (field_or step ''template_params'' (PDict [])) = Some params" for params p timeout
    by (rule starts_mono [OF starts_cold(5) [OF C, where P = "isolated ''none''" and Q = "isolated ''bridge''"]])
      (use that in \<open>auto simp: network_for_def step_admitted_def EXEC_KINDS_def params_of_def\<close>)
  have tier: "starts ?Q (sbind (require_network_tier C step) f)"
    if "granted step \<Longrightarrow> ec_network_min_tier C \<le> coerce_int (field step ''_rfsn_tier'') 0 \<Longrightarrow> starts ?Q (f ())" for f
    unfolding require_network_tier_def by (rule starts_after_refuse) (use that in \<open>auto simp: granted_def\<close>)
  show ?thesis
    unfolding run_def Let_def
    by (intro starts_sbind [OF starts_exec_dirs] starts_if tier starts_sbind [OF starts_fields(1)]
        starts_sbind [OF starts_measured] starts_basic deps search range patch)
      (auto intro!: starts_sbind [OF simple] starts_sbind [OF starts_fields(1)] starts_sbind [OF starts_measured] tests
        starts_basic split: option.split)
qed


section \<open>Temporary files\<close>

text \<open>A computation that removes the given files and leaves the others, also when it fails.\<close>

definition removes :: "string list \<Rightarrow> ('w, 'a) exe \<Rightarrow> bool" where
  "removes fs m \<longleftrightarrow> (\<forall>st. es_tmp (snd (m st)) = filter (\<lambda>(n, c). n \<notin> set fs) (es_tmp st))"

definition fresh_names :: "'w exec_world \<Rightarrow> bool" where
  "fresh_names W \<longleftrightarrow> (\<forall>s ns. ew_temp_name W s ns \<notin> set ns)"

named_theorems removes_intros "computations that leave no temporary file"

lemma removes_basic [removes_intros]:
  "removes [] (sret x)" "removes [] (sraise e)" "removes [] (http c d)" "removes [] (sread f)" "removes [] (lift_res r)"
  "removes [] (refuse b c d)" "removes [] (upd_world g)" "removes [] (clock_now W)" "removes [] (start_process W argv t)"
  by (auto simp: removes_def sret_def sraise_def http_def sread_def lift_res_def refuse_def supdate_def upd_world_def
      clock_now_def start_process_def split: sum.split prod.split)

lemma removes_sbind [removes_intros]:
  "removes [] m \<Longrightarrow> (\<And>x. removes [] (f x)) \<Longrightarrow> removes [] (sbind m f)"
  unfolding removes_def sbind_def by (auto split: prod.split sum.split) (metis snd_conv)+

text \<open>A computation that fails before the files exist or hands them to one that removes them.\<close>

lemma removes_sbind_pure:
  assumes "\<And>st. snd (m st) = st" "\<And>x. removes fs (f x)" "\<And>st e. fst (m st) \<noteq> Inl e"
  shows "removes fs (sbind m f)"
  unfolding removes_def
proof
  fix st
  obtain x where "m st = (Inr x, st)" using assms(1,3) [of st] by (cases "m st"; cases "fst (m st)") auto
  then show "es_tmp (snd (sbind m f st)) = filter (\<lambda>(n, c). n \<notin> set fs) (es_tmp st)"
    using assms(2) by (simp add: sbind_def removes_def)
qed

lemma removes_write:
  assumes "fresh_names W" "\<And>name. removes (name # fs) (f name)"
  shows "removes fs (sbind (write_data_file W txt sfx) f)"
proof -
  have "filter (\<lambda>(n, c). n \<noteq> ew_temp_name W sfx (map fst (es_tmp st)) \<and> n \<notin> set fs) (es_tmp st)
        = filter (\<lambda>(n, c). n \<notin> set fs) (es_tmp st)" for st :: "'a exec_state"
  proof -
    have "ew_temp_name W sfx (map fst (es_tmp st)) \<notin> set (map fst (es_tmp st))"
      using assms(1) unfolding fresh_names_def by blast
    then have "n \<noteq> ew_temp_name W sfx (map fst (es_tmp st))" if "(n, c) \<in> set (es_tmp st)" for n c
      using that by (auto simp: image_iff)
    then show ?thesis by (intro filter_cong) auto
  qed
  then show ?thesis
    using assms(2) by (simp add: removes_def write_data_file_def sbind_def sread_def supdate_def sret_def)
qed

lemma removes_measured:
  assumes "removes fs m"
  shows "removes fs (measured C W p m)"
proof -
  have "removes fs (sbind m (\<lambda>out. sbind (sread g) (\<lambda>n. sret (h out n))))" for g and h :: "step_out \<Rightarrow> int \<Rightarrow> step_out"
    using assms by (simp add: removes_def sbind_def sread_def sret_def split: prod.split sum.split) (metis snd_conv)
  then show ?thesis
    unfolding measured_def
    by (intro removes_sbind_pure [of "sread (\<lambda>st. dir_size W (ep_artifacts p) (es_world st))"])
      (simp_all add: sread_def removes_def)
qed

lemma removes_if [removes_intros]: "(b \<Longrightarrow> removes fs m) \<Longrightarrow> (\<not> b \<Longrightarrow> removes fs m') \<Longrightarrow> removes fs (if b then m else m')"
  by simp

lemma removes_run_with_data:
  assumes "contained_config C" "fresh_names W"
  shows "removes (map snd data) (run_with_data C W script data p timeout quiet)"
proof -
  have m: "removes [] (run_container C W script sp data p timeout net)" for sp net
    using assms(1) unfolding run_container_def
    by (auto intro!: removes_intros simp: contained_config_def split: proc_end.split)
  have "removes (sp # fs) (sfinally (run_container C W script sp data p timeout net) (unlink_all (sp # fs)))" for sp fs net
    using m [of sp net] by (auto simp: removes_def sfinally_def unlink_all_def split: prod.split)
      (metis (no_types, lifting) snd_conv filter_True prod.case_eq_if)
  then show ?thesis
    using assms by (auto simp: run_with_data_def contained_config_def intro!: removes_write)
qed

lemma removes_exec_dirs [removes_intros]: "removes [] (exec_dirs C W repo_id run_id)"
  unfolding exec_dirs_def validate_repo_id_def Let_def by (auto intro!: removes_intros)

lemma removes_fields [removes_intros]:
  "removes [] (int_field step key d)" "removes [] (text_field e step key)" "removes [] (deps_text C key' d')"
  "removes [] (test_target C t name v)" "removes [] (normalize_workdir rel)" "removes [] (require_network_tier C step)"
  by (auto simp: int_field_def text_field_def deps_text_def test_target_def normalize_workdir_def require_network_tier_def
      Let_def intro!: removes_intros)

lemma removes_cold:
  assumes C: "contained_config C" and W: "fresh_names W"
  shows "removes [] (cold_ensure_deps C W p timeout)"
    and "removes [] (cold_search C W pattern p timeout)"
    and "removes [] (cold_read_range C W path ls le p timeout)"
    and "removes [] (cold_apply_patch C W patch p timeout)"
    and "removes [] (cold_run_tests C W template_id target p timeout)"
proof -
  have q: "removes fs (run_with_data C W script data p timeout quiet)" if "set fs = set (map snd data)" for fs script data quiet
    using removes_run_with_data [OF C W, of data script p timeout quiet] that by (simp add: removes_def)
  have post: "removes fs (sbind m (\<lambda>out. sret (g out)))" if "removes fs m" for fs m and g :: "step_out \<Rightarrow> step_out"
    using that by (auto simp: removes_def sbind_def sret_def split: prod.split sum.split) (metis snd_conv)+
  show "removes [] (cold_ensure_deps C W p timeout)"
    unfolding cold_ensure_deps_def by (auto intro!: removes_intros q)
  show "removes [] (cold_search C W pattern p timeout)"
    unfolding cold_search_def by (auto intro!: removes_intros removes_write [OF W] q)
  show "removes [] (cold_read_range C W path ls le p timeout)"
    unfolding cold_read_range_def by (auto intro!: removes_intros removes_write [OF W] q)
  show "removes [] (cold_apply_patch C W patch p timeout)"
    unfolding cold_apply_patch_def by (auto intro!: removes_intros removes_write [OF W] post q split: option.split)
  show "removes [] (cold_run_tests C W template_id target p timeout)"
    unfolding cold_run_tests_def by (auto intro!: removes_intros q split: option.split)
qed


text \<open>A script runs with the data files that its building has written.\<close>

lemma sbind_assoc: "sbind (sbind m f) g = sbind m (\<lambda>x. sbind (f x) g)"
  by (auto simp: sbind_def split: prod.split sum.split)

lemma sbind_sret: "sbind (sret x) g = g x"
  by (simp add: sbind_def sret_def)

lemma removes_run_step_script:
  assumes C: "contained_config C" and W: "fresh_names W"
    and kind: "step_kind step \<in> {''read_file'', ''detect_project'', ''detect_workdirs'', ''run_cmd_template'', ''format_fix''}"
  shows "removes [] (run_step_script C W step p timeout)"
proof -
  have q: "removes fs (measured C W p (run_with_data C W script data p timeout quiet))" if "set fs = set (map snd data)"
    for fs script data quiet
    using removes_measured [OF removes_run_with_data [OF C W, of data script p timeout quiet]] that by (simp add: removes_def)
  have t: "removes [] (template_step C step)"
    unfolding template_step_def by (auto intro!: removes_intros split: sum.split)
  show ?thesis
    using kind unfolding run_step_script_def build_step_script_def
    by (auto simp: with_config_def sbind_assoc sbind_sret intro!: removes_sbind [OF t] removes_sbind [OF removes_fields(1)]
        removes_write [OF W] q)
qed

lemma removes_run:
  assumes C: "contained_config C" and W: "fresh_names W"
  shows "removes [] (run C W repo_id step)"
  unfolding run_def Let_def
  by (intro removes_if removes_sbind [OF removes_exec_dirs] removes_sbind [OF removes_fields(1)]
      removes_sbind [OF removes_fields(6)] removes_sbind [OF removes_measured] removes_basic removes_cold [OF C W])
    (auto intro!: removes_sbind removes_measured removes_fields removes_basic removes_cold [OF C W]
      removes_run_step_script [OF C W] split: option.split)


section \<open>Failures\<close>

definition refusal :: "http_error \<Rightarrow> bool" where
  "refusal e = (case e of HTTPException status detail \<Rightarrow> status \<in> {400, 403, 404} | ServerError p \<Rightarrow> True)"

definition container_failure :: "http_error \<Rightarrow> bool" where
  "container_failure e = (case e of
       HTTPException status detail \<Rightarrow>
         status = 503 \<and> detail = ''docker binary unavailable and local fallback disabled''
         \<or> status = 500 \<and> startswith detail ''executor error: ''
     | ServerError p \<Rightarrow> False)"

text \<open>A computation that refuses before it starts a process, or starts one that docker could not run.\<close>

definition refuses_early :: "(string list \<Rightarrow> bool) \<Rightarrow> ('w, 'a) exe \<Rightarrow> bool" where
  "refuses_early P m \<longleftrightarrow> (\<forall>st e st'. m st = (Inl e, st') \<longrightarrow>
       refusal e \<and> es_procs st' = es_procs st
       \<or> container_failure e \<and> (\<exists>argv. P argv \<and> es_procs st' = es_procs st @ [argv]))"

abbreviation silent :: "('w, 'a) exe \<Rightarrow> bool" where
  "silent m \<equiv> starts (\<lambda>_. False) m"

lemma refuses_early_basic:
  "refuses_early P (sret x)" "refuses_early P (sread f)" "refuses_early P (lift_res r)" "refuses_early P (upd_world g)"
  "refuses_early P (clock_now W)" "refuses_early P (write_data_file W t s)" "refuses_early P (sraise (ServerError q))"
  "c \<in> {400, 403, 404} \<Longrightarrow> refuses_early P (http c d)" "c \<in> {400, 403, 404} \<Longrightarrow> refuses_early P (refuse b c d)"
  by (auto simp: refuses_early_def refusal_def sret_def sraise_def http_def sread_def lift_res_def refuse_def supdate_def
      upd_world_def clock_now_def write_data_file_def sbind_def split: sum.split)

lemma silent_procs: "silent m \<Longrightarrow> es_procs (snd (m st)) = es_procs st"
  by (force simp: starts_def)

lemma refuses_earlyD:
  "refuses_early P m \<Longrightarrow> m st = (Inl e, st') \<Longrightarrow>
     refusal e \<and> es_procs st' = es_procs st
     \<or> container_failure e \<and> (\<exists>argv. P argv \<and> es_procs st' = es_procs st @ [argv])"
  unfolding refuses_early_def by blast

lemma refuses_early_sbind:
  assumes "refuses_early P m" "silent m" "\<And>x. refuses_early P (f x)"
  shows "refuses_early P (sbind m f)"
  unfolding refuses_early_def
proof (intro allI impI)
  fix st e st'
  assume r: "sbind m f st = (Inl e, st')"
  obtain x st1 where m: "m st = (x, st1)" by (cases "m st")
  then have same: "es_procs st1 = es_procs st" using silent_procs [OF assms(2), of st] by simp
  show "refusal e \<and> es_procs st' = es_procs st
       \<or> container_failure e \<and> (\<exists>argv. P argv \<and> es_procs st' = es_procs st @ [argv])"
  proof (cases x)
    case (Inl e')
    with r m have "m st = (Inl e, st')" by (simp add: sbind_def)
    then show ?thesis by (rule refuses_earlyD [OF assms(1)])
  next
    case (Inr y)
    with r m have "f y st1 = (Inl e, st')" by (simp add: sbind_def)
    from refuses_earlyD [OF assms(3) this] show ?thesis by (simp add: same)
  qed
qed

lemma refuses_early_last:
  assumes "refuses_early P m" "\<And>x st e. fst (f x st) \<noteq> Inl e"
  shows "refuses_early P (sbind m f)"
proof -
  have "m st = (Inl e, st')" if "sbind m f st = (Inl e, st')" for st e st'
    using that assms(2) by (auto simp: sbind_def split: prod.splits sum.splits) (metis fst_conv)
  with assms(1) show ?thesis unfolding refuses_early_def by blast
qed

lemma refuses_early_if:
  "(b \<Longrightarrow> refuses_early P m) \<Longrightarrow> (\<not> b \<Longrightarrow> refuses_early P m') \<Longrightarrow> refuses_early P (if b then m else m')"
  by simp

lemmas refuses_intros = refuses_early_basic refuses_early_if refuses_early_sbind

lemma refuses_run_with_data:
  assumes "contained_config C" "\<And>a. isolated (if quiet then ''none'' else ''bridge'') a \<Longrightarrow> P a"
  shows "refuses_early P (run_with_data C W script data p timeout quiet)"
proof -
  have k: "refuses_early P (sbind (start_process W argv timeout) (\<lambda>r. sbind (clock_now W) (\<lambda>t1. case r of
         Exited status text \<Rightarrow> sret (finished_out C net (t1 - t0) status text)
       | TimedOut text \<Rightarrow> sret (stopped_out C net (t1 - t0) text)
       | NotFound \<Rightarrow> http 503 ''docker binary unavailable and local fallback disabled''
       | Crashed e \<Rightarrow> http 500 (''executor error: '' @ e))))" if "P argv" for argv t0 net
    using that
    by (auto simp: refuses_early_def container_failure_def start_process_def sbind_def clock_now_def sread_def sret_def
        http_def sraise_def startswith_def split: prod.splits proc_end.splits)
  have "refuses_early P (run_container C W script sp data p timeout (if quiet then ''none'' else ''bridge''))" for sp
  proof -
    have a: "refuses_early P (sbind (lift_res (container_args C uid net script_path data p)) f)"
      if "net = (if quiet then ''none'' else ''bridge'')" "\<And>argv. P argv \<Longrightarrow> refuses_early P (f argv)" for uid net script_path f
      using that assms(2) container_isolated [of C uid net script_path data p]
      by (cases "container_args C uid net script_path data p")
        (auto simp: lift_res_def sbind_def sraise_def sret_def refuses_early_def refusal_def)
    show ?thesis
      unfolding run_container_def
      by (intro refuses_early_sbind [OF refuses_early_basic(2) starts_basic(4)] a refl
          refuses_early_sbind [OF refuses_early_basic(5) starts_basic(9)])
        (use k assms(1) in \<open>simp add: contained_config_def\<close>)
  qed
  moreover have "refuses_early P (sfinally m (unlink_all fs))" if "refuses_early P m" for fs and m :: "('a, step_out) exe"
    using that by (auto simp: refuses_early_def sfinally_def split: prod.splits)
  ultimately show ?thesis
    using assms(1) by (auto simp: run_with_data_def contained_config_def intro!: refuses_intros starts_intros)
qed

lemma refuses_measured:
  assumes "refuses_early P m"
  shows "refuses_early P (measured C W p m)"
  unfolding measured_def
  by (intro refuses_early_sbind [OF refuses_early_basic(2) starts_basic(4)] refuses_early_last [OF assms])
    (simp add: sbind_def sread_def sret_def)

lemma refuses_exec_dirs: "refuses_early P (exec_dirs C W repo_id run_id)"
  unfolding exec_dirs_def validate_repo_id_def Let_def by (auto intro!: refuses_intros starts_intros)

lemma refuses_fields:
  "refuses_early P (int_field step key d)" "refuses_early P (deps_text C key' d')"
  "refuses_early P (test_target C t name v)" "refuses_early P (normalize_workdir rel)"
  "refuses_early P (require_network_tier C step)"
  by (auto simp: int_field_def deps_text_def test_target_def normalize_workdir_def require_network_tier_def
      Let_def intro!: refuses_intros starts_intros)

lemma refuses_cold:
  assumes C: "contained_config C"
  shows "refuses_early (isolated ''bridge'') (cold_ensure_deps C W p timeout)"
    and "refuses_early (isolated ''none'') (cold_search C W pattern p timeout)"
    and "refuses_early (isolated ''none'') (cold_read_range C W path ls le p timeout)"
    and "refuses_early (isolated ''none'') (cold_apply_patch C W patch p timeout)"
    and "refuses_early (isolated ''none'') (cold_run_tests C W template_id target p timeout)"
    and "step_kind step \<in> {''read_file'', ''detect_project'', ''detect_workdirs'', ''run_cmd_template'', ''format_fix''}
         \<Longrightarrow> refuses_early (isolated ''none'') (run_step_script C W step p timeout)"
proof -
  have q: "refuses_early (isolated ''none'') (run_with_data C W script data p timeout True)" for script data
    by (rule refuses_run_with_data [OF C]) simp
  have t: "refuses_early P (template_step C step)" for P
    unfolding template_step_def by (auto intro!: refuses_intros refuses_fields starts_intros split: sum.split)
  show "refuses_early (isolated ''bridge'') (cold_ensure_deps C W p timeout)"
    unfolding cold_ensure_deps_def by (auto intro!: refuses_intros refuses_fields starts_intros refuses_run_with_data [OF C])
  show "refuses_early (isolated ''none'') (cold_search C W pattern p timeout)"
    unfolding cold_search_def by (auto intro!: refuses_intros starts_intros q)
  show "refuses_early (isolated ''none'') (cold_read_range C W path ls le p timeout)"
    unfolding cold_read_range_def by (auto intro!: refuses_intros starts_intros q)
  show "refuses_early (isolated ''none'') (cold_run_tests C W template_id target p timeout)"
    unfolding cold_run_tests_def
    by (auto intro!: refuses_intros refuses_fields starts_intros q split: option.split)
  have gate: "refuses_early P (case ec_patch_gate C of None \<Rightarrow> sret []
      | Some pol \<Rightarrow> sbind (lift_res (patch_risk_gate pol tx None None None)) (\<lambda>r. sret (g r)))"
    "starts R (case ec_patch_gate C of None \<Rightarrow> sret []
      | Some pol \<Rightarrow> sbind (lift_res (patch_risk_gate pol tx None None None)) (\<lambda>r. sret (g r)))"
    for P R tx and g :: "risk_report \<Rightarrow> string"
    by (auto intro!: refuses_intros starts_intros split: option.split)
  have last: "refuses_early (isolated ''none'') (sbind (run_with_data C W script data p timeout True) (\<lambda>out. sret (g out)))"
    for script data and g :: "step_out \<Rightarrow> step_out"
    by (rule refuses_early_last [OF q]) (simp add: sret_def)
  show "refuses_early (isolated ''none'') (cold_apply_patch C W patch p timeout)"
    unfolding cold_apply_patch_def
    by (intro refuses_early_sbind [OF refuses_early_basic(3) starts_basic(5)] refuses_early_if refuses_early_basic(1)
        refuses_early_sbind [OF gate] refuses_early_sbind [OF refuses_early_basic(6) starts_basic(7)] last)
  show "refuses_early (isolated ''none'') (run_step_script C W step p timeout)"
    if "step_kind step \<in> {''read_file'', ''detect_project'', ''detect_workdirs'', ''run_cmd_template'', ''format_fix''}"
    using that unfolding run_step_script_def build_step_script_def
    by (auto simp: with_config_def sbind_assoc sbind_sret
        intro!: refuses_early_sbind [OF t] refuses_early_sbind [OF refuses_fields(1)]
          refuses_early_sbind [OF refuses_early_basic(6)] starts_intros refuses_measured q)
qed

lemma refuses_run:
  assumes C: "contained_config C"
  shows "refuses_early (isolated (network_for step)) (run C W repo_id step)"
proof -
  have n: "\<And>k. step_kind step = k \<Longrightarrow> network_for step = (if k = ''ensure_deps'' then ''bridge'' else ''none'')"
    by (simp add: network_for_def)
  note last = refuses_cold(1-5) [OF C, THEN refuses_measured, THEN refuses_early_last]
    refuses_cold(6) [OF C, THEN refuses_early_last]
  show ?thesis
    unfolding run_def Let_def
    by (intro refuses_early_if refuses_early_sbind [OF refuses_exec_dirs starts_exec_dirs]
        refuses_early_sbind [OF refuses_fields(1) starts_fields(1)])
      (auto simp: n require_network_tier_def sret_def
        intro!: refuses_early_sbind [OF refuses_early_basic(9) starts_basic(6)]
          refuses_early_sbind [OF refuses_fields(1) starts_fields(1)] last refuses_early_basic
        split: option.split)
qed

end
