(* ===== verification/Executor_Spec.thy ===== *)
theory Executor_Spec
  imports Executor_Facts Shell_Words
begin

text \<open>
  The properties of the executor, each with an application at a concrete configuration and a concrete
  world, in which every process ends at once with the status 0.
\<close>

section \<open>A concrete executor\<close>

definition demo_exec :: exec_config where
  "demo_exec =
     \<lparr>ec_rt = toy_runtime, ec_use_docker = True, ec_local_allowed = False, ec_image = ''rfsn:1'', ec_host_data = ''/srv/rfsn'',
      ec_venv_mode = ''per_run'', ec_deps = [], ec_cmd_templates = [(''unit'', \<lparr>ct_cmd = [''pytest'', ''-q'', ''{target}''],
        ct_target_regex = ''.*'', ct_max_seconds = 60\<rparr>)],
      ec_safe_templates = [(PStr ''lint'', PList [PStr ''ruff'', PStr ''check'', PStr ''a b''])],
      ec_max_read_file = 1000, ec_max_workdirs = 5, ec_network_min_tier = 3, ec_max_log = 4, ec_max_artifact_dir = 100,
      ec_max_artifact_delta = 10, ec_patch_gate = None, ec_pool_enabled = True, ec_pool_max_log = 100, ec_idle_ttl = 60,
      ec_json = (\<lambda>v. ''{}''), ec_fullmatch = (\<lambda>r s. True), ec_library = (\<lambda>f. [])\<rparr>"

definition demo_world :: "proc_end \<Rightarrow> nat exec_world" where
  "demo_world r =
     \<lparr>ew_process = (\<lambda>files argv timeout w. (r, w + 1)), ew_stream = (\<lambda>files argv w. ([Ended 0 ''done''], w + 1)),
      ew_temp_name = (\<lambda>s ns. replicate (sum_list (map length ns) + 1) (CHR ''t'')), ew_uuid = (\<lambda>w. ''0123456789''),
      ew_clock = (\<lambda>w. of_nat w), ew_isdir = (\<lambda>d w. True), ew_exists = (\<lambda>d w. True), ew_file_sizes = (\<lambda>d w. []),
      ew_makedirs = (\<lambda>d w. w), ew_rmtree = (\<lambda>d w. w)\<rparr>"

definition demo_exec_state :: "nat exec_state" where
  "demo_exec_state = \<lparr>es_world = 0, es_tmp = [(''t'', ''kept'')], es_procs = [], es_pool = []\<rparr>"

definition lint_step :: pydict where
  "lint_step = [(PStr ''type'', PStr ''run_cmd_template''), (PStr ''template'', PStr ''lint''), (PStr ''workdir'', PStr ''pkg'')]"

lemma demo_contained: "contained_config demo_exec"
  by (simp add: contained_config_def demo_exec_def)

lemma demo_fresh: "fresh_names (demo_world r)"
proof -
  have "replicate (sum_list (map length ns) + 1) c \<notin> set ns" for ns and c :: char
  proof
    assume "replicate (sum_list (map length ns) + 1) c \<in> set ns"
    then have "length (replicate (sum_list (map length ns) + 1) c) \<in> set (map length ns)" by (metis image_eqI list.set_map)
    then show False using member_le_sum_list [of "sum_list (map length ns) + 1" "map length ns"] by simp
  qed
  then show ?thesis by (simp add: fresh_names_def demo_world_def)
qed

lemma demo_fields:
  "ec_use_docker demo_exec" "\<not> ec_local_allowed demo_exec" "ec_rt demo_exec = toy_runtime"
  "ew_isdir (demo_world r) d w" "ew_makedirs (demo_world r) d w = w" "ew_uuid (demo_world r) w = ''0123456789''"
  "ew_process (demo_world r) files argv t w = (r, w + 1)" "ec_max_log demo_exec = 4"
  "ec_host_data demo_exec = ''/srv/rfsn''"
  by (simp_all add: demo_exec_def demo_world_def)

lemma demo_dirs:
  "exec_dirs demo_exec (demo_world r) ''repo'' [] st = (Inr (host_paths demo_exec ''repo'' []), st)"
proof -
  have "(rx_match SAFE_REPO_ID ''repo'' = None) = False" by code_simp
  moreover have "occurs_in ''..'' ''repo'' = False" by code_simp
  moreover have "\<not> (\<exists>d \<in> {ep_repo p, ep_artifacts p, ep_venv p, ep_wheels p}. \<not> startswith d ''/data/'')"
    if "p = local_paths demo_exec ''repo'' []" for p
    unfolding that by code_simp
  ultimately show ?thesis
    by (simp add: exec_dirs_def validate_repo_id_def Let_def sbind_def refuse_def sret_def upd_world_def supdate_def sread_def
        demo_fields del: not_None_eq)
qed

lemma demo_process:
  "\<exists>argv. es_procs (snd (run_with_data demo_exec (demo_world (Exited n t)) script data (host_paths demo_exec ''repo'' []) timeout True st))
     = es_procs st @ [argv]"
proof -
  have "ep_repo (host_paths demo_exec ''repo'' []) \<noteq> []" by code_simp
  then have "\<exists>argv. container_args demo_exec ''0123456789'' ''none'' sp data (host_paths demo_exec ''repo'' []) = Inr argv" for sp
    by (simp add: container_args_def docker_args_def work_mount_def)
  then obtain f where "container_args demo_exec ''0123456789'' ''none'' sp data (host_paths demo_exec ''repo'' []) = Inr (f sp)" for sp
    by metis
  then show ?thesis
    by (simp add: run_with_data_def run_container_def demo_fields write_data_file_def sbind_def sread_def supdate_def sret_def
        sfinally_def lift_res_def start_process_def clock_now_def)
qed

lemma demo_lint: "build_step_script demo_exec W (step_kind lint_step) lint_step st
   = (Inr (template_script ''pkg'' (shell_line [''ruff'', ''check'', ''a b'']), []), st)"
proof -
  have "step_kind lint_step = ''run_cmd_template''" by code_simp
  moreover have "safe_template demo_exec (py_str toy_runtime (field_or lint_step ''template'' (PStr []))) = Inr [''ruff'', ''check'', ''a b'']"
    by code_simp
  moreover have "py_str toy_runtime (field_or lint_step ''workdir'' (PStr ''.'')) = ''pkg''" by code_simp
  moreover have "normalize_workdir ''pkg'' st = (Inr ''pkg'', st)"
  proof -
    have "strip ''pkg'' = ''pkg''" "''..'' \<notin> set (split_char slash ''pkg'')" by code_simp+
    then show ?thesis by (simp add: normalize_workdir_def startswith_def sret_def)
  qed
  ultimately show ?thesis
    by (simp add: build_step_script_def template_step_def sbind_def sret_def demo_fields)
qed


lemma demo_run:
  "\<exists>argv. es_procs (snd (run demo_exec (demo_world (Exited n t)) ''repo'' lint_step st)) = es_procs st @ [argv]"
proof -
  have "step_kind lint_step = ''run_cmd_template''" by code_simp
  moreover have "py_int (field_or lint_step ''timeout_s'' (PInt 240)) = Inr 240" by code_simp
  ultimately show ?thesis
    using demo_process [of n t "template_script ''pkg'' (shell_line [''ruff'', ''check'', ''a b''])" "[]" 240 st]
    by (auto simp: run_def demo_dirs sbind_def int_field_def lift_res_def sret_def run_step_script_def
        demo_lint [simplified \<open>step_kind lint_step = ''run_cmd_template''\<close>] measured_def sread_def
        split: prod.splits sum.splits)
qed


section \<open>Processes\<close>

text \<open>C14: Without local execution every process that a step starts, on every path and also when the
  step fails, is a container with the fixed restrictions of the capsule, with the mounts of the run and
  with no network unless the step installs dependencies; and the step is of a known kind and has passed
  its checks: the tier and the grant of the network, the length of a pattern, a path inside the
  repository, the gate on a patch, an allow-listed test template with a target that its expression
  accepts and that has no shell character.\<close>

theorem executor_contains_steps:
  assumes "contained_config C"
  shows "\<exists>more. es_procs (snd (run C W repo_id step st)) = es_procs st @ more
     \<and> list_all (\<lambda>argv. isolated (network_for step) argv \<and> step_admitted C step) more"
  using starts_run [OF assms, of step W repo_id] unfolding starts_def list_all_iff by blast

lemma executor_contains_steps_witness:
  "es_procs (snd (run demo_exec (demo_world (Exited 0 ''finished'')) ''repo'' lint_step demo_exec_state)) \<noteq> []
   \<and> list_all (\<lambda>argv. isolated (network_for lint_step) argv \<and> step_admitted demo_exec lint_step)
       (es_procs (snd (run demo_exec (demo_world (Exited 0 ''finished'')) ''repo'' lint_step demo_exec_state)))"
  using executor_contains_steps [OF demo_contained, of "demo_world (Exited 0 ''finished'')" "''repo''" lint_step demo_exec_state]
    demo_run [of 0 "''finished''" demo_exec_state]
  by (auto simp: demo_exec_state_def)

section \<open>Temporary files\<close>



section \<open>Errors\<close>




section \<open>Command lines\<close>

lemma template_words_texts:
  "template_words vs = Some ws \<Longrightarrow> vs = map PStr ws \<and> (\<forall>w \<in> set ws. strip w \<noteq> [])"
proof (induction vs arbitrary: ws)
  case (Cons v vs)
  then show ?case by (cases v) (auto split: if_splits)
qed simp

lemma safe_template_listed:
  assumes "safe_template C name = Inr argv"
  shows "dget (ec_safe_templates C) name = Some (PList (map PStr argv))" "argv \<noteq> []"
  using assms
  by (auto simp: safe_template_def split: option.splits pyval.splits if_splits dest!: template_words_texts)

lemma normalize_workdir_returns:
  assumes "normalize_workdir rel st = (Inr w, st')"
  shows "\<not> unsafe_path w \<and> \<not> startswith w ''~''"
  using assms
  by (auto simp: normalize_workdir_def Let_def http_bind unsafe_path_def isabs_def startswith_def split_char_def
      split: if_splits)



section \<open>Bounds\<close>

lemma take_bytes_length: "0 \<le> k \<Longrightarrow> int (utf8_length (take_bytes k s)) \<le> k"
proof (induction s arbitrary: k)
  case Nil
  then show ?case by (simp add: utf8_length_def)
next
  case (Cons c s)
  have split: "utf8_length (c # t) = utf8_length [c] + utf8_length t" for t
    by (simp add: utf8_length_def)
  show ?case
  proof (cases "int (utf8_length [c]) \<le> k")
    case True
    then show ?thesis using Cons.IH [of "k - int (utf8_length [c])"] by (simp add: split [of "take_bytes _ _"])
  next
    case False
    then show ?thesis using Cons.prems by (simp add: utf8_length_def)
  qed
qed

lemma take_bytes_prefix: "prefix (take_bytes k s) s"
  by (induction s arbitrary: k) (auto simp: Let_def)

lemma truncate_text_bound:
  "0 < k \<Longrightarrow> int (utf8_length (fst (truncate_text s k))) \<le> k"
  by (simp add: truncate_text_def take_bytes_length)

definition bounded_result :: "exec_config \<Rightarrow> step_result \<Rightarrow> bool" where
  "bounded_result C r \<longleftrightarrow> int (utf8_length (xr_logs r)) \<le> ec_max_log C"

lemma bounded_result_of_out: "0 < ec_max_log C \<Longrightarrow> bounded_result C (result_of_out C out n)"
  using truncate_text_bound [of "ec_max_log C" "so_logs out"]
  by (auto simp: bounded_result_def result_of_out_def split: prod.split)


definition yields :: "('a \<Rightarrow> bool) \<Rightarrow> ('w, 'a) exe \<Rightarrow> bool" where
  "yields Q m \<longleftrightarrow> (\<forall>st x st'. m st = (Inr x, st') \<longrightarrow> Q x)"

lemma yields_intros:
  "Q x \<Longrightarrow> yields Q (sret x)" "yields Q (sraise e)" "yields Q (http c d)"
  "(\<And>x. yields Q (f x)) \<Longrightarrow> yields Q (sbind m f)"
  "(b \<Longrightarrow> yields Q m1) \<Longrightarrow> (\<not> b \<Longrightarrow> yields Q m2) \<Longrightarrow> yields Q (if b then m1 else m2)"
  by (auto simp: yields_def http_bind sraise_def)

lemma yields_run: "0 < ec_max_log C \<Longrightarrow> yields (bounded_result C) (run C W repo_id step)"
  unfolding run_def Let_def
  by (auto intro!: yields_intros bounded_result_of_out split: option.split)

lemma yields_run_warm: "0 < ec_max_log C \<Longrightarrow> yields (bounded_result C) (run_warm C W run_id repo_id step)"
  unfolding run_warm_def Let_def
  by (auto intro!: yields_intros bounded_result_of_out yields_run split: prod.split)

text \<open>C21: The log in the result of a step, ephemeral or warm, needs at most the configured number of
  bytes, however much the script has printed.\<close>

theorem executor_logs_bounded:
  assumes "0 < ec_max_log C" "r = run C W repo_id step st \<or> r = run_warm C W run_id repo_id step st"
  shows "case fst r of Inl e \<Rightarrow> True | Inr x \<Rightarrow> int (utf8_length (xr_logs x)) \<le> ec_max_log C"
proof (cases "fst r")
  case (Inr x)
  then have "run C W repo_id step st = (Inr x, snd r) \<or> run_warm C W run_id repo_id step st = (Inr x, snd r)"
    using assms(2) by (metis prod.collapse)
  then have "bounded_result C x"
    using yields_run [OF assms(1)] yields_run_warm [OF assms(1)] unfolding yields_def by blast
  with Inr show ?thesis by (simp add: bounded_result_def)
qed simp

lemma executor_logs_bounded_witness:
  "case fst (run demo_exec (demo_world (Exited 0 ''finished'')) ''repo'' lint_step demo_exec_state) of
     Inl e \<Rightarrow> True | Inr x \<Rightarrow> int (utf8_length (xr_logs x)) \<le> 4"
  using executor_logs_bounded [of demo_exec "run demo_exec (demo_world (Exited 0 ''finished'')) ''repo'' lint_step demo_exec_state"
      "demo_world (Exited 0 ''finished'')" "''repo''" lint_step demo_exec_state "[]"]
  unfolding demo_fields by simp

section \<open>Directories\<close>

lemma id_char_plain: "id_char c \<Longrightarrow> c \<noteq> slash \<and> c \<noteq> CHR 10"
  by (auto simp: id_char_def alnum_ascii_def code_def)

lemma valid_repo_id:
  assumes "validate_repo_id repo_id st = (Inr u, st')"
  shows "repo_id \<noteq> []" "slash \<notin> set repo_id" "repo_id \<noteq> ''..''"
proof -
  from assms have m: "rx_match SAFE_REPO_ID repo_id \<noteq> None" "\<not> occurs_in ''..'' repo_id"
    by (auto simp: validate_repo_id_def http_bind)
  then obtain t where "t \<in> set (rx_run SAFE_REPO_ID (m_start repo_id))"
    unfolding rx_match_def by (cases "rx_run SAFE_REPO_ID (m_start repo_id)") auto
  moreover define R where "R = rrange 1 128 (RSet id_char)"
  ultimately obtain t1 where "t1 \<in> set (rx_run R (m_start repo_id))" and nl: "m_rest t1 = [] \<or> m_rest t1 = [CHR 10]"
    unfolding SAFE_REPO_ID_def by (auto simp: m_start_def split: if_splits)
  then have t1: "t1 \<in> set (rx_run (rrange 1 128 (RSet id_char)) (m_start repo_id))" by (simp only: R_def)
  from rx_run_range_set [OF t1(1)] obtain u where u: "repo_id = u @ m_rest t1" "1 \<le> length u" "\<forall>c \<in> set u. id_char c"
    by (auto simp: m_start_def)
  then show "repo_id \<noteq> []" by auto
  have "slash \<notin> set u" using u(3) id_char_plain by blast
  moreover have "slash \<notin> set (m_rest t1)" using nl by auto
  ultimately show "slash \<notin> set repo_id" by (simp add: u(1))
  show "repo_id \<noteq> ''..''"
  proof
    assume "repo_id = ''..''"
    moreover have "occurs_in ''..'' ''..''" by code_simp
    ultimately show False using m(2) by simp
  qed
qed


lemma split_on_plain: "sep \<notin> set s \<Longrightarrow> split_on sep cur s = [rev cur @ s]"
  by (induction s arbitrary: cur) auto

lemma split_three:
  assumes "sep \<notin> set a" "sep \<notin> set b"
  shows "split_char sep (sep # a @ sep # b @ sep # c) = [] # a # b # split_on sep [] c"
  using assms by (simp add: split_char_def split_on_append split_on_plain)

lemma abspath_plain:
  assumes "slash \<notin> set kind" "slash \<notin> set name" "kind \<notin> {[], ''.'', ''..''}" "name \<notin> {[], ''.'', ''..''}"
  shows "abspath ''/'' (''/data/'' @ kind @ ''/'' @ name) = ''/data/'' @ kind @ ''/'' @ name"
    and "sub \<notin> {[], ''.'', ''..''} \<Longrightarrow> slash \<notin> set sub \<Longrightarrow>
      abspath ''/'' (''/data/'' @ kind @ ''/'' @ name @ ''/'' @ sub) = ''/data/'' @ kind @ ''/'' @ name @ ''/'' @ sub"
  using assms
  by (auto simp: abspath_def abs_comps_def isabs_def Let_def split_three [of slash "''data''" kind, simplified] split_on_append
      split_on_plain)

lemma safe_run_plain: "slash \<notin> set (safe_run run_id)"
  using id_char_plain [of slash] by (auto simp: safe_run_def dest!: in_set_takeD)

text \<open>The directory of a repository below a base directory.\<close>

definition repo_dir :: "string \<Rightarrow> string \<Rightarrow> string \<Rightarrow> string" where
  "repo_dir base kind repo_id = base @ ''/'' @ kind @ ''/'' @ repo_id"

lemma local_paths_plain:
  assumes "slash \<notin> set repo_id" "repo_id \<notin> {[], ''.'', ''..''}" "safe_run run_id \<notin> {''.'', ''..''}"
  shows "local_paths C repo_id run_id =
    \<lparr>ep_repo = repo_dir ''/data'' ''repos'' repo_id, ep_artifacts = repo_dir ''/data'' ''artifacts'' repo_id,
     ep_venv = repo_dir ''/data'' ''venv'' repo_id @ (if own_venv C run_id then slash # safe_run run_id else []),
     ep_wheels = repo_dir ''/data'' ''wheels'' repo_id\<rparr>"
proof -
  have "safe_run run_id \<noteq> []" if "own_venv C run_id"
    using that by (auto simp: own_venv_def safe_run_def)
  then show ?thesis
    using assms safe_run_plain [of run_id] abspath_plain(1) [of "''repos''" repo_id] abspath_plain(1) [of "''artifacts''" repo_id]
      abspath_plain(1) [of "''venv''" repo_id] abspath_plain(2) [of "''venv''" repo_id "safe_run run_id"]
      abspath_plain(1) [of "''wheels''" repo_id]
    by (auto simp: local_paths_def repo_dir_def)
qed

lemma path_join_plain: "b = [] \<or> hd b \<noteq> slash \<Longrightarrow> a \<noteq> [] \<Longrightarrow> last a \<noteq> slash \<Longrightarrow> path_join a b = a @ slash # b"
  by (cases b) (auto simp: path_join_def isabs_def suffix_def)

lemma host_paths_plain:
  assumes "slash \<notin> set repo_id" "repo_id \<noteq> []" "ec_host_data C \<noteq> []" "last (ec_host_data C) \<noteq> slash"
  shows "host_paths C repo_id run_id =
    \<lparr>ep_repo = repo_dir (ec_host_data C) ''repos'' repo_id, ep_artifacts = repo_dir (ec_host_data C) ''artifacts'' repo_id,
     ep_venv = repo_dir (ec_host_data C) ''venv'' repo_id @ (if own_venv C run_id then slash # safe_run run_id else []),
     ep_wheels = repo_dir (ec_host_data C) ''wheels'' repo_id\<rparr>"
proof -
  have hd: "xs = [] \<or> hd xs \<noteq> slash" if "slash \<notin> set xs" for xs
    using that by (cases xs) auto
  have last: "last repo_id \<noteq> slash" using assms(1,2) last_in_set by metis
  show ?thesis
    using assms last hd [OF safe_run_plain] hd [OF assms(1)]
    by (simp add: host_paths_def Let_def repo_dir_def path_join_plain)
qed


text \<open>A request that gets directories names a repository without a slash, different from the parent
  directory, that exists; unless the name is a single dot, its directories are exactly those of that name
  below the data directory, one of each kind, so two names never share one. The environment of a run is
  below the one of the repository.\<close>

theorem executor_dirs_confined:
  assumes "exec_dirs C W repo_id run_id st = (Inr p, st')"
    and "repo_id \<noteq> ''.''" "safe_run run_id \<notin> {''.'', ''..''}"
    and "ec_host_data C \<noteq> []" "last (ec_host_data C) \<noteq> slash"
  defines "base \<equiv> if ec_use_docker C then ec_host_data C else ''/data''"
  shows "slash \<notin> set repo_id \<and> repo_id \<notin> {[], ''.'', ''..''}
    \<and> ew_isdir W (repo_dir ''/data'' ''repos'' repo_id) (es_world st')
    \<and> p = \<lparr>ep_repo = repo_dir base ''repos'' repo_id, ep_artifacts = repo_dir base ''artifacts'' repo_id,
           ep_venv = repo_dir base ''venv'' repo_id @ (if own_venv C run_id then slash # safe_run run_id else []),
           ep_wheels = repo_dir base ''wheels'' repo_id\<rparr>"
proof -
  from assms(1) obtain st1 where v: "validate_repo_id repo_id st = (Inr (), st1)"
    and d: "ew_isdir W (ep_repo (local_paths C repo_id run_id)) (es_world st')"
    and p: "p = (if ec_use_docker C then host_paths C repo_id run_id else local_paths C repo_id run_id)"
    by (auto simp: exec_dirs_def Let_def http_bind upd_world_def split: if_splits)
  note n = valid_repo_id [OF v]
  from n assms(2,3) have l: "local_paths C repo_id run_id =
    \<lparr>ep_repo = repo_dir ''/data'' ''repos'' repo_id, ep_artifacts = repo_dir ''/data'' ''artifacts'' repo_id,
     ep_venv = repo_dir ''/data'' ''venv'' repo_id @ (if own_venv C run_id then slash # safe_run run_id else []),
     ep_wheels = repo_dir ''/data'' ''wheels'' repo_id\<rparr>"
    by (intro local_paths_plain) auto
  show ?thesis
    using n assms(2) d p host_paths_plain [OF n(2,1) assms(4,5)]
    unfolding l base_def by (cases "ec_use_docker C") auto
qed

lemma executor_dirs_confined_witness:
  "host_paths demo_exec ''repo'' [] =
     \<lparr>ep_repo = repo_dir ''/srv/rfsn'' ''repos'' ''repo'', ep_artifacts = repo_dir ''/srv/rfsn'' ''artifacts'' ''repo'',
      ep_venv = repo_dir ''/srv/rfsn'' ''venv'' ''repo'', ep_wheels = repo_dir ''/srv/rfsn'' ''wheels'' ''repo''\<rparr>"
proof -
  have "safe_run [] \<notin> {''.'', ''..''}" "last ''/srv/rfsn'' \<noteq> slash" by code_simp+
  then show ?thesis
    using executor_dirs_confined [OF demo_dirs [of "Exited 0 ''finished''" demo_exec_state]]
    by (simp add: demo_fields own_venv_def)
qed

section \<open>Warm sandboxes\<close>

text \<open>The commands by which the pool makes, looks at, fills, uses and removes a sandbox. A new one has the
  restrictions of the capsule and no network.\<close>

definition pool_command :: "string list \<Rightarrow> bool" where
  "pool_command argv \<longleftrightarrow>
     (\<exists>name mounts image rest. mount_args mounts \<and>
        argv = [''docker'', ''run'', ''-d'', ''--name'', name, ''--network'', ''none''] @ DOCKER_LIMITS ''2g'' @ mounts
               @ [image, ''bash'', ''-c'', rest])
     \<or> (\<exists>cmd \<in> {''inspect'', ''exec'', ''cp'', ''rm''}. \<exists>rest. argv = [''docker'', cmd] @ rest)"

lemma pool_command_sandbox:
  assumes "sandbox_args C run_id p = Inr argv"
  shows "pool_command argv"
proof -
  let ?m = "[''-v'', ep_repo p @ '':/mnt/repo_ro:ro'', ''--tmpfs'', ''/work/repo:rw,exec,nosuid,nodev,size=512m'',
             ''--tmpfs'', ''/tmp:rw,exec,nosuid,nodev,size=256m''] @ run_mounts p"
  have "mount_args ?m" by (simp add: mount_args_append mount_args_parts)
  moreover from assms obtain name rest where
    "argv = [''docker'', ''run'', ''-d'', ''--name'', name, ''--network'', ''none''] @ DOCKER_LIMITS ''2g'' @ ?m
            @ [ec_image C, ''bash'', ''-c'', rest]"
    by (auto simp: sandbox_args_def docker_args_def work_mount_def DOCKER_HEAD_def entrypoint_cmd_def Let_def ebind_Inr_iff)
  ultimately show ?thesis unfolding pool_command_def by blast
qed

lemma pool_commands [intro]:
  "pool_command (''docker'' # ''inspect'' # rest)" "pool_command (''docker'' # ''exec'' # rest)"
  "pool_command (''docker'' # ''cp'' # rest)" "pool_command (''docker'' # ''rm'' # rest)"
  by (auto simp: pool_command_def)

lemma starts_touch: "starts P (supdate f)" if "\<And>st. es_procs (f st) = es_procs st"
  using that by (intro starts_silent) (simp add: supdate_def)

lemma starts_guarded:
  assumes "starts P m" "\<And>st. es_procs (g st) = es_procs st" "\<And>x. starts P (f x)"
  shows "starts P (\<lambda>st. case m st of (Inl e, st') \<Rightarrow> (Inl e, g st') | (Inr x, st') \<Rightarrow> f x st')"
proof -
  have "starts P (sbind m f)" by (intro starts_sbind assms)
  moreover have "es_procs (snd (case m st of (Inl e, st') \<Rightarrow> (Inl e, g st') | (Inr x, st') \<Rightarrow> f x st'))
      = es_procs (snd (sbind m f st))" for st
    using assms(2) by (simp add: sbind_def split: prod.split sum.split)
  ultimately show ?thesis unfolding starts_def by simp
qed

lemma starts_stream:
  assumes "P argv"
  shows "starts P (\<lambda>st. case ew_stream W (es_tmp st) argv (es_world st) of (events, w) \<Rightarrow>
    (Inr events, st\<lparr>es_world := w, es_procs := es_procs st @ [argv]\<rparr>))"
  using assms by (simp add: starts_def split: prod.split)

lemma starts_pool:
  "starts pool_command (get_or_create C W run_id p)" "starts pool_command (exec_in C W sb script data)"
  "starts pool_command (destroy_run W run_id)"
proof -
  have checked: "starts pool_command (run_checked W argv t)" "starts pool_command (run_quietly W argv t)"
    if "pool_command argv" for argv t
    using that by (auto simp: run_checked_def run_quietly_def intro!: starts_intros split: proc_end.split)
  have live: "starts pool_command (live_sandbox W run_id)"
    by (auto simp: live_sandbox_def is_alive_def intro!: starts_intros split: option.split)
  have destroy: "starts pool_command (destroy_container W sb)" for sb
    by (auto simp: destroy_container_def intro!: starts_intros)
  have create: "starts pool_command (create_sandbox C W run_id p)"
    unfolding create_sandbox_def
    by (rule starts_after_lift)
      (auto simp: Let_def dest: pool_command_sandbox intro!: starts_intros pool_commands split: proc_end.split)
  show "starts pool_command (get_or_create C W run_id p)"
    unfolding get_or_create_def
    by (auto intro!: starts_sbind [OF live] starts_sbind [OF create] starts_sbind [OF destroy] starts_intros starts_touch
        split: option.split)
  show "starts pool_command (destroy_run W run_id)"
    unfolding destroy_run_def by (auto intro!: starts_intros starts_touch destroy split: option.split)
  have stream: "starts pool_command (stream_script C W cid)" for cid
    unfolding stream_script_def Let_def
    by (intro starts_sbind [OF starts_basic(9)] starts_sbind [OF starts_stream])
      (auto intro!: starts_intros split: prod.split)
  have copies: "starts pool_command (with_copies W cid copied data body)" if "starts pool_command body"
    for cid copied and data :: "(string \<times> string) list" and body
    using that
  proof (induction data arbitrary: copied)
    case (Cons d data)
    have "starts pool_command (copy_data W cid cpath hpath)" for cpath hpath
      unfolding copy_data_def run_checked_def run_quietly_def
      by (auto intro!: starts_intros pool_commands split: proc_end.split)
    then show ?case using Cons by (cases d) (auto intro!: starts_guarded)
  qed (auto intro!: starts_intros)
  show "starts pool_command (exec_in C W sb script data)"
    unfolding exec_in_def
    by (auto intro!: starts_sbind [OF starts_basic(9)] starts_sbind [OF starts_basic(7)] starts_sbind [OF starts_touch]
        starts_guarded checked copies stream simp: touch_def)
qed


lemma starts_run_warm:
  assumes "contained_config C"
  shows "starts (\<lambda>argv. pool_command argv
       \<or> (step_kind step = ''ensure_deps'' \<or> \<not> ec_pool_enabled C) \<and> isolated (network_for step) argv \<and> step_admitted C step)
     (run_warm C W run_id repo_id step)"
    (is "starts ?Q _")
proof -
  have pool: "starts ?Q m" if "starts pool_command m" for m :: "('a, 'b) exe"
    using that by (rule starts_mono) blast
  have cold: "starts ?Q (run C W repo_id step)" if "step_kind step = ''ensure_deps'' \<or> \<not> ec_pool_enabled C"
    using that by (intro starts_mono [OF starts_run [OF assms, of step]]) blast
  have verify: "starts pool_command (verify_patch_result C W sb out)" for sb out
    unfolding verify_patch_result_def Let_def
    by (auto intro!: starts_if starts_basic starts_sbind starts_pool(2))
  show ?thesis
    unfolding run_warm_def Let_def require_network_tier_def validate_repo_id_def
    by (intro starts_if cold starts_sbind [OF starts_exec_dirs] starts_sbind [OF starts_fields(1)]
        starts_sbind [OF starts_sbind [OF starts_basic(6)]] starts_sbind [OF starts_basic(6)] starts_sbind [OF pool [OF starts_pool(1)]]
        starts_sbind [OF starts_build] starts_basic)
      (auto intro!: starts_sbind [OF starts_measured [OF starts_pool(2)]] starts_sbind starts_if verify starts_basic cold pool
        split: prod.split)
qed

text \<open>On the warm path every process is one of the commands of the pool, in which a new sandbox has the
  restrictions of the capsule and no network, or, for the installation of dependencies and without a
  pool, the ephemeral container of a step that has passed the checks of the ephemeral path.\<close>

theorem warm_steps_stay_in_sandbox:
  assumes "contained_config C"
  shows "\<exists>more. es_procs (snd (run_warm C W run_id repo_id step st)) = es_procs st @ more
     \<and> list_all (\<lambda>argv. pool_command argv
          \<or> (step_kind step = ''ensure_deps'' \<or> \<not> ec_pool_enabled C) \<and> isolated (network_for step) argv
             \<and> step_admitted C step) more"
  using starts_run_warm [OF assms, of step W run_id repo_id] unfolding starts_def list_all_iff by blast

lemma warm_steps_stay_in_sandbox_witness:
  "list_all (\<lambda>argv. pool_command argv
       \<or> (step_kind lint_step = ''ensure_deps'' \<or> \<not> ec_pool_enabled demo_exec) \<and> isolated (network_for lint_step) argv
          \<and> step_admitted demo_exec lint_step)
     (es_procs (snd (run_warm demo_exec (demo_world (Exited 0 ''true'')) ''r1'' ''repo'' lint_step demo_exec_state)))"
  using warm_steps_stay_in_sandbox [OF demo_contained, of "demo_world (Exited 0 ''true'')" "''r1''" "''repo''" lint_step demo_exec_state]
  by (auto simp: demo_exec_state_def)

section \<open>What the warm path does not check\<close>

text \<open>The script that looks for the effect of a patch prints none of the marks that the reading of its
  output waits for; without the marks a patch counts as having touched no file.\<close>

lemma unmarked_stat_lines:
  "\<forall>l \<in> set ls. \<not> occurs_in ''---PATCH_STAT_START---'' l \<Longrightarrow> stat_lines False m ls = m"
  by (induction ls) auto

lemma unmarked_output_is_no_patch:
  assumes "\<forall>l \<in> set (splitlines logs). \<not> occurs_in ''---PATCH_STAT_START---'' l"
  shows "pm_files_touched (parse_patch_stat logs) = 0"
  using unmarked_stat_lines [OF assms] by (simp add: parse_patch_stat_def)

lemma stat_script_is_unmarked: "\<not> occurs_in ''PATCH_STAT'' STAT_SCRIPT"
  by code_simp

text \<open>A target without its checks ends the quotation around its place holder: the shell reads two
  commands.\<close>

lemma unchecked_target_is_a_command:
  "shell_commands (test_command [''pytest'', ''-q'', ''{target}''] '';rm -rf x'')
     = Some [[''pytest'', ''-q'', []], [''rm'', ''-rf'', ''x'']]"
  by code_simp

lemma dot_is_a_repo_id: "fst (validate_repo_id ''.'' ()) = Inr ()"
  by code_simp

lemma newline_in_repo_id: "fst (validate_repo_id [CHR ''a'', CHR 10] ()) = Inr ()"
  by code_simp

end
