(* ===== verification/Sandbox_Race.thy ===== *)
theory Sandbox_Race
  imports Prelude
begin

text \<open>
  The critical sections of the sandbox pool, \<open>services/executor/sandbox_pool.py\<close>, as threads run them:
  \<open>get_or_create\<close> looks into the pool under the lock, creates a container without the lock and enters it
  under the lock unless another one has been entered; \<open>destroy\<close> and the reaper take a sandbox out of the
  pool under the lock and remove its container afterwards. Containers may die at any time. The name of a
  container is computed from the run, and docker has at most one container of a name, running or not.
\<close>

section \<open>Threads\<close>

datatype pool_pc =
    Idle
  | Missed string
  | Created string nat
  | Doomed nat
  | Served nat

text \<open>Docker has at most one container of a name, running or not.\<close>

record pool_state =
  ps_pool :: "string \<Rightarrow> nat option"
  ps_names :: "string \<Rightarrow> nat option"
  ps_running :: "nat \<Rightarrow> bool"
  ps_next :: nat
  ps_pc :: "nat \<Rightarrow> pool_pc"

text \<open>\<open>sb and self._is_alive(sb)\<close>.\<close>

definition pool_live :: "pool_state \<Rightarrow> string \<Rightarrow> nat option" where
  "pool_live s r = (case ps_pool s r of None \<Rightarrow> None | Some c \<Rightarrow> if ps_running s c then Some c else None)"

definition goto :: "nat \<Rightarrow> pool_pc \<Rightarrow> pool_state \<Rightarrow> pool_state" where
  "goto t pc s = s\<lparr>ps_pc := (ps_pc s)(t := pc)\<rparr>"

inductive pool_step :: "pool_state \<Rightarrow> pool_state \<Rightarrow> bool" where
  hit: "ps_pc s t = Idle \<Longrightarrow> pool_live s r = Some c \<Longrightarrow> pool_step s (goto t (Served c) s)"
| miss: "ps_pc s t = Idle \<Longrightarrow> pool_live s r = None \<Longrightarrow> pool_step s (goto t (Missed r) s)"
| create: "ps_pc s t = Missed r \<Longrightarrow> ps_names s r = None \<Longrightarrow>
    pool_step s (goto t (Created r (ps_next s))
      (s\<lparr>ps_names := (ps_names s)(r \<mapsto> ps_next s), ps_running := (ps_running s)(ps_next s := True),
         ps_next := Suc (ps_next s)\<rparr>))"
| create_failed: "ps_pc s t = Missed r \<Longrightarrow> pool_step s (goto t Idle s)"
| enter: "ps_pc s t = Created r c \<Longrightarrow> pool_live s r = None \<Longrightarrow>
    pool_step s (goto t (Served c) (s\<lparr>ps_pool := (ps_pool s)(r \<mapsto> c)\<rparr>))"
| lost: "ps_pc s t = Created r c \<Longrightarrow> pool_live s r = Some d \<Longrightarrow> pool_step s (goto t (Doomed c) s)"
| take_out: "ps_pc s t = Idle \<Longrightarrow> ps_pool s r = Some c \<Longrightarrow>
    pool_step s (goto t (Doomed c) (s\<lparr>ps_pool := (ps_pool s)(r := None)\<rparr>))"
| remove: "ps_pc s t = Doomed c \<Longrightarrow>
    pool_step s (goto t Idle
      (s\<lparr>ps_names := (\<lambda>n. if ps_names s n = Some c then None else ps_names s n),
         ps_running := (ps_running s)(c := False)\<rparr>))"
| served: "ps_pc s t = Served c \<Longrightarrow> pool_step s (goto t Idle s)"
| die: "ps_running s c \<Longrightarrow> pool_step s (s\<lparr>ps_running := (ps_running s)(c := False)\<rparr>)"

definition pool_start :: pool_state where
  "pool_start = \<lparr>ps_pool = (\<lambda>_. None), ps_names = (\<lambda>_. None), ps_running = (\<lambda>_. False), ps_next = 0, ps_pc = (\<lambda>_. Idle)\<rparr>"

section \<open>The invariant\<close>

text \<open>Every container belongs to the pool or to a thread that will enter or remove it.\<close>

definition owned :: "pool_state \<Rightarrow> bool" where
  "owned s \<longleftrightarrow> (\<forall>n c. ps_names s n = Some c \<longrightarrow>
     ps_pool s n = Some c \<or> (\<exists>t. ps_pc s t = Created n c) \<or> (\<exists>t. ps_pc s t = Doomed c))"

text \<open>A container that a thread has created still exists under its name.\<close>

definition standing :: "pool_state \<Rightarrow> bool" where
  "standing s \<longleftrightarrow> (\<forall>t n c. ps_pc s t = Created n c \<longrightarrow> ps_names s n = Some c)"

text \<open>The numbers are issued, and a number has one name and one owner.\<close>

definition issued :: "pool_state \<Rightarrow> bool" where
  "issued s \<longleftrightarrow> (\<forall>n c. ps_names s n = Some c \<longrightarrow> c < ps_next s) \<and> (\<forall>n c. ps_pool s n = Some c \<longrightarrow> c < ps_next s)
     \<and> (\<forall>t n c. ps_pc s t = Created n c \<longrightarrow> c < ps_next s) \<and> (\<forall>t c. ps_pc s t = Doomed c \<longrightarrow> c < ps_next s)"

definition one_name :: "pool_state \<Rightarrow> bool" where
  "one_name s \<longleftrightarrow>
     (\<forall>n m c. ps_names s n = Some c \<longrightarrow> ps_names s m = Some c \<longrightarrow> m = n)
     \<and> (\<forall>n m c. ps_pool s n = Some c \<longrightarrow> ps_names s m = Some c \<longrightarrow> m = n)
     \<and> (\<forall>n m c. ps_pool s n = Some c \<longrightarrow> ps_pool s m = Some c \<longrightarrow> m = n)"

text \<open>A running container has a name.\<close>

definition running_named :: "pool_state \<Rightarrow> bool" where
  "running_named s \<longleftrightarrow> (\<forall>c. ps_running s c \<longrightarrow> (\<exists>n. ps_names s n = Some c))"

definition one_owner :: "pool_state \<Rightarrow> bool" where
  "one_owner s \<longleftrightarrow>
     (\<forall>t n m c. ps_pc s t = Created n c \<longrightarrow> ps_pool s m \<noteq> Some c)
     \<and> (\<forall>t u n c. ps_pc s t = Created n c \<longrightarrow> ps_pc s u \<noteq> Doomed c)
     \<and> (\<forall>t u n m c. ps_pc s t = Created n c \<longrightarrow> ps_pc s u = Created m c \<longrightarrow> u = t)
     \<and> (\<forall>t n c. ps_pool s n = Some c \<longrightarrow> ps_pc s t \<noteq> Doomed c)"

definition pool_inv :: "pool_state \<Rightarrow> bool" where
  "pool_inv s \<longleftrightarrow> owned s \<and> standing s \<and> issued s \<and> one_name s \<and> one_owner s \<and> running_named s"

lemmas pool_inv_defs = pool_inv_def owned_def standing_def issued_def one_name_def one_owner_def running_named_def

lemma pool_inv_start: "pool_inv pool_start"
  by (simp add: pool_inv_defs pool_start_def)

text \<open>The branch for a lost race is never taken: docker has refused the second container of the name.\<close>

lemma created_unrivalled:
  assumes "pool_inv s" "ps_pc s t = Created n c"
  shows "pool_live s n \<noteq> Some d"
proof
  assume d: "pool_live s n = Some d"
  from assms have a: "ps_names s n = Some c" unfolding pool_inv_def standing_def by blast
  from d have "ps_pool s n = Some d" "ps_running s d" by (auto simp: pool_live_def split: option.splits if_splits)
  moreover then obtain m where "ps_names s m = Some d" using assms(1) unfolding pool_inv_def running_named_def by blast
  ultimately have m: "ps_pool s n = Some d" "ps_names s m = Some d" by simp_all
  from assms(1) m have "m = n" unfolding pool_inv_def one_name_def by blast
  with m a have "ps_pool s n = Some c" by simp
  with assms show False unfolding pool_inv_def one_owner_def by blast
qed

lemma pool_inv_goto:
  assumes "pool_inv s" "ps_pc s t \<in> {Idle, Missed r, Served c}" "pc \<in> {Idle, Missed r', Served c'}"
  shows "pool_inv (goto t pc s)"
proof -
  have "ps_pc (goto t pc s) u = Created n d \<longleftrightarrow> ps_pc s u = Created n d"
    "ps_pc (goto t pc s) u = Doomed d \<longleftrightarrow> ps_pc s u = Doomed d" for u n d
    using assms(2,3) by (auto simp: goto_def)
  moreover have "ps_names (goto t pc s) = ps_names s" "ps_running (goto t pc s) = ps_running s"
    "ps_pool (goto t pc s) = ps_pool s" "ps_next (goto t pc s) = ps_next s"
    by (simp_all add: goto_def)
  ultimately show ?thesis using assms(1) by (simp add: pool_inv_defs)
qed

lemma pool_inv_create:
  assumes "pool_inv s" "ps_pc s t = Missed r" "ps_names s r = None"
    and s': "s' = goto t (Created r (ps_next s))
      (s\<lparr>ps_names := (ps_names s)(r \<mapsto> ps_next s), ps_running := (ps_running s)(ps_next s := True),
         ps_next := Suc (ps_next s)\<rparr>)"
  shows "pool_inv s'"
proof -
  have docker: "ps_names s' n = Some c \<longleftrightarrow> n = r \<and> c = ps_next s \<or> n \<noteq> r \<and> ps_names s n = Some c" for n c
    by (auto simp: s' goto_def)
  have pool: "ps_pool s' = ps_pool s" "ps_next s' = Suc (ps_next s)" "ps_running s' = (ps_running s)(ps_next s := True)"
    by (simp_all add: s' goto_def)
  have created: "ps_pc s' u = Created n c \<longleftrightarrow> u = t \<and> n = r \<and> c = ps_next s \<or> u \<noteq> t \<and> ps_pc s u = Created n c" for u n c
    by (auto simp: s' goto_def)
  have doomed: "ps_pc s' u = Doomed c \<longleftrightarrow> ps_pc s u = Doomed c" for u c
    using assms(2) by (auto simp: s' goto_def)
  note facts = docker pool created doomed
  have i: "owned s" "standing s" "issued s" "one_name s" "one_owner s" "running_named s" using assms(1) by (simp_all add: pool_inv_def)
  have new: "ps_pool s n \<noteq> Some (ps_next s)" "ps_names s n \<noteq> Some (ps_next s)" "ps_pc s u \<noteq> Created n (ps_next s)"
    "ps_pc s u \<noteq> Doomed (ps_next s)" for n u
    using i(3) unfolding issued_def by blast+
  have r: "ps_names s r = None" "ps_pc s t \<noteq> Created n c" for n c using assms(2,3) by (simp_all)
  have "owned s'" using i(1) r unfolding owned_def facts by metis
  moreover have "standing s'" using i(2) r unfolding standing_def facts by (metis option.distinct(1))
  moreover have "issued s'" using i(3) unfolding issued_def facts by (auto simp: less_Suc_eq)
  moreover have "one_name s'" using i(4) new unfolding one_name_def facts by (intro conjI; metis)
  moreover have "one_owner s'" using i(5) new unfolding one_owner_def facts by (intro conjI; metis)
  moreover have "running_named s'" using i(6) r unfolding running_named_def facts by (metis fun_upd_def option.distinct(1))
  ultimately show ?thesis by (simp add: pool_inv_def)
qed

lemma pool_inv_enter:
  assumes "pool_inv s" "ps_pc s t = Created r c" and s': "s' = goto t (Served c) (s\<lparr>ps_pool := (ps_pool s)(r \<mapsto> c)\<rparr>)"
  shows "pool_inv s'"
proof -
  have docker: "ps_names s' = ps_names s" "ps_next s' = ps_next s" "ps_running s' = ps_running s" by (simp_all add: s' goto_def)
  have pool: "ps_pool s' n = Some d \<longleftrightarrow> n = r \<and> d = c \<or> n \<noteq> r \<and> ps_pool s n = Some d" for n d
    by (auto simp: s' goto_def)
  have created: "ps_pc s' u = Created n d \<longleftrightarrow> u \<noteq> t \<and> ps_pc s u = Created n d" for u n d
    by (auto simp: s' goto_def)
  have doomed: "ps_pc s' u = Doomed d \<longleftrightarrow> ps_pc s u = Doomed d" for u d
    using assms(2) by (auto simp: s' goto_def)
  note facts = docker pool created doomed
  have i: "owned s" "standing s" "issued s" "one_name s" "one_owner s" "running_named s" using assms(1) by (simp_all add: pool_inv_def)
  from i(2) assms(2) have a: "ps_names s r = Some c" unfolding standing_def by blast
  have "owned s'" unfolding owned_def facts
  proof (intro allI impI)
    fix n d
    assume n: "ps_names s n = Some d"
    with i(1) consider "ps_pool s n = Some d" | u where "ps_pc s u = Created n d" | u where "ps_pc s u = Doomed d"
      unfolding owned_def by blast
    then show "(n = r \<and> d = c \<or> n \<noteq> r \<and> ps_pool s n = Some d)
        \<or> (\<exists>u. u \<noteq> t \<and> ps_pc s u = Created n d) \<or> (\<exists>u. ps_pc s u = Doomed d)"
    proof cases
      case 2
      then show ?thesis using n a assms(2) by (cases "u = t") auto
    qed (use n a in auto)
  qed
  moreover have "standing s'" using i(2) unfolding standing_def facts by blast
  moreover have "issued s'" using i(3) assms(2) unfolding issued_def facts by blast
  moreover have "one_name s'" using i(4,5) a assms(2) unfolding one_name_def one_owner_def facts by (intro conjI; metis)
  moreover have "one_owner s'" using i(5) assms(2) unfolding one_owner_def facts by blast
  moreover have "running_named s'" using i(6) unfolding running_named_def facts .
  ultimately show ?thesis by (simp add: pool_inv_def)
qed

lemma pool_inv_take_out:
  assumes "pool_inv s" "ps_pc s t = Idle" "ps_pool s r = Some c"
    and s': "s' = goto t (Doomed c) (s\<lparr>ps_pool := (ps_pool s)(r := None)\<rparr>)"
  shows "pool_inv s'"
proof -
  have docker: "ps_names s' = ps_names s" "ps_next s' = ps_next s" "ps_running s' = ps_running s" by (simp_all add: s' goto_def)
  have pool: "ps_pool s' n = Some d \<longleftrightarrow> n \<noteq> r \<and> ps_pool s n = Some d" for n d
    by (auto simp: s' goto_def)
  have created: "ps_pc s' u = Created n d \<longleftrightarrow> ps_pc s u = Created n d" for u n d
    using assms(2) by (auto simp: s' goto_def)
  have doomed: "ps_pc s' u = Doomed d \<longleftrightarrow> u = t \<and> d = c \<or> u \<noteq> t \<and> ps_pc s u = Doomed d" for u d
    by (auto simp: s' goto_def)
  note facts = docker pool created doomed
  have i: "owned s" "standing s" "issued s" "one_name s" "one_owner s" "running_named s" using assms(1) by (simp_all add: pool_inv_def)
  have "owned s'" using i(1) assms(2,3) unfolding owned_def facts by (metis option.inject pool_pc.distinct(5))
  moreover have "standing s'" using i(2) unfolding standing_def facts by blast
  moreover have "issued s'" using i(3) assms(3) unfolding issued_def facts by blast
  moreover have "one_name s'" using i(4) unfolding one_name_def facts by blast
  moreover have "one_owner s'" using i(4,5) assms(3) unfolding one_name_def one_owner_def facts by (intro conjI; metis)
  moreover have "running_named s'" using i(6) unfolding running_named_def facts .
  ultimately show ?thesis by (simp add: pool_inv_def)
qed

lemma pool_inv_remove:
  assumes "pool_inv s" "ps_pc s t = Doomed c"
    and s': "s' = goto t Idle
      (s\<lparr>ps_names := (\<lambda>n. if ps_names s n = Some c then None else ps_names s n),
         ps_running := (ps_running s)(c := False)\<rparr>)"
  shows "pool_inv s'"
proof -
  have docker: "ps_names s' n = Some d \<longleftrightarrow> ps_names s n = Some d \<and> d \<noteq> c" "ps_running s' d \<longleftrightarrow> ps_running s d \<and> d \<noteq> c" for n d
    by (auto simp: s' goto_def)
  have pool: "ps_pool s' = ps_pool s" "ps_next s' = ps_next s" by (simp_all add: s' goto_def)
  have created: "ps_pc s' u = Created n d \<longleftrightarrow> ps_pc s u = Created n d" for u n d
    using assms(2) by (auto simp: s' goto_def)
  have doomed: "ps_pc s' u = Doomed d \<longleftrightarrow> u \<noteq> t \<and> ps_pc s u = Doomed d" for u d
    by (auto simp: s' goto_def)
  note facts = docker pool created doomed
  have i: "owned s" "standing s" "issued s" "one_name s" "one_owner s" "running_named s" using assms(1) by (simp_all add: pool_inv_def)
  have "owned s'" using i(1) assms(2) unfolding owned_def facts by (metis pool_pc.inject(3))
  moreover have "standing s'" using i(2,5) assms(2) unfolding standing_def one_owner_def facts by metis
  moreover have "issued s'" using i(3) unfolding issued_def facts by blast
  moreover have "one_name s'" using i(4) unfolding one_name_def facts by blast
  moreover have "one_owner s'" using i(5) unfolding one_owner_def facts by blast
  moreover have "running_named s'" using i(6) unfolding running_named_def facts by blast
  ultimately show ?thesis by (simp add: pool_inv_def)
qed

lemma pool_inv_die: "pool_inv s \<Longrightarrow> pool_inv (s\<lparr>ps_running := (ps_running s)(c := False)\<rparr>)"
  by (auto simp: pool_inv_defs)

lemma pool_inv_step:
  assumes "pool_step s s'" "pool_inv s"
  shows "pool_inv s'"
  using assms
proof cases
  case (hit t r c)
  then show ?thesis using pool_inv_goto [OF assms(2), of t] by simp
next
  case (miss t r)
  then show ?thesis using pool_inv_goto [OF assms(2), of t] by simp
next
  case (create t r)
  then show ?thesis using pool_inv_create [OF assms(2)] by blast
next
  case (create_failed t r)
  then show ?thesis using pool_inv_goto [OF assms(2), of t] by simp
next
  case (enter t r c)
  then show ?thesis using pool_inv_enter [OF assms(2)] by blast
next
  case (lost t r c d)
  then show ?thesis using created_unrivalled [OF assms(2)] by blast
next
  case (take_out t r c)
  then show ?thesis using pool_inv_take_out [OF assms(2)] by blast
next
  case (remove t c)
  then show ?thesis using pool_inv_remove [OF assms(2)] by blast
next
  case (served t c)
  then show ?thesis using pool_inv_goto [OF assms(2), of t] by simp
next
  case (die c)
  then show ?thesis using pool_inv_die [OF assms(2)] by simp
qed


lemma pool_inv_reachable: "pool_step\<^sup>*\<^sup>* pool_start s \<Longrightarrow> pool_inv s"
  by (induction rule: rtranclp_induct) (auto simp: pool_inv_start pool_inv_step)


definition race_demo :: pool_state where
  "race_demo = goto 7 (Created ''r'' 0)
     ((goto 7 (Missed ''r'') pool_start)\<lparr>ps_names := [''r'' \<mapsto> 0], ps_running := (\<lambda>_. False)(0 := True), ps_next := 1\<rparr>)"


text \<open>A dead sandbox keeps its name: until somebody takes it out of the pool no request of its run is
  served.\<close>

lemma dead_sandbox_stays:
  assumes "pool_step s s'" "pool_inv s" "ps_pool s r = Some c" "ps_names s r = Some c" "\<not> ps_running s c"
  shows "ps_pool s' r = Some c \<and> ps_names s' r = Some c \<and> \<not> ps_running s' c \<or> ps_pool s' r = None"
  using assms(1)
proof cases
  case (create t q)
  then have "c \<noteq> ps_next s" using assms(2,3) unfolding pool_inv_def issued_def by blast
  then show ?thesis using create assms(3-5) by (auto simp: goto_def)
next
  case (enter t q d)
  then have "ps_names s q = Some d" "ps_pool s q \<noteq> Some d"
    using assms(2) unfolding pool_inv_def standing_def one_owner_def by blast+
  then have "q \<noteq> r" using assms(3,4) by auto
  then show ?thesis using enter assms(3-5) by (auto simp: goto_def)
next
  case (remove t d)
  then have "d \<noteq> c" using assms(2,3) unfolding pool_inv_def one_owner_def by blast
  then show ?thesis using remove assms(3-5) by (auto simp: goto_def)
qed (use assms(3-5) in \<open>auto simp: goto_def\<close>)

end
