(* ===== verification/Orchestrator.thy ===== *)
theory Orchestrator
  imports Kernel_Facts Run_Helpers Http
begin

text \<open>
  The orchestrator, \<open>services/orchestrator\<close>: the contexts of active runs (\<open>session_state.py\<close>), the
  phases of a run (\<open>phase_tracker.py\<close>), the client of the tool gateway (\<open>executor_client.py\<close>), the
  bridge to the kernel (\<open>kernel_bridge.py\<close>) and the run loop (\<open>run_engine.py\<close>).

  The other services are a parameter: each request to one of them is a function of a world \<open>'w\<close>, and
  so is the person who approves a step. The state holds that world, the kernel, the contexts and the
  manifests that have been written.
\<close>

section \<open>Contexts of active runs\<close>

record bridge_result =
  br_ok :: bool
  br_out :: "pydict option"
  br_reason :: string

record run_ctx =
  rc_repo :: string
  rc_cmd_plan :: pydict
  rc_template :: string
  rc_cache :: "(string \<times> pydict) list"
  rc_advisor :: advisor
  rc_status :: string
  rc_answer :: "string option"
  rc_repair :: pydict
  rc_steps :: "(int \<times> pydict \<times> bridge_result) list"

definition fresh_ctx :: run_ctx where
  "fresh_ctx =
     \<lparr>rc_repo = [], rc_cmd_plan = [], rc_template = [], rc_cache = [], rc_advisor = \<lparr>av_log = [], av_pending = []\<rparr>,
      rc_status = ''running'', rc_answer = None,
      rc_repair = [(PStr ''phase'', PStr ''SEARCH''), (PStr ''attempt'', PInt 0), (PStr ''max_attempts'', PInt 3),
                   (PStr ''last_status'', PInt 1)],
      rc_steps = []\<rparr>"

type_synonym run_contexts = "(string \<times> run_ctx) list"

definition get_run_context :: "string \<Rightarrow> run_contexts \<Rightarrow> run_ctx option" where
  "get_run_context run_id m = map_of m run_id"

definition ensure_run_context :: "string \<Rightarrow> run_contexts \<Rightarrow> run_ctx \<times> run_contexts" where
  "ensure_run_context run_id m =
     (case map_of m run_id of Some c \<Rightarrow> (c, m) | None \<Rightarrow> (fresh_ctx, AList.update run_id fresh_ctx m))"

definition clear_run_context :: "string \<Rightarrow> run_contexts \<Rightarrow> run_contexts" where
  "clear_run_context run_id m = AList.delete run_id m"

definition get_active_run_by_repo :: "string \<Rightarrow> run_contexts \<Rightarrow> string option" where
  "get_active_run_by_repo repo_id m =
     map_option fst (find (\<lambda>(rid, c). rc_repo c = repo_id \<and> rc_status c \<in> {''running'', ''paused''}) m)"

text \<open>The requests that approve or reject the step a run waits with (\<open>api_routes.py\<close>).\<close>

definition answer_step :: "string \<Rightarrow> string \<Rightarrow> run_contexts \<Rightarrow> http_error + run_contexts" where
  "answer_step answer run_id m =
     (case map_of m run_id of
        None \<Rightarrow> Inl (HTTPException 404 ''Run not found'')
      | Some c \<Rightarrow>
          if rc_status c \<noteq> ''paused'' then Inl (HTTPException 400 ''Run is not paused'')
          else Inr (AList.update run_id (c\<lparr>rc_answer := Some answer\<rparr>) m))"

definition run_status :: "string \<Rightarrow> run_contexts \<Rightarrow> http_error + string \<times> bool" where
  "run_status run_id m =
     (case map_of m run_id of
        None \<Rightarrow> Inl (HTTPException 404 ''Run not found'')
      | Some c \<Rightarrow> Inr (rc_status c, rc_status c = ''paused''))"

section \<open>Other services\<close>

text \<open>A request to the gateway is answered with a status, a JSON object and a text, or not at all.\<close>

datatype post_reply = Answer int pydict string | NoAnswer string

record 'w services =
  sv_post_step :: "string \<Rightarrow> int \<Rightarrow> pydict \<Rightarrow> string \<Rightarrow> int \<Rightarrow> bool \<Rightarrow> 'w \<Rightarrow> post_reply \<times> 'w"
  sv_post_sandbox :: "string \<Rightarrow> string \<Rightarrow> string \<Rightarrow> 'w \<Rightarrow> post_reply \<times> 'w"
  sv_approval :: "string \<Rightarrow> 'w \<Rightarrow> bool \<times> 'w"
  sv_write_file :: "string \<Rightarrow> pydict \<Rightarrow> 'w \<Rightarrow> pyerr option \<times> 'w"
  sv_record_run :: "string \<Rightarrow> string \<Rightarrow> string \<Rightarrow> bool \<Rightarrow> (int \<times> pydict \<times> bridge_result) list \<Rightarrow> 'w \<Rightarrow> 'w"
  sv_warm :: bool
  sv_replay_dir :: string
  sv_json :: "pyval \<Rightarrow> string"
  sv_http_text :: "int \<Rightarrow> string \<Rightarrow> string"
  sv_error_text :: "pyerr \<Rightarrow> string"
  sv_max_iterations :: int
  sv_semantic :: bool
  sv_sandbox_mode :: string

record 'w orch =
  or_kernel :: kernel
  or_runs :: run_contexts
  or_world :: 'w

type_synonym ('w, 'a) orc = "('w orch, pyerr, 'a) eff"

definition in_kernel :: "'a km \<Rightarrow> ('w, 'a) orc" where
  "in_kernel m = (\<lambda>s. case m (or_kernel s) of (r, k) \<Rightarrow> (r, s\<lparr>or_kernel := k\<rparr>))"

definition in_world :: "('w \<Rightarrow> 'a \<times> 'w) \<Rightarrow> ('w, 'a) orc" where
  "in_world f = (\<lambda>s. case f (or_world s) of (x, w) \<Rightarrow> (Inr x, s\<lparr>or_world := w\<rparr>))"

definition ctx_of :: "string \<Rightarrow> 'w orch \<Rightarrow> run_ctx" where
  "ctx_of run_id s = (case map_of (or_runs s) run_id of Some c \<Rightarrow> c | None \<Rightarrow> fresh_ctx)"

definition set_ctx :: "string \<Rightarrow> (run_ctx \<Rightarrow> run_ctx) \<Rightarrow> ('w, unit) orc" where
  "set_ctx run_id f = supdate (\<lambda>s. s\<lparr>or_runs := AList.update run_id (f (ctx_of run_id s)) (or_runs s)\<rparr>)"

text \<open>\<open>run_step\<close>: a status other than 200 raises, no answer becomes a failed result.\<close>

definition network_failure :: "string \<Rightarrow> pydict" where
  "network_failure e =
     [(PStr ''status'', PInt 1), (PStr ''seconds'', PFloat 0),
      (PStr ''logs'', PStr (''Network error during step execution: '' @ e)),
      (PStr ''failure_kind'', PStr ''network_error'')]"

definition gateway_step ::
    "'w services \<Rightarrow> string \<Rightarrow> int \<Rightarrow> pydict \<Rightarrow> string \<Rightarrow> int \<Rightarrow> bool \<Rightarrow> 'w orch \<Rightarrow> (string + pydict) \<times> 'w orch" where
  "gateway_step V repo_id it step run_id tier warm s =
     (case sv_post_step V repo_id it step run_id tier warm (or_world s) of
        (Answer status r text, w) \<Rightarrow>
          (if status \<noteq> 200 then Inl (sv_http_text V status text) else Inr r, s\<lparr>or_world := w\<rparr>)
      | (NoAnswer e, w) \<Rightarrow> (Inr (network_failure e), s\<lparr>or_world := w\<rparr>))"

definition sandbox_request :: "'w services \<Rightarrow> string \<Rightarrow> string \<Rightarrow> string \<Rightarrow> ('w, pydict option) orc" where
  "sandbox_request V path run_id repo_id =
     (if \<not> sv_warm V then sret None
      else sbind (in_world (sv_post_sandbox V path run_id repo_id)) (\<lambda>reply.
        sret (case reply of Answer status r text \<Rightarrow> if status = 200 then Some r else None | NoAnswer e \<Rightarrow> None)))"

section \<open>Events in the ledger\<close>

definition sink_record :: "env \<Rightarrow> pydict \<Rightarrow> ledger_record" where
  "sink_record en event =
     \<lparr>lr_proposal_hash = [], lr_simulation = [], lr_risk = [], lr_decision = ''INFO'',
      lr_decision_reason = ''orchestrator_event'', lr_outcome_hash = None, lr_state_hash = [], lr_verification = None,
      lr_entry_hash = [], lr_prev_chain_hash = [], lr_chain_hash = [], lr_ts = 0,
      lr_metadata =
        [(PStr ''type'', dget_or event ''type'' (PStr ''UNKNOWN'')), (PStr ''run_id'', dget_or event ''run_id'' (PStr [])),
         (PStr ''iter'', dget_or event ''iter'' (PInt 0)), (PStr ''payload'', PDict event),
         (PStr ''timestamp'', PFloat (en_clock en))]\<rparr>"

definition sink :: "runtime \<Rightarrow> env \<Rightarrow> pydict \<Rightarrow> ('w, unit) orc" where
  "sink R en event =
     (if event = [] then sret () else in_kernel (kbind (push_record R en (sink_record en event)) (\<lambda>_. kret ())))"

section \<open>The kernel step in two parts\<close>

text \<open>\<open>kernel_step\<close> up to the place where it calls the executor: a result, or what is needed to go on.\<close>

record pending =
  pn_proposal :: proposal
  pn_run :: run_state
  pn_validation :: validation_result
  pn_simulation :: sim_result
  pn_risk :: risk_breakdown
  pn_decision :: decision

definition ask_validated ::
    "runtime \<Rightarrow> env \<Rightarrow> proposal \<Rightarrow> string \<Rightarrow> string \<Rightarrow> pydict option \<Rightarrow> run_state \<Rightarrow> validation_result
      \<Rightarrow> (kernel_result + pending) km" where
  "ask_validated R en p context run_id learner rs val =
     kbind (klift (read_evidence R learner)) (\<lambda>ev.
     kbind (kget (\<lambda>k. k)) (\<lambda>k.
     kbind (klift (simulate p (k_state k) (Some (k_history k)) context (ev_success_prob ev)
                     (ev_trials ev) (ev_loop_risk ev) (ev_traps ev) [])) (\<lambda>sim.
     kbind (klift (risk_score p sim (k_state k) (k_policy k))) (\<lambda>risk.
     kbind (klift (decide R p sim risk (k_policy k))) (\<lambda>dec.
       if dc_approved dec
       then kret (Inr \<lparr>pn_proposal = p, pn_run = rs, pn_validation = val, pn_simulation = sim, pn_risk = risk,
                       pn_decision = dec\<rparr>)
       else kbind (kupd (\<lambda>k. k\<lparr>k_state := record_action (pr_action p) (k_state k)\<rparr>)) (\<lambda>_.
            kbind (commit_ledger R en p (Some sim) (Some risk) ''REJECT'' (dc_reason dec) None None run_id) (\<lambda>r.
              kret (Inl ((blank_result ''DECIDE'' p r)
                \<lparr>kr_validation := Some val, kr_simulation := Some sim, kr_risk := Some risk,
                 kr_decision := Some dec\<rparr>)))))))))"

definition ask_gated ::
    "runtime \<Rightarrow> env \<Rightarrow> proposal \<Rightarrow> string \<Rightarrow> string \<Rightarrow> pydict option \<Rightarrow> run_state \<Rightarrow> (kernel_result + pending) km" where
  "ask_gated R en p context run_id learner rs =
     kbind (kget (\<lambda>k. k)) (\<lambda>k.
     kbind (klift (validate R p (k_state k) (k_policy k))) (\<lambda>val.
       if val_ok val then ask_validated R en p context run_id learner rs val
       else kbind (commit_ledger R en p None None ''REJECT'' (validation_reason R (val_errors val)) None None run_id) (\<lambda>r.
              kret (Inl ((blank_result ''VALIDATE'' p r)
                \<lparr>kr_validation := Some val, kr_error := Some ''Validation failed''\<rparr>)))))"

definition kernel_ask ::
    "runtime \<Rightarrow> env \<Rightarrow> pydict \<Rightarrow> string \<Rightarrow> string \<Rightarrow> string \<Rightarrow> string \<Rightarrow> pydict option
      \<Rightarrow> (kernel_result + pending) km" where
  "kernel_ask R en raw context intent bundle run_id learner =
     (let p = normalize_step R (en_clock en) raw intent context bundle
      in kbind (kget_run run_id) (\<lambda>rs.
         kbind (kget k_tier_policy) (\<lambda>policy.
         kbind (kget k_state) (\<lambda>s.
         let cfg = tier_cfg policy (run_tier rs)
         in kbind (klift (budget_reason R raw cfg s)) (\<lambda>budget.
              case budget of
                Some why \<Rightarrow> kbind (tier_reject R en p run_id (run_tier rs) why ''tier budget rejected step'') (\<lambda>r. kret (Inl r))
              | None \<Rightarrow>
                  kbind (kget k_classifiers) (\<lambda>classifiers.
                  kbind (klift (tier_allows_step raw cfg classifiers)) (\<lambda>gate.
                    case gate of
                      Some why \<Rightarrow> kbind (tier_reject R en p run_id (run_tier rs) why ''tier policy rejected step'') (\<lambda>r. kret (Inl r))
                    | None \<Rightarrow> ask_gated R en p context run_id learner rs)))))))"

text \<open>The rest, when the executor has ended with an outcome or with the message of an exception.\<close>

definition kernel_finish ::
    "runtime \<Rightarrow> env \<Rightarrow> (string + outcome) \<Rightarrow> string \<Rightarrow> string \<Rightarrow> pending \<Rightarrow> kernel_result km" where
  "kernel_finish R en out context run_id pn =
     execute_stage R en (\<lambda>_. out) (pn_proposal pn) context run_id (pn_run pn) (pn_validation pn) (pn_simulation pn)
       (pn_risk pn) (pn_decision pn)"

lemma kbind_assoc: "kbind (kbind m f) g = kbind m (\<lambda>x. kbind (f x) g)"
  by (rule ext) (simp add: kbind_def split: prod.split sum.split)

lemma kbind_kret: "kbind (kret x) f = f x" "kbind m kret = m"
  by (rule ext, simp add: kbind_def kret_def split: prod.split sum.split)+

lemma kbind_if: "kbind (if b then m else m') f = (if b then kbind m f else kbind m' f)"
  by simp

lemma kbind_option:
  "kbind (case x of None \<Rightarrow> m | Some y \<Rightarrow> h y) f = (case x of None \<Rightarrow> kbind m f | Some y \<Rightarrow> kbind (h y) f)"
  by (simp split: option.split)

text \<open>With a callback that does nothing but answer, the two parts are the step.\<close>

definition resume :: "runtime \<Rightarrow> env \<Rightarrow> executor \<Rightarrow> string \<Rightarrow> string \<Rightarrow> kernel_result + pending \<Rightarrow> kernel_result km" where
  "resume R en exec context run_id a =
     (case a of Inl res \<Rightarrow> kret res
      | Inr pn \<Rightarrow> kernel_finish R en (exec (proposal_to_step (pn_proposal pn))) context run_id pn)"

lemma resume_simps [simp]:
  "resume R en exec context run_id (Inl res) = kret res"
  "resume R en exec context run_id (Inr pn) = kernel_finish R en (exec (proposal_to_step (pn_proposal pn))) context run_id pn"
  by (simp_all add: resume_def)

lemma execute_stage_answer:
  "execute_stage R en (\<lambda>_. exec (proposal_to_step p)) p c rid rs val sim risk dec = execute_stage R en exec p c rid rs val sim risk dec"
  by (simp add: execute_stage_def run_executor_def)

lemma kernel_step_in_two:
  "kernel_step R en exec raw context intent bundle run_id learner
     = kbind (kernel_ask R en raw context intent bundle run_id learner) (resume R en exec context run_id)"
proof -
  have v: "kbind (ask_validated R en p context run_id learner rs val) (resume R en exec context run_id)
      = validated_stage R en exec p context run_id learner rs val" for p rs val
    unfolding ask_validated_def validated_stage_def
    by (simp add: kbind_assoc kbind_if kbind_kret kernel_finish_def execute_stage_answer cong: if_cong)
  have g: "kbind (ask_gated R en p context run_id learner rs) (resume R en exec context run_id)
      = gated_stage R en exec p context run_id learner rs" for p rs
    unfolding ask_gated_def gated_stage_def
    by (simp add: kbind_assoc kbind_if kbind_kret v cong: if_cong)
  show ?thesis
    unfolding kernel_step_def kernel_ask_def policy_stage_def Let_def
    by (simp add: kbind_assoc kbind_kret kbind_option g cong: option.case_cong)
qed


section \<open>The bridge to the kernel\<close>

definition event :: "(string \<times> pyval) list \<Rightarrow> pydict" where
  "event kvs = map (\<lambda>(k, v). (PStr k, v)) kvs"

text \<open>\<open>Outcome(...)\<close> for the result of a step. Results carry an integer as their status.\<close>

definition status_zero :: "pyval \<Rightarrow> bool" where
  "status_zero v \<longleftrightarrow> v \<in> {PInt 0, PBool False, PFloat 0}"

definition status_code :: "pyval \<Rightarrow> int" where
  "status_code v = (case v of PInt i \<Rightarrow> i | PBool b \<Rightarrow> (if b then 1 else 0) | _ \<Rightarrow> 1)"

definition reply_outcome :: "runtime \<Rightarrow> 'w services \<Rightarrow> pydict \<Rightarrow> string + outcome" where
  "reply_outcome R V r =
     (let status = dget_or r ''status'' (PInt 1)
      in case py_float (dget_or r ''seconds'' (PInt 0)) of
           Inl e \<Rightarrow> Inl (sv_error_text V e)
         | Inr seconds \<Rightarrow> Inr
             \<lparr>oc_success = status_zero status, oc_exit_code = status_code status,
              oc_payload = take 30000 (sv_json V (PDict r)), oc_logs = take 5000 (py_str R (dget_or r ''logs'' (PStr []))),
              oc_duration_sec = seconds, oc_error = None, oc_state_delta_hash = []\<rparr>)"

text \<open>\<open>_exec_step\<close>: the result of an earlier equal step of the run, or a request to the gateway. The second
  component is the key of a hit. It is not an exception of the orchestrator when the request fails: the
  kernel catches it.\<close>

definition exec_step ::
    "runtime \<Rightarrow> env \<Rightarrow> 'w services \<Rightarrow> string \<Rightarrow> string \<Rightarrow> int \<Rightarrow> int \<Rightarrow> pydict \<Rightarrow> ('w, (string + outcome) \<times> string option) orc" where
  "exec_step R en V run_id repo_id it tier s =
     (let key = cache_key R s (py_str R (py_or (dget_or s ''workdir_id'' PNone) (PStr [])))
      in sbind (sread (\<lambda>st. cache_get key (rc_cache (ctx_of run_id st)))) (\<lambda>hit.
         case hit of
           Some r \<Rightarrow>
             sbind (sink R en (event [(''type'', PStr ''SIM_CACHE_HIT''), (''run_id'', PStr run_id), (''iter'', PInt it),
                      (''cache_key'', PStr key), (''step_type'', dget_or s ''type'' (PStr []))])) (\<lambda>_.
             sret (reply_outcome R V r, Some key))
         | None \<Rightarrow>
             sbind (\<lambda>st. case gateway_step V repo_id it s run_id tier True st of (r, st') \<Rightarrow> (Inr r, st')) (\<lambda>reply.
             case reply of
               Inl msg \<Rightarrow> sret (Inl msg, None)
             | Inr r \<Rightarrow>
                 sbind (set_ctx run_id (\<lambda>c. c\<lparr>rc_cache := cache_put key r (rc_cache c)\<rparr>)) (\<lambda>_.
                 sret (reply_outcome R V r, None)))))"

definition kr_approved :: "kernel_result \<Rightarrow> bool" where
  "kr_approved res \<longleftrightarrow> (case kr_decision res of None \<Rightarrow> False | Some d \<Rightarrow> dc_approved d)"

definition kr_success :: "kernel_result \<Rightarrow> bool" where
  "kr_success res \<longleftrightarrow> (case kr_outcome res of None \<Rightarrow> False | Some oc \<Rightarrow>
     oc_success oc \<and> (case kr_verification res of None \<Rightarrow> True | Some v \<Rightarrow> vr_ok v))"

definition set_resource_run :: "string \<Rightarrow> kernel \<Rightarrow> kernel" where
  "set_resource_run run_id k =
     (if dget (st_resource_state (k_state k)) ''run_id'' = Some (PStr run_id) then k
      else k\<lparr>k_state := (k_state k)\<lparr>st_resource_state := dput ''run_id'' (PStr run_id) (st_resource_state (k_state k))\<rparr>\<rparr>)"

definition decision_reason :: "kernel_result \<Rightarrow> string" where
  "decision_reason res = (case kr_decision res of None \<Rightarrow> [] | Some d \<Rightarrow> dc_reason d)"

definition parsed_out :: "env \<Rightarrow> kernel_result \<Rightarrow> pydict" where
  "parsed_out en res =
     (case kr_outcome res of
        None \<Rightarrow> []
      | Some oc \<Rightarrow>
          let out = (if oc_payload oc = [] then []
                     else case en_loads en (oc_payload oc) of Some (PDict d) \<Rightarrow> d | _ \<Rightarrow> [])
          in if out \<noteq> [] then out
             else [(PStr ''status'', PInt (oc_exit_code oc)), (PStr ''payload'', PStr (oc_payload oc)),
                   (PStr ''logs'', PStr (oc_logs oc)), (PStr ''seconds'', PFloat (oc_duration_sec oc))])"

definition bridge_answer :: "env \<Rightarrow> kernel_result \<Rightarrow> bridge_result" where
  "bridge_answer en res =
     (if \<not> kr_approved res then
        \<lparr>br_ok = False, br_out = None,
         br_reason = (case kr_decision res of
            Some d \<Rightarrow> dc_reason d
          | None \<Rightarrow> (case kr_error res of None \<Rightarrow> ''kernel_reject'' | Some e \<Rightarrow> if e = [] then ''kernel_reject'' else e))\<rparr>
      else \<lparr>br_ok = True, br_out = Some (parsed_out en res), br_reason = []\<rparr>)"

definition step_event :: "string \<Rightarrow> int \<Rightarrow> int \<Rightarrow> kernel_result \<Rightarrow> string option \<Rightarrow> pydict" where
  "step_event run_id it tier res key = event
     [(''type'', PStr ''HARD_KERNEL_STEP''), (''run_id'', PStr run_id), (''iter'', PInt it), (''tier'', PInt tier),
      (''phase'', PStr (kr_phase res)), (''approved'', PBool (kr_approved res)), (''success'', PBool (kr_success res)),
      (''error'', opt_str (kr_error res)), (''reason'', PStr (decision_reason res)),
      (''sim_cache_hit'', PBool (key \<noteq> None)), (''sim_cache_key'', PStr (str_or_empty key))]"

definition ensure_ctx :: "string \<Rightarrow> ('w, unit) orc" where
  "ensure_ctx run_id = supdate (\<lambda>s. s\<lparr>or_runs := snd (ensure_run_context run_id (or_runs s))\<rparr>)"

definition execute_approved_step ::
    "runtime \<Rightarrow> env \<Rightarrow> 'w services \<Rightarrow> string \<Rightarrow> string \<Rightarrow> int \<Rightarrow> pydict \<Rightarrow> string \<Rightarrow> string \<Rightarrow> string
      \<Rightarrow> pydict option \<Rightarrow> int \<Rightarrow> ('w, bridge_result) orc" where
  "execute_approved_step R en V run_id repo_id it step context intent bundle learner tier =
     sbind (ensure_ctx run_id) (\<lambda>_.
     sbind (in_kernel (kupd (set_resource_run run_id))) (\<lambda>_.
     sbind (in_kernel (kernel_ask R en step context intent bundle run_id learner)) (\<lambda>a.
     sbind (case a of
              Inl res \<Rightarrow> sret (res, None)
            | Inr pn \<Rightarrow>
                sbind (exec_step R en V run_id repo_id it tier (proposal_to_step (pn_proposal pn))) (\<lambda>(out, key).
                sbind (in_kernel (kernel_finish R en out context run_id pn)) (\<lambda>res. sret (res, key)))) (\<lambda>(res, key).
     sbind (sink R en (step_event run_id it tier res key)) (\<lambda>_.
     sret (bridge_answer en res))))))"

section \<open>The run loop\<close>

record run_req =
  rq_repo :: string
  rq_task :: string
  rq_max_iters :: int
  rq_scenario :: "string option"
  rq_threshold :: rat
  rq_plan :: "pydict list option"

record run_outcome =
  ro_run_id :: string
  ro_status :: string
  ro_reason :: string

definition policy_error :: "runtime \<Rightarrow> 'w services \<Rightarrow> pydict \<Rightarrow> string option res" where
  "policy_error R V step =
     (let v = dget_or step ''type'' (PStr []);
          unknown = Some (''UNKNOWN_TOOL: '' @ rt_repr R v @ '' is not in the canonical registry'')
      in case v of
           PList xs \<Rightarrow> Inl TypeError
         | PDict d \<Rightarrow> Inl TypeError
         | PStr name \<Rightarrow>
             Inr (case map_of CANONICAL_TOOLS name of
                    None \<Rightarrow> unknown
                  | Some t \<Rightarrow>
                      if \<not> ts_enabled t then Some (''TOOL_DISABLED: '' @ rt_repr R v @ '' is disabled'')
                      else if name = ''apply_semantic_patch'' \<and> \<not> sv_semantic V
                      then Some ''TOOL_DISABLED: apply_semantic_patch is not enabled (RFSN_ALLOW_SEMANTIC_PATCH=false)''
                      else None)
         | _ \<Rightarrow> Inr unknown)"

text \<open>The pause for a step with a low confidence: the result tells whether the step was rejected. The
  answer stays in the context.\<close>

definition low_confidence :: "run_req \<Rightarrow> pydict \<Rightarrow> bool res" where
  "low_confidence q step =
     (case dget_or step ''confidence'' PNone of
        PNone \<Rightarrow> Inr False
      | v \<Rightarrow> ebind (py_float v) (\<lambda>c. Inr (c < rq_threshold q)))"

definition await_approval ::
    "runtime \<Rightarrow> env \<Rightarrow> 'w services \<Rightarrow> string \<Rightarrow> run_req \<Rightarrow> int \<Rightarrow> pydict \<Rightarrow> ('w, bool) orc" where
  "await_approval R en V run_id q it step =
     sbind (set_ctx run_id (\<lambda>c. c\<lparr>rc_status := ''paused''\<rparr>)) (\<lambda>_.
     sbind (sink R en (event [(''type'', PStr ''HITL_PAUSE''), (''iteration'', PInt it),
              (''reason'', PStr (''Low confidence ('' @ py_str R (dget_or step ''confidence'' PNone) @ '' < ''
                 @ py_str R (PFloat (rq_threshold q)) @ '')'')), (''step'', PDict step)])) (\<lambda>_.
     sbind (in_world (sv_approval V run_id)) (\<lambda>yes.
     sbind (set_ctx run_id (\<lambda>c. c\<lparr>rc_answer := Some (if yes then ''approved'' else ''rejected'')\<rparr>)) (\<lambda>_.
     if \<not> yes then
       sbind (sink R en (event [(''type'', PStr ''HITL_REJECT''), (''iteration'', PInt it), (''user'', PStr ''human'')])) (\<lambda>_.
       sret True)
     else
       sbind (sink R en (event [(''type'', PStr ''HITL_APPROVE''), (''iteration'', PInt it), (''user'', PStr ''human'')])) (\<lambda>_.
       sbind (set_ctx run_id (\<lambda>c. c\<lparr>rc_status := ''running''\<rparr>)) (\<lambda>_. sret False))))))"

definition is_noop :: "string \<Rightarrow> bool" where
  "is_noop reason \<longleftrightarrow> occurs_in ''no_op'' (lower reason) \<or> occurs_in ''noop'' (lower reason)"

definition step_failure :: "int \<Rightarrow> bridge_result \<Rightarrow> string \<times> string" where
  "step_failure it r =
     (let why = (if br_reason r = [] then ''unknown'' else br_reason r)
      in if is_noop why then (''no_op_stopped'', ''No-op patch detected at iteration '' @ int_str it @ '': '' @ why)
         else (''error'', ''Step failed at iteration '' @ int_str it @ '': '' @ why))"

text \<open>\<open>step_intent.get("intent", f"step {iters}")\<close>; a text is assumed.\<close>

definition step_intent :: "runtime \<Rightarrow> int \<Rightarrow> pydict \<Rightarrow> string" where
  "step_intent R it step = py_str R (dget_or step ''intent'' (PStr (''step '' @ int_str it)))"

definition result_dict :: "bridge_result \<Rightarrow> pyval" where
  "result_dict r = PDict (event [(''ok'', PBool (br_ok r)),
     (''out'', case br_out r of None \<Rightarrow> PNone | Some d \<Rightarrow> PDict d), (''reason'', PStr (br_reason r)),
     (''hard_kernel'', PBool True)])"

text \<open>One turn of the loop: \<open>Some\<close> the status and reason with which it leaves the loop.\<close>

definition execute_and_judge ::
    "runtime \<Rightarrow> env \<Rightarrow> 'w services \<Rightarrow> string \<Rightarrow> run_req \<Rightarrow> int \<Rightarrow> pydict \<Rightarrow> ('w, (string \<times> string) option) orc" where
  "execute_and_judge R en V run_id q it step =
     sbind (execute_approved_step R en V run_id (rq_repo q) it step [] (step_intent R it step) [] None 1) (\<lambda>r.
     sbind (set_ctx run_id (\<lambda>c. c\<lparr>rc_steps := rc_steps c @ [(it, step, r)]\<rparr>)) (\<lambda>_.
     if \<not> br_ok r then
       (let (status, reason) = step_failure it r
        in sbind (sink R en (event [(''type'', PStr ''STEP_FAILED''), (''iteration'', PInt it), (''reason'', PStr reason)])) (\<lambda>_.
           sret (Some (status, reason))))
     else
       sbind (sink R en (event [(''type'', PStr ''STEP_OK''), (''iteration'', PInt it), (''result'', result_dict r)])) (\<lambda>_.
       sret None)))"

definition run_turn ::
    "runtime \<Rightarrow> env \<Rightarrow> 'w services \<Rightarrow> string \<Rightarrow> run_req \<Rightarrow> int \<Rightarrow> pydict \<Rightarrow> ('w, (string \<times> string) option) orc" where
  "run_turn R en V run_id q it step =
     sbind (sink R en (event [(''type'', PStr ''STEP_PLAN''), (''iteration'', PInt it), (''step'', PDict step)])) (\<lambda>_.
     sbind (\<lambda>s. (policy_error R V step, s)) (\<lambda>denied.
     case denied of
       Some why \<Rightarrow>
         sbind (sink R en (event [(''type'', PStr ''POLICY_DENIED''), (''iteration'', PInt it), (''reason'', PStr why),
                  (''step'', PDict step)])) (\<lambda>_.
         sret (Some (''policy_denied'', why)))
     | None \<Rightarrow>
         sbind (\<lambda>s. (low_confidence q step, s)) (\<lambda>low.
         sbind (if low then await_approval R en V run_id q it step else sret False) (\<lambda>rejected.
         if rejected then sret (Some (''aborted'', ''User rejected step''))
         else execute_and_judge R en V run_id q it step))))"

fun run_steps ::
    "runtime \<Rightarrow> env \<Rightarrow> 'w services \<Rightarrow> string \<Rightarrow> run_req \<Rightarrow> int \<Rightarrow> pydict list \<Rightarrow> ('w, string \<times> string) orc" where
  "run_steps R en V run_id q it [] = sret (''completed'', ''All '' @ int_str it @ '' planned steps completed'')"
| "run_steps R en V run_id q it (step # rest) =
     (if \<not> it < min (rq_max_iters q) (sv_max_iterations V) then sret (''max_iterations'', ''max_iterations'')
      else sbind (run_turn R en V run_id q (it + 1) step) (\<lambda>e.
           case e of Some out \<Rightarrow> sret out | None \<Rightarrow> run_steps R en V run_id q (it + 1) rest))"

definition start_manifest :: "env \<Rightarrow> 'w services \<Rightarrow> string \<Rightarrow> run_req \<Rightarrow> pydict" where
  "start_manifest en V run_id q = event
     [(''run_id'', PStr run_id), (''repo_id'', PStr (rq_repo q)), (''task'', PStr (rq_task q)),
      (''scenario'', PStr (str_or_empty (rq_scenario q))), (''timestamp_start'', PFloat (en_clock en)), (''seed'', PInt 0),
      (''env_snapshot'', PDict (event [(''allow_semantic_patch'', PBool (sv_semantic V)),
         (''allow_trace_execution'', PBool False), (''max_iterations'', PInt (rq_max_iters q)),
         (''sandbox_mode'', PStr (sv_sandbox_mode V))])),
      (''sandbox_info'', PDict []), (''status'', PStr ''running''), (''events'', PList [])]"

definition finalize_manifest ::
    "env \<Rightarrow> 'w services \<Rightarrow> string \<Rightarrow> string \<Rightarrow> pydict \<Rightarrow> string \<Rightarrow> string \<Rightarrow> ('w, pyerr option) orc" where
  "finalize_manifest en V run_id repo_id manifest status reason =
     (let path = foldl (\<lambda>a b. a @ slash # b) (sv_replay_dir V) [''bundles'', repo_id, run_id, ''manifest.json''];
          m = dput ''results_count'' (PInt 0) (dput ''reason'' (PStr reason)
                (dput ''timestamp_end'' (PFloat (en_clock en)) (dput ''status'' (PStr status) manifest)))
      in in_world (sv_write_file V path m))"

definition drop_ctx :: "string \<Rightarrow> ('w, unit) orc" where
  "drop_ctx run_id = supdate (\<lambda>s. s\<lparr>or_runs := clear_run_context run_id (or_runs s)\<rparr>)"

definition DRY_RUN :: string where
  "DRY_RUN = ''No planner configured. Dry-run only.''"

text \<open>\<open>except Exception\<close> around the loop.\<close>

definition guarded_steps ::
    "runtime \<Rightarrow> env \<Rightarrow> 'w services \<Rightarrow> string \<Rightarrow> run_req \<Rightarrow> pydict list \<Rightarrow> ('w, string \<times> string) orc" where
  "guarded_steps R en V run_id q plan = (\<lambda>s.
     case run_steps R en V run_id q 0 plan s of
       (Inr x, s') \<Rightarrow> (Inr x, s')
     | (Inl e, s') \<Rightarrow>
         sbind (sink R en (event [(''type'', PStr ''RUN_ERROR''), (''error'', PStr (sv_error_text V e))])) (\<lambda>_.
         sret (''error'', sv_error_text V e)) s')"

definition run_logic :: "runtime \<Rightarrow> env \<Rightarrow> 'w services \<Rightarrow> string \<Rightarrow> run_req \<Rightarrow> ('w, run_outcome) orc" where
  "run_logic R en V run_id q =
     (let manifest = start_manifest en V run_id q
      in sbind (ensure_ctx run_id) (\<lambda>_.
         sbind (set_ctx run_id (\<lambda>c. c\<lparr>rc_repo := rq_repo q, rc_status := ''running''\<rparr>)) (\<lambda>_.
         sbind (sink R en (event [(''type'', PStr ''RUN_START''), (''run_id'', PStr run_id), (''manifest'', PDict manifest)])) (\<lambda>_.
         case rq_plan q of
           None \<Rightarrow>
             sbind (sink R en (event [(''type'', PStr ''DRY_RUN''), (''msg'', PStr DRY_RUN)])) (\<lambda>_.
             sbind (finalize_manifest en V run_id (rq_repo q) manifest ''dry_run'' DRY_RUN) (\<lambda>raised.
             case raised of
               Some e \<Rightarrow> sraise e
             | None \<Rightarrow>
                 sbind (drop_ctx run_id) (\<lambda>_.
                 sret \<lparr>ro_run_id = run_id, ro_status = ''dry_run'', ro_reason = DRY_RUN\<rparr>)))
         | Some plan \<Rightarrow>
             sbind (sandbox_request V ''/sandbox/create'' run_id (rq_repo q)) (\<lambda>info.
             sbind (sink R en (event [(''type'', PStr ''SANDBOX_INIT''),
                      (''info'', case info of None \<Rightarrow> PNone | Some d \<Rightarrow> PDict d)])) (\<lambda>_.
             sbind (guarded_steps R en V run_id q plan) (\<lambda>(status, reason).
             sbind (sandbox_request V ''/sandbox/destroy'' run_id (rq_repo q)) (\<lambda>_.
             sbind (finalize_manifest en V run_id (rq_repo q) manifest status reason) (\<lambda>_.
             sbind (supdate (\<lambda>s. s\<lparr>or_world := sv_record_run V run_id (rq_repo q) (rq_task q) (status = ''completed'')
                                              (rc_steps (ctx_of run_id s)) (or_world s)\<rparr>)) (\<lambda>_.
             sbind (drop_ctx run_id) (\<lambda>_.
             sret \<lparr>ro_run_id = run_id, ro_status = status, ro_reason = reason\<rparr>)))))))))))"

end
