(* ===== verification/Orchestrator_Facts.thy ===== *)
theory Orchestrator_Facts
  imports Orchestrator
begin

text \<open>
  What holds of the orchestrator's run loop: which requests reach the gateway, how every run ends, what
  it leaves alone, and what \<open>completed\<close> means.
\<close>

section \<open>Relating the state before and after\<close>

definition smoves :: "('s \<Rightarrow> 's \<Rightarrow> bool) \<Rightarrow> ('s, 'e, 'a) eff \<Rightarrow> bool" where
  "smoves Q m \<longleftrightarrow> (\<forall>s. Q s (snd (m s)))"

named_theorems smoving "computations whose states before and after are related"

lemma smovesD: "smoves Q m \<Longrightarrow> m s = (r, s') \<Longrightarrow> Q s s'"
  unfolding smoves_def by (metis snd_conv)

definition preorder :: "('s \<Rightarrow> 's \<Rightarrow> bool) \<Rightarrow> bool" where
  "preorder Q \<longleftrightarrow> reflp Q \<and> transp Q"

lemma smoves_sbind [smoving]:
  assumes "preorder Q" "smoves Q m" "\<And>x. smoves Q (f x)"
  shows "smoves Q (sbind m f)"
  unfolding smoves_def
proof
  fix s
  obtain r s1 where m: "m s = (r, s1)" by fastforce
  have "Q s s1" by (rule smovesD [OF assms(2) m])
  moreover have "Q s1 (snd (f x s1))" for x using assms(3) by (simp add: smoves_def)
  ultimately show "Q s (snd (sbind m f s))"
    using assms(1) m by (cases r) (auto simp: sbind_def preorder_def dest: transpD)
qed

lemma smoves_silent [smoving]:
  assumes "preorder Q" shows "smoves Q (sret x)" "smoves Q (sraise e)" "smoves Q (sread g)"
  using assms by (simp_all add: smoves_def sret_def sraise_def sread_def preorder_def reflp_def)

lemma smoves_pure [smoving]: "preorder Q \<Longrightarrow> smoves Q (\<lambda>s. (r, s))"
  by (simp add: smoves_def preorder_def reflp_def)

lemma smoves_supdate: "smoves Q (supdate f) \<longleftrightarrow> (\<forall>s. Q s (f s))"
  by (simp add: smoves_def supdate_def)

lemma smoves_world: "(\<And>s w. Q s (s\<lparr>or_world := w\<rparr>)) \<Longrightarrow> smoves Q (in_world f)"
  by (simp add: smoves_def in_world_def split: prod.split)

lemma bind_assoc: "sbind (sbind m f) g = sbind m (\<lambda>x. sbind (f x) g)"
  by (rule ext) (simp add: sbind_def split: prod.split sum.split)

lemma smoves_tail:
  assumes "preorder Q" "m s = (r, s1)" "\<And>x. smoves Q (f x)" shows "Q s1 (snd (sbind m f s))"
  using assms by (cases r) (auto simp: sbind_def smoves_def preorder_def reflp_def)

section \<open>Events\<close>

text \<open>An event changes the ledger and nothing else.\<close>

definition logged :: "runtime \<Rightarrow> env \<Rightarrow> pydict \<Rightarrow> 'w orch \<Rightarrow> 'w orch" where
  "logged R en ev s = s\<lparr>or_kernel := (or_kernel s)\<lparr>k_ledger :=
     snd (append_record R (en_sign en) (en_clock en) (sink_record en ev) (k_ledger (or_kernel s)))\<rparr>\<rparr>"

lemma sink_eq [eff_simps]: "ev \<noteq> [] \<Longrightarrow> sink R en ev s = (Inr (), logged R en ev s)"
  by (simp add: sink_def in_kernel_def kbind_def push_record_def kret_def logged_def split: prod.split)

lemma sink_result: "sink R en ev s = (r, s') \<Longrightarrow> r = Inr ()"
  by (cases "ev = []") (auto simp: sink_eq, simp add: sink_def sret_def)

lemma logged_fields [simp]:
  "or_runs (logged R en ev s) = or_runs s" "or_world (logged R en ev s) = or_world s"
  "ctx_of rid (logged R en ev s) = ctx_of rid s"
  by (simp_all add: logged_def ctx_of_def)

lemma event_nonempty [simp]: "event (x # xs) \<noteq> []"
  by (simp add: event_def)

lemma returns_sink [returning]: "returns (sink R en ev)"
  unfolding returns_def using sink_result by (metis prod.exhaust_sel)

lemma returns_set_ctx [returning]: "returns (set_ctx rid f)"
  unfolding set_ctx_def by (rule returns_supdate)

lemma returns_world [returning]: "returns (in_world f)"
  by (simp add: returns_def in_world_def split: prod.split)

section \<open>Frame and invariant of a run\<close>

text \<open>Whatever a run does, the contexts of the other runs stay as they are, and the kernel keeps its
  invariant.\<close>

definition others :: "string \<Rightarrow> 'w orch \<Rightarrow> 'w orch \<Rightarrow> bool" where
  "others rid s s' \<longleftrightarrow> (\<forall>r. r \<noteq> rid \<longrightarrow> map_of (or_runs s') r = map_of (or_runs s) r)"

definition sound :: "runtime \<Rightarrow> 'w orch \<Rightarrow> 'w orch \<Rightarrow> bool" where
  "sound R s s' \<longleftrightarrow> (digests R \<longrightarrow> kernel_ok R (or_kernel s) \<longrightarrow> kernel_ok R (or_kernel s'))"

lemma frame_order [simp]: "preorder (others rid)" "preorder (sound R)"
  by (auto simp: preorder_def others_def sound_def reflp_def transp_def)

lemma in_kernel_eq: "in_kernel m s = (fst (m (or_kernel s)), s\<lparr>or_kernel := snd (m (or_kernel s))\<rparr>)"
  by (simp add: in_kernel_def split: prod.split)

lemma in_world_eq: "in_world f s = (Inr (fst (f (or_world s))), s\<lparr>or_world := snd (f (or_world s))\<rparr>)"
  by (simp add: in_world_def split: prod.split)

lemma others_kernel: "smoves (others rid) (in_kernel m)"
  by (simp add: smoves_def in_kernel_eq others_def)

lemma sound_kernel: "kernel_moves R m \<Longrightarrow> smoves (sound R) (in_kernel m)"
  by (simp add: smoves_def in_kernel_eq sound_def moves_def keeps_def)

lemma frame_ctx:
  "smoves (others rid) (set_ctx rid f)" "smoves (sound R) (set_ctx rid f)"
  "smoves (others rid) (drop_ctx rid)" "smoves (sound R) (drop_ctx rid)"
  "smoves (others rid) (ensure_ctx rid)" "smoves (sound R) (ensure_ctx rid)"
  by (simp_all add: set_ctx_def drop_ctx_def ensure_ctx_def smoves_supdate others_def sound_def update_conv'
      clear_run_context_def delete_conv' ensure_run_context_def split: option.split)

lemma frame_world:
  "smoves (others rid) (in_world f)" "smoves (sound R) (in_world f)"
  by (simp_all add: smoves_def in_world_eq others_def sound_def)

lemma frame_sink: "smoves (others rid) (sink R en ev)" "smoves (sound R) (sink R en ev)"
  unfolding sink_def
  by (auto intro!: smoving sound_kernel others_kernel kernel_rel push_record_moves)

lemma frame_request: "smoves (others rid) (sandbox_request V path r repo)" "smoves (sound R) (sandbox_request V path r repo)"
  unfolding sandbox_request_def by (auto intro!: smoving frame_world)

lemma frame_gateway:
  "smoves (others rid) (\<lambda>st. case gateway_step V repo it x r tier warm st of (a, st') \<Rightarrow> (Inr a, st'))"
  "smoves (sound R) (\<lambda>st. case gateway_step V repo it x r tier warm st of (a, st') \<Rightarrow> (Inr a, st'))"
  by (auto simp: smoves_def gateway_step_def others_def sound_def split: prod.split post_reply.split)

lemmas frame = smoving frame_ctx frame_world frame_sink frame_request frame_gateway

lemma frame_exec:
  "smoves (others rid) (exec_step R en V rid repo it tier x)" "smoves (sound R) (exec_step R en V rid repo it tier x)"
  unfolding exec_step_def Let_def by (auto intro!: frame split: option.split sum.split)

section \<open>The question and the answer of the kernel\<close>

lemma set_resource_run_moves: "kernel_moves R (kupd (set_resource_run rid))"
  by (simp add: moves_kupd keeps_def set_resource_run_def kernel_ok_def state_ok_def)

lemma kernel_ask_moves: "kernel_moves R (kernel_ask R en raw c i b rid ev)"
proof -
  have v: "kernel_moves R (ask_validated R en p c rid ev rs val)" for p rs val
    unfolding ask_validated_def
    by (auto intro!: kernel_rel commit_ledger_moves)
      (auto simp: moves_kupd keeps_def kernel_ok_def state_ok_record_action)
  have g: "kernel_moves R (ask_gated R en p c rid ev rs)" for p rs
    unfolding ask_gated_def by (auto intro!: kernel_rel v commit_ledger_moves)
  show ?thesis
    unfolding kernel_ask_def Let_def
    by (intro kernel_rel kget_run_moves) (auto split: option.split intro!: kernel_rel g tier_reject_moves)
qed

text \<open>What the kernel has checked when it asks for the execution of a step.\<close>

lemma kernel_ask_pending:
  assumes "kernel_ask R en raw c i b rid ev k = (Inr (Inr pn), k')"
  shows "pn_run pn = fst (run_get rid (k_runs k))" "pn_proposal pn = normalize_step R (en_clock en) raw i c b"
    "val_ok (pn_validation pn)" "dc_approved (pn_decision pn)"
    "validate R (pn_proposal pn) (k_state k) (k_policy k) = Inr (pn_validation pn)"
  using assms unfolding kernel_ask_def ask_gated_def ask_validated_def Let_def
  by (auto simp: kbind_Inr kget_run_eq split: option.splits if_splits)

lemma sound_finish: "run_ok (pn_run pn) \<Longrightarrow> smoves (sound R) (in_kernel (kernel_finish R en out c rid pn))"
  unfolding kernel_finish_def by (intro sound_kernel execute_stage_moves)

lemma sound_ask:
  assumes "\<And>res. smoves (sound R) (F (Inl res))" "\<And>pn. run_ok (pn_run pn) \<Longrightarrow> smoves (sound R) (F (Inr pn))"
  shows "smoves (sound R) (sbind (in_kernel (kernel_ask R en raw c i b rid ev)) F)"
  unfolding smoves_def sound_def
proof (intro allI impI)
  fix s :: "'a orch" assume R: "digests R" and k: "kernel_ok R (or_kernel s)"
  let ?m = "kernel_ask R en raw c i b rid ev"
  obtain r k' where m: "?m (or_kernel s) = (r, k')" by fastforce
  have k': "kernel_ok R k'"
    using movesD [OF kernel_ask_moves, of R "or_kernel s" en raw c i b rid ev] R k by (simp add: keeps_def m)
  show "kernel_ok R (or_kernel (snd (sbind (in_kernel ?m) F s)))"
  proof (cases r)
    case (Inl e)
    then show ?thesis using k' by (simp add: sbind_def in_kernel_eq m)
  next
    case (Inr a)
    have "smoves (sound R) (F a)"
    proof (cases a)
      case (Inl res)
      then show ?thesis using assms(1) by simp
    next
      case i: (Inr pn)
      have "run_ok (pn_run pn)"
        using kernel_ask_pending(1) [of R en raw c i b rid ev "or_kernel s" pn k'] m Inr i k run_get_ok(1)
        by (simp add: kernel_ok_def)
      then show ?thesis using assms(2) i by simp
    qed
    then show ?thesis using k' R Inr by (simp add: sbind_def in_kernel_eq m smoves_def sound_def)
  qed
qed

lemma others_execute: "smoves (others rid) (execute_approved_step R en V rid repo it step c i b ev tier)"
  unfolding execute_approved_step_def
  by (auto intro!: frame others_kernel frame_exec split: sum.split prod.split)

lemma sound_execute: "smoves (sound R) (execute_approved_step R en V rid repo it step c i b ev tier)"
  unfolding execute_approved_step_def
  by (rule smoves_sbind [OF frame_order(2) frame_ctx(6)],
      rule smoves_sbind [OF frame_order(2) sound_kernel [OF set_resource_run_moves]], rule sound_ask)
    (auto intro!: frame frame_exec sound_finish split: prod.split)

section \<open>Requests to the gateway\<close>

text \<open>What one step may ask of the gateway: nothing, or one request for the given step.\<close>

definition asked :: "'w services \<Rightarrow> string \<Rightarrow> string \<Rightarrow> int \<Rightarrow> int \<Rightarrow> pydict \<Rightarrow> 'w orch \<Rightarrow> 'w orch \<Rightarrow> bool" where
  "asked V rid repo it tier x s s' \<longleftrightarrow>
     or_world s' = or_world s \<or> or_world s' = snd (sv_post_step V repo it x rid tier True (or_world s))"

lemma exec_step_asked:
  "exec_step R en V rid repo it tier x s = (r, s') \<Longrightarrow> asked V rid repo it tier x s s'"
  unfolding exec_step_def Let_def gateway_step_def asked_def
  by (auto simp: sbind_def sread_def sret_def sink_eq set_ctx_def supdate_def
      split: option.splits prod.splits sum.splits post_reply.splits)

lemma sbind_Pair [simp]: "sbind (Pair (Inr x)) f = f x"
  by (rule ext) (simp add: sbind_def)

definition same_world :: "'w orch \<Rightarrow> 'w orch \<Rightarrow> bool" where
  "same_world s s' \<longleftrightarrow> or_world s' = or_world s"

lemma world_order [simp]: "preorder same_world"
  by (auto simp: preorder_def same_world_def reflp_def transp_def)

lemma world_kernel: "smoves same_world (in_kernel m)"
  by (simp add: smoves_def in_kernel_eq same_world_def)

lemma world_sink: "smoves same_world (sink R en ev)"
  unfolding sink_def by (auto intro!: smoving world_kernel)

lemma sret_sbind [simp]: "sbind (sret x) f = f x"
  by (rule ext) (simp add: sbind_def sret_def)

lemma execute_asked:
  assumes "execute_approved_step R en V rid repo it step c i b ev tier s = (r, s')"
  shows "or_world s' = or_world s
    \<or> (\<exists>pn k'. kernel_ask R en step c i b rid ev (set_resource_run rid (or_kernel s)) = (Inr (Inr pn), k')
         \<and> or_world s' = snd (sv_post_step V repo it (proposal_to_step (pn_proposal pn)) rid tier True (or_world s)))"
proof -
  let ?s1 = "s\<lparr>or_runs := snd (ensure_run_context rid (or_runs s)), or_kernel := set_resource_run rid (or_kernel s)\<rparr>"
  obtain a k' where ask: "kernel_ask R en step c i b rid ev (set_resource_run rid (or_kernel s)) = (a, k')" by fastforce
  let ?s2 = "?s1\<lparr>or_kernel := k'\<rparr>"
  let ?rest = "\<lambda>(res, key). sbind (sink R en (step_event rid it tier res key)) (\<lambda>_. sret (bridge_answer en res))"
  have start: "ensure_ctx rid s = (Inr (), s\<lparr>or_runs := snd (ensure_run_context rid (or_runs s))\<rparr>)"
    by (simp add: ensure_ctx_def supdate_def)
  have steps: "in_kernel (kupd (set_resource_run rid)) (s\<lparr>or_runs := rs\<rparr>) =
      (Inr (), s\<lparr>or_runs := rs, or_kernel := set_resource_run rid (or_kernel s)\<rparr>)" for rs
    by (simp add: in_kernel_eq kupd_def)
  have asks: "in_kernel (kernel_ask R en step c i b rid ev) ?s1 = (a, ?s2)"
    by (simp add: in_kernel_eq ask)
  have "execute_approved_step R en V rid repo it step c i b ev tier s =
      (case a of Inl e \<Rightarrow> (Inl e, ?s2)
       | Inr (Inl res) \<Rightarrow> ?rest (res, None) ?s2
       | Inr (Inr pn) \<Rightarrow>
           sbind (sbind (exec_step R en V rid repo it tier (proposal_to_step (pn_proposal pn))) (\<lambda>(out, key).
             sbind (in_kernel (kernel_finish R en out c rid pn)) (\<lambda>res. sret (res, key)))) ?rest ?s2)"
    unfolding execute_approved_step_def sbind_Inr [where m = "ensure_ctx rid", OF start]
      sbind_Inr [where m = "in_kernel (kupd (set_resource_run rid))", OF steps]
    using asks by (cases a) (auto simp: eff_simps split: sum.split)
  from arg_cong [OF this, of snd] have run: "s' = snd (case a of Inl e \<Rightarrow> (Inl e, ?s2)
       | Inr (Inl res) \<Rightarrow> ?rest (res, None) ?s2
       | Inr (Inr pn) \<Rightarrow>
           sbind (sbind (exec_step R en V rid repo it tier (proposal_to_step (pn_proposal pn))) (\<lambda>(out, key).
             sbind (in_kernel (kernel_finish R en out c rid pn)) (\<lambda>res. sret (res, key)))) ?rest ?s2)"
    by (simp only: assms snd_conv)
  have "smoves same_world (?rest rk)" for rk by (auto intro!: smoving world_sink split: prod.split)
  then have rest: "or_world (snd (?rest rk t)) = or_world t" for rk t
    unfolding smoves_def same_world_def by blast
  show ?thesis
  proof (cases a)
    case (Inr x)
    show ?thesis
    proof (cases x)
      case i: (Inr pn)
      let ?m = "exec_step R en V rid repo it tier (proposal_to_step (pn_proposal pn))"
      obtain o2 s3 where e: "?m ?s2 = (o2, s3)" by fastforce
      from exec_step_asked [OF e] have w: "or_world s3 = or_world s \<or> or_world s3 =
          snd (sv_post_step V repo it (proposal_to_step (pn_proposal pn)) rid tier True (or_world s))"
        by (simp add: asked_def)
      have "smoves same_world (sbind (in_kernel (kernel_finish R en out c rid pn)) (\<lambda>res. ?rest (res, key)))" for out key
        by (auto intro!: smoving world_kernel world_sink)
      then have "same_world s3 (snd (sbind (sbind ?m (\<lambda>(out, key).
             sbind (in_kernel (kernel_finish R en out c rid pn)) (\<lambda>res. sret (res, key)))) ?rest ?s2))"
        unfolding bind_assoc
        by (intro smoves_tail [where m = ?m, OF world_order e]) (auto simp: bind_assoc sret_sbind split: prod.split)
      then have "or_world s' = or_world s3" by (simp add: run Inr i same_world_def)
      with w show ?thesis using ask by (auto simp: Inr i)
    next
      case i: (Inl res)
      then show ?thesis using run rest [of "(res, None)" ?s2] by (simp add: Inr)
    qed
  qed (use run in auto)
qed

section \<open>The whole run\<close>

lemma frame_await:
  "smoves (others rid) (await_approval R en V rid q it step)" "smoves (sound R) (await_approval R en V rid q it step)"
  unfolding await_approval_def by (auto intro!: frame)

lemma frame_judge:
  "smoves (others rid) (execute_and_judge R en V rid q it step)" "smoves (sound R) (execute_and_judge R en V rid q it step)"
  unfolding execute_and_judge_def
  by (auto intro!: frame others_execute sound_execute split: prod.split)

lemma frame_turn:
  "smoves (others rid) (run_turn R en V rid q it step)" "smoves (sound R) (run_turn R en V rid q it step)"
  unfolding run_turn_def
  by (auto intro!: frame frame_await frame_judge split: option.split)

lemma frame_steps:
  "smoves (others rid) (run_steps R en V rid q it plan)" "smoves (sound R) (run_steps R en V rid q it plan)"
  by (induction plan arbitrary: it) (auto intro!: frame frame_turn split: option.split)

lemma smoves_guarded:
  assumes "preorder Q" "smoves Q (run_steps R en V rid q 0 plan)" "\<And>ev. smoves Q (sink R en ev)"
  shows "smoves Q (guarded_steps R en V rid q plan)"
  unfolding smoves_def
proof
  fix s
  obtain r s1 where m: "run_steps R en V rid q 0 plan s = (r, s1)" by fastforce
  have 1: "Q s s1" by (rule smovesD [OF assms(2) m])
  have "smoves Q (sbind (sink R en ev) (\<lambda>_. sret x))" for ev and x :: "string \<times> string" by (intro smoving assms)
  then have "Q s1 (snd (sbind (sink R en ev) (\<lambda>_. sret x) s1))" for ev and x :: "string \<times> string"
    unfolding smoves_def by blast
  with 1 assms(1) show "Q s (snd (guarded_steps R en V rid q plan s))"
    by (auto simp: guarded_steps_def m preorder_def dest: transpD split: sum.split)
qed

lemma frame_record:
  "smoves (others rid) (supdate (\<lambda>s. s\<lparr>or_world := f s\<rparr>))" "smoves (sound R) (supdate (\<lambda>s. s\<lparr>or_world := f s\<rparr>))"
  by (simp_all add: smoves_supdate others_def sound_def)

lemma frame_run:
  "smoves (others rid) (run_logic R en V rid q)" "smoves (sound R) (run_logic R en V rid q)"
  unfolding run_logic_def Let_def finalize_manifest_def
  by (auto intro!: frame frame_record smoves_guarded frame_steps split: option.split prod.split)

section \<open>How runs end\<close>

lemma returns_guarded [returning]: "returns (guarded_steps R en V rid q plan)"
  unfolding returns_def
proof
  fix s
  obtain r s1 where m: "run_steps R en V rid q 0 plan s = (r, s1)" by fastforce
  have "returns (sbind (sink R en ev) (\<lambda>_. sret y))" for ev and y :: "string \<times> string" by (intro returning)
  then have "\<exists>x s'. sbind (sink R en ev) (\<lambda>_. sret y) s1 = (Inr x, s')" for ev and y :: "string \<times> string"
    unfolding returns_def by blast
  then show "\<exists>x s'. guarded_steps R en V rid q plan s = (Inr x, s')"
    unfolding guarded_steps_def m by (cases r) (simp_all del: split_paired_Ex)
qed

lemma returns_request [returning]: "returns (sandbox_request V path rid repo)"
  unfolding sandbox_request_def by (auto intro!: returning)

definition FAILURES :: "string set" where
  "FAILURES = {''no_op_stopped'', ''error''}"

definition TURN_ENDS :: "string set" where
  "TURN_ENDS = {''policy_denied'', ''aborted''} \<union> FAILURES"

definition END_STATUS :: "string set" where
  "END_STATUS = {''completed'', ''max_iterations''} \<union> TURN_ENDS"

lemma end_status_intros [intro, simp]:
  "''policy_denied'' \<in> TURN_ENDS" "''aborted'' \<in> TURN_ENDS" "x \<in> FAILURES \<Longrightarrow> x \<in> TURN_ENDS"
  "''completed'' \<in> END_STATUS" "''max_iterations'' \<in> END_STATUS" "x \<in> TURN_ENDS \<Longrightarrow> x \<in> END_STATUS"
  "''error'' \<in> END_STATUS"
  by (auto simp: END_STATUS_def TURN_ENDS_def FAILURES_def)

lemma not_completed: "''completed'' \<notin> TURN_ENDS"
  by (simp add: TURN_ENDS_def FAILURES_def)

lemma step_failure_status: "step_failure it r = (st, why) \<Longrightarrow> st \<in> FAILURES"
  by (auto simp: step_failure_def Let_def FAILURES_def split: if_splits)

lemma judge_status:
  assumes "execute_and_judge R en V rid q it step s = (Inr (Some (st, why)), s')"
  shows "st \<in> FAILURES"
  using assms unfolding execute_and_judge_def Let_def
  by (elim sbind_returnsE) (auto elim!: sbind_returnsE simp: sret_returns intro: step_failure_status
      split: if_splits prod.splits)

lemma turn_status:
  assumes "run_turn R en V rid q it step s = (Inr (Some (st, why)), s')"
  shows "st \<in> TURN_ENDS"
  using assms unfolding run_turn_def
  by (elim sbind_returnsE, auto elim!: sbind_returnsE simp: sret_returns split: if_splits option.splits)
    (rule end_status_intros(3), erule judge_status)+

lemma steps_status:
  "run_steps R en V rid q it plan s = (Inr (st, why), s') \<Longrightarrow> st \<in> END_STATUS"
proof (induction plan arbitrary: it s)
  case (Cons step rest)
  then show ?case
    by (auto elim!: sbind_returnsE simp: sret_returns split: if_splits option.splits)
      (rule end_status_intros(6), erule turn_status)
qed (auto simp: sret_returns)

lemma guarded_status:
  assumes "guarded_steps R en V rid q plan s = (Inr (st, why), s')"
  shows "st \<in> END_STATUS"
  using assms unfolding guarded_steps_def
  by (auto elim!: sbind_returnsE simp: sret_returns split: prod.splits sum.splits dest: steps_status)

section \<open>What a completed run has done\<close>

definition same_steps :: "string \<Rightarrow> 'w orch \<Rightarrow> 'w orch \<Rightarrow> bool" where
  "same_steps rid s s' \<longleftrightarrow> rc_steps (ctx_of rid s') = rc_steps (ctx_of rid s)"

lemma steps_order [simp]: "preorder (same_steps rid)"
  by (auto simp: preorder_def same_steps_def reflp_def transp_def)

lemma steps_kernel: "smoves (same_steps rid) (in_kernel m)"
  by (simp add: smoves_def in_kernel_eq same_steps_def ctx_of_def)

lemma ctx_of_set [simp]:
  "ctx_of rid (s\<lparr>or_runs := AList.update rid c m\<rparr>) = c" "ctx_of rid (s\<lparr>or_world := w\<rparr>) = ctx_of rid s"
  "ctx_of rid (s\<lparr>or_kernel := k\<rparr>) = ctx_of rid s"
  by (simp_all add: ctx_of_def update_conv')

lemma steps_set_ctx: "(\<And>c. rc_steps (f c) = rc_steps c) \<Longrightarrow> smoves (same_steps rid) (set_ctx rid f)"
  by (simp add: set_ctx_def smoves_supdate same_steps_def)

lemma steps_ensure: "smoves (same_steps rid) (ensure_ctx rid)"
  by (simp add: ensure_ctx_def smoves_supdate same_steps_def ensure_run_context_def ctx_of_def update_conv'
      split: option.split)

lemma steps_world: "smoves (same_steps rid) (in_world f)"
  by (simp add: smoves_def in_world_eq same_steps_def)

lemma steps_sink: "smoves (same_steps rid) (sink R en ev)"
  unfolding sink_def by (auto intro!: smoving steps_kernel)

lemma steps_gateway:
  "smoves (same_steps rid) (\<lambda>st. case gateway_step V repo it x r tier warm st of (a, st') \<Rightarrow> (Inr a, st'))"
  by (auto simp: smoves_def gateway_step_def same_steps_def split: prod.split post_reply.split)

lemma steps_request: "smoves (same_steps rid) (sandbox_request V path r repo)"
  unfolding sandbox_request_def by (auto intro!: smoving steps_world)

lemma steps_execute: "smoves (same_steps rid) (execute_approved_step R en V rid repo it step c i b ev tier)"
  unfolding execute_approved_step_def exec_step_def Let_def
  by (auto intro!: smoving steps_kernel steps_set_ctx steps_ensure steps_sink steps_gateway
      split: sum.split prod.split option.split)

lemma steps_await: "smoves (same_steps rid) (await_approval R en V rid q it step)"
  unfolding await_approval_def by (auto intro!: smoving steps_set_ctx steps_sink steps_world)

lemma execute_answers:
  assumes "execute_approved_step R en V rid repo it step c i b ev tier s = (Inr r, s')"
  shows "\<exists>res. r = bridge_answer en res"
  using assms unfolding execute_approved_step_def
  by (elim sbind_returnsE) (auto elim!: sbind_returnsE simp: sret_returns split: prod.splits)

lemma bridge_ok: "br_ok (bridge_answer en res) \<longleftrightarrow> kr_approved res"
  by (simp add: bridge_answer_def)

text \<open>A step that was allowed by the policy of the run loop and approved by the kernel.\<close>

definition taken :: "runtime \<Rightarrow> env \<Rightarrow> 'w services \<Rightarrow> int \<times> pydict \<times> bridge_result \<Rightarrow> bool" where
  "taken R en V = (\<lambda>(it, step, r). policy_error R V step = Inr None
     \<and> (\<exists>res. r = bridge_answer en res \<and> kr_approved res))"

lemma judge_ok:
  assumes "execute_and_judge R en V rid q it step s = (Inr None, s')"
  shows "\<exists>r res. r = bridge_answer en res \<and> kr_approved res
    \<and> rc_steps (ctx_of rid s') = rc_steps (ctx_of rid s) @ [(it, step, r)]"
proof -
  from assms obtain r s1 s2 where e: "execute_approved_step R en V rid (rq_repo q) it step [] (step_intent R it step) [] None 1 s = (Inr r, s1)"
    and u: "set_ctx rid (\<lambda>c. c\<lparr>rc_steps := rc_steps c @ [(it, step, r)]\<rparr>) s1 = (Inr (), s2)"
    and ok: "br_ok r" and l: "s' = logged R en (event [(''type'', PStr ''STEP_OK''), (''iteration'', PInt it), (''result'', result_dict r)]) s2"
    unfolding execute_and_judge_def
    by (elim sbind_returnsE) (auto elim!: sbind_returnsE simp: sret_returns sink_eq Let_def split: if_splits prod.splits)
  have "rc_steps (ctx_of rid s1) = rc_steps (ctx_of rid s)"
    using smovesD [OF steps_execute e] by (simp add: same_steps_def)
  then have "rc_steps (ctx_of rid s') = rc_steps (ctx_of rid s) @ [(it, step, r)]"
    using u by (auto simp: l set_ctx_def supdate_def)
  with execute_answers [OF e] ok bridge_ok show ?thesis by blast
qed

lemma turn_ok:
  assumes "run_turn R en V rid q it step s = (Inr None, s')"
  shows "\<exists>r. taken R en V (it, step, r) \<and> rc_steps (ctx_of rid s') = rc_steps (ctx_of rid s) @ [(it, step, r)]"
proof -
  let ?plan = "sink R en (event [(''type'', PStr ''STEP_PLAN''), (''iteration'', PInt it), (''step'', PDict step)])"
  obtain s1 denied where p: "?plan s = (Inr (), s1)" and d: "policy_error R V step = Inr denied"
    and m: "(case denied of
       Some why \<Rightarrow>
         sbind (sink R en (event [(''type'', PStr ''POLICY_DENIED''), (''iteration'', PInt it), (''reason'', PStr why),
                  (''step'', PDict step)])) (\<lambda>_.
         sret (Some (''policy_denied'', why)))
     | None \<Rightarrow>
         sbind (\<lambda>s. (low_confidence q step, s)) (\<lambda>low.
         sbind (if low then await_approval R en V rid q it step else sret False) (\<lambda>rejected.
         if rejected then sret (Some (''aborted'', ''User rejected step''))
         else execute_and_judge R en V rid q it step))) s1 = (Inr None, s')"
    using assms unfolding run_turn_def by (auto elim!: sbind_returnsE)
  have ok: "denied = None" using m by (cases denied) (auto elim!: sbind_returnsE simp: sret_returns)
  obtain low rejected s2 where w: "(if low then await_approval R en V rid q it step else sret False) s1 = (Inr rejected, s2)"
    and m2: "(if rejected then sret (Some (''aborted'', ''User rejected step''))
         else execute_and_judge R en V rid q it step) s2 = (Inr None, s')"
    using m unfolding ok option.case by (elim sbind_returnsE) simp
  have j: "execute_and_judge R en V rid q it step s2 = (Inr None, s')"
    using m2 by (simp add: sret_returns split: if_splits)
  have f: "smoves (same_steps rid) (if low then await_approval R en V rid q it step else sret False)"
    by (auto intro!: smoving steps_await)
  have "same_steps rid s s2"
    using smovesD [OF steps_sink p, of rid]
      smovesD [where m = "if low then await_approval R en V rid q it step else sret False", OF f w]
    by (simp add: same_steps_def)
  with judge_ok [OF j] ok d show ?thesis by (auto simp: taken_def same_steps_def)
qed

lemma steps_completed:
  assumes "run_steps R en V rid q it plan s = (Inr (''completed'', why), s')"
  shows "\<exists>rs. rc_steps (ctx_of rid s') = rc_steps (ctx_of rid s) @ rs \<and> map (fst \<circ> snd) rs = plan
    \<and> map fst rs = map (\<lambda>k. it + 1 + int k) [0..<length plan] \<and> list_all (taken R en V) rs
    \<and> (plan = [] \<or> it + int (length plan) \<le> min (rq_max_iters q) (sv_max_iterations V))"
  using assms
proof (induction plan arbitrary: it s)
  case Nil
  then show ?case by (simp add: sret_returns)
next
  case (Cons step rest)
  let ?lim = "min (rq_max_iters q) (sv_max_iterations V)"
  have lim: "it < ?lim" using Cons.prems by (auto simp: sret_returns split: if_splits)
  obtain e s1 where t: "run_turn R en V rid q (it + 1) step s = (Inr e, s1)"
    and r: "(case e of Some out \<Rightarrow> sret out | None \<Rightarrow> run_steps R en V rid q (it + 1) rest) s1 = (Inr (''completed'', why), s')"
    using Cons.prems lim by (auto elim: sbind_returnsE)
  have e: "e = None"
    using r t not_completed turn_status [of R en V rid q "it + 1" step s "''completed''" why s1]
    by (cases e) (auto simp: sret_returns)
  from turn_ok t e obtain a where a: "taken R en V (it + 1, step, a)"
    "rc_steps (ctx_of rid s1) = rc_steps (ctx_of rid s) @ [(it + 1, step, a)]" by blast
  from Cons.IH [of "it + 1" s1] r e obtain rs where rs: "rc_steps (ctx_of rid s') = rc_steps (ctx_of rid s1) @ rs"
    "map (fst \<circ> snd) rs = rest" "map fst rs = map (\<lambda>k. it + 1 + 1 + int k) [0..<length rest]"
    "list_all (taken R en V) rs" "rest = [] \<or> it + 1 + int (length rest) \<le> ?lim" by auto
  have "map (\<lambda>k. it + 1 + int k) [0..<length (step # rest)] = (it + 1) # map (\<lambda>k. it + 1 + 1 + int k) [0..<length rest]"
    by (simp add: upt_conv_Cons map_Suc_upt [symmetric] del: upt_Suc)
  then show ?case using a rs lim by (intro exI [of _ "(it + 1, step, a) # rs"]) auto
qed

lemma steps_guarded:
  "guarded_steps R en V rid q plan s = (Inr (''completed'', why), s')
    \<Longrightarrow> run_steps R en V rid q 0 plan s = (Inr (''completed'', why), s')"
  unfolding guarded_steps_def
  by (auto elim!: sbind_returnsE simp: sret_returns split: prod.splits sum.splits)

section \<open>The end of a run with a plan\<close>

text \<open>What \<open>run_logic\<close> does for a run with a plan, with the parts that cannot raise named.\<close>

definition run_opens :: "runtime \<Rightarrow> env \<Rightarrow> 'w services \<Rightarrow> string \<Rightarrow> run_req \<Rightarrow> ('w, unit) orc" where
  "run_opens R en V rid q =
     sbind (ensure_ctx rid) (\<lambda>_.
     sbind (set_ctx rid (\<lambda>c. c\<lparr>rc_repo := rq_repo q, rc_status := ''running''\<rparr>)) (\<lambda>_.
     sbind (sink R en (event [(''type'', PStr ''RUN_START''), (''run_id'', PStr rid), (''manifest'', PDict (start_manifest en V rid q))])) (\<lambda>_.
     sbind (sandbox_request V ''/sandbox/create'' rid (rq_repo q)) (\<lambda>info.
       sink R en (event [(''type'', PStr ''SANDBOX_INIT''), (''info'', case info of None \<Rightarrow> PNone | Some d \<Rightarrow> PDict d)])))))"

definition run_closes :: "runtime \<Rightarrow> env \<Rightarrow> 'w services \<Rightarrow> string \<Rightarrow> run_req \<Rightarrow> string \<times> string \<Rightarrow> ('w, unit) orc" where
  "run_closes R en V rid q = (\<lambda>(status, reason).
     sbind (sandbox_request V ''/sandbox/destroy'' rid (rq_repo q)) (\<lambda>_.
     sbind (finalize_manifest en V rid (rq_repo q) (start_manifest en V rid q) status reason) (\<lambda>_. sret ())))"

definition harvest :: "'w services \<Rightarrow> string \<Rightarrow> run_req \<Rightarrow> string \<Rightarrow> 'w orch \<Rightarrow> 'w orch" where
  "harvest V rid q status s =
     (let s1 = s\<lparr>or_world := sv_record_run V rid (rq_repo q) (rq_task q) (status = ''completed'')
                              (rc_steps (ctx_of rid s)) (or_world s)\<rparr>
      in s1\<lparr>or_runs := clear_run_context rid (or_runs s1)\<rparr>)"

lemma supdate_twice: "sbind (supdate f) (\<lambda>_. sbind (supdate g) h) = sbind (supdate (\<lambda>s. g (f s))) h"
  by (rule ext) (simp add: sbind_def supdate_def)

lemma run_logic_plan:
  fixes V :: "'w services"
  assumes "rq_plan q = Some plan"
  shows "run_logic R en V rid q =
     sbind (run_opens R en V rid q) (\<lambda>_.
     sbind (guarded_steps R en V rid q plan) (\<lambda>out.
     sbind (run_closes R en V rid q out) (\<lambda>_.
     sbind (supdate (harvest V rid q (fst out))) (\<lambda>_.
     sret \<lparr>ro_run_id = rid, ro_status = fst out, ro_reason = snd out\<rparr>))))"
proof -
  have h: "harvest V rid q status = (\<lambda>s. (s\<lparr>or_world := sv_record_run V rid (rq_repo q) (rq_task q) (status = ''completed'')
                              (rc_steps (ctx_of rid s)) (or_world s), or_runs := clear_run_context rid (or_runs s)\<rparr>))" for status
    by (rule ext) (simp add: harvest_def Let_def)
  have select_runs: "or_runs (s\<lparr>or_world := w\<rparr>) = or_runs s" for s :: "'w orch" and w by simp
  show ?thesis
    unfolding run_logic_def run_opens_def run_closes_def Let_def drop_ctx_def assms option.case
    by (simp only: case_prod_unfold bind_assoc sret_sbind supdate_twice h orch.simps select_runs)
qed

lemma opens_returns: "returns (run_opens R en V rid q)"
  unfolding run_opens_def ensure_ctx_def by (auto intro!: returning)

lemma closes_returns: "returns (run_closes R en V rid q out)"
  unfolding run_closes_def finalize_manifest_def Let_def by (auto intro!: returning split: prod.split)

lemma opens_steps: "smoves (same_steps rid) (run_opens R en V rid q)"
  unfolding run_opens_def by (auto intro!: smoving steps_ensure steps_set_ctx steps_sink steps_request)

lemma closes_steps: "smoves (same_steps rid) (run_closes R en V rid q out)"
  unfolding run_closes_def finalize_manifest_def Let_def
  by (auto intro!: smoving steps_request steps_world split: prod.split)

text \<open>A run with a plan, taken apart.\<close>

lemma run_logic_parts:
  assumes "rq_plan q = Some plan"
  obtains s1 status reason s2 s3 where "run_opens R en V rid q s = (Inr (), s1)"
    "guarded_steps R en V rid q plan s1 = (Inr (status, reason), s2)"
    "run_closes R en V rid q (status, reason) s2 = (Inr (), s3)"
    "run_logic R en V rid q s = (Inr \<lparr>ro_run_id = rid, ro_status = status, ro_reason = reason\<rparr>, harvest V rid q status s3)"
proof -
  obtain s1 where o1: "run_opens R en V rid q s = (Inr (), s1)"
    using opens_returns unfolding returns_def by fastforce
  obtain status reason s2 where g: "guarded_steps R en V rid q plan s1 = (Inr (status, reason), s2)"
    using returns_guarded by (metis returns_obtain surj_pair)
  obtain s3 where c: "run_closes R en V rid q (status, reason) s2 = (Inr (), s3)"
    using closes_returns unfolding returns_def by fastforce
  have "run_logic R en V rid q s = (Inr \<lparr>ro_run_id = rid, ro_status = status, ro_reason = reason\<rparr>, harvest V rid q status s3)"
    unfolding run_logic_plan [OF assms] by (simp add: eff_simps o1 g c)
  with o1 g c show thesis by (rule that)
qed

end
