(* ===== verification/Orchestrator_Spec.thy ===== *)
theory Orchestrator_Spec
  imports Orchestrator_Facts
begin

text \<open>
  The properties of the orchestrator, with one concrete run that serves as their witness: its plan has a
  single step, a read that fails in the gateway, and the run still ends as \<open>completed\<close>.
\<close>

section \<open>A concrete run\<close>

text \<open>The world counts the requests; a recorded trajectory adds a hundred for each of its steps.\<close>

definition lazy_services :: "nat services" where
  "lazy_services = \<lparr>sv_post_step = (\<lambda>repo it step rid tier warm n. (Answer 200 [(PStr ''status'', PInt 1)] [], Suc n)),
     sv_post_sandbox = (\<lambda>path rid repo n. (NoAnswer [], n)), sv_approval = (\<lambda>rid n. (True, n)),
     sv_write_file = (\<lambda>path d n. (None, n)), sv_record_run = (\<lambda>rid repo task ok steps n. n + 100 * length steps),
     sv_warm = False, sv_replay_dir = ''/r'', sv_json = (\<lambda>v. ''x''), sv_http_text = (\<lambda>i t. t), sv_error_text = (\<lambda>e. ''e''),
     sv_max_iterations = 3, sv_semantic = False, sv_sandbox_mode = []\<rparr>"

definition lazy_req :: run_req where
  "lazy_req = \<lparr>rq_repo = ''p'', rq_task = [], rq_max_iters = 3, rq_scenario = None, rq_threshold = 0, rq_plan = Some [demo_raw]\<rparr>"

text \<open>A new kernel that has seen the run id before.\<close>

definition lazy_kernel :: kernel where
  "lazy_kernel = set_resource_run ''r'' demo_kernel"

definition lazy_orch :: "nat orch" where
  "lazy_orch = \<lparr>or_kernel = lazy_kernel, or_runs = [], or_world = 0\<rparr>"

definition lazy_p :: proposal where
  "lazy_p = normalize_step digest_runtime 0 demo_raw ''step 1'' [] []"

definition lazy_state :: system_state where
  "lazy_state = k_state lazy_kernel"

definition lazy_sim :: sim_result where
  "lazy_sim = projr (simulate lazy_p lazy_state (Some (k_history lazy_kernel)) [] None 0 None [] [])"

definition lazy_risk :: risk_breakdown where
  "lazy_risk = projr (risk_score lazy_p lazy_sim lazy_state (k_policy lazy_kernel))"

definition lazy_dec :: decision where
  "lazy_dec = projr (decide digest_runtime lazy_p lazy_sim lazy_risk (k_policy lazy_kernel))"

lemma lazy_gates:
  "budget_reason digest_runtime demo_raw (tier_cfg (k_tier_policy lazy_kernel) 0) lazy_state = Inr None"
  "tier_allows_step demo_raw (tier_cfg (k_tier_policy lazy_kernel) 0) (k_classifiers lazy_kernel) = Inr None"
  "validate digest_runtime lazy_p lazy_state (k_policy lazy_kernel) = Inr demo_val"
  "fst (run_get ''r'' (k_runs lazy_kernel)) = fresh_run"
  by code_simp+

lemma lazy_decision:
  "simulate lazy_p lazy_state (Some (k_history lazy_kernel)) [] None 0 None [] [] = Inr lazy_sim"
  "risk_score lazy_p lazy_sim lazy_state (k_policy lazy_kernel) = Inr lazy_risk"
  "decide digest_runtime lazy_p lazy_sim lazy_risk (k_policy lazy_kernel) = Inr lazy_dec"
  "dc_approved lazy_dec"
proof -
  have "\<not> isl (simulate lazy_p lazy_state (Some (k_history lazy_kernel)) [] None 0 None [] [])"
    by code_simp
  then show "simulate lazy_p lazy_state (Some (k_history lazy_kernel)) [] None 0 None [] [] = Inr lazy_sim"
    unfolding lazy_sim_def by (rule not_isl)
  have "\<not> isl (risk_score lazy_p lazy_sim lazy_state (k_policy lazy_kernel))" by code_simp
  then show "risk_score lazy_p lazy_sim lazy_state (k_policy lazy_kernel) = Inr lazy_risk"
    unfolding lazy_risk_def by (rule not_isl)
  have "\<not> isl (decide digest_runtime lazy_p lazy_sim lazy_risk (k_policy lazy_kernel))" by code_simp
  then show "decide digest_runtime lazy_p lazy_sim lazy_risk (k_policy lazy_kernel) = Inr lazy_dec"
    unfolding lazy_dec_def by (rule not_isl)
  show "dc_approved lazy_dec" by code_simp
qed

text \<open>The kernel of this run with another ledger gives the same answers.\<close>

definition lazy_pending :: pending where
  "lazy_pending = \<lparr>pn_proposal = lazy_p, pn_run = fresh_run, pn_validation = demo_val, pn_simulation = lazy_sim,
     pn_risk = lazy_risk, pn_decision = lazy_dec\<rparr>"

definition lazy_started :: kernel where
  "lazy_started = lazy_kernel\<lparr>k_runs := snd (run_get ''r'' (k_runs lazy_kernel))\<rparr>"

lemma lazy_ask:
  "kernel_ask digest_runtime quiet_env demo_raw [] ''step 1'' [] ''r'' None (lazy_kernel\<lparr>k_ledger := L\<rparr>)
    = (Inr (Inr lazy_pending), lazy_started\<lparr>k_ledger := L\<rparr>)"
proof -
  have start: "kget_run ''r'' (lazy_kernel\<lparr>k_ledger := L\<rparr>) = (Inr fresh_run, lazy_started\<lparr>k_ledger := L\<rparr>)"
    using lazy_gates(4) by (simp add: kget_run_eq lazy_started_def)
  have ev: "read_evidence digest_runtime None = Inr no_evidence" by (simp add: read_evidence_def)
  have st: "k_state lazy_started = lazy_state" "k_policy lazy_started = k_policy lazy_kernel"
    "k_history lazy_started = k_history lazy_kernel" "k_tier_policy lazy_started = k_tier_policy lazy_kernel"
    "k_classifiers lazy_started = k_classifiers lazy_kernel"
    by (simp_all add: lazy_started_def lazy_state_def)
  have p: "normalize_step digest_runtime (en_clock quiet_env) demo_raw ''step 1'' [] [] = lazy_p"
    by (simp add: lazy_p_def quiet_env_def)
  have "ask_validated digest_runtime quiet_env lazy_p [] ''r'' None fresh_run demo_val (lazy_started\<lparr>k_ledger := L\<rparr>)
      = (Inr (Inr lazy_pending), lazy_started\<lparr>k_ledger := L\<rparr>)"
    using lazy_decision
    by (simp add: ask_validated_def kbind_def klift_def kget_def kret_def ev no_evidence_def st lazy_pending_def)
  then have "ask_gated digest_runtime quiet_env lazy_p [] ''r'' None fresh_run (lazy_started\<lparr>k_ledger := L\<rparr>)
      = (Inr (Inr lazy_pending), lazy_started\<lparr>k_ledger := L\<rparr>)"
    using lazy_gates(3) by (simp add: ask_gated_def kbind_def klift_def kget_def st demo_val_def)
  then show ?thesis
    using lazy_gates(1,2) start
    by (simp add: kernel_ask_def Let_def kbind_def klift_def kget_def fresh_run_def st p)
qed

definition lazy_oc :: outcome where
  "lazy_oc = \<lparr>oc_success = False, oc_exit_code = 1, oc_payload = ''x'', oc_logs = [], oc_duration_sec = 0,
     oc_error = None, oc_state_delta_hash = []\<rparr>"

definition lazy_settled :: kernel where
  "lazy_settled = snd (settle lazy_p [] (sr_cost_est lazy_sim) lazy_oc lazy_started)"

lemma settle_ledger:
  "settle p c cost oc (k\<lparr>k_ledger := L\<rparr>) = (fst (settle p c cost oc k), (snd (settle p c cost oc k))\<lparr>k_ledger := L\<rparr>)"
  by (simp add: settle_def count_outcome_def check_rollback_def Let_def)

lemma settle_result: "k_consecutive k < 2 \<Longrightarrow> oc_success oc = False \<Longrightarrow> fst (settle p c cost oc k) = Inr oc"
  by (simp add: settle_def count_outcome_def check_rollback_def note_rollback_def Let_def)

lemma ledger_fields:
  "k_state (k\<lparr>k_ledger := L\<rparr>) = k_state k" "k_policy (k\<lparr>k_ledger := L\<rparr>) = k_policy k"
  "k_tier_policy (k\<lparr>k_ledger := L\<rparr>) = k_tier_policy k"
  by simp_all

lemma lazy_aftermath:
  "\<exists>res k'. aftermath digest_runtime quiet_env lazy_p ''r'' fresh_run demo_val lazy_sim lazy_risk lazy_dec
     lazy_oc (lazy_settled\<lparr>k_ledger := L\<rparr>) = (Inr res, k') \<and> kr_approved res"
proof -
  have "outcome_kinds digest_runtime quiet_env lazy_oc = Inr []" "run_tier fresh_run = 0" by code_simp+
  moreover have "pick_next_tier 0 [] (k_tier_policy (lazy_settled\<lparr>k_ledger := L\<rparr>)) = Inr (0, ''no escalation'')"
    unfolding ledger_fields by code_simp
  moreover have "verify digest_runtime lazy_oc (k_state (lazy_settled\<lparr>k_ledger := L\<rparr>)) (k_policy (lazy_settled\<lparr>k_ledger := L\<rparr>))
      = Inr \<lparr>vr_ok = True, vr_violations = []\<rparr>"
    unfolding ledger_fields by code_simp
  ultimately obtain res k' where a: "aftermath digest_runtime quiet_env lazy_p ''r'' fresh_run demo_val lazy_sim lazy_risk lazy_dec
     lazy_oc (lazy_settled\<lparr>k_ledger := L\<rparr>) = (Inr res, k')" using aftermath_quiet by blast
  then have "kr_decision res = Some lazy_dec"
    unfolding aftermath_def by (auto simp: kbind_Inr)
  with lazy_decision(4) a show ?thesis by (auto simp: kr_approved_def)
qed

lemma lazy_finish:
  "\<exists>res k'. kernel_finish digest_runtime quiet_env (Inr lazy_oc) [] ''r'' lazy_pending (lazy_started\<lparr>k_ledger := L\<rparr>)
     = (Inr res, k') \<and> kr_approved res"
proof -
  have "k_consecutive lazy_started < 2" by code_simp
  then have "fst (settle lazy_p [] (sr_cost_est lazy_sim) lazy_oc lazy_started) = Inr lazy_oc"
    by (rule settle_result) (simp add: lazy_oc_def)
  then have "settle lazy_p [] (sr_cost_est lazy_sim) lazy_oc (lazy_started\<lparr>k_ledger := L\<rparr>)
      = (Inr lazy_oc, lazy_settled\<lparr>k_ledger := L\<rparr>)"
    by (simp add: settle_ledger lazy_settled_def)
  with lazy_aftermath [of L] show ?thesis
    by (simp add: kernel_finish_def lazy_pending_def execute_stage_def kbind_def run_executor_def)
qed

text \<open>The first step of the run, from any ledger.\<close>

definition lazy_at :: "hard_ledger \<Rightarrow> run_ctx \<Rightarrow> nat orch" where
  "lazy_at L c = \<lparr>or_kernel = lazy_kernel\<lparr>k_ledger := L\<rparr>, or_runs = [(''r'', c)], or_world = 0\<rparr>"

lemma lazy_reply:
  "reply_outcome digest_runtime lazy_services [(PStr ''status'', PInt 1)] = Inr lazy_oc"
  by code_simp

lemma lazy_resource: "set_resource_run ''r'' (lazy_kernel\<lparr>k_ledger := L\<rparr>) = lazy_kernel\<lparr>k_ledger := L\<rparr>"
  by (simp add: set_resource_run_def lazy_kernel_def demo_kernel_def blank_kernel_def initial_state_def dget_def dput_def)

lemma lazy_execute:
  assumes "rc_cache c = []"
  shows "\<exists>r s'. execute_approved_step digest_runtime quiet_env lazy_services ''r'' ''p'' 1 demo_raw [] ''step 1'' [] None 1
      (lazy_at L c) = (Inr r, s') \<and> br_ok r \<and> or_world s' = 1"
proof -
  let ?x = "proposal_to_step (pn_proposal lazy_pending)"
  let ?s = "(lazy_at L c)\<lparr>or_kernel := lazy_started\<lparr>k_ledger := L\<rparr>\<rparr>"
  have start: "ensure_ctx ''r'' (lazy_at L c) = (Inr (), lazy_at L c)"
    by (simp add: ensure_ctx_def supdate_def ensure_run_context_def lazy_at_def)
  have res: "in_kernel (kupd (set_resource_run ''r'')) (lazy_at L c) = (Inr (), lazy_at L c)"
    by (simp add: in_kernel_eq kupd_def lazy_at_def lazy_resource)
  have ask: "in_kernel (kernel_ask digest_runtime quiet_env demo_raw [] ''step 1'' [] ''r'' None) (lazy_at L c) = (Inr (Inr lazy_pending), ?s)"
    using lazy_ask by (simp add: in_kernel_eq lazy_at_def)
  have "cache_get key (rc_cache (ctx_of ''r'' ?s)) = None" for key
    using assms by (simp add: ctx_of_def lazy_at_def cache_get_def)
  then have "\<exists>c'. exec_step digest_runtime quiet_env lazy_services ''r'' ''p'' 1 1 ?x ?s
      = (Inr (Inr lazy_oc, None), ?s\<lparr>or_world := 1, or_runs := [(''r'', c')]\<rparr>)"
    by (simp add: exec_step_def Let_def sbind_def sread_def gateway_step_def lazy_services_def set_ctx_def supdate_def sret_def
        lazy_at_def lazy_reply [unfolded lazy_services_def])
  then obtain c' where e: "exec_step digest_runtime quiet_env lazy_services ''r'' ''p'' 1 1 ?x ?s
      = (Inr (Inr lazy_oc, None), ?s\<lparr>or_world := 1, or_runs := [(''r'', c')]\<rparr>)" ..
  obtain kr k' where f: "kernel_finish digest_runtime quiet_env (Inr lazy_oc) [] ''r'' lazy_pending (lazy_started\<lparr>k_ledger := L\<rparr>)
     = (Inr kr, k')" "kr_approved kr" using lazy_finish by blast
  have fin: "in_kernel (kernel_finish digest_runtime quiet_env (Inr lazy_oc) [] ''r'' lazy_pending)
      (?s\<lparr>or_world := 1, or_runs := [(''r'', c')]\<rparr>) = (Inr kr, ?s\<lparr>or_world := 1, or_runs := [(''r'', c')], or_kernel := k'\<rparr>)"
    by (simp add: in_kernel_eq f)
  show ?thesis
    unfolding execute_approved_step_def using start res ask e fin f(2)
    by (simp add: eff_simps step_event_def bridge_ok)
qed

lemma lazy_opens:
  "\<exists>L c. run_opens digest_runtime quiet_env lazy_services ''r'' lazy_req lazy_orch = (Inr (), lazy_at L c)
     \<and> rc_cache c = [] \<and> rc_steps c = []"
proof -
  let ?c = "fresh_ctx\<lparr>rc_repo := ''p'', rc_status := ''running''\<rparr>"
  let ?start = "event [(''type'', PStr ''RUN_START''), (''run_id'', PStr ''r''),
      (''manifest'', PDict (start_manifest quiet_env lazy_services ''r'' lazy_req))]"
  let ?init = "event [(''type'', PStr ''SANDBOX_INIT''), (''info'', PNone)]"
  let ?s = "\<lparr>or_kernel = lazy_kernel, or_runs = [(''r'', ?c)], or_world = 0\<rparr> :: nat orch"
  have log: "logged digest_runtime quiet_env ev (lazy_at L c) = lazy_at (snd (append_record digest_runtime
      (en_sign quiet_env) (en_clock quiet_env) (sink_record quiet_env ev) L)) c" for ev L c
    by (simp add: logged_def lazy_at_def)
  have at: "?s = lazy_at (k_ledger lazy_kernel) ?c" by (simp add: lazy_at_def)
  have "run_opens digest_runtime quiet_env lazy_services ''r'' lazy_req lazy_orch
      = (Inr (), logged digest_runtime quiet_env ?init (logged digest_runtime quiet_env ?start ?s))"
    unfolding run_opens_def
    by (simp add: eff_simps ensure_ctx_def set_ctx_def ensure_run_context_def lazy_orch_def sandbox_request_def
        ctx_of_def lazy_req_def [THEN arg_cong [of _ _ rq_repo]] lazy_services_def [THEN arg_cong [of _ _ sv_warm]])
  then show ?thesis unfolding at log by (intro exI conjI) (assumption, simp_all add: fresh_ctx_def)
qed

lemma lazy_turn:
  assumes "rc_cache c = []"
  shows "\<exists>s'. run_turn digest_runtime quiet_env lazy_services ''r'' lazy_req 1 demo_raw (lazy_at L c) = (Inr None, s')"
proof -
  let ?plan = "event [(''type'', PStr ''STEP_PLAN''), (''iteration'', PInt 1), (''step'', PDict demo_raw)]"
  obtain L' where log: "logged digest_runtime quiet_env ?plan (lazy_at L c) = lazy_at L' c"
    by (simp add: logged_def lazy_at_def)
  have intent: "step_intent digest_runtime 1 demo_raw = ''step 1''" by code_simp
  have pol: "policy_error digest_runtime lazy_services demo_raw = Inr None" by code_simp
  have low: "low_confidence lazy_req demo_raw = Inr False" by code_simp
  have repo: "rq_repo lazy_req = ''p''" by (simp add: lazy_req_def)
  obtain r s2 where x: "execute_approved_step digest_runtime quiet_env lazy_services ''r'' ''p'' 1 demo_raw [] ''step 1'' [] None 1
      (lazy_at L' c) = (Inr r, s2)" "br_ok r" using lazy_execute [OF assms] by blast
  have "execute_and_judge digest_runtime quiet_env lazy_services ''r'' lazy_req 1 demo_raw (lazy_at L' c) =
      (Inr None, logged digest_runtime quiet_env (event [(''type'', PStr ''STEP_OK''), (''iteration'', PInt 1), (''result'', result_dict r)])
         (snd (set_ctx ''r'' (\<lambda>c. c\<lparr>rc_steps := rc_steps c @ [(1, demo_raw, r)]\<rparr>) s2)))"
    using x by (simp add: execute_and_judge_def intent repo eff_simps set_ctx_def)
  then show ?thesis
    unfolding run_turn_def by (simp add: eff_simps log pol low)
qed

lemma lazy_run:
  "\<exists>why s'. run_logic digest_runtime quiet_env lazy_services ''r'' lazy_req lazy_orch
     = (Inr \<lparr>ro_run_id = ''r'', ro_status = ''completed'', ro_reason = why\<rparr>, s')"
proof -
  obtain L c where o1: "run_opens digest_runtime quiet_env lazy_services ''r'' lazy_req lazy_orch = (Inr (), lazy_at L c)"
    and c: "rc_cache c = []" using lazy_opens by blast
  obtain s' where t: "run_turn digest_runtime quiet_env lazy_services ''r'' lazy_req 1 demo_raw (lazy_at L c) = (Inr None, s')"
    using lazy_turn [OF c] by blast
  have lim: "rq_max_iters lazy_req = 3" "sv_max_iterations lazy_services = 3"
    by (simp_all add: lazy_req_def lazy_services_def)
  have "run_steps digest_runtime quiet_env lazy_services ''r'' lazy_req 0 [demo_raw] (lazy_at L c)
      = (Inr (''completed'', ''All '' @ int_str 1 @ '' planned steps completed''), s')"
    using t by (simp add: lim eff_simps)
  then have g: "guarded_steps digest_runtime quiet_env lazy_services ''r'' lazy_req [demo_raw] (lazy_at L c)
      = (Inr (''completed'', ''All '' @ int_str 1 @ '' planned steps completed''), s')"
    by (simp add: guarded_steps_def)
  have plan: "rq_plan lazy_req = Some [demo_raw]" by (simp add: lazy_req_def)
  obtain s1 status reason s2 s3
    where p: "run_opens digest_runtime quiet_env lazy_services ''r'' lazy_req lazy_orch = (Inr (), s1)"
    "guarded_steps digest_runtime quiet_env lazy_services ''r'' lazy_req [demo_raw] s1 = (Inr (status, reason), s2)"
    "run_closes digest_runtime quiet_env lazy_services ''r'' lazy_req (status, reason) s2 = (Inr (), s3)"
    "run_logic digest_runtime quiet_env lazy_services ''r'' lazy_req lazy_orch
       = (Inr \<lparr>ro_run_id = ''r'', ro_status = status, ro_reason = reason\<rparr>, harvest lazy_services ''r'' lazy_req status s3)"
    by (rule run_logic_parts [OF plan])
  have "s1 = lazy_at L c" using o1 p(1) by simp
  then have "(Inr (status, reason) :: pyerr + string \<times> string) = Inr (''completed'', ''All '' @ int_str 1 @ '' planned steps completed'')"
    using p(2) g by (simp only: prod.inject)
  then have "status = ''completed''" by (simp only: sum.inject prod.inject)
  with p(4) show ?thesis by blast
qed

section \<open>Properties\<close>


text \<open>C29: a run, whether it returns or raises, keeps the kernel's invariant: its state and history within
  bounds, the tiers of all runs valid, and a ledger that verifies although the events of the run are
  interleaved with the kernel's own records.\<close>

theorem orchestrated_run_keeps_kernel:
  assumes "digests R" "kernel_ok R (or_kernel s)"
  shows "kernel_ok R (or_kernel (snd (run_logic R en V rid q s)))
    \<and> fst (verify_chain R (k_ledger (or_kernel (snd (run_logic R en V rid q s)))))"
proof
  have "sound R s (snd (run_logic R en V rid q s))"
    using frame_run(2) unfolding smoves_def by blast
  then show k: "kernel_ok R (or_kernel (snd (run_logic R en V rid q s)))" using assms by (simp add: sound_def)
  then show "fst (verify_chain R (k_ledger (or_kernel (snd (run_logic R en V rid q s)))))"
    by (simp add: kernel_ok_def ledger_ok_def)
qed

theorem orchestrated_run_keeps_kernel_witness:
  "let k = or_kernel (snd (run_logic digest_runtime quiet_env lazy_services ''r'' lazy_req lazy_orch))
   in kernel_ok digest_runtime k \<and> fst (verify_chain digest_runtime (k_ledger k))"
  unfolding Let_def
proof -
  have ok: "kernel_ok digest_runtime (or_kernel lazy_orch)"
    using movesD [OF set_resource_run_moves, of digest_runtime demo_kernel "''r''"]
      kernel_ok_blank [of digest_runtime "[]" DEFAULT_TIER_POLICY]
    by (simp add: keeps_def kupd_def lazy_orch_def lazy_kernel_def demo_kernel_def)
  show "kernel_ok digest_runtime (or_kernel (snd (run_logic digest_runtime quiet_env lazy_services ''r'' lazy_req lazy_orch)))
    \<and> fst (verify_chain digest_runtime (k_ledger (or_kernel (snd (run_logic digest_runtime quiet_env lazy_services ''r'' lazy_req lazy_orch)))))"
    by (rule orchestrated_run_keeps_kernel [OF _ ok]) simp
qed



text \<open>C28: one step of a run asks the gateway for at most one execution, only after the kernel has
  validated the step and its decision law has approved it, and it asks for exactly the step the kernel saw.\<close>

theorem gateway_request_approved:
  "let s' = snd (execute_approved_step R en V rid repo it step c i b ev tier s)
   in or_world s' = or_world s
    \<or> (\<exists>pn k'. kernel_ask R en step c i b rid ev (set_resource_run rid (or_kernel s)) = (Inr (Inr pn), k')
         \<and> val_ok (pn_validation pn) \<and> dc_approved (pn_decision pn)
         \<and> pn_proposal pn = normalize_step R (en_clock en) step i c b
         \<and> or_world s' = snd (sv_post_step V repo it (proposal_to_step (pn_proposal pn)) rid tier True (or_world s)))"
proof -
  obtain r s' where e: "execute_approved_step R en V rid repo it step c i b ev tier s = (r, s')" by fastforce
  show ?thesis
    using execute_asked [OF e] kernel_ask_pending(2,3,4) unfolding Let_def e snd_conv by metis
qed

section \<open>What the bridge and the loop do not guarantee\<close>

text \<open>An approved step counts as a success, whatever the executor reported: the run above, whose only
  step failed in the gateway, ends as completed.\<close>

lemma failing_run_completes:
  "sv_post_step lazy_services repo it step rid tier warm n = (Answer 200 [(PStr ''status'', PInt 1)] [], Suc n)"
  "\<exists>why s'. run_logic digest_runtime quiet_env lazy_services ''r'' lazy_req lazy_orch
     = (Inr \<lparr>ro_run_id = ''r'', ro_status = ''completed'', ro_reason = why\<rparr>, s')"
  by (simp add: lazy_services_def) (rule lazy_run)

text \<open>An empty plan is completed without a step, also with no iterations allowed.\<close>

lemma empty_plan_completes:
  "run_steps R en V rid q 0 [] s = (Inr (''completed'', ''All '' @ int_str 0 @ '' planned steps completed''), s)"
  by (simp add: sret_def)

text \<open>The events of the orchestrator carry the decision \<open>INFO\<close> and no record type, so a replay of their run
  takes them for kernel records with an invalid decision: the replay of every orchestrated run diverges.\<close>

lemma sink_breaks_replay:
  assumes "dget ev ''run_id'' = Some (PStr rid)"
  shows "\<not> rp_ok (replay_verify R expected rid (k_ledger (or_kernel (snd (sink R en ev s)))))"
proof -
  have ne: "ev \<noteq> []" using assms by (auto simp: dget_def)
  let ?L = "k_ledger (or_kernel s)"
  let ?r = "seal_record R (en_sign en) (en_clock en) (hl_prev ?L) (sink_record en ev)"
  have meta: "dget (lr_metadata ?r) ''run_id'' = Some (PStr rid)" "\<not> is_event ?r" "lr_decision ?r = ''INFO''"
    using assms by (auto simp: seal_record_def Let_def sink_record_def is_event_def dget_or_def dget_def dput_def
        split: option.split)
  have "file_records (file_lines (k_ledger (or_kernel (snd (sink R en ev s))))) = file_records (file_lines ?L) @ [?r]"
    by (simp add: sink_eq [OF ne] logged_def append_record_def Let_def file_lines_def)
  then have rs: "kernel_records (read_all rid (k_ledger (or_kernel (snd (sink R en ev s)))))
      = kernel_records (read_all rid ?L) @ [?r]"
    using meta by (simp add: kernel_records_def read_all_def)
  have "\<not> decision_consistent ?r" unfolding decision_consistent_def meta(3) by simp
  then show ?thesis
    unfolding replay_verify_def rs replay_records_ok step_divergence_None
    by (auto intro!: exI [of _ "length (kernel_records (read_all rid ?L))"])
qed

text \<open>Events of the loop name their iteration \<open>iteration\<close>, the sink reads \<open>iter\<close>: the ledger says 0; and the
  events without a run id are not among the records of their run.\<close>

lemma step_events_lose_their_place:
  "dget (lr_metadata (sink_record en (event [(''type'', PStr t), (''iteration'', PInt n), (''reason'', PStr why)]))) ''iter''
     = Some (PInt 0)"
  "dget (lr_metadata (sink_record en (event [(''type'', PStr t), (''iteration'', PInt n), (''reason'', PStr why)]))) ''run_id''
     = Some (PStr [])"
  by (simp_all add: sink_record_def event_def dget_or_def dget_def)

text \<open>In a dry run a manifest that cannot be written makes the request fail and leaves the context.\<close>

lemma failing_dry_run_leaks:
  assumes "rq_plan q = None" "\<And>path d w. sv_write_file V path d w = (Some e, w)"
  shows "\<exists>s' c. run_logic R en V rid q s = (Inl e, s') \<and> get_run_context rid (or_runs s') = Some c \<and> rc_status c = ''running''"
  using assms
  by (auto simp: run_logic_def Let_def eff_simps ensure_ctx_def set_ctx_def finalize_manifest_def in_world_eq
      get_run_context_def update_conv')

text \<open>The result of an equal step earlier in the run is returned from the cache, with no request: a test run
  repeated after a patch reports what the first one reported.\<close>

lemma cached_step_is_not_run:
  assumes "cache_get (cache_key R x (py_str R (py_or (dget_or x ''workdir_id'' PNone) (PStr [])))) (rc_cache (ctx_of rid s)) = Some r"
  shows "\<exists>key s'. exec_step R en V rid repo it tier x s = (Inr (reply_outcome R V r, Some key), s') \<and> or_world s' = or_world s"
  using assms by (simp add: exec_step_def Let_def eff_simps)

end
