(* ===== verification/Semantic_Patch.thy ===== *)
theory Semantic_Patch
  imports Validate Py_Path Py_Regex Effects
begin

text \<open>
  The structured patcher, \<open>rfsn_swebench/patcher.py\<close>: exact search and replace on a file below the
  workspace, the gate of protected files, the blocks of the legacy format and the fallback to the command
  \<open>patch\<close>. The file system maps resolved paths to texts; \<open>realpath\<close>, \<open>difflib\<close> and the process are
  parameters.
\<close>

datatype patch_error =
    PatchConflictError string
  | NoOpPatchError string
  | PatchPathError string
  | PatchGateError string
  | FileNotFoundError string

section \<open>Paths\<close>

text \<open>\<open>os.path.normpath\<close>; for a relative path, leading \<open>..\<close> are kept.\<close>

fun norm_comps :: "bool \<Rightarrow> string list \<Rightarrow> string list \<Rightarrow> string list" where
  "norm_comps absolute acc [] = rev acc"
| "norm_comps absolute acc (c # cs) =
     (if c = [] \<or> c = ''.'' then norm_comps absolute acc cs
      else if c \<noteq> ''..'' \<or> \<not> absolute \<and> acc = [] \<or> acc \<noteq> [] \<and> hd acc = ''..'' then norm_comps absolute (c # acc) cs
      else norm_comps absolute (tl acc) cs)"

definition leading_slashes :: "string \<Rightarrow> string" where
  "leading_slashes p =
     (if \<not> isabs p then []
      else if prefix [slash, slash] p \<and> \<not> prefix [slash, slash, slash] p then [slash, slash] else [slash])"

definition normpath :: "string \<Rightarrow> string" where
  "normpath p =
     (let s = leading_slashes p @ join [slash] (norm_comps (isabs p) [] (split_char slash p)) in if s = [] then ''.'' else s)"

definition safe_path :: "runtime \<Rightarrow> (string \<Rightarrow> string) \<Rightarrow> string \<Rightarrow> string \<Rightarrow> patch_error + string" where
  "safe_path R realpath ws rel =
     (if rel = [] \<or> strip rel = [] then Inl (PatchPathError ''path must not be empty'')
      else let norm_rel = normpath rel
           in if isabs norm_rel then Inl (PatchPathError (''absolute paths are not allowed: '' @ rt_repr R (PStr rel)))
              else if startswith norm_rel ''..'' then Inl (PatchPathError (''path traversal detected: '' @ rt_repr R (PStr rel)))
              else let full = realpath (path_join ws norm_rel); base = realpath ws
                   in if \<not> startswith full (base @ [slash]) \<and> full \<noteq> base
                      then Inl (PatchPathError (''path escapes workspace root: '' @ rt_repr R (PStr rel)))
                      else Inr full)"

section \<open>The gate\<close>

definition PATCHER_MANIFESTS :: "string list" where
  "PATCHER_MANIFESTS =
     [''pyproject.toml'', ''poetry.lock'', ''requirements.txt'', ''requirements-dev.txt'', ''requirements.in'',
      ''constraints.txt'', ''setup.py'', ''setup.cfg'', ''pipfile'', ''pipfile.lock'', ''package.json'',
      ''package-lock.json'', ''yarn.lock'', ''pnpm-lock.yaml'', ''go.mod'', ''go.sum'', ''cargo.toml'', ''cargo.lock'']"

definition patcher_test_path :: "string \<Rightarrow> bool" where
  "patcher_test_path path \<longleftrightarrow>
     (let p = lstrip_char slash (replace_char backslash slash path)
      in startswith p ''tests/'' \<or> occurs_in ''/tests/'' (slash # p) \<or> startswith p ''test/''
         \<or> endswith p ''_test.py'' \<or> endswith p ''test.py'')"

definition patcher_ci_path :: "string \<Rightarrow> bool" where
  "patcher_ci_path path \<longleftrightarrow>
     (let p = lstrip_char slash (replace_char backslash slash path)
      in startswith p ''.github/workflows/'' \<or> startswith p ''ci/'' \<or> startswith p ''scripts/'')"

definition patcher_dep_manifest :: "string \<Rightarrow> bool" where
  "patcher_dep_manifest path \<longleftrightarrow>
     lower (last (split_char slash (replace_char backslash slash path))) \<in> set PATCHER_MANIFESTS"

definition check_patch_gate :: "runtime \<Rightarrow> string \<Rightarrow> patch_error + unit" where
  "check_patch_gate R rel =
     (let deny = (\<lambda>what. Inl (PatchGateError (''semantic patch rejected: '' @ rt_repr R (PStr rel) @ what)))
      in if patcher_test_path rel then deny '' is a test file''
         else if patcher_ci_path rel then deny '' is a CI config file''
         else if patcher_dep_manifest rel then deny '' is a dependency manifest''
         else Inr ())"

section \<open>The replacement\<close>

text \<open>\<open>s.count(sub)\<close> counts matches that do not overlap; \<open>s.replace(old, new, 1)\<close>.\<close>

definition count_str :: "string \<Rightarrow> string \<Rightarrow> nat" where
  "count_str sub s = length (split_str sub s) - 1"

definition replace_first :: "string \<Rightarrow> string \<Rightarrow> string \<Rightarrow> string" where
  "replace_first old new s =
     (case split_str old s of x # y # rest \<Rightarrow> x @ new @ join old (y # rest) | _ \<Rightarrow> s)"

definition apply_to_content :: "string \<Rightarrow> string \<Rightarrow> string \<Rightarrow> patch_error + string" where
  "apply_to_content content search replace =
     (if search = [] then Inl (PatchConflictError ''search text must not be empty'')
      else if search = replace then Inl (NoOpPatchError ''search and replace are identical, no change would occur'')
      else if count_str search content = 0 then Inl (PatchConflictError ''search text not found in file content'')
      else if count_str search content > 1
      then Inl (PatchConflictError (''search text found '' @ nat_str (count_str search content)
                 @ '' times (ambiguous); patch rejected''))
      else Inr (replace_first search replace content))"

section \<open>Files\<close>

record difflib =
  dl_ndiff :: "string list \<Rightarrow> string list \<Rightarrow> string list"
  dl_unified :: "string \<Rightarrow> string \<Rightarrow> string"

record patch_result =
  sp_files :: "string list"
  sp_added :: nat
  sp_removed :: nat
  sp_preview :: string
  sp_before :: string
  sp_after :: string

definition patch_line_stats :: "difflib \<Rightarrow> string \<Rightarrow> string \<Rightarrow> nat \<times> nat" where
  "patch_line_stats D a b =
     (let diff = dl_ndiff D (splitlines a) (splitlines b)
      in (length (filter (\<lambda>l. startswith l ''+ '') diff), length (filter (\<lambda>l. startswith l ''- '') diff)))"

definition diff_preview :: "difflib \<Rightarrow> string \<Rightarrow> string \<Rightarrow> nat \<Rightarrow> string" where
  "diff_preview D a b max_chars =
     (let preview = dl_unified D a b
      in if length preview > max_chars then take max_chars preview @ CHR 10 # ''... (truncated)'' else preview)"

text \<open>Text files are opened with universal newlines: all line ends are read as \<open>\n\<close>, and written so.\<close>

fun universal_newlines :: "string \<Rightarrow> string" where
  "universal_newlines [] = []"
| "universal_newlines (c # cs) =
     (if c = CHR 13 then CHR 10 # (case cs of [] \<Rightarrow> [] | d # ds \<Rightarrow> if d = CHR 10 then universal_newlines ds else universal_newlines cs)
      else c # universal_newlines cs)"

type_synonym text_files = "(string \<times> string) list"

definition apply_to_file ::
    "runtime \<Rightarrow> difflib \<Rightarrow> (string \<Rightarrow> string) \<Rightarrow> string \<Rightarrow> string \<Rightarrow> string \<Rightarrow> string \<Rightarrow> bool \<Rightarrow> text_files
      \<Rightarrow> (patch_error + patch_result) \<times> text_files" where
  "apply_to_file R D realpath ws path search replace skip fs =
     (case (if skip then Inr () else check_patch_gate R path) of
        Inl e \<Rightarrow> (Inl e, fs)
      | Inr _ \<Rightarrow>
          (case safe_path R realpath ws path of
             Inl e \<Rightarrow> (Inl e, fs)
           | Inr full \<Rightarrow>
               (case map_of fs full of
                  None \<Rightarrow> (Inl (FileNotFoundError (''file not found: '' @ rt_repr R (PStr path))), fs)
                | Some raw \<Rightarrow>
                    let before = universal_newlines raw
                    in case apply_to_content before search replace of
                         Inl e \<Rightarrow> (Inl e, fs)
                       | Inr after \<Rightarrow>
                           (Inr \<lparr>sp_files = [path], sp_added = fst (patch_line_stats D before after),
                                 sp_removed = snd (patch_line_stats D before after),
                                 sp_preview = diff_preview D before after 2000,
                                 sp_before = rt_sha256 R before, sp_after = rt_sha256 R after\<rparr>,
                            AList.update full after fs))))"

section \<open>The legacy blocks\<close>

definition BLOCK_HEAD :: string where "BLOCK_HEAD = ''<<<<<<< SEARCH'' @ [CHR 10]"
definition BLOCK_MID :: string where "BLOCK_MID = CHR 10 # ''======='' @ [CHR 10]"
definition BLOCK_TAIL :: string where "BLOCK_TAIL = CHR 10 # ''>>>>>>> REPLACE''"

definition BLOCK :: rx where
  "BLOCK = RSeq (rlit BLOCK_HEAD) (RSeq (RGroup 1 (RStar False rany)) (RSeq (rlit BLOCK_MID)
     (RSeq (RGroup 2 (RStar False rany)) (rlit BLOCK_TAIL))))"

definition parse_blocks :: "string \<Rightarrow> (string \<times> string) list" where
  "parse_blocks text =
     map (\<lambda>m. (case m_group (snd m) 1 of Some s \<Rightarrow> s | None \<Rightarrow> [], case m_group (snd m) 2 of Some r \<Rightarrow> r | None \<Rightarrow> []))
       (rx_finditer BLOCK text)"

fun apply_blocks :: "string \<Rightarrow> (string \<times> string) list \<Rightarrow> patch_error + string" where
  "apply_blocks content [] = Inr content"
| "apply_blocks content ((search, replace) # blocks) =
     (case apply_to_content content search replace of Inl e \<Rightarrow> Inl e | Inr c \<Rightarrow> apply_blocks c blocks)"

definition NO_BLOCKS :: string where
  "NO_BLOCKS = ''No SEARCH/REPLACE blocks found in patch_text. Expected format: <<<<<<< SEARCH ... ======= ... >>>>>>> REPLACE''"

definition apply_semantic_patch :: "string \<Rightarrow> string \<Rightarrow> patch_error + string" where
  "apply_semantic_patch content text =
     (let blocks = parse_blocks text
      in if blocks = [] then Inl (PatchConflictError NO_BLOCKS) else apply_blocks content blocks)"

section \<open>The fallback to the command\<close>

text \<open>The command runs in the working directory on a file with the diff: its exit code and messages, or
  the message of an exception such as a timeout. The name of the temporary file is a function of the world.\<close>

record 'w patch_tool =
  tool_run :: "string list \<Rightarrow> string \<Rightarrow> 'w \<Rightarrow> (string + int \<times> string \<times> string) \<times> 'w"
  tool_temp :: "'w \<Rightarrow> string"

record 'w patch_world =
  pw_temp :: "(string \<times> string) list"
  pw_dir :: 'w

definition patch_args :: "string \<Rightarrow> bool \<Rightarrow> string list" where
  "patch_args file strict =
     [''patch'', ''-p1'', ''--batch'', ''--forward'', ''-i'', file] @ (if strict then [] else [''--ignore-whitespace'', ''--fuzz=2''])"

definition patch_args0 :: "string \<Rightarrow> string list" where
  "patch_args0 file = [''patch'', ''-p0'', ''--batch'', ''--forward'', ''-i'', file, ''--ignore-whitespace'']"

definition try_patch :: "'w patch_tool \<Rightarrow> string \<Rightarrow> string \<Rightarrow> bool \<Rightarrow> 'w \<Rightarrow> (string + unit) \<times> 'w" where
  "try_patch T file dir strict w =
     (case tool_run T (patch_args file strict) dir w of
        (Inl e, w1) \<Rightarrow> (Inl e, w1)
      | (Inr (rc, out, msg), w1) \<Rightarrow>
          if rc = 0 then (Inr (), w1)
          else if strict then (Inl (''Patch failed: '' @ msg @ CHR 10 # out), w1)
          else (case tool_run T (patch_args0 file) dir w1 of
                  (Inl e, w2) \<Rightarrow> (Inl e, w2)
                | (Inr (rc0, out0, msg0), w2) \<Rightarrow>
                    if rc0 = 0 then (Inr (), w2)
                    else (Inl (''Patch failed (-p1 and -p0): '' @ msg @ CHR 10 # msg0), w2)))"

definition apply_unified_diff ::
    "'w patch_tool \<Rightarrow> string \<Rightarrow> string \<Rightarrow> bool \<Rightarrow> 'w patch_world \<Rightarrow> (string + unit) \<times> 'w patch_world" where
  "apply_unified_diff T diff dir strict W =
     (if strip diff = [] then (Inr (), W)
      else let file = tool_temp T (pw_dir W)
           in case try_patch T file dir strict (pw_dir W) of
                (r, w) \<Rightarrow> (r, W\<lparr>pw_dir := w, pw_temp := AList.delete file (AList.update file diff (pw_temp W))\<rparr>))"

section \<open>One occurrence\<close>

lemma occurs_in_append: "occurs_in p b \<Longrightarrow> occurs_in p (a @ b)"
  unfolding occurs_in_iff by (metis append.assoc)

lemma split_str_from_skip: "k \<le> length s \<Longrightarrow> split_str_from k sep cur s = split_str_from 0 sep cur (drop k s)"
proof (induction k arbitrary: s)
  case (Suc k)
  then show ?case by (cases s) auto
qed simp

text \<open>One piece: the separator does not occur; more pieces: the first one ends where it occurs first.\<close>

lemma split_one: "sep \<noteq> [] \<Longrightarrow> split_str_from 0 sep cur s = [x] \<Longrightarrow> \<not> occurs_in sep s"
  by (induction s arbitrary: cur) (auto split: if_splits)

lemma split_first:
  assumes "sep \<noteq> []" "split_str_from 0 sep cur s = x # y # rest"
  obtains u where "x = rev cur @ u" "prefix (u @ sep) s" "split_str_from 0 sep [] (drop (length (u @ sep)) s) = y # rest"
    "\<And>a. prefix (a @ sep) s \<Longrightarrow> length u \<le> length a"
proof -
  have "\<exists>u. x = rev cur @ u \<and> prefix (u @ sep) s \<and> split_str_from 0 sep [] (drop (length (u @ sep)) s) = y # rest
    \<and> (\<forall>a. prefix (a @ sep) s \<longrightarrow> length u \<le> length a)"
    using assms(2)
  proof (induction s arbitrary: cur)
    case (Cons c cs)
    show ?case
    proof (cases "prefix sep (c # cs)")
      case True
      then obtain t where t: "c # cs = sep @ t" by (auto simp: prefix_def)
      then have "length sep - 1 \<le> length cs" "drop (length sep - 1) cs = t"
        using assms(1) by (cases sep; auto)+
      then have sk: "split_str_from (length sep - 1) sep [] cs = split_str_from 0 sep [] t"
        using split_str_from_skip [of "length sep - 1" cs] by simp
      have "rev cur # split_str_from (length sep - 1) sep [] cs = x # y # rest" using Cons.prems True by simp
      then have "x = rev cur" "split_str_from 0 sep [] t = y # rest" unfolding sk by auto
      then show ?thesis using True t by (intro exI [of _ "[]"]) simp
    next
      case False
      with Cons.prems Cons.IH [of "c # cur"] obtain u where u: "x = rev (c # cur) @ u" "prefix (u @ sep) cs"
        "split_str_from 0 sep [] (drop (length (u @ sep)) cs) = y # rest" "\<forall>a. prefix (a @ sep) cs \<longrightarrow> length u \<le> length a"
        by auto
      have "length (c # u) \<le> length a" if "prefix (a @ sep) (c # cs)" for a
        using that u(4) False by (cases a) auto
      then show ?thesis using u by (intro exI [of _ "c # u"]) auto
    qed
  qed simp
  then show thesis using that by blast
qed

text \<open>The text with one counted occurrence: the parts around it, and every other occurrence overlaps it.\<close>

definition only_at :: "string \<Rightarrow> string \<Rightarrow> string \<Rightarrow> string \<Rightarrow> bool" where
  "only_at pre search post content \<longleftrightarrow> content = pre @ search @ post
     \<and> (\<forall>a b. content = a @ search @ b \<longrightarrow> length pre \<le> length a \<and> length a < length pre + length search)"

lemma count_one:
  assumes "search \<noteq> []" "count_str search content = 1"
  obtains pre post where "only_at pre search post content" "replace_first search new content = pre @ new @ post"
proof -
  have len: "length (split_str search content) = 2" using assms(2) by (simp add: count_str_def)
  then obtain x y where sp: "split_str search content = [x, y]"
    by (cases "split_str search content"; cases "tl (split_str search content)") auto
  then have sp': "split_str_from 0 search [] content = [x, y]" by (simp add: split_str_def)
  from split_first [OF assms(1) sp'] obtain u where u: "x = u" "prefix (u @ search) content"
    "split_str_from 0 search [] (drop (length (u @ search)) content) = [y]"
    "\<And>a. prefix (a @ search) content \<Longrightarrow> length u \<le> length a" by auto
  from join_split_str [OF assms(1), of content] have c: "content = x @ search @ y" by (simp add: sp)
  have none: "\<not> occurs_in search y"
    using split_one [OF assms(1) u(3)] by (simp add: c u(1))
  have "length a < length x + length search" if d: "content = a @ search @ b" for a b
  proof (rule ccontr)
    assume "\<not> ?thesis"
    then have n: "length (x @ search) \<le> length a" by simp
    have "y = drop (length (x @ search)) content" by (simp add: c)
    also have "\<dots> = drop (length (x @ search)) a @ search @ b" using n by (simp add: d del: length_append)
    finally have "y = drop (length (x @ search)) a @ search @ b" .
    then show False using none unfolding occurs_in_iff by blast
  qed
  moreover have "length x \<le> length a" if "content = a @ search @ b" for a b
    using u(4) [of a] that by (auto simp: u(1) prefix_def)
  ultimately have "only_at x search y content" using c by (auto simp: only_at_def)
  moreover have "replace_first search new content = x @ new @ y" by (simp add: replace_first_def sp)
  ultimately show thesis by (rule that)
qed

text \<open>A text in which the search occurs at one place only is accepted.\<close>

lemma occurrence_counts:
  assumes "search \<noteq> []" "content = pre @ search @ post"
  shows "count_str search content \<noteq> 0"
proof
  assume "count_str search content = 0"
  then obtain x where "split_str search content = [x]"
    using split_str_nonempty [of search content] by (cases "split_str search content") (auto simp: count_str_def)
  then have "\<not> occurs_in search content" by (auto simp: split_str_def dest: split_one [OF assms(1)])
  then show False using assms(2) unfolding occurs_in_iff by blast
qed

lemma two_counted:
  assumes "search \<noteq> []" "count_str search content > 1"
  obtains a b c d where "content = a @ search @ b" "content = c @ search @ d" "length a + length search \<le> length c"
proof -
  obtain x y z rest where sp: "split_str search content = x # y # z # rest"
    using assms(2) by (cases "split_str search content"; cases "tl (split_str search content)"; cases "tl (tl (split_str search content))")
      (auto simp: count_str_def)
  have c: "content = x @ search @ y @ search @ join search (z # rest)"
    using join_split_str [OF assms(1), of content] by (simp add: sp join_Cons)
  show thesis by (rule that [of x "y @ search @ join search (z # rest)" "x @ search @ y" "join search (z # rest)"]) (simp_all add: c)
qed

text \<open>Exact replacement. A search and replacement succeeds exactly when the search is not empty,
  differs from the replacement, and stands at a place of the text that every other place where it stands
  overlaps; the result is the text with that one place replaced.\<close>

theorem exact_replacement:
  "apply_to_content content search replace = Inr out \<longleftrightarrow>
     search \<noteq> [] \<and> search \<noteq> replace \<and> (\<exists>pre post. only_at pre search post content \<and> out = pre @ replace @ post)"
proof (intro iffI conjI)
  assume ok: "apply_to_content content search replace = Inr out"
  then show s: "search \<noteq> []" "search \<noteq> replace" by (auto simp: apply_to_content_def split: if_splits)
  from ok have n: "count_str search content = 1" and out: "out = replace_first search replace content"
    by (auto simp: apply_to_content_def split: if_splits)
  from count_one [OF s(1) n, of replace] show "\<exists>pre post. only_at pre search post content \<and> out = pre @ replace @ post"
    using out by metis
next
  assume r: "search \<noteq> [] \<and> search \<noteq> replace \<and> (\<exists>pre post. only_at pre search post content \<and> out = pre @ replace @ post)"
  then obtain pre post where s: "search \<noteq> []" "search \<noteq> replace" and at: "only_at pre search post content"
    and out: "out = pre @ replace @ post" by blast
  have "count_str search content \<noteq> 0" using occurrence_counts [OF s(1)] at by (auto simp: only_at_def)
  moreover have "\<not> count_str search content > 1"
  proof
    assume "count_str search content > 1"
    with s(1) show False
    proof (rule two_counted)
      fix a b c d
      assume d: "content = a @ search @ b" "content = c @ search @ d" "length a + length search \<le> length c"
      have "length pre \<le> length a" "length c < length pre + length search"
        using at d(1,2) unfolding only_at_def by blast+
      with d(3) show False by simp
    qed
  qed
  ultimately have n: "count_str search content = 1" by simp
  from count_one [OF s(1) n, of replace] obtain pre' post' where at': "only_at pre' search post' content"
    "replace_first search replace content = pre' @ replace @ post'" by metis
  have eq: "content = pre @ search @ post" "content = pre' @ search @ post'"
    using at at'(1) unfolding only_at_def by blast+
  have "length pre \<le> length pre'" using at eq(2) unfolding only_at_def by blast
  moreover have "length pre' \<le> length pre" using at'(1) eq(1) unfolding only_at_def by blast
  ultimately have len: "length pre = length pre'" by simp
  have "pre @ search @ post = pre' @ search @ post'" using eq by (rule subst)
  then have "pre = pre'" "post = post'" using len by simp_all
  then show "apply_to_content content search replace = Inr out"
    using s n out at'(2) by (simp add: apply_to_content_def)
qed

section \<open>The blocks that are found\<close>

text \<open>The state after \<open>n\<close> characters.\<close>

definition skip_chars :: "nat \<Rightarrow> mstate \<Rightarrow> mstate" where
  "skip_chars n s = s\<lparr>m_done := rev (take n (m_rest s)) @ m_done s, m_rest := drop n (m_rest s)\<rparr>"

lemma skip_simps [simp]:
  "m_rest (skip_chars n s) = drop n (m_rest s)" "m_groups (skip_chars n s) = m_groups s" "skip_chars 0 s = s"
  by (simp_all add: skip_chars_def)

lemma skip_skip: "skip_chars m (skip_chars n s) = skip_chars (n + m) s"
  by (simp add: skip_chars_def take_add) (simp add: add.commute)

lemma rset_skip: "m_rest s = c # cs \<Longrightarrow> s\<lparr>m_done := c # m_done s, m_rest := cs\<rparr> = skip_chars 1 s"
  by (simp add: skip_chars_def)

lemma run_lit: "rx_run (rlit u) s = (if prefix u (m_rest s) then [skip_chars (length u) s] else [])"
proof (induction u arbitrary: s)
  case Nil
  then show ?case by (simp add: rlit_def)
next
  case (Cons c u)
  have "rx_run (rlit (c # u)) s = concat (map (rx_run (rlit u)) (rx_run (RSet (\<lambda>x. x = c)) s))"
    by (cases u) (simp_all add: rlit_def split: list.split)
  also have "\<dots> = (if prefix (c # u) (m_rest s) then [skip_chars (length (c # u)) s] else [])"
    by (cases "m_rest s") (auto simp: Cons.IH rset_skip skip_skip)
  finally show ?case .
qed

text \<open>A lazy repetition tries the lengths in ascending order.\<close>

lemma star_any:
  "n = length (m_rest s) \<Longrightarrow> rx_star False (rx_run rany) n s = map (\<lambda>i. skip_chars i s) [0..<Suc n]"
proof (induction n arbitrary: s)
  case 0
  then show ?case by simp
next
  case (Suc n)
  then obtain c cs where s: "m_rest s = c # cs" by (cases "m_rest s") auto
  let ?t = "skip_chars 1 s"
  have run: "rx_run rany s = [?t]" by (simp add: rany_def s rset_skip)
  have "rx_star False (rx_run rany) (Suc n) s = s # rx_star False (rx_run rany) n ?t"
    by (simp add: run s)
  also have "\<dots> = s # map (\<lambda>i. skip_chars i ?t) [0..<Suc n]" using Suc.IH [of ?t] Suc.prems by (simp add: s del: upt_Suc)
  also have "\<dots> = map (\<lambda>i. skip_chars i s) [0..<Suc (Suc n)]"
    by (simp add: skip_skip upt_conv_Cons map_Suc_upt [symmetric] del: upt_Suc)
  finally show ?case .
qed

lemma run_lazy: "rx_run (RStar False rany) s = map (\<lambda>i. skip_chars i s) [0..<Suc (length (m_rest s))]"
  by (simp add: star_any del: upt_Suc)

text \<open>A group around a lazy repetition before a pattern that matches first after \<open>n\<close> characters.\<close>

definition with_group :: "nat \<Rightarrow> string \<Rightarrow> mstate \<Rightarrow> mstate" where
  "with_group k u s = s\<lparr>m_groups := (k, u) # m_groups s\<rparr>"

lemma concat_first:
  assumes "n \<le> m" "\<And>i. i < n \<Longrightarrow> f i = []"
  shows "concat (map f [0..<Suc m]) = f n @ concat (map f [Suc n..<Suc m])"
proof -
  have "[0..<Suc m] = [0..<n] @ n # [Suc n..<Suc m]"
    using assms(1) by (metis le_add_diff_inverse le_imp_less_Suc less_imp_le_nat plus_nat.add_0 upt_add_eq_append upt_conv_Cons zero_le)
  then show ?thesis using assms(2) by (simp add: concat_eq_Nil_conv)
qed

lemma run_lazy_group:
  assumes "n \<le> length (m_rest s)" "\<And>i. i < n \<Longrightarrow> rx_run K (with_group k (take i (m_rest s)) (skip_chars i s)) = []"
    "rx_run K (with_group k (take n (m_rest s)) (skip_chars n s)) = t # ts"
  shows "\<exists>ts'. rx_run (RSeq (RGroup k (RStar False rany)) K) s = t # ts'"
proof -
  let ?f = "\<lambda>i. rx_run K (with_group k (take i (m_rest s)) (skip_chars i s))"
  have "rx_run (RSeq (RGroup k (RStar False rany)) K) s = concat (map ?f [0..<Suc (length (m_rest s))])"
    unfolding rx_run.simps(3,6) run_lazy map_map
    by (rule arg_cong [of _ _ concat], rule map_cong) (auto simp: with_group_def)
  also have "\<dots> = ?f n @ concat (map ?f [Suc n..<Suc (length (m_rest s))])"
    using assms(1,2) by (rule concat_first)
  finally show ?thesis using assms(3) by simp
qed

text \<open>A literal does not begin inside the text before its first occurrence.\<close>

definition first_at :: "string \<Rightarrow> string \<Rightarrow> bool" where
  "first_at a lit \<longleftrightarrow> \<not> occurs_in lit (butlast (a @ lit))"

lemma first_at_prefix:
  assumes "first_at a lit" "lit \<noteq> []" "i < length a"
  shows "\<not> prefix lit (drop i (a @ lit @ z))"
proof
  have "take (length lit) x = lit" if "prefix lit x" for x using that by (auto simp: prefix_def)
  moreover assume "prefix lit (drop i (a @ lit @ z))"
  ultimately have "take (length lit) (drop i (a @ lit @ z)) = lit" by blast
  moreover have "take (i + length lit) (a @ lit @ z) = take (i + length lit) (butlast (a @ lit))"
    using assms(2,3) by (cases lit rule: rev_cases) (simp_all add: butlast_append)
  then have "take (length lit) (drop i (a @ lit @ z)) = take (length lit) (drop i (butlast (a @ lit)))"
    by (simp only: take_drop add.commute)
  ultimately have "butlast (a @ lit) = take i (butlast (a @ lit)) @ lit @ drop (i + length lit) (butlast (a @ lit))"
    by (metis append_take_drop_id drop_drop add.commute)
  then show False using assms(1) unfolding first_at_def occurs_in_iff by blast
qed

definition render_block :: "string \<times> string \<Rightarrow> string" where
  "render_block = (\<lambda>(a, b). BLOCK_HEAD @ a @ BLOCK_MID @ b @ BLOCK_TAIL @ [CHR 10])"

definition plain_block :: "string \<times> string \<Rightarrow> bool" where
  "plain_block = (\<lambda>(a, b). first_at a BLOCK_MID \<and> first_at b BLOCK_TAIL)"

lemma literals_nonempty [simp]: "BLOCK_HEAD \<noteq> []" "BLOCK_MID \<noteq> []" "BLOCK_TAIL \<noteq> []"
  by (simp_all add: BLOCK_HEAD_def BLOCK_MID_def BLOCK_TAIL_def)

lemma run_block:
  assumes "plain_block (a, b)" "m_rest s = BLOCK_HEAD @ a @ BLOCK_MID @ b @ BLOCK_TAIL @ z"
  shows "\<exists>ts. rx_run BLOCK s =
    with_group 2 b (with_group 1 a (skip_chars (length (BLOCK_HEAD @ a @ BLOCK_MID @ b @ BLOCK_TAIL)) s)) # ts"
proof -
  define s1 where "s1 = skip_chars (length BLOCK_HEAD) s"
  define s2 where "s2 = with_group 1 a (skip_chars (length a) s1)"
  define s3 where "s3 = skip_chars (length BLOCK_MID) s2"
  define s4 where "s4 = skip_chars (length BLOCK_TAIL) (with_group 2 b (skip_chars (length b) s3))"
  let ?K2 = "rlit BLOCK_TAIL"
  let ?K1 = "RSeq (rlit BLOCK_MID) (RSeq (RGroup 2 (RStar False rany)) ?K2)"
  have r1: "m_rest s1 = a @ BLOCK_MID @ b @ BLOCK_TAIL @ z" by (simp add: s1_def assms(2))
  have r2: "m_rest s2 = BLOCK_MID @ b @ BLOCK_TAIL @ z" by (simp add: s2_def with_group_def r1)
  have r3: "m_rest s3 = b @ BLOCK_TAIL @ z" by (simp add: s3_def r2)
  have fa: "first_at a BLOCK_MID" "first_at b BLOCK_TAIL" using assms(1) by (simp_all add: plain_block_def)
  have tail_no: "rx_run ?K2 (with_group 2 (take i (m_rest s3)) (skip_chars i s3)) = []" if "i < length b" for i
    using first_at_prefix [OF fa(2) _ that, of z] by (simp add: run_lit with_group_def r3 del: drop_append)
  have tail_yes: "rx_run ?K2 (with_group 2 (take (length b) (m_rest s3)) (skip_chars (length b) s3)) = [s4]"
    by (simp add: run_lit with_group_def r3 s4_def)
  obtain ts2 where second: "rx_run (RSeq (RGroup 2 (RStar False rany)) ?K2) s3 = s4 # ts2"
    using run_lazy_group [OF _ tail_no tail_yes] by (auto simp: r3)
  have mid_no: "rx_run ?K1 (with_group 1 (take i (m_rest s1)) (skip_chars i s1)) = []" if "i < length a" for i
    using first_at_prefix [OF fa(1) _ that, of "b @ BLOCK_TAIL @ z"]
    by (simp add: rx_run.simps(3) [of "rlit BLOCK_MID"] run_lit with_group_def r1 del: drop_append rx_run.simps)
  have "rx_run ?K1 s2 = s4 # ts2"
    using second r2 by (simp add: rx_run.simps(3) [of "rlit BLOCK_MID"] run_lit s3_def del: rx_run.simps)
  then have mid_yes: "rx_run ?K1 (with_group 1 (take (length a) (m_rest s1)) (skip_chars (length a) s1)) = s4 # ts2"
    by (simp add: s2_def r1 del: rx_run.simps)
  obtain ts where first: "rx_run (RSeq (RGroup 1 (RStar False rany)) ?K1) s1 = s4 # ts"
    using run_lazy_group [OF _ mid_no mid_yes] by (auto simp: r1)
  have "s4 = with_group 2 b (with_group 1 a (skip_chars (length (BLOCK_HEAD @ a @ BLOCK_MID @ b @ BLOCK_TAIL)) s))"
    by (simp add: s4_def s3_def s2_def s1_def skip_chars_def with_group_def assms(2))
  then show ?thesis
    using first unfolding BLOCK_def rx_run.simps(3) [of "rlit BLOCK_HEAD"] run_lit
    by (simp add: assms(2) s1_def [symmetric] del: rx_run.simps)
qed

lemma block_not_at:
  assumes "\<not> prefix BLOCK_HEAD (m_rest s)" shows "rx_run BLOCK s = []"
  using assms unfolding BLOCK_def rx_run.simps(3) [of "rlit BLOCK_HEAD"] run_lit by simp

lemma find_block:
  assumes "plain_block (a, b)"
  shows "\<exists>s t. rx_find BLOCK pre (render_block (a, b) @ z) = Some (s, t)
    \<and> m_group t 1 = Some a \<and> m_group t 2 = Some b \<and> m_rest t = CHR 10 # z \<and> length (m_rest t) < length (m_rest s)"
proof -
  let ?s = "\<lparr>m_done = pre, m_rest = render_block (a, b) @ z, m_groups = []\<rparr>"
  have rest: "m_rest ?s = BLOCK_HEAD @ a @ BLOCK_MID @ b @ BLOCK_TAIL @ CHR 10 # z" by (simp add: render_block_def)
  obtain ts where run: "rx_run BLOCK ?s =
      with_group 2 b (with_group 1 a (skip_chars (length (BLOCK_HEAD @ a @ BLOCK_MID @ b @ BLOCK_TAIL)) ?s)) # ts"
    using run_block [OF assms rest] by blast
  have "rx_find BLOCK pre (render_block (a, b) @ z) = Some (?s,
      with_group 2 b (with_group 1 a (skip_chars (length (BLOCK_HEAD @ a @ BLOCK_MID @ b @ BLOCK_TAIL)) ?s)))"
    by (subst rx_find.simps) (simp only: Let_def run list.case)
  then show ?thesis
    by (intro exI conjI, assumption) (simp_all add: m_group_def with_group_def render_block_def BLOCK_HEAD_def)
qed

lemma find_after_newline:
  "rx_find BLOCK pre (CHR 10 # z) = rx_find BLOCK (CHR 10 # pre) z"
  by (subst rx_find.simps) (simp add: block_not_at BLOCK_HEAD_def del: rx_find.simps)

lemma find_nothing: "rx_find BLOCK pre [] = None"
  by (subst rx_find.simps) (simp add: block_not_at)

definition block_of :: "mstate \<times> mstate \<Rightarrow> string \<times> string" where
  "block_of m = (case m_group (snd m) 1 of Some s \<Rightarrow> s | None \<Rightarrow> [], case m_group (snd m) 2 of Some r \<Rightarrow> r | None \<Rightarrow> [])"

lemma all_blocks_found:
  assumes "list_all plain_block blocks" "length blocks < n"
  shows "map block_of (rx_all n BLOCK pre (concat (map render_block blocks))) = blocks
    \<and> map block_of (rx_all n BLOCK pre (CHR 10 # concat (map render_block blocks))) = blocks"
  using assms
proof (induction blocks arbitrary: n pre)
  case Nil
  then obtain n' where "n = Suc n'" by (cases n) auto
  then show ?case by (simp add: find_after_newline find_nothing del: rx_find.simps)
next
  case (Cons ab blocks)
  obtain a b where ab: "ab = (a, b)" by fastforce
  let ?z = "concat (map render_block blocks)"
  obtain n' where n: "n = Suc n'" "length blocks < n'" using Cons.prems by (cases n) auto
  have once: "map block_of (rx_all n BLOCK pre w) = (a, b) # blocks"
    if f: "rx_find BLOCK pre w = rx_find BLOCK pre' (render_block (a, b) @ ?z)" for pre pre' w
  proof -
    have plain: "plain_block (a, b)" using Cons.prems(1) by (simp add: ab)
    obtain s t where st: "rx_find BLOCK pre' (render_block (a, b) @ ?z) = Some (s, t)"
      "m_group t 1 = Some a" "m_group t 2 = Some b" "m_rest t = CHR 10 # ?z" "length (m_rest t) < length (m_rest s)"
      using find_block [OF plain, of pre' ?z] by blast
    have "rx_all n BLOCK pre w = (s, t) # rx_all n' BLOCK (m_done t) (CHR 10 # ?z)"
      using st(5) by (simp add: n f st(1,4) del: rx_find.simps)
    moreover have "block_of (s, t) = (a, b)" using st(2,3) by (simp add: block_of_def)
    ultimately show ?thesis using Cons.IH [of n' "m_done t"] Cons.prems(1) n(2) by simp
  qed
  show ?case
    using once [of pre "render_block (a, b) @ ?z" pre] once [of pre "CHR 10 # render_block (a, b) @ ?z" "CHR 10 # pre"]
    by (simp add: ab find_after_newline del: rx_find.simps)
qed

lemma blocks_shorter: "length blocks \<le> length (concat (map render_block blocks))"
  by (induction blocks) (auto simp: render_block_def BLOCK_HEAD_def split: prod.split)

text \<open>The legacy blocks are read as they are written. A text of blocks, whose search text does not
  contain the middle mark and whose replacement does not contain the end mark, parses to exactly these
  blocks in order.\<close>

theorem legacy_blocks_roundtrip:
  assumes "list_all plain_block blocks"
  shows "parse_blocks (concat (map render_block blocks)) = blocks"
proof -
  have "parse_blocks w = map block_of (rx_finditer BLOCK w)" for w
    by (simp add: parse_blocks_def block_of_def [abs_def])
  then show ?thesis
    using all_blocks_found [OF assms, of "Suc (length (concat (map render_block blocks)))" "[]"] blocks_shorter [of blocks]
    by (simp add: rx_finditer_def del: rx_all.simps)
qed

theorem legacy_blocks_roundtrip_witness:
  "parse_blocks (concat (map render_block [(''old'', ''new''), (''x'', [])])) = [(''old'', ''new''), (''x'', [])]"
  by (rule legacy_blocks_roundtrip) code_simp

section \<open>Patching a file\<close>

text \<open>The patcher's gate and the gate of the kernel's validation protect the same paths.\<close>

lemma patcher_gate_is_validation_gate:
  "check_patch_gate R path = Inr () \<longleftrightarrow> \<not> is_test_path path \<and> \<not> is_ci_path path
     \<and> \<not> patcher_dep_manifest path"
  by (auto simp: check_patch_gate_def Let_def patcher_test_path_def patcher_ci_path_def is_test_path_def is_ci_path_def
      posix_path_def)


section \<open>What the patcher does not guarantee\<close>

text \<open>The gate looks at the spelling of the path, the file is chosen by its normal form: a leading \<open>./\<close>
  gets a patch of a protected file through.\<close>

lemma dot_path_passes_gate:
  "check_patch_gate R ''./ci/run.sh'' = Inr ()" "normpath ''./ci/run.sh'' = ''ci/run.sh''" "is_ci_path ''ci/run.sh''"
  "snd (apply_to_file toy_runtime \<lparr>dl_ndiff = (\<lambda>a b. []), dl_unified = (\<lambda>a b. [])\<rparr> (\<lambda>p. p) ''/w'' ''./ci/run.sh'' ''a'' ''b'' False
     [(''/w/ci/run.sh'', ''a'')]) = [(''/w/ci/run.sh'', ''b'')]"
  by code_simp+

text \<open>Two occurrences that overlap count as one.\<close>

lemma overlapping_occurrences_accepted: "apply_to_content ''aaa'' ''aa'' ''b'' = Inr ''ba''"
  by code_simp

text \<open>A patch of one word rewrites every line end of a file.\<close>

lemma patch_rewrites_line_ends:
  "snd (apply_to_file toy_runtime \<lparr>dl_ndiff = (\<lambda>a b. []), dl_unified = (\<lambda>a b. [])\<rparr> (\<lambda>p. p) ''/w'' ''f'' ''a'' ''b'' False
     [(''/w/f'', ''a'' @ [CHR 13, CHR 10] @ ''z'' @ [CHR 13, CHR 10])]) = [(''/w/f'', ''b'' @ [CHR 10] @ ''z'' @ [CHR 10])]"
  by code_simp

text \<open>The temporary file of the fallback is removed on every path.\<close>

lemma unified_diff_leaves_no_file:
  "map_of (pw_temp (snd (apply_unified_diff T diff dir strict W))) f
     = (if strip diff \<noteq> [] \<and> f = tool_temp T (pw_dir W) then None else map_of (pw_temp W) f)"
  by (simp add: apply_unified_diff_def Let_def delete_conv' update_conv' split: prod.split)

end
