(* ===== verification/Bench_Run.thy ===== *)
theory Bench_Run
  imports Semantic_Patch Patch_Gate Shell_Words Replay Http
begin

text \<open>
  The benchmark loop of \<open>rfsn_swebench\<close>: the contracts (\<open>contracts.py\<close>), commands (\<open>util.py\<close>), the
  repository (\<open>repo.py\<close>), the choice of tests (\<open>testsel.py\<close>), the replay log (\<open>replay.py\<close>) and the loop
  that proposes, applies, gates and tests patches (\<open>runner.py\<close>).

  Processes, requests, the proposer and the clock are functions of a world. A computation that raises
  carries the text of the exception.
\<close>

section \<open>Contracts\<close>

record task_limits =
  tl_max_iters :: int
  tl_max_bytes :: int
  tl_max_files :: int
  tl_max_new :: int
  tl_max_runtime :: int

record bench_task =
  bt_id :: string
  bt_url :: string
  bt_dir :: string
  bt_issue :: string
  bt_ref :: "string option"
  bt_failing :: "string list"
  bt_focus :: "string list"
  bt_test_patch :: string
  bt_setup :: "string list"
  bt_quick :: string
  bt_full :: string
  bt_limits :: task_limits

record test_run =
  tr_exit :: int
  tr_out :: string
  tr_err :: string
  tr_dur :: rat

datatype bench_status = PASS | FAIL | ABORT | GATE_REJECT

record bench_result =
  be_task :: string
  be_status :: bench_status
  be_iters :: int
  be_patch :: string
  be_tests :: "(string \<times> test_run) list"
  be_risk :: risk_report
  be_replay :: string

section \<open>Commands\<close>

datatype command = CmdText string | CmdList "string list"

datatype argv = ShellLine string | Argv "string list"

datatype bench_proc = Exited int string string | TimedOut string string

record 'w bench_env =
  bn_spawn :: "argv \<Rightarrow> (string \<times> string) list \<Rightarrow> string \<Rightarrow> int \<Rightarrow> 'w \<Rightarrow> (string + bench_proc \<times> rat) \<times> 'w"
  bn_post :: "string \<Rightarrow> pydict \<Rightarrow> int \<Rightarrow> 'w \<Rightarrow> (string + int \<times> pydict \<times> string) \<times> 'w"
  bn_propose :: "bench_task \<Rightarrow> string \<Rightarrow> string option \<Rightarrow> pydict list \<Rightarrow> 'w \<Rightarrow> (string + string) \<times> 'w"
  bn_tool :: "'w patch_tool"
  bn_clock :: "'w \<Rightarrow> rat"
  bn_has_git :: "string \<Rightarrow> 'w \<Rightarrow> bool"
  bn_empty :: "string \<Rightarrow> 'w \<Rightarrow> bool"
  bn_make_dir :: "string \<Rightarrow> 'w \<Rightarrow> 'w"
  bn_remove_dir :: "string \<Rightarrow> 'w \<Rightarrow> 'w"
  bn_ledger_file :: "string \<Rightarrow> 'w \<Rightarrow> ledger_line list option"
  bn_sign :: "(string \<Rightarrow> string) option"
  bn_raised :: "pyerr \<Rightarrow> string"

text \<open>The replay directory holds the events, the blobs, the diagnosis and the feedback; the proposer reads
  the last two. The ledger is a global variable of \<open>replay.py\<close>.\<close>

record 'w bench_state =
  bs_world :: "'w patch_world"
  bs_events :: "pydict list"
  bs_ledger :: "hard_ledger option"
  bs_blobs :: "(string \<times> string) list"
  bs_diagnosis :: "string option"
  bs_feedback :: "pydict list"

type_synonym ('w, 'a) bench = "('w bench_state, string, 'a) eff"

definition of_world :: "('w \<Rightarrow> (string + 'a) \<times> 'w) \<Rightarrow> ('w, 'a) bench" where
  "of_world f = (\<lambda>s. case f (pw_dir (bs_world s)) of (r, w) \<Rightarrow> (r, s\<lparr>bs_world := (bs_world s)\<lparr>pw_dir := w\<rparr>\<rparr>))"

definition set_world :: "('w \<Rightarrow> 'w) \<Rightarrow> ('w, unit) bench" where
  "set_world f = of_world (\<lambda>w. (Inr (), f w))"

definition clock :: "'w bench_env \<Rightarrow> ('w, rat) bench" where
  "clock B = sread (\<lambda>s. bn_clock B (pw_dir (bs_world s)))"

text \<open>The characters that make \<open>run_cmd\<close> use a shell, among them a backslash, quotes and a line end.\<close>

definition SHELL_CHARS :: string where
  "SHELL_CHARS = ''&|;<>()$'' @ [CHR 0x60, CHR 0x5C, dq, sq, CHR 10]"

definition needs_shell :: "string \<Rightarrow> bool" where
  "needs_shell cmd \<longleftrightarrow> (\<exists>c \<in> set cmd. c \<in> set SHELL_CHARS)"

text \<open>\<open>shlex.split\<close> on a text without quotes, backslashes and line ends: words between blanks.\<close>

fun plain_words :: "string \<Rightarrow> string \<Rightarrow> string list" where
  "plain_words w [] = (if w = [] then [] else [rev w])"
| "plain_words w (c # cs) =
     (if c \<in> {CHR '' '', CHR 9, CHR 13, CHR 10} then (if w = [] then [] else [rev w]) @ plain_words [] cs
      else plain_words (c # w) cs)"

definition ENV_VAR :: rx where
  "ENV_VAR = rseq [RBegin, RGroup 1 (RSeq (RSet (\<lambda>c. alnum_ascii c \<and> 65 \<le> code c \<or> c = CHR ''_'')) (RStar True (rcls ''_''))),
     rlit ''='', RGroup 2 (RStar True rdot), REnd]"

fun take_env :: "string list \<Rightarrow> (string \<times> string) list \<times> string list" where
  "take_env [] = ([], [])"
| "take_env (w # ws) =
     (case rx_match ENV_VAR w of
        None \<Rightarrow> ([], w # ws)
      | Some m \<Rightarrow> (case take_env ws of (env, rest) \<Rightarrow> ((str_or_empty (m_group m 1), str_or_empty (m_group m 2)) # env, rest)))"

definition run_cmd :: "'w bench_env \<Rightarrow> command \<Rightarrow> string \<Rightarrow> int \<Rightarrow> ('w, int \<times> string \<times> string \<times> rat) bench" where
  "run_cmd B cmd cwd timeout =
     (let (argv, env) =
        (case cmd of
           CmdText t \<Rightarrow> if needs_shell t then (ShellLine t, [])
                        else (case take_env (plain_words [] t) of (env, ws) \<Rightarrow> (Argv ws, env))
         | CmdList xs \<Rightarrow> (case take_env xs of (env, ws) \<Rightarrow> (Argv ws, env)))
      in sbind (of_world (bn_spawn B argv env cwd timeout)) (\<lambda>(p, dt).
         sret (case p of
                 Exited rc out msgs \<Rightarrow> (rc, out, msgs, dt)
               | TimedOut out msgs \<Rightarrow> (124, out, msgs @ CHR 10 # ''[TIMEOUT]'', dt))))"

section \<open>The repository\<close>

definition git_clone :: "'w bench_env \<Rightarrow> string \<Rightarrow> string \<Rightarrow> ('w, unit) bench" where
  "git_clone B url dir =
     sbind (set_world (bn_make_dir B dir)) (\<lambda>_.
     sbind (sread (\<lambda>s. bn_has_git B dir (pw_dir (bs_world s)))) (\<lambda>have_git.
     if have_git then sret ()
     else sbind (supdate (\<lambda>s. if bn_empty B dir (pw_dir (bs_world s)) then s
                   else s\<lparr>bs_world := (bs_world s)\<lparr>pw_dir := bn_make_dir B dir (bn_remove_dir B dir (pw_dir (bs_world s)))\<rparr>\<rparr>)) (\<lambda>_.
          sbind (run_cmd B (CmdList [''git'', ''clone'', url, ''.'']) dir 600) (\<lambda>(rc, out, msgs, dt).
          if rc \<noteq> 0 then sraise (''git clone failed: '' @ msgs @ CHR 10 # out) else sret ()))))"

definition GIT_REF :: rx where "GIT_REF = rrange 1 256 (rcls ''_./-'')"

definition git_checkout :: "runtime \<Rightarrow> 'w bench_env \<Rightarrow> string \<Rightarrow> string option \<Rightarrow> ('w, unit) bench" where
  "git_checkout R B dir ref =
     (case ref of
        None \<Rightarrow> sret ()
      | Some r \<Rightarrow>
          if r = [] then sret ()
          else if rx_fullmatch GIT_REF r = None
          then sraise (''git checkout: ref contains disallowed characters: '' @ rt_repr R (PStr r))
          else sbind (run_cmd B (CmdList [''git'', ''checkout'', r]) dir 120) (\<lambda>(rc, out, msgs, dt).
               if rc \<noteq> 0 then sraise (''git checkout failed: '' @ msgs @ CHR 10 # out) else sret ()))"

definition git_diff :: "'w bench_env \<Rightarrow> string \<Rightarrow> string list \<Rightarrow> ('w, string) bench" where
  "git_diff B dir exclude =
     sbind (run_cmd B (CmdList ([''git'', ''diff''] @ (if exclude = [] then [] else [''--'', ''.''] @ map (\<lambda>p. '':!'' @ p) exclude)))
              dir 60) (\<lambda>(rc, out, msgs, dt).
     if rc \<noteq> 0 then sraise (''git diff failed: '' @ msgs @ CHR 10 # out) else sret out)"

definition git_reset_hard :: "'w bench_env \<Rightarrow> string \<Rightarrow> ('w, unit) bench" where
  "git_reset_hard B dir =
     sbind (run_cmd B (CmdList [''git'', ''reset'', ''--hard'']) dir 120) (\<lambda>_.
     sbind (run_cmd B (CmdList [''git'', ''clean'', ''-fd'', ''--exclude=replays'', ''--exclude=.venv'']) dir 120) (\<lambda>_. sret ()))"

section \<open>The replay log\<close>

definition bench_event :: "(string \<times> pyval) list \<Rightarrow> pydict" where
  "bench_event kvs = map (\<lambda>(k, v). (PStr k, v)) kvs"

definition replay_record :: "runtime \<Rightarrow> pydict \<Rightarrow> ledger_record" where
  "replay_record R ev =
     (let ty = py_str R (dget_or ev ''type'' (PStr ''REPLAY_EVENT'')); rid = py_str R (dget_or ev ''run_id'' (PStr []));
          ev_hash = rt_sha256 R (rt_dumps R False (PDict ev))
      in \<lparr>lr_proposal_hash = ev_hash, lr_simulation = [], lr_risk = [], lr_decision = ''REJECT'',
          lr_decision_reason = ''event:'' @ ty, lr_outcome_hash = None,
          lr_state_hash = rt_sha256 R (''replay_event:'' @ ev_hash), lr_verification = None,
          lr_entry_hash = [], lr_prev_chain_hash = [], lr_chain_hash = [], lr_ts = 0,
          lr_metadata = [(PStr ''record_type'', PStr ''replay_event''), (PStr ''event_type'', PStr ty),
             (PStr ''run_id'', PStr rid), (PStr ''event'', PDict ev)]\<rparr>)"

definition log_event :: "runtime \<Rightarrow> 'w bench_env \<Rightarrow> (string \<times> pyval) list \<Rightarrow> ('w, unit) bench" where
  "log_event R B kvs =
     supdate (\<lambda>s. s\<lparr>bs_events := bs_events s @ [bench_event kvs],
       bs_ledger := map_option (\<lambda>L. snd (append_record R (bn_sign B) (bn_clock B (pw_dir (bs_world s)))
                                           (replay_record R (bench_event kvs)) L)) (bs_ledger s)\<rparr>)"

definition save_blob :: "runtime \<Rightarrow> string \<Rightarrow> string \<Rightarrow> ('w, unit) bench" where
  "save_blob R name data =
     supdate (\<lambda>s. s\<lparr>bs_blobs := AList.update (name @ ''.'' @ take 12 (rt_sha256 R data)) data (bs_blobs s)\<rparr>)"

definition replay_dir_of :: "'w bench_env \<Rightarrow> string \<Rightarrow> string \<Rightarrow> 'w \<Rightarrow> string" where
  "replay_dir_of B base task_id w =
     path_join (path_join base ''replays'') (task_id @ ''_'' @ int_str (rat_trunc (bn_clock B w * 1000)))"

section \<open>Tests\<close>

definition tail_text :: "string \<Rightarrow> nat \<Rightarrow> string" where
  "tail_text s n = (if length s \<le> n then s else last_n n s)"

definition round_ms :: "rat \<Rightarrow> rat" where
  "round_ms x = of_int (round_half_even (x * 1000)) / 1000"

definition run_tests :: "'w bench_env \<Rightarrow> string \<Rightarrow> string \<Rightarrow> int \<Rightarrow> ('w, test_run) bench" where
  "run_tests B cmd dir timeout =
     sbind (run_cmd B (CmdText cmd) dir timeout) (\<lambda>(rc, out, msgs, dt).
     sret \<lparr>tr_exit = rc, tr_out = tail_text out 4000, tr_err = tail_text msgs 4000, tr_dur = round_ms dt\<rparr>)"

definition rstrip_slash :: "string \<Rightarrow> string" where
  "rstrip_slash s = rev (dropWhile (\<lambda>c. c = slash) (rev s))"

definition failed_request :: "string \<Rightarrow> rat \<Rightarrow> test_run" where
  "failed_request msg dt = \<lparr>tr_exit = 1, tr_out = [], tr_err = tail_text msg 4000, tr_dur = round_ms dt\<rparr>"

text \<open>The reading of a reply; it carries its log as a text and its seconds as a number, otherwise the
  reading raises.\<close>

definition read_reply :: "pydict \<Rightarrow> rat \<Rightarrow> test_run res" where
  "read_reply data dt =
     ebind (py_int (dget_or data ''status'' (PInt 1))) (\<lambda>status.
     ebind (as_str (dget_or data ''logs'' (PStr []))) (\<lambda>logs.
     ebind (case dget_or data ''seconds'' (PFloat dt) of PFloat x \<Rightarrow> Inr x | PInt i \<Rightarrow> Inr (of_int i) | _ \<Rightarrow> Inl TypeError) (\<lambda>secs.
     Inr \<lparr>tr_exit = status, tr_out = tail_text logs 4000, tr_err = [], tr_dur = round_ms secs\<rparr>)))"

definition run_tests_via_executor ::
    "'w bench_env \<Rightarrow> string \<Rightarrow> string \<Rightarrow> int \<Rightarrow> string \<Rightarrow> string \<Rightarrow> int \<Rightarrow> string option \<Rightarrow> ('w, test_run) bench" where
  "run_tests_via_executor B executor repo_id iteration template target timeout gateway = (\<lambda>s.
     let t0 = bn_clock B (pw_dir (bs_world s));
         step = bench_event [(''id'', PStr (''bench_test_'' @ int_str iteration)), (''type'', PStr ''run_tests''),
           (''template_id'', PStr template), (''template_params'', PDict (bench_event [(''target'', PStr target)])),
           (''timeout_s'', PInt timeout)];
         body = bench_event [(''repo_id'', PStr repo_id), (''iter'', PInt iteration), (''step'', PDict step)];
         url = (case gateway of Some g \<Rightarrow> if g \<noteq> [] then rstrip_slash g @ ''/run_step'' else rstrip_slash executor @ ''/run''
                | None \<Rightarrow> rstrip_slash executor @ ''/run'')
     in case bn_post B url body (timeout + 30) (pw_dir (bs_world s)) of (reply, w) \<Rightarrow>
        let dt = bn_clock B w - t0; s' = s\<lparr>bs_world := (bs_world s)\<lparr>pw_dir := w\<rparr>\<rparr>
        in case reply of
             Inl e \<Rightarrow> (Inr (failed_request (''executor error: '' @ e) dt), s')
           | Inr (status, data, msg) \<Rightarrow>
               if status \<noteq> 200 then (Inr (failed_request (''executor HTTP '' @ int_str status @ '': '' @ msg) dt), s')
               else (case read_reply data dt of
                       Inl e \<Rightarrow> (Inr (failed_request (''executor error: '' @ bn_raised B e) dt), s')
                     | Inr tr \<Rightarrow> (Inr tr, s')))"

definition parse_test_cmd :: "string \<Rightarrow> string \<times> string" where
  "parse_test_cmd cmd =
     (let targets = filter (\<lambda>p. occurs_in ''::'' p \<or> endswith p ''.py'' \<and> occurs_in ''test'' (lower p)) (split_words (strip cmd))
      in if occurs_in ''pytest'' (strip cmd) \<and> targets \<noteq> [] then (''pytest_targeted'', join '' '' targets)
         else (''pytest_suite'', []))"

definition SAFE_TEST_NODE :: rx where
  "SAFE_TEST_NODE = rseq [RBegin, rrange 1 512 (rcls ''_./:@[]-''), REnd]"

definition choose_quick_tests :: "string list \<Rightarrow> string \<Rightarrow> string" where
  "choose_quick_tests failing cmd =
     (let safe = map shlex_quote (filter (\<lambda>t. rx_match SAFE_TEST_NODE t \<noteq> None) failing)
      in if occurs_in '' -k '' cmd then cmd else if safe \<noteq> [] then cmd @ '' '' @ join '' '' safe else cmd)"

definition extract_diff_paths :: "string \<Rightarrow> string list" where
  "extract_diff_paths diff = map (drop 6) (filter (\<lambda>l. startswith l ''+++ b/'') (splitlines diff))"

section \<open>The loop\<close>

text \<open>The arguments of a run, and what it derives from its task before the first iteration.\<close>

record bench_opts =
  bo_replay_base :: "string option"
  bo_ledger :: "string option"
  bo_executor :: "string option"
  bo_gateway :: "string option"

record bench_ctx =
  bc_replay :: string
  bc_quick :: string
  bc_repo :: string
  bc_excluded :: "string list"

record bench_locals =
  bl_patch :: string
  bl_rejected :: bool
  bl_feedback :: "pydict list"
  bl_quick :: "test_run option"
  bl_full :: "test_run option"

definition given :: "string option \<Rightarrow> bool" where
  "given x \<longleftrightarrow> x \<noteq> None \<and> x \<noteq> Some []"

definition attempt :: "('s, 'e, 'a) eff \<Rightarrow> ('s, 'e, 'e + 'a) eff" where
  "attempt m = (\<lambda>s. case m s of (r, s') \<Rightarrow> (Inr r, s'))"

definition bench_lift :: "'w bench_env \<Rightarrow> 'a res \<Rightarrow> ('w, 'a) bench" where
  "bench_lift B r = (case r of Inl e \<Rightarrow> sraise (bn_raised B e) | Inr x \<Rightarrow> sret x)"

definition bench_gate :: "gate_policy \<Rightarrow> bench_task \<Rightarrow> string \<Rightarrow> risk_report res" where
  "bench_gate pol task diff =
     (let L = bt_limits task in patch_risk_gate pol diff (Some (tl_max_bytes L)) (Some (tl_max_files L)) (Some (tl_max_new L)))"

definition patch_world_step ::
    "('w patch_world \<Rightarrow> (string + 'a) \<times> 'w patch_world) \<Rightarrow> ('w, 'a) bench" where
  "patch_world_step f = (\<lambda>s. case f (bs_world s) of (r, w) \<Rightarrow> (r, s\<lparr>bs_world := w\<rparr>))"

definition apply_diff :: "'w bench_env \<Rightarrow> string \<Rightarrow> string \<Rightarrow> bool \<Rightarrow> ('w, unit) bench" where
  "apply_diff B diff dir strict = patch_world_step (apply_unified_diff (bn_tool B) diff dir strict)"

definition fresh_tree :: "'w bench_env \<Rightarrow> bench_task \<Rightarrow> ('w, unit) bench" where
  "fresh_tree B task =
     sbind (git_reset_hard B (bt_dir task)) (\<lambda>_.
     if bt_test_patch task = [] then sret () else apply_diff B (bt_test_patch task) (bt_dir task) True)"

definition bind_ledger :: "'w bench_env \<Rightarrow> string option \<Rightarrow> ('w, unit) bench" where
  "bind_ledger B path =
     supdate (\<lambda>s. if given path then s\<lparr>bs_ledger := Some (open_ledger (bn_ledger_file B (the path) (pw_dir (bs_world s))))\<rparr>
                  else s)"

definition init_replay_dir :: "'w bench_env \<Rightarrow> string \<Rightarrow> string \<Rightarrow> string option \<Rightarrow> ('w, string) bench" where
  "init_replay_dir B base task_id path =
     sbind (sread (\<lambda>s. replay_dir_of B base task_id (pw_dir (bs_world s)))) (\<lambda>dir.
     sbind (set_world (bn_make_dir B dir)) (\<lambda>_.
     sbind (supdate (\<lambda>s. s\<lparr>bs_events := [], bs_blobs := [], bs_diagnosis := None, bs_feedback := []\<rparr>)) (\<lambda>_.
     sbind (bind_ledger B path) (\<lambda>_. sret dir))))"

text \<open>The first setup command that fails ends the run.\<close>

fun setup_loop :: "runtime \<Rightarrow> 'w bench_env \<Rightarrow> bench_task \<Rightarrow> string list \<Rightarrow> ('w, test_run option) bench" where
  "setup_loop R B task [] = sret None"
| "setup_loop R B task (cmd # cmds) =
     sbind (log_event R B [(''type'', PStr ''setup_cmd''), (''cmd'', PStr cmd)]) (\<lambda>_.
     sbind (run_tests B cmd (bt_dir task) (min 600 (tl_max_runtime (bt_limits task)))) (\<lambda>tr.
     sbind (log_event R B [(''type'', PStr ''setup_result''), (''exit'', PInt (tr_exit tr)), (''dt'', PFloat (tr_dur tr))]) (\<lambda>_.
     if tr_exit tr \<noteq> 0 then sret (Some tr) else setup_loop R B task cmds)))"

definition repo_id_of :: "string \<Rightarrow> string" where
  "repo_id_of tid = map (\<lambda>c. if alnum_ascii c \<or> c \<in> set ''_.-'' then c else CHR ''_'') tid"

definition pre_diagnosis :: "runtime \<Rightarrow> 'w bench_env \<Rightarrow> bench_task \<Rightarrow> string \<Rightarrow> ('w, unit) bench" where
  "pre_diagnosis R B task quick =
     (if bt_failing task = [] then sret ()
      else sbind (log_event R B [(''type'', PStr ''pre_diagnose_start'')]) (\<lambda>_.
           sbind (run_tests B quick (bt_dir task) (min 120 (tl_max_runtime (bt_limits task)))) (\<lambda>tr.
           let found = (if tr_exit tr \<noteq> 0 \<and> strip (tr_out tr) \<noteq> [] then tr_out tr else [])
           in sbind (if found = [] then sret () else supdate (\<lambda>s. s\<lparr>bs_diagnosis := Some found\<rparr>)) (\<lambda>_.
              log_event R B [(''type'', PStr ''pre_diagnose_result''), (''exit_code'', PInt (tr_exit tr)),
                (''has_traceback'', PBool (found \<noteq> [])), (''output_lines'', PInt (int (length (splitlines found))))]))))"

definition bench_tests :: "'w bench_env \<Rightarrow> bench_opts \<Rightarrow> bench_task \<Rightarrow> bench_ctx \<Rightarrow> string \<Rightarrow> int \<Rightarrow> int \<Rightarrow> ('w, test_run) bench" where
  "bench_tests B opts task C cmd timeout i =
     (if given (bo_executor opts)
      then (case parse_test_cmd cmd of (template, target) \<Rightarrow>
              run_tests_via_executor B (the (bo_executor opts)) (bc_repo C) i template target timeout (bo_gateway opts))
      else run_tests B cmd (bt_dir task) timeout)"

definition add_feedback :: "(string \<times> pyval) list \<Rightarrow> bench_locals \<Rightarrow> ('w, bench_locals) bench" where
  "add_feedback kvs L =
     (let fb = bl_feedback L @ [bench_event kvs]
      in sbind (supdate (\<lambda>s. s\<lparr>bs_feedback := fb\<rparr>)) (\<lambda>_. sret (L\<lparr>bl_feedback := fb\<rparr>)))"

definition run_list :: "bench_locals \<Rightarrow> (string \<times> test_run) list" where
  "run_list L = (case bl_quick L of None \<Rightarrow> [] | Some t \<Rightarrow> [(''quick'', t)])
     @ (case bl_full L of None \<Rightarrow> [] | Some t \<Rightarrow> [(''full'', t)])"

text \<open>The result of a run; it carries the verdict of the gate on the patch it reports.\<close>

definition bench_result_of ::
    "'w bench_env \<Rightarrow> gate_policy \<Rightarrow> bench_task \<Rightarrow> string \<Rightarrow> bench_status \<Rightarrow> int \<Rightarrow> string
      \<Rightarrow> (string \<times> test_run) list \<Rightarrow> ('w, bench_result) bench" where
  "bench_result_of B pol task replay st i patch tests =
     sbind (bench_lift B (bench_gate pol task patch)) (\<lambda>risk.
     sret \<lparr>be_task = bt_id task, be_status = st, be_iters = i, be_patch = patch, be_tests = tests,
           be_risk = risk, be_replay = replay\<rparr>)"

definition logged_tests ::
    "runtime \<Rightarrow> 'w bench_env \<Rightarrow> bench_opts \<Rightarrow> bench_task \<Rightarrow> bench_ctx \<Rightarrow> string \<Rightarrow> string \<Rightarrow> int \<Rightarrow> int
      \<Rightarrow> ('w, test_run) bench" where
  "logged_tests R B opts task C name cmd most i =
     sbind (bench_tests B opts task C cmd (min most (tl_max_runtime (bt_limits task))) i) (\<lambda>tr.
     sbind (log_event R B [(''type'', PStr (name @ ''_result'')), (''iter'', PInt i), (''exit'', PInt (tr_exit tr)),
              (''dt'', PFloat (tr_dur tr))]) (\<lambda>_.
     sbind (save_blob R (name @ ''_stdout_iter'' @ int_str i) (tr_out tr)) (\<lambda>_.
     sbind (save_blob R (name @ ''_stderr_iter'' @ int_str i) (tr_err tr)) (\<lambda>_. sret tr))))"

text \<open>The end of an iteration: quick tests, full tests, the gate again. \<open>Inr\<close> goes on with the next
  iteration, \<open>Inl\<close> ends the run.\<close>

definition test_stage ::
    "runtime \<Rightarrow> 'w bench_env \<Rightarrow> gate_policy \<Rightarrow> bench_opts \<Rightarrow> bench_task \<Rightarrow> bench_ctx \<Rightarrow> int \<Rightarrow> bench_locals
      \<Rightarrow> ('w, bench_result + bench_locals) bench" where
  "test_stage R B pol opts task C i L =
     sbind (logged_tests R B opts task C ''quick'' (bc_quick C) 600 i) (\<lambda>quick.
     let L1 = L\<lparr>bl_quick := Some quick\<rparr>
     in if tr_exit quick \<noteq> 0
        then sbind (add_feedback [(''iter'', PInt i), (''type'', PStr ''test_fail''), (''stdout_tail'', PStr (tail_text (tr_out quick) 2000)),
                      (''stderr_tail'', PStr (tail_text (tr_err quick) 1000))] L1) (\<lambda>L2. sret (Inr L2))
        else sbind (logged_tests R B opts task C ''full'' (bt_full task) 1400 i) (\<lambda>full.
             let L2 = L1\<lparr>bl_full := Some full\<rparr>
             in if tr_exit full \<noteq> 0 then sret (Inr L2)
                else sbind (bench_lift B (bench_gate pol task (bl_patch L2))) (\<lambda>risk.
                     if rr_decision risk = risk_decision.REJECT
                     then sbind (log_event R B [(''type'', PStr ''final_gate_reject''), (''iter'', PInt i),
                                   (''reasons'', PList (map PStr (rr_reasons risk)))]) (\<lambda>_.
                          sret (Inr (L2\<lparr>bl_patch := [], bl_rejected := True\<rparr>)))
                     else sret (Inl \<lparr>be_task = bt_id task, be_status = PASS, be_iters = i, be_patch = bl_patch L2,
                            be_tests = [(''quick'', quick), (''full'', full)], be_risk = risk, be_replay = bc_replay C\<rparr>))))"

definition decision_text :: "risk_decision \<Rightarrow> string" where
  "decision_text d = (case d of risk_decision.ALLOW \<Rightarrow> ''ALLOW'' | risk_decision.REJECT \<Rightarrow> ''REJECT'')"

definition gate_stage ::
    "runtime \<Rightarrow> 'w bench_env \<Rightarrow> gate_policy \<Rightarrow> bench_opts \<Rightarrow> bench_task \<Rightarrow> bench_ctx \<Rightarrow> int \<Rightarrow> bench_locals
      \<Rightarrow> ('w, bench_result + bench_locals) bench" where
  "gate_stage R B pol opts task C i L =
     sbind (git_diff B (bt_dir task) (bc_excluded C)) (\<lambda>applied.
     sbind (save_blob R (''applied_iter'' @ int_str i) applied) (\<lambda>_.
     sbind (bench_lift B (bench_gate pol task applied)) (\<lambda>risk.
     sbind (log_event R B [(''type'', PStr ''risk''), (''iter'', PInt i), (''decision'', PStr (decision_text (rr_decision risk))),
              (''reasons'', PList (map PStr (rr_reasons risk)))]) (\<lambda>_.
     if rr_decision risk = risk_decision.REJECT
     then sbind (add_feedback [(''iter'', PInt i), (''type'', PStr ''gate_reject''), (''reasons'', PList (map PStr (rr_reasons risk)))]
                   (L\<lparr>bl_patch := [], bl_rejected := True\<rparr>)) (\<lambda>L'. sret (Inr L'))
     else test_stage R B pol opts task C i (L\<lparr>bl_patch := applied, bl_rejected := False\<rparr>)))))"

definition failed_attempt :: "runtime \<Rightarrow> 'w bench_env \<Rightarrow> string \<Rightarrow> int \<Rightarrow> string \<Rightarrow> bench_locals \<Rightarrow> ('w, bench_result + bench_locals) bench" where
  "failed_attempt R B kind i e L =
     sbind (log_event R B [(''type'', PStr kind), (''iter'', PInt i), (''error'', PStr e)]) (\<lambda>_.
     sbind (add_feedback [(''iter'', PInt i), (''type'', PStr kind), (''error'', PStr (take 500 e))] L) (\<lambda>L'. sret (Inr L')))"

definition ask_proposer :: "'w bench_env \<Rightarrow> bench_task \<Rightarrow> string \<Rightarrow> ('w, string) bench" where
  "ask_proposer B task replay = (\<lambda>s. of_world (bn_propose B task replay (bs_diagnosis s) (bs_feedback s)) s)"

definition bench_iteration ::
    "runtime \<Rightarrow> 'w bench_env \<Rightarrow> gate_policy \<Rightarrow> bench_opts \<Rightarrow> bench_task \<Rightarrow> bench_ctx \<Rightarrow> rat \<Rightarrow> int \<Rightarrow> bench_locals
      \<Rightarrow> ('w, bench_result + bench_locals) bench" where
  "bench_iteration R B pol opts task C t0 i L =
     sbind (clock B) (\<lambda>now.
     if of_int (tl_max_runtime (bt_limits task)) < now - t0
     then sbind (log_event R B [(''type'', PStr ''abort''), (''reason'', PStr ''runtime_limit'')]) (\<lambda>_.
          sbind (bench_result_of B pol task (bc_replay C) ABORT (i - 1) (bl_patch L) (run_list L)) (\<lambda>r. sret (Inl r)))
     else sbind (fresh_tree B task) (\<lambda>_.
          sbind (log_event R B [(''type'', PStr ''iter_start''), (''iter'', PInt i)]) (\<lambda>_.
          sbind (attempt (ask_proposer B task (bc_replay C))) (\<lambda>proposal.
          case proposal of
            Inl e \<Rightarrow> failed_attempt R B ''propose_error'' i e L
          | Inr patch \<Rightarrow>
              sbind (save_blob R (''proposal_iter'' @ int_str i) patch) (\<lambda>_.
              sbind (attempt (apply_diff B patch (bt_dir task) False)) (\<lambda>applied.
              case applied of
                Inl e \<Rightarrow> failed_attempt R B ''apply_fail'' i e L
              | Inr _ \<Rightarrow> gate_stage R B pol opts task C i L))))))"

fun bench_loop ::
    "runtime \<Rightarrow> 'w bench_env \<Rightarrow> gate_policy \<Rightarrow> bench_opts \<Rightarrow> bench_task \<Rightarrow> bench_ctx \<Rightarrow> rat \<Rightarrow> int list \<Rightarrow> bench_locals
      \<Rightarrow> ('w, bench_result) bench" where
  "bench_loop R B pol opts task C t0 [] L =
     bench_result_of B pol task (bc_replay C) (if bl_rejected L then GATE_REJECT else FAIL)
       (tl_max_iters (bt_limits task)) (bl_patch L) (run_list L)"
| "bench_loop R B pol opts task C t0 (i # is) L =
     sbind (bench_iteration R B pol opts task C t0 i L) (\<lambda>out.
     case out of Inl r \<Rightarrow> sret r | Inr L' \<Rightarrow> bench_loop R B pol opts task C t0 is L')"

definition first_locals :: bench_locals where
  "first_locals = \<lparr>bl_patch = [], bl_rejected = False, bl_feedback = [], bl_quick = None, bl_full = None\<rparr>"

text \<open>The run from the first event on.\<close>

definition bench_body ::
    "runtime \<Rightarrow> 'w bench_env \<Rightarrow> gate_policy \<Rightarrow> bench_opts \<Rightarrow> bench_task \<Rightarrow> rat \<Rightarrow> string \<Rightarrow> ('w, bench_result) bench" where
  "bench_body R B pol opts task t0 replay =
     sbind (log_event R B [(''type'', PStr ''task_start''), (''task_id'', PStr (bt_id task)), (''repo_url'', PStr (bt_url task))]) (\<lambda>_.
     sbind (setup_loop R B task (bt_setup task)) (\<lambda>failed.
     case failed of
       Some tr \<Rightarrow> bench_result_of B pol task replay ABORT 0 [] [(''setup'', tr)]
     | None \<Rightarrow>
         let C = \<lparr>bc_replay = replay, bc_quick = choose_quick_tests (bt_failing task) (bt_quick task),
                  bc_repo = (if given (bo_executor opts) then repo_id_of (bt_id task) else []),
                  bc_excluded = extract_diff_paths (bt_test_patch task)\<rparr>
         in sbind (pre_diagnosis R B task (bc_quick C)) (\<lambda>_.
            bench_loop R B pol opts task C t0 [1 .. tl_max_iters (bt_limits task)] first_locals)))"

definition bench_run ::
    "runtime \<Rightarrow> 'w bench_env \<Rightarrow> gate_policy \<Rightarrow> bench_opts \<Rightarrow> bench_task \<Rightarrow> ('w, bench_result) bench" where
  "bench_run R B pol opts task =
     sbind (clock B) (\<lambda>t0.
     sbind (git_clone B (bt_url task) (bt_dir task)) (\<lambda>_.
     sbind (git_checkout R B (bt_dir task) (bt_ref task)) (\<lambda>_.
     sbind (fresh_tree B task) (\<lambda>_.
     sbind (init_replay_dir B (if given (bo_replay_base opts) then the (bo_replay_base opts) else bt_dir task) (bt_id task) (bo_ledger opts))
       (bench_body R B pol opts task t0)))))"

end
