(* ===== verification/Bench_Spec.thy ===== *)
theory Bench_Spec
  imports Bench_Run
begin

text \<open>
  What the result of the benchmark loop says about its run, what the replay ledger keeps, and where the
  loop falls short.
\<close>

section \<open>The values of a computation\<close>

text \<open>\<open>yields m V\<close>: whenever \<open>m\<close> returns, its value satisfies \<open>V\<close>.\<close>

abbreviation yields :: "('s, 'e, 'a) eff \<Rightarrow> ('a \<Rightarrow> bool) \<Rightarrow> bool" where
  "yields m V \<equiv> triple (\<lambda>_. True) m (\<lambda>x _. V x)"

lemma yields_any: "(\<And>x. V x) \<Longrightarrow> yields m V"
  by (simp add: triple_def)

lemma yields_bind: "yields m U \<Longrightarrow> (\<And>x. U x \<Longrightarrow> yields (f x) V) \<Longrightarrow> yields (sbind m f) V"
  by (simp add: triple_def sbind_returns) blast

lemma yields_skip: "(\<And>x. yields (f x) V) \<Longrightarrow> yields (sbind m f) V"
  by (rule yields_bind [where U = "\<lambda>_. True"]) (auto simp: triple_def)

lemma yields_sret: "V x \<Longrightarrow> yields (sret x) V"
  by (simp add: triple_def sret_def)

lemma yields_lift: "(\<And>x. r = Inr x \<Longrightarrow> V x) \<Longrightarrow> yields (bench_lift B r) V"
  by (simp add: triple_def bench_lift_def sraise_def sret_def split: sum.split)

section \<open>The result\<close>

definition gate_allows :: "gate_policy \<Rightarrow> bench_task \<Rightarrow> string \<Rightarrow> bool" where
  "gate_allows pol task diff \<longleftrightarrow> (\<exists>r. bench_gate pol task diff = Inr r \<and> rr_decision r = risk_decision.ALLOW)"

definition locals_ok :: "gate_policy \<Rightarrow> bench_task \<Rightarrow> bench_locals \<Rightarrow> bool" where
  "locals_ok pol task L \<longleftrightarrow> (bl_patch L = [] \<or> gate_allows pol task (bl_patch L)) \<and> (bl_rejected L \<longrightarrow> bl_patch L = [])"

definition tests_green :: "(string \<times> test_run) list \<Rightarrow> bool" where
  "tests_green ts \<longleftrightarrow> (\<exists>q f. ts = [(''quick'', q), (''full'', f)] \<and> tr_exit q = 0 \<and> tr_exit f = 0)"

definition result_ok :: "gate_policy \<Rightarrow> bench_task \<Rightarrow> int \<Rightarrow> bench_result \<Rightarrow> bool" where
  "result_ok pol task most r \<longleftrightarrow> be_task r = bt_id task \<and> bench_gate pol task (be_patch r) = Inr (be_risk r)
     \<and> (be_patch r = [] \<or> gate_allows pol task (be_patch r)) \<and> (be_status r = GATE_REJECT \<longrightarrow> be_patch r = [])
     \<and> (be_status r = PASS \<longrightarrow> rr_decision (be_risk r) = risk_decision.ALLOW \<and> tests_green (be_tests r) \<and> 1 \<le> be_iters r)
     \<and> 0 \<le> be_iters r \<and> be_iters r \<le> most"

definition out_ok :: "gate_policy \<Rightarrow> bench_task \<Rightarrow> int \<Rightarrow> bench_result + bench_locals \<Rightarrow> bool" where
  "out_ok pol task most out = (case out of Inl r \<Rightarrow> result_ok pol task most r | Inr L \<Rightarrow> locals_ok pol task L)"

lemma out_ok_simps [simp]:
  "out_ok pol task most (Inl r) = result_ok pol task most r" "out_ok pol task most (Inr L) = locals_ok pol task L"
  by (simp_all add: out_ok_def)

lemma locals_ok_updates [simp]:
  "locals_ok pol task (L\<lparr>bl_feedback := fb\<rparr>) = locals_ok pol task L"
  "locals_ok pol task (L\<lparr>bl_quick := q\<rparr>) = locals_ok pol task L"
  "locals_ok pol task (L\<lparr>bl_full := f\<rparr>) = locals_ok pol task L"
  "locals_ok pol task (L\<lparr>bl_patch := [], bl_rejected := True\<rparr>)"
  "locals_ok pol task (L\<lparr>bl_patch := d, bl_rejected := False\<rparr>) = (d = [] \<or> gate_allows pol task d)"
  by (simp_all add: locals_ok_def)

lemma feedback_keeps_locals: "locals_ok pol task L \<Longrightarrow> yields (add_feedback kvs L) (locals_ok pol task)"
  by (simp add: add_feedback_def Let_def yields_skip yields_sret)

lemma reported_result:
  assumes "locals_ok pol task L" "st \<noteq> PASS" "st = GATE_REJECT \<longrightarrow> bl_rejected L" "0 \<le> i" "i \<le> most"
  shows "yields (bench_result_of B pol task replay st i (bl_patch L) tests) (result_ok pol task most)"
  unfolding bench_result_of_def
  by (rule yields_bind, rule yields_lift, assumption, rule yields_sret)
    (use assms in \<open>auto simp: result_ok_def locals_ok_def\<close>)

text \<open>The rules for the parts of an iteration; what is only logged or measured says nothing about the value.\<close>

lemma yields_if: "(b \<Longrightarrow> yields m V) \<Longrightarrow> (\<not> b \<Longrightarrow> yields n V) \<Longrightarrow> yields (if b then m else n) V"
  by simp

lemma yields_gate:
  "(\<And>r. bench_gate pol task d = Inr r \<Longrightarrow> yields (f r) V) \<Longrightarrow> yields (sbind (bench_lift B (bench_gate pol task d)) f) V"
  by (rule yields_bind [OF yields_lift]) auto

lemma yields_feedback:
  "locals_ok pol task L \<Longrightarrow> (\<And>L'. locals_ok pol task L' \<Longrightarrow> yields (f L') V) \<Longrightarrow> yields (sbind (add_feedback kvs L) f) V"
  by (rule yields_bind [OF feedback_keeps_locals]) auto

lemmas yields_effects =
  yields_skip [where m = "log_event R B kvs" for R B kvs] yields_skip [where m = "save_blob R name data" for R name data]
  yields_skip [where m = "logged_tests R B opts task C name cmd most i" for R B opts task C name cmd most i]
  yields_skip [where m = "git_diff B dir ps" for B dir ps] yields_skip [where m = "fresh_tree B task" for B task]
  yields_skip [where m = "clock B" for B] yields_skip [where m = "attempt m" for m]
  yields_skip [where m = "pre_diagnosis R B task quick" for R B task quick] yields_skip [where m = "setup_loop R B task cmds" for R B task cmds]

lemmas yields_rules = yields_effects yields_gate yields_feedback yields_if yields_sret

lemma not_rejected: "d \<noteq> risk_decision.REJECT \<longleftrightarrow> d = risk_decision.ALLOW"
  by (cases d) auto

lemma test_stage_ok:
  assumes "locals_ok pol task L" "1 \<le> i" "i \<le> most"
  shows "yields (test_stage R B pol opts task C i L) (out_ok pol task most)"
  unfolding test_stage_def Let_def
  by (intro yields_rules)
    (use assms in \<open>auto simp: not_rejected result_ok_def tests_green_def gate_allows_def locals_ok_def\<close>)

lemma gate_stage_ok:
  assumes "locals_ok pol task L" "1 \<le> i" "i \<le> most"
  shows "yields (gate_stage R B pol opts task C i L) (out_ok pol task most)"
  unfolding gate_stage_def
  by (intro yields_rules test_stage_ok) (use assms in \<open>auto simp: not_rejected gate_allows_def\<close>)

lemma failed_attempt_ok: "locals_ok pol task L \<Longrightarrow> yields (failed_attempt R B kind i e L) (out_ok pol task most)"
  unfolding failed_attempt_def by (intro yields_rules) auto

lemma bench_iteration_ok:
  assumes "locals_ok pol task L" "1 \<le> i" "i \<le> most"
  shows "yields (bench_iteration R B pol opts task C t0 i L) (out_ok pol task most)"
proof -
  have patched: "yields (case applied of Inl e \<Rightarrow> failed_attempt R B ''apply_fail'' i e L
      | Inr _ \<Rightarrow> gate_stage R B pol opts task C i L) (out_ok pol task most)" for applied :: "string + unit"
    using failed_attempt_ok [OF assms(1)] gate_stage_ok [OF assms] by (cases applied) auto
  have proposed: "yields (case proposal of Inl e \<Rightarrow> failed_attempt R B ''propose_error'' i e L
      | Inr patch \<Rightarrow> sbind (save_blob R (''proposal_iter'' @ int_str i) patch) (\<lambda>_.
          sbind (attempt (apply_diff B patch (bt_dir task) False)) (\<lambda>applied.
          case applied of Inl e \<Rightarrow> failed_attempt R B ''apply_fail'' i e L
          | Inr _ \<Rightarrow> gate_stage R B pol opts task C i L))) (out_ok pol task most)" for proposal :: "string + string"
    using failed_attempt_ok [OF assms(1)] by (cases proposal) (auto intro!: yields_effects patched)
  have stopped: "yields (bench_result_of B pol task (bc_replay C) ABORT (i - 1) (bl_patch L) (run_list L)) (result_ok pol task most)"
    using assms by (intro reported_result) auto
  show ?thesis
    unfolding bench_iteration_def
    by (intro yields_effects yields_if proposed yields_bind [OF stopped] yields_sret) simp
qed

lemma bench_loop_ok:
  assumes "list_all (\<lambda>i. 1 \<le> i \<and> i \<le> most) is" "locals_ok pol task L"
    "most = max 0 (tl_max_iters (bt_limits task))" "0 \<le> tl_max_iters (bt_limits task)"
  shows "yields (bench_loop R B pol opts task C t0 is L) (result_ok pol task most)"
  using assms(1,2)
proof (induction "is" arbitrary: L)
  case Nil
  show ?case unfolding bench_loop.simps
    by (rule reported_result [OF Nil(2)]) (use assms(3,4) in auto)
next
  case (Cons i "is")
  show ?case unfolding bench_loop.simps
  proof (rule yields_bind)
    show "yields (bench_iteration R B pol opts task C t0 i L) (out_ok pol task most)"
      by (rule bench_iteration_ok) (use Cons.prems in auto)
  next
    fix out assume "out_ok pol task most out"
    then show "yields (case out of Inl r \<Rightarrow> sret r | Inr L' \<Rightarrow> bench_loop R B pol opts task C t0 is L') (result_ok pol task most)"
      using Cons by (cases out) (auto intro: yields_sret)
  qed
qed

text \<open>C32: the verdict on a benchmark run. When the loop returns, whatever its status, the risk report it
  returns is the verdict of the patch gate on the patch it returns, and this patch is empty or allowed by
  the gate; the number of iterations is within the limit of the task. The status \<open>PASS\<close> comes with an
  allowed patch and green quick and full tests, the status \<open>GATE_REJECT\<close> with an empty patch.\<close>

theorem bench_result_gated:
  assumes "bench_run R B pol opts task s = (Inr r, s')" "0 \<le> tl_max_iters (bt_limits task)"
  shows "be_task r = bt_id task \<and> bench_gate pol task (be_patch r) = Inr (be_risk r)
    \<and> (be_patch r = [] \<or> gate_allows pol task (be_patch r)) \<and> (be_status r = GATE_REJECT \<longrightarrow> be_patch r = [])
    \<and> (be_status r = PASS \<longrightarrow> rr_decision (be_risk r) = risk_decision.ALLOW \<and> tests_green (be_tests r) \<and> 1 \<le> be_iters r)
    \<and> 0 \<le> be_iters r \<and> be_iters r \<le> tl_max_iters (bt_limits task)"
proof -
  let ?most = "tl_max_iters (bt_limits task)"
  have first: "locals_ok pol task first_locals" by (simp add: locals_ok_def first_locals_def)
  have aborted: "yields (bench_result_of B pol task replay ABORT 0 [] tests) (result_ok pol task ?most)" for replay tests
    using reported_result [OF first, of ABORT 0 ?most B replay tests] assms(2) by (simp add: first_locals_def)
  have loop: "yields (bench_loop R B pol opts task C t0 [1..?most] first_locals) (result_ok pol task ?most)" for C t0
    by (rule bench_loop_ok [OF _ first]) (use assms(2) in \<open>auto simp: list_all_iff\<close>)
  have "yields (bench_run R B pol opts task) (result_ok pol task ?most)"
    unfolding bench_run_def bench_body_def
    by (intro yields_skip) (auto intro!: aborted yields_skip loop simp: Let_def split: option.split)
  from tripleD [OF this _ assms(1)] show ?thesis by (simp add: result_ok_def)
qed

section \<open>The replay ledger\<close>

text \<open>After the records \<open>old\<close> the ledger holds one record per logged event, in order.\<close>

definition event_of :: "ledger_record \<Rightarrow> pyval option" where
  "event_of r = dget (lr_metadata r) ''event''"

definition log_kept :: "runtime \<Rightarrow> ledger_record list \<Rightarrow> 'w bench_state \<Rightarrow> bool" where
  "log_kept R old s \<longleftrightarrow> (\<exists>L new. bs_ledger s = Some L \<and> ledger_ok R L \<and> file_records (file_lines L) = old @ new
     \<and> map event_of new = map (\<lambda>e. Some (PDict e)) (bs_events s))"

lemma log_kept_other [simp]:
  "log_kept R old (s\<lparr>bs_world := w\<rparr>) = log_kept R old s" "log_kept R old (s\<lparr>bs_blobs := b\<rparr>) = log_kept R old s"
  "log_kept R old (s\<lparr>bs_diagnosis := d\<rparr>) = log_kept R old s" "log_kept R old (s\<lparr>bs_feedback := f\<rparr>) = log_kept R old s"
  by (simp_all add: log_kept_def)

lemma sealed_event: "event_of (seal_record R sign now prev (replay_record R ev)) = Some (PDict ev)"
  by (simp add: event_of_def seal_record_def replay_record_def Let_def dget_def dput_def split: option.split)

lemma log_event_kept:
  assumes "digests R"
  shows "triple (log_kept R old) (log_event R B kvs) (\<lambda>_. log_kept R old)"
  unfolding log_event_def
proof (rule triple_supdate)
  fix s :: "'a bench_state" assume "log_kept R old s"
  then obtain L new where L: "bs_ledger s = Some L" "ledger_ok R L" "file_records (file_lines L) = old @ new"
    "map event_of new = map (\<lambda>e. Some (PDict e)) (bs_events s)" unfolding log_kept_def by blast
  let ?app = "append_record R (bn_sign B) (bn_clock B (pw_dir (bs_world s))) (replay_record R (bench_event kvs)) L"
  have "file_records (file_lines (snd ?app))
      = old @ (new @ [seal_record R (bn_sign B) (bn_clock B (pw_dir (bs_world s))) (hl_prev L) (replay_record R (bench_event kvs))])"
    by (simp add: append_record_simps L(3))
  moreover have "ledger_ok R (snd ?app)" by (rule ledger_ok_append [OF assms L(2)])
  ultimately show "log_kept R old (s\<lparr>bs_events := bs_events s @ [bench_event kvs],
      bs_ledger := map_option (\<lambda>L. snd (append_record R (bn_sign B) (bn_clock B (pw_dir (bs_world s)))
        (replay_record R (bench_event kvs)) L)) (bs_ledger s)\<rparr>)"
    unfolding log_kept_def using L(1,4)
    by (intro exI [of _ "snd ?app"] exI, intro conjI) (auto simp: sealed_event)
qed


abbreviation keeps_log :: "runtime \<Rightarrow> ledger_record list \<Rightarrow> ('w, 'a) bench \<Rightarrow> bool" where
  "keeps_log R old m \<equiv> triple (log_kept R old) m (\<lambda>_. log_kept R old)"

named_theorems logging "computations after which the ledger agrees with the events"

lemma keeps_bind [logging]: "keeps_log R old m \<Longrightarrow> (\<And>x. keeps_log R old (f x)) \<Longrightarrow> keeps_log R old (sbind m f)"
  by (rule triple_sbind)

lemma keeps_basic [logging]:
  "keeps_log R old (sret x)" "keeps_log R old (sraise e)" "keeps_log R old (sread g)" "keeps_log R old (bench_lift B r)"
  by (auto simp: triple_def sret_def sraise_def sread_def bench_lift_def split: sum.splits)

lemma keeps_if [logging]: "keeps_log R old m \<Longrightarrow> keeps_log R old n \<Longrightarrow> keeps_log R old (if b then m else n)"
  by simp

lemma keeps_world [logging]: "keeps_log R old (of_world f)" "keeps_log R old (patch_world_step g)"
  by (auto simp: triple_def of_world_def patch_world_step_def split: prod.splits)

lemma keeps_attempt [logging]: "(\<And>s. log_kept R old s \<Longrightarrow> log_kept R old (snd (m s))) \<Longrightarrow> keeps_log R old (attempt m)"
  by (auto simp: triple_def attempt_def split: prod.splits) (metis snd_conv)

lemma keeps_effects [logging]:
  "keeps_log R old (set_world h)" "keeps_log R old (clock B)" "keeps_log R old (save_blob R' name data)"
  "keeps_log R old (add_feedback kvs L)" "keeps_log R old (supdate (\<lambda>s. s\<lparr>bs_diagnosis := d\<rparr>))"
  "keeps_log R old (apply_diff B diff dir strict)"
  unfolding set_world_def clock_def save_blob_def add_feedback_def apply_diff_def Let_def
  by (auto intro!: logging triple_supdate)

lemma keeps_commands [logging]: "keeps_log R old (run_cmd B cmd cwd timeout)"
  unfolding run_cmd_def Let_def case_prod_unfold by (intro logging)

lemma keeps_git [logging]:
  "keeps_log R old (git_diff B dir ps)" "keeps_log R old (git_reset_hard B dir)" "keeps_log R old (fresh_tree B task)"
  "keeps_log R old (run_tests B cmd dir timeout)"
  unfolding git_diff_def git_reset_hard_def fresh_tree_def run_tests_def case_prod_unfold by (intro logging)+

lemma keeps_executor [logging]: "keeps_log R old (run_tests_via_executor B executor repo i template target timeout gateway)"
  by (auto simp: triple_def run_tests_via_executor_def Let_def split: prod.splits sum.splits if_splits)

lemma keeps_propose [logging]: "keeps_log R old (attempt (ask_proposer B task replay))"
  by (rule keeps_attempt) (auto simp: ask_proposer_def of_world_def split: prod.splits)

lemma keeps_apply [logging]: "keeps_log R old (attempt (apply_diff B diff dir strict))"
  by (rule keeps_attempt) (auto simp: apply_diff_def patch_world_step_def split: prod.splits)

lemma keeps_tests:
  assumes d: "digests R"
  shows "keeps_log R old (bench_tests B opts task C cmd timeout i)" "keeps_log R old (logged_tests R B opts task C name cmd most i)"
proof -
  show t: "keeps_log R old (bench_tests B opts task C cmd timeout i)" for timeout
    unfolding bench_tests_def case_prod_unfold by (intro logging)
  show "keeps_log R old (logged_tests R B opts task C name cmd most i)"
    unfolding logged_tests_def by (intro logging log_event_kept [OF d] t)
qed

lemma keeps_setup: "digests R \<Longrightarrow> keeps_log R old (setup_loop R B task cmds)"
  by (induction cmds) (auto intro!: logging log_event_kept)

lemma keeps_diagnosis: "digests R \<Longrightarrow> keeps_log R old (pre_diagnosis R B task quick)"
  unfolding pre_diagnosis_def Let_def by (intro logging log_event_kept)

lemma keeps_stages:
  assumes d: "digests R"
  shows "keeps_log R old (test_stage R B pol opts task C i L)" "keeps_log R old (gate_stage R B pol opts task C i L)"
    "keeps_log R old (failed_attempt R B kind i e L)" "keeps_log R old (bench_result_of B pol task replay st i patch tests)"
proof -
  show t: "keeps_log R old (test_stage R B pol opts task C i L)" for L
    unfolding test_stage_def Let_def by (intro logging log_event_kept keeps_tests d)
  show "keeps_log R old (gate_stage R B pol opts task C i L)"
    unfolding gate_stage_def by (intro logging log_event_kept d t)
  show "keeps_log R old (failed_attempt R B kind i e L)" "keeps_log R old (bench_result_of B pol task replay st i patch tests)"
    unfolding failed_attempt_def bench_result_of_def by (intro logging log_event_kept d)+
qed

lemma keeps_iteration: "digests R \<Longrightarrow> keeps_log R old (bench_iteration R B pol opts task C t0 i L)"
  unfolding bench_iteration_def
  by (intro logging log_event_kept keeps_stages) (auto split: sum.split intro!: logging keeps_stages)

lemma keeps_loop: "digests R \<Longrightarrow> keeps_log R old (bench_loop R B pol opts task C t0 is L)"
  by (induction "is" arbitrary: L) (auto intro!: logging keeps_stages keeps_iteration split: sum.split)

lemma keeps_body: "digests R \<Longrightarrow> keeps_log R old (bench_body R B pol opts task t0 replay)"
  unfolding bench_body_def
  by (intro logging log_event_kept keeps_setup)
    (auto simp: Let_def split: option.split intro!: logging keeps_diagnosis keeps_loop keeps_stages)

lemma init_binds_ledger:
  assumes "given path" "init_replay_dir B base tid path s = (Inr dir, s')"
    "\<And>w. ledger_ok R (open_ledger (bn_ledger_file B (the path) w))"
  shows "\<exists>w. log_kept R (file_records (file_lines (open_ledger (bn_ledger_file B (the path) w)))) s'"
proof -
  let ?open = "\<lambda>s. open_ledger (bn_ledger_file B (the path) (pw_dir (bs_world s)))"
  have "bs_events s' = [] \<and> bs_ledger s' = Some (?open s')"
    using assms(1,2) by (auto simp: init_replay_dir_def bind_ledger_def set_world_def of_world_def sbind_def sread_def supdate_def sret_def)
  then show ?thesis using assms(3) unfolding log_kept_def by (intro exI [of _ "pw_dir (bs_world s')"]) simp
qed

text \<open>C33: the replay ledger of a benchmark run. When a ledger is given and the file holds a verifying
  chain, then after every run that returns the ledger verifies, and behind the records it held before there
  is exactly one record for every event of the event log, with this event, in the same order.\<close>

theorem bench_ledger_mirrors_events:
  assumes "digests R" "given (bo_ledger opts)" "\<And>w. ledger_ok R (open_ledger (bn_ledger_file B (the (bo_ledger opts)) w))"
    "bench_run R B pol opts task s = (Inr r, s')"
  shows "\<exists>w L new. bs_ledger s' = Some L \<and> fst (verify_chain R L)
    \<and> file_records (file_lines L) = file_records (file_lines (open_ledger (bn_ledger_file B (the (bo_ledger opts)) w))) @ new
    \<and> map event_of new = map (\<lambda>e. Some (PDict e)) (bs_events s')"
proof -
  let ?old = "\<lambda>w. file_records (file_lines (open_ledger (bn_ledger_file B (the (bo_ledger opts)) w)))"
  from assms(4) obtain t0 replay base s1 s2 where
    init: "init_replay_dir B base (bt_id task) (bo_ledger opts) s1 = (Inr replay, s2)" and
    rest: "bench_body R B pol opts task t0 replay s2 = (Inr r, s')"
    unfolding bench_run_def sbind_returns [of "clock B"] sbind_returns [of "git_clone B a b" for a b]
      sbind_returns [of "git_checkout R B a b" for a b] sbind_returns [of "fresh_tree B a" for a]
      sbind_returns [of "init_replay_dir B a b c" for a b c]
    by blast
  from init_binds_ledger [OF assms(2) init assms(3)] obtain w where "log_kept R (?old w) s2" by blast
  from tripleD [OF keeps_body [OF assms(1)] this rest] have "log_kept R (?old w) s'" .
  then show ?thesis unfolding log_kept_def ledger_ok_def by metis
qed

section \<open>A run\<close>

text \<open>A world whose working tree is a text: a reset cleans it, the strict patch puts the tests of the task in
  place, the proposal overwrites them, and the tests pass on the overwritten ones only.\<close>

definition bench_tree :: "string bench_env" where
  "bench_tree =
     \<lparr>bn_spawn = (\<lambda>argv env cwd timeout w.
        case argv of
          ShellLine t \<Rightarrow> (Inr (Exited 0 [] [], 0), w)
        | Argv ws \<Rightarrow>
            if take 2 ws = [''git'', ''reset''] then (Inr (Exited 0 [] [], 0), ''clean'')
            else if take 2 ws = [''pytest'', ''-q''] then (Inr (Exited (if w = ''tampered'' then 0 else 1) ''F'' [], 0), w)
            else (Inr (Exited 0 [] [], 0), w)),
      bn_post = (\<lambda>url body timeout w. (Inl ''unused'', w)),
      bn_propose = (\<lambda>task dir diag fb w. (Inr ''tampers'', w)),
      bn_tool = \<lparr>tool_run = (\<lambda>args dir w. (Inr (0, [], []), if ''--fuzz=2'' \<in> set args then ''tampered'' else ''tests'')),
                 tool_temp = (\<lambda>w. ''/tmp/p'')\<rparr>,
      bn_clock = (\<lambda>w. 0), bn_has_git = (\<lambda>d w. False), bn_empty = (\<lambda>d w. True), bn_make_dir = (\<lambda>d w. w),
      bn_remove_dir = (\<lambda>d w. w), bn_ledger_file = (\<lambda>p w. None), bn_sign = None, bn_raised = (\<lambda>e. [])\<rparr>"

definition demo_test_file :: string where
  "demo_test_file = ''tests/t.py''"

definition bench_demo :: bench_task where
  "bench_demo = \<lparr>bt_id = ''t1'', bt_url = ''/u'', bt_dir = ''/w'', bt_issue = [], bt_ref = None, bt_failing = [],
     bt_focus = [], bt_test_patch = ''+++ b/tests/t.py'', bt_setup = [], bt_quick = ''pytest -q'', bt_full = ''pytest -q'',
     bt_limits = \<lparr>tl_max_iters = 2, tl_max_bytes = 1000, tl_max_files = 5, tl_max_new = 1, tl_max_runtime = 3600\<rparr>\<rparr>"

text \<open>\<open>sends m w x w'\<close>: from the working tree \<open>w\<close> the computation returns \<open>x\<close> and leaves \<open>w'\<close>, whatever was
  logged.\<close>

definition tree_of :: "'w bench_state \<Rightarrow> 'w" where
  "tree_of s = pw_dir (bs_world s)"

definition sends :: "('w, 'a) bench \<Rightarrow> 'w \<Rightarrow> 'a \<Rightarrow> 'w \<Rightarrow> bool" where
  "sends m w x w' \<longleftrightarrow> (\<forall>s. tree_of s = w \<longrightarrow> (\<exists>s'. m s = (Inr x, s') \<and> tree_of s' = w'))"

lemma sends_bind: "sends m w x w1 \<Longrightarrow> sends (f x) w1 y w2 \<Longrightarrow> sends (sbind m f) w y w2"
  unfolding sends_def by (metis sbind_Inr)

lemma sends_sret: "sends (sret x) w x w"
  by (simp add: sends_def sret_def)

lemma sends_world: "f w = (Inr x, w') \<Longrightarrow> sends (of_world f) w x w'"
  by (auto simp: sends_def of_world_def tree_of_def)

lemma sends_run_cmd:
  assumes "take_env ws = (env, argv)" "bn_spawn B (Argv argv) env dir timeout w = (Inr (Exited rc out msgs, dt), w')"
  shows "sends (run_cmd B (CmdList ws) dir timeout) w (rc, out, msgs, dt) w'"
  using assms by (auto simp: run_cmd_def intro!: sends_bind [OF sends_world] sends_sret)

lemma sends_text_cmd:
  assumes "\<not> needs_shell t" "take_env (plain_words [] t) = (env, argv)" "bn_spawn B (Argv argv) env dir timeout w = (Inr (Exited rc out msgs, dt), w')"
  shows "sends (run_cmd B (CmdText t) dir timeout) w (rc, out, msgs, dt) w'"
  using assms by (auto simp: run_cmd_def intro!: sends_bind [OF sends_world] sends_sret)

lemma sends_tests:
  assumes "sends (run_cmd B (CmdText cmd) dir timeout) w (rc, out, msgs, dt) w'"
  shows "sends (run_tests B cmd dir timeout) w \<lparr>tr_exit = rc, tr_out = tail_text out 4000, tr_err = tail_text msgs 4000, tr_dur = round_ms dt\<rparr> w'"
  unfolding run_tests_def by (rule sends_bind [OF assms]) (simp add: sends_sret)

lemma sends_same:
  "sends (log_event R B kvs) w () w" "sends (save_blob R name data) w () w" "sends (clock B) w (bn_clock B w) w"
  "sends (bind_ledger B path) w () w"
  by (auto simp: sends_def log_event_def save_blob_def clock_def bind_ledger_def supdate_def sread_def tree_of_def)

lemma sends_tree:
  "sends (set_world h) w () (h w)" "sends (sread (\<lambda>s. g (pw_dir (bs_world s)))) w (g w) w"
  "e w \<Longrightarrow> sends (supdate (\<lambda>s. if e (pw_dir (bs_world s)) then s else d s)) w () w"
  by (auto simp: sends_def set_world_def of_world_def sread_def supdate_def tree_of_def)

lemma sends_update: "(\<And>s. tree_of (d s) = tree_of s) \<Longrightarrow> sends (supdate d) w () w"
  by (simp add: sends_def supdate_def)

lemma sends_feedback: "sends (add_feedback kvs L) w (L\<lparr>bl_feedback := bl_feedback L @ [bench_event kvs]\<rparr>) w"
  by (simp add: add_feedback_def Let_def sends_def supdate_def sbind_def sret_def tree_of_def)

lemma sends_lift: "r = Inr x \<Longrightarrow> sends (bench_lift B r) w x w"
  by (simp add: bench_lift_def sends_sret)

lemma sends_attempt: "sends m w x w' \<Longrightarrow> sends (attempt m) w (Inr x) w'"
  unfolding sends_def attempt_def by (metis (lifting) case_prod_conv)

lemma sends_apply: "strip diff \<noteq> [] \<Longrightarrow> try_patch (bn_tool B) (tool_temp (bn_tool B) w) dir strict w = (Inr (), w') \<Longrightarrow>
    sends (apply_diff B diff dir strict) w () w'"
  by (auto simp: sends_def apply_diff_def patch_world_step_def apply_unified_diff_def tree_of_def Let_def)


definition logged_opts :: bench_opts where
  "logged_opts = \<lparr>bo_replay_base = None, bo_ledger = Some ''/l'', bo_executor = None, bo_gateway = None\<rparr>"

lemma bench_tree_simps:
  "bn_spawn bench_tree (Argv ws) env cwd timeout w =
     (if take 2 ws = [''git'', ''reset''] then (Inr (Exited 0 [] [], 0), ''clean'')
      else if take 2 ws = [''pytest'', ''-q''] then (Inr (Exited (if w = ''tampered'' then 0 else 1) ''F'' [], 0), w)
      else (Inr (Exited 0 [] [], 0), w))"
  "bn_propose bench_tree task dir diag fb w = (Inr ''tampers'', w)" "bn_clock bench_tree w = 0"
  "bn_has_git bench_tree dir w = False" "bn_empty bench_tree dir w = True" "bn_make_dir bench_tree dir w = w"
  by (simp_all add: bench_tree_def)

lemma try_patch_tree:
  "try_patch (bn_tool bench_tree) (tool_temp (bn_tool bench_tree) w) dir True w = (Inr (), ''tests'')"
  "try_patch (bn_tool bench_tree) (tool_temp (bn_tool bench_tree) w) dir False w = (Inr (), ''tampered'')"
  by (simp_all add: try_patch_def patch_args_def bench_tree_def)

lemma demo_commands:
  "take_env [''git'', ''reset'', ''--hard''] = ([], [''git'', ''reset'', ''--hard''])"
  "take_env [''git'', ''clean'', ''-fd'', ''--exclude=replays'', ''--exclude=.venv''] = ([], [''git'', ''clean'', ''-fd'', ''--exclude=replays'', ''--exclude=.venv''])"
  "take_env [''git'', ''clone'', ''/u'', ''.''] = ([], [''git'', ''clone'', ''/u'', ''.''])"
  "take_env [''git'', ''diff'', ''--'', ''.'', '':!'' @ demo_test_file] = ([], [''git'', ''diff'', ''--'', ''.'', '':!'' @ demo_test_file])"
  "\<not> needs_shell ''pytest -q''" "take_env (plain_words [] ''pytest -q'') = ([], [''pytest'', ''-q''])"
  "extract_diff_paths ''+++ b/tests/t.py'' = [demo_test_file]" "strip ''+++ b/tests/t.py'' \<noteq> []" "strip ''tampers'' \<noteq> []"
  "choose_quick_tests [] ''pytest -q'' = ''pytest -q''" "tail_text ''F'' 4000 = ''F''" "tail_text [] 4000 = []"
  by code_simp+

lemma demo_gate: "bench_gate default_policy bench_demo [] = Inr \<lparr>rr_decision = risk_decision.ALLOW, rr_reasons = []\<rparr>"
  by code_simp

lemma bench_demo_fields:
  "bt_dir bench_demo = ''/w''" "bt_url bench_demo = ''/u''" "bt_id bench_demo = ''t1''" "bt_ref bench_demo = None"
  "bt_test_patch bench_demo = ''+++ b/tests/t.py''" "bt_setup bench_demo = []" "bt_failing bench_demo = []"
  "bt_quick bench_demo = ''pytest -q''" "bt_full bench_demo = ''pytest -q''" "tl_max_iters (bt_limits bench_demo) = 2"
  "tl_max_runtime (bt_limits bench_demo) = 3600"
  by (simp_all add: bench_demo_def)

lemma demo_reset: "sends (git_reset_hard bench_tree dir) w () ''clean''"
  unfolding git_reset_hard_def
  by (rule sends_bind, rule sends_run_cmd, rule demo_commands, simp add: bench_tree_simps,
      rule sends_bind, rule sends_run_cmd, rule demo_commands, simp add: bench_tree_simps) (simp add: sends_sret)

lemma bench_demo_fresh: "sends (fresh_tree bench_tree bench_demo) w () ''tests''"
  unfolding fresh_tree_def
  by (rule sends_bind [OF demo_reset]) (simp add: bench_demo_fields sends_apply [OF _ try_patch_tree(1)] demo_commands)

definition green_run :: test_run where
  "green_run = \<lparr>tr_exit = 0, tr_out = ''F'', tr_err = [], tr_dur = round_ms 0\<rparr>"

lemma demo_tests: "sends (bench_tests bench_tree logged_opts bench_demo C ''pytest -q'' timeout i) ''tampered'' green_run ''tampered''"
proof -
  have "sends (run_cmd bench_tree (CmdText ''pytest -q'') (bt_dir bench_demo) timeout) ''tampered'' (0, ''F'', [], 0) ''tampered''"
    by (rule sends_text_cmd, rule demo_commands, rule demo_commands) (simp add: bench_tree_simps)
  from sends_tests [OF this] show ?thesis
    by (simp add: bench_tests_def given_def logged_opts_def green_run_def demo_commands)
qed

lemma demo_logged: "sends (logged_tests R bench_tree logged_opts bench_demo C name ''pytest -q'' most i) ''tampered'' green_run ''tampered''"
  unfolding logged_tests_def
  by (rule sends_bind [OF demo_tests], rule sends_bind [OF sends_same(1)], rule sends_bind [OF sends_same(2)],
      rule sends_bind [OF sends_same(2)], rule sends_sret)

text \<open>The proposal changes only the tests that the task brings along: the diff that the gate reads leaves
  them out, the tests run on them.\<close>

definition tampered_result :: "string \<Rightarrow> bench_result" where
  "tampered_result replay = \<lparr>be_task = ''t1'', be_status = PASS, be_iters = 1, be_patch = [], be_tests = [(''quick'', green_run), (''full'', green_run)],
     be_risk = \<lparr>rr_decision = risk_decision.ALLOW, rr_reasons = []\<rparr>, be_replay = replay\<rparr>"

lemma demo_diff: "sends (git_diff bench_tree dir [demo_test_file]) w [] w"
proof -
  have args: "[''git'', ''diff''] @ (if [demo_test_file] = [] then [] else [''--'', ''.''] @ map ((@) '':!'') [demo_test_file])
      = [''git'', ''diff'', ''--'', ''.'', '':!'' @ demo_test_file]" by simp
  show ?thesis
    unfolding git_diff_def args
    by (rule sends_bind, rule sends_run_cmd, rule demo_commands(4), simp add: bench_tree_simps) (simp add: sends_sret)
qed

lemma green_exit: "tr_exit green_run = 0"
  by (simp add: green_run_def)

lemma demo_test_stage:
  assumes "bc_quick C = ''pytest -q''" "bc_replay C = replay" "bl_patch L = []"
  shows "sends (test_stage R bench_tree default_policy logged_opts bench_demo C 1 L) ''tampered'' (Inl (tampered_result replay)) ''tampered''"
proof -
  have gate: "bench_gate default_policy bench_demo (bl_patch (L\<lparr>bl_quick := Some green_run, bl_full := Some green_run\<rparr>))
      = Inr \<lparr>rr_decision = risk_decision.ALLOW, rr_reasons = []\<rparr>" by (simp add: assms demo_gate)
  show ?thesis
    unfolding test_stage_def assms bench_demo_fields Let_def
    by (rule sends_bind, rule demo_logged, simp only: green_exit refl not_False_eq_True simp_thms if_False if_True,
        rule sends_bind, rule demo_logged, simp only: green_exit refl not_False_eq_True simp_thms if_False if_True,
        rule sends_bind, rule sends_lift, rule gate)
      (simp add: assms sends_sret tampered_result_def)
qed

lemma demo_gate_stage:
  assumes "bc_quick C = ''pytest -q''" "bc_replay C = replay" "bc_excluded C = [demo_test_file]"
  shows "sends (gate_stage R bench_tree default_policy logged_opts bench_demo C 1 L) ''tampered'' (Inl (tampered_result replay)) ''tampered''"
  unfolding gate_stage_def assms
  by (rule sends_bind, rule demo_diff, rule sends_bind, rule sends_same, rule sends_bind, rule sends_lift, rule demo_gate,
      rule sends_bind, rule sends_same) (simp add: demo_test_stage [OF assms(1,2)])

lemma demo_iteration:
  assumes "bc_quick C = ''pytest -q''" "bc_replay C = replay" "bc_excluded C = [demo_test_file]"
  shows "sends (bench_iteration R bench_tree default_policy logged_opts bench_demo C 0 1 L) w (Inl (tampered_result replay)) ''tampered''"
proof -
  have proposal: "sends (ask_proposer bench_tree bench_demo dir) w ''tampers'' w" for dir w
    by (auto simp: sends_def ask_proposer_def of_world_def tree_of_def bench_tree_simps)
  have "sends (apply_diff bench_tree ''tampers'' dir False) w () ''tampered''" for dir w
    by (rule sends_apply [OF _ try_patch_tree(2)]) (simp add: demo_commands)
  note steps = proposal [THEN sends_attempt] this [THEN sends_attempt]
  show ?thesis
    unfolding bench_iteration_def
    by (rule sends_bind, rule sends_same, simp add: bench_tree_simps bench_demo_fields,
        rule sends_bind, rule bench_demo_fresh, rule sends_bind, rule sends_same,
        rule sends_bind, rule steps, simp, rule sends_bind, rule sends_same, rule sends_bind, rule steps)
      (simp add: demo_gate_stage [OF assms])
qed

lemma demo_replay_dir: "replay_dir_of bench_tree ''/w'' ''t1'' w = ''/w/replays/t1_0''"
proof -
  have "path_join (path_join ''/w'' ''replays'') (''t1'' @ ''_'' @ int_str (rat_trunc (0 * 1000))) = ''/w/replays/t1_0''" by code_simp
  then show ?thesis unfolding replay_dir_of_def bench_tree_simps .
qed

lemma bench_demo_run:
  "sends (bench_run R bench_tree default_policy logged_opts bench_demo) [] (tampered_result ''/w/replays/t1_0'') ''tampered''"
proof -
  have clone: "sends (git_clone bench_tree ''/u'' ''/w'') [] () []"
    unfolding git_clone_def bench_tree_simps
    by (rule sends_bind, rule sends_tree, rule sends_bind, rule sends_tree, simp only: if_False, rule sends_bind,
        rule sends_tree, simp, rule sends_bind, rule sends_run_cmd, rule demo_commands(3), simp add: bench_tree_simps)
      (simp add: sends_sret)
  have replay: "sends (init_replay_dir bench_tree ''/w'' ''t1'' path) w ''/w/replays/t1_0'' w" for path w
    unfolding init_replay_dir_def
    by (rule sends_bind, rule sends_tree, rule sends_bind, rule sends_tree, rule sends_bind,
        rule sends_update, simp add: tree_of_def, rule sends_bind, rule sends_same)
      (simp add: demo_replay_dir bench_tree_simps sends_sret)
  have body: "sends (bench_body R bench_tree default_policy logged_opts bench_demo 0 dir) w (tampered_result dir) ''tampered''" for dir w
  proof -
    have upto: "[1..2] = [1, 2 :: int]" by (simp add: upto.simps)
    show ?thesis
      unfolding bench_body_def bench_demo_fields setup_loop.simps upto bench_loop.simps
      by (rule sends_bind, rule sends_same, rule sends_bind, rule sends_sret, simp only: option.case Let_def,
          rule sends_bind, simp add: pre_diagnosis_def bench_demo_fields, rule sends_sret,
          rule sends_bind, rule demo_iteration) (simp_all add: demo_commands, rule sends_sret)
  qed
  have opts: "(if given (bo_replay_base logged_opts) then the (bo_replay_base logged_opts) else dir) = dir" for dir
    by (simp_all add: logged_opts_def given_def)
  show ?thesis
    unfolding bench_run_def bench_demo_fields opts
    by (rule sends_bind, rule sends_same, rule sends_bind, rule clone, rule sends_bind,
        simp only: git_checkout_def option.case, rule sends_sret, rule sends_bind, rule bench_demo_fresh, rule sends_bind, rule replay)
     (simp only: bench_tree_simps body)
qed

definition bench_start :: "string bench_state" where
  "bench_start = \<lparr>bs_world = \<lparr>pw_temp = [], pw_dir = []\<rparr>, bs_events = [], bs_ledger = None, bs_blobs = [], bs_diagnosis = None,
     bs_feedback = []\<rparr>"

lemma demo_start: "tree_of bench_start = []"
  by (simp add: tree_of_def bench_start_def)


theorem bench_result_gated_witness:
  "\<exists>r s'. bench_run digest_runtime bench_tree default_policy logged_opts bench_demo bench_start = (Inr r, s')
     \<and> be_status r = PASS \<and> rr_decision (be_risk r) = risk_decision.ALLOW \<and> tests_green (be_tests r)
     \<and> bench_gate default_policy bench_demo (be_patch r) = Inr (be_risk r)"
proof -
  obtain s' where run: "bench_run digest_runtime bench_tree default_policy logged_opts bench_demo bench_start
      = (Inr (tampered_result ''/w/replays/t1_0''), s')"
    using bench_demo_run [of digest_runtime] unfolding sends_def by (metis demo_start)
  have "be_status (tampered_result ''/w/replays/t1_0'') = PASS" by (simp add: tampered_result_def)
  with bench_result_gated [OF run] show ?thesis using run by (auto simp: bench_demo_fields)
qed

theorem bench_ledger_mirrors_events_witness:
  "\<exists>r s' L. bench_run digest_runtime bench_tree default_policy logged_opts bench_demo bench_start = (Inr r, s')
     \<and> bs_ledger s' = Some L \<and> fst (verify_chain digest_runtime L)
     \<and> map event_of (file_records (file_lines L)) = map (\<lambda>e. Some (PDict e)) (bs_events s')"
proof -
  obtain s' where run: "bench_run digest_runtime bench_tree default_policy logged_opts bench_demo bench_start
      = (Inr (tampered_result ''/w/replays/t1_0''), s')"
    using bench_demo_run [of digest_runtime] unfolding sends_def by (metis demo_start)
  have none: "open_ledger (bn_ledger_file bench_tree p w) = open_ledger None" for p w by (simp add: bench_tree_def)
  have "file_records (file_lines (open_ledger None)) = []" by (simp add: open_ledger_def file_lines_def file_records_def)
  with bench_ledger_mirrors_events [OF _ _ _ run, unfolded none] show ?thesis
    using run by (auto simp: logged_opts_def given_def)
qed

section \<open>Where the loop falls short\<close>

text \<open>A proposal that edits the tests the task brings along passes: the gate reads a diff without them.\<close>

lemma edited_tests_pass:
  "\<exists>s'. bench_run digest_runtime bench_tree default_policy logged_opts bench_demo bench_start
     = (Inr (tampered_result ''/w/replays/t1_0''), s')"
  using bench_demo_run [of digest_runtime] unfolding sends_def by (metis demo_start)

text \<open>When the full tests fail, the proposer gets no feedback; when the quick tests fail, the full tests that
  are reported are those of an earlier patch.\<close>

lemma failed_tests_locals:
  "yields (test_stage R B pol opts task C i L) (\<lambda>out. case out of Inl _ \<Rightarrow> True
     | Inr L' \<Rightarrow> \<exists>q. bl_quick L' = Some q \<and> (if tr_exit q = 0 then bl_feedback L' = bl_feedback L else bl_full L' = bl_full L))"
proof -
  have fb: "yields (add_feedback kvs L) (\<lambda>L'. \<exists>fb. L' = L\<lparr>bl_feedback := fb\<rparr>)" for kvs and L :: bench_locals
    unfolding add_feedback_def Let_def by (intro yields_skip yields_sret) auto
  show ?thesis
    unfolding test_stage_def Let_def by (intro yields_effects yields_if yields_gate yields_bind [OF fb] yields_sret) auto
qed

text \<open>The ledger is a global variable: a run without a ledger appends to that of the run before it.\<close>

lemma ledger_stays_bound: "\<not> given path \<Longrightarrow> bind_ledger B path s = (Inr (), s)"
  by (simp add: bind_ledger_def supdate_def)

text \<open>The records of the benchmark log count as decisions of the kernel in a replay.\<close>

lemma replay_events_are_decisions: "\<not> is_event (replay_record R ev)"
  by (simp add: is_event_def replay_record_def Let_def)

text \<open>Two failing tests become one target with a blank in it, which no executor accepts: the pattern of
  \<open>policies/command_templates.yaml\<close> has letters, digits and \<open>_./:[]-\<close>. A filter on names is dropped.\<close>

lemma several_targets_are_refused:
  "parse_test_cmd ''pytest t::a t::b'' = (''pytest_targeted'', ''t::a t::b'')"
  "\<not> list_all (\<lambda>c. alnum_ascii c \<or> c \<in> set ''_./:[]-'') ''t::a t::b''"
  "parse_test_cmd ''pytest -k a'' = (''pytest_suite'', [])"
  by code_simp+

end
