(* ===== verification/Learner_Store.thy ===== *)
theory Learner_Store
  imports Effects Py_Value
begin

text \<open>
  The tables of the learner, \<open>learner_service/store_duckdb.py\<close>: every statement of the store as a function
  on lists of rows. The database orders rows by a key through \<open>db_order\<close>, the positions of the rows in
  descending order of their keys; the order of rows with equal keys is left to it. A number that does not
  fit an \<open>INTEGER\<close> column makes the statement raise.
\<close>

section \<open>Tables\<close>

record stat_row =
  st_strategy :: string
  st_context :: string
  st_alpha :: rat
  st_beta :: rat
  st_trials :: int
  st_wins :: int
  st_losses :: int
  st_updated :: rat

record episode_row =
  ep_run :: string
  ep_context :: string
  ep_strategy :: string
  ep_success :: bool
  ep_failure :: string
  ep_ts :: rat

record outcome_row =
  oc_run :: string
  oc_repo :: string
  oc_task :: string
  oc_patch :: string
  oc_files :: string
  oc_added :: int
  oc_deleted :: int
  oc_exit :: int
  oc_passed :: int
  oc_failed :: int
  oc_total :: int
  oc_class :: string
  oc_signature :: string
  oc_strategy :: string
  oc_success :: bool
  oc_reward :: rat
  oc_ts :: rat

record failure_row =
  fl_hash :: string
  fl_class :: string
  fl_module :: string
  fl_test :: string
  fl_message :: string
  fl_repo :: string
  fl_count :: int
  fl_seen :: rat
  fl_best :: "string option"
  fl_rate :: "rat option"

record trajectory_row =
  tj_run :: string
  tj_repo :: string
  tj_task :: string
  tj_strategy :: string
  tj_success :: bool
  tj_steps :: string
  tj_ts :: rat

record learner_store =
  ls_stats :: "stat_row list"
  ls_episodes :: "episode_row list"
  ls_outcomes :: "outcome_row list"
  ls_failures :: "failure_row list"
  ls_trajectories :: "trajectory_row list"

definition empty_store :: learner_store where
  "empty_store = \<lparr>ls_stats = [], ls_episodes = [], ls_outcomes = [], ls_failures = [], ls_trajectories = []\<rparr>"

datatype learner_error = Conversion | BetaDomain | Raised pyerr

type_synonym 'a learner = "(learner_store, learner_error, 'a) eff"

record database =
  db_order :: "rat list \<Rightarrow> nat list"

definition order_ok :: "database \<Rightarrow> bool" where
  "order_ok D \<longleftrightarrow> (\<forall>ks. distinct (db_order D ks) \<and> set (db_order D ks) = {0..<length ks}
     \<and> sorted_wrt (\<lambda>i j. ks ! i \<ge> ks ! j) (db_order D ks))"

definition descending :: "database \<Rightarrow> ('r \<Rightarrow> rat) \<Rightarrow> 'r list \<Rightarrow> 'r list" where
  "descending D key rows = map ((!) rows) (db_order D (map key rows))"

section \<open>Strategy statistics\<close>

definition stat_key :: "string \<Rightarrow> string \<Rightarrow> stat_row \<Rightarrow> bool" where
  "stat_key sid ck r \<longleftrightarrow> st_strategy r = sid \<and> st_context r = ck"

definition upsert_prior :: "string \<Rightarrow> string \<Rightarrow> rat \<Rightarrow> rat \<Rightarrow> rat \<Rightarrow> learner_store \<Rightarrow> learner_store" where
  "upsert_prior sid ck a b now S =
     (if \<exists>r \<in> set (ls_stats S). stat_key sid ck r then S
      else S\<lparr>ls_stats := ls_stats S @ [\<lparr>st_strategy = sid, st_context = ck, st_alpha = a, st_beta = b,
             st_trials = 0, st_wins = 0, st_losses = 0, st_updated = now\<rparr>]\<rparr>)"

definition get_posteriors :: "string \<Rightarrow> learner_store \<Rightarrow> (string \<times> stat_row) list" where
  "get_posteriors ck S = fold (\<lambda>r. AList.update (st_strategy r) r) (filter (\<lambda>r. st_context r = ck) (ls_stats S)) []"

definition count_episode :: "bool \<Rightarrow> rat \<Rightarrow> stat_row \<Rightarrow> stat_row" where
  "count_episode success now r =
     r\<lparr>st_alpha := st_alpha r + (if success then 1 else 0), st_beta := st_beta r + (if success then 0 else 1),
       st_trials := st_trials r + 1, st_wins := st_wins r + (if success then 1 else 0),
       st_losses := st_losses r + (if success then 0 else 1), st_updated := now\<rparr>"

definition record_episode :: "string \<Rightarrow> string \<Rightarrow> string \<Rightarrow> bool \<Rightarrow> string \<Rightarrow> rat \<Rightarrow> learner_store \<Rightarrow> learner_store" where
  "record_episode run ck sid success sig now S =
     S\<lparr>ls_episodes := ls_episodes S @ [\<lparr>ep_run = run, ep_context = ck, ep_strategy = sid, ep_success = success,
         ep_failure = sig, ep_ts = now\<rparr>],
       ls_stats := map (\<lambda>r. if stat_key sid ck r then count_episode success now r else r) (ls_stats S)\<rparr>"

section \<open>Outcomes\<close>

definition int32 :: "int \<Rightarrow> bool" where
  "int32 i \<longleftrightarrow> - (2 ^ 31) \<le> i \<and> i < 2 ^ 31"

definition record_patch_outcome :: "outcome_row \<Rightarrow> unit learner" where
  "record_patch_outcome r =
     (if list_all int32 [oc_added r, oc_deleted r, oc_exit r, oc_passed r, oc_failed r, oc_total r]
      then supdate (\<lambda>S. S\<lparr>ls_outcomes := ls_outcomes S @ [r]\<rparr>) else sraise Conversion)"

definition limited :: "nat \<Rightarrow> 'r list \<Rightarrow> 'r list" where
  "limited n rows = take n rows"

definition lookup_patch_history :: "database \<Rightarrow> string \<Rightarrow> nat \<Rightarrow> learner_store \<Rightarrow> outcome_row list" where
  "lookup_patch_history D th n S = limited n (descending D oc_ts (filter (\<lambda>r. oc_task r = th) (ls_outcomes S)))"

definition latest_outcome :: "database \<Rightarrow> string \<Rightarrow> learner_store \<Rightarrow> outcome_row option" where
  "latest_outcome D th S =
     (case limited 1 (descending D oc_ts (filter (\<lambda>r. oc_task r = th) (ls_outcomes S))) of [] \<Rightarrow> None | r # _ \<Rightarrow> Some r)"

definition record_trajectory :: "trajectory_row \<Rightarrow> learner_store \<Rightarrow> learner_store" where
  "record_trajectory t S =
     (if \<exists>r \<in> set (ls_trajectories S). tj_run r = tj_run t
      then S\<lparr>ls_trajectories := map (\<lambda>r. if tj_run r = tj_run t
             then r\<lparr>tj_steps := tj_steps t, tj_success := tj_success t, tj_ts := tj_ts t\<rparr> else r) (ls_trajectories S)\<rparr>
      else S\<lparr>ls_trajectories := ls_trajectories S @ [t]\<rparr>)"

text \<open>\<open>LIKE\<close>: a per cent sign stands for any text, an underscore for any character.\<close>

fun sql_like :: "string \<Rightarrow> string \<Rightarrow> bool" where
  "sql_like [] s = (s = [])"
| "sql_like (p # ps) [] = (p = CHR ''%'' \<and> sql_like ps [])"
| "sql_like (p # ps) (c # cs) =
     (if p = CHR ''%'' then sql_like ps (c # cs) \<or> sql_like (p # ps) cs
      else (p = CHR ''_'' \<or> p = c) \<and> sql_like ps cs)"

definition get_strategy_win_rates :: "string \<Rightarrow> learner_store \<Rightarrow> (string \<times> rat) list" where
  "get_strategy_win_rates ck S =
     (let rows = filter (\<lambda>r. sql_like (''%'' @ ck @ ''%'') (oc_task r)) (ls_outcomes S)
      in map (\<lambda>sid. let group = filter (\<lambda>r. oc_strategy r = sid) rows
                   in (sid, of_nat (length (filter oc_success group)) / of_nat (max (length group) 1)))
           (remdups (map oc_strategy rows)))"

section \<open>Failure signatures\<close>

definition coalesce :: "'a option \<Rightarrow> 'a option \<Rightarrow> 'a option" where
  "coalesce x y = (case x of None \<Rightarrow> y | Some _ \<Rightarrow> x)"

text \<open>The count is an \<open>INTEGER\<close> column.\<close>

definition upsert_failure :: "failure_row \<Rightarrow> rat \<Rightarrow> unit learner" where
  "upsert_failure f now = (\<lambda>S.
     if \<exists>r \<in> set (ls_failures S). fl_hash r = fl_hash f
     then if \<exists>r \<in> set (ls_failures S). fl_hash r = fl_hash f \<and> \<not> int32 (fl_count r + 1) then (Inl Conversion, S)
          else (Inr (), S\<lparr>ls_failures := map (\<lambda>r. if fl_hash r = fl_hash f
                  then r\<lparr>fl_count := fl_count r + 1, fl_seen := now, fl_best := coalesce (fl_best f) (fl_best r),
                         fl_rate := coalesce (fl_rate f) (fl_rate r)\<rparr> else r) (ls_failures S)\<rparr>)
     else (Inr (), S\<lparr>ls_failures := ls_failures S @ [f\<lparr>fl_count := 1, fl_seen := now\<rparr>]\<rparr>))"

text \<open>A rate of zero reads as none.\<close>

definition shown_rate :: "failure_row \<Rightarrow> failure_row" where
  "shown_rate r = (if fl_rate r = Some 0 then r\<lparr>fl_rate := None\<rparr> else r)"

definition lookup_failure :: "string \<Rightarrow> learner_store \<Rightarrow> failure_row option" where
  "lookup_failure h S = (case filter (\<lambda>r. fl_hash r = h) (ls_failures S) of [] \<Rightarrow> None | r # _ \<Rightarrow> Some (shown_rate r))"

definition find_similar_failures :: "database \<Rightarrow> string \<Rightarrow> nat \<Rightarrow> learner_store \<Rightarrow> failure_row list" where
  "find_similar_failures D cls n S =
     map shown_rate (limited n (descending D (\<lambda>r. of_int (fl_count r)) (filter (\<lambda>r. fl_class r = cls) (ls_failures S))))"

end
