(* ===== verification/Playbooks.thy ===== *)
theory Playbooks
  imports Py_Text "HOL-Library.AList"
begin

text \<open>
  The playbooks of the learner, \<open>learner_service/playbooks.py\<close>: the catalogue, the registry with its map
  from failure classes, the retrieval by words and the loading from a directory. Dashes and arrows of the
  texts are written in ASCII.
\<close>

record playbook_phase =
  ph_label :: string
  ph_step_type :: string
  ph_guidance :: string
  ph_max_calls :: int

record playbook =
  pb_id :: string
  pb_name :: string
  pb_description :: string
  pb_phases :: "playbook_phase list"
  pb_target_failures :: "string list"

definition playbook_step :: "string \<Rightarrow> string \<Rightarrow> string \<Rightarrow> int \<Rightarrow> playbook_phase" where
  "playbook_step label type guidance calls = \<lparr>ph_label = label, ph_step_type = type, ph_guidance = guidance, ph_max_calls = calls\<rparr>"

definition phase_line :: "nat \<times> playbook_phase \<Rightarrow> string" where
  "phase_line x = (case x of (i, ph) \<Rightarrow> ''  '' @ nat_str i @ ''. ['' @ ph_step_type ph @ '']''
     @ (if 1 < ph_max_calls ph then '' (up to '' @ int_str (ph_max_calls ph) @ ''x)'' else []) @ '' - '' @ ph_guidance ph)"

definition prompt_addendum :: "playbook \<Rightarrow> string" where
  "prompt_addendum pb = join [CHR 10]
     ([''Playbook: '' @ pb_name pb, ''  '' @ pb_description pb, [], ''Follow these phases IN ORDER:'']
      @ map phase_line (enumerate 1 (pb_phases pb))
      @ [[], ''Do NOT skip phases.  Move to the next phase only when the current one is satisfied.  Keep diffs minimal.''])"

section \<open>The catalogue\<close>

definition PB_IMPORT_FIX :: playbook where
  "PB_IMPORT_FIX = \<lparr>pb_id = ''PB_import_fix'', pb_name = ''Import / Dependency Fix'',
     pb_description = ''For ImportError / ModuleNotFoundError. Fix missing or broken imports/deps before touching application code.'',
     pb_phases =
       [playbook_step ''locate_import'' ''repo_search'' ''Search for the missing module or import statement in the codebase.'' 2,
        playbook_step ''read_context'' ''repo_read_range'' ''Read the file(s) containing the broken import to understand the dependency.'' 3,
        playbook_step ''fix_deps'' ''ensure_deps'' (''If the module is a missing external package, install it. Skip if it'' @ [CHR 0x27] @ ''s an internal import.'') 1,
        playbook_step ''verify_import'' ''run_tests'' ''Run targeted tests to verify the import error is resolved.'' 1,
        playbook_step ''patch_if_needed'' ''apply_patch'' ''If the import path is wrong (not a missing package), patch the import statement. Minimal diff only.'' 1,
        playbook_step ''final_test'' ''run_tests'' ''Run the full test suite to confirm no regressions.'' 1],
     pb_target_failures = [''ImportError'', ''ModuleNotFoundError'']\<rparr>"

definition PB_ASSERTION_FIX :: playbook where
  "PB_ASSERTION_FIX = \<lparr>pb_id = ''PB_assertion_fix'', pb_name = ''Assertion / Test-Failure Fix'',
     pb_description = ''For AssertionError and test failures. Locate the failing test, trace to the implementation, patch the impl.'',
     pb_phases =
       [playbook_step ''find_failing_test'' ''repo_search'' ''Search for the failing test function or class name from the error output.'' 2,
        playbook_step ''read_test'' ''repo_read_range'' ''Read the failing test to understand what it expects.'' 2,
        playbook_step ''find_impl'' ''repo_search'' ''Search for the symbol/function under test in the source code.'' 2,
        playbook_step ''read_impl'' ''repo_read_range'' ''Read the implementation to understand the bug.'' 3,
        playbook_step ''patch_impl'' ''apply_patch'' ''Apply a minimal patch to the implementation (NOT the test). Keep diff as small as possible.'' 2,
        playbook_step ''targeted_test'' ''run_tests'' ''Run the failing test(s) with pytest_targeted to verify fix.'' 1,
        playbook_step ''suite_test'' ''run_tests'' ''Run full suite to confirm no regressions.'' 1],
     pb_target_failures = [''AssertionError'', ''AssertionError'']\<rparr>"

definition PB_SYNTAX_FIX :: playbook where
  "PB_SYNTAX_FIX = \<lparr>pb_id = ''PB_syntax_fix'', pb_name = ''Syntax Error Fix'',
     pb_description = ''For SyntaxError. Locate the exact file and line, read a window around it, and apply a surgical fix.'',
     pb_phases =
       [playbook_step ''locate_file'' ''repo_search'' ''Search for the file mentioned in the syntax error traceback.'' 1,
        playbook_step ''read_window'' ''repo_read_range'' (''Read a '' @ [CHR 0xB1] @ ''30-line window around the error line to understand the syntax issue.'') 2,
        playbook_step ''patch_syntax'' ''apply_patch'' ''Fix the syntax error with a minimal patch. Do NOT refactor.'' 1,
        playbook_step ''verify'' ''run_tests'' ''Run targeted tests then full suite to confirm fix.'' 2],
     pb_target_failures = [''SyntaxError'']\<rparr>"

definition PB_TRACEBACK_FIX :: playbook where
  "PB_TRACEBACK_FIX = \<lparr>pb_id = ''PB_traceback_fix'', pb_name = ''Traceback-Driven Fix'',
     pb_description = ''For TypeError, ValueError, KeyError, IndexError, AttributeError. Use the error traceback to locate the exact fault, read context, and patch.'',
     pb_phases =
       [playbook_step ''search_error_site'' ''repo_search'' ''Search for the function or symbol mentioned in the traceback.'' 2,
        playbook_step ''read_error_site'' ''repo_read_range'' ''Read the code at the error site to understand the root cause.'' 3,
        playbook_step ''patch_fix'' ''apply_patch'' ''Apply a targeted fix at the error site. Minimal diff. No refactoring.'' 2,
        playbook_step ''targeted_test'' ''run_tests'' ''Run targeted tests to verify the fix.'' 1,
        playbook_step ''suite_test'' ''run_tests'' ''Run full suite to confirm no regressions.'' 1],
     pb_target_failures = [''TypeError'', ''ValueError'', ''KeyError'', ''IndexError'', ''AttributeError'']\<rparr>"

definition PB_GENERIC_FIX :: playbook where
  "PB_GENERIC_FIX = \<lparr>pb_id = ''PB_generic_fix'', pb_name = ''Generic Search-Read-Patch'',
     pb_description = ''General-purpose playbook for unknown or unclassified errors. Search -> read -> patch -> test.'',
     pb_phases =
       [playbook_step ''search'' ''repo_search'' ''Search for code relevant to the task or error.'' 3,
        playbook_step ''read'' ''repo_read_range'' ''Read relevant source files to understand the codebase.'' 4,
        playbook_step ''patch'' ''apply_patch'' ''Apply a minimal patch. No refactoring. Keep diff small.'' 2,
        playbook_step ''targeted_test'' ''run_tests'' ''Run pytest_targeted first.'' 1,
        playbook_step ''suite_test'' ''run_tests'' ''Run full suite to confirm no regressions.'' 1],
     pb_target_failures = []\<rparr>"


section \<open>The registry\<close>

record registry =
  rg_playbooks :: "(string \<times> playbook) list"
  rg_failures :: "(string \<times> string) list"

text \<open>The first playbook registered for a failure class keeps it.\<close>

definition register_failure :: "string \<Rightarrow> string \<Rightarrow> (string \<times> string) list \<Rightarrow> (string \<times> string) list" where
  "register_failure pid fc m = (if map_of m fc = None then m @ [(fc, pid)] else m)"

definition register :: "playbook \<Rightarrow> registry \<Rightarrow> registry" where
  "register pb G = G\<lparr>rg_playbooks := AList.update (pb_id pb) pb (rg_playbooks G),
     rg_failures := fold (register_failure (pb_id pb)) (pb_target_failures pb) (rg_failures G)\<rparr>"

definition CATALOGUE :: "playbook list" where
  "CATALOGUE = [PB_IMPORT_FIX, PB_ASSERTION_FIX, PB_SYNTAX_FIX, PB_TRACEBACK_FIX, PB_GENERIC_FIX]"

definition new_registry :: registry where
  "new_registry = fold register CATALOGUE \<lparr>rg_playbooks = [], rg_failures = []\<rparr>"

definition get_playbook :: "registry \<Rightarrow> string \<Rightarrow> playbook option" where
  "get_playbook G pid = map_of (rg_playbooks G) pid"

definition best_for_failure :: "registry \<Rightarrow> string \<Rightarrow> string" where
  "best_for_failure G fc = (case map_of (rg_failures G) fc of None \<Rightarrow> pb_id PB_GENERIC_FIX | Some pid \<Rightarrow> pid)"

definition playbook_words :: "playbook \<Rightarrow> string set" where
  "playbook_words pb = set (split_words (lower (join '' ''
     ([pb_name pb, pb_description pb] @ concat (map (\<lambda>ph. [ph_label ph, ph_guidance ph]) (pb_phases pb))))))"

definition playbook_relevance :: "string set \<Rightarrow> playbook \<Rightarrow> rat" where
  "playbook_relevance query pb =
     (if query = {} then 0 else of_nat (card (query \<inter> playbook_words pb)) / of_nat (card query))
     + (1 / 2) * of_nat (length (filter (\<lambda>fc. lower fc \<in> query) (pb_target_failures pb)))"

definition retrieve_playbooks :: "registry \<Rightarrow> string \<Rightarrow> int \<Rightarrow> playbook list" where
  "retrieve_playbooks G query limit =
     (let q = set (split_words (lower query));
          scored = filter (\<lambda>x. 1 / 10 < fst x)
            (map (\<lambda>pb. (playbook_relevance q pb, pb)) (filter (\<lambda>pb. playbook_words pb \<noteq> {}) (map snd (rg_playbooks G))))
      in slice_to limit (map snd (sort_key (\<lambda>x. - fst x) scored)))"

text \<open>A parsed file; \<open>None\<close> stands for a missing key. The values that are present have the type of
  their field.\<close>

record phase_data =
  pd_label :: "string option"
  pd_step_type :: "string option"
  pd_guidance :: "string option"
  pd_max_calls :: "int option"

record playbook_data =
  pd_id :: "string option"
  pd_name :: "string option"
  pd_description :: "string option"
  pd_phases :: "phase_data list"
  pd_failures :: "string list"

definition parse_phase :: "phase_data \<Rightarrow> playbook_phase option" where
  "parse_phase d =
     (case (pd_label d, pd_step_type d, pd_guidance d) of
        (Some l, Some t, Some g) \<Rightarrow> Some (playbook_step l t g (case pd_max_calls d of None \<Rightarrow> 1 | Some n \<Rightarrow> n))
      | _ \<Rightarrow> None)"

definition load_from_dict :: "playbook_data \<Rightarrow> registry \<Rightarrow> registry" where
  "load_from_dict d G =
     (let phases = map parse_phase (pd_phases d)
      in case (pd_id d, pd_name d, pd_description d) of
           (Some pid, Some name, Some descr) \<Rightarrow>
             if None \<in> set phases then G
             else register \<lparr>pb_id = pid, pb_name = name, pb_description = descr, pb_phases = map the phases,
                    pb_target_failures = pd_failures d\<rparr> G
         | _ \<Rightarrow> G)"

text \<open>The files in the order of \<open>listdir\<close>; a file that cannot be read or parsed is \<open>None\<close>.\<close>

fun load_files :: "(string \<times> playbook_data option) list \<Rightarrow> registry \<Rightarrow> nat \<times> registry" where
  "load_files [] G = (0, G)"
| "load_files ((name, data) # files) G =
     (if \<not> endswith name ''.json'' then load_files files G
      else case data of
             None \<Rightarrow> load_files files G
           | Some d \<Rightarrow> (case load_files files (load_from_dict d G) of (n, G') \<Rightarrow> (Suc n, G')))"

definition load_from_directory :: "(string \<times> playbook_data option) list option \<Rightarrow> registry \<Rightarrow> nat \<times> registry" where
  "load_from_directory dir G = (case dir of None \<Rightarrow> (0, G) | Some files \<Rightarrow> load_files files G)"

definition PLAYBOOK_IDS :: "string list" where
  "PLAYBOOK_IDS = map pb_id CATALOGUE"

definition FAILURE_PLAYBOOK_PRIORS :: "(string \<times> string) list" where
  "FAILURE_PLAYBOOK_PRIORS =
     [(''import_error_missing_module'', ''PB_import_fix''), (''assertion_failure'', ''PB_assertion_fix''),
      (''syntax_error'', ''PB_syntax_fix''), (''traceback'', ''PB_traceback_fix'')]"

section \<open>What the registry promises\<close>

lemma playbook_ids:
  "PLAYBOOK_IDS = [''PB_import_fix'', ''PB_assertion_fix'', ''PB_syntax_fix'', ''PB_traceback_fix'', ''PB_generic_fix'']"
  by (simp add: PLAYBOOK_IDS_def CATALOGUE_def PB_IMPORT_FIX_def PB_ASSERTION_FIX_def PB_SYNTAX_FIX_def PB_TRACEBACK_FIX_def
      PB_GENERIC_FIX_def)

text \<open>Every failure class leads to a registered playbook.\<close>

definition registry_ok :: "registry \<Rightarrow> bool" where
  "registry_ok G \<longleftrightarrow> list_all (\<lambda>x. snd x \<in> set (map fst (rg_playbooks G))) (rg_failures G)
     \<and> list_all (\<lambda>x. pb_id (snd x) = fst x) (rg_playbooks G) \<and> pb_id PB_GENERIC_FIX \<in> set (map fst (rg_playbooks G))"

lemma registered_failures:
  "fc \<in> set (fold (register_failure pid) fcs m) \<Longrightarrow> fc \<in> set m \<or> snd fc = pid"
proof (induction fcs arbitrary: m)
  case (Cons c cs)
  then have "fc \<in> set (register_failure pid c m) \<or> snd fc = pid" by simp
  then show ?case by (auto simp: register_failure_def split: if_splits)
qed simp

lemma register_ok: "registry_ok G \<Longrightarrow> registry_ok (register pb G)"
proof -
  assume ok: "registry_ok G"
  have keys: "set (map fst (rg_playbooks (register pb G))) = insert (pb_id pb) (set (map fst (rg_playbooks G)))"
    by (auto simp: register_def update_keys)
  have "pb_id (snd x) = fst x" if "x \<in> set (AList.update (pb_id pb) pb (rg_playbooks G))" for x
  proof -
    have "set (AList.update k v d) \<subseteq> insert (k, v) (set d)" for k and v :: playbook and d by (induction d) auto
    then show ?thesis using that ok by (fastforce simp: registry_ok_def list_all_iff)
  qed
  moreover have "snd x \<in> insert (pb_id pb) (set (map fst (rg_playbooks G)))" if "x \<in> set (rg_failures (register pb G))" for x
    using registered_failures [of x "pb_id pb" "pb_target_failures pb" "rg_failures G"] that ok
    by (auto simp: register_def registry_ok_def list_all_iff)
  ultimately show ?thesis using ok keys by (auto simp: registry_ok_def list_all_iff register_def)
qed

lemma load_files_ok: "registry_ok G \<Longrightarrow> registry_ok (snd (load_files files G))"
  by (induction files G rule: load_files.induct)
    (auto simp: load_from_dict_def Let_def register_ok split: option.splits prod.splits)

lemma new_registry_ok: "registry_ok new_registry"
  unfolding registry_ok_def by code_simp

lemma best_is_registered: "registry_ok G \<Longrightarrow> get_playbook G (best_for_failure G fc) \<noteq> None"
proof -
  assume ok: "registry_ok G"
  have "best_for_failure G fc \<in> fst ` set (rg_playbooks G)"
  proof (cases "map_of (rg_failures G) fc")
    case None
    then show ?thesis using ok by (simp add: best_for_failure_def registry_ok_def)
  next
    case (Some pid)
    then have "snd (fc, pid) \<in> set (map fst (rg_playbooks G))"
      using ok map_of_SomeD [OF Some] unfolding registry_ok_def list_all_iff by blast
    then show ?thesis using Some by (simp add: best_for_failure_def)
  qed
  then show ?thesis by (simp add: get_playbook_def map_of_eq_None_iff)
qed

text \<open>Loading counts a file whose playbook lacks a key and is dropped.\<close>

lemma dropped_files_count:
  "load_from_directory (Some [(''a.json'', Some \<lparr>pd_id = None, pd_name = None, pd_description = None, pd_phases = [], pd_failures = []\<rparr>)]) G
     = (1, G)"
proof -
  have "endswith ''a.json'' ''.json''" by code_simp
  then show ?thesis by (simp add: load_from_directory_def load_from_dict_def)
qed

end
