(* ===== verification/Learner.thy ===== *)
theory Learner
  imports Learner_Store Playbooks
begin

text \<open>
  The learner service, \<open>learner_service/app.py\<close>: the advice for a run (\<open>suggest\<close>), the report of its result
  (\<open>ingest_patch\<close>) and the queries. A request reads the clock once; \<open>rnd i a b\<close> is the sample of the beta
  distribution that is drawn for the arm \<open>i\<close>.
\<close>

section \<open>Keys\<close>

definition meta_text :: "pydict \<Rightarrow> string \<Rightarrow> string \<Rightarrow> string res" where
  "meta_text meta key dflt = ebind (as_str (py_or (dget_or meta key PNone) (PStr dflt))) (\<lambda>s. Inr (lower (strip s)))"

definition context_key :: "runtime \<Rightarrow> pydict \<Rightarrow> string res" where
  "context_key R meta =
     ebind (meta_text meta ''lang'' ''py'') (\<lambda>lang.
     ebind (meta_text meta ''tests'' ''pytest'') (\<lambda>tests.
     ebind (meta_text meta ''framework'' ''unknown'') (\<lambda>fw.
     ebind (meta_text meta ''failure'' ''none'') (\<lambda>failure.
     ebind (meta_text meta ''stage'' ''unknown'') (\<lambda>stage.
     ebind (meta_text meta ''repo_id'' ''unknown'') (\<lambda>repo.
     Inr (join ''|'' [lang, tests, fw, failure, stage, take 8 (rt_sha256 R repo)])))))))"

definition task_hash :: "runtime \<Rightarrow> string \<Rightarrow> string \<Rightarrow> string" where
  "task_hash R repo task = take 16 (rt_sha256 R (repo @ ''|'' @ task))"

section \<open>Requests\<close>

record suggest_req =
  sq_repo :: string
  sq_task :: string
  sq_meta :: pydict
  sq_signature :: "string option"

record ingest_req =
  iq_run :: string
  iq_strategy :: string
  iq_meta :: pydict
  iq_success :: bool
  iq_signature :: string
  iq_repo :: string
  iq_task :: string
  iq_patch :: string
  iq_files :: string
  iq_added :: int
  iq_deleted :: int
  iq_exit :: int
  iq_passed :: int
  iq_failed :: int
  iq_total :: int
  iq_class :: string
  iq_reward :: rat
  iq_stage :: string
  iq_module :: string
  iq_test :: string
  iq_message :: string
  iq_hash :: string

record evidence_ids =
  ev_strategy :: string
  ev_context :: string
  ev_success_prob :: rat
  ev_trials :: int
  ev_occurrence :: int
  ev_best_rate :: rat
  ev_traps :: "string set"

record suggestion =
  sg_context :: string
  sg_strategy :: string
  sg_addendum :: string
  sg_constraints :: pydict
  sg_evidence :: evidence_ids
  sg_hint :: "string option"
  sg_past :: "outcome_row list option"
  sg_playbook :: string
  sg_guidance :: "string option"

record ingest_answer =
  ig_ignored :: bool
  ig_reason :: "string option"
  ig_fingerprint :: string

section \<open>Advice\<close>

definition arm :: "(string \<times> stat_row) list \<Rightarrow> string \<Rightarrow> rat \<times> rat" where
  "arm post sid = (case map_of post sid of None \<Rightarrow> (1, 1) | Some r \<Rightarrow> (st_alpha r, st_beta r))"

text \<open>Thompson sampling: the first arm with the largest sample; the sample of the arm that is known to have
  fixed this failure counts half as much again.\<close>

definition boosted_sample :: "string option \<Rightarrow> string \<Rightarrow> rat \<Rightarrow> rat" where
  "boosted_sample boost sid x = (if boost = Some sid then x * (3 / 2) else x)"

fun thompson ::
    "(nat \<Rightarrow> rat \<Rightarrow> rat \<Rightarrow> rat) \<Rightarrow> (string \<times> stat_row) list \<Rightarrow> string option \<Rightarrow> nat \<Rightarrow> string list \<Rightarrow> string \<Rightarrow> rat
      \<Rightarrow> learner_error + string" where
  "thompson rnd post boost i [] best most = Inr best"
| "thompson rnd post boost i (sid # sids) best most =
     (case arm post sid of (a, b) \<Rightarrow>
        if a \<le> 0 \<or> b \<le> 0 then Inl BetaDomain
        else let x = boosted_sample boost sid (rnd i a b)
             in if most < x then thompson rnd post boost (Suc i) sids sid x
                else thompson rnd post boost (Suc i) sids best most)"

definition CONSTRAINTS :: pydict where
  "CONSTRAINTS = [(PStr ''max_patch_files'', PInt 3), (PStr ''max_patch_total_lines'', PInt 80), (PStr ''max_added_lines'', PInt 40),
     (PStr ''max_deleted_lines'', PInt 40), (PStr ''forbid_test_edits'', PBool True), (PStr ''enforce_tests'', PBool True)]"

definition lift_py :: "'a res \<Rightarrow> 'a learner" where
  "lift_py r = (case r of Inl e \<Rightarrow> sraise (Raised e) | Inr x \<Rightarrow> sret x)"

definition lift_err :: "learner_error + 'a \<Rightarrow> 'a learner" where
  "lift_err r = (case r of Inl e \<Rightarrow> sraise e | Inr x \<Rightarrow> sret x)"

definition known_failure :: "string option \<Rightarrow> learner_store \<Rightarrow> failure_row option" where
  "known_failure h S = (case h of None \<Rightarrow> None | Some x \<Rightarrow> if x = [] then None else lookup_failure x S)"

definition boosted_arm :: "failure_row option \<Rightarrow> string option" where
  "boosted_arm known = (case known of None \<Rightarrow> None | Some f \<Rightarrow> if fl_best f = Some [] then None else fl_best f)"

definition failure_hint :: "runtime \<Rightarrow> failure_row option \<Rightarrow> string option res" where
  "failure_hint R known =
     (case (known, boosted_arm known) of
        (Some f, Some sid) \<Rightarrow>
          (case fl_rate f of
             None \<Rightarrow> Inl TypeError
           | Some wr \<Rightarrow> Inr (Some (''Known failure pattern (seen '' @ int_str (fl_count f) @ ''x). Best strategy: '' @ sid
               @ '' (win rate: '' @ rt_fixed R 0 (wr * 100) @ ''%).''
               @ (if fl_test f = [] then [] else '' Failing test: '' @ fl_test f @ ''.''))))
      | _ \<Rightarrow> Inr None)"

definition upsert_arms :: "string \<Rightarrow> rat \<Rightarrow> learner_store \<Rightarrow> learner_store" where
  "upsert_arms ck now S = fold (\<lambda>sid. upsert_prior sid ck 1 1 now) PLAYBOOK_IDS S"

definition total_trials :: "(string \<times> stat_row) list \<Rightarrow> int" where
  "total_trials post = sum_list (map (\<lambda>sid. case map_of post sid of None \<Rightarrow> 0 | Some r \<Rightarrow> st_trials r) PLAYBOOK_IDS)"

text \<open>Without any trial the class of the failure chooses.\<close>

definition prior_or :: "(string \<times> stat_row) list \<Rightarrow> string \<Rightarrow> string \<Rightarrow> string" where
  "prior_or post fc sid =
     (case map_of FAILURE_PLAYBOOK_PRIORS fc of
        None \<Rightarrow> sid
      | Some pid \<Rightarrow> if total_trials post = 0 then pid else sid)"

definition PLAYBOOK_MAP :: "(string \<times> playbook) list" where
  "PLAYBOOK_MAP = map (\<lambda>pb. (pb_id pb, pb)) CATALOGUE"

definition traps_of :: "outcome_row list \<Rightarrow> string set" where
  "traps_of history = set (map (\<lambda>r. ''strategy:'' @ oc_strategy r) (filter (\<lambda>r. \<not> oc_success r \<and> oc_strategy r \<noteq> []) history))"

definition evidence_of :: "string \<Rightarrow> string \<Rightarrow> (string \<times> stat_row) list \<Rightarrow> failure_row option \<Rightarrow> outcome_row list \<Rightarrow> evidence_ids" where
  "evidence_of sid ck post known history =
     (case arm post sid of (a, b) \<Rightarrow>
        \<lparr>ev_strategy = sid, ev_context = ck, ev_success_prob = round4 (a / max (a + b) (1 / 1000000000)),
         ev_trials = (case map_of post sid of None \<Rightarrow> 0 | Some r \<Rightarrow> st_trials r),
         ev_occurrence = (case known of None \<Rightarrow> 0 | Some f \<Rightarrow> fl_count f),
         ev_best_rate = round4 (case known of None \<Rightarrow> 0 | Some f \<Rightarrow> (case fl_rate f of None \<Rightarrow> 0 | Some x \<Rightarrow> x)),
         ev_traps = traps_of history\<rparr>)"

definition suggest ::
    "runtime \<Rightarrow> database \<Rightarrow> (nat \<Rightarrow> rat \<Rightarrow> rat \<Rightarrow> rat) \<Rightarrow> rat \<Rightarrow> suggest_req \<Rightarrow> suggestion learner" where
  "suggest R D rnd now q =
     sbind (lift_py (context_key R (sq_meta q))) (\<lambda>ck.
     sbind (supdate (upsert_arms ck now)) (\<lambda>_.
     sbind (sread (get_posteriors ck)) (\<lambda>post.
     sbind (sread (known_failure (sq_signature q))) (\<lambda>known.
     sbind (lift_py (failure_hint R known)) (\<lambda>hint.
     sbind (lift_err (thompson rnd post (boosted_arm known) 0 PLAYBOOK_IDS (hd PLAYBOOK_IDS) (- 1))) (\<lambda>sampled.
     sbind (lift_py (as_str (py_or (dget_or (sq_meta q) ''failure'' PNone) (PStr [])))) (\<lambda>fc.
     let sid = prior_or post (strip fc) sampled
     in case map_of PLAYBOOK_MAP sid of
          None \<Rightarrow> sraise (Raised KeyError)
        | Some pb \<Rightarrow>
            sbind (sread (lookup_patch_history D (task_hash R (sq_repo q) (sq_task q)) 5)) (\<lambda>history.
            sret \<lparr>sg_context = ck, sg_strategy = sid, sg_addendum = prompt_addendum pb, sg_constraints = CONSTRAINTS,
                  sg_evidence = evidence_of sid ck post known history, sg_hint = hint,
                  sg_past = (if history = [] then None else Some history), sg_playbook = sid,
                  sg_guidance = Some (prompt_addendum pb)\<rparr>))))))))"

section \<open>Reports\<close>

definition FORBIDDEN_PATCH_PATH_HINTS :: "string list" where
  "FORBIDDEN_PATCH_PATH_HINTS = [''.github/workflows/'', ''ci/'', ''scripts/'', ''.env'', ''.pem'', ''dockerfile'', ''docker-compose'']"

definition should_reject_ingest :: "database \<Rightarrow> ingest_req \<Rightarrow> string \<Rightarrow> learner_store \<Rightarrow> string option" where
  "should_reject_ingest D q th S =
     (case filter (\<lambda>m. occurs_in m (lower (iq_files q))) FORBIDDEN_PATCH_PATH_HINTS of
        m # _ \<Rightarrow> Some (''forbidden_patch_area:'' @ m)
      | [] \<Rightarrow>
          if iq_patch q = [] then None
          else case latest_outcome D th S of
                 None \<Rightarrow> None
               | Some p \<Rightarrow>
                   if oc_patch p = iq_patch q \<and> oc_signature p = iq_signature q then Some ''duplicate_patch_fingerprint''
                   else if iq_total q \<noteq> 0 \<and> oc_total p \<noteq> 0 \<and> iq_total q < oc_total p then Some ''tests_reduced''
                   else if iq_failed q \<noteq> 0 \<and> oc_failed p \<noteq> 0 \<and> oc_failed p < iq_failed q then Some ''failures_increased''
                   else None)"

definition outcome_of :: "string \<Rightarrow> rat \<Rightarrow> ingest_req \<Rightarrow> outcome_row" where
  "outcome_of th now q =
     \<lparr>oc_run = iq_run q, oc_repo = iq_repo q, oc_task = th, oc_patch = iq_patch q, oc_files = iq_files q,
      oc_added = iq_added q, oc_deleted = iq_deleted q, oc_exit = iq_exit q, oc_passed = iq_passed q,
      oc_failed = iq_failed q, oc_total = iq_total q, oc_class = iq_class q, oc_signature = iq_signature q,
      oc_strategy = iq_strategy q, oc_success = iq_success q, oc_reward = iq_reward q, oc_ts = now\<rparr>"

definition failure_of :: "ingest_req \<Rightarrow> failure_row" where
  "failure_of q =
     \<lparr>fl_hash = iq_hash q, fl_class = iq_class q, fl_module = iq_module q, fl_test = iq_test q, fl_message = iq_message q,
      fl_repo = iq_repo q, fl_count = 1, fl_seen = 0, fl_best = (if iq_success q then Some (iq_strategy q) else None),
      fl_rate = (if iq_success q then Some 1 else None)\<rparr>"

definition staged_meta :: "ingest_req \<Rightarrow> pydict" where
  "staged_meta q = (if iq_stage q = [] then iq_meta q else dput ''stage'' (PStr (iq_stage q)) (iq_meta q))"

definition ingest_patch :: "runtime \<Rightarrow> database \<Rightarrow> rat \<Rightarrow> ingest_req \<Rightarrow> ingest_answer learner" where
  "ingest_patch R D now q =
     sbind (lift_py (context_key R (staged_meta q))) (\<lambda>ck.
     let th = task_hash R (iq_repo q) (iq_task q)
     in sbind (sread (should_reject_ingest D q th)) (\<lambda>reject.
        if reject \<noteq> None then sret \<lparr>ig_ignored = True, ig_reason = reject, ig_fingerprint = iq_patch q\<rparr>
        else sbind (supdate (record_episode (iq_run q) ck (iq_strategy q) (iq_success q) (iq_signature q) now)) (\<lambda>_.
             sbind (if iq_patch q = [] then sret () else record_patch_outcome (outcome_of th now q)) (\<lambda>_.
             sbind (if iq_hash q = [] \<or> iq_class q = [] then sret () else upsert_failure (failure_of q) now) (\<lambda>_.
             sret \<lparr>ig_ignored = False, ig_reason = None, ig_fingerprint = iq_patch q\<rparr>)))))"

section \<open>Queries\<close>

definition get_outcomes :: "database \<Rightarrow> string \<Rightarrow> nat \<Rightarrow> learner_store \<Rightarrow> outcome_row list" where
  "get_outcomes D repo n S = limited n (descending D oc_ts (filter (\<lambda>r. oc_repo r = repo) (ls_outcomes S)))"

definition get_failures :: "database \<Rightarrow> string option \<Rightarrow> nat \<Rightarrow> learner_store \<Rightarrow> failure_row list" where
  "get_failures D cls n S =
     (if cls \<noteq> None \<and> cls \<noteq> Some [] then find_similar_failures D (the cls) n S
      else map shown_rate (limited n (descending D (\<lambda>r. of_int (fl_count r)) (ls_failures S))))"

definition get_strategy_stats :: "database \<Rightarrow> learner_store \<Rightarrow> (stat_row \<times> rat) list" where
  "get_strategy_stats D S =
     map (\<lambda>r. (r, of_int (st_wins r) / of_int (max (st_trials r) 1)))
       (limited 100 (descending D (\<lambda>r. of_int (st_trials r)) (filter (\<lambda>r. 0 < st_trials r) (ls_stats S))))"

section \<open>The counts of the bandit\<close>

datatype learner_request =
    Suggest suggest_req rat "nat \<Rightarrow> rat \<Rightarrow> rat \<Rightarrow> rat"
  | Ingest ingest_req rat

definition serve :: "runtime \<Rightarrow> database \<Rightarrow> learner_store \<Rightarrow> learner_request \<Rightarrow> learner_store" where
  "serve R D S r =
     (case r of Suggest q now rnd \<Rightarrow> snd (suggest R D rnd now q S) | Ingest q now \<Rightarrow> snd (ingest_patch R D now q S))"

definition stat_ok :: "stat_row \<Rightarrow> bool" where
  "stat_ok r \<longleftrightarrow> st_alpha r = 1 + of_int (st_wins r) \<and> st_beta r = 1 + of_int (st_losses r)
     \<and> st_trials r = st_wins r + st_losses r \<and> 0 \<le> st_wins r \<and> 0 \<le> st_losses r"

definition row_key :: "stat_row \<Rightarrow> string \<times> string" where
  "row_key r = (st_strategy r, st_context r)"

definition stat_rows_ok :: "learner_store \<Rightarrow> bool" where
  "stat_rows_ok S \<longleftrightarrow> list_all stat_ok (ls_stats S) \<and> distinct (map row_key (ls_stats S))"

text \<open>The recorded results of a strategy in a context.\<close>

definition results :: "bool \<Rightarrow> string \<times> string \<Rightarrow> episode_row list \<Rightarrow> int" where
  "results success k es =
     int (length (filter (\<lambda>e. ep_success e = success \<and> (ep_strategy e, ep_context e) = k) es))"

text \<open>From one store to a later one: rows stay, and their counts grow by the recorded results.\<close>

definition tracks_episodes :: "learner_store \<Rightarrow> learner_store \<Rightarrow> bool" where
  "tracks_episodes S S' \<longleftrightarrow> (\<exists>new. ls_episodes S' = ls_episodes S @ new
     \<and> (\<forall>r \<in> set (ls_stats S). \<exists>r' \<in> set (ls_stats S'). row_key r' = row_key r
          \<and> st_wins r' = st_wins r + results True (row_key r) new \<and> st_losses r' = st_losses r + results False (row_key r) new))"

lemma results_append [simp]: "results b k (xs @ ys) = results b k xs + results b k ys"
  by (simp add: results_def)

lemma results_Nil [simp]: "results b k [] = 0"
  by (simp add: results_def)

lemma tracks_refl: "tracks_episodes S S"
  by (auto simp: tracks_episodes_def intro!: exI [of _ "[]"])

lemma tracks_trans: "tracks_episodes S1 S2 \<Longrightarrow> tracks_episodes S2 S3 \<Longrightarrow> tracks_episodes S1 S3"
proof -
  assume "tracks_episodes S1 S2" "tracks_episodes S2 S3"
  then obtain n1 n2 where e: "ls_episodes S2 = ls_episodes S1 @ n1" "ls_episodes S3 = ls_episodes S2 @ n2"
    and r1: "\<And>r. r \<in> set (ls_stats S1) \<Longrightarrow> \<exists>r' \<in> set (ls_stats S2). row_key r' = row_key r
      \<and> st_wins r' = st_wins r + results True (row_key r) n1 \<and> st_losses r' = st_losses r + results False (row_key r) n1"
    and r2: "\<And>r. r \<in> set (ls_stats S2) \<Longrightarrow> \<exists>r' \<in> set (ls_stats S3). row_key r' = row_key r
      \<and> st_wins r' = st_wins r + results True (row_key r) n2 \<and> st_losses r' = st_losses r + results False (row_key r) n2"
    unfolding tracks_episodes_def by blast
  have "\<exists>r'' \<in> set (ls_stats S3). row_key r'' = row_key r \<and> st_wins r'' = st_wins r + results True (row_key r) (n1 @ n2)
      \<and> st_losses r'' = st_losses r + results False (row_key r) (n1 @ n2)" if r: "r \<in> set (ls_stats S1)" for r
  proof -
    from r1 [OF r] obtain r' where r': "r' \<in> set (ls_stats S2)" "row_key r' = row_key r"
      "st_wins r' = st_wins r + results True (row_key r) n1" "st_losses r' = st_losses r + results False (row_key r) n1" by blast
    from r2 [OF r'(1)] obtain r'' where "r'' \<in> set (ls_stats S3)" "row_key r'' = row_key r'"
      "st_wins r'' = st_wins r' + results True (row_key r') n2" "st_losses r'' = st_losses r' + results False (row_key r') n2" by blast
    then show ?thesis using r' by (intro bexI [of _ r'']) simp_all
  qed
  then show ?thesis unfolding tracks_episodes_def using e by (intro exI [of _ "n1 @ n2"]) simp
qed

text \<open>A step that keeps the rows well formed and tracks the results.\<close>

definition keeps_counts :: "learner_store \<Rightarrow> learner_store \<Rightarrow> bool" where
  "keeps_counts S S' \<longleftrightarrow> (stat_rows_ok S \<longrightarrow> stat_rows_ok S') \<and> tracks_episodes S S'"

lemma counts_refl: "keeps_counts S S"
  by (simp add: keeps_counts_def tracks_refl)

lemma counts_trans: "keeps_counts S1 S2 \<Longrightarrow> keeps_counts S2 S3 \<Longrightarrow> keeps_counts S1 S3"
  unfolding keeps_counts_def using tracks_trans by blast

lemma counts_other: "ls_stats S' = ls_stats S \<Longrightarrow> ls_episodes S' = ls_episodes S \<Longrightarrow> keeps_counts S S'"
  by (auto simp: keeps_counts_def tracks_episodes_def stat_rows_ok_def intro!: exI [of _ "[]"])

lemma stat_key_iff: "stat_key sid ck r \<longleftrightarrow> row_key r = (sid, ck)"
  by (simp add: stat_key_def row_key_def)

lemma counts_upsert: "keeps_counts S (upsert_prior sid ck 1 1 now S)"
proof (cases "\<exists>r \<in> set (ls_stats S). stat_key sid ck r")
  case True
  then show ?thesis by (simp add: upsert_prior_def counts_refl)
next
  case False
  let ?r = "\<lparr>st_strategy = sid, st_context = ck, st_alpha = 1, st_beta = 1, st_trials = 0, st_wins = 0, st_losses = 0, st_updated = now\<rparr>"
  have new: "upsert_prior sid ck 1 1 now S = S\<lparr>ls_stats := ls_stats S @ [?r]\<rparr>" using False by (simp add: upsert_prior_def)
  have "stat_rows_ok S \<Longrightarrow> stat_rows_ok (S\<lparr>ls_stats := ls_stats S @ [?r]\<rparr>)"
    using False by (auto simp: stat_rows_ok_def stat_ok_def stat_key_iff row_key_def)
  moreover have "tracks_episodes S (S\<lparr>ls_stats := ls_stats S @ [?r]\<rparr>)" by (auto simp: tracks_episodes_def intro!: exI [of _ "[]"])
  ultimately show ?thesis by (simp add: new keeps_counts_def)
qed

lemma counts_arms: "keeps_counts S (upsert_arms ck now S)"
proof -
  have "keeps_counts S (fold (\<lambda>sid. upsert_prior sid ck 1 1 now) sids S)" for sids
    by (induction sids arbitrary: S) (auto intro: counts_refl counts_trans [OF counts_upsert])
  then show ?thesis by (simp add: upsert_arms_def)
qed

lemma row_key_count [simp]: "row_key (count_episode b now r) = row_key r"
  by (simp add: row_key_def count_episode_def)

lemma count_results [simp]:
  "st_wins (count_episode b now r) = st_wins r + (if b then 1 else 0)"
  "st_losses (count_episode b now r) = st_losses r + (if b then 0 else 1)"
  by (simp_all add: count_episode_def)

lemma counts_episode: "keeps_counts S (record_episode run ck sid success sig now S)"
proof -
  let ?f = "\<lambda>r. if stat_key sid ck r then count_episode success now r else r"
  let ?e = "\<lparr>ep_run = run, ep_context = ck, ep_strategy = sid, ep_success = success, ep_failure = sig, ep_ts = now\<rparr>"
  have keys: "map row_key (map ?f rs) = map row_key rs" for rs by simp
  have ok: "stat_ok r \<Longrightarrow> stat_ok (count_episode success now r)" for r by (simp add: stat_ok_def count_episode_def)
  have rows: "ls_stats (record_episode run ck sid success sig now S) = map ?f (ls_stats S)" by (simp add: record_episode_def)
  have "stat_rows_ok S \<Longrightarrow> stat_rows_ok (record_episode run ck sid success sig now S)"
    unfolding stat_rows_ok_def rows keys using ok by (auto simp: list_all_iff)
  moreover have "\<exists>r' \<in> set (map ?f (ls_stats S)). row_key r' = row_key r \<and> st_wins r' = st_wins r + results True (row_key r) [?e]
      \<and> st_losses r' = st_losses r + results False (row_key r) [?e]" if "r \<in> set (ls_stats S)" for r
    using that by (intro bexI [of _ "?f r"]) (auto simp: results_def stat_key_iff)
  then have "tracks_episodes S (record_episode run ck sid success sig now S)"
    unfolding tracks_episodes_def record_episode_def by (intro exI [of _ "[?e]"]) simp
  ultimately show ?thesis by (simp add: keeps_counts_def)
qed

text \<open>Computations whose every outcome, exceptions included, keeps the counts.\<close>

definition counting_req :: "'a learner \<Rightarrow> bool" where
  "counting_req m \<longleftrightarrow> (\<forall>S. keeps_counts S (snd (m S)))"

named_theorems counting_rules "computations that keep the counts"

lemma counting_bind [counting_rules]: "counting_req m \<Longrightarrow> (\<And>x. counting_req (f x)) \<Longrightarrow> counting_req (sbind m f)"
  unfolding counting_req_def sbind_def by (auto split: prod.split sum.split) (metis counts_trans snd_conv)+

lemma counting_basic [counting_rules]:
  "counting_req (sret x)" "counting_req (sraise e)" "counting_req (sread g)" "counting_req (lift_py r)" "counting_req (lift_err r')"
  by (auto simp: counting_req_def sret_def sraise_def sread_def lift_py_def lift_err_def counts_refl split: sum.split)

lemma counting_updates [counting_rules]:
  "counting_req (supdate (upsert_arms ck now))" "counting_req (supdate (record_episode run ck sid success sig now))"
  "counting_req (record_patch_outcome oc)" "counting_req (upsert_failure f now)"
  by (auto simp: counting_req_def supdate_def counts_arms counts_episode record_patch_outcome_def sraise_def upsert_failure_def counts_refl
      intro!: counts_other)

lemma counting_if [counting_rules]: "counting_req m \<Longrightarrow> counting_req n \<Longrightarrow> counting_req (if b then m else n)"
  by simp

lemma counting_suggest: "counting_req (suggest R D rnd now q)"
  unfolding suggest_def Let_def by (intro counting_rules) (auto split: option.split intro!: counting_rules)

lemma counting_ingest: "counting_req (ingest_patch R D now q)"
  unfolding ingest_patch_def Let_def by (intro counting_rules)

lemma counts_serve: "keeps_counts S (serve R D S r)"
  using counting_suggest counting_ingest by (auto simp: serve_def counting_req_def split: learner_request.split)

lemma counts_run: "keeps_counts S (foldl (serve R D) S rs)"
  by (induction rs arbitrary: S) (auto intro: counts_refl counts_trans [OF counts_serve])

text \<open>C35: the bandit learns what was reported. From a well-formed store, after any requests (those that fail
  included), the store is well formed: one row per strategy and context, with
  \<open>alpha = 1 + wins\<close>, \<open>beta = 1 + losses\<close> and \<open>trials = wins + losses\<close>. A row that was there is still there,
  and its wins and losses have grown by exactly the successes and failures recorded for its strategy and
  context since.\<close>

theorem bandit_counts_results:
  assumes "stat_rows_ok S" "S' = foldl (serve R D) S requests"
  shows "stat_rows_ok S' \<and> (\<exists>new. ls_episodes S' = ls_episodes S @ new
     \<and> (\<forall>r \<in> set (ls_stats S). \<exists>r' \<in> set (ls_stats S'). row_key r' = row_key r \<and> stat_ok r'
          \<and> st_wins r' = st_wins r + results True (row_key r) new \<and> st_losses r' = st_losses r + results False (row_key r) new))"
proof -
  have c: "keeps_counts S S'" using counts_run [of S R D requests] by (simp add: assms(2))
  then have "stat_rows_ok S'" using assms(1) by (simp add: keeps_counts_def)
  moreover have "\<forall>r' \<in> set (ls_stats S'). stat_ok r'" using calculation by (simp add: stat_rows_ok_def list_all_iff)
  ultimately show ?thesis using c unfolding keeps_counts_def tracks_episodes_def by meson
qed

section \<open>The choice of an arm\<close>

definition arm_sample :: "(nat \<Rightarrow> rat \<Rightarrow> rat \<Rightarrow> rat) \<Rightarrow> (string \<times> stat_row) list \<Rightarrow> string option \<Rightarrow> nat \<Rightarrow> string \<Rightarrow> rat" where
  "arm_sample rnd post boost i sid = boosted_sample boost sid (rnd i (fst (arm post sid)) (snd (arm post sid)))"

lemma thompson_Cons:
  "thompson rnd post boost i (sid # sids) best most = Inr x \<Longrightarrow>
     thompson rnd post boost (Suc i) sids (if most < arm_sample rnd post boost i sid then sid else best)
       (max most (arm_sample rnd post boost i sid)) = Inr x"
  by (auto simp: arm_sample_def Let_def max_def split: prod.splits if_splits)

lemma thompson_best:
  "thompson rnd post boost i sids best most = Inr x \<Longrightarrow>
     (x = best \<and> (\<forall>j < length sids. arm_sample rnd post boost (i + j) (sids ! j) \<le> most))
     \<or> (\<exists>k < length sids. x = sids ! k \<and> most < arm_sample rnd post boost (i + k) (sids ! k)
          \<and> (\<forall>j < length sids. arm_sample rnd post boost (i + j) (sids ! j) \<le> arm_sample rnd post boost (i + k) (sids ! k))
          \<and> (\<forall>j < k. arm_sample rnd post boost (i + j) (sids ! j) < arm_sample rnd post boost (i + k) (sids ! k)))"
proof (induction sids arbitrary: i best most)
  case Nil
  then show ?case by simp
next
  case (Cons sid sids)
  let ?f = "\<lambda>j. arm_sample rnd post boost (i + j) ((sid # sids) ! j)"
  have shift: "arm_sample rnd post boost (Suc i + j) (sids ! j) = ?f (Suc j)" for j by simp
  from Cons.IH [OF thompson_Cons [OF Cons.prems], unfolded shift]
  show ?case
  proof (elim disjE exE conjE)
    assume x: "x = (if most < arm_sample rnd post boost i sid then sid else best)"
      and le: "\<forall>j < length sids. ?f (Suc j) \<le> max most (arm_sample rnd post boost i sid)"
    show ?thesis
    proof (cases "most < ?f 0")
      case True
      have "\<forall>j < length (sid # sids). ?f j \<le> ?f 0" using le True by (auto simp: less_Suc_eq_0_disj)
      then show ?thesis using x True by (intro disjI2 exI [of _ 0]) simp
    next
      case False
      have "\<forall>j < length (sid # sids). ?f j \<le> most" using le False by (auto simp: less_Suc_eq_0_disj max_def)
      then show ?thesis using x False by simp
    qed
  next
    fix k assume k: "k < length sids" "x = sids ! k" "max most (arm_sample rnd post boost i sid) < ?f (Suc k)"
      and le: "\<forall>j < length sids. ?f (Suc j) \<le> ?f (Suc k)" and less: "\<forall>j < k. ?f (Suc j) < ?f (Suc k)"
    have "\<forall>j < length (sid # sids). ?f j \<le> ?f (Suc k)" using le k(3) by (auto simp: less_Suc_eq_0_disj)
    moreover have "\<forall>j < Suc k. ?f j < ?f (Suc k)" using less k(3) by (auto simp: less_Suc_eq_0_disj)
    ultimately show ?thesis using k by (intro disjI2 exI [of _ "Suc k"]) simp
  qed
qed

text \<open>What a failure row knows is complete: a best strategy comes with its rate.\<close>

definition rates_ok :: "learner_store \<Rightarrow> bool" where
  "rates_ok S \<longleftrightarrow> list_all (\<lambda>f. fl_best f = None \<and> fl_rate f = None \<or> fl_best f \<noteq> None \<and> fl_rate f = Some 1) (ls_failures S)"

lemma rates_ok_other: "ls_failures S' = ls_failures S \<Longrightarrow> rates_ok S \<Longrightarrow> rates_ok S'"
  by (simp add: rates_ok_def)

lemma upsert_arms_failures [simp]: "ls_failures (upsert_arms ck now S) = ls_failures S"
proof -
  have "ls_failures (fold (\<lambda>sid. upsert_prior sid ck 1 1 now) sids S) = ls_failures S" for sids
    by (induction sids arbitrary: S) (simp_all add: upsert_prior_def)
  then show ?thesis by (simp add: upsert_arms_def)
qed

lemma rates_upsert: "rates_ok S \<Longrightarrow> rates_ok (snd (upsert_failure (failure_of q) now S))"
  by (auto simp: rates_ok_def upsert_failure_def failure_of_def coalesce_def list_all_iff)

definition rating :: "'a learner \<Rightarrow> bool" where
  "rating m \<longleftrightarrow> (\<forall>S. rates_ok S \<longrightarrow> rates_ok (snd (m S)))"

named_theorems rating_rules "computations that keep the rates"

lemma rating_bind [rating_rules]: "rating m \<Longrightarrow> (\<And>x. rating (f x)) \<Longrightarrow> rating (sbind m f)"
  unfolding rating_def sbind_def by (auto split: prod.split sum.split; metis snd_conv)

lemma rating_basic [rating_rules]:
  "rating (sret x)" "rating (sraise e)" "rating (sread g)" "rating (lift_py r)" "rating (lift_err r')"
  "rating (supdate (upsert_arms ck now))" "rating (supdate (record_episode run ck sid success sig now))"
  "rating (record_patch_outcome oc)" "rating (upsert_failure (failure_of q) now)"
  using rates_upsert
  by (auto simp: rating_def sret_def sraise_def sread_def lift_py_def lift_err_def supdate_def record_patch_outcome_def record_episode_def
      rates_ok_def split: sum.split)

lemma rating_if [rating_rules]: "rating m \<Longrightarrow> rating n \<Longrightarrow> rating (if b then m else n)"
  by simp

lemma rates_serve: "rates_ok S \<Longrightarrow> rates_ok (serve R D S r)"
proof -
  have "rating (suggest R D rnd now q)" for rnd now q
    unfolding suggest_def Let_def by (intro rating_rules) (auto split: option.split intro!: rating_rules)
  moreover have "rating (ingest_patch R D now q)" for now q
    unfolding ingest_patch_def Let_def by (intro rating_rules)
  moreover assume "rates_ok S"
  ultimately show ?thesis by (auto simp: serve_def rating_def split: learner_request.split)
qed

lemma served_ok: "stat_rows_ok (foldl (serve R D) empty_store rs) \<and> rates_ok (foldl (serve R D) empty_store rs)"
proof -
  have "stat_rows_ok empty_store" "rates_ok empty_store" by (simp_all add: stat_rows_ok_def rates_ok_def empty_store_def)
  moreover have "rates_ok S \<Longrightarrow> rates_ok (foldl (serve R D) S rs)" for S
    by (induction rs arbitrary: S) (auto intro: rates_serve)
  ultimately show ?thesis using counts_run [of empty_store R D rs] by (simp add: keeps_counts_def)
qed

lemma posterior_rows: "map_of (get_posteriors ck S) sid = Some r \<Longrightarrow> r \<in> set (ls_stats S)"
proof -
  have "map_of (fold (\<lambda>r. AList.update (st_strategy r) r) rs post) sid = Some r \<Longrightarrow> r \<in> set rs \<or> map_of post sid = Some r"
    for rs post
  proof (induction rs arbitrary: post)
    case (Cons a rs)
    then have "r \<in> set rs \<or> map_of (AList.update (st_strategy a) a post) sid = Some r" by simp
    then show ?case by (auto simp: update_conv' split: if_splits)
  qed simp
  moreover assume "map_of (get_posteriors ck S) sid = Some r"
  ultimately have "r \<in> set (filter (\<lambda>r. st_context r = ck) (ls_stats S)) \<or> map_of [] sid = Some r"
    unfolding get_posteriors_def by blast
  then show ?thesis by simp
qed

lemma arms_positive: "stat_rows_ok S \<Longrightarrow> 0 < fst (arm (get_posteriors ck S) sid) \<and> 0 < snd (arm (get_posteriors ck S) sid)"
  using posterior_rows [of ck S sid]
  by (fastforce simp: arm_def stat_rows_ok_def list_all_iff stat_ok_def split: option.split)

lemma thompson_returns: "(\<And>sid. 0 < fst (arm post sid) \<and> 0 < snd (arm post sid)) \<Longrightarrow> \<exists>x. thompson rnd post boost i sids best most = Inr x"
proof (induction sids arbitrary: i best most)
  case (Cons sid sids)
  obtain a b where ab: "arm post sid = (a, b)" by fastforce
  then have "\<not> (a \<le> 0 \<or> b \<le> 0)" using Cons.prems [of sid] by simp
  then show ?case using Cons by (simp add: ab Let_def)
qed simp

lemma hint_returns: "rates_ok S \<Longrightarrow> \<exists>h. failure_hint R (known_failure sig S) = Inr h"
proof -
  assume ok: "rates_ok S"
  have "fl_best (shown_rate f) = None \<or> fl_rate (shown_rate f) = Some 1" if "f \<in> set (ls_failures S)" for f
    using ok that by (auto simp: rates_ok_def list_all_iff shown_rate_def)
  then have "known_failure sig S = Some f \<Longrightarrow> fl_best f = None \<or> fl_rate f = Some 1" for f
    by (fastforce simp: known_failure_def lookup_failure_def Cons_eq_filter_iff filter_eq_Cons_iff split: option.splits if_splits list.splits)
  then show ?thesis by (auto simp: failure_hint_def boosted_arm_def split: option.split)
qed

lemma context_failure_text:
  "context_key R meta = Inr ck \<Longrightarrow> \<exists>t. as_str (py_or (dget_or meta ''failure'' PNone) (PStr [])) = Inr t"
  unfolding context_key_def meta_text_def
  by (cases "dget_or meta ''failure'' PNone") (auto simp: py_or_def split: if_splits)

lemma mapped_playbooks: "sid \<in> set PLAYBOOK_IDS \<Longrightarrow> \<exists>pb. map_of PLAYBOOK_MAP sid = Some pb"
  by (cases "map_of PLAYBOOK_MAP sid") (auto simp: map_of_eq_None_iff PLAYBOOK_MAP_def PLAYBOOK_IDS_def image_image)

lemma prior_or_playbook: "sid \<in> set PLAYBOOK_IDS \<Longrightarrow> prior_or post fc sid \<in> set PLAYBOOK_IDS"
  by (auto simp: prior_or_def FAILURE_PLAYBOOK_PRIORS_def playbook_ids split: option.split if_splits)

text \<open>C36: the advice of the learner. After any requests to an empty store, a request whose meta data is text is
  answered. The strategy is that of the first arm with the largest sample drawn from its beta
  distribution (times 1.5 for the arm that fixed this failure before), unless there is no trial yet and
  the failure class has a prior; it is a playbook of the catalogue.\<close>

theorem suggest_answers:
  assumes "S = foldl (serve R D) empty_store requests" "context_key R (sq_meta q) = Inr ck" "\<And>i a b. 0 \<le> rnd i a b"
  shows "\<exists>g S' k fc. suggest R D rnd now q S = (Inr g, S') \<and> sg_context g = ck \<and> k < length PLAYBOOK_IDS
    \<and> as_str (py_or (dget_or (sq_meta q) ''failure'' PNone) (PStr [])) = Inr fc
    \<and> sg_strategy g = prior_or (get_posteriors ck S') (strip fc) (PLAYBOOK_IDS ! k) \<and> sg_strategy g \<in> set PLAYBOOK_IDS
    \<and> (let sample = (\<lambda>j. arm_sample rnd (get_posteriors ck S') (boosted_arm (known_failure (sq_signature q) S')) j (PLAYBOOK_IDS ! j))
       in (\<forall>j < length PLAYBOOK_IDS. sample j \<le> sample k) \<and> (\<forall>j < k. sample j < sample k))"
proof -
  let ?S = "upsert_arms ck now S"
  let ?post = "get_posteriors ck ?S"
  let ?known = "known_failure (sq_signature q) ?S"
  have "stat_rows_ok S" "rates_ok S" using served_ok [of R D requests] by (simp_all add: assms(1))
  then have ok: "stat_rows_ok ?S" "rates_ok ?S"
    using counts_arms [of S ck now] rates_ok_other [of ?S S] by (simp_all add: keeps_counts_def)
  obtain fc where fc: "as_str (py_or (dget_or (sq_meta q) ''failure'' PNone) (PStr [])) = Inr fc"
    using context_failure_text [OF assms(2)] by blast
  obtain hint where hint: "failure_hint R ?known = Inr hint" using hint_returns [OF ok(2)] by blast
  obtain x where x: "thompson rnd ?post (boosted_arm ?known) 0 PLAYBOOK_IDS (hd PLAYBOOK_IDS) (- 1) = Inr x"
    using thompson_returns [OF arms_positive [OF ok(1)]] by blast
  have positive: "- 1 < arm_sample rnd ?post b i sid" for b i sid
    using assms(3) by (auto simp: arm_sample_def boosted_sample_def intro: less_le_trans [of _ 0])
  have first: "\<not> (\<forall>j < length PLAYBOOK_IDS. arm_sample rnd ?post (boosted_arm ?known) (0 + j) (PLAYBOOK_IDS ! j) \<le> - 1)"
    using positive by (auto simp: playbook_ids not_le)
  from thompson_best [OF x] first obtain k where k: "k < length PLAYBOOK_IDS" "x = PLAYBOOK_IDS ! k"
    "\<forall>j < length PLAYBOOK_IDS. arm_sample rnd ?post (boosted_arm ?known) j (PLAYBOOK_IDS ! j)
       \<le> arm_sample rnd ?post (boosted_arm ?known) k (PLAYBOOK_IDS ! k)"
    "\<forall>j < k. arm_sample rnd ?post (boosted_arm ?known) j (PLAYBOOK_IDS ! j)
       < arm_sample rnd ?post (boosted_arm ?known) k (PLAYBOOK_IDS ! k)"
    unfolding add_0 by blast
  have sid: "prior_or ?post (strip fc) x \<in> set PLAYBOOK_IDS" using k(1,2) by (intro prior_or_playbook) simp
  then obtain pb where pb: "map_of PLAYBOOK_MAP (prior_or ?post (strip fc) x) = Some pb" using mapped_playbooks by blast
  obtain g where g: "suggest R D rnd now q S = (Inr g, ?S)" "sg_context g = ck" "sg_strategy g = prior_or ?post (strip fc) x"
    by (auto simp: suggest_def sbind_def lift_py_def lift_err_def assms(2) hint x fc pb sret_def sread_def supdate_def Let_def)
  show ?thesis
    unfolding Let_def by (intro exI [of _ g] exI [of _ ?S] exI [of _ k] exI [of _ fc]) (use g k sid fc in simp)
qed

section \<open>A session\<close>

definition id_order :: database where
  "id_order = \<lparr>db_order = (\<lambda>ks. map snd (sort_key (\<lambda>x. - fst x) (zip ks [0..<length ks])))\<rparr>"

definition demo_suggest :: suggest_req where
  "demo_suggest = \<lparr>sq_repo = ''r'', sq_task = ''t'', sq_meta = [(PStr ''failure'', PStr ''ImportError'')], sq_signature = None\<rparr>"

definition demo_ingest :: "string \<Rightarrow> ingest_req" where
  "demo_ingest stage = \<lparr>iq_run = ''1'', iq_strategy = ''PB_import_fix'', iq_meta = [(PStr ''failure'', PStr ''ImportError'')],
     iq_success = True, iq_signature = [], iq_repo = ''r'', iq_task = ''t'', iq_patch = [], iq_files = [], iq_added = 0,
     iq_deleted = 0, iq_exit = 0, iq_passed = 1, iq_failed = 0, iq_total = 1, iq_class = ''ImportError'', iq_reward = 1,
     iq_stage = stage, iq_module = [], iq_test = [], iq_message = [], iq_hash = []\<rparr>"

definition demo_key :: string where
  "demo_key = ''py|pytest|unknown|importerror|unknown|unknown''"

lemma demo_context: "context_key toy_runtime (sq_meta demo_suggest) = Inr demo_key"
  by code_simp

theorem suggest_answers_witness:
  "\<exists>g S'. suggest toy_runtime id_order (\<lambda>i a b. 0) 0 demo_suggest (foldl (serve toy_runtime id_order) empty_store []) = (Inr g, S')
     \<and> sg_context g = demo_key \<and> sg_strategy g \<in> set PLAYBOOK_IDS"
  using suggest_answers [OF refl demo_context, of "\<lambda>i a b. 0" id_order 0 "[]"] by auto

text \<open>The rows of one context.\<close>

definition demo_store :: learner_store where
  "demo_store = upsert_arms demo_key 0 empty_store"

lemma demo_row: "\<exists>r \<in> set (ls_stats demo_store). row_key r = (''PB_import_fix'', demo_key) \<and> st_wins r = 0"
  unfolding demo_store_def upsert_arms_def playbook_ids by code_simp

lemma demo_ok: "stat_rows_ok demo_store"
  using counts_arms [of empty_store demo_key 0] by (simp add: keeps_counts_def demo_store_def stat_rows_ok_def empty_store_def)

lemma demo_ingested:
  "ls_episodes (foldl (serve toy_runtime id_order) demo_store [Ingest (demo_ingest []) 1]) =
     [\<lparr>ep_run = ''1'', ep_context = demo_key, ep_strategy = ''PB_import_fix'', ep_success = True, ep_failure = [], ep_ts = 1\<rparr>]"
  by code_simp

theorem bandit_counts_results_witness:
  "\<exists>r' \<in> set (ls_stats (foldl (serve toy_runtime id_order) demo_store [Ingest (demo_ingest []) 1])).
     row_key r' = (''PB_import_fix'', demo_key) \<and> st_alpha r' = 2"
proof -
  obtain r where r: "r \<in> set (ls_stats demo_store)" "row_key r = (''PB_import_fix'', demo_key)" "st_wins r = 0"
    using demo_row by blast
  have "ls_episodes demo_store = []" by code_simp
  with bandit_counts_results [OF demo_ok refl, of toy_runtime id_order "[Ingest (demo_ingest []) 1]"] r(1) obtain r'
    where r': "r' \<in> set (ls_stats (foldl (serve toy_runtime id_order) demo_store [Ingest (demo_ingest []) 1]))"
      "row_key r' = row_key r" "stat_ok r'"
      "st_wins r' = st_wins r + results True (row_key r) (ls_episodes (foldl (serve toy_runtime id_order) demo_store [Ingest (demo_ingest []) 1]))"
    by fastforce
  have "st_wins r' = 1" unfolding r'(4) demo_ingested by (simp add: r results_def)
  then have "st_alpha r' = 2" using r'(3) by (simp add: stat_ok_def)
  then show ?thesis using r' r(2) by metis
qed

section \<open>What the learner does not learn\<close>

text \<open>A report that names its stage is counted for another context than the advice that led to it: no row
  changes.\<close>

lemma staged_report_is_lost:
  "ls_stats (serve toy_runtime id_order demo_store (Ingest (demo_ingest ''patch'') 1)) = ls_stats demo_store"
  by code_simp

text \<open>The table of priors has none of the names that the failure parser gives, so it never chooses; the map
  of the catalogue would.\<close>

lemma priors_name_no_class:
  "map_of FAILURE_PLAYBOOK_PRIORS ''ImportError'' = None" "best_for_failure new_registry ''ImportError'' = ''PB_import_fix''"
  by code_simp+

text \<open>The best strategy of a failure is the one of the last success, whatever the rates.\<close>

lemma best_is_last:
  assumes "f \<in> set (ls_failures S)" "fl_hash f = iq_hash q" "iq_success q" "upsert_failure (failure_of q) now S = (Inr (), S')"
  shows "\<exists>f' \<in> set (ls_failures S'). fl_hash f' = iq_hash q \<and> fl_best f' = Some (iq_strategy q) \<and> fl_rate f' = Some 1"
proof -
  let ?g = "\<lambda>r. if fl_hash r = iq_hash q then r\<lparr>fl_count := fl_count r + 1, fl_seen := now, fl_best := Some (iq_strategy q),
    fl_rate := Some 1\<rparr> else r"
  have "ls_failures S' = map ?g (ls_failures S)"
    using assms by (auto simp: upsert_failure_def failure_of_def coalesce_def split: if_splits)
  then show ?thesis using assms(1,2) by (intro bexI [of _ "?g f"]) auto
qed

text \<open>The win rates compare task hashes with a context key. A hash of hexadecimal digits has no bar, so the
  query is always empty.\<close>

lemma like_needs_chars: "sql_like p s \<Longrightarrow> c \<in> set p \<Longrightarrow> c \<noteq> CHR ''%'' \<Longrightarrow> c \<noteq> CHR ''_'' \<Longrightarrow> c \<in> set s"
  by (induction p s rule: sql_like.induct) (auto split: if_splits)

lemma win_rates_are_empty:
  assumes "CHR ''|'' \<in> set ck" "\<forall>r \<in> set (ls_outcomes S). CHR ''|'' \<notin> set (oc_task r)"
  shows "get_strategy_win_rates ck S = []"
proof -
  have "filter (\<lambda>r. sql_like (''%'' @ ck @ ''%'') (oc_task r)) (ls_outcomes S) = []"
    using assms like_needs_chars [of "''%'' @ ck @ ''%''" _ "CHR ''|''"] by (auto simp: filter_empty_conv simp del: append_Cons)
  then show ?thesis by (simp add: get_strategy_win_rates_def del: append_Cons sql_like.simps)
qed

end
