(* ===== verification/Replay_Bundles.thy ===== *)
theory Replay_Bundles
  imports Py_Value Py_Path "HOL-Library.List_Lexorder" "HOL-Library.AList"
begin

text \<open>
  The replay verifier, \<open>services/replay_verifier\<close>: the drift of two manifests (\<open>drift.py\<close>), snapshots and
  hashes of directory trees (\<open>fs_snapshot.py\<close>, \<open>hashutil.py\<close>), the difference of kernel traces
  (\<open>kernel_diff.py\<close>), signatures (\<open>signature.py\<close>), agreement of bundles (\<open>mesh.py\<close>), clusters
  (\<open>cluster.py\<close>), checkpoints (\<open>timetravel.py\<close>) and environments (\<open>physical.py\<close>). Manifests are
  parsed JSON objects, their keys strings. The HMAC is a function.
\<close>

section \<open>Equality of JSON values\<close>

text \<open>Python's \<open>==\<close>: numbers and truth values compare by value, objects as maps.\<close>

fun num_of :: "pyval \<Rightarrow> rat option" where
  "num_of (PBool b) = Some (if b then 1 else 0)"
| "num_of (PInt i) = Some (of_int i)"
| "num_of (PFloat x) = Some x"
| "num_of _ = None"

fun py_eq :: "pyval \<Rightarrow> pyval \<Rightarrow> bool" and eq_list :: "pyval list \<Rightarrow> pyval list \<Rightarrow> bool"
  and eq_dict :: "(pyval \<times> pyval) list \<Rightarrow> pydict \<Rightarrow> bool" where
  "py_eq PNone y = (y = PNone)"
| "py_eq (PBool b) y = (num_of y = Some (if b then 1 else 0))"
| "py_eq (PInt i) y = (num_of y = Some (of_int i))"
| "py_eq (PFloat x) y = (num_of y = Some x)"
| "py_eq (PStr s) y = (y = PStr s)"
| "py_eq (PList xs) y = (case y of PList ys \<Rightarrow> eq_list xs ys | _ \<Rightarrow> False)"
| "py_eq (PDict d) y = (case y of PDict e \<Rightarrow> length d = length e \<and> eq_dict d e | _ \<Rightarrow> False)"
| "eq_list [] ys = (ys = [])"
| "eq_list (x # xs) ys = (case ys of [] \<Rightarrow> False | y # ys' \<Rightarrow> py_eq x y \<and> eq_list xs ys')"
| "eq_dict [] e = True"
| "eq_dict ((k, v) # d) e = ((case map_of e k of None \<Rightarrow> False | Some w \<Rightarrow> py_eq v w) \<and> eq_dict d e)"

section \<open>Drift\<close>

text \<open>A missing key counts as \<open>None\<close>.\<close>

definition get_key :: "pydict \<Rightarrow> pyval \<Rightarrow> pyval" where
  "get_key d k = (case map_of d k of None \<Rightarrow> PNone | Some v \<Rightarrow> v)"

fun deep_equal :: "pyval \<Rightarrow> pyval \<Rightarrow> bool" and deep_list :: "pyval list \<Rightarrow> pyval list \<Rightarrow> bool"
  and deep_dict :: "(pyval \<times> pyval) list \<Rightarrow> pydict \<Rightarrow> bool" where
  "deep_equal PNone b = (b = PNone)"
| "deep_equal (PDict d) b =
     (case b of PDict e \<Rightarrow> deep_dict d e \<and> list_all (\<lambda>(k, w). k \<in> set (map fst d) \<or> w = PNone) e | _ \<Rightarrow> False)"
| "deep_equal (PList xs) b = (case b of PList ys \<Rightarrow> deep_list xs ys | _ \<Rightarrow> False)"
| "deep_equal (PBool x) b = py_eq (PBool x) b"
| "deep_equal (PInt i) b = py_eq (PInt i) b"
| "deep_equal (PFloat x) b = py_eq (PFloat x) b"
| "deep_equal (PStr s) b = py_eq (PStr s) b"
| "deep_list [] ys = (ys = [])"
| "deep_list (x # xs) ys = (case ys of [] \<Rightarrow> False | y # ys' \<Rightarrow> deep_equal x y \<and> deep_list xs ys')"
| "deep_dict [] e = True"
| "deep_dict ((k, v) # d) e = (deep_equal v (get_key e k) \<and> deep_dict d e)"

definition TRACKED_KEYS :: "string list" where
  "TRACKED_KEYS = [''deps'', ''env'', ''patch_hash'', ''kernel_trace_hash'', ''artifact_hash'', ''deps_state'', ''policy_hash'']"

definition tracked :: "string list option \<Rightarrow> string list" where
  "tracked keys = (case keys of None \<Rightarrow> TRACKED_KEYS | Some ks \<Rightarrow> if ks = [] then TRACKED_KEYS else ks)"

definition drifted :: "pydict \<Rightarrow> pydict \<Rightarrow> string \<Rightarrow> bool" where
  "drifted old new key \<longleftrightarrow> \<not> deep_equal (get_key old (PStr key)) (get_key new (PStr key))"

definition compute_drift :: "pydict \<Rightarrow> pydict \<Rightarrow> string list option \<Rightarrow> rat \<times> (string \<times> bool) list" where
  "compute_drift old new keys =
     (let ks = tracked keys
      in (of_nat (length (filter (drifted old new) ks)) / of_nat (max (length ks) 1),
          fold (\<lambda>k. AList.update k (drifted old new k)) ks []))"

record drift_check =
  dc_ok :: bool
  dc_score :: rat
  dc_mismatches :: "string list"
  dc_exceeded :: bool
  dc_threshold :: rat

definition check_drift_from_dicts :: "pydict \<Rightarrow> pydict \<Rightarrow> rat \<Rightarrow> drift_check" where
  "check_drift_from_dicts old new threshold =
     (case compute_drift old new None of (score, mismatches) \<Rightarrow>
        \<lparr>dc_ok = \<not> threshold < score, dc_score = round4 score, dc_mismatches = map fst (filter snd mismatches),
         dc_exceeded = threshold < score, dc_threshold = threshold\<rparr>)"

section \<open>Directory trees\<close>

text \<open>A file may vanish before its size is read, or be unreadable.\<close>

record file_info =
  fi_size :: "int option"
  fi_content :: "string option"
  fi_mtime :: rat

datatype fs_dir = FsDir "(string \<times> file_info) list" "(string \<times> fs_dir) list"

text \<open>\<open>os.walk\<close> with sorted files and pruned, sorted directories: relative path, name and file.\<close>

fun walk_tree :: "(string \<Rightarrow> bool) \<Rightarrow> string \<Rightarrow> fs_dir \<Rightarrow> (string \<times> string \<times> file_info) list" where
  "walk_tree ignored pre (FsDir files dirs) =
     map (\<lambda>(n, f). (pre @ n, n, f)) (sort_key fst files)
     @ concat (map snd (sort_key fst (filter (\<lambda>x. \<not> ignored (fst x))
         (map (\<lambda>(n, d). (n, walk_tree ignored (pre @ n @ [slash]) d)) dirs))))"

definition hash_file :: "runtime \<Rightarrow> int \<Rightarrow> file_info \<Rightarrow> string option" where
  "hash_file R most f =
     (case (fi_size f, fi_content f) of
        (Some n, Some c) \<Rightarrow> if most < n then None else Some (rt_sha256 R c)
      | _ \<Rightarrow> None)"

type_synonym snapshot = "(string \<times> int \<times> string option) list"

definition IGNORED_DIRS :: "string list" where
  "IGNORED_DIRS = [''.git'', ''__pycache__'', ''.venv'', ''venv'', ''node_modules'']"

definition capture :: "runtime \<Rightarrow> string list \<Rightarrow> int \<Rightarrow> fs_dir \<Rightarrow> snapshot" where
  "capture R ignore most tree =
     (let ig = (if ignore = [] then IGNORED_DIRS else ignore)
      in fold (\<lambda>(rel, _, f). AList.update rel (case fi_size f of None \<Rightarrow> (- 1, None) | Some n \<Rightarrow> (n, hash_file R most f)))
           (walk_tree (\<lambda>d. d \<in> set ig) [] tree) [])"

record snapshot_diff =
  sd_added :: "string list"
  sd_removed :: "string list"
  sd_modified :: "string list"
  sd_unchanged :: nat

definition keys_of :: "(string \<times> 'v) list \<Rightarrow> string list" where
  "keys_of d = sort (remdups (map fst d))"

definition snap_hash :: "snapshot \<Rightarrow> string \<Rightarrow> string option" where
  "snap_hash s f = (case map_of s f of None \<Rightarrow> None | Some (_, h) \<Rightarrow> h)"

definition compare_snapshots :: "snapshot \<Rightarrow> snapshot \<Rightarrow> snapshot_diff" where
  "compare_snapshots old new =
     (let common = filter (\<lambda>f. map_of new f \<noteq> None) (keys_of old)
      in \<lparr>sd_added = filter (\<lambda>f. map_of old f = None) (keys_of new), sd_removed = filter (\<lambda>f. map_of new f = None) (keys_of old),
          sd_modified = filter (\<lambda>f. snap_hash old f \<noteq> snap_hash new f) common,
          sd_unchanged = length (filter (\<lambda>f. snap_hash old f = snap_hash new f) common)\<rparr>)"

text \<open>\<open>bytes.fromhex\<close> on a digest.\<close>

definition hex_val :: "char \<Rightarrow> nat" where
  "hex_val c = (if is_digit c then code c - 48 else code (lower_char c) - 87)"

fun from_hex :: "string \<Rightarrow> string" where
  "from_hex (a # b # s) = char_of (16 * hex_val a + hex_val b) # from_hex s"
| "from_hex _ = []"

text \<open>The bytes that one file adds to the hash of the tree; a known file with the same size and time is
  not read again.\<close>

type_synonym known_files = "(string \<times> int \<times> rat \<times> string) list"

definition tree_bytes :: "runtime \<Rightarrow> int \<Rightarrow> known_files \<Rightarrow> string \<times> string \<times> file_info \<Rightarrow> string" where
  "tree_bytes R most known x =
     (case x of (rel, name, f) \<Rightarrow>
        case fi_size f of
          None \<Rightarrow> []
        | Some n \<Rightarrow>
            if most < n then []
            else name @ (case map_of known rel of
                           Some (sz, mtime, h) \<Rightarrow>
                             if sz = n \<and> \<bar>mtime - fi_mtime f\<bar> < 1 / 1000 \<and> h \<noteq> [] then from_hex h
                             else (case fi_content f of None \<Rightarrow> [] | Some c \<Rightarrow> from_hex (rt_sha256 R c))
                         | None \<Rightarrow> (case fi_content f of None \<Rightarrow> [] | Some c \<Rightarrow> from_hex (rt_sha256 R c))))"

definition sha256_tree :: "runtime \<Rightarrow> string list \<Rightarrow> int \<Rightarrow> known_files \<Rightarrow> fs_dir \<Rightarrow> string" where
  "sha256_tree R ignore most known tree =
     rt_sha256 R (concat (map (tree_bytes R most known) (walk_tree (\<lambda>d. d \<in> set ignore) [] tree)))"

section \<open>Kernel traces\<close>

definition decision_key :: "runtime \<Rightarrow> pydict \<Rightarrow> string" where
  "decision_key R r =
     join '':'' (map (\<lambda>k. py_str R (dget_or r k (PStr ''?''))) [''step'', ''action'', ''gate''])"

record trace_diff =
  td_added :: "string list"
  td_removed :: "string list"
  td_changed :: "(string \<times> (pyval \<times> pyval \<times> pyval) list) list"
  td_unchanged :: nat

definition by_key :: "runtime \<Rightarrow> pydict list \<Rightarrow> (string \<times> pydict) list" where
  "by_key R trace = fold (\<lambda>r. AList.update (decision_key R r) r) trace []"

definition field_diffs :: "pydict \<Rightarrow> pydict \<Rightarrow> (pyval \<times> pyval \<times> pyval) list" where
  "field_diffs old new =
     map (\<lambda>k. (k, get_key old k, get_key new k))
       (filter (\<lambda>k. \<not> py_eq (get_key old k) (get_key new k)) (remdups (map fst (old @ new))))"

definition diff_kernels :: "runtime \<Rightarrow> pydict list \<Rightarrow> pydict list \<Rightarrow> trace_diff" where
  "diff_kernels R old_trace new_trace =
     (let old = by_key R old_trace; new = by_key R new_trace;
          common = filter (\<lambda>k. map_of new k \<noteq> None) (keys_of old);
          same = (\<lambda>k. py_eq (PDict (the (map_of old k))) (PDict (the (map_of new k))))
      in \<lparr>td_added = filter (\<lambda>k. map_of old k = None) (keys_of new), td_removed = filter (\<lambda>k. map_of new k = None) (keys_of old),
          td_changed = map (\<lambda>k. (k, field_diffs (the (map_of old k)) (the (map_of new k)))) (filter (\<lambda>k. \<not> same k) common),
          td_unchanged = length (filter same common)\<rparr>)"

section \<open>Signatures\<close>

definition DEFAULT_KEY :: string where
  "DEFAULT_KEY = ''rfsn-replay-default-key-change-me''"

definition signing_key :: "runtime \<Rightarrow> string option \<Rightarrow> string \<Rightarrow> string" where
  "signing_key R env_key policy_hash =
     (case env_key of
        Some k \<Rightarrow> if k \<noteq> [] then k else if policy_hash \<noteq> [] then from_hex (rt_sha256 R (''rfsn-sign-'' @ policy_hash)) else DEFAULT_KEY
      | None \<Rightarrow> if policy_hash \<noteq> [] then from_hex (rt_sha256 R (''rfsn-sign-'' @ policy_hash)) else DEFAULT_KEY)"

record replay_bundle =
  bu_manifest :: "pydict option"
  bu_signature :: "string option"

definition sign_manifest :: "runtime \<Rightarrow> (string \<Rightarrow> string \<Rightarrow> string) \<Rightarrow> string \<Rightarrow> pydict \<Rightarrow> string" where
  "sign_manifest R hmac key m = hmac key (rt_dumps R True (PDict m))"

definition verify_manifest :: "runtime \<Rightarrow> (string \<Rightarrow> string \<Rightarrow> string) \<Rightarrow> string \<Rightarrow> pydict \<Rightarrow> string \<Rightarrow> bool" where
  "verify_manifest R hmac key m expected \<longleftrightarrow> sign_manifest R hmac key m = expected"

text \<open>A missing manifest raises.\<close>

definition sign_bundle :: "runtime \<Rightarrow> (string \<Rightarrow> string \<Rightarrow> string) \<Rightarrow> string \<Rightarrow> replay_bundle \<Rightarrow> (string \<times> replay_bundle) res" where
  "sign_bundle R hmac key b =
     (case bu_manifest b of
        None \<Rightarrow> Inl OSError
      | Some m \<Rightarrow> let sig = sign_manifest R hmac key m in Inr (sig, b\<lparr>bu_signature := Some sig\<rparr>))"

definition verify_bundle :: "runtime \<Rightarrow> (string \<Rightarrow> string \<Rightarrow> string) \<Rightarrow> string \<Rightarrow> replay_bundle \<Rightarrow> bool res" where
  "verify_bundle R hmac key b =
     (case bu_signature b of
        None \<Rightarrow> Inr False
      | Some sig \<Rightarrow> (case bu_manifest b of None \<Rightarrow> Inl OSError | Some m \<Rightarrow> Inr (verify_manifest R hmac key m (strip sig))))"

section \<open>Agreement of bundles\<close>

definition DETERMINISM_KEYS :: "string list" where
  "DETERMINISM_KEYS = [''patch_hash'', ''kernel_trace_hash'', ''artifact_hash'', ''deps'']"

definition bundle_fingerprint :: "runtime \<Rightarrow> string list \<Rightarrow> pydict option \<Rightarrow> string" where
  "bundle_fingerprint R keys manifest =
     (case manifest of
        None \<Rightarrow> ''__MISSING__''
      | Some m \<Rightarrow> join ''|'' (map (\<lambda>k. rt_dumps R True (get_key m (PStr k))) keys))"

record mesh_report =
  mr_ok :: bool
  mr_total :: nat
  mr_consensus :: nat
  mr_deviants :: "string list"
  mr_fingerprint :: "string option"

text \<open>\<open>Counter.most_common(1)\<close>: the first of the most frequent values.\<close>

definition most_common :: "string list \<Rightarrow> string option" where
  "most_common xs =
     (case sort_key (\<lambda>x. - int (length (filter (\<lambda>y. y = x) xs))) xs of [] \<Rightarrow> None | x # _ \<Rightarrow> Some x)"

definition verify_mesh :: "runtime \<Rightarrow> string list option \<Rightarrow> (string \<times> pydict option) list \<Rightarrow> mesh_report" where
  "verify_mesh R keys bundles =
     (let ks = (case keys of None \<Rightarrow> DETERMINISM_KEYS | Some k \<Rightarrow> if k = [] then DETERMINISM_KEYS else k);
          fps = fold (\<lambda>(name, m). AList.update name (bundle_fingerprint R ks m)) bundles []
      in case most_common (map snd fps) of
           None \<Rightarrow> \<lparr>mr_ok = False, mr_total = 0, mr_consensus = 0, mr_deviants = [], mr_fingerprint = None\<rparr>
         | Some top_fp \<Rightarrow>
             let deviants = map fst (filter (\<lambda>x. snd x \<noteq> top_fp) fps)
             in \<lparr>mr_ok = (deviants = []), mr_total = length bundles,
                 mr_consensus = length (filter (\<lambda>fp. fp = top_fp) (map snd fps)), mr_deviants = deviants,
                 mr_fingerprint = Some top_fp\<rparr>)"

section \<open>Clusters\<close>

definition cluster_key :: "runtime \<Rightarrow> pydict \<Rightarrow> string" where
  "cluster_key R m = py_str R (dget_or m ''patch_hash'' (PStr ''none'')) @ '':'' @ py_str R (dget_or m ''outcome'' (PStr ''unknown''))"

definition add_to_cluster :: "string \<Rightarrow> string \<Rightarrow> (string \<times> string list) list \<Rightarrow> (string \<times> string list) list" where
  "add_to_cluster key name cs = AList.update key ((case map_of cs key of None \<Rightarrow> [] | Some xs \<Rightarrow> xs) @ [name]) cs"

definition cluster_bundles :: "runtime \<Rightarrow> (string \<times> pydict option) list \<Rightarrow> (string \<times> string list) list" where
  "cluster_bundles R dirs =
     fold (\<lambda>(name, m). add_to_cluster (case m of None \<Rightarrow> ''_no_manifest'' | Some d \<Rightarrow> cluster_key R d) name) (sort_key fst dirs) []"

definition split_colon :: "string \<Rightarrow> string \<times> string" where
  "split_colon s = (if CHR '':'' \<in> set s then (takeWhile (\<lambda>c. c \<noteq> CHR '':'') s, tl (dropWhile (\<lambda>c. c \<noteq> CHR '':'') s)) else (s, ''?''))"

definition summarize_clusters :: "(string \<times> string list) list \<Rightarrow> (string \<times> string \<times> string \<times> string list) list" where
  "summarize_clusters cs =
     sort_key (\<lambda>(_, _, _, bs). - int (length bs))
       (map (\<lambda>(key, bs). case split_colon key of (patch, rest) \<Rightarrow> (key, patch, rest, bs)) cs)"

section \<open>Checkpoints\<close>

text \<open>The comparison of two checkpoints, given the manifests of the checkpoints in their order.\<close>

definition str_of :: "pyval \<Rightarrow> string" where
  "str_of v = (case v of PStr t \<Rightarrow> t | _ \<Rightarrow> [])"

definition rewind_to :: "pydict option list \<Rightarrow> int \<Rightarrow> pydict option" where
  "rewind_to checkpoints i = (if i < 0 \<or> int (length checkpoints) \<le> i then None else checkpoints ! nat i)"

definition compare_checkpoints :: "pydict option list \<Rightarrow> int \<Rightarrow> int \<Rightarrow> (string \<times> pyval \<times> pyval) list option" where
  "compare_checkpoints checkpoints i j =
     (case (rewind_to checkpoints i, rewind_to checkpoints j) of
        (Some a, Some b) \<Rightarrow>
          Some (map (\<lambda>k. (k, get_key a (PStr k), get_key b (PStr k)))
            (filter (\<lambda>k. \<not> py_eq (get_key a (PStr k)) (get_key b (PStr k)))
              (sort (remdups (map (\<lambda>(k, _). str_of k) (a @ b))))))
      | _ \<Rightarrow> None)"

section \<open>Environments\<close>

definition upper_char :: "char \<Rightarrow> char" where
  "upper_char c = (if 97 \<le> code c \<and> code c \<le> 122 then char_of (code c - 32) else c)"

definition ENV_SECRETS :: "string list" where
  "ENV_SECRETS = [''KEY'', ''SECRET'', ''TOKEN'', ''PASSWORD'', ''CREDENTIAL'', ''AUTH'']"

definition sanitize_env :: "(string \<times> string) list \<Rightarrow> (string \<times> string) list" where
  "sanitize_env env =
     map (\<lambda>(k, v). (k, if \<exists>pat \<in> set ENV_SECRETS. occurs_in pat (map upper_char k) then ''[REDACTED]'' else v)) env"

record env_snapshot =
  es_python :: string
  es_system :: string
  es_machine :: string
  es_seed :: "int option"
  es_workspace :: string
  es_files :: "(string \<times> string) list"
  es_packages :: "(string \<times> string) list"

record env_drift =
  ed_identical :: bool
  ed_python :: bool
  ed_platform :: bool
  ed_seed :: bool
  ed_workspace :: bool
  ed_packages :: "string list"
  ed_files :: "string list"

definition lookup_or :: "(string \<times> string) list \<Rightarrow> string \<Rightarrow> string" where
  "lookup_or d k = (case map_of d k of None \<Rightarrow> ''<missing>'' | Some v \<Rightarrow> v)"

definition file_diffs :: "(string \<times> string) list \<Rightarrow> (string \<times> string) list \<Rightarrow> string list" where
  "file_diffs a b =
     map (\<lambda>f. ''  '' @ f @ '': '' @ take 12 (lookup_or a f) @ ''... -> '' @ take 12 (lookup_or b f) @ ''...'')
       (filter (\<lambda>f. lookup_or a f \<noteq> lookup_or b f) (keys_of (a @ b)))"

definition package_diffs :: "(string \<times> string) list \<Rightarrow> (string \<times> string) list \<Rightarrow> string list" where
  "package_diffs a b =
     map (\<lambda>f. ''  '' @ f @ '': '' @ lookup_or a f @ '' -> '' @ lookup_or b f)
       (filter (\<lambda>f. lookup_or a f \<noteq> lookup_or b f) (keys_of (a @ b)))"

definition compare_environments :: "env_snapshot \<Rightarrow> env_snapshot \<Rightarrow> env_drift" where
  "compare_environments a b =
     (let python = (es_python a = es_python b); platform = (es_system a = es_system b \<and> es_machine a = es_machine b);
          seed = (es_seed a = es_seed b); workspace = (es_workspace a = es_workspace b);
          packages = package_diffs (es_packages a) (es_packages b)
      in \<lparr>ed_identical = (python \<and> platform \<and> seed \<and> workspace \<and> packages = []), ed_python = python, ed_platform = platform,
          ed_seed = seed, ed_workspace = workspace, ed_packages = packages,
          ed_files = (if workspace then [] else file_diffs (es_files a) (es_files b))\<rparr>)"

text \<open>The hash of a workspace: the files in the order of their paths, given by the parts of the path below
  the root; a directory to skip may also be a part of the root. A file that vanishes raises.\<close>

definition SKIP_DIRS :: "string list" where
  "SKIP_DIRS = [''.git'', ''__pycache__'', ''node_modules'', ''.tox'', ''.mypy_cache'', ''venv'', ''.venv'']"

fun hash_entries ::
    "runtime \<Rightarrow> string list \<Rightarrow> nat \<Rightarrow> (string list \<times> file_info) list \<Rightarrow> (string \<times> string) list \<Rightarrow> (string \<times> string) list res" where
  "hash_entries R base n [] acc = Inr acc"
| "hash_entries R base n ((parts, f) # files) acc =
     (if 5000 \<le> n then Inr acc
      else if \<exists>d \<in> set SKIP_DIRS. d \<in> set (base @ parts) then hash_entries R base n files acc
      else case fi_size f of
             None \<Rightarrow> Inl OSError
           | Some sz \<Rightarrow>
               if 10 * 1024 * 1024 < sz then hash_entries R base n files acc
               else hash_entries R base (Suc n) files
                 (AList.update (join [slash] parts) (case fi_content f of None \<Rightarrow> ''ERROR'' | Some c \<Rightarrow> rt_sha256 R c) acc))"

definition hash_workspace ::
    "runtime \<Rightarrow> (pyval \<Rightarrow> string) \<Rightarrow> string list \<Rightarrow> (string list \<times> file_info) list \<Rightarrow> (string \<times> (string \<times> string) list) res" where
  "hash_workspace R dumps base files =
     ebind (hash_entries R base 0 (sort_key fst files) []) (\<lambda>manifest.
     Inr (rt_sha256 R (dumps (PDict (map (\<lambda>(k, v). (PStr k, PStr v)) manifest))), manifest))"

section \<open>The check of a replay\<close>

definition replay_check :: "pydict \<Rightarrow> pydict \<Rightarrow> string option" where
  "replay_check old new =
     (let differs = (\<lambda>k. \<not> py_eq (get_key old (PStr k)) (get_key new (PStr k)))
      in if differs ''deps'' then Some ''deps mismatch''
         else if differs ''env'' then Some ''env mismatch''
         else if differs ''patch_hash'' then Some ''patch mismatch''
         else if differs ''kernel_trace_hash'' then Some ''kernel trace mismatch'' else None)"

section \<open>Deep equality\<close>

text \<open>Objects have distinct keys.\<close>

fun json_ok :: "pyval \<Rightarrow> bool" and json_list :: "pyval list \<Rightarrow> bool" and json_dict :: "(pyval \<times> pyval) list \<Rightarrow> bool" where
  "json_ok (PList xs) = json_list xs"
| "json_ok (PDict d) = (distinct (map fst d) \<and> json_dict d)"
| "json_ok _ = True"
| "json_list [] = True"
| "json_list (x # xs) = (json_ok x \<and> json_list xs)"
| "json_dict [] = True"
| "json_dict ((k, v) # d) = (json_ok v \<and> json_dict d)"

text \<open>A value without the keys that map to \<open>None\<close>.\<close>

fun strip_nulls :: "pyval \<Rightarrow> pyval" and strip_list :: "pyval list \<Rightarrow> pyval list" and strip_dict :: "(pyval \<times> pyval) list \<Rightarrow> pydict" where
  "strip_nulls (PList xs) = PList (strip_list xs)"
| "strip_nulls (PDict d) = PDict (strip_dict d)"
| "strip_nulls PNone = PNone"
| "strip_nulls (PBool b) = PBool b"
| "strip_nulls (PInt i) = PInt i"
| "strip_nulls (PFloat x) = PFloat x"
| "strip_nulls (PStr t) = PStr t"
| "strip_list [] = []"
| "strip_list (x # xs) = strip_nulls x # strip_list xs"
| "strip_dict [] = []"
| "strip_dict ((k, v) # d) = (if v = PNone then strip_dict d else (k, strip_nulls v) # strip_dict d)"

lemma strip_null_iff [simp]: "strip_nulls v = PNone \<longleftrightarrow> v = PNone"
  by (cases v) auto

lemma strip_str_iff [simp]: "strip_nulls v = PStr t \<longleftrightarrow> v = PStr t"
  by (cases v) auto

lemma num_of_strip [simp]: "num_of (strip_nulls v) = num_of v"
  by (cases v) auto

lemma deep_none [simp]: "deep_equal v PNone \<longleftrightarrow> v = PNone"
  by (cases v) auto

lemma json_dict_iff: "json_dict d \<longleftrightarrow> (\<forall>(k, v) \<in> set d. json_ok v)"
  by (induction d) auto

lemma strip_dict_set: "set (strip_dict d) = {(k, strip_nulls v) |k v. (k, v) \<in> set d \<and> v \<noteq> PNone}"
  by (induction d) (auto split: if_splits)

lemma strip_dict_keys: "set (map fst (strip_dict d)) \<subseteq> set (map fst d)"
  by (force simp: strip_dict_set)

lemma strip_dict_distinct: "distinct (map fst d) \<Longrightarrow> distinct (map fst (strip_dict d))"
proof (induction d)
  case (Cons x d)
  then show ?case using strip_dict_keys [of d] by (cases x) auto
qed simp

lemma map_of_strip:
  "distinct (map fst d) \<Longrightarrow> map_of (strip_dict d) k = (case map_of d k of None \<Rightarrow> None | Some v \<Rightarrow> if v = PNone then None else Some (strip_nulls v))"
proof (induction d)
  case (Cons x d)
  obtain k' v where x: "x = (k', v)" by fastforce
  have "k' = k \<Longrightarrow> map_of d k = None" using Cons.prems by (auto simp: x map_of_eq_None_iff)
  then show ?case using Cons by (auto simp: x)
qed simp

lemma deep_dict_iff: "deep_dict d e \<longleftrightarrow> (\<forall>(k, v) \<in> set d. deep_equal v (get_key e k))"
  by (induction d) auto

lemma eq_dict_iff: "eq_dict d e \<longleftrightarrow> (\<forall>(k, v) \<in> set d. \<exists>w. map_of e k = Some w \<and> py_eq v w)"
  by (induction d) (auto split: option.splits)

lemma same_keys:
  assumes "distinct (map fst d)" "distinct (map fst e)" "set (map fst d) \<subseteq> set (map fst e)"
  shows "length d = length e \<longleftrightarrow> set (map fst e) \<subseteq> set (map fst d)"
proof -
  have "card (set (map fst d)) = length d" "card (set (map fst e)) = length e"
    using assms(1,2) distinct_card by fastforce+
  then show ?thesis using assms(3) by (metis card_subset_eq finite_set order_refl subset_antisym)
qed

text \<open>Two objects agree up to keys that map to \<open>None\<close>.\<close>

lemma deep_dict_strip:
  assumes d: "distinct (map fst d)" and e: "distinct (map fst e)" "\<forall>(k, w) \<in> set e. json_ok w"
    and IH: "\<And>k v w. (k, v) \<in> set d \<Longrightarrow> json_ok w \<Longrightarrow> deep_equal v w \<longleftrightarrow> py_eq (strip_nulls v) (strip_nulls w)"
  shows "deep_dict d e \<and> list_all (\<lambda>(k, w). k \<in> set (map fst d) \<or> w = PNone) e
    \<longleftrightarrow> length (strip_dict d) = length (strip_dict e) \<and> eq_dict (strip_dict d) (strip_dict e)"
proof -
  have value_at: "deep_equal v (get_key e k) \<longleftrightarrow>
      (if v = PNone then map_of (strip_dict e) k = None
       else \<exists>w. map_of (strip_dict e) k = Some w \<and> py_eq (strip_nulls v) w)" if kv: "(k, v) \<in> set d" for k v
  proof (cases "map_of e k")
    case None
    then show ?thesis by (simp add: get_key_def map_of_strip [OF e(1)])
  next
    case (Some w)
    then have "json_ok w" using e(2) map_of_SomeD [OF Some] by auto
    from IH [OF kv this] show ?thesis
      by (cases "v = PNone") (auto simp: get_key_def map_of_strip [OF e(1)] Some)
  qed
  have nulls: "map_of (strip_dict e) k = None \<longleftrightarrow> k \<notin> set (map fst (strip_dict e))" for k
    by (auto simp: map_of_eq_None_iff)
  have keys_d: "k \<in> set (map fst (strip_dict d)) \<longleftrightarrow> (\<exists>v. (k, v) \<in> set d \<and> v \<noteq> PNone)" for k
    by (force simp: strip_dict_set)
  have keys_e: "k \<in> set (map fst (strip_dict e)) \<longleftrightarrow> (\<exists>v. (k, v) \<in> set e \<and> v \<noteq> PNone)" for k
    by (force simp: strip_dict_set)
  have one: "(k, v) \<in> set d \<Longrightarrow> (k, v') \<in> set d \<Longrightarrow> v = v'" for k v v'
    using d by (metis map_of_is_SomeI option.inject)
  have left: "deep_dict d e \<longleftrightarrow> (\<forall>(k, v) \<in> set d. v = PNone \<longrightarrow> k \<notin> set (map fst (strip_dict e)))
      \<and> eq_dict (strip_dict d) (strip_dict e)"
    unfolding deep_dict_iff eq_dict_iff strip_dict_set using value_at nulls by fastforce
  have sub: "eq_dict (strip_dict d) (strip_dict e) \<Longrightarrow> set (map fst (strip_dict d)) \<subseteq> set (map fst (strip_dict e))"
    unfolding eq_dict_iff by (force dest: map_of_SomeD)
  have right: "(\<forall>(k, v) \<in> set d. v = PNone \<longrightarrow> k \<notin> set (map fst (strip_dict e)))
      \<and> list_all (\<lambda>(k, w). k \<in> set (map fst d) \<or> w = PNone) e
      \<longleftrightarrow> set (map fst (strip_dict e)) \<subseteq> set (map fst (strip_dict d))"
  proof
    assume l: "(\<forall>(k, v) \<in> set d. v = PNone \<longrightarrow> k \<notin> set (map fst (strip_dict e)))
      \<and> list_all (\<lambda>(k, w). k \<in> set (map fst d) \<or> w = PNone) e"
    show "set (map fst (strip_dict e)) \<subseteq> set (map fst (strip_dict d))"
    proof
      fix k assume k: "k \<in> set (map fst (strip_dict e))"
      then obtain w where "(k, w) \<in> set e" "w \<noteq> PNone" unfolding keys_e by blast
      then have "k \<in> set (map fst d)" using l by (auto simp: list_all_iff)
      then obtain v where "(k, v) \<in> set d" by auto
      then show "k \<in> set (map fst (strip_dict d))" using l k unfolding keys_d by blast
    qed
  next
    assume r: "set (map fst (strip_dict e)) \<subseteq> set (map fst (strip_dict d))"
    have "k \<notin> set (map fst (strip_dict e))" if "(k, PNone) \<in> set d" for k
      using r one [OF that] keys_d by blast
    moreover have "k \<in> set (map fst d) \<or> w = PNone" if "(k, w) \<in> set e" for k w
      using r that keys_e keys_d strip_dict_keys [of d] by blast
    ultimately show "(\<forall>(k, v) \<in> set d. v = PNone \<longrightarrow> k \<notin> set (map fst (strip_dict e)))
      \<and> list_all (\<lambda>(k, w). k \<in> set (map fst d) \<or> w = PNone) e" by (fastforce simp: list_all_iff)
  qed
  show ?thesis
    using left right sub same_keys [OF strip_dict_distinct [OF d] strip_dict_distinct [OF e(1)]] by blast
qed

lemma deep_equal_strip_all:
  "json_ok a \<Longrightarrow> json_ok b \<Longrightarrow> deep_equal a b \<longleftrightarrow> py_eq (strip_nulls a) (strip_nulls b)"
  "json_list xs \<Longrightarrow> json_list ys \<Longrightarrow> deep_list xs ys \<longleftrightarrow> eq_list (strip_list xs) (strip_list ys)"
  "json_dict d \<Longrightarrow> (k, v) \<in> set d \<Longrightarrow> json_ok w \<Longrightarrow> deep_equal v w \<longleftrightarrow> py_eq (strip_nulls v) (strip_nulls w)"
proof (induction a and xs and d arbitrary: b and ys and k v w rule: json_ok_json_list_json_dict.induct)
  case (1 xs)
  then show ?case by (cases b) auto
next
  case (2 d)
  show ?case
  proof (cases b)
    case (PDict e)
    have "\<forall>(k, w) \<in> set e. json_ok w" "distinct (map fst e)" using "2.prems"(2) by (simp_all add: PDict json_dict_iff)
    then have "deep_dict d e \<and> list_all (\<lambda>(k, w). k \<in> set (map fst d) \<or> w = PNone) e
        \<longleftrightarrow> length (strip_dict d) = length (strip_dict e) \<and> eq_dict (strip_dict d) (strip_dict e)"
      using "2.IH" "2.prems"(1) by (intro deep_dict_strip) auto
    then show ?thesis by (simp add: PDict)
  qed auto
next
  case (5 x xs)
  then show ?case by (cases ys) auto
next
  case 6
  then show ?case by simp
next
  case (7 k' v' d)
  then show ?case by auto
next
  case 4
  then show ?case by (cases ys) auto
qed auto

text \<open>C39: what the drift between two manifests means. The score lies between 0 and 1, and for JSON objects
  it is 0 exactly when every tracked key has, up to object keys that are \<open>None\<close> or missing, equal values in
  the sense of Python's \<open>==\<close>.\<close>

theorem drift_zero_iff_equal:
  assumes "json_ok (PDict old)" "json_ok (PDict new)"
  shows "0 \<le> fst (compute_drift old new keys) \<and> fst (compute_drift old new keys) \<le> 1
    \<and> (fst (compute_drift old new keys) = 0 \<longleftrightarrow>
         list_all (\<lambda>k. py_eq (strip_nulls (get_key old (PStr k))) (strip_nulls (get_key new (PStr k)))) (tracked keys))"
proof -
  have ok: "json_ok (get_key d k)" if "json_ok (PDict d)" for d k
    using that by (auto simp: get_key_def json_dict_iff split: option.split dest!: map_of_SomeD)
  have eq: "\<not> drifted old new k \<longleftrightarrow> py_eq (strip_nulls (get_key old (PStr k))) (strip_nulls (get_key new (PStr k)))" for k
    unfolding drifted_def not_not by (rule deep_equal_strip_all(1) [OF ok [OF assms(1)] ok [OF assms(2)]])
  have some: "0 < length (tracked keys)" by (simp add: tracked_def TRACKED_KEYS_def split: option.split)
  have "length (filter (drifted old new) (tracked keys)) \<le> length (tracked keys)" by simp
  moreover have "filter (drifted old new) (tracked keys) = []
      \<longleftrightarrow> list_all (\<lambda>k. py_eq (strip_nulls (get_key old (PStr k))) (strip_nulls (get_key new (PStr k)))) (tracked keys)"
    unfolding eq [symmetric] by (simp add: filter_empty_conv list_all_iff)
  moreover have "max (length (tracked keys)) 1 = length (tracked keys)" using some by linarith
  ultimately show ?thesis using some
    by (simp add: compute_drift_def Let_def divide_le_eq le_max_iff_disj del: One_nat_def)
qed

theorem drift_zero_iff_equal_witness:
  "fst (compute_drift [(PStr ''deps'', PDict [(PStr ''a'', PInt 1), (PStr ''b'', PNone)])] [(PStr ''deps'', PDict [(PStr ''a'', PFloat 1)])]
      (Some [''deps'', ''env''])) = 0"
proof -
  let ?old = "[(PStr ''deps'', PDict [(PStr ''a'', PInt 1), (PStr ''b'', PNone)])]" and ?new = "[(PStr ''deps'', PDict [(PStr ''a'', PFloat 1)])]"
  have "json_ok (PDict ?old)" "json_ok (PDict ?new)" by simp_all
  moreover have "list_all (\<lambda>k. py_eq (strip_nulls (get_key ?old (PStr k))) (strip_nulls (get_key ?new (PStr k)))) (tracked (Some [''deps'', ''env'']))"
    by (simp add: tracked_def get_key_def)
  ultimately show ?thesis using drift_zero_iff_equal by blast
qed

section \<open>Agreement\<close>

lemma update_append_new: "k \<notin> set (map fst acc) \<Longrightarrow> AList.update k v acc = acc @ [(k, v)]"
  by (induction acc) auto

lemma most_common_in: "most_common xs = Some z \<Longrightarrow> z \<in> set xs"
  unfolding most_common_def by (metis (no_types, lifting) list.case_eq_if list.set_sel(1) option.distinct(1) option.inject set_sort)

lemma most_common_none: "most_common xs = None \<longleftrightarrow> xs = []"
  unfolding most_common_def by (metis (no_types, lifting) list.case_eq_if option.distinct(1) set_empty set_sort)

text \<open>Agreement of replay bundles. The check succeeds exactly when there is a bundle and all bundles
  have the fingerprint of the first; then the consensus is that fingerprint. (Bundles have distinct names.)\<close>

theorem mesh_ok_iff_agreement:
  assumes "distinct (map fst bundles)"
  shows "mr_ok (verify_mesh R None bundles) \<longleftrightarrow>
    bundles \<noteq> [] \<and> list_all (\<lambda>b. bundle_fingerprint R DETERMINISM_KEYS (snd b)
      = bundle_fingerprint R DETERMINISM_KEYS (snd (hd bundles))) bundles"
proof -
  let ?fp = "\<lambda>b. bundle_fingerprint R DETERMINISM_KEYS (snd b)"
  have "fold (\<lambda>(name, m). AList.update name (bundle_fingerprint R DETERMINISM_KEYS m)) bs acc
      = acc @ map (\<lambda>b. (fst b, ?fp b)) bs" if "distinct (map fst acc @ map fst bs)" for bs acc
    using that
  proof (induction bs arbitrary: acc)
    case (Cons b bs)
    have "AList.update (fst b) (?fp b) acc = acc @ [(fst b, ?fp b)]" using Cons.prems by (intro update_append_new) auto
    then show ?case using Cons by (auto simp: case_prod_unfold)
  qed simp
  from this [of "[]" bundles] have fps: "fold (\<lambda>(name, m). AList.update name (bundle_fingerprint R DETERMINISM_KEYS m)) bundles []
      = map (\<lambda>b. (fst b, ?fp b)) bundles" using assms by simp
  show ?thesis
  proof (cases bundles)
    case Nil
    then show ?thesis by (simp add: verify_mesh_def most_common_def)
  next
    case (Cons b bs)
    then obtain top_fp where fp: "most_common (map ?fp bundles) = Some top_fp"
      using most_common_none [of "map ?fp bundles"] by auto
    then obtain c where c: "c \<in> set bundles" "?fp c = top_fp" using most_common_in by force
    have "mr_ok (verify_mesh R None bundles) \<longleftrightarrow> (\<forall>x \<in> set bundles. ?fp x = top_fp)"
      using fp by (auto simp: verify_mesh_def Let_def fps o_def filter_empty_conv)
    also have "\<dots> \<longleftrightarrow> (\<forall>x \<in> set bundles. ?fp x = ?fp (hd bundles))"
      using c Cons by (metis list.sel(1) list.set_intros(1))
    finally show ?thesis using Cons by (simp add: list_all_iff)
  qed
qed

theorem mesh_ok_iff_agreement_witness:
  "\<not> mr_ok (verify_mesh toy_runtime None [(''a'', None), (''b'', Some [])])"
  using mesh_ok_iff_agreement [of "[(''a'', None), (''b'', Some [])]" toy_runtime]
  by (simp add: bundle_fingerprint_def toy_runtime_def DETERMINISM_KEYS_def)

section \<open>What the verifier does not notice\<close>

text \<open>Bundles without manifests agree. A file that moves to another directory leaves the hash of the tree as it is,
  a file that is too large or unreadable is never modified, and of several decisions with one key only the
  last is compared.\<close>

lemma missing_bundles_agree: "mr_ok (verify_mesh R None [(''a'', None), (''b'', None)])"
  by (simp add: verify_mesh_def most_common_def bundle_fingerprint_def)

lemma moved_file_same_hash:
  "sha256_tree R [] most [] (FsDir [] [(''a'', FsDir [(''f'', i)] [])]) = sha256_tree R [] most [] (FsDir [] [(''b'', FsDir [(''f'', i)] [])])"
proof -
  have "tree_bytes R most [] (rel, n, i) = tree_bytes R most [] (rel', n, i)" for rel rel' n
    by (simp add: tree_bytes_def cong: option.case_cong if_cong)
  from this [of "''a'' @ [slash] @ ''f''" "''f''" "''b'' @ [slash] @ ''f''"] show ?thesis
    by (simp add: sha256_tree_def)
qed

lemma unhashed_is_unmodified:
  "sd_modified (compare_snapshots [(''f'', 1, None)] [(''f'', 2, None)]) = []"
  by (simp add: compare_snapshots_def keys_of_def snap_hash_def)

lemma repeated_decisions_are_lost:
  "diff_kernels R [d, e] [e] = diff_kernels R [e] [e]" if "decision_key R d = decision_key R e"
  using that by (simp add: diff_kernels_def by_key_def)

lemma signed_bundle_verifies:
  "(\<And>k m. strip (hmac k m) = hmac k m) \<Longrightarrow> sign_bundle R hmac key b = Inr (sig, b') \<Longrightarrow> verify_bundle R hmac key b' = Inr True"
  by (auto simp: sign_bundle_def verify_bundle_def verify_manifest_def sign_manifest_def Let_def split: option.splits)

end
