(* ===== verification/Autofix.thy ===== *)
theory Autofix
  imports Py_Text Py_Regex Py_Path "HOL-Library.AList" "HOL-Library.List_Lexorder" "HOL-Library.Char_ord"
begin

text \<open>
  The automatic repair loop, \<open>autofix\<close>: failures are read from logs (\<open>ingest.py\<close>), classified and ordered
  (\<open>analyze.py\<close>), turned into actions (\<open>actions.py\<close>), applied (\<open>apply.py\<close>) and checked (\<open>verify.py\<close>) by
  the controller (\<open>controller.py\<close>). Log files are texts with universal newlines; JSON parsing, the outcome
  of processes and the clock belong to a world. Dictionaries with fixed keys are records.
\<close>

section \<open>Reading failures\<close>

text \<open>What the log says may have any JSON type.\<close>

record failure =
  fr_source :: string
  fr_message :: pyval
  fr_kind :: pyval
  fr_file :: pyval
  fr_line :: pyval
  fr_traceback :: pyval

definition log_record :: "runtime \<Rightarrow> string \<Rightarrow> int \<Rightarrow> pydict \<Rightarrow> failure" where
  "log_record R path n entry =
     \<lparr>fr_source = path, fr_message = dget_or entry ''message'' (dget_or entry ''msg'' (PStr (py_str R (PDict entry)))),
      fr_kind = dget_or entry ''error_type'' (PStr ''log_error''), fr_file = dget_or entry ''file'' (PStr []),
      fr_line = dget_or entry ''line'' (PInt n), fr_traceback = dget_or entry ''traceback'' (PStr [])\<rparr>"

text \<open>A line that is not JSON is skipped, but an entry that is no object, or a level that is no text, raises.\<close>

fun parse_lines :: "runtime \<Rightarrow> (string \<Rightarrow> pyval option) \<Rightarrow> string \<Rightarrow> int \<Rightarrow> string list \<Rightarrow> failure list res" where
  "parse_lines R loads path n [] = Inr []"
| "parse_lines R loads path n (l # ls) =
     (if strip l = [] then parse_lines R loads path (n + 1) ls
      else case loads (strip l) of
             None \<Rightarrow> parse_lines R loads path (n + 1) ls
           | Some (PDict entry) \<Rightarrow>
               ebind (as_str (dget_or entry ''level'' (PStr []))) (\<lambda>level.
               ebind (parse_lines R loads path (n + 1) ls) (\<lambda>rest.
               Inr ((if lower level \<in> set [''error'', ''fatal'', ''critical''] then [log_record R path n entry] else []) @ rest)))
           | Some _ \<Rightarrow> Inl AttributeError)"

definition parse_jsonl :: "runtime \<Rightarrow> (string \<Rightarrow> pyval option) \<Rightarrow> (string \<Rightarrow> string option) \<Rightarrow> string \<Rightarrow> failure list res" where
  "parse_jsonl R loads logs path =
     (case logs path of None \<Rightarrow> Inr [] | Some t \<Rightarrow> parse_lines R loads path 1 (split_char (CHR 10) t))"

definition found :: "string \<Rightarrow> string \<Rightarrow> string \<Rightarrow> string \<Rightarrow> int \<Rightarrow> failure" where
  "found source message kind file n =
     \<lparr>fr_source = source, fr_message = PStr message, fr_kind = PStr kind, fr_file = PStr file, fr_line = PInt n, fr_traceback = PStr []\<rparr>"

definition FAILED_TEST :: rx where
  "FAILED_TEST =
     rseq [rlit ''FAILED'', rplus rspace, RGroup 1 (rplus (RSet (\<lambda>c. is_word c \<or> c \<in> set [slash, backslash, CHR ''.'']))),
       rlit ''::'', RGroup 2 (rplus rword), ropt (rseq [RStar True rspace, rlit ''-'', RStar True rspace, RGroup 3 (rplus rdot)])]"

definition TRACE_LINE :: rx where
  "TRACE_LINE =
     rseq [rlit (''File '' @ [CHR 0x22]), RGroup 1 (rplus (RSet (\<lambda>c. c \<noteq> CHR 0x22))), rlit ([CHR 0x22] @ '', line ''), RGroup 2 (rplus rdigit)]"

definition group_or_empty :: "mstate \<times> mstate \<Rightarrow> nat \<Rightarrow> string" where
  "group_or_empty m k = (case m_group (snd m) k of None \<Rightarrow> [] | Some t \<Rightarrow> t)"

definition failed_test :: "string \<Rightarrow> mstate \<times> mstate \<Rightarrow> failure" where
  "failed_test source m =
     (let reason = group_or_empty m 3; name = group_or_empty m 2
      in found source (if reason \<noteq> [] then name @ '': '' @ reason else name) ''test_failure'' (group_or_empty m 1) 0)"

definition parse_pytest_output :: "string \<Rightarrow> string \<Rightarrow> failure list" where
  "parse_pytest_output t source =
     map (failed_test source) (rx_finditer FAILED_TEST t)
     @ map (\<lambda>m. found source (''Traceback in '' @ basename (group_or_empty m 1)) ''traceback'' (group_or_empty m 1)
              (int (digits_num (group_or_empty m 2))))
         (filter (\<lambda>m. \<not> occurs_in ''/site-packages/'' (group_or_empty m 1) \<and> \<not> occurs_in ''/lib/python'' (group_or_empty m 1))
           (rx_finditer TRACE_LINE t))"

definition error_line :: "string \<Rightarrow> rx" where
  "error_line name = rseq [rlit (name @ '':''), RStar True rspace, RGroup 1 (rplus rdot)]"

definition ERROR_PATTERNS :: "(rx \<times> string) list" where
  "ERROR_PATTERNS =
     [(error_line ''ImportError'', ''import_error''), (error_line ''SyntaxError'', ''syntax_error''),
      (error_line ''ModuleNotFoundError'', ''import_error''), (error_line ''TimeoutError'', ''timeout''), (rlit ''MemoryError'', ''oom''),
      (error_line ''OSError'', ''os_error''), (error_line ''FATAL'', ''fatal'')]"

definition parse_text_errors :: "string \<Rightarrow> string \<Rightarrow> failure list" where
  "parse_text_errors t source = concat (map (\<lambda>(r, kind). map (\<lambda>m. found source (m_text m) kind [] 0) (rx_finditer r t)) ERROR_PATTERNS)"

definition read_log :: "runtime \<Rightarrow> (string \<Rightarrow> pyval option) \<Rightarrow> (string \<Rightarrow> string option) \<Rightarrow> string \<Rightarrow> failure list res" where
  "read_log R loads logs path =
     (if endswith path ''.jsonl'' \<or> endswith path ''.ndjson'' then parse_jsonl R loads logs path
      else case logs path of None \<Rightarrow> Inr [] | Some t \<Rightarrow> Inr (parse_pytest_output t path @ parse_text_errors t path))"

definition ingest_logs :: "runtime \<Rightarrow> (string \<Rightarrow> pyval option) \<Rightarrow> (string \<Rightarrow> string option) \<Rightarrow> string list \<Rightarrow> string \<Rightarrow> failure list res" where
  "ingest_logs R loads logs paths raw =
     ebind (emap (read_log R loads logs) paths) (\<lambda>rs.
     Inr (concat rs @ (if raw \<noteq> [] then parse_pytest_output raw ''pytest'' @ parse_text_errors raw ''raw'' else [])))"

section \<open>Classification\<close>

record classification =
  cl_severity :: string
  cl_fixable :: bool
  cl_strategy :: string

record classified = failure +
  cf_severity :: string
  cf_fixable :: bool
  cf_strategy :: string

definition CLASSIFICATIONS :: "(string \<times> classification) list" where
  "CLASSIFICATIONS =
     [(''import_error'', \<lparr>cl_severity = ''high'', cl_fixable = True, cl_strategy = ''install_dependency''\<rparr>),
      (''syntax_error'', \<lparr>cl_severity = ''high'', cl_fixable = False, cl_strategy = ''rollback_patch''\<rparr>),
      (''test_failure'', \<lparr>cl_severity = ''medium'', cl_fixable = True, cl_strategy = ''re_patch''\<rparr>),
      (''timeout'', \<lparr>cl_severity = ''medium'', cl_fixable = True, cl_strategy = ''increase_timeout''\<rparr>),
      (''oom'', \<lparr>cl_severity = ''critical'', cl_fixable = True, cl_strategy = ''reduce_workload''\<rparr>),
      (''fatal'', \<lparr>cl_severity = ''critical'', cl_fixable = False, cl_strategy = ''restart_service''\<rparr>),
      (''os_error'', \<lparr>cl_severity = ''medium'', cl_fixable = False, cl_strategy = ''check_filesystem''\<rparr>),
      (''traceback'', \<lparr>cl_severity = ''low'', cl_fixable = False, cl_strategy = ''log_and_continue''\<rparr>),
      (''log_error'', \<lparr>cl_severity = ''low'', cl_fixable = False, cl_strategy = ''log_and_continue''\<rparr>)]"

definition DEFAULT_CLASSIFICATION :: classification where
  "DEFAULT_CLASSIFICATION = \<lparr>cl_severity = ''low'', cl_fixable = False, cl_strategy = ''log_and_continue''\<rparr>"

text \<open>A list or an object is no key of a dictionary.\<close>

definition classify_log_failure :: "failure \<Rightarrow> classified res" where
  "classify_log_failure f =
     ebind (case fr_kind f of
              PStr k \<Rightarrow> Inr (case map_of CLASSIFICATIONS k of None \<Rightarrow> DEFAULT_CLASSIFICATION | Some c \<Rightarrow> c)
            | PList _ \<Rightarrow> Inl TypeError
            | PDict _ \<Rightarrow> Inl TypeError
            | _ \<Rightarrow> Inr DEFAULT_CLASSIFICATION) (\<lambda>c.
     Inr (failure.extend f \<lparr>cf_severity = cl_severity c, cf_fixable = cl_fixable c, cf_strategy = cl_strategy c\<rparr>))"

definition classify_batch :: "failure list \<Rightarrow> classified list res" where
  "classify_batch fs = emap classify_log_failure fs"

definition SEVERITY_ORDER :: "(string \<times> nat) list" where
  "SEVERITY_ORDER = [(''critical'', 0), (''high'', 1), (''medium'', 2), (''low'', 3)]"

definition prioritize :: "classified list \<Rightarrow> classified list" where
  "prioritize fs = sort_key (\<lambda>f. case map_of SEVERITY_ORDER (cf_severity f) of None \<Rightarrow> 4 | Some n \<Rightarrow> n) fs"

record fix_summary =
  sm_total :: nat
  sm_fixable :: nat
  sm_severity :: "(string \<times> nat) list"
  sm_strategy :: "(string \<times> nat) list"

definition count_in :: "string \<Rightarrow> (string \<times> nat) list \<Rightarrow> (string \<times> nat) list" where
  "count_in k d = AList.update k ((case map_of d k of None \<Rightarrow> 0 | Some n \<Rightarrow> n) + 1) d"

definition summarize :: "classified list \<Rightarrow> fix_summary" where
  "summarize fs =
     \<lparr>sm_total = length fs, sm_fixable = length (filter cf_fixable fs), sm_severity = fold (count_in \<circ> cf_severity) fs [],
      sm_strategy = fold (count_in \<circ> cf_strategy) fs []\<rparr>"

section \<open>Actions\<close>

text \<open>Every action carries its failure.\<close>

datatype action =
    InstallDependency string string classified
  | RollbackPatch pyval pyval classified
  | RestartService string pyval classified
  | IncreaseTimeout int int classified
  | ReduceWorkload string classified
  | RePatch pyval string classified
  | LogAndContinue pyval classified
  | CheckFilesystem pyval classified

fun action_type :: "action \<Rightarrow> string" where
  "action_type (InstallDependency _ _ _) = ''install_dependency''"
| "action_type (RollbackPatch _ _ _) = ''rollback_patch''"
| "action_type (RestartService _ _ _) = ''restart_service''"
| "action_type (IncreaseTimeout _ _ _) = ''increase_timeout''"
| "action_type (ReduceWorkload _ _) = ''reduce_workload''"
| "action_type (RePatch _ _ _) = ''re_patch''"
| "action_type (LogAndContinue _ _) = ''log_and_continue''"
| "action_type (CheckFilesystem _ _) = ''check_filesystem''"

definition module_of :: "string \<Rightarrow> string" where
  "module_of msg =
     (let parts = split_char (CHR 0x27) msg in if 2 \<le> length parts then hd (split_char (CHR ''.'') (parts ! 1)) else [])"

definition action_install_dependency :: "classified \<Rightarrow> action res" where
  "action_install_dependency f =
     ebind (py_contains_str ''No module named'' (fr_message f)) (\<lambda>named.
     ebind (if named then ebind (as_str (fr_message f)) (\<lambda>msg. Inr (module_of msg)) else Inr []) (\<lambda>m.
     Inr (InstallDependency m (if m \<noteq> [] then ''pip install '' @ m else []) f)))"

definition guess_service :: "string \<Rightarrow> string" where
  "guess_service source =
     (case filter (\<lambda>svc. occurs_in svc source) [''orchestrator'', ''executor'', ''learner'', ''replay_verifier''] of
        [] \<Rightarrow> ''unknown''
      | svc # _ \<Rightarrow> svc)"

type_synonym env_vars = "(string \<times> string) list"

text \<open>\<open>int(os.getenv(name, default))\<close>.\<close>

definition environ_int :: "env_vars \<Rightarrow> string \<Rightarrow> int \<Rightarrow> int res" where
  "environ_int env name d =
     (case map_of env name of
        None \<Rightarrow> Inr d
      | Some t \<Rightarrow> (case int_of_str t of None \<Rightarrow> Inl ValueError | Some i \<Rightarrow> Inr i))"

definition TIMEOUT_VAR :: string where "TIMEOUT_VAR = ''RFSN_EXEC_TIMEOUT''"
definition WORKERS_VAR :: string where "WORKERS_VAR = ''RFSN_PARALLEL_WORKERS''"

definition action_increase_timeout :: "env_vars \<Rightarrow> classified \<Rightarrow> action res" where
  "action_increase_timeout env f = ebind (environ_int env TIMEOUT_VAR 300) (\<lambda>t. Inr (IncreaseTimeout t (t * 2) f))"

definition action_re_patch :: "classified \<Rightarrow> action res" where
  "action_re_patch f = ebind (as_str (fr_message f)) (\<lambda>m. Inr (RePatch (fr_file f) (hd (split_char (CHR '':'') m)) f))"

definition plan_fix_action :: "env_vars \<Rightarrow> classified \<Rightarrow> action res" where
  "plan_fix_action env f =
     (let s = cf_strategy f
      in if s = ''install_dependency'' then action_install_dependency f
         else if s = ''rollback_patch'' then Inr (RollbackPatch (fr_file f) (fr_message f) f)
         else if s = ''restart_service'' then Inr (RestartService (guess_service (fr_source f)) (fr_message f) f)
         else if s = ''increase_timeout'' then action_increase_timeout env f
         else if s = ''reduce_workload'' then Inr (ReduceWorkload ''Reduce batch size or parallel workers'' f)
         else if s = ''re_patch'' then action_re_patch f
         else if s = ''check_filesystem'' then Inr (CheckFilesystem (fr_message f) f)
         else Inr (LogAndContinue (fr_message f) f))"

definition plan_fix_actions :: "env_vars \<Rightarrow> classified list \<Rightarrow> action list res" where
  "plan_fix_actions env fs = emap (plan_fix_action env) fs"

section \<open>Applying actions\<close>

datatype fix_end = Exited int string string | TimedOut string | NotStarted string

record fix_check =
  ck_verified :: bool
  ck_type :: string
  ck_reason :: pyval

record fix_verification =
  fv_all :: bool
  fv_total :: nat
  fv_verified :: nat
  fv_failures :: "fix_check list"

record fix_report =
  cy_time :: rat
  cy_summary :: fix_summary
  cy_planned :: nat
  cy_applied :: nat
  cy_verification :: fix_verification
  cy_dry :: bool

text \<open>What the loop keeps: the environment variables, the commands started so far, the history in memory and in
  the file.\<close>

record fix_state =
  fx_env :: env_vars
  fx_started :: "string list list"
  fx_history :: "fix_report list"
  fx_file :: "fix_report list"

record fix_world =
  fw_logs :: "string \<Rightarrow> string option"
  fw_dir :: "string list option"
  fw_loads :: "string \<Rightarrow> pyval option"
  fw_proc :: "string list list \<Rightarrow> string list \<Rightarrow> fix_end"
  fw_time :: rat
  fw_writable :: bool

text \<open>The result of a handler: \<open>ok\<close> and the other keys.\<close>

record handled =
  hr_ok :: bool
  hr_rest :: "(string \<times> pyval) list"

definition start_fix_process :: "fix_world \<Rightarrow> string list \<Rightarrow> fix_state \<Rightarrow> fix_end \<times> fix_state" where
  "start_fix_process W argv st = (fw_proc W (fx_started st) argv, st\<lparr>fx_started := fx_started st @ [argv]\<rparr>)"

definition refused :: "string \<Rightarrow> handled" where
  "refused msg = \<lparr>hr_ok = False, hr_rest = [(''error'', PStr msg)]\<rparr>"

definition ALLOWED_COMMAND_TEMPLATES :: "(string \<times> string list) list" where
  "ALLOWED_COMMAND_TEMPLATES =
     [(''pytest'', [''python'', ''-m'', ''pytest'']), (''pytest_file'', [''python'', ''-m'', ''pytest'', ''{path}'']),
      (''ruff_check'', [''python'', ''-m'', ''ruff'', ''check'', ''{path}'']),
      (''ruff_format'', [''python'', ''-m'', ''ruff'', ''format'', ''{path}''])]"

definition SHELL_METACHARACTERS :: string where
  "SHELL_METACHARACTERS = '';|&><$()`'' @ [CHR 10, CHR 13]"

definition has_metachar :: "string \<Rightarrow> bool" where
  "has_metachar v \<longleftrightarrow> (\<exists>c \<in> set v. c \<in> set SHELL_METACHARACTERS)"

text \<open>The text of an unknown template's error leaves out the list of names.\<close>

definition run_template :: "fix_world \<Rightarrow> string \<Rightarrow> string \<Rightarrow> fix_state \<Rightarrow> handled \<times> fix_state" where
  "run_template W name path st =
     (case map_of ALLOWED_COMMAND_TEMPLATES name of
        None \<Rightarrow> (refused (''Unknown template: '' @ name), st)
      | Some tmpl \<Rightarrow>
          if path \<noteq> [] \<and> isabs path then (refused ''path must be relative'', st)
          else if path \<noteq> [] \<and> ''..'' \<in> set (split_char slash path) then (refused ''path traversal rejected'', st)
          else if path \<noteq> [] \<and> has_metachar path then (refused ''path contains shell metacharacters'', st)
          else (case start_fix_process W (filter (\<lambda>a. a \<noteq> []) (map (\<lambda>p. if occurs_in ''{path}'' p then replace_str ''{path}'' path p else p) tmpl)) st of
                  (Exited rc out e, st') \<Rightarrow>
                    (\<lparr>hr_ok = (rc = 0), hr_rest = [(''stdout'', PStr (last_n 2000 out)), (''stderr'', PStr (last_n 2000 e)), (''returncode'', PInt rc)]\<rparr>, st')
                | (TimedOut _, st') \<Rightarrow> (\<lparr>hr_ok = False, hr_rest = [(''error'', PStr ''timeout''), (''returncode'', PInt (- 1))]\<rparr>, st')
                | (NotStarted m, st') \<Rightarrow> (\<lparr>hr_ok = False, hr_rest = [(''error'', PStr m), (''returncode'', PInt (- 1))]\<rparr>, st')))"

definition handle_rollback :: "fix_world \<Rightarrow> pyval \<Rightarrow> fix_state \<Rightarrow> handled res \<times> fix_state" where
  "handle_rollback W f st =
     (if \<not> truthy f then (Inr (refused ''no file''), st)
      else case f of
             PStr p \<Rightarrow>
               if isabs p \<or> ''..'' \<in> set (split_char slash p) then (Inr (refused ''unsafe file path''), st)
               else (case start_fix_process W [''git'', ''checkout'', ''--'', p] st of
                       (Exited rc out e, st') \<Rightarrow>
                         (Inr \<lparr>hr_ok = (rc = 0), hr_rest = [(''stdout'', PStr out), (''stderr'', PStr e), (''returncode'', PInt rc)]\<rparr>, st')
                     | (TimedOut m, st') \<Rightarrow> (Inr (refused m), st')
                     | (NotStarted m, st') \<Rightarrow> (Inr (refused m), st'))
           | _ \<Rightarrow> (Inl TypeError, st))"

definition set_env :: "string \<Rightarrow> string \<Rightarrow> fix_state \<Rightarrow> fix_state" where
  "set_env k v st = st\<lparr>fx_env := AList.update k v (fx_env st)\<rparr>"

definition handle_timeout :: "int \<Rightarrow> fix_state \<Rightarrow> handled res \<times> fix_state" where
  "handle_timeout n st = (Inr \<lparr>hr_ok = True, hr_rest = [(''new_timeout'', PInt n)]\<rparr>, set_env TIMEOUT_VAR (int_str n) st)"

definition handle_reduce :: "fix_state \<Rightarrow> handled res \<times> fix_state" where
  "handle_reduce st =
     (case environ_int (fx_env st) WORKERS_VAR 4 of
        Inl e \<Rightarrow> (Inl e, st)
      | Inr n \<Rightarrow>
          let new = max 1 (n div 2)
          in (Inr \<lparr>hr_ok = True, hr_rest = [(''new_workers'', PInt new)]\<rparr>, set_env WORKERS_VAR (int_str new) st))"

definition noop :: handled where
  "noop = \<lparr>hr_ok = True, hr_rest = [(''action'', PStr ''logged'')]\<rparr>"

text \<open>The installation of packages and the restart of services have no handler.\<close>

definition handle :: "fix_world \<Rightarrow> action \<Rightarrow> fix_state \<Rightarrow> handled res \<times> fix_state" where
  "handle W a st =
     (case a of
        RollbackPatch f _ _ \<Rightarrow> handle_rollback W f st
      | IncreaseTimeout _ n _ \<Rightarrow> handle_timeout n st
      | ReduceWorkload _ _ \<Rightarrow> handle_reduce st
      | _ \<Rightarrow> (Inr noop, st))"

definition describe :: "runtime \<Rightarrow> action \<Rightarrow> string" where
  "describe R a =
     (case a of
        InstallDependency m _ _ \<Rightarrow> ''pip install '' @ m
      | RollbackPatch f _ _ \<Rightarrow> ''git checkout -- '' @ py_str R f
      | RestartService svc _ _ \<Rightarrow> ''restart service '' @ svc
      | IncreaseTimeout _ n _ \<Rightarrow> ''Increase timeout to '' @ int_str n @ ''s''
      | _ \<Rightarrow> action_type a)"

record action_result =
  ar_type :: string
  ar_applied :: bool
  ar_result :: "handled option"
  ar_error :: "pyerr option"
  ar_description :: "string option"

definition apply_action :: "runtime \<Rightarrow> fix_world \<Rightarrow> bool \<Rightarrow> action \<Rightarrow> fix_state \<Rightarrow> action_result \<times> fix_state" where
  "apply_action R W dry a st =
     (if dry then (\<lparr>ar_type = action_type a, ar_applied = False, ar_result = None, ar_error = None, ar_description = Some (describe R a)\<rparr>, st)
      else case handle W a st of
             (Inr h, st') \<Rightarrow> (\<lparr>ar_type = action_type a, ar_applied = True, ar_result = Some h, ar_error = None, ar_description = None\<rparr>, st')
           | (Inl e, st') \<Rightarrow> (\<lparr>ar_type = action_type a, ar_applied = False, ar_result = None, ar_error = Some e, ar_description = None\<rparr>, st'))"

fun apply_actions :: "runtime \<Rightarrow> fix_world \<Rightarrow> bool \<Rightarrow> action list \<Rightarrow> fix_state \<Rightarrow> action_result list \<times> fix_state" where
  "apply_actions R W dry [] st = ([], st)"
| "apply_actions R W dry (a # acts) st =
     (case apply_action R W dry a st of (r, st1) \<Rightarrow> case apply_actions R W dry acts st1 of (rs, st2) \<Rightarrow> (r # rs, st2))"

section \<open>Checking actions\<close>

definition reason_of :: "string \<Rightarrow> handled \<Rightarrow> pyval" where
  "reason_of t h =
     (if t = ''install_dependency'' then if hr_ok h then PStr ''install succeeded''
        else (case map_of (hr_rest h) ''stderr'' of None \<Rightarrow> PStr ''install failed'' | Some v \<Rightarrow> v)
      else if t = ''rollback_patch'' then PStr (if hr_ok h then ''rollback succeeded'' else ''rollback failed'')
      else if t = ''restart_service'' then PStr (if hr_ok h then ''restart accepted'' else ''restart failed'')
      else PStr (if hr_ok h then ''action result ok'' else ''action failed''))"

text \<open>An applied action has a result.\<close>

definition verify_action :: "action_result \<Rightarrow> fix_check" where
  "verify_action r =
     (if \<not> ar_applied r then \<lparr>ck_verified = False, ck_type = ar_type r, ck_reason = PStr ''action was not applied''\<rparr>
      else let h = (case ar_result r of Some h \<Rightarrow> h | None \<Rightarrow> \<lparr>hr_ok = False, hr_rest = []\<rparr>)
           in \<lparr>ck_verified = hr_ok h, ck_type = ar_type r, ck_reason = reason_of (ar_type r) h\<rparr>)"

definition verify_actions :: "action_result list \<Rightarrow> fix_verification" where
  "verify_actions rs =
     (let checks = map verify_action rs; failures = filter (\<lambda>c. \<not> ck_verified c) checks
      in \<lparr>fv_all = (failures = []), fv_total = length checks, fv_verified = length (filter ck_verified checks), fv_failures = failures\<rparr>)"

section \<open>The controller\<close>

record controller =
  ct_dir :: string
  ct_dry :: bool
  ct_max :: int

definition discover_logs :: "fix_world \<Rightarrow> controller \<Rightarrow> string list" where
  "discover_logs W ct =
     (case fw_dir W of
        None \<Rightarrow> []
      | Some names \<Rightarrow> sort (map (path_join (ct_dir ct)) (filter (\<lambda>f. endswith f ''.log'' \<or> endswith f ''.jsonl'' \<or> endswith f ''.txt'') names)))"

definition record_cycle :: "fix_world \<Rightarrow> fix_report \<Rightarrow> fix_state \<Rightarrow> fix_state" where
  "record_cycle W r st =
     st\<lparr>fx_history := fx_history st @ [r], fx_file := (if fw_writable W then fx_file st @ [r] else fx_file st)\<rparr>"

datatype cycle_result = NoFailures rat | Cycle fix_report

text \<open>The first three stages; only auto-fixable failures are acted on, up to the maximum.\<close>

definition plan_cycle :: "runtime \<Rightarrow> fix_world \<Rightarrow> controller \<Rightarrow> string list \<Rightarrow> string \<Rightarrow> env_vars \<Rightarrow> (fix_summary \<times> action list) option res" where
  "plan_cycle R W ct logs raw env =
     ebind (ingest_logs R (fw_loads W) (fw_logs W) logs raw) (\<lambda>failures.
     if failures = [] then Inr None
     else ebind (classify_batch failures) (\<lambda>fs.
          let ordered = prioritize fs
          in ebind (plan_fix_actions env (slice_to (ct_max ct) (filter cf_fixable ordered))) (\<lambda>acts.
             Inr (Some (summarize ordered, acts)))))"

definition run_cycle ::
    "runtime \<Rightarrow> fix_world \<Rightarrow> controller \<Rightarrow> string list option \<Rightarrow> string \<Rightarrow> fix_state \<Rightarrow> cycle_result res \<times> fix_state" where
  "run_cycle R W ct paths raw st =
     (let logs = (case paths of None \<Rightarrow> discover_logs W ct | Some ps \<Rightarrow> ps)
      in case plan_cycle R W ct logs raw (fx_env st) of
           Inl e \<Rightarrow> (Inl e, st)
         | Inr None \<Rightarrow> (Inr (NoFailures (fw_time W)), st)
         | Inr (Some (sm, acts)) \<Rightarrow>
             (case apply_actions R W (ct_dry ct) acts st of (results, st') \<Rightarrow>
                let r = \<lparr>cy_time = fw_time W, cy_summary = sm, cy_planned = length acts, cy_applied = length (filter ar_applied results),
                          cy_verification = verify_actions results, cy_dry = ct_dry ct\<rparr>
                in (Inr (Cycle r), record_cycle W r st')))"

section \<open>What a cycle may do\<close>

lemma emap_all: "emap f xs = Inr ys \<Longrightarrow> \<forall>x y. x \<in> set xs \<longrightarrow> f x = Inr y \<longrightarrow> P y \<Longrightarrow> \<forall>y \<in> set ys. P y"
  by (induction xs arbitrary: ys) auto

lemma emap_count: "emap f xs = Inr ys \<Longrightarrow> length ys = length xs"
  by (induction xs arbitrary: ys) auto

text \<open>The fixable kinds have four strategies; none of them starts a process.\<close>

definition mild_strategy :: "classified \<Rightarrow> bool" where
  "mild_strategy f \<longleftrightarrow> cf_strategy f \<in> {''install_dependency'', ''re_patch'', ''increase_timeout'', ''reduce_workload''}"

lemma classified_mild: "classify_log_failure f = Inr c \<Longrightarrow> cf_fixable c \<Longrightarrow> mild_strategy c"
  unfolding classify_log_failure_def CLASSIFICATIONS_def DEFAULT_CLASSIFICATION_def mild_strategy_def
  by (auto simp: failure.extend_def split: pyval.splits if_splits)

definition mild :: "env_vars \<Rightarrow> action \<Rightarrow> bool" where
  "mild env a \<longleftrightarrow>
     (case a of
        RollbackPatch _ _ _ \<Rightarrow> False
      | IncreaseTimeout t n _ \<Rightarrow> environ_int env TIMEOUT_VAR 300 = Inr t \<and> n = t * 2
      | _ \<Rightarrow> True)"

lemma planned_mild: "plan_fix_action env f = Inr a \<Longrightarrow> mild_strategy f \<Longrightarrow> mild env a"
  unfolding mild_strategy_def mild_def
  by (auto simp: plan_fix_action_def action_install_dependency_def action_increase_timeout_def action_re_patch_def)

definition cautious :: "fix_state \<Rightarrow> fix_state \<Rightarrow> bool" where
  "cautious st st' \<longleftrightarrow>
     fx_started st' = fx_started st
     \<and> (\<forall>k. k = TIMEOUT_VAR \<or> k = WORKERS_VAR \<or> map_of (fx_env st') k = map_of (fx_env st) k)
     \<and> (map_of (fx_env st') TIMEOUT_VAR = map_of (fx_env st) TIMEOUT_VAR
        \<or> (\<exists>t. environ_int (fx_env st) TIMEOUT_VAR 300 = Inr t \<and> map_of (fx_env st') TIMEOUT_VAR = Some (int_str (t * 2))))
     \<and> (map_of (fx_env st') WORKERS_VAR = map_of (fx_env st) WORKERS_VAR
        \<or> (\<exists>n \<ge> 1. map_of (fx_env st') WORKERS_VAR = Some (int_str n)))"

lemma cautious_refl [simp]: "cautious st st"
  by (simp add: cautious_def)

lemma vars_differ [simp]: "TIMEOUT_VAR \<noteq> WORKERS_VAR" "WORKERS_VAR \<noteq> TIMEOUT_VAR"
  by (simp_all add: TIMEOUT_VAR_def WORKERS_VAR_def)

lemma map_of_set_env: "map_of (fx_env (set_env k v st)) k' = (if k' = k then Some v else map_of (fx_env st) k')"
  by (simp add: set_env_def update_conv)

lemma set_env_started [simp]: "fx_started (set_env k v st) = fx_started st" "fx_history (set_env k v st) = fx_history st"
  by (simp_all add: set_env_def)

lemma cautious_timeout:
  "cautious st0 st \<Longrightarrow> environ_int (fx_env st0) TIMEOUT_VAR 300 = Inr t \<Longrightarrow> cautious st0 (set_env TIMEOUT_VAR (int_str (t * 2)) st)"
  by (auto simp: cautious_def map_of_set_env)

lemma cautious_workers: "cautious st0 st \<Longrightarrow> 1 \<le> n \<Longrightarrow> cautious st0 (set_env WORKERS_VAR (int_str n) st)"
  by (auto simp: cautious_def map_of_set_env)

lemma apply_action_mild:
  assumes "mild (fx_env st0) a" "cautious st0 st" "apply_action R W dry a st = (r, st')"
  shows "cautious st0 st' \<and> fx_history st' = fx_history st \<and> (dry \<longrightarrow> st' = st)"
proof (cases a)
  case (IncreaseTimeout t n f)
  then show ?thesis using assms
    by (auto simp: apply_action_def handle_def handle_timeout_def mild_def cautious_timeout split: if_splits)
next
  case (ReduceWorkload t f)
  then show ?thesis using assms
    by (auto simp: apply_action_def handle_def handle_reduce_def cautious_workers Let_def split: if_splits sum.splits)
qed (use assms in \<open>auto simp: apply_action_def handle_def mild_def split: if_splits\<close>)

lemma apply_actions_mild:
  "\<forall>a \<in> set acts. mild (fx_env st0) a \<Longrightarrow> cautious st0 st \<Longrightarrow> apply_actions R W dry acts st = (rs, st')
    \<Longrightarrow> cautious st0 st' \<and> fx_history st' = fx_history st \<and> (dry \<longrightarrow> st' = st) \<and> length rs = length acts"
proof (induction acts arbitrary: st rs)
  case (Cons a acts)
  obtain r st1 where a: "apply_action R W dry a st = (r, st1)" by fastforce
  obtain rs' where r: "apply_actions R W dry acts st1 = (rs', st')" "rs = r # rs'"
    using Cons.prems(3) by (auto simp: a split: prod.splits)
  show ?case using apply_action_mild [OF _ Cons.prems(2) a] Cons.IH [OF _ _ r(1)] Cons.prems(1) r(2) by auto
qed simp

lemma plan_cycle_mild:
  assumes "plan_cycle R W ct logs raw env = Inr (Some (sm, acts))"
  shows "\<forall>a \<in> set acts. mild env a" and "length acts \<le> sm_fixable sm" and "0 \<le> ct_max ct \<Longrightarrow> int (length acts) \<le> ct_max ct"
proof -
  from assms obtain failures fs where fs: "classify_batch failures = Inr fs"
    and acts: "plan_fix_actions env (slice_to (ct_max ct) (filter cf_fixable (prioritize fs))) = Inr acts"
    and sm: "sm = summarize (prioritize fs)"
    by (auto simp: plan_cycle_def Let_def split: if_splits)
  have "\<forall>c \<in> set fs. cf_fixable c \<longrightarrow> mild_strategy c"
    using emap_all [OF fs [unfolded classify_batch_def], of "\<lambda>c. cf_fixable c \<longrightarrow> mild_strategy c"] classified_mild by blast
  then have "mild_strategy f" if "f \<in> set (slice_to (ct_max ct) (filter cf_fixable (prioritize fs)))" for f
    using that set_slice_to [of "ct_max ct" "filter cf_fixable (prioritize fs)"] by (auto simp: prioritize_def)
  then show "\<forall>a \<in> set acts. mild env a"
    using emap_all [OF acts [unfolded plan_fix_actions_def], of "mild env"] planned_mild by blast
  have len: "length acts = length (slice_to (ct_max ct) (filter cf_fixable (prioritize fs)))"
    using emap_count [OF acts [unfolded plan_fix_actions_def]] .
  then show "length acts \<le> sm_fixable sm" by (simp add: sm summarize_def slice_to_def)
  show "0 \<le> ct_max ct \<Longrightarrow> int (length acts) \<le> ct_max ct" using len length_slice_to by metis
qed

lemma run_cycle_cautious:
  assumes "run_cycle R W ct paths raw st = (r, st')"
  shows "cautious st st'" and "ct_dry ct \<Longrightarrow> fx_env st' = fx_env st"
proof -
  let ?plan = "plan_cycle R W ct (case paths of None \<Rightarrow> discover_logs W ct | Some ps \<Rightarrow> ps) raw (fx_env st)"
  have "cautious st st' \<and> (ct_dry ct \<longrightarrow> fx_env st' = fx_env st)"
  proof (cases "\<exists>sm acts. ?plan = Inr (Some (sm, acts))")
    case True
    then obtain sm acts where plan: "?plan = Inr (Some (sm, acts))" by blast
    obtain rs st1 where acts: "apply_actions R W (ct_dry ct) acts st = (rs, st1)" by fastforce
    have "cautious st st1 \<and> (ct_dry ct \<longrightarrow> st1 = st)"
      using apply_actions_mild [OF plan_cycle_mild(1) [OF plan] cautious_refl acts] by blast
    then show ?thesis using assms by (auto simp: run_cycle_def plan acts Let_def record_cycle_def cautious_def)
  next
    case False
    then have "st' = st" using assms by (auto simp: run_cycle_def Let_def split: sum.splits option.splits)
    then show ?thesis by simp
  qed
  then show "cautious st st'" and "ct_dry ct \<Longrightarrow> fx_env st' = fx_env st" by blast+
qed

text \<open>C38: what an automatic repair may do. Whatever the logs say, and also when it raises, a cycle starts no process;
  of the environment it changes only two variables, the timeout, which it doubles at most once, and the number of
  workers, which it leaves as it was or sets to at least 1. A dry run changes neither.\<close>

theorem autofix_cycle_confined:
  assumes "run_cycle R W ct paths raw st = (r, st')"
  shows "fx_started st' = fx_started st
    \<and> (ct_dry ct \<longrightarrow> fx_env st' = fx_env st)
    \<and> (k = ''RFSN_EXEC_TIMEOUT'' \<or> k = ''RFSN_PARALLEL_WORKERS'' \<or> map_of (fx_env st') k = map_of (fx_env st) k)
    \<and> (map_of (fx_env st') ''RFSN_EXEC_TIMEOUT'' = map_of (fx_env st) ''RFSN_EXEC_TIMEOUT''
       \<or> (\<exists>t. environ_int (fx_env st) ''RFSN_EXEC_TIMEOUT'' 300 = Inr t
            \<and> map_of (fx_env st') ''RFSN_EXEC_TIMEOUT'' = Some (int_str (t * 2))))
    \<and> (map_of (fx_env st') ''RFSN_PARALLEL_WORKERS'' = map_of (fx_env st) ''RFSN_PARALLEL_WORKERS''
       \<or> (\<exists>n \<ge> 1. map_of (fx_env st') ''RFSN_PARALLEL_WORKERS'' = Some (int_str n)))"
  using run_cycle_cautious [OF assms] unfolding cautious_def TIMEOUT_VAR_def WORKERS_VAR_def by blast

text \<open>The world of the witness: one log with one entry, which asks for a longer timeout.\<close>

definition toy_fix_world :: fix_world where
  "toy_fix_world =
     \<lparr>fw_logs = (\<lambda>p. if p = ''a.jsonl'' then Some ''x'' else None), fw_dir = None,
      fw_loads = (\<lambda>t. Some (PDict [(PStr ''level'', PStr ''error''), (PStr ''error_type'', PStr ''timeout'')])),
      fw_proc = (\<lambda>cs c. NotStarted ''no''), fw_time = 0, fw_writable = True\<rparr>"

definition idle :: fix_state where
  "idle = \<lparr>fx_env = [(''HOME'', ''/root'')], fx_started = [], fx_history = [], fx_file = []\<rparr>"

theorem autofix_cycle_confined_witness:
  "fx_started (snd (run_cycle toy_runtime toy_fix_world \<lparr>ct_dir = [], ct_dry = False, ct_max = 5\<rparr> (Some [''a.jsonl'']) [] idle)) = []
   \<and> map_of (fx_env (snd (run_cycle toy_runtime toy_fix_world \<lparr>ct_dir = [], ct_dry = False, ct_max = 5\<rparr> (Some [''a.jsonl'']) [] idle)))
       ''RFSN_EXEC_TIMEOUT'' = Some ''600''"
proof -
  let ?c = "run_cycle toy_runtime toy_fix_world \<lparr>ct_dir = [], ct_dry = False, ct_max = 5\<rparr> (Some [''a.jsonl'']) [] idle"
  have "fx_started (snd ?c) = fx_started idle" using autofix_cycle_confined [of _ _ _ _ _ _ "fst ?c" "snd ?c"] by simp
  moreover have "map_of (fx_env (snd ?c)) ''RFSN_EXEC_TIMEOUT'' = Some ''600''" by code_simp
  ultimately show ?thesis by (simp add: idle_def)
qed

section \<open>What a cycle reports\<close>

lemma apply_actions_length: "length (fst (apply_actions R W dry acts st)) = length acts"
  by (induction acts arbitrary: st) (simp_all add: case_prod_unfold)

text \<open>A cycle plans at most the maximum, and no more than there are fixable failures; it counts and checks what it planned.\<close>

lemma cycle_counts:
  assumes "run_cycle R W ct paths raw st = (Inr (Cycle c), st')" "0 \<le> ct_max ct"
  shows "int (cy_planned c) \<le> ct_max ct \<and> cy_planned c \<le> sm_fixable (cy_summary c) \<and> cy_applied c \<le> cy_planned c
    \<and> fv_total (cy_verification c) = cy_planned c"
proof -
  let ?logs = "case paths of None \<Rightarrow> discover_logs W ct | Some ps \<Rightarrow> ps"
  from assms(1) obtain sm acts where plan: "plan_cycle R W ct ?logs raw (fx_env st) = Inr (Some (sm, acts))"
    by (auto simp: run_cycle_def Let_def split: sum.splits option.splits)
  obtain rs st1 where acts: "apply_actions R W (ct_dry ct) acts st = (rs, st1)" by fastforce
  have "length rs = length acts" using apply_actions_length [of R W "ct_dry ct" acts st] by (simp add: acts)
  moreover from assms(1) have "c = \<lparr>cy_time = fw_time W, cy_summary = sm, cy_planned = length acts, cy_applied = length (filter ar_applied rs),
      cy_verification = verify_actions rs, cy_dry = ct_dry ct\<rparr>"
    by (simp add: run_cycle_def plan acts Let_def)
  ultimately show ?thesis
    using plan_cycle_mild(2,3) [OF plan] assms(2)
    by (auto simp: verify_actions_def Let_def intro: order_trans [OF length_filter_le])
qed

text \<open>The installation that a missing module asks for is reported as applied and verified, although nothing is
  installed; so is the restart of a service. A log entry that is no object ends the cycle. A path of a command template
  may be an option of the command.\<close>

lemma install_is_only_claimed:
  "apply_action R W False (InstallDependency m c f) st = (r, st') \<Longrightarrow> st' = st \<and> ar_applied r \<and> ck_verified (verify_action r)
    \<and> ck_reason (verify_action r) = PStr ''install succeeded''"
  by (auto simp: apply_action_def handle_def noop_def verify_action_def reason_of_def)

lemma bad_entry_stops_cycle:
  "loads l = Some (PList []) \<Longrightarrow> strip l = l \<Longrightarrow> l \<noteq> [] \<Longrightarrow> parse_lines R loads path n (l # ls) = Inl AttributeError"
  by simp

lemma option_is_a_path:
  "fx_started (snd (run_template toy_fix_world ''pytest_file'' ''--pastebin=all'' idle)) = [[''python'', ''-m'', ''pytest'', ''--pastebin=all'']]"
  by code_simp

end
