(* ===== verification/Bench_Context.thy ===== *)
theory Bench_Context
  imports Bench_Run Replay_Bundles Learner_Store
begin

text \<open>
  What the benchmark harness shows a language model and what it remembers: the listing and the reading of
  files and the paths in an answer (\<open>rfsn_swebench/locator.py\<close>), retrieval by BM25 (\<open>retrieval.py\<close>), prompt
  templates (\<open>prompts.py\<close>) and the memory of outcomes (\<open>outcome_memory.py\<close>). Files, the parser of JSON and the
  logarithm are functions; the skeletons of Python files (\<open>generate_repo_map\<close>) are left out.
\<close>

section \<open>The listing of a repository\<close>

definition build_repo_tree :: "fs_dir \<Rightarrow> int \<Rightarrow> string" where
  "build_repo_tree tree most =
     join [CHR 10] (take (nat (max 1 most)) (map fst (walk_tree (\<lambda>d. startswith d ''.'') [] tree)))"

section \<open>Paths in an answer\<close>

definition fence :: string where "fence = [CHR 0x60, CHR 0x60, CHR 0x60]"

definition JSON_FENCE :: rx where
  "JSON_FENCE = rseq [rlit fence, ropt (rlit ''json''), RStar True rspace, RGroup 1 (RStar False rany), rlit fence]"

definition PATH_SUFFIXES :: "string list" where
  "PATH_SUFFIXES = [''.py'', ''.js'', ''.ts'', ''.go'', ''.java'', ''.rs'', ''.c'', ''.cpp'', ''.h'', ''.md'', ''.yaml'', ''.yml'', ''.toml'', ''.txt'']"

text \<open>A bullet or number, a path in optional back quotes; the path ends in an extension or has a slash.\<close>

definition PATH_LINE :: rx where
  "PATH_LINE =
     (let tick = RSet (\<lambda>c. c = CHR 0x60); plain = RSet (\<lambda>c. \<not> is_space c \<and> c \<noteq> CHR 0x60)
      in rseq [RBegin, RStar True rspace, ropt (RSet (\<lambda>c. c = CHR ''-'' \<or> c = CHR ''*'')), RStar True rspace, RStar True rdigit,
           ropt (rlit ''.''), RStar True rspace, ropt tick,
           RGroup 1 (RSeq (rplus plain) (RAlt (RSeq (rlit ''.'') (rplus (rcls []))) (RSeq (rlit [slash]) (RStar True plain)))),
           ropt tick, RStar True rspace, REnd])"

definition line_path :: "string \<Rightarrow> string option" where
  "line_path l =
     (case rx_match PATH_LINE l of
        None \<Rightarrow> None
      | Some m \<Rightarrow>
          let candidate = strip (strip_chars [CHR 0x60] (str_or_empty (m_group m 1)))
          in if slash \<in> set candidate \<or> CHR ''.'' \<in> set candidate then Some candidate else None)"

definition listed_paths :: "runtime \<Rightarrow> pyval list \<Rightarrow> string list" where
  "listed_paths R xs =
     (let texts = map (py_str R) xs; paths = filter (\<lambda>p. \<exists>e \<in> set PATH_SUFFIXES. endswith p e) texts
      in dedupe (if paths = [] then filter (\<lambda>p. slash \<in> set p \<or> CHR ''.'' \<in> set p) texts else paths))"

definition locate_files :: "runtime \<Rightarrow> (string \<Rightarrow> pyval option) \<Rightarrow> string \<Rightarrow> string list" where
  "locate_files R loads answer =
     (let t = strip answer;
          body = (case rx_search_in JSON_FENCE t of None \<Rightarrow> t | Some m \<Rightarrow> strip (str_or_empty (m_group (snd m) 1)));
          lines = dedupe (List.map_filter line_path (splitlines answer))
      in case loads body of
           Some (PList xs) \<Rightarrow> listed_paths R xs
         | Some (PDict d) \<Rightarrow> (case dget_or d ''files'' (PList []) of PList xs \<Rightarrow> dedupe (map (py_str R) xs) | _ \<Rightarrow> lines)
         | _ \<Rightarrow> lines)"

section \<open>The text of files\<close>

text \<open>The lines of \<open>readlines\<close> keep their ends.\<close>

fun lines_with_ends :: "string \<Rightarrow> string \<Rightarrow> string list" where
  "lines_with_ends cur [] = (if cur = [] then [] else [rev cur])"
| "lines_with_ends cur (c # cs) = (if c = CHR 10 then rev (c # cur) # lines_with_ends [] cs else lines_with_ends (c # cur) cs)"

definition right_align :: "nat \<Rightarrow> string \<Rightarrow> string" where
  "right_align w s = replicate (w - length s) (CHR '' '') @ s"

definition numbered :: "string \<Rightarrow> string" where
  "numbered t =
     concat (map (\<lambda>(i, l). right_align 4 (nat_str (i + 1)) @ '' | '' @ l) (enumerate 0 (lines_with_ends [] (universal_newlines t))))"

text \<open>The text up to its last line end; the whole text when there is none.\<close>

definition whole_lines :: "string \<Rightarrow> string" where
  "whole_lines t = (if CHR 10 \<in> set t then rev (dropWhile (\<lambda>c. c \<noteq> CHR 10) (rev t)) else t)"

definition common_parts :: "string \<Rightarrow> string list" where
  "common_parts p = filter (\<lambda>c. c \<noteq> [] \<and> c \<noteq> ''.'') (split_char slash p)"

definition commonpath :: "string \<Rightarrow> string \<Rightarrow> string" where
  "commonpath a b = slash # join [slash] (longest_common_prefix (common_parts a) (common_parts b))"

datatype file_read = NoFile | Unreadable string | FileText string

text \<open>The block of one file; \<open>file\<close> reads a resolved path, \<open>realpath\<close> resolves links.\<close>

definition file_block :: "(string \<Rightarrow> string) \<Rightarrow> (string \<Rightarrow> file_read) \<Rightarrow> string \<Rightarrow> int option \<Rightarrow> string \<Rightarrow> string" where
  "file_block realpath file base most p =
     (let header = ''## File: '' @ p @ [CHR 10]; missing = header @ ''(file not found)'' @ [CHR 10];
          full = realpath (path_join (realpath base) p)
      in if isabs p then missing
         else if commonpath (realpath base) full \<noteq> realpath base then missing
         else case file full of
                NoFile \<Rightarrow> missing
              | Unreadable msg \<Rightarrow> header @ ''(error reading file: '' @ msg @ '')'' @ [CHR 10]
              | FileText t \<Rightarrow>
                  header @ (case most of
                              None \<Rightarrow> numbered t
                            | Some n \<Rightarrow> if n < int (length (numbered t)) then whole_lines (slice_to n (numbered t)) else numbered t))"

fun context_parts :: "(string \<Rightarrow> string) \<Rightarrow> int \<Rightarrow> int \<Rightarrow> string list \<Rightarrow> string list" where
  "context_parts block most used [] = []"
| "context_parts block most used (p # ps) =
     (let b = (if most < used + int (length (block p)) then slice_to (most - used) (block p) else block p);
          used' = used + int (length b)
      in b # (if most \<le> used' then [] else context_parts block most used' ps))"

definition read_file_context ::
    "(string \<Rightarrow> string) \<Rightarrow> (string \<Rightarrow> file_read) \<Rightarrow> string \<Rightarrow> string list \<Rightarrow> int \<Rightarrow> int option \<Rightarrow> string" where
  "read_file_context realpath file base files most per_file =
     join [CHR 10] (context_parts (file_block realpath file base per_file) most 0 files)"

section \<open>Retrieval\<close>

fun alnum_runs :: "string \<Rightarrow> string \<Rightarrow> string list" where
  "alnum_runs cur [] = [rev cur]"
| "alnum_runs cur (c # cs) = (if alnum_ascii c then alnum_runs (c # cur) cs else rev cur # alnum_runs [] cs)"

definition tokenize :: "string \<Rightarrow> string list" where
  "tokenize t = map lower (filter (\<lambda>w. 2 \<le> length w) (alnum_runs [] t))"

definition term_count :: "'a \<Rightarrow> 'a list \<Rightarrow> nat" where
  "term_count x xs = length (filter (\<lambda>y. y = x) xs)"

text \<open>The files in the order of \<open>os.walk\<close>: directory, name and text; an unreadable file has none.\<close>

type_synonym walked = "(string \<times> string \<times> string option) list"

record bm25 =
  bm_paths :: "string list"
  bm_tokens :: "string list list"

definition INDEXED_SUFFIXES :: "string list" where
  "INDEXED_SUFFIXES = [''.py'', ''.md'', ''.txt'', ''.rst'', ''.c'', ''.h'', ''.cpp'']"

definition index_files :: "walked \<Rightarrow> bm25" where
  "index_files files =
     (let docs = List.map_filter (\<lambda>(dir, name, t).
            if occurs_in ''.git'' dir \<or> occurs_in ''__pycache__'' dir \<or> \<not> (\<exists>e \<in> set INDEXED_SUFFIXES. endswith name e) then None
            else map_option (\<lambda>t. (path_join dir name, tokenize (take 100000 t))) t) files
      in \<lparr>bm_paths = map fst docs, bm_tokens = map snd docs\<rparr>)"

definition avg_dl :: "bm25 \<Rightarrow> rat" where
  "avg_dl I = of_nat (sum_list (map length (bm_tokens I))) / of_nat (length (bm_tokens I))"

definition idf :: "(rat \<Rightarrow> rat) \<Rightarrow> bm25 \<Rightarrow> string \<Rightarrow> rat" where
  "idf lg I t =
     (let n = of_nat (length (bm_tokens I)); q = of_nat (length (filter (\<lambda>d. t \<in> set d) (bm_tokens I)))
      in lg ((n - q + 1 / 2) / (q + 1 / 2) + 1))"

definition term_score :: "(rat \<Rightarrow> rat) \<Rightarrow> bm25 \<Rightarrow> string list \<Rightarrow> string \<Rightarrow> rat" where
  "term_score lg I doc t =
     (let f = of_nat (term_count t doc); k = 3 / 2; b = 3 / 4
      in idf lg I t * (f * (k + 1) / (f + k * (1 - b + b * of_nat (length doc) / avg_dl I))))"

definition doc_score :: "(rat \<Rightarrow> rat) \<Rightarrow> bm25 \<Rightarrow> string list \<Rightarrow> string list \<Rightarrow> rat" where
  "doc_score lg I query doc = sum_list (map (term_score lg I doc) (filter (\<lambda>t. t \<in> set doc) query))"

definition retrieve :: "(rat \<Rightarrow> rat) \<Rightarrow> bm25 \<Rightarrow> int \<Rightarrow> string \<Rightarrow> (string \<times> rat) list" where
  "retrieve lg I top_k query =
     (let scored = map (\<lambda>(p, d). (p, doc_score lg I (tokenize query) d)) (zip (bm_paths I) (bm_tokens I))
      in slice_to top_k (sort_key (\<lambda>x. - snd x) (filter (\<lambda>x. 0 < snd x) scored)))"

definition get_context_block ::
    "runtime \<Rightarrow> (rat \<Rightarrow> rat) \<Rightarrow> bm25 \<Rightarrow> int \<Rightarrow> (string \<Rightarrow> string option) \<Rightarrow> string \<Rightarrow> string \<Rightarrow> string \<Rightarrow> string" where
  "get_context_block R lg I top_k file cwd base query =
     join [CHR 10] (List.map_filter (\<lambda>(p, score). map_option (\<lambda>t.
         ''### FILE: '' @ relpath cwd p base @ '' (score: '' @ rt_fixed R 2 score @ '')'' @ [CHR 10]
           @ (if 2000 < length t then take 2000 t @ CHR 10 # ''...[truncated]...'' else t) @ [CHR 10]) (file p))
       (retrieve lg I top_k query))"

section \<open>Prompt templates\<close>

definition substitute :: "(string \<times> pyval) list \<Rightarrow> runtime \<Rightarrow> string \<Rightarrow> string" where
  "substitute args R line =
     fold (\<lambda>(k, v) l. let tag = ''{'' @ k @ ''}'' in if occurs_in tag l then replace_str tag (py_str R v) l else l) args line"

fun render_lines :: "(string \<times> pyval) list \<Rightarrow> runtime \<Rightarrow> bool list \<Rightarrow> string list \<Rightarrow> string list" where
  "render_lines args R stack [] = []"
| "render_lines args R stack (line # ls) =
     (let t = strip line
      in if startswith t ''{if '' \<and> endswith t ''}''
         then render_lines args R
                (truthy (case map_of args (strip (butlast (drop 4 t))) of None \<Rightarrow> PNone | Some v \<Rightarrow> v) # stack) ls
         else if t = ''{endif}'' then render_lines args R (tl stack) ls
         else if \<not> (\<forall>b \<in> set stack. b) then render_lines args R stack ls
         else substitute args R line # render_lines args R stack ls)"

definition render :: "string \<Rightarrow> (string \<times> pyval) list \<Rightarrow> runtime \<Rightarrow> string" where
  "render tmpl args R = join [CHR 10] (render_lines args R [] (split_char (CHR 10) tmpl))"

section \<open>The memory of outcomes\<close>

record bench_outcome =
  bo_task :: string
  bo_state :: string
  bo_repo :: string
  bo_kind :: string
  bo_summary :: string
  bo_files :: "string list"
  bo_snippet :: string
  bo_iters :: int
  bo_reward :: rat
  bo_time :: rat

definition record_bench_outcome :: "bench_outcome \<Rightarrow> rat \<Rightarrow> bench_outcome list \<Rightarrow> bench_outcome list" where
  "record_bench_outcome r now rows =
     rows @ [r\<lparr>bo_snippet := take 500 (bo_snippet r), bo_reward := max 0 (min 1 (bo_reward r)), bo_time := now\<rparr>]"

text \<open>The repository without a number at its end.\<close>

definition repo_family :: "string \<Rightarrow> string" where
  "repo_family repo =
     (let parts = split_char (CHR ''-'') repo; l = last parts
      in if 1 < length parts \<and> l \<noteq> [] \<and> list_all is_digit l then join ''-'' (butlast parts) else repo)"

text \<open>The \<open>LIKE\<close> of SQLite ignores the case of ASCII letters. Rows of equal time come in the order of insertion.\<close>

definition ascii_lower :: "char \<Rightarrow> char" where
  "ascii_lower c = (if 65 \<le> code c \<and> code c \<le> 90 then char_of (code c + 32) else c)"

definition of_family :: "string \<Rightarrow> bench_outcome \<Rightarrow> bool" where
  "of_family repo r \<longleftrightarrow>
     sql_like (map ascii_lower (repo_family repo @ ''%'')) (map ascii_lower (bo_repo r)) \<or> bo_repo r = repo"

text \<open>A negative limit is no limit; groups of equal size come in the order of their first row.\<close>

definition sql_limit :: "int \<Rightarrow> 'a list \<Rightarrow> 'a list" where
  "sql_limit n xs = (if n < 0 then xs else take (nat n) xs)"

definition get_repo_outcomes :: "bench_outcome list \<Rightarrow> string \<Rightarrow> int \<Rightarrow> bench_outcome list" where
  "get_repo_outcomes rows repo most = sql_limit most (sort_key (\<lambda>r. - bo_time r) (filter (of_family repo) rows))"

definition get_successful_patterns :: "bench_outcome list \<Rightarrow> string \<Rightarrow> int \<Rightarrow> bench_outcome list" where
  "get_successful_patterns rows repo most =
     sql_limit most (sort_key (\<lambda>r. - bo_time r) (filter (\<lambda>r. bo_state r = ''PASS'' \<and> of_family repo r) rows))"

definition get_common_mistakes :: "bench_outcome list \<Rightarrow> int \<Rightarrow> string list" where
  "get_common_mistakes rows most =
     (let texts = map bo_summary (filter (\<lambda>r. bo_state r \<noteq> ''PASS'' \<and> bo_summary r \<noteq> []) rows)
      in sql_limit most (sort_key (\<lambda>t. - int (term_count t texts)) (dedupe texts)))"

definition classify_outcome :: "bench_outcome \<Rightarrow> string" where
  "classify_outcome r =
     (let t = lower (bo_summary r @ '' '' @ bo_kind r); says = (\<lambda>w. occurs_in w t)
      in if says ''import'' then ''import_error''
         else if says ''syntax'' then ''syntax_error''
         else if says ''not found'' \<or> says ''no such file'' then ''wrong_file''
         else if says ''assertion'' \<or> says ''assert'' \<or> says ''expected'' then ''incomplete_fix''
         else if says ''timeout'' then ''timeout''
         else if says ''empty'' \<or> says ''no patch'' then ''empty_patch''
         else ''other'')"

definition get_failure_patterns :: "bench_outcome list \<Rightarrow> string \<Rightarrow> (string \<times> nat) list" where
  "get_failure_patterns rows repo =
     (let kinds = map classify_outcome (filter (\<lambda>r. bo_state r \<noteq> ''PASS'') (get_repo_outcomes rows repo 20))
      in map (\<lambda>k. (k, term_count k kinds)) (dedupe kinds))"

definition success_lines :: "bench_outcome \<Rightarrow> string list" where
  "success_lines r =
     (let files = join '', '' (take 3 (bo_files r))
      in [''- **'' @ bo_task r @ ''** (PASS): Modified '' @ (if files = [] then ''unknown'' else files)]
         @ (if bo_snippet r = [] then []
            else [''  '' @ fence @ [CHR 10] @ ''  '' @ take 200 (bo_snippet r) @ [CHR 10] @ ''  '' @ fence]))"

definition format_learnings :: "bench_outcome list \<Rightarrow> string \<Rightarrow> string" where
  "format_learnings rows repo =
     (let successes = get_successful_patterns rows repo 2;
          failures = filter (\<lambda>r. bo_state r \<noteq> ''PASS'') (get_repo_outcomes rows repo 3);
          mistakes = get_common_mistakes rows 3;
          parts = (if successes = [] then [] else ''## Successful Patterns from This Repo'' # concat (map success_lines successes))
            @ (if failures = [] then [] else (CHR 10 # ''## Recent Failures from This Repo'')
                 # map (\<lambda>r. ''- **'' @ bo_task r @ ''** ('' @ bo_state r @ ''): '' @ bo_summary r) failures)
            @ (if mistakes = [] then [] else (CHR 10 # ''## Common Mistakes to Avoid'') # map (\<lambda>m. ''- '' @ m) mistakes)
      in if parts = [] then [] else join [CHR 10] parts @ [CHR 10])"

section \<open>How long the context is\<close>

lemma context_parts_total:
  "used \<le> most \<Longrightarrow> 0 \<le> used \<Longrightarrow>
    used + int (sum_list (map length (context_parts block most used ps))) \<le> most
    \<and> length (context_parts block most used ps) \<le> length ps"
proof (induction ps arbitrary: used)
  case (Cons p ps)
  define b where "b = (if most < used + int (length (block p)) then slice_to (most - used) (block p) else block p)"
  have b: "used + int (length b) \<le> most"
    using Cons.prems length_slice_to [of "most - used" "block p"] by (auto simp: b_def)
  then show ?case
    using Cons.IH [of "used + int (length b)"] Cons.prems by (auto simp: Let_def b_def [symmetric])
qed simp

lemma length_join_le: "int (length (join [c] xs)) \<le> int (sum_list (map length xs)) + max 0 (int (length xs) - 1)"
  by (induction "[c]" xs rule: join.induct) auto

text \<open>The size of the context that the harness reads for a prompt. It has at most the given total of characters
  and one line end between two files.\<close>

theorem context_bounded:
  assumes "0 \<le> most"
  shows "int (length (read_file_context realpath file base files most per_file)) \<le> most + max 0 (int (length files) - 1)"
proof -
  let ?parts = "context_parts (file_block realpath file base per_file) most 0 files"
  have "int (sum_list (map length ?parts)) \<le> most" "length ?parts \<le> length files"
    using context_parts_total [of 0 most "file_block realpath file base per_file" files] assms by auto
  then show ?thesis using length_join_le [of "CHR 10" ?parts] unfolding read_file_context_def by linarith
qed

theorem context_bounded_witness:
  "int (length (read_file_context (\<lambda>p. p) (\<lambda>p. FileText ''x'') ''/w'' [''a'', ''b''] 30 None)) \<le> 31"
  using context_bounded [of 30 "\<lambda>p. p" "\<lambda>p. FileText ''x''" "''/w''" "[''a'', ''b'']" None] by simp

text \<open>Only files whose resolved path lies below the root are read.\<close>

lemma context_confined:
  assumes "\<And>p. commonpath (realpath base) p = realpath base \<Longrightarrow> file p = file' p"
  shows "read_file_context realpath file base files most per_file = read_file_context realpath file' base files most per_file"
proof -
  have "file_block realpath file base per_file p = file_block realpath file' base per_file p" for p
    using assms [of "realpath (path_join (realpath base) p)"] by (simp add: file_block_def Let_def)
  then show ?thesis by (metis ext read_file_context_def)
qed

section \<open>Where the helpers fall short\<close>

text \<open>The separators come on top of the limit; a text put into a prompt is itself searched for the later
  placeholders; an underscore in the name of a repository stands for any character.\<close>

lemma context_exceeds_limit: "length (read_file_context (\<lambda>p. p) (\<lambda>p. NoFile) ''/w'' [''a'', ''b''] 40 None) = 41"
  by code_simp

lemma issue_text_is_template:
  "render ''{issue_text}'' [(''issue_text'', PStr ''{context_files}''), (''context_files'', PStr ''secret'')] toy_runtime = ''secret''"
  by code_simp

lemma underscore_is_wildcard:
  "of_family ''django__django'' \<lparr>bo_task = ''t'', bo_state = ''PASS'', bo_repo = ''django-2django'', bo_kind = [], bo_summary = [],
     bo_files = [], bo_snippet = [], bo_iters = 1, bo_reward = 1, bo_time = 0\<rparr>"
  by code_simp

end
