(* ===== verification/Bench_Propose.thy ===== *)
theory Bench_Propose
  imports Bench_Context Bench_Spec
begin

text \<open>
  The proposers of the command line, \<open>rfsn_swebench/cli.py\<close>: the one that asks the orchestrator, and the direct one that
  asks a language model itself. The direct proposer uses the names \<open>_locator_usr\<close>, \<open>BM25Retriever\<close> and
  \<open>_patcher_sys\<close>, which the module neither defines nor imports; the model ends where Python raises \<open>NameError\<close>.
  Its helpers for answers are modelled as functions, the rest behind the error is left out.
\<close>

section \<open>Asking the orchestrator\<close>

text \<open>A request gives the parsed JSON of a successful reply or raises. A patch that is no text is used up to the first
  method call on it, which raises.\<close>

record 'w propose_env =
  pe_tree :: "string \<Rightarrow> 'w \<Rightarrow> fs_dir"
  pe_real :: "'w \<Rightarrow> string \<Rightarrow> string"
  pe_file :: "'w \<Rightarrow> string \<Rightarrow> file_read"
  pe_write :: "string \<Rightarrow> string \<Rightarrow> 'w \<Rightarrow> 'w option"
  pe_exists :: "string \<Rightarrow> 'w \<Rightarrow> bool"
  pe_link :: "string \<Rightarrow> string \<Rightarrow> 'w \<Rightarrow> (string + unit) \<times> 'w"
  pe_request :: "string \<Rightarrow> pydict \<Rightarrow> 'w \<Rightarrow> (string + pydict) \<times> 'w"

fun first_patch :: "pyval list \<Rightarrow> pyval res" where
  "first_patch [] = Inr (PStr [])"
| "first_patch (PDict res # rest) =
     (case dget_or res ''step'' (PDict []) of
        PDict step \<Rightarrow> if dget step ''type'' = Some (PStr ''apply_patch'') then Inr (dget_or step ''patch'' (PStr [])) else first_patch rest
      | _ \<Rightarrow> Inl AttributeError)"
| "first_patch _ = Inl AttributeError"

definition orchestrator_payload :: "bench_task \<Rightarrow> string \<Rightarrow> string \<Rightarrow> pydict" where
  "orchestrator_payload task repo scenario =
     bench_event [(''repo_id'', PStr repo), (''task'', PStr (bt_issue task)), (''max_iters'', PInt (tl_max_iters (bt_limits task))),
       (''scenario'', PStr scenario)]"

definition orchestrator_propose ::
    "runtime \<Rightarrow> 'w bench_env \<Rightarrow> 'w propose_env \<Rightarrow> string \<Rightarrow> string \<Rightarrow> string \<Rightarrow> string \<Rightarrow> bench_task \<Rightarrow> ('w, string) bench" where
  "orchestrator_propose R B P cwd url data_dir scenario task =
     (let repo = repo_id_of (bt_id task); link = path_join (path_join data_dir ''repos'') repo
      in sbind (sread (\<lambda>s. pe_exists P link (pw_dir (bs_world s)))) (\<lambda>linked.
         sbind (if linked then sret () else of_world (pe_link P (abspath cwd (bt_dir task)) link)) (\<lambda>_.
         sbind (of_world (pe_request P (url @ ''/run'') (orchestrator_payload task repo scenario))) (\<lambda>data.
         sbind (bench_lift B (ebind (py_iter (dget_or data ''results'' (PList []))) first_patch)) (\<lambda>patch.
         if \<not> truthy patch then sraise (''Orchestrator returned no patch (status='' @ py_str R (dget_or data ''status'' PNone) @ '')'')
         else bench_lift B (as_str patch))))))"

section \<open>Reading an answer\<close>

definition py_fence :: rx where
  "py_fence = rseq [rlit fence, ropt (RAlt (rlit ''python'') (rlit ''py'')), RStar True rspace, rlit [CHR 10]]"

definition FILE_BLOCK :: rx where
  "FILE_BLOCK =
     rseq [rlit ''###'', RStar True rspace, rlit ''FILE:'', RStar True rspace, RGroup 1 (RSeq rany (RStar False rany)), RStar True rspace,
       rlit [CHR 10], py_fence, RGroup 2 (RStar False rany), rlit fence]"

definition CODE_BLOCK :: rx where
  "CODE_BLOCK = rseq [py_fence, RGroup 1 (RStar False rany), rlit fence]"

definition group_texts :: "nat \<Rightarrow> rx \<Rightarrow> string \<Rightarrow> string list" where
  "group_texts k r t = map (\<lambda>m. str_or_empty (m_group (snd m) k)) (rx_finditer r t)"

fun longest :: "string list \<Rightarrow> string" where
  "longest [] = []"
| "longest (x # xs) = fold (\<lambda>y best. if length best < length y then y else best) xs x"

definition extract_file_blocks :: "string \<Rightarrow> (string \<times> string) list" where
  "extract_file_blocks t =
     (let named = map (\<lambda>m. (strip_chars [CHR 0x60] (strip (str_or_empty (m_group (snd m) 1))), str_or_empty (m_group (snd m) 2)))
            (rx_finditer FILE_BLOCK t);
          blocks = fold (\<lambda>(p, c) d. if p \<noteq> [] \<and> c \<noteq> [] then AList.update p c d else d) named [];
          codes = group_texts 1 CODE_BLOCK t
      in if blocks \<noteq> [] then blocks
         else if codes \<noteq> [] \<and> 50 < length (strip (longest codes)) then [(''__single__'', longest codes)]
         else [])"

text \<open>A file is only overwritten when it exists; its path is joined to the working directory as it is.\<close>

definition is_file :: "'w propose_env \<Rightarrow> string \<Rightarrow> 'w \<Rightarrow> bool" where
  "is_file P p w \<longleftrightarrow> pe_file P w p \<noteq> NoFile"

fun write_blocks :: "'w propose_env \<Rightarrow> string \<Rightarrow> string list \<Rightarrow> (string \<times> string) list \<Rightarrow> bool \<Rightarrow> 'w \<Rightarrow> bool \<times> 'w" where
  "write_blocks P dir focus [] written w = (written, w)"
| "write_blocks P dir focus ((p, c) # blocks) written w =
     (let full = path_join dir (if p = ''__single__'' \<and> focus \<noteq> [] then hd focus else p)
      in if \<not> is_file P full w then write_blocks P dir focus blocks written w
         else case pe_write P full c w of
                None \<Rightarrow> write_blocks P dir focus blocks written w
              | Some w' \<Rightarrow> write_blocks P dir focus blocks True w')"

definition apply_and_diff ::
    "'w bench_env \<Rightarrow> 'w propose_env \<Rightarrow> string \<Rightarrow> (string \<times> string) list \<Rightarrow> string list \<Rightarrow> ('w, string) bench" where
  "apply_and_diff B P dir blocks focus =
     sbind (of_world (\<lambda>w. case write_blocks P dir focus blocks False w of (written, w') \<Rightarrow> (Inr written, w'))) (\<lambda>written.
     if written then git_diff B dir [] else sret [])"

definition DIFF_FENCE :: rx where
  "DIFF_FENCE = rseq [rlit fence, ropt (rlit ''diff''), RStar True rspace, rlit [CHR 10], RGroup 1 (RStar False rany), rlit fence]"

fun diff_lines :: "bool \<Rightarrow> string list \<Rightarrow> string list" where
  "diff_lines in_hunk [] = []"
| "diff_lines in_hunk (l # ls) =
     (let t = rstrip l
      in if startswith t ''diff --git '' \<or> startswith t ''--- a/'' \<or> startswith t ''+++ b/''
           \<or> startswith t ''@@ '' \<and> occurs_in ''@@'' (drop 3 t)
         then t # diff_lines True ls
         else if in_hunk \<and> (startswith t ''+'' \<or> startswith t ''-'' \<or> startswith t '' '' \<or> t = []) then t # diff_lines in_hunk ls
         else diff_lines (in_hunk \<and> t = []) ls)"

definition extract_diff :: "string \<Rightarrow> string" where
  "extract_diff t =
     (let blocks = group_texts 1 DIFF_FENCE t; found = filter (\<lambda>b. occurs_in ''--- a/'' b \<and> occurs_in ''+++ b/'' b) (rev blocks);
          lines = diff_lines False (splitlines t)
      in if blocks \<noteq> [] then (if found \<noteq> [] then strip (hd found) @ [CHR 10] else join [CHR 10] (map strip blocks) @ [CHR 10])
         else if lines \<noteq> [] then join [CHR 10] lines @ [CHR 10]
         else strip t @ [CHR 10])"

text \<open>The feedback of earlier iterations; its texts are texts.\<close>

definition fb_text :: "pydict \<Rightarrow> string \<Rightarrow> string \<Rightarrow> string" where
  "fb_text fb k d = (case dget_or fb k (PStr d) of PStr t \<Rightarrow> t | _ \<Rightarrow> [])"

definition fb_reasons :: "pydict \<Rightarrow> string" where
  "fb_reasons fb = (case dget_or fb ''reasons'' (PList []) of PList xs \<Rightarrow> join '', '' (map (\<lambda>v. case v of PStr t \<Rightarrow> t | _ \<Rightarrow> []) xs) | _ \<Rightarrow> [])"

definition feedback_part :: "runtime \<Rightarrow> pydict \<Rightarrow> string list" where
  "feedback_part R fb =
     (let head = ''**Iteration '' @ py_str R (dget_or fb ''iter'' (PStr ''?'')) @ '' - ''; kind = fb_text fb ''type'' ''unknown''
      in if kind = ''gate_reject''
         then [head @ ''GATE REJECTED**: '' @ fb_reasons fb @ [CHR 10] @ ''Your patch was blocked by the safety gate. Avoid: ''
                 @ fb_reasons fb @ [CHR 10]]
         else if kind = ''apply_fail''
         then [head @ ''PATCH APPLY FAILED**: '' @ take 300 (fb_text fb ''error'' ''unknown error'') @ [CHR 10]
                 @ ''Your diff was malformed. Output the COMPLETE file content, not a partial diff.'' @ [CHR 10]]
         else if kind = ''test_fail''
         then [head @ ''TESTS FAILED**:'' @ [CHR 10] @ fence @ [CHR 10] @ take 2000 (fb_text fb ''stdout_tail'' []) @ [CHR 10] @ fence @ [CHR 10]]
              @ (if strip (take 500 (fb_text fb ''stderr_tail'' [])) = [] then []
                 else [''Stderr:'' @ [CHR 10] @ fence @ [CHR 10] @ take 500 (fb_text fb ''stderr_tail'' []) @ [CHR 10] @ fence @ [CHR 10]])
         else if kind = ''propose_error'' then [head @ ''PROPOSER ERROR**: '' @ take 300 (fb_text fb ''error'' ''unknown'') @ [CHR 10]]
         else [])"

definition format_feedback :: "runtime \<Rightarrow> pydict list \<Rightarrow> string" where
  "format_feedback R fbs =
     join [CHR 10] ((''## Previous Attempts (learn from these)'' @ [CHR 10]) # concat (map (feedback_part R) fbs))"

section \<open>The direct proposer\<close>

text \<open>The key comes from the argument or from the first of three variables that is not empty.\<close>

definition resolved_key :: "string option \<Rightarrow> (string \<times> string) list \<Rightarrow> string + string" where
  "resolved_key api_key env =
     (case filter (\<lambda>k. k \<noteq> []) (str_or_empty api_key # map (\<lambda>v. str_or_empty (map_of env v)) [''DEEPSEEK_API_KEY'', ''OPENAI_API_KEY'', ''LLM_API_KEY'']) of
        [] \<Rightarrow> Inl ''Proposer requires an API key. Set DEEPSEEK_API_KEY, OPENAI_API_KEY, LLM_API_KEY, or pass --api-key.''
      | k # _ \<Rightarrow> Inr k)"

definition TRACE_FILE :: rx where
  "TRACE_FILE = rseq [rlit (''File '' @ [dq]), RGroup 1 (rplus (RSet (\<lambda>c. c \<noteq> dq))), rlit (dq # '', line ''), rplus rdigit]"

definition TRACE_PATH :: rx where
  "TRACE_PATH = rseq [RAlt RBegin rspace, RGroup 1 (RSeq (rplus (rcls ''_./'')) (rlit ''.py'')), rlit '':'', rplus rdigit]"

definition files_from_traceback :: "'w propose_env \<Rightarrow> string \<Rightarrow> 'w \<Rightarrow> string \<Rightarrow> string list" where
  "files_from_traceback P dir w tb =
     dedupe (filter (\<lambda>p. \<not> occurs_in ''site-packages'' p \<and> \<not> occurs_in ''/lib/python'' p \<and> is_file P (path_join dir p) w) (group_texts 1 TRACE_FILE tb)
       @ filter (\<lambda>p. is_file P (path_join dir p) w) (group_texts 1 TRACE_PATH tb))"

text \<open>What the closure keeps between iterations.\<close>

record proposer_cache =
  pc_tree :: "string option"
  pc_targets :: "string list option"

type_synonym ('w, 'a) proposing = "('w bench_state \<times> proposer_cache, string, 'a) eff"

definition in_bench :: "('w, 'a) bench \<Rightarrow> ('w, 'a) proposing" where
  "in_bench m = (\<lambda>(s, c). case m s of (r, s') \<Rightarrow> (r, (s', c)))"

definition in_cache :: "(proposer_cache \<Rightarrow> proposer_cache) \<Rightarrow> ('w, unit) proposing" where
  "in_cache f = supdate (\<lambda>(s, c). (s, f c))"

definition last_blob :: "string \<Rightarrow> 'w bench_state \<Rightarrow> string" where
  "last_blob pre s =
     (case rev (sort (filter (\<lambda>n. startswith n pre) (map fst (bs_blobs s)))) of
        [] \<Rightarrow> []
      | n # _ \<Rightarrow> (case map_of (bs_blobs s) n of None \<Rightarrow> [] | Some t \<Rightarrow> t))"

text \<open>The output of the last failed test, from the feedback or, without feedback, from the saved blobs.\<close>

definition failed_output :: "'w bench_state \<Rightarrow> string" where
  "failed_output s =
     (if bs_feedback s \<noteq> []
      then (case filter (\<lambda>fb. dget fb ''type'' = Some (PStr ''test_fail'')) (rev (bs_feedback s)) of
              [] \<Rightarrow> []
            | fb # _ \<Rightarrow> fb_text fb ''stdout_tail'' [])
      else let t = last_n 4000 (last_blob ''quick_stdout_'' s) in if strip t = [] then [] else t)"

definition is_retry :: "'w bench_state \<Rightarrow> bool" where
  "is_retry s \<longleftrightarrow> bs_feedback s \<noteq> [] \<or> strip (last_n 4000 (last_blob ''quick_stdout_'' s)) \<noteq> []
     \<or> strip (last_n 2000 (last_blob ''quick_stderr_'' s)) \<noteq> []"

definition new_targets :: "'w propose_env \<Rightarrow> bench_task \<Rightarrow> 'w bench_state \<Rightarrow> string list \<Rightarrow> string list" where
  "new_targets P task s known =
     (if failed_output s = [] then []
      else take 3 (filter (\<lambda>f. f \<notin> set known) (files_from_traceback P (bt_dir task) (pw_dir (bs_world s)) (failed_output s))))"

definition target_files :: "runtime \<Rightarrow> 'w bench_env \<Rightarrow> 'w propose_env \<Rightarrow> bench_task \<Rightarrow> ('w, string list) proposing" where
  "target_files R B P task =
     sbind (sread id) (\<lambda>(s, c).
     case pc_targets c of
       None \<Rightarrow> sret (bt_focus task)
     | Some known \<Rightarrow>
         let new = (if is_retry s then new_targets P task s known else []); all = known @ new
         in if new = [] then sret known
            else sbind (in_cache (pc_targets_update (\<lambda>_. Some all))) (\<lambda>_.
                 sbind (in_bench (log_event R B [(''type'', PStr ''relocalize_expand''), (''new_files'', PList (map PStr new)),
                          (''total_files'', PInt (int (length all)))])) (\<lambda>_. sret all)))"

definition test_paths :: "bench_task \<Rightarrow> string list" where
  "test_paths task = dedupe (filter (\<lambda>p. endswith p ''.py'') (map (\<lambda>n. hd (split_str ''::'' n)) (bt_failing task)))"

definition unknown_name :: "string \<Rightarrow> string" where
  "unknown_name n = ''name '' @ [sq] @ n @ [sq] @ '' is not defined''"

text \<open>Without target files the locator prompt is the first unknown name. With target files their contents and
  those of the failing tests are read; the unknown retriever is caught, the unknown patch prompt is not.\<close>

definition direct_propose ::
    "runtime \<Rightarrow> 'w bench_env \<Rightarrow> 'w propose_env \<Rightarrow> string \<Rightarrow> bench_task \<Rightarrow> ('w, string) proposing" where
  "direct_propose R B P model task =
     sbind (in_bench (log_event R B [(''type'', PStr ''direct_llm_request''), (''model'', PStr model),
              (''strategy'', PStr ''two_stage_apply_and_diff'')])) (\<lambda>_.
     sbind (supdate (\<lambda>(s, c). (s, case pc_tree c of
              None \<Rightarrow> c\<lparr>pc_tree := Some (build_repo_tree (pe_tree P (bt_dir task) (pw_dir (bs_world s))) 200)\<rparr>
            | Some _ \<Rightarrow> c))) (\<lambda>_.
     sbind (target_files R B P task) (\<lambda>targets.
     if targets = [] then sraise (unknown_name ''_locator_usr'')
     else sbind (sread (\<lambda>(s, c). let w = pw_dir (bs_world s)
                 in (read_file_context (pe_real P w) (pe_file P w) (bt_dir task) targets 120000 (Some 30000),
                     read_file_context (pe_real P w) (pe_file P w) (bt_dir task) (test_paths task) 16000 (Some 8000)))) (\<lambda>contexts.
          sraise (unknown_name ''_patcher_sys'')))))"

section \<open>The direct proposer never proposes\<close>

definition name_errors :: "string set" where
  "name_errors = {unknown_name ''_locator_usr'', unknown_name ''_patcher_sys''}"

lemma log_event_in_bench:
  "in_bench (log_event R B kvs) (s, c) = (Inr (), (snd (log_event R B kvs s), c))"
  by (simp add: in_bench_def log_event_def supdate_def)

lemma read_then_raise: "sbind (sread f) (\<lambda>_. sraise e) = sraise e"
  by (simp add: sbind_def sread_def sraise_def)

lemma log_event_world [simp]: "bs_world (snd (log_event R B kvs s)) = bs_world s"
  by (simp add: log_event_def supdate_def)

lemma log_event_events [simp]: "bs_events (snd (log_event R B kvs s)) = bs_events s @ [bench_event kvs]"
  by (simp add: log_event_def supdate_def)

lemma target_files_returns:
  "\<exists>ts s' c'. target_files R B P task (s, c) = (Inr ts, (s', c')) \<and> bs_world s' = bs_world s
    \<and> (pc_targets c = None \<longrightarrow> s' = s \<and> c' = c \<and> ts = bt_focus task)"
  by (auto simp: target_files_def sbind_def sread_def sret_def in_cache_def supdate_def log_event_in_bench Let_def split: option.split)


text \<open>A proposer that knows no files yet, in an empty directory.\<close>

definition bare_env :: "string propose_env" where
  "bare_env = \<lparr>pe_tree = (\<lambda>d w. FsDir [] []), pe_real = (\<lambda>w p. p), pe_file = (\<lambda>w p. NoFile), pe_write = (\<lambda>p c w. None),
     pe_exists = (\<lambda>p w. False), pe_link = (\<lambda>a b w. (Inr (), w)), pe_request = (\<lambda>u d w. (Inl ''down'', w))\<rparr>"


section \<open>A run with a proposer that fails\<close>

definition never_proposes :: "'w bench_env \<Rightarrow> bool" where
  "never_proposes B \<longleftrightarrow> (\<forall>task dir d fb w. \<exists>e. fst (bn_propose B task dir d fb w) = Inl e)"

definition fruitless :: "bench_result \<Rightarrow> bool" where
  "fruitless r \<longleftrightarrow> be_status r \<in> {FAIL, ABORT} \<and> be_patch r = []"

definition untouched :: "bench_locals \<Rightarrow> bool" where
  "untouched L \<longleftrightarrow> bl_patch L = [] \<and> \<not> bl_rejected L"

definition fruitless_out :: "bench_result + bench_locals \<Rightarrow> bool" where
  "fruitless_out out = (case out of Inl r \<Rightarrow> fruitless r | Inr L \<Rightarrow> untouched L)"

lemma asked_in_vain: "never_proposes B \<Longrightarrow> yields (attempt (ask_proposer B task replay)) (\<lambda>p. \<exists>e. p = Inl e)"
proof -
  assume no: "never_proposes B"
  show ?thesis
  proof (rule tripleI)
    fix s p s' assume run: "attempt (ask_proposer B task replay) s = (Inr p, s')"
    obtain e where "fst (bn_propose B task replay (bs_diagnosis s) (bs_feedback s) (pw_dir (bs_world s))) = Inl e"
      using no unfolding never_proposes_def by blast
    then show "\<exists>e. p = Inl e"
      using run by (auto simp: attempt_def ask_proposer_def of_world_def split: prod.splits)
  qed
qed

lemma reported_fruitless: "st \<in> {FAIL, ABORT} \<Longrightarrow> yields (bench_result_of B pol task replay st i [] tests) fruitless"
  unfolding bench_result_of_def by (rule yields_skip, rule yields_sret) (auto simp: fruitless_def)

lemma failed_attempt_untouched: "untouched L \<Longrightarrow> yields (failed_attempt R B kind i e L) fruitless_out"
  unfolding failed_attempt_def add_feedback_def Let_def
  by (rule yields_skip, rule yields_bind [where U = untouched], rule yields_skip, rule yields_sret)
    (auto simp: untouched_def fruitless_out_def intro: yields_sret)

lemma iteration_fruitless:
  assumes "never_proposes B" "untouched L"
  shows "yields (bench_iteration R B pol opts task C t0 i L) fruitless_out"
proof -
  have patch: "bl_patch L = []" using assms(2) by (simp add: untouched_def)
  show ?thesis
    unfolding bench_iteration_def patch
  proof (rule yields_skip, rule yields_if, rule yields_skip)
    fix now show "yields (sbind (bench_result_of B pol task (bc_replay C) ABORT (i - 1) [] (run_list L)) (\<lambda>r. sret (Inl r))) fruitless_out"
      by (rule yields_bind [OF reported_fruitless]) (auto simp: fruitless_out_def intro: yields_sret)
  qed (rule yields_skip, rule yields_skip, rule yields_bind [OF asked_in_vain [OF assms(1)]],
      auto intro: failed_attempt_untouched [OF assms(2)])
qed

lemma loop_fruitless:
  assumes "never_proposes B" "untouched L"
  shows "yields (bench_loop R B pol opts task C t0 is L) fruitless"
  using assms(2)
proof (induction "is" arbitrary: L)
  case Nil
  then show ?case by (simp add: untouched_def reported_fruitless)
next
  case (Cons i "is")
  show ?case unfolding bench_loop.simps
  proof (rule yields_bind [OF iteration_fruitless [OF assms(1) Cons.prems]])
    fix out assume "fruitless_out out"
    then show "yields (case out of Inl r \<Rightarrow> sret r | Inr L' \<Rightarrow> bench_loop R B pol opts task C t0 is L') fruitless"
      using Cons.IH by (cases out) (auto simp: fruitless_out_def intro: yields_sret)
  qed
qed

text \<open>A benchmark run whose proposer only raises, as the direct proposer does, never passes. Whenever it
  returns, its status is \<open>FAIL\<close> or \<open>ABORT\<close> and its patch is empty.\<close>

theorem run_without_proposals_fails:
  assumes "never_proposes B"
  shows "yields (bench_run R B pol opts task) (\<lambda>r. (be_status r = FAIL \<or> be_status r = ABORT) \<and> be_patch r = [])"
proof -
  have "yields (bench_body R B pol opts task t0 replay) fruitless" for t0 replay
    unfolding bench_body_def Let_def
    by (rule yields_skip, rule yields_skip)
      (auto intro!: yields_skip reported_fruitless loop_fruitless [OF assms] simp: first_locals_def untouched_def split: option.split)
  then have "yields (bench_run R B pol opts task) fruitless"
    unfolding bench_run_def by (intro yields_skip)
  then show ?thesis by (simp add: fruitless_def triple_def)
qed

theorem run_without_proposals_fails_witness:
  "yields (bench_run toy_runtime (bench_tree\<lparr>bn_propose := (\<lambda>task dir d fb w. (Inl (unknown_name ''_patcher_sys''), w))\<rparr>) default_policy logged_opts bench_demo)
     (\<lambda>r. (be_status r = FAIL \<or> be_status r = ABORT) \<and> be_patch r = [])"
  by (rule run_without_proposals_fails) (simp add: never_proposes_def)

section \<open>Where an answer is written\<close>

text \<open>The path of a file block is not confined: an absolute path stays what it is, and one that leads out of the
  working directory is followed.\<close>

lemma block_writes_anywhere:
  assumes "p \<noteq> ''__single__''" "isabs p" "is_file P p w" "pe_write P p c w = Some w'"
  shows "write_blocks P dir focus [(p, c)] False w = (True, w')"
  using assms by (simp add: path_join_def)

text \<open>The content of a file ends at the first fence, also when the fence belongs to the file.\<close>

lemma fenced_file_is_cut:
  "extract_file_blocks (''### FILE: a'' @ [CHR 10] @ fence @ [CHR 10] @ ''x'' @ fence @ ''y'' @ [CHR 10] @ fence) = [(''a'', ''x'')]"
  by code_simp

end
