(* ===== verification/Llm_Service.thy ===== *)
theory Llm_Service
  imports Py_Value Py_Regex Py_Path Py_Text Http "HOL-Library.AList"
begin

text \<open>
  The service for language models, \<open>services/llm_service/app.py\<close>: requests are answered by the model or from a cassette
  of recorded answers. Cassettes are texts by path; the parser and printer of JSON, the resolution of links and the
  upstream request belong to a world. Also the token check that all services share (\<open>shared/auth.py\<close>) and the
  preflight guard (\<open>services/hardening_guard\<close>).
\<close>

section \<open>The cassette\<close>

record 'w llm_world =
  lw_loads :: "string \<Rightarrow> pyval option"
  lw_dumps :: "pyval \<Rightarrow> string"
  lw_resolve :: "string \<Rightarrow> string"
  lw_post :: "pydict \<Rightarrow> 'w \<Rightarrow> (string + int \<times> string \<times> pyval option) \<times> 'w"
  lw_key :: string
  lw_model :: string

text \<open>The file of the cassettes by path, as text with universal newlines.\<close>

record 'w llm_state =
  lm_files :: "(string \<times> string) list"
  lm_up :: 'w

record chat_req =
  cr_messages :: "pyval list"
  cr_temperature :: rat
  cr_max_tokens :: int
  cr_run :: "string option"
  cr_index :: "int option"
  cr_repo :: "string option"
  cr_scenario :: "string option"

definition SAFE_NAME :: rx where
  "SAFE_NAME = rseq [RBegin, rrange 1 64 (rcls ''_.-''), REnd]"

definition safe_name :: "string \<Rightarrow> bool" where
  "safe_name s \<longleftrightarrow> rx_match SAFE_NAME s \<noteq> None"

definition nonempty_or :: "string option \<Rightarrow> string \<Rightarrow> string" where
  "nonempty_or x d = (case x of None \<Rightarrow> d | Some s \<Rightarrow> if s = [] then d else s)"

text \<open>The configuration holds texts; the template has no braces but those of its two fields.\<close>

definition config_text :: "pydict \<Rightarrow> string \<Rightarrow> string \<Rightarrow> string" where
  "config_text cfg k d = (case dget_or cfg k (PStr d) of PStr t \<Rightarrow> t | _ \<Rightarrow> [])"

definition parts_of :: "string \<Rightarrow> string list" where
  "parts_of p = filter (\<lambda>c. c \<noteq> [] \<and> c \<noteq> ''.'') (split_char slash p)"

definition CASSETTES :: string where "CASSETTES = ''/data/cassettes''"

definition resolve_path :: "'w llm_world \<Rightarrow> pydict \<Rightarrow> string option \<Rightarrow> string option \<Rightarrow> string res" where
  "resolve_path W cfg repo scenario =
     (let tmpl = config_text cfg ''path_template'' []; golden = config_text cfg ''default_scenario'' ''golden'';
          rid = nonempty_or repo ''unknown''; scn = nonempty_or scenario golden;
          rid' = (if safe_name rid then rid else ''unknown''); scn' = (if safe_name scn then scn else golden);
          p = replace_str ''{scenario}'' scn' (replace_str ''{repo_id}'' rid' tmpl)
      in if tmpl = [] then Inr (config_text cfg ''path'' ''/data/cassettes/deepseek_chat.jsonl'')
         else if prefix (parts_of (lw_resolve W CASSETTES)) (parts_of (lw_resolve W p)) then Inr p
         else Inl RuntimeError)"

type_synonym cassette = "(pyval \<times> pydict) list"

fun load_cassette_lines :: "(string \<Rightarrow> pyval option) \<Rightarrow> cassette \<Rightarrow> string list \<Rightarrow> cassette res" where
  "load_cassette_lines loads m [] = Inr m"
| "load_cassette_lines loads m (l # ls) =
     (if strip l = [] then load_cassette_lines loads m ls
      else case loads (strip l) of
             None \<Rightarrow> Inl ValueError
           | Some (PDict r) \<Rightarrow>
               (case dget r ''key'' of
                  None \<Rightarrow> Inl KeyError
                | Some k \<Rightarrow> if map_of m k \<noteq> None then Inl RuntimeError else load_cassette_lines loads (m @ [(k, r)]) ls)
           | Some _ \<Rightarrow> Inl TypeError)"

definition load_cassette :: "'w llm_world \<Rightarrow> string option \<Rightarrow> cassette res" where
  "load_cassette W file = (case file of None \<Rightarrow> Inr [] | Some t \<Rightarrow> load_cassette_lines (lw_loads W) [] (split_char (CHR 10) t))"

text \<open>A full cassette loses its oldest fifth before the record is written.\<close>

definition trimmed :: "int \<Rightarrow> string \<Rightarrow> string" where
  "trimmed most t =
     (let ls = splitlines t
      in if most \<le> int (length ls) then join [CHR 10] (drop (length ls div 5) ls) @ [CHR 10] else t)"

definition append_cassette :: "'w llm_world \<Rightarrow> pydict \<Rightarrow> string \<Rightarrow> pydict \<Rightarrow> 'w llm_state \<Rightarrow> 'w llm_state res" where
  "append_cassette W cfg path r S =
     ebind (case map_of (lm_files S) path of
              None \<Rightarrow> Inr []
            | Some t \<Rightarrow> ebind (dget_int cfg ''max_records'' 500) (\<lambda>most. Inr (trimmed most t))) (\<lambda>t.
     Inr (S\<lparr>lm_files := AList.update path (t @ lw_dumps W (PDict r) @ [CHR 10]) (lm_files S)\<rparr>))"

section \<open>The request upstream\<close>

datatype llm_reply = ChatOk pyval pyval | ChatError int pydict

definition str_dict :: "(string \<times> pyval) list \<Rightarrow> pydict" where
  "str_dict kvs = map (\<lambda>(k, v). (PStr k, v)) kvs"

definition answer_text :: "pyval \<Rightarrow> pyval option" where
  "answer_text j =
     (case j of
        PDict d \<Rightarrow>
          (case dget d ''choices'' of
             Some (PList (PDict c # _)) \<Rightarrow> (case dget c ''message'' of Some (PDict m) \<Rightarrow> dget m ''content'' | _ \<Rightarrow> None)
           | _ \<Rightarrow> None)
      | _ \<Rightarrow> None)"

text \<open>The texts of exceptions in the details are left out; the reply of the model is its JSON, if it is JSON.\<close>

definition deepseek_chat :: "'w llm_world \<Rightarrow> chat_req \<Rightarrow> 'w llm_state \<Rightarrow> llm_reply \<times> 'w llm_state" where
  "deepseek_chat W q S =
     (if lw_key W = [] then (ChatError 500 (str_dict [(''error'', PStr ''missing_deepseek_api_key'')]), S)
      else case lw_post W (str_dict [(''model'', PStr (lw_model W)), (''messages'', PList (cr_messages q)),
                  (''temperature'', PFloat (cr_temperature q)), (''max_tokens'', PInt (cr_max_tokens q))]) (lm_up S) of
             (r, w) \<Rightarrow>
               (case r of
                  Inl e \<Rightarrow> ChatError 500 (str_dict [(''error'', PStr ''upstream_exception''), (''details'', PStr e)])
                | Inr (status, t, j) \<Rightarrow>
                    if status \<noteq> 200 then ChatError status (str_dict [(''error'', PStr ''deepseek_error''), (''details'', PStr t)])
                    else (case j of
                            None \<Rightarrow> ChatError 500 (str_dict [(''error'', PStr ''upstream_exception'')])
                          | Some v \<Rightarrow>
                              (case answer_text v of
                                 None \<Rightarrow> ChatError 500 (str_dict [(''error'', PStr ''upstream_exception'')])
                               | Some c \<Rightarrow> ChatOk c v)),
                S\<lparr>lm_up := w\<rparr>))"

section \<open>The handler\<close>

definition chat_payload :: "pydict \<Rightarrow> chat_req \<Rightarrow> pydict" where
  "chat_payload cfg q = str_dict
     ([(''messages'', PList (cr_messages q)), (''temperature'', PFloat (cr_temperature q)), (''max_tokens'', PInt (cr_max_tokens q))]
      @ (if truthy (dget_or cfg ''use_run_scope'' (PBool True)) \<and> str_or_empty (cr_run q) \<noteq> []
         then [(''run_id'', PStr (str_or_empty (cr_run q)))] else [])
      @ (case cr_index q of Some i \<Rightarrow> if truthy (dget_or cfg ''use_call_index'' (PBool True)) then [(''call_index'', PInt i)] else []
         | None \<Rightarrow> [])
      @ (if str_or_empty (cr_repo q) \<noteq> [] then [(''repo_id'', PStr (str_or_empty (cr_repo q)))] else [])
      @ (if str_or_empty (cr_scenario q) \<noteq> [] then [(''scenario'', PStr (str_or_empty (cr_scenario q)))] else []))"

definition chat_key :: "runtime \<Rightarrow> pydict \<Rightarrow> chat_req \<Rightarrow> string" where
  "chat_key R cfg q = rt_sha256 R (rt_dumps R False (PDict (chat_payload cfg q)))"

definition chat_mode :: "pydict \<Rightarrow> string res" where
  "chat_mode cfg = ebind (as_str (py_or (dget_or cfg ''mode'' PNone) (PStr ''off''))) (\<lambda>m. Inr (lower m))"

definition cassette_raw :: "string \<Rightarrow> string \<Rightarrow> pyval" where
  "cassette_raw mode k = PDict (str_dict [(''cassette'', PStr mode), (''key'', PStr k)])"

definition chat_record :: "runtime \<Rightarrow> pydict \<Rightarrow> chat_req \<Rightarrow> pyval \<Rightarrow> pydict" where
  "chat_record R cfg q c = str_dict [(''key'', PStr (chat_key R cfg q)), (''request'', PDict (chat_payload cfg q)), (''content'', c)]"

definition live_chat ::
    "runtime \<Rightarrow> 'w llm_world \<Rightarrow> pydict \<Rightarrow> string \<Rightarrow> string \<Rightarrow> chat_req \<Rightarrow> 'w llm_state \<Rightarrow> llm_reply res \<times> 'w llm_state" where
  "live_chat R W cfg mode path q S =
     (case deepseek_chat W q S of
        (ChatError st d, S1) \<Rightarrow> (Inr (ChatError st d), S1)
      | (ChatOk c raw, S1) \<Rightarrow>
          if mode = ''record''
          then (case append_cassette W cfg path (chat_record R cfg q c) S1 of
                  Inl e \<Rightarrow> (Inl e, S1)
                | Inr S2 \<Rightarrow> (Inr (ChatOk c (cassette_raw ''record'' (chat_key R cfg q))), S2))
          else (Inr (ChatOk c raw), S1))"

definition chat :: "runtime \<Rightarrow> 'w llm_world \<Rightarrow> pydict \<Rightarrow> chat_req \<Rightarrow> 'w llm_state \<Rightarrow> llm_reply res \<times> 'w llm_state" where
  "chat R W cfg q S =
     (case ebind (chat_mode cfg) (\<lambda>m. ebind (resolve_path W cfg (cr_repo q) (cr_scenario q)) (\<lambda>p. Inr (m, p))) of
        Inl e \<Rightarrow> (Inl e, S)
      | Inr (mode, path) \<Rightarrow>
          if mode = ''replay''
          then (case load_cassette W (map_of (lm_files S) path) of
                  Inl e \<Rightarrow> (Inl e, S)
                | Inr m \<Rightarrow>
                    (case map_of m (PStr (chat_key R cfg q)) of
                       Some r \<Rightarrow>
                         (case dget r ''content'' of
                            None \<Rightarrow> (Inl KeyError, S)
                          | Some c \<Rightarrow> (Inr (ChatOk c (cassette_raw ''replay'' (chat_key R cfg q))), S))
                     | None \<Rightarrow>
                         if truthy (dget_or cfg ''strict'' (PBool True))
                         then (Inr (ChatError 500 (str_dict [(''error'', PStr ''cassette_miss''), (''key'', PStr (chat_key R cfg q)),
                                 (''cassette'', PStr path)])), S)
                         else live_chat R W cfg mode path q S))
          else live_chat R W cfg mode path q S)"

section \<open>The token of the services\<close>

record auth_config =
  au_token :: string
  au_dev :: bool

definition PUBLIC_PATHS :: "string list" where
  "PUBLIC_PATHS = [''/'', ''/ui'', ''/favicon.ico'', ''/docs'', ''/openapi.json'']"

text \<open>The configuration at import; without a token only the development mode starts.\<close>

definition load_auth :: "(string \<times> string) list \<Rightarrow> auth_config res" where
  "load_auth env =
     (let token = str_or_empty (map_of env ''RFSN_SERVICE_TOKEN''); dev = (map_of env ''RFSN_DEV_MODE'' = Some ''1'')
      in if token = [] \<and> \<not> dev then Inl RuntimeError else Inr \<lparr>au_token = token, au_dev = dev\<rparr>)"

datatype auth_verdict = Admitted | Unauthorized | Misconfigured

definition auth_dispatch :: "auth_config \<Rightarrow> string option \<Rightarrow> string \<Rightarrow> string option \<Rightarrow> auth_verdict" where
  "auth_dispatch A token path header =
     (let t = nonempty_or token (au_token A)
      in if path \<in> set PUBLIC_PATHS then Admitted
         else if t = [] then (if au_dev A then Admitted else Misconfigured)
         else if str_or_empty header = ''Bearer '' @ t then Admitted
         else Unauthorized)"

definition auth_headers :: "auth_config \<Rightarrow> (string \<times> string) list res" where
  "auth_headers A =
     (if au_token A \<noteq> [] then Inr [(''Authorization'', ''Bearer '' @ au_token A)]
      else if au_dev A then Inr []
      else Inl RuntimeError)"

section \<open>The preflight guard\<close>

text \<open>\<open>rfsn_swebench.gate\<close> is a module and no package: the import of \<open>rfsn_swebench.gate.patch_risk_gate\<close> always fails.\<close>

definition auth_ok :: "bool \<Rightarrow> bool \<Rightarrow> string list" where
  "auth_ok has_auth dev = (if dev \<or> has_auth then [] else [''auth required but missing''])"

definition patch_gate_ok :: "bool \<Rightarrow> string list" where
  "patch_gate_ok dev = (if dev then [] else [''patch gate required but missing''])"

definition warm_sandbox :: "bool \<Rightarrow> (string \<times> string) list \<Rightarrow> string list \<times> (string \<times> string) list" where
  "warm_sandbox dev env =
     (if \<not> dev \<and> map_of env ''RFSN_WARM_SANDBOX'' = Some ''1''
      then ([''disabled warm sandbox''], AList.update ''RFSN_WARM_SANDBOX'' ''0'' env) else ([], env))"

definition venv_mode :: "bool \<Rightarrow> (string \<times> string) list \<Rightarrow> string list \<times> (string \<times> string) list" where
  "venv_mode dev env =
     (if \<not> dev \<and> map_of env ''RFSN_VENV_MODE'' \<notin> {None, Some ''per_run''}
      then ([''forced per_run venv''], AList.update ''RFSN_VENV_MODE'' ''per_run'' env) else ([], env))"

definition run_checks :: "bool \<Rightarrow> bool \<Rightarrow> (string \<times> string) list \<Rightarrow> (bool \<times> string list \<times> string list) \<times> (string \<times> string) list" where
  "run_checks has_auth dev env =
     (let fatals = auth_ok has_auth dev @ patch_gate_ok dev
      in case warm_sandbox dev env of (r1, env1) \<Rightarrow> case venv_mode dev env1 of (r2, env2) \<Rightarrow>
           ((fatals = [], r1 @ r2, fatals), env2))"

text \<open>The guard ends the process with status 2 at the first fatal finding in strict mode; otherwise it writes its state.\<close>

definition guard_main :: "bool \<Rightarrow> bool \<Rightarrow> bool \<Rightarrow> (string \<times> string) list \<Rightarrow> (int + bool \<times> string list) \<times> (string \<times> string) list" where
  "guard_main has_auth strict dev env =
     (case run_checks has_auth dev env of ((ok, repairs, fatals), env') \<Rightarrow>
        (if fatals \<noteq> [] \<and> strict \<and> \<not> dev then Inl 2 else Inr (ok, repairs), env'))"

section \<open>Recording and replay\<close>

lemma load_lines_append: "load_cassette_lines loads m (xs @ ys) = ebind (load_cassette_lines loads m xs) (\<lambda>m'. load_cassette_lines loads m' ys)"
proof (induction xs arbitrary: m)
  case (Cons l xs)
  then show ?case by (auto split: option.split pyval.split)
qed simp

lemma ebind_Inr: "ebind x Inr = x"
  by (cases x) auto

text \<open>A text that ends its last line grows by one line.\<close>

lemma split_grown:
  assumes "t = [] \<or> last t = CHR 10" "CHR 10 \<notin> set d"
  shows "split_char (CHR 10) (t @ d @ [CHR 10]) = butlast (split_char (CHR 10) t) @ [d, []]"
    and "last (split_char (CHR 10) t) = []"
proof -
  have one: "split_on (CHR 10) cur d = [rev cur @ d]" for cur
    using assms(2) by (induction d arbitrary: cur) auto
  have "t = [] \<or> (\<exists>a. t = a @ [CHR 10])" using assms(1) by (metis append_butlast_last_id)
  then show "split_char (CHR 10) (t @ d @ [CHR 10]) = butlast (split_char (CHR 10) t) @ [d, []]"
    "last (split_char (CHR 10) t) = []"
    by (auto simp: split_char_def split_on_snoc split_on_append one)
qed

text \<open>What is needed of JSON for one record: its text is one line and parses to the record again.\<close>

definition one_line :: "'w llm_world \<Rightarrow> pydict \<Rightarrow> bool" where
  "one_line W r \<longleftrightarrow> CHR 10 \<notin> set (lw_dumps W (PDict r)) \<and> strip (lw_dumps W (PDict r)) \<noteq> []
     \<and> lw_loads W (strip (lw_dumps W (PDict r))) = Some (PDict r)"

lemma load_grown:
  assumes "t = [] \<or> last t = CHR 10" "one_line W r" "load_cassette_lines (lw_loads W) [] (split_char (CHR 10) t) = Inr m" "dget r ''key'' = Some k"
  shows "load_cassette_lines (lw_loads W) [] (split_char (CHR 10) (t @ lw_dumps W (PDict r) @ [CHR 10]))
    = (if map_of m k = None then Inr (m @ [(k, r)]) else Inl RuntimeError)"
proof -
  have nl: "CHR 10 \<notin> set (lw_dumps W (PDict r))" using assms(2) by (simp add: one_line_def)
  have blank: "strip [] = []" by (simp add: strip_def)
  have "split_char (CHR 10) t = butlast (split_char (CHR 10) t) @ [[]]"
    using split_grown(2) [OF assms(1) nl] split_char_nonempty by (metis append_butlast_last_id)
  then have "load_cassette_lines (lw_loads W) [] (butlast (split_char (CHR 10) t)) = Inr m"
    using assms(3) load_lines_append [of "lw_loads W" "[]" "butlast (split_char (CHR 10) t)" "[[]]"] by (simp add: blank ebind_Inr)
  then show ?thesis
    using assms(2,4) unfolding split_grown(1) [OF assms(1) nl] load_lines_append by (auto simp: one_line_def blank)
qed

definition ends_line :: "string option \<Rightarrow> bool" where
  "ends_line file \<longleftrightarrow> (case file of None \<Rightarrow> True | Some t \<Rightarrow> t = [] \<or> last t = CHR 10)"

definition has_room :: "pydict \<Rightarrow> string option \<Rightarrow> bool" where
  "has_room cfg file \<longleftrightarrow>
     (case file of None \<Rightarrow> True
      | Some t \<Rightarrow> (case dget_int cfg ''max_records'' 500 of Inl _ \<Rightarrow> False | Inr most \<Rightarrow> int (length (splitlines t)) < most))"

lemma record_loads:
  assumes "has_room cfg (map_of (lm_files S) path)" "ends_line (map_of (lm_files S) path)" "one_line W r"
    and "load_cassette W (map_of (lm_files S) path) = Inr m" "dget r ''key'' = Some k"
  shows "\<exists>S'. append_cassette W cfg path r S = Inr S' \<and> lm_up S' = lm_up S
    \<and> load_cassette W (map_of (lm_files S') path) = (if map_of m k = None then Inr (m @ [(k, r)]) else Inl RuntimeError)"
proof (cases "map_of (lm_files S) path")
  case None
  then have "m = []" using assms(4) by (simp add: load_cassette_def)
  moreover have "load_cassette_lines (lw_loads W) [] (split_char (CHR 10) []) = Inr []"
    by (simp add: split_char_def strip_def)
  ultimately show ?thesis
    using load_grown [of "[]" W r "[]" k] assms(3,5) by (auto simp: None append_cassette_def load_cassette_def update_conv)
next
  case (Some t)
  then obtain most where most: "dget_int cfg ''max_records'' 500 = Inr most" "int (length (splitlines t)) < most"
    using assms(1) by (auto simp: has_room_def split: sum.splits)
  then have "trimmed most t = t" by (simp add: trimmed_def Let_def)
  then show ?thesis
    using load_grown [of t W r m k] assms(2-5) most
    by (auto simp: Some append_cassette_def load_cassette_def ends_line_def update_conv)
qed

lemma chat_record_key: "dget (chat_record R cfg q c) ''key'' = Some (PStr (chat_key R cfg q))"
  by (simp add: chat_record_def str_dict_def dget_def)

lemma chat_record_content: "dget (chat_record R cfg q c) ''content'' = Some c"
  by (simp add: chat_record_def str_dict_def dget_def)

definition in_mode :: "string \<Rightarrow> pydict \<Rightarrow> pydict" where
  "in_mode mode cfg = dput ''mode'' (PStr mode) cfg"

lemma in_mode_other [simp]: "k \<noteq> ''mode'' \<Longrightarrow> dget_or (in_mode mode cfg) k v = dget_or cfg k v"
  by (simp add: in_mode_def dget_or_def dict_simps)

lemma lower_modes: "lower ''replay'' = ''replay''" "lower ''record'' = ''record''"
  by code_simp+

lemma in_mode_chat [simp]: "chat_mode (in_mode ''replay'' cfg) = Inr ''replay''" "chat_mode (in_mode ''record'' cfg) = Inr ''record''"
  by (simp_all add: chat_mode_def in_mode_def dget_or_def dict_simps py_or_def lower_modes)

lemma in_mode_payload [simp]: "chat_payload (in_mode mode cfg) q = chat_payload cfg q"
  by (cases "cr_index q") (simp_all add: chat_payload_def)

lemma in_mode_key [simp]: "chat_key R (in_mode mode cfg) q = chat_key R cfg q"
  by (simp add: chat_key_def)

lemma in_mode_text [simp]: "k \<noteq> ''mode'' \<Longrightarrow> config_text (in_mode mode cfg) k d = config_text cfg k d"
  by (simp add: config_text_def)

lemma in_mode_path [simp]: "resolve_path W (in_mode mode cfg) repo scenario = resolve_path W cfg repo scenario"
  by (simp add: resolve_path_def Let_def)

lemma in_mode_record [simp]: "chat_record R (in_mode mode cfg) q c = chat_record R cfg q c"
  by (simp add: chat_record_def)

lemma in_mode_max [simp]: "dget_int (in_mode mode cfg) ''max_records'' d = dget_int cfg ''max_records'' d"
  by (simp add: dget_int_def)

lemma chat_recorded:
  assumes "chat R W (in_mode ''record'' cfg) q S = (Inr (ChatOk c raw), S')" "resolve_path W cfg (cr_repo q) (cr_scenario q) = Inr path"
  obtains w where "append_cassette W (in_mode ''record'' cfg) path (chat_record R cfg q c) (S\<lparr>lm_up := w\<rparr>) = Inr S'"
proof -
  have "deepseek_chat W q S = (ChatOk c' raw', S1) \<Longrightarrow> \<exists>w. S1 = S\<lparr>lm_up := w\<rparr>" for c' raw' S1
    by (auto simp: deepseek_chat_def split: if_splits prod.splits)
  then show thesis using assms that
    by (auto simp: chat_def live_chat_def split: prod.splits llm_reply.splits sum.splits)
qed

lemma has_room_in_mode [simp]: "has_room (in_mode mode cfg) file = has_room cfg file"
  by (simp add: has_room_def cong: option.case_cong)


text \<open>The world of the witness answers every request with one text and prints the one record on one line.\<close>

definition toy_config :: pydict where
  "toy_config = str_dict [(''path'', PStr ''/c.jsonl'')]"

definition toy_chat :: chat_req where
  "toy_chat = \<lparr>cr_messages = [], cr_temperature = 0, cr_max_tokens = 9, cr_run = None, cr_index = None, cr_repo = None, cr_scenario = None\<rparr>"

definition toy_llm :: "unit llm_world" where
  "toy_llm =
     \<lparr>lw_loads = (\<lambda>t. Some (PDict (chat_record toy_runtime toy_config toy_chat (PStr ''hi'')))), lw_dumps = (\<lambda>v. ''json''), lw_resolve = (\<lambda>p. p),
      lw_post = (\<lambda>body w. (Inr (200, [], Some (PDict (str_dict [(''choices'', PList [PDict (str_dict
        [(''message'', PDict (str_dict [(''content'', PStr ''hi'')]))])])]))), w)),
      lw_key = ''k'', lw_model = ''m''\<rparr>"

definition toy_llm_state :: "unit llm_state" where
  "toy_llm_state = \<lparr>lm_files = [], lm_up = ()\<rparr>"


section \<open>The token and the guard\<close>

text \<open>A service accepts the headers of another one with the same configuration; outside the development mode, with a
  token, nothing else reaches a path that is not public.\<close>

lemma own_headers_accepted:
  "load_auth env = Inr A \<Longrightarrow> auth_headers A = Inr hs \<Longrightarrow> auth_dispatch A None path (map_of hs ''Authorization'') = Admitted"
  by (auto simp: load_auth_def auth_headers_def auth_dispatch_def nonempty_or_def str_or_empty_def Let_def split: if_splits)

lemma only_the_token_opens:
  "load_auth env = Inr A \<Longrightarrow> map_of env ''RFSN_DEV_MODE'' \<noteq> Some ''1'' \<Longrightarrow> path \<notin> set PUBLIC_PATHS \<Longrightarrow>
    auth_dispatch A None path header = Admitted \<longleftrightarrow> header = Some (''Bearer '' @ au_token A)"
  by (auto simp: load_auth_def auth_dispatch_def nonempty_or_def str_or_empty_def Let_def split: if_splits option.splits)

text \<open>In strict mode outside of development the guard never lets the system start, and a full cassette
  is cut at characters that only \<open>splitlines\<close> takes for line ends.\<close>

lemma hardened_boot_fails: "fst (guard_main has_auth True False env) = Inl 2"
  by (auto simp: guard_main_def run_checks_def Let_def patch_gate_ok_def split: prod.split)

lemma trim_cuts_records: "trimmed 2 (''[a'' @ [CHR 0x85] @ ''b]'' @ [CHR 10]) = ''[a'' @ [CHR 10] @ ''b]'' @ [CHR 10]"
  by code_simp

end
