(* ===== verification/Bench_Scripts.thy ===== *)
theory Bench_Scripts
  imports Bench_Context
begin

text \<open>
  The scripts around the benchmark: the conversion of SWE-bench instances to tasks
  (\<open>scripts/convert_swebench_tasks.py\<close>), the scorecard (\<open>scripts/score_swebench.py\<close>) and the outcome that a batch
  records for a task (\<open>scripts/run_swebench_batch.py\<close>). Rows and results are typed records; their command lines and
  printing are left out.
\<close>

section \<open>Tests of an instance\<close>

text \<open>The list is JSON or, when it is not, separated by commas.\<close>

definition parse_fail_to_pass :: "runtime \<Rightarrow> (string \<Rightarrow> pyval option) \<Rightarrow> string \<Rightarrow> string list" where
  "parse_fail_to_pass R loads raw =
     (if raw = [] then []
      else case loads raw of
             Some (PList xs) \<Rightarrow> map (py_str R) xs
           | _ \<Rightarrow> map (\<lambda>t. strip_chars [sq] (strip_chars [dq] (strip t))) (filter (\<lambda>t. strip t \<noteq> []) (split_char (CHR '','') raw)))"

definition extract_test_files :: "string list \<Rightarrow> string list" where
  "extract_test_files nodes =
     dedupe (List.map_filter (\<lambda>n. if occurs_in ''::'' n then Some (hd (split_str ''::'' n))
        else if occurs_in ''.py'' n then Some (hd (split_str ''.py'' n) @ ''.py'') else None) nodes)"

datatype test_format = PytestNode | Unittest | BareFunc

definition classify_test_format :: "string list \<Rightarrow> test_format" where
  "classify_test_format tests =
     (if tests = [] then PytestNode
      else if (\<exists>t \<in> set tests. occurs_in ''::'' t) \<and> (\<exists>t \<in> set tests. occurs_in ''::'' t \<and> occurs_in ''.py'' (hd (split_str ''::'' t)))
      then PytestNode
      else if \<exists>t \<in> set tests. CHR ''('' \<in> set t then Unittest
      else BareFunc)"

text \<open>The text before the last dot; the whole text when there is no dot.\<close>

definition before_last_dot :: "string \<Rightarrow> string" where
  "before_last_dot s = (if CHR ''.'' \<in> set s then butlast (rev (dropWhile (\<lambda>c. c \<noteq> CHR ''.'') (rev s))) else s)"

definition rstrip_paren :: "string \<Rightarrow> string" where
  "rstrip_paren s = rev (dropWhile (\<lambda>c. c = CHR '')'') (rev s))"

definition module_of_test :: "string \<Rightarrow> string option" where
  "module_of_test t = (if CHR ''('' \<in> set t then Some (before_last_dot (rstrip_paren (split_char (CHR ''('') t ! 1))) else None)"

text \<open>The modules are collected in a set; \<open>order\<close> is the order in which the set is walked. A test without a name
  raises.\<close>

definition first_words :: "string list \<Rightarrow> string list res" where
  "first_words tests = emap (\<lambda>t. case split_words t of [] \<Rightarrow> Inl IndexError | w # _ \<Rightarrow> Inr w) tests"

definition PYTEST :: string where "PYTEST = ''python -m pytest -x -q''"

definition build_quick_test_cmd :: "(string list \<Rightarrow> string list) \<Rightarrow> string list \<Rightarrow> string res" where
  "build_quick_test_cmd order tests =
     (if tests = [] then Inr PYTEST
      else case classify_test_format tests of
             PytestNode \<Rightarrow> Inr (PYTEST @ '' '' @ join '' '' tests)
           | Unittest \<Rightarrow>
               (let mods = order (dedupe (List.map_filter module_of_test tests))
                in Inr (if mods = [] then PYTEST
                        else PYTEST @ '' '' @ join '' '' (map (\<lambda>m. replace_char (CHR ''.'') slash m @ ''.py'') mods)))
           | BareFunc \<Rightarrow>
               ebind (first_words tests) (\<lambda>names. Inr (PYTEST @ '' -k '' @ [dq] @ join '' or '' names @ [dq])))"

definition build_full_test_cmd :: "(string list \<Rightarrow> string list) \<Rightarrow> string list \<Rightarrow> string res" where
  "build_full_test_cmd order tests =
     (if tests = [] then Inr PYTEST
      else case classify_test_format tests of
             PytestNode \<Rightarrow> Inr (PYTEST @ '' '' @ join '' '' tests)
           | Unittest \<Rightarrow>
               (let mods = order (dedupe (List.map_filter module_of_test tests))
                in if mods = [] then Inr PYTEST
                   else Inr (PYTEST @ '' '' @ join '' '' (map (\<lambda>m. replace_char (CHR ''.'') slash m @ ''.py'') mods)))
           | BareFunc \<Rightarrow>
               ebind (first_words tests) (\<lambda>names. Inr (PYTEST @ '' -k '' @ [dq] @ join '' or '' names @ [dq])))"

definition extract_focus_files :: "string \<Rightarrow> string list" where
  "extract_focus_files patch =
     List.map_filter (\<lambda>l.
       if startswith l ''diff --git a/'' \<and> 4 \<le> length (split_words l)
       then let w = split_words l ! 2; p = (if startswith w ''a/'' then drop 2 w else w)
            in if occurs_in ''test'' (lower p) then None else Some p
       else None) (splitlines patch)"

record swe_row =
  sw_id :: string
  sw_repo :: string
  sw_tests :: string
  sw_patch :: string
  sw_commit :: string
  sw_problem :: string
  sw_test_patch :: string

definition REPO_SETUP :: "(string \<times> string list) list" where
  "REPO_SETUP =
     [(''django/django'', [''pip install -e .[argon2,bcrypt]'']), (''sympy/sympy'', [''pip install -e .'']),
      (''scikit-learn/scikit-learn'', [''pip install -e .[tests]'']), (''matplotlib/matplotlib'', [''pip install -e .[dev]'']),
      (''sphinx-doc/sphinx'', [''pip install -e .[test]'']), (''pytest-dev/pytest'', [''pip install -e .[testing]'']),
      (''astropy/astropy'', [''pip install -e .[test]'']), (''pydata/xarray'', [''pip install -e .'']),
      (''pylint-dev/pylint'', [''pip install -e .[testutils]'']),
      (''psf/requests'', [''pip install -e .[socks]'', ''pip install pytest-httpbin trustme'']),
      (''pallets/flask'', [''pip install -e .[dev]'']), (''mwaskom/seaborn'', [''pip install -e .[dev]''])]"

definition DEFAULT_LIMITS :: task_limits where
  "DEFAULT_LIMITS = \<lparr>tl_max_iters = 8, tl_max_bytes = 250000, tl_max_files = 15, tl_max_new = 5, tl_max_runtime = 1800\<rparr>"

definition convert_instance ::
    "runtime \<Rightarrow> (string \<Rightarrow> pyval option) \<Rightarrow> (string list \<Rightarrow> string list) \<Rightarrow> string \<Rightarrow> swe_row \<Rightarrow> bench_task res" where
  "convert_instance R loads order workdir row =
     (let tid = repo_id_of (sw_id row); tests = parse_fail_to_pass R loads (sw_tests row)
      in ebind (build_quick_test_cmd order tests) (\<lambda>quick. ebind (build_full_test_cmd order tests) (\<lambda>full.
         Inr \<lparr>bt_id = tid, bt_url = ''https://github.com/'' @ sw_repo row @ ''.git'', bt_dir = path_join workdir tid,
              bt_issue = sw_problem row, bt_ref = Some (sw_commit row), bt_failing = tests, bt_focus = extract_focus_files (sw_patch row),
              bt_test_patch = sw_test_patch row,
              bt_setup = (case map_of REPO_SETUP (sw_repo row) of None \<Rightarrow> [''pip install -e .''] | Some cs \<Rightarrow> cs),
              bt_quick = quick, bt_full = full, bt_limits = DEFAULT_LIMITS\<rparr>)))"

section \<open>The scorecard\<close>

record task_result =
  rs_task :: string
  rs_status :: string
  rs_iters :: int
  rs_risk :: string
  rs_patch :: string
  rs_durations :: "rat list"
  rs_reasons :: "string list"
  rs_stdout :: string

definition extract_repo :: "string \<Rightarrow> string" where
  "extract_repo tid =
     (case split_str ''__'' tid of
        owner # rest # _ \<Rightarrow>
          owner @ [slash] @ (if CHR ''-'' \<in> set rest then butlast (rev (dropWhile (\<lambda>c. c \<noteq> CHR ''-'') (rev rest))) else rest)
      | _ \<Rightarrow> ''unknown'')"

record score_row =
  sr_task :: string
  sr_repo :: string
  sr_status :: string
  sr_iters :: int
  sr_risk :: string
  sr_lines :: nat
  sr_duration :: rat

record scorecard =
  sc_total :: nat
  sc_pass :: nat
  sc_fail :: nat
  sc_abort :: nat
  sc_rate :: rat
  sc_repos :: "(string \<times> nat \<times> nat) list"
  sc_rows :: "score_row list"

definition count_repo :: "task_result \<Rightarrow> (string \<times> nat \<times> nat) list \<Rightarrow> (string \<times> nat \<times> nat) list" where
  "count_repo r d =
     (case (case map_of d (extract_repo (rs_task r)) of None \<Rightarrow> (0, 0) | Some x \<Rightarrow> x) of (n, p) \<Rightarrow>
        AList.update (extract_repo (rs_task r)) (n + 1, if rs_status r = ''PASS'' then p + 1 else p) d)"

definition status_count :: "string \<Rightarrow> task_result list \<Rightarrow> nat" where
  "status_count st rs = length (filter (\<lambda>r. rs_status r = st) rs)"

definition round_to :: "int \<Rightarrow> rat \<Rightarrow> rat" where
  "round_to n x = of_int (round_half_even (x * of_int n)) / of_int n"

definition score_row_of :: "task_result \<Rightarrow> score_row" where
  "score_row_of r =
     \<lparr>sr_task = rs_task r, sr_repo = extract_repo (rs_task r), sr_status = rs_status r, sr_iters = rs_iters r, sr_risk = rs_risk r,
      sr_lines = length (splitlines (rs_patch r)), sr_duration = round_to 10 (sum_list (rs_durations r))\<rparr>"

definition score :: "task_result list \<Rightarrow> scorecard" where
  "score rs =
     \<lparr>sc_total = length rs, sc_pass = status_count ''PASS'' rs, sc_fail = status_count ''FAIL'' rs, sc_abort = status_count ''ABORT'' rs,
      sc_rate = (if rs = [] then 0 else round_to 100 (of_nat (status_count ''PASS'' rs) / of_nat (length rs) * 100)),
      sc_repos = fold count_repo rs [], sc_rows = map score_row_of rs\<rparr>"

section \<open>The outcome of a task in a batch\<close>

definition before_last_dash :: "string \<Rightarrow> string" where
  "before_last_dash s = (if CHR ''-'' \<in> set s then butlast (rev (dropWhile (\<lambda>c. c \<noteq> CHR ''-'') (rev s))) else s)"

definition failure_line :: "string \<Rightarrow> string" where
  "failure_line out =
     (case filter (\<lambda>l. occurs_in ''FAILED'' l \<or> occurs_in ''Error'' l) (split_char (CHR 10) out) of
        [] \<Rightarrow> [] | l # _ \<Rightarrow> take 200 (strip l))"

definition batch_outcome :: "string \<Rightarrow> task_result \<Rightarrow> bench_outcome" where
  "batch_outcome tid r =
     (let st = rs_status r;
          (kind, summary) =
            (if st = ''GATE_REJECT'' then (''gate_reject'', if rs_reasons r \<noteq> [] then join ''; '' (take 3 (rs_reasons r)) else ''Gate rejected'')
             else if st = ''FAIL'' then (''test_fail'', if failure_line (rs_stdout r) \<noteq> [] then failure_line (rs_stdout r) else ''Tests failed'')
             else if st = ''ABORT'' then (''abort'', ''Task aborted (timeout or setup failure)'')
             else ([], []))
      in \<lparr>bo_task = tid, bo_state = st, bo_repo = before_last_dash tid, bo_kind = kind, bo_summary = summary,
          bo_files = map (\<lambda>l. strip (drop 6 l)) (filter (\<lambda>l. startswith l ''+++ b/'') (split_char (CHR 10) (rs_patch r))),
          bo_snippet = take 500 (rs_patch r), bo_iters = rs_iters r, bo_reward = 0, bo_time = 0\<rparr>)"

definition record_batch_outcome :: "string \<Rightarrow> task_result \<Rightarrow> rat \<Rightarrow> bench_outcome list \<Rightarrow> bench_outcome list" where
  "record_batch_outcome tid r now rows = record_bench_outcome (batch_outcome tid r) now rows"

section \<open>What the scripts compute\<close>

lemma full_is_quick: "build_full_test_cmd order tests = build_quick_test_cmd order tests"
  by (simp add: build_full_test_cmd_def build_quick_test_cmd_def Let_def split: test_format.split)

definition repo_counts :: "(string \<times> nat \<times> nat) list \<Rightarrow> nat \<times> nat" where
  "repo_counts d = (sum_list (map (fst \<circ> snd) d), sum_list (map (snd \<circ> snd) d))"

lemma sum_update:
  fixes f :: "'v \<Rightarrow> nat"
  assumes "distinct (map fst d)"
  shows "sum_list (map (f \<circ> snd) (AList.update k v d)) + (case map_of d k of None \<Rightarrow> 0 | Some w \<Rightarrow> f w)
    = sum_list (map (f \<circ> snd) d) + f v"
  using assms
proof (induction d)
  case (Cons x d)
  obtain k' w where x: "x = (k', w)" by fastforce
  show ?case using Cons by (cases "k' = k") (auto simp: x map_of_eq_None_iff)
qed simp

lemma count_repo_adds:
  assumes "distinct (map fst d)"
  shows "repo_counts (count_repo r d) = (fst (repo_counts d) + 1, snd (repo_counts d) + (if rs_status r = ''PASS'' then 1 else 0))"
    and "distinct (map fst (count_repo r d))"
proof -
  let ?k = "extract_repo (rs_task r)"
  obtain n p where np: "(case map_of d ?k of None \<Rightarrow> (0, 0) | Some x \<Rightarrow> x) = (n, p)" by fastforce
  let ?v = "(n + 1, if rs_status r = ''PASS'' then p + 1 else p)"
  have "count_repo r d = AList.update ?k ?v d" by (simp add: count_repo_def np)
  moreover have "(case map_of d ?k of None \<Rightarrow> 0 | Some w \<Rightarrow> fst w) = n" "(case map_of d ?k of None \<Rightarrow> 0 | Some w \<Rightarrow> snd w) = p"
    using np by (auto split: option.splits)
  ultimately show "repo_counts (count_repo r d) = (fst (repo_counts d) + 1, snd (repo_counts d) + (if rs_status r = ''PASS'' then 1 else 0))"
    using sum_update [OF assms, of fst ?k ?v] sum_update [OF assms, of snd ?k ?v]
    by (cases "rs_status r = ''PASS''") (simp_all add: repo_counts_def)
  show "distinct (map fst (count_repo r d))"
    using distinct_update [OF assms] by (simp add: count_repo_def np)
qed

text \<open>The counts of the repositories add up to the counts of the card.\<close>

lemma scorecard_adds_up: "repo_counts (sc_repos (score rs)) = (sc_total (score rs), sc_pass (score rs))"
proof -
  have "distinct (map fst d) \<Longrightarrow> repo_counts (fold count_repo rs d)
      = (fst (repo_counts d) + length rs, snd (repo_counts d) + status_count ''PASS'' rs)" for d
  proof (induction rs arbitrary: d)
    case (Cons r rs)
    then show ?case using count_repo_adds [OF Cons.prems, of r] by (simp add: status_count_def)
  qed (simp add: status_count_def)
  from this [of "[]"] show ?thesis by (simp add: score_def repo_counts_def)
qed

text \<open>The full tests of a converted task are its quick tests, and the name of a test with a character of the shell
  makes the command a line for the shell.\<close>

lemma converted_full_is_quick: "convert_instance R loads order workdir row = Inr t \<Longrightarrow> bt_full t = bt_quick t"
  by (auto simp: convert_instance_def Let_def full_is_quick)

lemma converted_test_reaches_shell:
  "build_quick_test_cmd order [''t.py::f[$(id)]''] = Inr ''python -m pytest -x -q t.py::f[$(id)]''
    \<and> needs_shell ''python -m pytest -x -q t.py::f[$(id)]''"
proof
  have "classify_test_format [''t.py::f[$(id)]''] = PytestNode" by code_simp
  then show "build_quick_test_cmd order [''t.py::f[$(id)]''] = Inr ''python -m pytest -x -q t.py::f[$(id)]''"
    by (simp add: build_quick_test_cmd_def PYTEST_def)
  show "needs_shell ''python -m pytest -x -q t.py::f[$(id)]''" by code_simp
qed

end
