(* ===== verification/Py_Url.thy ===== *)
theory Py_Url
  imports Py_Text
begin

text \<open>
  \<open>urllib.parse.urlparse\<close> on ASCII text. Leading control characters and blanks are dropped, tabs and line
  ends are removed everywhere; \<open>valid_ip\<close> is the check of a host in brackets by \<open>ipaddress\<close>. The result is
  an error where Python raises a \<open>ValueError\<close>.
\<close>

record url_parts =
  up_scheme :: string
  up_netloc :: string
  up_path :: string
  up_query :: string
  up_fragment :: string

definition scheme_char :: "char \<Rightarrow> bool" where
  "scheme_char c \<longleftrightarrow> is_word c \<and> c \<noteq> CHR ''_'' \<and> code c < 128 \<or> c \<in> set ''+-.''"

definition ascii_alpha :: "char \<Rightarrow> bool" where
  "ascii_alpha c \<longleftrightarrow> (let n = code c in 65 \<le> n \<and> n \<le> 90 \<or> 97 \<le> n \<and> n \<le> 122)"

definition url_clean :: "string \<Rightarrow> string" where
  "url_clean s = filter (\<lambda>c. code c \<notin> {9, 10, 13}) (dropWhile (\<lambda>c. code c \<le> 32) s)"

text \<open>\<open>before\<close> a separator and what follows it, \<open>None\<close> where it does not occur (\<open>s.split(sep, 1)\<close>).\<close>

definition cut_at :: "char \<Rightarrow> string \<Rightarrow> string \<times> string option" where
  "cut_at c s =
     (case dropWhile (\<lambda>x. x \<noteq> c) s of [] \<Rightarrow> (s, None) | _ # r \<Rightarrow> (takeWhile (\<lambda>x. x \<noteq> c) s, Some r))"

definition split_scheme :: "string \<Rightarrow> string \<times> string" where
  "split_scheme u =
     (case cut_at (CHR '':'') u of
        (p, Some r) \<Rightarrow> if p \<noteq> [] \<and> ascii_alpha (hd p) \<and> list_all scheme_char p then (lower p, r) else ([], u)
      | (p, None) \<Rightarrow> ([], u))"

definition split_netloc :: "string \<Rightarrow> string \<times> string" where
  "split_netloc u =
     (if startswith u ''//''
      then (takeWhile (\<lambda>c. c \<notin> set ''/?#'') (drop 2 u), dropWhile (\<lambda>c. c \<notin> set ''/?#'') (drop 2 u))
      else ([], u))"

definition brackets_ok :: "(string \<Rightarrow> bool) \<Rightarrow> string \<Rightarrow> bool" where
  "brackets_ok valid_ip n \<longleftrightarrow>
     (if CHR ''['' \<in> set n \<or> CHR '']'' \<in> set n then CHR ''['' \<in> set n \<and> CHR '']'' \<in> set n \<and> valid_ip n else True)"

text \<open>The parameters after a semicolon in the last segment are split off the path for the schemes that
  have them; of those only https and the empty scheme occur here.\<close>

definition drop_params :: "string \<Rightarrow> string" where
  "drop_params p =
     (let segs = split_char slash p; l = last segs
      in if CHR '';'' \<in> set l then join [slash] (butlast segs @ [takeWhile (\<lambda>c. c \<noteq> CHR '';'') l]) else p)"

definition urlparse :: "(string \<Rightarrow> bool) \<Rightarrow> string \<Rightarrow> url_parts option" where
  "urlparse valid_ip s =
     (case split_scheme (url_clean s) of (sch, u) \<Rightarrow>
      case split_netloc u of (net, u2) \<Rightarrow>
        if \<not> brackets_ok valid_ip net then None
        else (case cut_at (CHR ''#'') u2 of (u3, frag) \<Rightarrow>
              case cut_at (CHR ''?'') u3 of (u4, query) \<Rightarrow>
                Some \<lparr>up_scheme = sch, up_netloc = net,
                      up_path = (if sch \<in> {''https'', ''http'', []} then drop_params u4 else u4),
                      up_query = (case query of None \<Rightarrow> [] | Some q \<Rightarrow> q),
                      up_fragment = (case frag of None \<Rightarrow> [] | Some f \<Rightarrow> f)\<rparr>))"

text \<open>\<open>u.username\<close> or \<open>u.password\<close> is a non-empty text.\<close>

definition has_credentials :: "string \<Rightarrow> bool" where
  "has_credentials net \<longleftrightarrow>
     CHR ''@'' \<in> set net \<and>
     (let user = rev (tl (dropWhile (\<lambda>c. c \<noteq> CHR ''@'') (rev net))) in user \<noteq> [] \<and> user \<noteq> '':'')"

lemma url_clean_hd:
  assumes "split_scheme (url_clean s) = (sch, u)" "sch \<noteq> []" "s = c # cs"
  shows "code c \<le> 32 \<or> ascii_alpha c"
proof (cases "code c \<le> 32")
  case False
  then have "url_clean s = c # filter (\<lambda>c. code c \<notin> {9, 10, 13}) cs" by (simp add: url_clean_def assms(3))
  then obtain u' where u: "url_clean s = c # u'" by simp
  from assms(1,2) have "\<exists>p r. cut_at (CHR '':'') (url_clean s) = (p, Some r) \<and> p \<noteq> [] \<and> ascii_alpha (hd p)"
    by (auto simp: split_scheme_def split: prod.splits option.splits if_splits)
  then show ?thesis
    by (auto simp: cut_at_def u split: list.splits if_splits)
qed simp

end
