(* ===== verification/Executor_Repo.thy ===== *)
theory Executor_Repo
  imports Executor_Spec Py_Url
begin

text \<open>
  The start of the executor and its routes that keep the repositories, \<open>services/executor/app.py\<close>: the
  guards at import time, \<open>GET /env_manifest\<close>, \<open>GET /repos\<close> and \<open>POST /repo/import\<close>. The file system and
  the processes are functions of a world \<open>'w\<close>; the state logs every change the code asks for.
\<close>

section \<open>The guards at start-up\<close>

text \<open>What the start depends on: the environment, whether the two optional modules can be imported, how the
  question for the docker version ends, whether the pool can be built, and the parsed policy files.\<close>

record boot_env =
  bo_env :: "string \<Rightarrow> string option"
  bo_has_auth :: bool
  bo_has_gate :: bool
  bo_docker :: proc_end
  bo_pool_starts :: bool
  bo_policy :: "string \<Rightarrow> pydict option"

record boot_result =
  br_auth :: bool
  br_gate :: bool
  br_image :: string
  br_venv_mode :: string
  br_docker_mode :: bool
  br_docker_available :: bool
  br_dev_mode :: bool
  br_pool :: bool
  br_templates :: pydict

definition getenv :: "boot_env \<Rightarrow> string \<Rightarrow> string \<Rightarrow> string" where
  "getenv B k d = (case bo_env B k of None \<Rightarrow> d | Some v \<Rightarrow> v)"

definition env_on :: "boot_env \<Rightarrow> string \<Rightarrow> string \<Rightarrow> bool" where
  "env_on B k d \<longleftrightarrow> getenv B k d = ''1''"

definition local_exec_allowed :: "boot_env \<Rightarrow> bool" where
  "local_exec_allowed B \<longleftrightarrow> env_on B ''RFSN_DEV_MODE'' ''0'' \<and> env_on B ''RFSN_ALLOW_LOCAL_EXEC'' ''0''"

definition is_digest_image_ref :: "string \<Rightarrow> bool" where
  "is_digest_image_ref ref \<longleftrightarrow> occurs_in ''@sha256:'' (strip ref)"

definition docker_runtime_available :: "boot_env \<Rightarrow> bool" where
  "docker_runtime_available B =
     (case bo_docker B of Exited status out \<Rightarrow> status = 0 \<and> strip out \<noteq> [] | _ \<Rightarrow> False)"

definition BLESSED_IMAGE :: "boot_env \<Rightarrow> string" where
  "BLESSED_IMAGE B = getenv B ''BLESSED_IMAGE''
     ''rfsn-blessed@sha256:208a2c2dac42ed9b3ca023b30cd815518070930274592844511aa34de21b6360''"

definition use_docker_flag :: "boot_env \<Rightarrow> bool" where
  "use_docker_flag B \<longleftrightarrow> env_on B ''RFSN_EXEC_USE_DOCKER'' ''1''"

text \<open>The errors that end the process, in the order in which the module meets them.\<close>

datatype boot_error = NoAuthModule | NoPatchGate | BadVenvMode | ImageNotPinned | NoDocker | LocalNotAllowed
  | MissingPolicy string | EvalTemplate pyval | BadPolicy pyerr

definition DEPS_POLICY :: string where "DEPS_POLICY = ''/policies/deps_policy.yaml''"
definition GATE_POLICY :: string where "GATE_POLICY = ''/policies/gate_policy.yaml''"
definition TEMPLATE_POLICY :: string where "TEMPLATE_POLICY = ''/policies/command_templates.yaml''"
definition TOOL_POLICY :: string where "TOOL_POLICY = ''/policies/tool_allowlist.yaml''"

text \<open>\<open>"eval" in cmd\<close>, where the command is a list, a text or a mapping.\<close>

definition has_eval :: "pyval \<Rightarrow> bool res" where
  "has_eval cmd =
     (case cmd of
        PList ws \<Rightarrow> Inr (PStr ''eval'' \<in> set ws)
      | PStr s \<Rightarrow> Inr (occurs_in ''eval'' s)
      | PDict d \<Rightarrow> Inr (dget d ''eval'' \<noteq> None)
      | _ \<Rightarrow> Inl TypeError)"

fun check_templates :: "pydict \<Rightarrow> boot_error option" where
  "check_templates [] = None"
| "check_templates ((n, PDict d) # ts) =
     (case has_eval (case dget d ''cmd'' of None \<Rightarrow> PList [] | Some c \<Rightarrow> c) of
        Inl e \<Rightarrow> Some (BadPolicy e)
      | Inr True \<Rightarrow> Some (EvalTemplate n)
      | Inr False \<Rightarrow> check_templates ts)"
| "check_templates (t # ts) = Some (BadPolicy AttributeError)"

definition load_templates :: "pydict \<Rightarrow> boot_error + pydict" where
  "load_templates p =
     (case (case dget p ''templates'' of None \<Rightarrow> PDict [] | Some t \<Rightarrow> t) of
        PDict ts \<Rightarrow> (case check_templates ts of None \<Rightarrow> Inr ts | Some e \<Rightarrow> Inl e)
      | _ \<Rightarrow> Inl (BadPolicy AttributeError))"

definition boot_policies :: "boot_env \<Rightarrow> boot_error + pydict" where
  "boot_policies B =
     (if bo_policy B DEPS_POLICY = None then Inl (MissingPolicy DEPS_POLICY)
      else if bo_policy B GATE_POLICY = None then Inl (MissingPolicy GATE_POLICY)
      else (case bo_policy B TEMPLATE_POLICY of
              None \<Rightarrow> Inl (MissingPolicy TEMPLATE_POLICY)
            | Some p \<Rightarrow>
                (case load_templates p of
                   Inl e \<Rightarrow> Inl e
                 | Inr ts \<Rightarrow> if bo_policy B TOOL_POLICY = None then Inl (MissingPolicy TOOL_POLICY) else Inr ts)))"

definition executor_boot :: "boot_env \<Rightarrow> boot_error + boot_result" where
  "executor_boot B =
     (let dev = env_on B ''RFSN_DEV_MODE'' ''0''; venv = getenv B ''RFSN_VENV_MODE'' ''per_run'';
          available = use_docker_flag B \<and> docker_runtime_available B
      in if \<not> bo_has_auth B \<and> env_on B ''RFSN_AUTH_REQUIRED'' ''1'' \<and> \<not> dev then Inl NoAuthModule
         else if \<not> bo_has_gate B \<and> env_on B ''RFSN_PATCH_GATE_REQUIRED'' ''1'' \<and> \<not> dev then Inl NoPatchGate
         else if venv \<notin> {''per_run'', ''shared''} then Inl BadVenvMode
         else if env_on B ''RFSN_STRICT_IMAGE_DIGEST'' ''1'' \<and> \<not> dev \<and> \<not> is_digest_image_ref (BLESSED_IMAGE B)
           then Inl ImageNotPinned
         else if use_docker_flag B \<and> \<not> available \<and> \<not> local_exec_allowed B then Inl NoDocker
         else if \<not> use_docker_flag B \<and> \<not> local_exec_allowed B then Inl LocalNotAllowed
         else (case boot_policies B of
                 Inl e \<Rightarrow> Inl e
               | Inr ts \<Rightarrow>
                   Inr \<lparr>br_auth = bo_has_auth B, br_gate = bo_has_gate B, br_image = BLESSED_IMAGE B, br_venv_mode = venv,
                        br_docker_mode = available, br_docker_available = available, br_dev_mode = dev,
                        br_pool = ((env_on B ''RFSN_SANDBOX_POOL'' ''0'' \<or> dev) \<and> bo_pool_starts B),
                        br_templates = ts\<rparr>))"

section \<open>State of the repository routes\<close>

datatype fs_change =
    MakeDirs string
  | RemoveTree string
  | WriteJson string pydict
  | StartProcess "string option" "string list" int

record 'w repo_world =
  rw_apply :: "fs_change \<Rightarrow> 'w \<Rightarrow> 'w"
  rw_process :: "string option \<Rightarrow> string list \<Rightarrow> int \<Rightarrow> 'w \<Rightarrow> proc_end"
  rw_clock :: "'w \<Rightarrow> rat"
  rw_listdir :: "string \<Rightarrow> 'w \<Rightarrow> string list"
  rw_isdir :: "string \<Rightarrow> 'w \<Rightarrow> bool"
  rw_isfile :: "string \<Rightarrow> 'w \<Rightarrow> bool"
  rw_exists :: "string \<Rightarrow> 'w \<Rightarrow> bool"
  rw_mtime :: "string \<Rightarrow> 'w \<Rightarrow> rat"
  rw_text :: "string \<Rightarrow> 'w \<Rightarrow> string option"
  rw_env :: "string \<Rightarrow> string option"
  rw_valid_ip :: "string \<Rightarrow> bool"

record 'w repo_state =
  rs_world :: 'w
  rs_log :: "fs_change list"

type_synonym ('w, 'a) repo_eff = "('w repo_state, 'a) handler_eff"

definition change :: "'w repo_world \<Rightarrow> fs_change \<Rightarrow> ('w, unit) repo_eff" where
  "change W c = supdate (\<lambda>st. st\<lparr>rs_world := rw_apply W c (rs_world st), rs_log := rs_log st @ [c]\<rparr>)"

definition look :: "('w \<Rightarrow> 'a) \<Rightarrow> ('w, 'a) repo_eff" where
  "look f = sread (\<lambda>st. f (rs_world st))"

definition run_process :: "'w repo_world \<Rightarrow> string option \<Rightarrow> string list \<Rightarrow> int \<Rightarrow> ('w, proc_end) repo_eff" where
  "run_process W cwd argv timeout =
     sbind (look (rw_process W cwd argv timeout)) (\<lambda>r.
     sbind (change W (StartProcess cwd argv timeout)) (\<lambda>_. sret r))"

section \<open>The manifest of the environment\<close>

definition safe_cmd_output :: "'w repo_world \<Rightarrow> string list \<Rightarrow> ('w, string) repo_eff" where
  "safe_cmd_output W argv =
     sbind (run_process W None argv 5) (\<lambda>r. sret (case r of Exited status out \<Rightarrow> strip out | _ \<Rightarrow> []))"

definition strip_quotes :: "string \<Rightarrow> string" where
  "strip_quotes s = strip_chars [CHR 0x22] s"

fun os_release_lines :: "string list \<Rightarrow> (string \<times> string) list \<Rightarrow> (string \<times> string) list" where
  "os_release_lines [] out = out"
| "os_release_lines (l # ls) out =
     (case cut_at (CHR ''='') (strip l) of
        (k, Some v) \<Rightarrow> os_release_lines ls (AList.update k (strip_quotes (strip v)) out)
      | (_, None) \<Rightarrow> os_release_lines ls out)"

text \<open>\<open>rw_text\<close> is the text of a file with line feeds, \<open>None\<close> where it cannot be read.\<close>

definition os_release :: "'w repo_world \<Rightarrow> ('w, (string \<times> string) list) repo_eff" where
  "os_release W =
     look (\<lambda>w. if \<not> rw_exists W ''/etc/os-release'' w then []
               else case rw_text W ''/etc/os-release'' w of None \<Rightarrow> [] | Some t \<Rightarrow> os_release_lines (split_char (CHR 10) t) [])"

definition env_or_empty :: "'w repo_world \<Rightarrow> string \<Rightarrow> string" where
  "env_or_empty W k = str_or_empty (rw_env W k)"

definition env_replay_dir :: "string \<Rightarrow> string \<Rightarrow> string" where
  "env_replay_dir repo_id run_id = abspath ''/'' (''/data/artifacts/'' @ repo_id @ ''/replay/'' @ safe_run run_id)"

definition env_manifest :: "boot_result \<Rightarrow> bool \<Rightarrow> 'w repo_world \<Rightarrow> string \<Rightarrow> string \<Rightarrow> ('w, string \<times> pydict) repo_eff" where
  "env_manifest B strict W run_id repo_id =
     sbind (validate_repo_id repo_id) (\<lambda>_.
     let dir = env_replay_dir repo_id run_id; out = path_join dir ''env.json'' in
     sbind (change W (MakeDirs dir)) (\<lambda>_.
     sbind (safe_cmd_output W [''python'', ''--version'']) (\<lambda>py.
     sbind (safe_cmd_output W [''uname'', ''-a'']) (\<lambda>uname.
     sbind (os_release W) (\<lambda>rel.
     sbind (look (rw_clock W)) (\<lambda>now.
     let manifest =
       [(PStr ''run_id'', PStr run_id), (PStr ''repo_id'', PStr repo_id), (PStr ''blessed_image'', PStr (br_image B)),
        (PStr ''strict_image_digest'', PBool strict), (PStr ''mode'', PStr (if br_docker_mode B then ''docker'' else ''local'')),
        (PStr ''docker_runtime_available'', PBool (br_docker_available B)), (PStr ''python_version'', PStr py), (PStr ''uname'', PStr uname),
        (PStr ''os_release'', PDict (map (\<lambda>(k, v). (PStr k, PStr v)) rel)), (PStr ''lang'', PStr (env_or_empty W ''LANG'')),
        (PStr ''lc_all'', PStr (env_or_empty W ''LC_ALL'')), (PStr ''tz'', PStr (env_or_empty W ''TZ'')), (PStr ''captured_at'', PFloat now)]
     in sbind (change W (WriteJson out manifest)) (\<lambda>_. sret (out, manifest))))))))"

section \<open>Importing a repository\<close>

definition SHORTHAND :: rx where
  "SHORTHAND = rseq [rplus (RSet id_char), RSet (\<lambda>c. c = slash), rplus (RSet id_char)]"

definition normalize_repo_url :: "'w repo_world \<Rightarrow> string \<Rightarrow> ('w, string) repo_eff" where
  "normalize_repo_url W repo_url =
     sbind (refuse (strip repo_url = []) 400 ''repo_url is required'') (\<lambda>_.
     let raw = (if rx_fullmatch SHORTHAND (strip repo_url) \<noteq> None
                then ''https://github.com/'' @ strip repo_url @ ''.git'' else strip repo_url)
     in case urlparse (rw_valid_ip W) raw of
          None \<Rightarrow> lift_res (Inl ValueError)
        | Some u \<Rightarrow>
            sbind (refuse (up_scheme u \<noteq> ''https'') 400 ''repo_url must use https://'') (\<lambda>_.
            sbind (refuse (up_netloc u = []) 400 ''repo_url missing host'') (\<lambda>_.
            sbind (refuse (has_credentials (up_netloc u)) 400 ''repo_url must not include credentials'') (\<lambda>_.
            sbind (refuse (up_path u \<in> {[], [slash]}) 400 ''repo_url missing repository path'') (\<lambda>_.
            sbind (refuse (up_query u \<noteq> [] \<or> up_fragment u \<noteq> []) 400 ''repo_url must not include query or fragment'') (\<lambda>_.
            sret raw))))))"

definition strip_git :: "string \<Rightarrow> string" where
  "strip_git leaf = (if endswith leaf ''.git'' then take (length leaf - 4) leaf else leaf)"

definition derive_repo_id :: "'w repo_world \<Rightarrow> string \<Rightarrow> ('w, string) repo_eff" where
  "derive_repo_id W repo_url =
     (case urlparse (rw_valid_ip W) repo_url of
        None \<Rightarrow> lift_res (Inl ValueError)
      | Some u \<Rightarrow>
          let parts = filter (\<lambda>p. p \<noteq> []) (split_char slash (up_path u)) in
          sbind (refuse (parts = []) 400 ''unable to derive repo_id'') (\<lambda>_.
          let leaf = strip_git (last parts);
              raw = (if 2 \<le> length parts then last (butlast parts) @ ''-'' @ leaf else leaf);
              cleaned = strip_chars ''-'' (map (\<lambda>c. if id_char c then c else CHR ''-'') raw)
          in sbind (refuse (cleaned = []) 400 ''unable to derive safe repo_id'') (\<lambda>_. sret (take 128 cleaned))))"

definition REPO_ROOT :: string where
  "REPO_ROOT = ''/data/repos''"

definition repo_root :: "'w repo_world \<Rightarrow> ('w, string) repo_eff" where
  "repo_root W = sbind (change W (MakeDirs REPO_ROOT)) (\<lambda>_. sret REPO_ROOT)"

definition git_output :: "'w repo_world \<Rightarrow> string \<Rightarrow> string list \<Rightarrow> ('w, string) repo_eff" where
  "git_output W path args =
     sbind (run_process W (Some path) (''git'' # args) 5) (\<lambda>r.
     sret (case r of Exited status out \<Rightarrow> if status = 0 then strip out else [] | _ \<Rightarrow> []))"

definition ORIGIN_CMD :: "string list" where
  "ORIGIN_CMD = [''config'', ''--get'', ''remote.origin.url'']"
definition HEAD_CMD :: "string list" where
  "HEAD_CMD = [''rev-parse'', ''--short'', ''HEAD'']"
definition BRANCH_CMD :: "string list" where
  "BRANCH_CMD = [''rev-parse'', ''--abbrev-ref'', ''HEAD'']"

record repo_info =
  ri_repo_id :: string
  ri_path :: string
  ri_has_git :: bool
  ri_updated_at :: int
  ri_origin :: string
  ri_head :: string
  ri_branch :: string

definition repo_entry :: "'w repo_world \<Rightarrow> string \<Rightarrow> ('w, repo_info option) repo_eff" where
  "repo_entry W repo_id =
     (let path = path_join REPO_ROOT repo_id; git = path_join path ''.git'' in
      sbind (look (rw_isdir W path)) (\<lambda>dir.
      if \<not> dir \<or> rx_match SAFE_REPO_ID repo_id = None then sret None
      else
        sbind (look (\<lambda>w. rw_isdir W git w \<or> rw_isfile W git w)) (\<lambda>has_git.
        sbind (look (rw_mtime W path)) (\<lambda>t.
        sbind (if has_git then git_output W path ORIGIN_CMD else sret []) (\<lambda>origin.
        sbind (if has_git then git_output W path HEAD_CMD else sret []) (\<lambda>head.
        sbind (if has_git then git_output W path BRANCH_CMD else sret []) (\<lambda>branch.
        sret (Some \<lparr>ri_repo_id = repo_id, ri_path = path, ri_has_git = has_git, ri_updated_at = rat_trunc t,
                    ri_origin = origin, ri_head = head, ri_branch = branch\<rparr>))))))))"

definition list_repos :: "'w repo_world \<Rightarrow> ('w, repo_info list) repo_eff" where
  "list_repos W =
     sbind (repo_root W) (\<lambda>r.
     sbind (look (rw_listdir W r)) (\<lambda>names.
     sbind (smap (repo_entry W) (sort names)) (\<lambda>infos.
     sret (List.map_filter id infos))))"

record import_req =
  im_repo_url :: string
  im_repo_id :: "string option"
  im_ref :: "string option"
  im_depth :: int
  im_force :: bool

record import_answer =
  ia_repo_id :: string
  ia_repo_url :: string
  ia_branch :: string
  ia_head :: string
  ia_path :: string
  ia_seconds :: rat
  ia_logs :: string

definition SAFE_REF :: rx where
  "SAFE_REF = rseq [RBegin, rrange 1 128 (RSet (\<lambda>c. alnum_ascii c \<or> c \<in> set ''._/-'')), REnd]"

definition clone_depth :: "int \<Rightarrow> int" where
  "clone_depth d = min (max (if d = 0 then 1 else d) 1) 200"

definition clone_args :: "string \<Rightarrow> string \<Rightarrow> int \<Rightarrow> string \<Rightarrow> string list" where
  "clone_args url ref depth target =
     [''git'', ''clone'', ''--filter=blob:none'', ''--depth'', int_str (clone_depth depth)]
     @ (if ref = [] then [] else [''--branch'', ref, ''--single-branch'']) @ [url, target]"

definition round_seconds :: "rat \<Rightarrow> rat" where
  "round_seconds x = of_int (round_half_even (x * 1000)) / 1000"

text \<open>\<open>s[-n:]\<close> for a positive \<open>n\<close>.\<close>

definition last_chars :: "nat \<Rightarrow> string \<Rightarrow> string" where
  "last_chars n s = drop (length s - n) s"

definition cloned :: "'w repo_world \<Rightarrow> string \<Rightarrow> string \<Rightarrow> proc_end \<Rightarrow> ('w, string) repo_eff" where
  "cloned W url target r =
     (case r of
        NotFound \<Rightarrow> http 500 ''git is not available''
      | TimedOut out \<Rightarrow>
          sbind (change W (RemoveTree target)) (\<lambda>_.
          http 504 (''git clone timeout for '' @ url @ '': '' @ last_chars 4000 out))
      | Crashed e \<Rightarrow> lift_res (Inl RuntimeError)
      | Exited status out \<Rightarrow>
          let logs = last_chars 20000 (unix_lines out) in
          if status \<noteq> 0
          then sbind (change W (RemoveTree target)) (\<lambda>_. http 400 (''git clone failed: '' @ last_chars 4000 logs))
          else sret logs)"

text \<open>The import once the directory is known: an old one is removed before the reference is checked.\<close>

definition clone_into :: "'w repo_world \<Rightarrow> import_req \<Rightarrow> string \<Rightarrow> string \<Rightarrow> string \<Rightarrow> ('w, import_answer) repo_eff" where
  "clone_into W q url repo_id target =
     sbind (look (rw_exists W target)) (\<lambda>present.
     sbind (if present then sbind (refuse (\<not> im_force q) 409 (''repo already exists: '' @ repo_id)) (\<lambda>_.
                            change W (RemoveTree target))
            else sret ()) (\<lambda>_.
     let ref = strip (str_or_empty (im_ref q)) in
     sbind (refuse (ref \<noteq> [] \<and> rx_fullmatch SAFE_REF ref = None) 400 ''invalid ref format'') (\<lambda>_.
     sbind (look (rw_clock W)) (\<lambda>start.
     sbind (run_process W None (clone_args url ref (im_depth q) target) 600) (\<lambda>p.
     sbind (cloned W url target p) (\<lambda>logs.
     sbind (git_output W target ORIGIN_CMD) (\<lambda>origin.
     sbind (git_output W target BRANCH_CMD) (\<lambda>branch.
     sbind (git_output W target HEAD_CMD) (\<lambda>head.
     sbind (look (rw_clock W)) (\<lambda>stop.
     sret \<lparr>ia_repo_id = repo_id, ia_repo_url = (if origin = [] then url else origin), ia_branch = branch, ia_head = head,
           ia_path = target, ia_seconds = round_seconds (stop - start), ia_logs = last_chars 4000 logs\<rparr>))))))))))"

definition repo_import :: "'w repo_world \<Rightarrow> import_req \<Rightarrow> ('w, import_answer) repo_eff" where
  "repo_import W q =
     sbind (normalize_repo_url W (im_repo_url q)) (\<lambda>url.
     sbind (if str_or_empty (im_repo_id q) \<noteq> [] then sret (str_or_empty (im_repo_id q)) else derive_repo_id W url) (\<lambda>given.
     let repo_id = strip given in
     sbind (validate_repo_id repo_id) (\<lambda>_.
     sbind (repo_root W) (\<lambda>r.
     let target = abspath ''/'' (path_join r repo_id) in
     sbind (refuse (\<not> startswith target (r @ [slash])) 400 ''repo path traversal detected'') (\<lambda>_.
     clone_into W q url repo_id target)))))"

section \<open>What an executor in production is\<close>

text \<open>The part of the configuration that the start decides.\<close>

definition configured :: "boot_env \<Rightarrow> boot_result \<Rightarrow> exec_config \<Rightarrow> bool" where
  "configured B r C \<longleftrightarrow>
     ec_use_docker C = br_docker_mode r \<and> ec_local_allowed C = local_exec_allowed B \<and> ec_image C = br_image r
     \<and> ec_venv_mode C = br_venv_mode r \<and> (ec_patch_gate C \<noteq> None) = br_gate r \<and> ec_pool_enabled C = br_pool r"

lemma check_templates_Cons:
  assumes "check_templates (t # ts) = None"
  shows "check_templates ts = None"
    and "t = (n, PDict d) \<Longrightarrow> dget d ''cmd'' = Some (PList ws) \<Longrightarrow> PStr ''eval'' \<notin> set ws"
  using assms by (cases "(t # ts)" rule: check_templates.cases; force simp: has_eval_def split: sum.splits bool.splits option.splits)+

lemma checked_templates:
  "check_templates ts = None \<Longrightarrow> (n, PDict d) \<in> set ts \<Longrightarrow> dget d ''cmd'' = Some (PList ws) \<Longrightarrow> PStr ''eval'' \<notin> set ws"
proof (induction ts)
  case (Cons t ts)
  then show ?case using check_templates_Cons [OF Cons.prems(1)] by (cases "t = (n, PDict d)") auto
qed simp

lemma boot_cases:
  assumes "executor_boot B = Inr r"
  defines "dev \<equiv> env_on B ''RFSN_DEV_MODE'' ''0''"
  obtains ts where "boot_policies B = Inr ts" "bo_has_auth B \<or> \<not> env_on B ''RFSN_AUTH_REQUIRED'' ''1'' \<or> dev"
    "bo_has_gate B \<or> \<not> env_on B ''RFSN_PATCH_GATE_REQUIRED'' ''1'' \<or> dev"
    "\<not> env_on B ''RFSN_STRICT_IMAGE_DIGEST'' ''1'' \<or> dev \<or> is_digest_image_ref (BLESSED_IMAGE B)"
    "use_docker_flag B \<and> docker_runtime_available B \<or> local_exec_allowed B"
    "br_auth r = bo_has_auth B" "br_gate r = bo_has_gate B" "br_image r = BLESSED_IMAGE B"
    "br_docker_mode r = (use_docker_flag B \<and> docker_runtime_available B)" "br_dev_mode r = dev" "br_templates r = ts"
  using assms(1) unfolding executor_boot_def Let_def dev_def [symmetric]
  by (simp only: split: if_split_asm sum.split_asm) auto

lemma boot_contained:
  assumes "executor_boot B = Inr r" "configured B r C" "\<not> br_dev_mode r"
  shows "contained_config C"
proof -
  from assms(1) have "br_dev_mode r = env_on B ''RFSN_DEV_MODE'' ''0''" "br_docker_mode r \<or> local_exec_allowed B"
    by (auto elim: boot_cases)
  with assms(2,3) show ?thesis by (auto simp: contained_config_def configured_def local_exec_allowed_def)
qed


definition demo_boot :: boot_env where
  "demo_boot = \<lparr>bo_env = (\<lambda>_. None), bo_has_auth = True, bo_has_gate = True, bo_docker = Exited 0 ''27.0'', bo_pool_starts = True,
     bo_policy = (\<lambda>_. Some [])\<rparr>"

definition demo_booted :: boot_result where
  "demo_booted = \<lparr>br_auth = True, br_gate = True, br_image = BLESSED_IMAGE demo_boot, br_venv_mode = ''per_run'', br_docker_mode = True,
     br_docker_available = True, br_dev_mode = False, br_pool = False, br_templates = []\<rparr>"

lemma demo_boots: "executor_boot demo_boot = Inr demo_booted"
  by code_simp


section \<open>What an import changes\<close>

definition makes :: "(fs_change \<Rightarrow> bool) \<Rightarrow> ('w, 'a) repo_eff \<Rightarrow> 'w repo_state \<Rightarrow> bool" where
  "makes P m st \<longleftrightarrow> (\<exists>new. rs_log (snd (m st)) = rs_log st @ new \<and> (\<forall>c \<in> set new. P c))"

named_theorems makes_intros "computations that make only permitted changes"

lemma makes_silent: "rs_log (snd (m st)) = rs_log st \<Longrightarrow> makes P m st"
  by (simp add: makes_def)

lemma makes_basic [makes_intros]:
  "makes P (sret x) st" "makes P (sraise e) st" "makes P (http c d) st" "makes P (look f) st" "makes P (lift_res r) st"
  "makes P (refuse b c d) st"
  by (auto intro!: makes_silent simp: sret_def sraise_def http_def look_def sread_def lift_res_def refuse_def split: sum.split)

lemma makes_change [makes_intros]: "P c \<Longrightarrow> makes P (change W c) st"
  by (auto simp: makes_def change_def supdate_def)

lemma makes_bind [makes_intros]:
  assumes "makes P m st" "\<And>x st'. m st = (Inr x, st') \<Longrightarrow> makes P (f x) st'"
  shows "makes P (sbind m f) st"
proof -
  obtain r st1 where m: "m st = (r, st1)" by (cases "m st")
  from assms(1) obtain a where a: "rs_log st1 = rs_log st @ a" "\<forall>c \<in> set a. P c" by (auto simp: makes_def m)
  show ?thesis
  proof (cases r)
    case (Inl e)
    then show ?thesis using a m by (auto simp: sbind_def makes_def)
  next
    case (Inr x)
    with assms(2) m obtain b where "rs_log (snd (f x st1)) = rs_log st1 @ b" "\<forall>c \<in> set b. P c"
      unfolding makes_def by blast
    then show ?thesis using a m Inr by (auto simp: sbind_def makes_def intro!: exI [of _ "a @ b"])
  qed
qed

lemma makes_if [makes_intros]: "(b \<Longrightarrow> makes P m st) \<Longrightarrow> (\<not> b \<Longrightarrow> makes P m' st) \<Longrightarrow> makes P (if b then m else m') st"
  by simp

lemma makes_process [makes_intros]: "P (StartProcess cwd argv timeout) \<Longrightarrow> makes P (run_process W cwd argv timeout) st"
  unfolding run_process_def by (intro makes_intros)

lemma makes_git [makes_intros]: "P (StartProcess (Some path) (''git'' # args) 5) \<Longrightarrow> makes P (git_output W path args) st"
  unfolding git_output_def by (intro makes_intros)

lemma makes_cloned [makes_intros]: "P (RemoveTree target) \<Longrightarrow> makes P (cloned W url target r) st"
  unfolding cloned_def Let_def by (cases r) (auto intro!: makes_intros)

lemma makes_root [makes_intros]: "P (MakeDirs REPO_ROOT) \<Longrightarrow> makes P (repo_root W) st"
  unfolding repo_root_def by (intro makes_intros)

text \<open>A URL that the import accepts, and what it may change for a URL and a directory.\<close>

definition clone_url :: "'w repo_world \<Rightarrow> string \<Rightarrow> bool" where
  "clone_url W url \<longleftrightarrow>
     \<not> startswith url ''-''
     \<and> (case urlparse (rw_valid_ip W) url of
          None \<Rightarrow> False
        | Some u \<Rightarrow> up_scheme u = ''https'' \<and> up_netloc u \<noteq> [] \<and> \<not> has_credentials (up_netloc u) \<and> up_path u \<notin> {[], [slash]}
            \<and> up_query u = [] \<and> up_fragment u = [])"

definition import_change :: "string \<Rightarrow> string \<Rightarrow> fs_change \<Rightarrow> bool" where
  "import_change url target c \<longleftrightarrow>
     (case c of
        MakeDirs d \<Rightarrow> d = ''/data/repos''
      | RemoveTree d \<Rightarrow> d = target
      | WriteJson f d \<Rightarrow> False
      | StartProcess cwd argv t \<Rightarrow>
          cwd = None \<and> t = 600
            \<and> (\<exists>ref n. argv = clone_args url ref n target \<and> (ref = [] \<or> rx_fullmatch SAFE_REF ref \<noteq> None))
          \<or> cwd = Some target \<and> t = 5 \<and> tl argv \<in> {ORIGIN_CMD, BRANCH_CMD, HEAD_CMD} \<and> hd argv = ''git'')"

lemma accepted_url:
  assumes "normalize_repo_url W u0 st = (Inr url, st')"
  shows "st' = st \<and> clone_url W url"
proof -
  define raw where "raw = (if rx_fullmatch SHORTHAND (strip u0) \<noteq> None
                then ''https://github.com/'' @ strip u0 @ ''.git'' else strip u0)"
  from assms obtain u where u: "urlparse (rw_valid_ip W) raw = Some u" "up_scheme u = ''https''" "up_netloc u \<noteq> []"
    "\<not> has_credentials (up_netloc u)" "up_path u \<notin> {[], [slash]}" "up_query u = []" "up_fragment u = []" "url = raw" "st' = st"
    unfolding normalize_repo_url_def raw_def [symmetric] Let_def by (auto simp: http_bind split: option.splits)
  obtain sch rest where s: "split_scheme (url_clean raw) = (sch, rest)" by (cases "split_scheme (url_clean raw)")
  with u(1) have "up_scheme u = sch" by (auto simp: urlparse_def split: prod.splits option.splits if_splits)
  then have "sch \<noteq> []" using u(2) by auto
  have "\<not> startswith raw ''-''"
  proof
    assume "startswith raw ''-''"
    then obtain cs where "raw = CHR ''-'' # cs" by (auto simp: startswith_def prefix_def)
    from url_clean_hd [OF s \<open>sch \<noteq> []\<close> this] show False by (auto simp: ascii_alpha_def code_def)
  qed
  with u show ?thesis by (simp add: clone_url_def)
qed

lemma import_target:
  assumes "validate_repo_id repo_id st = (Inr u, st')" "startswith (abspath ''/'' (path_join REPO_ROOT repo_id)) (REPO_ROOT @ [slash])"
  shows "abspath ''/'' (path_join REPO_ROOT repo_id) = repo_dir ''/data'' ''repos'' repo_id"
    and "slash \<notin> set repo_id" "repo_id \<notin> {[], ''.'', ''..''}"
proof -
  note v = valid_repo_id [OF assms(1)]
  have dot: "repo_id \<noteq> ''.''"
  proof
    assume "repo_id = ''.''"
    moreover have "startswith (abspath ''/'' (path_join REPO_ROOT ''.'')) (REPO_ROOT @ [slash]) = False" by code_simp
    ultimately show False using assms(2) by simp
  qed
  with v show "repo_id \<notin> {[], ''.'', ''..''}" by simp
  show "slash \<notin> set repo_id" by (rule v)
  have "path_join REPO_ROOT repo_id = REPO_ROOT @ slash # repo_id"
  proof (rule path_join_plain)
    show "repo_id = [] \<or> hd repo_id \<noteq> slash" using v(2) by (cases repo_id) auto
    show "REPO_ROOT \<noteq> []" "last REPO_ROOT \<noteq> slash" by code_simp+
  qed
  moreover have "REPO_ROOT @ slash # repo_id = ''/data/'' @ ''repos'' @ ''/'' @ repo_id" by (simp add: REPO_ROOT_def)
  moreover have "abspath ''/'' (''/data/'' @ ''repos'' @ ''/'' @ repo_id) = ''/data/'' @ ''repos'' @ ''/'' @ repo_id"
    using v dot by (intro abspath_plain(1)) simp_all
  ultimately show "abspath ''/'' (path_join REPO_ROOT repo_id) = repo_dir ''/data'' ''repos'' repo_id"
    unfolding repo_dir_def by (simp only: append.simps)
qed

lemma import_permitted:
  assumes "P = import_change url target"
  shows "P (MakeDirs REPO_ROOT)" "P (RemoveTree target)"
    "P (StartProcess (Some target) (''git'' # ORIGIN_CMD) 5)" "P (StartProcess (Some target) (''git'' # BRANCH_CMD) 5)"
    "P (StartProcess (Some target) (''git'' # HEAD_CMD) 5)"
    "\<not> (ref \<noteq> [] \<and> rx_fullmatch SAFE_REF ref = None) \<Longrightarrow> P (StartProcess None (clone_args url ref n target) 600)"
  by (auto simp: assms import_change_def REPO_ROOT_def)

lemma makes_clone_into:
  assumes "P = import_change url target"
  shows "makes P (clone_into W q url repo_id target) st"
  unfolding clone_into_def Let_def
  by (intro makes_intros import_permitted [OF assms]) (auto simp: refuse_def http_def sraise_def sret_def split: if_splits)

lemma quiet_derive: "snd (derive_repo_id W url st) = st"
  by (auto simp: derive_repo_id_def Let_def lift_res_def sraise_def sbind_def refuse_def http_def sret_def split: option.split)

lemma quiet_normalize: "snd (normalize_repo_url W url st) = st"
  by (auto simp: normalize_repo_url_def Let_def lift_res_def sraise_def sbind_def refuse_def http_def sret_def split: option.split)

lemma quiet_validate: "snd (validate_repo_id i st) = st"
  by (auto simp: validate_repo_id_def sbind_def refuse_def http_def sraise_def sret_def)

text \<open>An import that fails before it has a directory changes nothing; else it creates the directory of the
  repositories, and the rest belongs to an accepted URL and a checked name.\<close>

lemma import_starts:
  obtains (refused) e where "repo_import W q st = (Inl e, st)"
  | (named) url i u st2 where "clone_url W url" "validate_repo_id i st = (Inr u, st)"
      "rs_log st2 = rs_log st @ [MakeDirs ''/data/repos'']"
      "repo_import W q st =
         sbind (refuse (\<not> startswith (abspath ''/'' (path_join REPO_ROOT i)) (REPO_ROOT @ [slash])) 400 ''repo path traversal detected'')
           (\<lambda>_. clone_into W q url i (abspath ''/'' (path_join REPO_ROOT i))) st2"
proof -
  let ?g = "\<lambda>url. if str_or_empty (im_repo_id q) \<noteq> [] then sret (str_or_empty (im_repo_id q)) else derive_repo_id W url"
  have quiet: "snd (normalize_repo_url W (im_repo_url q) st) = st" "snd (?g url st) = st" "snd (validate_repo_id i st) = st" for url i
    using quiet_normalize [of W "im_repo_url q" st] quiet_derive [of W url st] by (simp_all add: quiet_validate sret_def)
  consider (e) e where "normalize_repo_url W (im_repo_url q) st = (Inl e, st)"
    | (g) url e where "normalize_repo_url W (im_repo_url q) st = (Inr url, st)" "?g url st = (Inl e, st)"
    | (v) url given e where "normalize_repo_url W (im_repo_url q) st = (Inr url, st)" "?g url st = (Inr given, st)"
        "validate_repo_id (strip given) st = (Inl e, st)"
    | (n) url given u where "normalize_repo_url W (im_repo_url q) st = (Inr url, st)" "?g url st = (Inr given, st)"
        "validate_repo_id (strip given) st = (Inr u, st)"
    using quiet by (metis prod.collapse sum.collapse(1,2))
  then show thesis
  proof cases
    case n
    show thesis
    proof (rule named [OF _ n(3)])
      show "clone_url W url" using accepted_url [OF n(1)] by simp
      show "rs_log (snd (change W (MakeDirs REPO_ROOT) st)) = rs_log st @ [MakeDirs ''/data/repos'']"
        by (simp add: change_def supdate_def REPO_ROOT_def)
    qed (use n in \<open>simp add: repo_import_def sbind_def Let_def repo_root_def change_def supdate_def sret_def\<close>)
  qed (rule refused, simp add: repo_import_def sbind_def Let_def)+
qed

text \<open>C18: Whatever a repository import is asked for, and also when it fails, every change it makes belongs to one
  accepted URL (https, with a host and a path, without credentials, query or fragment, never read as an
  option) and one plain directory name: it creates the directory of the repositories, removes and clones
  into the directory of that name below it, and asks git there for its origin, branch and head.\<close>

theorem repo_import_confined:
  "\<exists>new. rs_log (snd (repo_import W q st)) = rs_log st @ new
     \<and> (new = [] \<or> (\<exists>url repo_id. clone_url W url \<and> slash \<notin> set repo_id \<and> repo_id \<notin> {[], ''.'', ''..''}
           \<and> list_all (import_change url (''/data/repos/'' @ repo_id)) new)
         \<or> new = [MakeDirs ''/data/repos''])"
proof (cases rule: import_starts [of W q st, case_names refused named])
  case (refused e)
  then show ?thesis by simp
next
  case (named url i u st2)
  let ?t = "abspath ''/'' (path_join REPO_ROOT i)"
  show ?thesis
  proof (cases "startswith ?t (REPO_ROOT @ [slash])")
    case False
    then show ?thesis by (simp add: named(3,4) sbind_def refuse_def http_def sraise_def)
  next
    case True
    note t = import_target [OF named(2) True]
    have t1: "?t = ''/data/repos/'' @ i" by (simp add: t(1) repo_dir_def)
    have "repo_import W q st = clone_into W q url i ?t st2" using True by (simp add: named(4) sbind_def refuse_def sret_def)
    moreover obtain new where "rs_log (snd (clone_into W q url i ?t st2)) = rs_log st2 @ new" "\<forall>c \<in> set new. import_change url ?t c"
      using makes_clone_into [OF refl] unfolding makes_def by blast
    ultimately show ?thesis
      using named(1) t(2,3) unfolding named(3) t1
      by (intro exI [of _ "MakeDirs ''/data/repos'' # new"]) (auto simp: list_all_iff import_change_def)
  qed
qed

text \<open>A forced import with a malformed reference loses the old repository before it is refused.\<close>

lemma forced_import_loses_repository:
  assumes "rw_exists W target (rs_world st)" "im_force q"
    and "strip (str_or_empty (im_ref q)) \<noteq> []" "rx_fullmatch SAFE_REF (strip (str_or_empty (im_ref q))) = None"
  shows "clone_into W q url repo_id target st = (Inl (HTTPException 400 ''invalid ref format''), snd (change W (RemoveTree target) st))"
  using assms
  by (simp add: clone_into_def sbind_def look_def sread_def refuse_def http_def sraise_def sret_def change_def supdate_def)

text \<open>A run named after the parent directory puts its manifest beside the replays of the repository.\<close>

lemma manifest_leaves_replays: "env_replay_dir ''repo'' ''..'' = ''/data/artifacts/repo''"
  by code_simp

end
