(* ===== verification/Github_Hook.thy ===== *)
theory Github_Hook
  imports Orchestrator
begin

text \<open>
  The GitHub webhook of the orchestrator, \<open>services/orchestrator/github_routes.py\<close>, over the contexts of
  the runs. The keyed digest (hex), the JSON parser and the clock are given; the body of a request is its
  text. A comment whose body is not a text is stored as its \<open>str\<close>.
\<close>

datatype json_text = Parsed pyval | NotJson | Undecodable

record hook_world =
  hw_env :: "string \<Rightarrow> string option"
  hw_hmac :: "string \<Rightarrow> string \<Rightarrow> string"
  hw_loads :: "string \<Rightarrow> json_text"
  hw_rt :: runtime
  hw_now :: rat

type_synonym 'a hook = "(run_contexts, 'a) handler_eff"

definition github_secret :: "hook_world \<Rightarrow> string" where
  "github_secret W = (case hw_env W ''GITHUB_APP_SECRET'' of None \<Rightarrow> ''dev-secret'' | Some s \<Rightarrow> s)"

definition hook_dev_mode :: "hook_world \<Rightarrow> bool" where
  "hook_dev_mode W \<longleftrightarrow> hw_env W ''RFSN_DEV_MODE'' = Some ''1''"

definition expected_signature :: "hook_world \<Rightarrow> string \<Rightarrow> string" where
  "expected_signature W payload = ''sha256='' @ hw_hmac W (github_secret W) payload"

text \<open>\<open>hmac.compare_digest\<close> raises on a header with characters outside ASCII.\<close>

definition verify_signature :: "hook_world \<Rightarrow> string \<Rightarrow> string \<Rightarrow> unit hook" where
  "verify_signature W payload header =
     sbind (refuse (header = []) 403 ''x-hub-signature-256 header is missing!'') (\<lambda>_.
     sbind (lift_res (if list_all (\<lambda>c. code c < 128) header then Inr () else Inl TypeError)) (\<lambda>_.
     refuse (expected_signature W payload \<noteq> header) 403 ''Request signature failed verification''))"

definition need_dict :: "pyval \<Rightarrow> pydict hook" where
  "need_dict v = (case v of PDict d \<Rightarrow> sret d | _ \<Rightarrow> lift_res (Inl AttributeError))"

definition hook_ok :: "string \<Rightarrow> pydict" where
  "hook_ok action = [(PStr ''status'', PStr ''ok''), (PStr ''action'', PStr action)]"

definition add_comment :: "rat \<Rightarrow> string \<Rightarrow> string \<Rightarrow> string \<Rightarrow> run_contexts \<Rightarrow> run_contexts" where
  "add_comment now rid body user m =
     (case map_of m rid of
        None \<Rightarrow> m
      | Some c \<Rightarrow> AList.update rid (c\<lparr>rc_advisor := ingest_pr_comment now body user (rc_advisor c)\<rparr>) m)"

text \<open>The run that takes the comment, if any: a name that is no text equals no repository.\<close>

definition run_for_repo :: "pyval \<Rightarrow> run_contexts \<Rightarrow> string option" where
  "run_for_repo name m = (case name of PStr r \<Rightarrow> get_active_run_by_repo r m | _ \<Rightarrow> None)"

definition issue_comment :: "hook_world \<Rightarrow> pydict \<Rightarrow> pydict hook" where
  "issue_comment W d =
     (let action = dget_or d ''action'' PNone; done_text = hook_ok (''comment_'' @ py_str (hw_rt W) action) in
      sbind (need_dict (dget_or d ''issue'' (PDict []))) (\<lambda>_.
      if action \<noteq> PStr ''created'' then sret done_text
      else
        sbind (need_dict (dget_or d ''repository'' (PDict []))) (\<lambda>repo.
        sbind (need_dict (dget_or d ''comment'' (PDict []))) (\<lambda>comment.
        sbind (need_dict (dget_or comment ''user'' (PDict []))) (\<lambda>user.
        let body = py_str (hw_rt W) (dget_or comment ''body'' (PStr []));
            login = py_str (hw_rt W) (dget_or user ''login'' (PStr ''unknown'')) in
        sbind (sread (run_for_repo (dget_or repo ''full_name'' PNone))) (\<lambda>rid.
        if str_or_empty rid = [] then sret done_text
        else sbind (supdate (add_comment (hw_now W) (str_or_empty rid) body login)) (\<lambda>_.
             sret (hook_ok ''comment_ingested''))))))))"

definition route_event :: "hook_world \<Rightarrow> string \<Rightarrow> pyval \<Rightarrow> pydict hook" where
  "route_event W ev data =
     (if ev = ''ping'' then sbind (need_dict data) (\<lambda>d. sret [(PStr ''status'', PStr ''pong''), (PStr ''zen'', dget_or d ''zen'' PNone)])
      else if ev = ''push'' then sbind (need_dict data) (\<lambda>_. sret (hook_ok ''push_received''))
      else if ev = ''pull_request''
        then sbind (need_dict data) (\<lambda>d.
             sbind (need_dict (dget_or d ''pull_request'' (PDict []))) (\<lambda>_.
             sret (hook_ok (''pr_'' @ py_str (hw_rt W) (dget_or d ''action'' PNone)))))
      else if ev = ''issue_comment'' then sbind (need_dict data) (issue_comment W)
      else sret [(PStr ''status'', PStr ''ignored''), (PStr ''reason'', PStr ''unhandled_event_type'')])"

definition must_verify :: "hook_world \<Rightarrow> bool" where
  "must_verify W \<longleftrightarrow> \<not> hook_dev_mode W \<or> github_secret W \<noteq> ''dev-secret''"

definition github_webhook :: "hook_world \<Rightarrow> string \<Rightarrow> string \<Rightarrow> string option \<Rightarrow> pydict hook" where
  "github_webhook W payload ev header =
     sbind (if must_verify W then verify_signature W payload (str_or_empty header) else sret ()) (\<lambda>_.
     case hw_loads W payload of
       Parsed data \<Rightarrow> route_event W ev data
     | NotJson \<Rightarrow> http 400 ''Invalid JSON''
     | Undecodable \<Rightarrow> lift_res (Inl ValueError))"

section \<open>What a request can change\<close>

definition ingests :: "hook_world \<Rightarrow> pyval \<Rightarrow> run_contexts \<Rightarrow> run_contexts \<Rightarrow> bool" where
  "ingests W name m m' \<longleftrightarrow>
     (\<exists>rid c body user. map_of m rid = Some c \<and> name = PStr (rc_repo c) \<and> rc_status c \<in> {''running'', ''paused''}
        \<and> m' = AList.update rid (c\<lparr>rc_advisor := ingest_pr_comment (hw_now W) body user (rc_advisor c)\<rparr>) m)"

text \<open>The repository that an event names.\<close>

definition named_repo :: "pyval \<Rightarrow> pyval" where
  "named_repo data =
     (case data of PDict d \<Rightarrow> (case dget_or d ''repository'' (PDict []) of PDict r \<Rightarrow> dget_or r ''full_name'' PNone | _ \<Rightarrow> PNone) | _ \<Rightarrow> PNone)"

lemma quiet_need_dict: "snd (need_dict v m) = m"
  by (auto simp: need_dict_def sret_def lift_res_def sraise_def split: pyval.split)

lemma quiet_refuse: "snd (refuse b c d m) = m"
  by (auto simp: refuse_def http_def sraise_def sret_def)

lemma quiet_verify: "snd (verify_signature W p h m) = m"
  by (auto simp: verify_signature_def sbind_def refuse_def http_def sraise_def sret_def lift_res_def)

lemma snd_bind_quiet:
  assumes "snd (f m) = m" "\<And>x. f m = (Inr x, m) \<Longrightarrow> P (snd (g x m))" "P m"
  shows "P (snd (sbind f g m))"
  using assms by (cases "f m"; cases "fst (f m)") (auto simp: sbind_def)

lemma active_run:
  assumes "distinct (map fst m)" "run_for_repo name m = Some rid"
  shows "\<exists>c r. name = PStr r \<and> map_of m rid = Some c \<and> rc_repo c = r \<and> rc_status c \<in> {''running'', ''paused''}"
proof -
  from assms(2) obtain r where r: "name = PStr r" "get_active_run_by_repo r m = Some rid"
    by (auto simp: run_for_repo_def split: pyval.splits)
  then obtain c where f: "find (\<lambda>(rid, c). rc_repo c = r \<and> rc_status c \<in> {''running'', ''paused''}) m = Some (rid, c)"
    by (auto simp: get_active_run_by_repo_def)
  then have "(rid, c) \<in> set m" "rc_repo c = r" "rc_status c \<in> {''running'', ''paused''}"
    by (auto simp: find_Some_iff in_set_conv_nth)
  with r assms(1) show ?thesis by (auto intro: map_of_is_SomeI)
qed

lemma active_ingests:
  assumes "distinct (map fst m)" "run_for_repo name m = Some rid"
  shows "ingests W name m (add_comment (hw_now W) rid body user m)"
proof -
  from active_run [OF assms] obtain c where "name = PStr (rc_repo c)" "map_of m rid = Some c" "rc_status c \<in> {''running'', ''paused''}"
    by auto
  then show ?thesis unfolding ingests_def by (intro exI [of _ rid] exI [of _ c] exI [of _ body] exI [of _ user]) (auto simp: add_comment_def)
qed

lemma need_dict_Inr: "need_dict v m = (Inr d, m') \<longleftrightarrow> v = PDict d \<and> m' = m"
  by (auto simp: need_dict_def sret_def lift_res_def sraise_def split: pyval.split)

lemma comment_effect:
  assumes "distinct (map fst m)"
  shows "snd (issue_comment W d m) = m \<or> ingests W (named_repo (PDict d)) m (snd (issue_comment W d m))"
  unfolding issue_comment_def Let_def
proof (rule snd_bind_quiet [OF quiet_need_dict], goal_cases)
  case (1 x)
  show ?case
  proof (cases "dget_or d ''action'' PNone = PStr ''created''")
    case True
    show ?thesis
      unfolding if_not_P [OF not_not [THEN iffD2, OF True]]
    proof (rule snd_bind_quiet [OF quiet_need_dict], goal_cases)
      case (1 repo)
      then have r: "dget_or d ''repository'' (PDict []) = PDict repo" by (simp add: need_dict_Inr)
      show ?case
      proof (rule snd_bind_quiet [OF quiet_need_dict], goal_cases)
        case (1 comment)
        show ?case
        proof (rule snd_bind_quiet [OF quiet_need_dict], goal_cases)
          case (1 user)
          show ?case
            using active_ingests [OF assms, of "dget_or repo ''full_name'' PNone"]
            by (cases "run_for_repo (dget_or repo ''full_name'' PNone) m")
               (auto simp: sbind_def sread_def supdate_def sret_def str_or_empty_def named_repo_def r)
        qed simp
      qed simp
    qed simp
  qed (simp add: sret_def)
qed simp

lemma route_effect:
  assumes "distinct (map fst m)"
  shows "snd (route_event W ev data m) = m \<or> ev = ''issue_comment'' \<and> ingests W (named_repo data) m (snd (route_event W ev data m))"
proof (cases "ev = ''issue_comment''")
  case True
  then have e: "route_event W ev data = sbind (need_dict data) (issue_comment W)" by (simp add: route_event_def)
  show ?thesis unfolding e
    by (rule snd_bind_quiet [OF quiet_need_dict]) (use comment_effect [OF assms] True in \<open>auto simp: need_dict_Inr\<close>)
next
  case False
  have "snd (route_event W ev data m) = m"
    unfolding route_event_def using False
    by (auto simp: sret_def sbind_def need_dict_def lift_res_def sraise_def split: pyval.split)
  then show ?thesis by simp
qed

text \<open>C31: A webhook request changes the runs only if it carries the signature of its payload, or development mode
  runs with the default secret; then it adds one comment to the advisor of one active run of the repository
  that the payload names. A request without the signature ends with an error.\<close>

theorem webhook_authentic_and_narrow:
  assumes "distinct (map fst m)" "answer = github_webhook W payload ev header m"
  shows "(snd answer = m
      \<or> (header = Some (''sha256='' @ hw_hmac W (github_secret W) payload) \<or> hook_dev_mode W \<and> github_secret W = ''dev-secret'')
        \<and> ev = ''issue_comment''
        \<and> (\<exists>data rid c body user. hw_loads W payload = Parsed data \<and> map_of m rid = Some c \<and> named_repo data = PStr (rc_repo c)
             \<and> rc_status c \<in> {''running'', ''paused''}
             \<and> snd answer = AList.update rid (c\<lparr>rc_advisor := ingest_pr_comment (hw_now W) body user (rc_advisor c)\<rparr>) m))
    \<and> (header \<noteq> Some (''sha256='' @ hw_hmac W (github_secret W) payload)
       \<and> \<not> (hook_dev_mode W \<and> github_secret W = ''dev-secret'') \<longrightarrow> (\<exists>e. fst answer = Inl e))"
proof -
  let ?v = "if must_verify W then verify_signature W payload (str_or_empty header) else sret ()"
  let ?b = "case hw_loads W payload of Parsed data \<Rightarrow> route_event W ev data | NotJson \<Rightarrow> http 400 ''Invalid JSON''
     | Undecodable \<Rightarrow> lift_res (Inl ValueError)"
  have quiet: "snd (?v m) = m" using quiet_verify by (simp add: sret_def)
  have passed: "header = Some (expected_signature W payload) \<or> \<not> must_verify W" if "?v m = (Inr u, m)" for u
    using that by (cases header) (auto simp: verify_signature_def http_bind str_or_empty_def lift_res_def split: if_splits)
  have body: "snd (?b m) = m \<or> ev = ''issue_comment'' \<and> (\<exists>data. hw_loads W payload = Parsed data \<and> ingests W (named_repo data) m (snd (?b m)))"
    using route_effect [OF assms(1), of W ev] by (auto simp: http_def sraise_def lift_res_def split: json_text.split)
  have run: "answer = (case ?v m of (Inl e, m') \<Rightarrow> (Inl e, m') | (Inr _, m') \<Rightarrow> ?b m')"
    by (simp add: assms(2) github_webhook_def sbind_def)
  show ?thesis
  proof (cases "fst (?v m)")
    case (Inl e)
    then have "answer = (Inl e, m)" using quiet run by (cases "?v m") simp
    then show ?thesis by simp
  next
    case (Inr u)
    then have v: "?v m = (Inr u, m)" using quiet by (cases "?v m") simp
    have "answer = ?b m" using run v by simp
    then show ?thesis
      using passed [OF v] body unfolding ingests_def expected_signature_def must_verify_def by auto
  qed
qed

text \<open>A repository on GitHub is named owner/name. As no run of a plain repository name has a slash in it, no
  comment reaches such a run.\<close>

lemma comments_miss_plain_runs:
  assumes "distinct (map fst m)" "\<forall>(rid, c) \<in> set m. slash \<notin> set (rc_repo c)"
    and "hw_loads W payload = Parsed data" "named_repo data = PStr full_name" "slash \<in> set full_name"
  shows "snd (github_webhook W payload ev header m) = m"
proof -
  have "\<not> ingests W (named_repo data) m m'" for m'
    using assms(2,4,5) by (auto simp: ingests_def dest!: map_of_SomeD)
  then have "snd (route_event W ev data m) = m" using route_effect [OF assms(1)] by blast
  moreover have "snd ((if must_verify W then verify_signature W payload (str_or_empty header) else sret ()) m) = m"
    using quiet_verify by (simp add: sret_def)
  ultimately show ?thesis
    unfolding github_webhook_def assms(3) json_text.case by (intro snd_bind_quiet [where P = "\<lambda>x. x = m"]) auto
qed

definition demo_event :: pyval where
  "demo_event = PDict [(PStr ''action'', PStr ''created''), (PStr ''repository'', PDict [(PStr ''full_name'', PStr ''r'')]),
     (PStr ''comment'', PDict [(PStr ''body'', PStr ''fix''), (PStr ''user'', PDict [(PStr ''login'', PStr ''ann'')])])]"

definition demo_hook :: hook_world where
  "demo_hook = \<lparr>hw_env = (\<lambda>_. None), hw_hmac = (\<lambda>k p. ''ab''), hw_loads = (\<lambda>p. Parsed demo_event), hw_rt = toy_runtime, hw_now = 5\<rparr>"

definition demo_runs :: run_contexts where
  "demo_runs = [(''run-1'', fresh_ctx\<lparr>rc_repo := ''r''\<rparr>)]"

lemma demo_verified: "verify_signature demo_hook ''p'' ''sha256=ab'' m = (Inr (), m)"
proof -
  have "list_all (\<lambda>c. code c < 128) ''sha256=ab''" by code_simp
  moreover have "expected_signature demo_hook ''p'' = ''sha256=ab''" by (simp add: expected_signature_def demo_hook_def)
  ultimately show ?thesis by (simp add: verify_signature_def sbind_def refuse_def sret_def lift_res_def)
qed

lemma demo_comment:
  "length (av_log (rc_advisor (snd (hd (snd (issue_comment demo_hook [(PStr ''action'', PStr ''created''),
     (PStr ''repository'', PDict [(PStr ''full_name'', PStr ''r'')]),
     (PStr ''comment'', PDict [(PStr ''body'', PStr ''fix''), (PStr ''user'', PDict [(PStr ''login'', PStr ''ann'')])])] demo_runs)))))) = 1"
  by (simp add: issue_comment_def Let_def dget_or_def dget_def need_dict_def sbind_def sret_def sread_def supdate_def run_for_repo_def
      get_active_run_by_repo_def demo_runs_def fresh_ctx_def add_comment_def ingest_pr_comment_def str_or_empty_def demo_hook_def)

lemma webhook_authentic_and_narrow_witness:
  "\<exists>data rid c. hw_loads demo_hook ''p'' = Parsed data \<and> map_of demo_runs rid = Some c \<and> named_repo data = PStr (rc_repo c)
     \<and> rc_status c \<in> {''running'', ''paused''}"
proof -
  let ?S = "snd (github_webhook demo_hook ''p'' ''issue_comment'' (Some ''sha256=ab'') demo_runs)"
  have d: "distinct (map fst demo_runs)" by (simp add: demo_runs_def)
  have "length (av_log (rc_advisor (snd (hd ?S)))) = 1"
    using demo_comment demo_verified
    by (simp add: github_webhook_def sbind_def sret_def str_or_empty_def route_event_def need_dict_def demo_event_def demo_hook_def)
  moreover have "length (av_log (rc_advisor (snd (hd demo_runs)))) = 0" by (simp add: demo_runs_def fresh_ctx_def)
  ultimately have "?S \<noteq> demo_runs" by auto
  then show ?thesis
    using webhook_authentic_and_narrow [OF d refl, of demo_hook "''p''" "''issue_comment''" "Some ''sha256=ab''"] by blast
qed

section \<open>The start of the orchestrator\<close>

text \<open>\<open>lifespan\<close> in \<open>services/orchestrator/app.py\<close>: a kernel that cannot be built stops the service outside
  development mode; otherwise the routes get the kernel, or go without.\<close>

definition orchestrator_lifespan :: "bool \<Rightarrow> pyerr + 'k \<Rightarrow> pyerr + 'k option" where
  "orchestrator_lifespan dev init =
     (case init of Inr k \<Rightarrow> Inr (Some k) | Inl e \<Rightarrow> if dev then Inr None else Inl e)"

definition get_kernel :: "'k option \<Rightarrow> ('s, 'k) handler_eff" where
  "get_kernel k = (case k of None \<Rightarrow> http 503 ''Kernel not initialized'' | Some x \<Rightarrow> sret x)"

lemma started_orchestrator_has_kernel:
  assumes "orchestrator_lifespan False init = Inr k"
  shows "\<exists>x. k = Some x \<and> init = Inr x \<and> get_kernel k st = (Inr x, st)"
  using assms by (auto simp: orchestrator_lifespan_def get_kernel_def sret_def split: sum.splits)

end
