(* ===== verification/System_Utils.thy ===== *)
theory System_Utils
  imports Http Py_Value "HOL-Library.AList" "HOL-Library.List_Lexorder" "HOL-Library.Char_ord"
begin

text \<open>
  The utilities beside the services: the invariant checks of a kernel state (\<open>rfsn_kernel/invariant_check.py\<close>),
  the metrics (\<open>system/metrics.py\<close>), the boot checks (\<open>system/boot_verify.py\<close>), the event bus
  (\<open>system/event_bus.py\<close>) and the egress policy (\<open>services/executor/net_sim.py\<close>).
\<close>

section \<open>Invariant checks\<close>

text \<open>\<open>a > b\<close> on numbers and on texts; other values do not compare.\<close>

definition py_num :: "pyval \<Rightarrow> rat option" where
  "py_num v = (case v of PBool b \<Rightarrow> Some (if b then 1 else 0) | PInt i \<Rightarrow> Some (of_int i) | PFloat x \<Rightarrow> Some x | _ \<Rightarrow> None)"

definition py_gt :: "pyval \<Rightarrow> pyval \<Rightarrow> bool res" where
  "py_gt a b =
     (case (py_num a, py_num b) of
        (Some x, Some y) \<Rightarrow> Inr (y < x)
      | _ \<Rightarrow> (case (a, b) of (PStr s, PStr t) \<Rightarrow> Inr (t < s) | _ \<Rightarrow> Inl TypeError))"

text \<open>\<open>x in allowlist\<close> for a tool of any type.\<close>

definition py_in :: "pyval \<Rightarrow> pyval \<Rightarrow> bool res" where
  "py_in x c =
     (case x of
        PStr s \<Rightarrow> py_contains_str s c
      | _ \<Rightarrow> (case c of
                PList xs \<Rightarrow> Inr (x \<in> set xs)
              | PDict d \<Rightarrow> (case x of PList _ \<Rightarrow> Inl TypeError | PDict _ \<Rightarrow> Inl TypeError | _ \<Rightarrow> Inr (x \<in> fst ` set d))
              | _ \<Rightarrow> Inl TypeError))"

type_synonym kernel_check = "runtime \<Rightarrow> pydict \<Rightarrow> string option res"

definition check_action_in_allowlist :: kernel_check where
  "check_action_in_allowlist R state =
     (case dget_or state ''proposed_action'' (PDict []) of
        PDict action \<Rightarrow>
          (let tool = dget_or action ''tool'' PNone; allowlist = dget_or state ''tool_allowlist'' (PList [])
           in if truthy tool \<and> truthy allowlist
              then ebind (py_in tool allowlist) (\<lambda>found.
                   Inr (if found then None else Some (''Tool '' @ [CHR 0x27] @ py_str R tool @ [CHR 0x27] @ '' not in allowlist'')))
              else Inr None)
      | _ \<Rightarrow> Inl AttributeError)"

definition check_iteration_bound :: kernel_check where
  "check_iteration_bound R state =
     (let current = dget_or state ''iteration'' (PInt 0); maximum = dget_or state ''max_iterations'' (PInt 30)
      in ebind (py_gt current maximum) (\<lambda>over.
         Inr (if over then Some (''Iteration '' @ py_str R current @ '' exceeds max '' @ py_str R maximum) else None)))"

definition check_patch_not_empty :: kernel_check where
  "check_patch_not_empty R state =
     (case dget_or state ''committed_patch'' PNone of
        PNone \<Rightarrow> Inr None
      | PStr p \<Rightarrow> Inr (if strip p = [] then Some ''Committed patch is empty'' else None)
      | _ \<Rightarrow> Inl AttributeError)"

definition VALID_OUTCOMES :: "pyval list" where
  "VALID_OUTCOMES = [PStr ''success'', PStr ''fail'', PStr ''error'', PStr ''timeout'', PStr ''skip'', PNone]"

definition check_outcome_valid :: kernel_check where
  "check_outcome_valid R state =
     (let outcome = dget_or state ''outcome'' PNone
      in case outcome of
           PList _ \<Rightarrow> Inl TypeError
         | PDict _ \<Rightarrow> Inl TypeError
         | _ \<Rightarrow> Inr (if outcome \<in> set VALID_OUTCOMES then None else Some (''Invalid outcome: '' @ rt_repr R outcome)))"

text \<open>Without a budget the cost is compared with infinity.\<close>

definition check_cost_within_budget :: kernel_check where
  "check_cost_within_budget R state =
     (let cost = dget_or state ''total_cost'' (PFloat 0)
      in case dget state ''cost_budget'' of
           None \<Rightarrow> if py_num cost = None then Inl TypeError else Inr None
         | Some budget \<Rightarrow>
             ebind (py_gt cost budget) (\<lambda>over.
               if \<not> over then Inr None
               else (case (py_num cost, py_num budget) of
                       (Some c, Some b) \<Rightarrow> Inr (Some (''Cost '' @ rt_fixed R 4 c @ '' exceeds budget '' @ rt_fixed R 4 b))
                     | _ \<Rightarrow> Inl ValueError)))"

definition INVARIANTS :: "(string \<times> kernel_check) list" where
  "INVARIANTS =
     [(''action_in_allowlist'', check_action_in_allowlist), (''iteration_bound'', check_iteration_bound),
      (''patch_not_empty'', check_patch_not_empty), (''outcome_valid'', check_outcome_valid),
      (''cost_within_budget'', check_cost_within_budget)]"

definition register_invariant :: "string \<Rightarrow> kernel_check \<Rightarrow> (string \<times> kernel_check) list \<Rightarrow> (string \<times> kernel_check) list" where
  "register_invariant name f checks = checks @ [(name, f)]"

text \<open>A violation that is fatal is an exception of its own.\<close>

datatype check_error = Violation string string | CheckRaised pyerr

fun check_invariants :: "runtime \<Rightarrow> (string \<times> kernel_check) list \<Rightarrow> bool \<Rightarrow> pydict \<Rightarrow> check_error + (string \<times> string) list" where
  "check_invariants R [] strict state = Inr []"
| "check_invariants R ((name, f) # checks) strict state =
     (case f R state of
        Inl e \<Rightarrow> Inl (CheckRaised e)
      | Inr None \<Rightarrow> check_invariants R checks strict state
      | Inr (Some msg) \<Rightarrow>
          if strict then Inl (Violation name msg)
          else (case check_invariants R checks strict state of Inl e \<Rightarrow> Inl e | Inr vs \<Rightarrow> Inr ((name, msg) # vs)))"

text \<open>A check that passes in strict mode found nothing, and a lax one lists exactly the violations.\<close>

lemma check_step:
  "check_invariants R (c # checks) strict state =
     (case snd c R state of
        Inl e \<Rightarrow> Inl (CheckRaised e)
      | Inr x \<Rightarrow> if x = None then check_invariants R checks strict state
                  else if strict then Inl (Violation (fst c) (the x))
                  else map_sum id (\<lambda>vs. (fst c, the x) # vs) (check_invariants R checks strict state))"
  by (cases c; cases "snd c R state"; cases strict; cases "check_invariants R checks strict state") (auto split: option.splits)

lemma strict_check_passes:
  "check_invariants R checks True state = Inr vs \<longleftrightarrow> vs = [] \<and> (\<forall>c \<in> set checks. snd c R state = Inr None)"
proof (induction checks)
  case (Cons c checks)
  then show ?case by (cases "snd c R state") (auto simp: check_step simp del: check_invariants.simps(2))
qed auto

lemma lax_check_lists:
  "check_invariants R checks False state = Inr vs \<Longrightarrow>
     vs = List.map_filter (\<lambda>c. case snd c R state of Inr x \<Rightarrow> map_option (Pair (fst c)) x | _ \<Rightarrow> None) checks"
proof (induction checks arbitrary: vs)
  case (Cons c checks)
  then show ?case
    by (cases "snd c R state"; cases "check_invariants R checks False state")
       (auto simp: check_step map_filter_simps split: if_splits simp del: check_invariants.simps(2))
qed (simp add: map_filter_simps)

lemma strict_iff_lax:
  "(check_invariants R checks True state = Inr []) = (check_invariants R checks False state = Inr [])"
proof (induction checks)
  case (Cons c checks)
  then show ?case
    by (cases "snd c R state"; cases "check_invariants R checks False state")
       (auto simp: check_step simp del: check_invariants.simps(2))
qed simp

section \<open>Metrics\<close>

datatype metric_kind = Counter | Gauge

record metric =
  mt_kind :: metric_kind
  mt_description :: string
  mt_value :: pyval

type_synonym metrics = "(string \<times> metric) list"

text \<open>Both lookups give an existing metric of the name, whatever its kind.\<close>

definition register_metric :: "metric_kind \<Rightarrow> string \<Rightarrow> string \<Rightarrow> metrics \<Rightarrow> metrics" where
  "register_metric k name description m =
     (if map_of m name = None then m @ [(name, \<lparr>mt_kind = k, mt_description = description, mt_value = PInt 0\<rparr>)] else m)"

definition py_add :: "pyval \<Rightarrow> pyval \<Rightarrow> pyval res" where
  "py_add a b =
     (case (a, b) of
        (PInt x, PInt y) \<Rightarrow> Inr (PInt (x + y))
      | _ \<Rightarrow> (case (py_num a, py_num b) of (Some x, Some y) \<Rightarrow> Inr (PFloat (x + y)) | _ \<Rightarrow> Inl TypeError))"

definition py_sub :: "pyval \<Rightarrow> pyval \<Rightarrow> pyval res" where
  "py_sub a b =
     (case (a, b) of
        (PInt x, PInt y) \<Rightarrow> Inr (PInt (x - y))
      | _ \<Rightarrow> (case (py_num a, py_num b) of (Some x, Some y) \<Rightarrow> Inr (PFloat (x - y)) | _ \<Rightarrow> Inl TypeError))"

definition metric_inc :: "string \<Rightarrow> pyval \<Rightarrow> metrics \<Rightarrow> metrics res" where
  "metric_inc name amount m =
     (case map_of m name of
        None \<Rightarrow> Inl KeyError
      | Some x \<Rightarrow> ebind (py_add (mt_value x) amount) (\<lambda>v. Inr (AList.update name (x\<lparr>mt_value := v\<rparr>) m)))"

definition metric_set :: "string \<Rightarrow> pyval \<Rightarrow> metrics \<Rightarrow> metrics res" where
  "metric_set name v m =
     (case map_of m name of
        None \<Rightarrow> Inl KeyError
      | Some x \<Rightarrow> if mt_kind x = Gauge then Inr (AList.update name (x\<lparr>mt_value := v\<rparr>) m) else Inl AttributeError)"

definition metric_dec :: "string \<Rightarrow> pyval \<Rightarrow> metrics \<Rightarrow> metrics res" where
  "metric_dec name amount m =
     (case map_of m name of
        None \<Rightarrow> Inl KeyError
      | Some x \<Rightarrow> if mt_kind x = Gauge
                  then ebind (py_sub (mt_value x) amount) (\<lambda>v. Inr (AList.update name (x\<lparr>mt_value := v\<rparr>) m))
                  else Inl AttributeError)"

definition metric_kind_name :: "metric_kind \<Rightarrow> string" where
  "metric_kind_name k = (case k of Counter \<Rightarrow> ''counter'' | Gauge \<Rightarrow> ''gauge'')"

definition metric_dict :: "string \<Rightarrow> metric \<Rightarrow> pydict" where
  "metric_dict name x =
     [(PStr ''name'', PStr name), (PStr ''type'', PStr (metric_kind_name (mt_kind x))), (PStr ''value'', mt_value x)]"

definition metrics_snapshot :: "rat \<Rightarrow> metrics \<Rightarrow> pydict" where
  "metrics_snapshot now m =
     [(PStr ''timestamp'', PFloat now), (PStr ''metrics'', PDict (map (\<lambda>(n, x). (PStr n, PDict (metric_dict n x))) m))]"

definition metric_lines :: "runtime \<Rightarrow> string \<times> metric \<Rightarrow> string list" where
  "metric_lines R nx =
     (case nx of (name, x) \<Rightarrow>
        (if mt_description x = [] then [] else [''# HELP '' @ name @ '' '' @ mt_description x])
        @ [''# TYPE '' @ name @ '' '' @ metric_kind_name (mt_kind x), name @ '' '' @ py_str R (mt_value x)])"

definition export_prometheus :: "runtime \<Rightarrow> metrics \<Rightarrow> string" where
  "export_prometheus R m = join [CHR 10] (concat (map (metric_lines R) (sort_key fst m))) @ [CHR 10]"

text \<open>A name keeps the kind and the description of its first registration, also under later uses.\<close>

lemma metric_kind_stays:
  assumes "map_of m name = Some x"
  shows "map_of (register_metric k n d m) name = Some x"
    and "metric_inc n v m = Inr m' \<or> metric_set n v m = Inr m' \<or> metric_dec n v m = Inr m' \<Longrightarrow>
      \<exists>y. map_of m' name = Some y \<and> mt_kind y = mt_kind x \<and> mt_description y = mt_description x"
  using assms
  by (auto simp: register_metric_def map_add_def metric_inc_def metric_set_def metric_dec_def map_of_update
      split: option.splits sum.splits if_splits)

text \<open>A gauge of a name that is a counter is that counter: setting it raises.\<close>

lemma gauge_of_counter_raises:
  "map_of m name = Some x \<Longrightarrow> mt_kind x = Counter \<Longrightarrow> metric_set name v (register_metric Gauge name d m) = Inl AttributeError"
  by (simp add: register_metric_def metric_set_def)

text \<open>A counter goes down with a negative amount.\<close>

lemma counter_decreases:
  "map_of m name = Some x \<Longrightarrow> mt_value x = PInt 5 \<Longrightarrow> mt_kind x = Counter \<Longrightarrow>
     \<exists>m'. metric_inc name (PInt (- 2)) m = Inr m' \<and> map_option mt_value (map_of m' name) = Some (PInt 3)"
  by (simp add: metric_inc_def py_add_def map_of_update)

section \<open>Boot checks\<close>

record boot_check =
  bc_name :: string
  bc_ok :: bool
  bc_message :: string

text \<open>\<open>bw_disk\<close> is the number of free bytes or the text of the exception; \<open>bw_docker\<close> the exit status of
  \<open>docker info\<close>, \<open>None\<close> where docker is not installed, or the text of another exception.\<close>

record boot_world =
  bw_rt :: runtime
  bw_importable :: "string \<Rightarrow> bool"
  bw_env :: "string \<Rightarrow> string option"
  bw_isdir :: "string \<Rightarrow> bool"
  bw_listdir :: "string \<Rightarrow> string list"
  bw_disk :: "string + int"
  bw_docker :: "string + int option"

definition list_repr :: "boot_world \<Rightarrow> string list \<Rightarrow> string" where
  "list_repr W xs = rt_str (bw_rt W) (PList (map PStr xs))"

definition import_check :: "boot_world \<Rightarrow> string \<Rightarrow> string \<Rightarrow> string list \<Rightarrow> boot_check" where
  "import_check W name what modules =
     (let missing = filter (\<lambda>x. \<not> bw_importable W x) modules
      in if missing \<noteq> [] then \<lparr>bc_name = name, bc_ok = False, bc_message = ''Missing: '' @ list_repr W missing\<rparr>
         else \<lparr>bc_name = name, bc_ok = True, bc_message = ''All '' @ nat_str (length modules) @ '' '' @ what @ '' modules OK''\<rparr>)"

definition check_python_imports :: "boot_world \<Rightarrow> boot_check" where
  "check_python_imports W = import_check W ''python_imports'' ''core'' [''json'', ''hashlib'', ''subprocess'', ''os'', ''re'']"

definition check_rfsn_modules :: "boot_world \<Rightarrow> boot_check" where
  "check_rfsn_modules W =
     import_check W ''rfsn_modules'' ''RFSN'' [''rfsn_kernel.kernel'', ''rfsn_kernel.planner'', ''rfsn_kernel.state'']"

definition check_policies :: "boot_world \<Rightarrow> boot_check" where
  "check_policies W =
     (let dir = (case bw_env W ''RFSN_POLICY_DIR'' of None \<Rightarrow> ''policies'' | Some d \<Rightarrow> d);
          yaml = filter (\<lambda>f. endswith f ''.yaml'' \<or> endswith f ''.yml'') (bw_listdir W dir)
      in if \<not> bw_isdir W dir then \<lparr>bc_name = ''policies'', bc_ok = False, bc_message = ''Policy dir not found: '' @ dir\<rparr>
         else if yaml = [] then \<lparr>bc_name = ''policies'', bc_ok = False, bc_message = ''No policy YAML files found''\<rparr>
         else \<lparr>bc_name = ''policies'', bc_ok = True, bc_message = nat_str (length yaml) @ '' policy files found''\<rparr>)"

definition check_disk_space :: "boot_world \<Rightarrow> boot_check" where
  "check_disk_space W =
     (case bw_disk W of
        Inl e \<Rightarrow> \<lparr>bc_name = ''disk_space'', bc_ok = False, bc_message = e\<rparr>
      | Inr free \<Rightarrow>
          (let mb = of_int free / (1024 * 1024)
           in if mb < 500 then \<lparr>bc_name = ''disk_space'', bc_ok = False, bc_message = ''Only '' @ rt_fixed (bw_rt W) 0 mb @ ''MB free''\<rparr>
              else \<lparr>bc_name = ''disk_space'', bc_ok = True, bc_message = rt_fixed (bw_rt W) 0 mb @ ''MB free''\<rparr>))"

definition check_docker :: "boot_world \<Rightarrow> boot_check" where
  "check_docker W =
     (case bw_docker W of
        Inl e \<Rightarrow> \<lparr>bc_name = ''docker'', bc_ok = False, bc_message = e\<rparr>
      | Inr None \<Rightarrow> \<lparr>bc_name = ''docker'', bc_ok = False, bc_message = ''Docker not installed''\<rparr>
      | Inr (Some status) \<Rightarrow>
          if status = 0 then \<lparr>bc_name = ''docker'', bc_ok = True, bc_message = ''Docker daemon running''\<rparr>
          else \<lparr>bc_name = ''docker'', bc_ok = False, bc_message = ''Docker not responding''\<rparr>)"

text \<open>An unset or empty variable is reported, but never fails the check.\<close>

definition check_env_vars :: "boot_world \<Rightarrow> boot_check" where
  "check_env_vars W =
     (let missing = filter (\<lambda>v. str_or_empty (bw_env W v) = []) [''RFSN_AUTH_REQUIRED'', ''RFSN_PATCH_GATE_REQUIRED'']
      in \<lparr>bc_name = ''env_vars'', bc_ok = True,
          bc_message = (if missing \<noteq> [] then ''Unset (using defaults): '' @ list_repr W missing else ''All env vars configured'')\<rparr>)"

record boot_report =
  bp_ok :: bool
  bp_total :: nat
  bp_passed :: nat
  bp_failed :: nat
  bp_checks :: "boot_check list"

definition run_all :: "boot_world \<Rightarrow> boot_report" where
  "run_all W =
     (let checks = [check_python_imports W, check_rfsn_modules W, check_policies W, check_disk_space W, check_docker W, check_env_vars W];
          failed = filter (\<lambda>c. \<not> bc_ok c) checks
      in \<lparr>bp_ok = (length failed = 0), bp_total = length checks, bp_passed = length checks - length failed,
          bp_failed = length failed, bp_checks = checks\<rparr>)"

text \<open>The boot succeeds exactly when every module imports, a policy file exists, half a gigabyte is free and
  docker answers; the environment never matters.\<close>

lemma boot_ok_iff:
  "bp_ok (run_all W) \<longleftrightarrow>
     (\<forall>x \<in> {''json'', ''hashlib'', ''subprocess'', ''os'', ''re'', ''rfsn_kernel.kernel'', ''rfsn_kernel.planner'', ''rfsn_kernel.state''}.
        bw_importable W x)
     \<and> bc_ok (check_policies W) \<and> (\<exists>free. bw_disk W = Inr free \<and> 500 * 1024 * 1024 \<le> free) \<and> bw_docker W = Inr (Some 0)"
proof -
  have imp: "bc_ok (import_check W name what ms) \<longleftrightarrow> (\<forall>x \<in> set ms. bw_importable W x)" for name what ms
    by (auto simp: import_check_def Let_def filter_empty_conv)
  have disk: "bc_ok (check_disk_space W) \<longleftrightarrow> (\<exists>free. bw_disk W = Inr free \<and> 500 * 1024 * 1024 \<le> free)"
  proof (cases "bw_disk W")
    case (Inr free)
    have "(of_int free / (1024 * 1024) < (500 :: rat)) = (of_int free < (of_int (500 * 1024 * 1024) :: rat))"
      by (simp add: field_simps)
    then have "(of_int free / (1024 * 1024) < (500 :: rat)) = (free < 500 * 1024 * 1024)" unfolding of_int_less_iff .
    then show ?thesis by (simp add: check_disk_space_def Inr Let_def not_less)
  qed (simp add: check_disk_space_def)
  have docker: "bc_ok (check_docker W) \<longleftrightarrow> bw_docker W = Inr (Some 0)"
    by (auto simp: check_docker_def split: sum.split option.split)
  have env: "bc_ok (check_env_vars W)" by (simp add: check_env_vars_def Let_def)
  show ?thesis
    using imp disk docker env
    by (auto simp: run_all_def Let_def check_python_imports_def check_rfsn_modules_def)
qed

section \<open>Event bus\<close>

text \<open>The handlers of a type run in the order of their subscription; an exception of one is printed and the
  next one runs. Handlers are named by numbers and act on a state \<open>'s\<close>; they do not subscribe others.\<close>

type_synonym subscribers = "(pyval \<times> nat list) list"

definition subscribe :: "pyval \<Rightarrow> nat \<Rightarrow> subscribers \<Rightarrow> subscribers" where
  "subscribe t h m = AList.update t ((case map_of m t of None \<Rightarrow> [] | Some hs \<Rightarrow> hs) @ [h]) m"

definition publish :: "(nat \<Rightarrow> pydict \<Rightarrow> 's \<Rightarrow> bool \<times> 's) \<Rightarrow> subscribers \<Rightarrow> pydict \<Rightarrow> 's \<Rightarrow> 's" where
  "publish call m ev s =
     fold (\<lambda>h s. snd (call h ev s)) (case map_of m (dget_or ev ''type'' (PStr ''unknown'')) of None \<Rightarrow> [] | Some hs \<Rightarrow> hs) s"

text \<open>A published event reaches every subscriber of its type once per subscription, in order.\<close>

lemma publish_reaches_subscribers:
  "publish (\<lambda>h ev s. (b, s @ [h])) (fold (\<lambda>(t, h). subscribe t h) subs []) ev s
     = s @ map snd (filter (\<lambda>(t, h). t = dget_or ev ''type'' (PStr ''unknown'')) subs)"
proof -
  define k where "k = dget_or ev ''type'' (PStr ''unknown'')"
  have handlers: "(case map_of (fold (\<lambda>(t, h). subscribe t h) subs m) k of None \<Rightarrow> [] | Some hs \<Rightarrow> hs)
      = (case map_of m k of None \<Rightarrow> [] | Some hs \<Rightarrow> hs) @ map snd (filter (\<lambda>(t, h). t = k) subs)" for m
    by (induction subs arbitrary: m) (auto simp: subscribe_def map_of_update)
  have "fold (\<lambda>h s. s @ [h]) hs s = s @ hs" for hs :: "nat list" and s by (induction hs arbitrary: s) auto
  then show ?thesis using handlers [of "[]"] by (simp add: publish_def k_def)
qed

section \<open>Egress policy\<close>

definition DEFAULT_EGRESS :: "string list" where
  "DEFAULT_EGRESS = [''pypi.org'', ''files.pythonhosted.org'', ''github.com'', ''api.deepseek.com'', ''*.googleapis.com'']"

definition check_connection :: "string list \<Rightarrow> string \<Rightarrow> int \<Rightarrow> string + bool" where
  "check_connection allowlist host port =
     (if list_ex (fnmatch host) allowlist then Inr True
      else Inl (''Connection denied to '' @ host @ '':'' @ int_str port))"

definition check_egress :: "string \<Rightarrow> string + bool" where
  "check_egress host = check_connection DEFAULT_EGRESS host 443"

lemma glob_literal: "list_all (\<lambda>c. c \<notin> set ''*?['') p \<Longrightarrow> glob p s \<longleftrightarrow> s = p"
proof (induction p arbitrary: s)
  case (Cons c p)
  then have "c \<noteq> CHR ''*''" "c \<noteq> CHR ''?''" "c \<noteq> CHR ''[''" "\<And>s. glob p s \<longleftrightarrow> s = p" by simp_all
  then show ?case by (subst glob.simps(2)) (cases s; simp)
qed (simp add: glob.simps(1))

lemma glob_star_step: "glob (CHR ''*'' # p) s \<longleftrightarrow> glob p s \<or> s \<noteq> [] \<and> glob (CHR ''*'' # p) (tl s)"
  by (subst glob.simps(2)) simp

lemma glob_star: "glob (CHR ''*'' # p) s \<longleftrightarrow> (\<exists>a b. s = a @ b \<and> glob p b)"
proof (induction s)
  case Nil
  then show ?case by (subst glob_star_step) simp
next
  case (Cons c s)
  have "glob (CHR ''*'' # p) (c # s) \<longleftrightarrow> glob p (c # s) \<or> glob (CHR ''*'' # p) s" by (subst glob_star_step) simp
  also have "\<dots> \<longleftrightarrow> (\<exists>a b. c # s = a @ b \<and> glob p b)"
    unfolding Cons.IH by (auto simp: Cons_eq_append_conv)
  finally show ?case .
qed

text \<open>The default policy lets four hosts and the subdomains of one through, whatever the port.\<close>

lemma egress_hosts:
  "check_egress host = Inr True \<longleftrightarrow>
     host \<in> {''pypi.org'', ''files.pythonhosted.org'', ''github.com'', ''api.deepseek.com''} \<or> endswith host ''.googleapis.com''"
proof -
  define dom where "dom = ''.googleapis.com''"
  have g: "fnmatch host p \<longleftrightarrow> host = p" if "list_all (\<lambda>c. c \<notin> set ''*?['') p" for p
    using glob_literal [of p host] that by (simp add: fnmatch_def)
  have lit: "fnmatch host ''pypi.org'' \<longleftrightarrow> host = ''pypi.org''"
    "fnmatch host ''files.pythonhosted.org'' \<longleftrightarrow> host = ''files.pythonhosted.org''"
    "fnmatch host ''github.com'' \<longleftrightarrow> host = ''github.com''"
    "fnmatch host ''api.deepseek.com'' \<longleftrightarrow> host = ''api.deepseek.com''"
    by (rule g, code_simp)+
  have "list_all (\<lambda>c. c \<notin> set ''*?['') dom" unfolding dom_def by code_simp
  then have star: "fnmatch host (CHR ''*'' # dom) \<longleftrightarrow> endswith host dom"
    using glob_star [of dom host] glob_literal [of dom] by (auto simp: fnmatch_def endswith_def suffix_def)
  have hosts: "DEFAULT_EGRESS = [''pypi.org'', ''files.pythonhosted.org'', ''github.com'', ''api.deepseek.com'', CHR ''*'' # dom]"
    by (simp add: DEFAULT_EGRESS_def dom_def)
  have "list_ex (fnmatch host) DEFAULT_EGRESS \<longleftrightarrow>
      host = ''pypi.org'' \<or> host = ''files.pythonhosted.org'' \<or> host = ''github.com'' \<or> host = ''api.deepseek.com'' \<or> endswith host dom"
    by (simp only: hosts list_ex_Cons_iff list_ex_Nil_iff lit star simp_thms)
  moreover have "((if b then Inr True else Inl e) = (Inr True :: string + bool)) = b" for b e by simp
  ultimately show ?thesis
    unfolding check_egress_def check_connection_def dom_def by (simp only: insert_iff empty_iff disj_assoc simp_thms)
qed

end
