(* ===== verification/Static_Check.thy ===== *)
theory Static_Check
  imports Py_Value Py_Path "HOL-Library.List_Lexorder" "HOL-Library.Char_ord"
begin

text \<open>
  The checks of Python source over its syntax tree, \<open>rfsn_kernel/symbolic_check.py\<close>. A node has its class,
  its line and its fields by name; a field is a node, a list of nodes (with None) or a constant. Parsing a
  file is given as a function, with the errors that the code catches and those that it does not.
\<close>

section \<open>Syntax trees\<close>

datatype ast = Node string int "string list" "ast_field list"
  and ast_field = ANode ast | AItems "ast option list" | AConst pyval

fun kind_of :: "ast \<Rightarrow> string" where
  "kind_of (Node k l ns vs) = k"

fun line_of :: "ast \<Rightarrow> int" where
  "line_of (Node k l ns vs) = l"

definition field_of :: "string list \<Rightarrow> ast_field list \<Rightarrow> string \<Rightarrow> ast_field option" where
  "field_of ns vs name = map_of (zip ns vs) name"

definition items_of :: "string list \<Rightarrow> ast_field list \<Rightarrow> string \<Rightarrow> ast list" where
  "items_of ns vs name = (case field_of ns vs name of Some (AItems xs) \<Rightarrow> List.map_filter id xs | _ \<Rightarrow> [])"

record issue =
  is_file :: string
  is_line :: int
  is_kind :: string
  is_message :: string

section \<open>Unreachable code\<close>

definition EXIT_STMTS :: "string list" where
  "EXIT_STMTS = [''Return'', ''Raise'', ''Break'', ''Continue'']"

fun check_body :: "string \<Rightarrow> ast list \<Rightarrow> issue list" where
  "check_body fname (s # t # rest) =
     (if kind_of s \<in> set EXIT_STMTS
      then [\<lparr>is_file = fname, is_line = line_of t, is_kind = ''unreachable'',
             is_message = ''Code after '' @ lower (kind_of s) @ '' is unreachable''\<rparr>]
      else []) @ check_body fname (t # rest)"
| "check_body fname stmts = []"

definition own_bodies :: "string \<Rightarrow> string list \<Rightarrow> ast_field list \<Rightarrow> ast list list" where
  "own_bodies k ns vs =
     (if k \<in> {''FunctionDef'', ''AsyncFunctionDef''} then [items_of ns vs ''body'']
      else if k = ''If'' then [items_of ns vs ''body'', items_of ns vs ''orelse'']
      else [])"

text \<open>The visitor handles a node before its children, and the children in the order of the fields.\<close>

fun check_unreachable :: "string \<Rightarrow> ast \<Rightarrow> issue list"
  and check_field :: "string \<Rightarrow> ast_field \<Rightarrow> issue list" where
  "check_unreachable fname (Node k l ns vs) =
     concat (map (check_body fname) (own_bodies k ns vs)) @ concat (map (check_field fname) vs)"
| "check_field fname (ANode n) = check_unreachable fname n"
| "check_field fname (AItems xs) = concat (map (\<lambda>x. case x of None \<Rightarrow> [] | Some n \<Rightarrow> check_unreachable fname n) xs)"
| "check_field fname (AConst v) = []"

section \<open>Endless loops\<close>

text \<open>The nodes of a tree (\<open>ast.walk\<close>).\<close>

fun nodes :: "ast \<Rightarrow> ast list" and field_nodes :: "ast_field \<Rightarrow> ast list" where
  "nodes (Node k l ns vs) = Node k l ns vs # concat (map field_nodes vs)"
| "field_nodes (ANode n) = nodes n"
| "field_nodes (AItems xs) = concat (map (\<lambda>x. case x of None \<Rightarrow> [] | Some n \<Rightarrow> nodes n) xs)"
| "field_nodes (AConst v) = []"

definition has_exit :: "ast \<Rightarrow> bool" where
  "has_exit t \<longleftrightarrow> list_ex (\<lambda>n. kind_of n \<in> {''Break'', ''Return'', ''Raise''}) (nodes t)"

fun constant_true :: "ast_field \<Rightarrow> bool" where
  "constant_true (ANode (Node k l ns vs)) =
     (k = ''Constant'' \<and> (case field_of ns vs ''value'' of Some (AConst v) \<Rightarrow> truthy v | _ \<Rightarrow> False))"
| "constant_true f = False"

definition endless :: "ast \<Rightarrow> bool" where
  "endless t \<longleftrightarrow>
     (case t of Node k l ns vs \<Rightarrow>
        k = ''While'' \<and> (case field_of ns vs ''test'' of Some f \<Rightarrow> constant_true f | None \<Rightarrow> False) \<and> \<not> has_exit t)"

definition check_infinite_loops :: "string \<Rightarrow> ast \<Rightarrow> issue list" where
  "check_infinite_loops fname t =
     map (\<lambda>n. \<lparr>is_file = fname, is_line = line_of n, is_kind = ''infinite_loop'',
               is_message = ''while True without break/return/raise''\<rparr>) (filter endless (nodes t))"

section \<open>Files and directories\<close>

text \<open>A file parses, gives an error that is caught (\<open>SyntaxError\<close>, \<open>OSError\<close>) with its text, or another one.\<close>

datatype parse_result = Tree ast | Refused string | Raised pyerr

definition check_file :: "(string \<Rightarrow> parse_result) \<Rightarrow> string \<Rightarrow> issue list res" where
  "check_file parse fname =
     (case parse fname of
        Refused e \<Rightarrow> Inr [\<lparr>is_file = fname, is_line = 0, is_kind = ''parse_error'', is_message = e\<rparr>]
      | Raised e \<Rightarrow> Inl e
      | Tree t \<Rightarrow> Inr (check_unreachable fname t @ check_infinite_loops fname t))"

text \<open>A directory: its files and its subdirectories in the order of \<open>os.walk\<close>.\<close>

datatype dir_tree = Dir "string list" "(string \<times> dir_tree) list"

definition WALK_IGNORED :: "string list" where
  "WALK_IGNORED = [''__pycache__'', ''.venv'', ''venv'', ''.git'', ''node_modules'']"

fun walk_files :: "string list \<Rightarrow> string \<Rightarrow> dir_tree \<Rightarrow> string list" where
  "walk_files ignore base (Dir files dirs) =
     map (path_join base) (filter (\<lambda>f. endswith f ''.py'') (sort files))
     @ concat (map (\<lambda>(d, t). if d \<in> set ignore then [] else walk_files ignore (path_join base d) t) dirs)"

definition check_directory :: "(string \<Rightarrow> parse_result) \<Rightarrow> string list \<Rightarrow> string \<Rightarrow> dir_tree \<Rightarrow> issue list res" where
  "check_directory parse ignore base t =
     ebind (emap (check_file parse) (walk_files (if ignore = [] then WALK_IGNORED else ignore) base t)) (\<lambda>iss. Inr (concat iss))"

section \<open>What the checks find\<close>

lemma check_body_empty:
  "check_body fname ss = [] \<longleftrightarrow> (\<forall>i. Suc i < length ss \<longrightarrow> kind_of (ss ! i) \<notin> set EXIT_STMTS)"
proof (induction fname ss rule: check_body.induct)
  case (1 fname s t rest)
  have "(\<forall>i. Suc i < length (s # t # rest) \<longrightarrow> kind_of ((s # t # rest) ! i) \<notin> set EXIT_STMTS)
      \<longleftrightarrow> kind_of s \<notin> set EXIT_STMTS \<and> (\<forall>i. Suc i < length (t # rest) \<longrightarrow> kind_of ((t # rest) ! i) \<notin> set EXIT_STMTS)"
    by (auto simp: nth_Cons split: nat.splits)
  then show ?case using 1 by auto
qed auto

definition dead_code :: "ast \<Rightarrow> bool" where
  "dead_code t \<longleftrightarrow>
     (case t of Node k l ns vs \<Rightarrow>
        \<exists>b \<in> set (own_bodies k ns vs). \<exists>i. Suc i < length b \<and> kind_of (b ! i) \<in> set EXIT_STMTS)"

lemma unreachable_complete:
  "check_unreachable fname t = [] \<longleftrightarrow> (\<forall>n \<in> set (nodes t). \<not> dead_code n)"
  "check_field fname f = [] \<longleftrightarrow> (\<forall>n \<in> set (field_nodes f). \<not> dead_code n)"
proof (induction fname t and fname f rule: check_unreachable_check_field.induct)
  case (1 fname k l ns vs)
  have "concat (map (check_body fname) (own_bodies k ns vs)) = [] \<longleftrightarrow> \<not> dead_code (Node k l ns vs)"
    by (auto simp: dead_code_def check_body_empty)
  then show ?case using 1 by (auto simp: concat_eq_Nil_conv)
next
  case (3 fname xs)
  then show ?case by (fastforce simp: concat_eq_Nil_conv split: option.splits)
qed auto

text \<open>The result of a file that parses is empty exactly when no function body and no branch of a conditional
  has a statement after one that leaves it, and every constant loop has an exit somewhere inside.\<close>

lemma check_file_clean:
  assumes "parse fname = Tree t"
  shows "check_file parse fname = Inr [] \<longleftrightarrow> (\<forall>n \<in> set (nodes t). \<not> dead_code n \<and> \<not> endless n)"
  using unreachable_complete(1) [of fname t]
  by (auto simp: check_file_def assms check_infinite_loops_def filter_empty_conv)

text \<open>Code behind a jump in the body of a loop is not found, and a loop counts as left by the break of a
  loop inside it.\<close>

definition stmt :: "string \<Rightarrow> int \<Rightarrow> ast" where
  "stmt k l = Node k l [] []"

definition true_loop :: "ast list \<Rightarrow> ast" where
  "true_loop b = Node ''While'' 1 [''test'', ''body'', ''orelse'']
     [ANode (Node ''Constant'' 1 [''value''] [AConst (PBool True)]), AItems (map Some b), AItems []]"

lemma loop_body_unchecked:
  "check_unreachable ''f'' (true_loop [stmt ''Break'' 2, stmt ''Pass'' 3]) = []"
  by code_simp

lemma inner_break_counts:
  "check_infinite_loops ''f'' (true_loop [true_loop [stmt ''Break'' 3]]) = []"
  "length (check_infinite_loops ''f'' (true_loop [stmt ''Pass'' 3])) = 1"
  by code_simp+

end
