(* ===== verification/Learner_Export.thy ===== *)
theory Learner_Export
  imports Py_Value "HOL-Library.AList"
begin

text \<open>
  The export of preference pairs, \<open>services/learner_service/dpo_export.py\<close>: successful and failed
  trajectories of a task become lines of a file. The rows of the table, the JSON parser and printer are
  given. What is written before an exception stays in the file.
\<close>

record traj_row =
  tr_task :: string
  tr_success :: pyval
  tr_steps :: pyval

record export_world =
  ex_rt :: runtime
  ex_dumps :: "pyval \<Rightarrow> string"
  ex_loads :: "string \<Rightarrow> pyval option"

definition row_success :: "pyval \<Rightarrow> bool" where
  "row_success v = (case v of PBool b \<Rightarrow> b | PInt i \<Rightarrow> i \<noteq> 0 | PStr s \<Rightarrow> s = ''true'' | _ \<Rightarrow> False)"

definition row_steps :: "export_world \<Rightarrow> pyval \<Rightarrow> pyval" where
  "row_steps W v = (case v of PStr s \<Rightarrow> (case ex_loads W s of None \<Rightarrow> PList [] | Some x \<Rightarrow> x) | _ \<Rightarrow> v)"

type_synonym task_groups = "(string \<times> pyval list \<times> pyval list) list"

definition add_row :: "export_world \<Rightarrow> traj_row \<Rightarrow> task_groups \<Rightarrow> task_groups" where
  "add_row W r g =
     (case (case map_of g (tr_task r) of None \<Rightarrow> ([], []) | Some p \<Rightarrow> p) of
        (chosen, rejected) \<Rightarrow>
          AList.update (tr_task r)
            (if row_success (tr_success r) then (chosen @ [row_steps W (tr_steps r)], rejected)
             else (chosen, rejected @ [row_steps W (tr_steps r)])) g)"

definition group_rows :: "export_world \<Rightarrow> traj_row list \<Rightarrow> task_groups" where
  "group_rows W rows = fold (add_row W) rows []"

text \<open>\<open>step.get(...)\<close> on one step, which gives two messages.\<close>

definition format_step :: "export_world \<Rightarrow> pyval \<Rightarrow> pyval list res" where
  "format_step W v =
     (case v of
        PDict step \<Rightarrow>
          Inr [PDict [(PStr ''role'', PStr ''user''),
                      (PStr ''content'', PStr (''Execute step '' @ py_str (ex_rt W) (dget_or step ''iteration'' PNone) @ '': ''
                                               @ ex_dumps W (dget_or step ''intent'' (PDict []))))],
               PDict [(PStr ''role'', PStr ''assistant''),
                      (PStr ''content'', PStr (''Tool Output: '' @ ex_dumps W (dget_or step ''result'' (PDict []))))]]
      | _ \<Rightarrow> Inl AttributeError)"

definition format_convo :: "export_world \<Rightarrow> pyval \<Rightarrow> pyval res" where
  "format_convo W steps =
     ebind (py_iter steps) (\<lambda>xs. ebind (emap (format_step W) xs) (\<lambda>ys. Inr (PList (concat ys))))"

text \<open>\<open>x[0]\<close> and \<open>x[key]\<close>.\<close>

definition first_item :: "pyval \<Rightarrow> pyval res" where
  "first_item v =
     (case v of
        PList (x # xs) \<Rightarrow> Inr x
      | PStr (c # cs) \<Rightarrow> Inr (PStr [c])
      | PDict d \<Rightarrow> (case map_of d (PInt 0) of Some x \<Rightarrow> Inr x | None \<Rightarrow> Inl KeyError)
      | _ \<Rightarrow> Inl TypeError)"

definition item_at :: "pyval \<Rightarrow> string \<Rightarrow> pyval res" where
  "item_at v k = (case v of PDict d \<Rightarrow> (case dget d k of Some x \<Rightarrow> Inr x | None \<Rightarrow> Inl KeyError) | _ \<Rightarrow> Inl TypeError)"

definition prompt_of :: "pyval \<Rightarrow> pyval res" where
  "prompt_of chosen =
     (if \<not> truthy chosen then Inr (PStr ''Replay Task'')
      else ebind (py_len chosen) (\<lambda>n.
           if n = 0 then Inr (PStr ''Replay Task'')
           else ebind (first_item chosen) (\<lambda>step.
                ebind (py_contains_str ''task'' step) (\<lambda>has_task.
                if has_task then item_at step ''task''
                else ebind (py_contains_str ''intent'' step) (\<lambda>has_intent.
                     if \<not> has_intent then Inr (PStr ''Replay Task'')
                     else ebind (item_at step ''intent'') (\<lambda>intent.
                          ebind (py_contains_str ''task'' intent) (\<lambda>nested.
                          if nested then item_at intent ''task'' else Inr (PStr ''Replay Task''))))))))"

definition dpo_entry :: "export_world \<Rightarrow> string \<Rightarrow> pyval \<Rightarrow> pyval \<Rightarrow> pyval \<Rightarrow> pydict res" where
  "dpo_entry W task prompt chosen rejected =
     ebind (format_convo W chosen) (\<lambda>c.
     ebind (format_convo W rejected) (\<lambda>r.
     Inr [(PStr ''prompt'', prompt), (PStr ''chosen'', c), (PStr ''rejected'', r),
          (PStr ''metadata'', PDict [(PStr ''task_hash'', PStr task)])]))"

text \<open>Entries are written one after the other until one cannot be made.\<close>

fun write_all :: "('x \<Rightarrow> 'e + 'y) \<Rightarrow> 'x list \<Rightarrow> 'y list \<times> 'e option" where
  "write_all f [] = ([], None)"
| "write_all f (x # xs) =
     (case f x of
        Inl e \<Rightarrow> ([], Some e)
      | Inr y \<Rightarrow> (case write_all f xs of (ys, e) \<Rightarrow> (y # ys, e)))"

fun write_groups :: "export_world \<Rightarrow> task_groups \<Rightarrow> pydict list \<times> pyerr option" where
  "write_groups W [] = ([], None)"
| "write_groups W ((task, chosen, rejected) # gs) =
     (if chosen = [] \<or> rejected = [] then write_groups W gs
      else (case prompt_of (hd chosen) of
              Inl e \<Rightarrow> ([], Some e)
            | Inr prompt \<Rightarrow>
                (case write_all (dpo_entry W task prompt (hd chosen)) rejected of
                   (es, Some e) \<Rightarrow> (es, Some e)
                 | (es, None) \<Rightarrow> (case write_groups W gs of (fs, e) \<Rightarrow> (es @ fs, e)))))"

text \<open>\<open>rows\<close> is None without a database and an error where the query raises; both export nothing and leave
  the file. Else the file has the lines that were written.\<close>

definition export_for_dpo :: "export_world \<Rightarrow> (string + traj_row list) option \<Rightarrow> int res \<times> string option" where
  "export_for_dpo W rows =
     (case rows of
        Some (Inr rs) \<Rightarrow>
          (case write_groups W (group_rows W rs) of
             (es, e) \<Rightarrow>
               (case e of None \<Rightarrow> Inr (int (length es)) | Some x \<Rightarrow> Inl x,
                Some (concat (map (\<lambda>d. ex_dumps W (PDict d) @ [CHR 10]) es))))
      | _ \<Rightarrow> (Inr 0, None))"

section \<open>What is exported\<close>

lemma grouped:
  "map_of (group_rows W rows) t =
     (if \<exists>r \<in> set rows. tr_task r = t
      then Some (map (row_steps W \<circ> tr_steps) (filter (\<lambda>r. tr_task r = t \<and> row_success (tr_success r)) rows),
                 map (row_steps W \<circ> tr_steps) (filter (\<lambda>r. tr_task r = t \<and> \<not> row_success (tr_success r)) rows))
      else None)"
  unfolding group_rows_def
  by (induction rows rule: rev_induct) (auto simp: add_row_def map_of_update split: prod.splits option.splits)

lemma grouped_distinct: "distinct (map fst (group_rows W rows))"
  unfolding group_rows_def by (induction rows rule: rev_induct) (auto simp: add_row_def distinct_update split: prod.splits)

lemma write_all_set: "y \<in> set (fst (write_all f xs)) \<Longrightarrow> \<exists>x \<in> set xs. f x = Inr y"
  by (induction xs) (auto split: sum.splits prod.splits)

lemma written_entry:
  "d \<in> set (fst (write_groups W gs)) \<Longrightarrow>
     \<exists>(task, chosen, rejected) \<in> set gs. \<exists>x \<in> set rejected. \<exists>prompt.
       chosen \<noteq> [] \<and> dpo_entry W task prompt (hd chosen) x = Inr d"
proof (induction gs)
  case (Cons g gs)
  obtain task chosen rejected where g: "g = (task, chosen, rejected)" by (cases g)
  show ?case
  proof (cases "chosen = [] \<or> rejected = []")
    case True
    then have "d \<in> set (fst (write_groups W gs))" using Cons.prems by (auto simp: g)
    from Cons.IH [OF this] show ?thesis by auto
  next
    case c: False
    show ?thesis
    proof (cases "prompt_of (hd chosen)")
      case (Inl e)
      then show ?thesis using Cons.prems c by (simp add: g)
    next
      case (Inr prompt)
      let ?es = "fst (write_all (dpo_entry W task prompt (hd chosen)) rejected)"
      have "d \<in> set ?es \<or> d \<in> set (fst (write_groups W gs))"
        using Cons.prems c by (auto simp: g Inr split: option.splits prod.splits)
      then show ?thesis
      proof
        assume "d \<in> set ?es"
        from write_all_set [OF this] c show ?thesis by (auto simp: g)
      next
        assume "d \<in> set (fst (write_groups W gs))"
        from Cons.IH [OF this] show ?thesis by auto
      qed
    qed
  qed
qed simp

text \<open>Every exported pair is of one task, prefers its first successful run and rejects a failed one.\<close>

lemma exported_pairs:
  assumes "d \<in> set (fst (write_groups W (group_rows W rows)))"
  shows "\<exists>task good bad prompt. good \<in> set rows \<and> bad \<in> set rows \<and> tr_task good = task \<and> tr_task bad = task
     \<and> row_success (tr_success good) \<and> \<not> row_success (tr_success bad)
     \<and> find (\<lambda>r. tr_task r = task \<and> row_success (tr_success r)) rows = Some good
     \<and> dpo_entry W task prompt (row_steps W (tr_steps good)) (row_steps W (tr_steps bad)) = Inr d"
proof -
  from written_entry [OF assms] obtain task chosen rejected x prompt where
    g0: "(task, chosen, rejected) \<in> set (group_rows W rows)" "chosen \<noteq> []"
    and x0: "x \<in> set rejected" "dpo_entry W task prompt (hd chosen) x = Inr d"
    by auto
  then obtain c cs where "chosen = c # cs" by (cases chosen) auto
  with g0 x0 have g: "(task, c # cs, rejected) \<in> set (group_rows W rows)" and x: "x \<in> set rejected" "dpo_entry W task prompt c x = Inr d"
    by simp_all
  let ?P = "\<lambda>r. tr_task r = task \<and> row_success (tr_success r)"
  have "map_of (group_rows W rows) task = Some (c # cs, rejected)"
    using g grouped_distinct by (metis map_of_is_SomeI)
  then have e: "c # cs = map (row_steps W \<circ> tr_steps) (filter ?P rows)"
    "rejected = map (row_steps W \<circ> tr_steps) (filter (\<lambda>r. tr_task r = task \<and> \<not> row_success (tr_success r)) rows)"
    unfolding grouped by (auto split: if_splits)
  from e(1) obtain good gs where gd: "filter ?P rows = good # gs" "c = row_steps W (tr_steps good)" by auto
  have "find ?P rows = Some good" using gd(1) by (induction rows) (auto split: if_splits)
  moreover have "good \<in> set (filter ?P rows)" by (simp add: gd(1))
  moreover from x(1) e(2) obtain bad where "bad \<in> set rows" "tr_task bad = task" "\<not> row_success (tr_success bad)"
    "x = row_steps W (tr_steps bad)" by auto
  ultimately show ?thesis using x(2) gd(2) by (intro exI [of _ task] exI [of _ good] exI [of _ bad] exI [of _ prompt]) auto
qed

end
