(* ===== verification/Spec2Isabelle.thy ===== *)
theory Spec2Isabelle
  imports Kernel_Facts Ledger_Chain Frustration Model_Check Swarm Consensus Circuit_Breaker Self_Healing
    Planner Dispatcher Stability Run_Helpers Tool_Gateway Executor_Spec Sandbox_Race
    Orchestrator_Spec Run_Signals Semantic_Patch Bench_Spec Learner Replay_Bundles Autofix Bench_Propose Llm_Service Bench_Scripts
    Executor_Repo Github_Hook System_Utils Static_Check Learner_Export
begin

text \<open>
  A verification development for RFSN-AGENT-FULL, a Python agent that repairs code. A planner
  proposes steps (search, read, patch, test); the kernel under \<open>src/rfsn_kernel\<close> is the path from a
  proposal to its approval, and services under \<open>src/services\<close> carry the steps out. The development
  models the kernel, the services, the benchmark harness \<open>src/rfsn_swebench\<close>, the repair loop
  \<open>src/autofix\<close> and the system packages around them.

  \<^bold>\<open>How the program works.\<close> The orchestrator takes a run with a plan. For each step it calls
  \<open>HardKernel.kernel_step\<close>, which normalises the step to a proposal, compares it with the budget and the
  path permissions of the tier its run has reached, validates it, predicts its outcome from the history,
  scores the risk and applies the decision law. Only an approved step goes on: the tool gateway checks it
  once more (types, budgets, paths, the patch risk gate) and sends it to the executor, which turns it into
  a script and runs that in a fresh container or in the warm sandbox of the run. The outcome updates the
  counters, the history and the tier, and one record of the step is appended to a hash-chained ledger. The
  learner chooses a strategy for a run with a bandit over playbooks and learns from its result; the
  language model service answers from a model or a cassette; the replay verifier compares recorded runs.
  The benchmark harness runs a task through proposals, the patch gate and the tests.

  \<^bold>\<open>Which theory models what: the shared base.\<close>
  \<^item> Prelude: Python dictionaries as association lists in insertion order, failing computations as
    sums, decimal rounding, and the locale \<open>machine\<close> (operations that keep an invariant, so every
    sequence of them does) with its extension \<open>growing_machine\<close> (operations that only extend a log).
  \<^item> Py_String, Py_Text, Py_Regex, Py_Path, Py_Url, Py_Value: the string operations, regular expressions
    (with the backtracking order of \<open>re\<close>), \<open>posixpath\<close>, \<open>urlparse\<close> and the dynamic conversions that the program
    uses; \<open>runtime\<close> holds what is not under \<open>src\<close> (sha256, md5, the JSON encoder).
  \<^item> Effects, Http: computations with a state and an exception, where the state is returned also when the
    exception is raised, and the answers of request handlers.

  \<^bold>\<open>The kernel.\<close>
  \<^item> Tool_Registry (\<open>tool_registry.py\<close>), Kernel_State (\<open>state.py\<close>, \<open>normalize.py\<close>), Validate (\<open>validate.py\<close>),
    Simulate (\<open>simulate.py\<close>), Risk_Decide (\<open>risk.py\<close>, \<open>decide.py\<close>, \<open>verify.py\<close>), Tier_Policy (\<open>tier_policy.py\<close>,
    \<open>failure_kinds.py\<close>, \<open>run_state.py\<close>).
  \<^item> Hard_Ledger, Replay, Ledger_Chain: the ledgers and the replay of one. The locale \<open>hash_link\<close> states what
    both ledgers need of their link function: it binds the entry and the hash before it unless the digest
    collides on the texts of the chain. It is interpreted on the record hash of the hard ledger and on the
    entry hash of the in-memory chain.
  \<^item> Memory, Frustration (\<open>memory.py\<close>): entries live in a heap, since the store, the list of unsaved entries
    and the axioms share entry objects that feedback mutates in place.
  \<^item> Kernel (\<open>kernel.py\<close>): \<open>kernel_step\<close> is the composition of \<open>policy_stage\<close> (budget and tier gate),
    \<open>gated_stage\<close> (validation), \<open>validated_stage\<close> (simulation, risk, decision), \<open>execute_stage\<close> and
    \<open>aftermath\<close>, cut where the method returns early. Kernel_Facts: the theorems about the whole kernel.
  \<^item> Model_Check (\<open>model_check.py\<close>, \<open>counterexample.py\<close>; both explorers interpret the locale
    \<open>search_strategy\<close>), Planner, Dispatcher, Run_Helpers (scheduler, cache, advisor, repair loop and other small
    modules), Swarm, Self_Healing, Consensus, Circuit_Breaker, Stability: the modules of these names.
  \<^item> Static_Check (\<open>symbolic_check.py\<close>) and System_Utils (\<open>invariant_check.py\<close>, \<open>system/metrics.py\<close>,
    \<open>boot_verify.py\<close>, \<open>event_bus.py\<close>, and the egress policy \<open>net_sim.py\<close>).

  \<^bold>\<open>The services.\<close>
  \<^item> Patch_Gate (\<open>rfsn_swebench/gate.py\<close>), Gateway_Policy and Tool_Gateway (\<open>tool_gateway\<close>): the whole
    request handler over an executor given as a function.
  \<^item> Executor: Capsule (\<open>capsule.py\<close>), Shell_Words (quoting, and a reader of command lines as the shell splits
    them), Executor_Scripts (the generated scripts), Executor_Base and Executor (the handlers of
    \<open>app.py\<close>), Sandbox_Pool (\<open>sandbox_pool.py\<close>), Executor_Facts and Executor_Spec (what is started, removed and
    logged), Sandbox_Race (the critical sections of the pool as a step relation over threads), Executor_Repo
    (the guards at start, and the listing, import and manifest of repositories).
  \<^item> Orchestrator, Orchestrator_Facts, Orchestrator_Spec (the run loop, the bridge to the kernel, contexts and
    approvals), Run_Signals (phases, filters, failure contexts and rewards), Github_Hook (the webhook).
  \<^item> Learner_Store, Playbooks, Learner, Learner_Export (\<open>learner_service\<close>); Llm_Service (\<open>llm_service\<close>, also the
    token check \<open>shared/auth.py\<close> and the guard \<open>hardening_guard\<close>); Replay_Bundles (\<open>replay_verifier\<close>).

  \<^bold>\<open>The harness.\<close> Semantic_Patch (\<open>patcher.py\<close>), Bench_Run and Bench_Spec (the loop of \<open>runner.py\<close> with its
  modules), Bench_Context (\<open>locator.py\<close>, \<open>retrieval.py\<close>, \<open>outcome_memory.py\<close>), Bench_Propose (the proposers of
  \<open>cli.py\<close>), Bench_Scripts (\<open>src/scripts\<close>), Autofix (\<open>src/autofix\<close>).

  \<^bold>\<open>What the lemmas show.\<close>
  \<^item> Kernel: the executor is consulted only by a step that passed every gate; each step that returns leaves
    exactly one record of itself; the invariant \<open>kernel_ok\<close> survives every operation, exceptions included.
    Ledgers: a grown ledger verifies, reopening restores it, verification binds every record. Memory: the
    capacity and the survival of core axioms. Gates: what an accepted patch, read or step satisfies.
  \<^item> Gateway and executor: what reaches the executor has passed the checks; every process is a restricted
    container, nothing temporary is left, command lines are read as the allow-listed words, logs are bounded,
    errors are refusals or failures of docker; an executor that starts in production has these
    guarantees; imports change only one directory. The pool never holds an orphan, in every interleaving.
  \<^item> Orchestrator: runs end, ask the gateway only for approved steps, keep the kernel invariant and leave
    other runs alone; the webhook changes one run and only with a signature.
  \<^item> Learner: the bandit counts the recorded results and suggests the best sample. Harness: a result
    is what the gate and the tests said, the ledger mirrors the events, semantic patches stay inside the
    root. The planner refines a queue, the explorers find every violation within their bounds, swarm runs
    return. Many lemmas state where the code falls short of its documentation, by a concrete run.

  \<^bold>\<open>Modelling choices.\<close>
  \<^item> Floating point numbers are exact rationals, \<open>inf\<close> and \<open>nan\<close> are left out, and \<open>round\<close> is the
    decimal rounding of the exact value, ties to even. Equalities of thresholds that depend on the
    last bit of a double are outside the model.
  \<^item> Strings are the Latin-1 part of Python's; the few literals with dashes or arrows outside it are
    written with characters of it. Text read from files has line feeds only.
  \<^item> Values of dynamic type are the datatype \<open>pyval\<close>; a conversion on the wrong type gives the
    exception that Python raises, as \<open>Inl\<close>. The templates of the executor are typed, as its policy file has them.
  \<^item> The JSON encoder and parser, the digests, the clock, random samples, the executor of the kernel and the
    requests between services are parameters. Processes, files and the container runtime are functions of a
    world: \<open>exec_world\<close>, \<open>repo_world\<close>, \<open>services\<close>, \<open>bench_env\<close>, \<open>propose_env\<close>, \<open>fix_world\<close>, \<open>llm_world\<close>, \<open>hook_world\<close>.
    What the code relies on is a named hypothesis of the theorem that needs it. The clock is read once per
    operation where only its value is stored.
  \<^item> The order in which a set or a table without an order is listed is a parameter (\<open>gc_set_order\<close>,
    \<open>db_order\<close>). The deadline of a stream is one of its events. Docker has at most one container of a name.
  \<^item> Ledger files are lists of lines. Locks, \<open>fsync\<close> and failing disks are left out. A record of the ledger
    file without a hash field is one whose hash is the empty string, as the code treats both alike.
  \<^item> No loop needs fuel. A \<open>for\<close> loop recurses on its list, a loop with a counter on the list of its turns,
    the reading loop of a sandbox on the events it meets. The explorers end by their state budget
    (measure: the budget minus the visited states), the minimiser by the length of the path, a repetition of
    a regular expression by the length of the rest of the text.

  \<^bold>\<open>What is not modelled.\<close>
  \<^item> Reporting and printing, health pages, the pages of the user interface, prompt texts, logging
    configuration, and the argument parsing of command lines (also \<open>main\<close> of \<open>cli.py\<close> and of the scripts).
  \<^item> The code of the direct proposer behind the two names its module does not define, which no run
    reaches, and the repository map of \<open>locator.py\<close>.
  \<^item> Reading and writing the directories of replay bundles, the capture of an environment (packages, locale,
    platform), and repository snapshots of the orchestrator.
  \<^item> The reading of policy files by the gateway at start; the limits that the executor reads from its policy
    are fields of its configuration.
  \<^item> The secret scanner \<open>security/runtime_guard.py\<close> and \<open>syscall_watch.py\<close>, which nothing calls, the placeholders
    \<open>symbolic_graph.py\<close>, \<open>policy_prover.py\<close> and \<open>virtual_time.py\<close>, which return constants, and the scripts that download data or
    check an installation by hand.
\<close>

end
